(* ===== verification/Go_Prelude.thy ===== *)
theory Go_Prelude
  imports
    Main
    "HOL-Library.AList"
    "HOL-Library.Char_ord"
    "HOL-Library.List_Lexorder"
    "HOL-Library.Multiset"
    "HOL-Library.Sublist"
begin

text \<open>
  The Go language and standard library as the program uses them.

  \<^item> Strings are byte strings: the type \<^typ>\<open>string\<close>, ordered bytewise as Go orders them
    (the lexicographic order of \<open>List_Lexorder\<close> over \<open>Char_ord\<close>).
  \<^item> A Go map is an association list with distinct keys.  The list order stands for the
    iteration order of one run, which Go leaves unspecified; a result that must not depend on
    it is proved equal for any two lists that are permutations of each other.
  \<^item> An \<open>error\<close> value is a tree: sentinel values compared by identity, messages, wrappers and
    joined errors.  A nil error is \<^term>\<open>None\<close>.
\<close>

section \<open>Proof collections\<close>

named_theorems go_defs \<open>unfolding rules of small non-recursive model functions\<close>
named_theorems go_nil \<open>when an error-returning operation returns nil\<close>

section \<open>Strings\<close>

definition HasPrefix :: "string \<Rightarrow> string \<Rightarrow> bool" where
  "HasPrefix s p = (take (length p) s = p)"

definition HasSuffix :: "string \<Rightarrow> string \<Rightarrow> bool" where
  "HasSuffix s p = (length p \<le> length s \<and> drop (length s - length p) s = p)"

definition TrimPrefix :: "string \<Rightarrow> string \<Rightarrow> string" where
  "TrimPrefix s p = (if HasPrefix s p then drop (length p) s else s)"

definition TrimSuffix :: "string \<Rightarrow> string \<Rightarrow> string" where
  "TrimSuffix s p = (if HasSuffix s p then take (length s - length p) s else s)"

fun Contains :: "string \<Rightarrow> string \<Rightarrow> bool" where
  "Contains [] p = (p = [])"
| "Contains (c # s) p = (HasPrefix (c # s) p \<or> Contains s p)"

definition ContainsRune :: "string \<Rightarrow> char \<Rightarrow> bool" where
  "ContainsRune s c = (c \<in> set s)"

text \<open>\<open>strings.Cut\<close>: the text before and after the first occurrence of the separator.\<close>

fun Cut :: "string \<Rightarrow> string \<Rightarrow> string \<times> string \<times> bool" where
  "Cut [] sep = (if sep = [] then ([], [], True) else ([], [], False))"
| "Cut (c # s) sep =
    (if HasPrefix (c # s) sep then ([], drop (length sep) (c # s), True)
     else (case Cut s sep of (a, b, found) \<Rightarrow> (c # a, b, found)))"

text \<open>\<open>strings.TrimSpace\<close> and \<open>bytes.TrimSpace\<close> on text whose outer white space is ASCII.\<close>

definition is_space :: "char \<Rightarrow> bool" where
  "is_space c = (c \<in> {CHR 0x09, CHR 0x0A, CHR 0x0B, CHR 0x0C, CHR 0x0D, CHR '' ''})"

definition TrimSpace :: "string \<Rightarrow> string" where
  "TrimSpace s = rev (dropWhile is_space (rev (dropWhile is_space s)))"

fun split_on :: "char \<Rightarrow> string \<Rightarrow> string list" where
  "split_on d [] = [[]]"
| "split_on d (c # s) =
    (if c = d then [] # split_on d s
     else (case split_on d s of [] \<Rightarrow> [[c]] | w # ws \<Rightarrow> (c # w) # ws))"

fun join_with :: "string \<Rightarrow> string list \<Rightarrow> string" where
  "join_with sep [] = []"
| "join_with sep [x] = x"
| "join_with sep (x # y # ys) = x @ sep @ join_with sep (y # ys)"

abbreviation nl :: string where "nl \<equiv> [CHR 0x0A]"
abbreviation tab :: string where "tab \<equiv> [CHR 0x09]"
abbreviation dq :: string where "dq \<equiv> [CHR 0x22]"
abbreviation bslash :: string where "bslash \<equiv> [CHR 0x5C]"

text \<open>\<open>strconv.Itoa\<close> and the \<open>%d\<close> and \<open>%o\<close> verbs.\<close>

definition digit_char :: "nat \<Rightarrow> char" where
  "digit_char d = char_of (48 + d)"

fun nat_base :: "nat \<Rightarrow> nat \<Rightarrow> string" where
  "nat_base b n = (if b \<le> 1 \<or> n < b then [digit_char n] else nat_base b (n div b) @ [digit_char (n mod b)])"

declare nat_base.simps [simp del]

definition Itoa :: "int \<Rightarrow> string" where
  "Itoa i = (if i < 0 then ''-'' @ nat_base 10 (nat (- i)) else nat_base 10 (nat i))"

abbreviation nat_str :: "nat \<Rightarrow> string" where "nat_str n \<equiv> nat_base 10 n"

text \<open>
  The \<open>%q\<close> verb (\<open>strconv.Quote\<close>).  Bytes from 0x80 on are left as they are: they belong to the
  printable UTF-8 text of names and paths.
\<close>

definition hex_char :: "nat \<Rightarrow> char" where
  "hex_char d = (if d < 10 then char_of (48 + d) else char_of (87 + d))"

definition quote_char :: "char \<Rightarrow> string" where
  "quote_char c =
    (if c = CHR 0x22 then bslash @ dq
     else if c = CHR 0x5C then bslash @ bslash
     else if c = CHR 0x07 then bslash @ ''a''
     else if c = CHR 0x08 then bslash @ ''b''
     else if c = CHR 0x0C then bslash @ ''f''
     else if c = CHR 0x0A then bslash @ ''n''
     else if c = CHR 0x0D then bslash @ ''r''
     else if c = CHR 0x09 then bslash @ ''t''
     else if c = CHR 0x0B then bslash @ ''v''
     else if (of_char c :: nat) < 32 \<or> c = CHR 0x7F
       then bslash @ ''x'' @ [hex_char (of_char c div 16), hex_char (of_char c mod 16)]
     else [c])"

definition Quote :: "string \<Rightarrow> string" where
  "Quote s = dq @ concat (map quote_char s) @ dq"

section \<open>Maps\<close>

type_synonym 'v gomap = "(string \<times> 'v) list"

definition wf_map :: "'v gomap \<Rightarrow> bool" where
  "wf_map m = distinct (map fst m)"

abbreviation mput :: "string \<Rightarrow> 'v \<Rightarrow> 'v gomap \<Rightarrow> 'v gomap" where
  "mput \<equiv> AList.update"

abbreviation mdel :: "string \<Rightarrow> 'v gomap \<Rightarrow> 'v gomap" where
  "mdel \<equiv> AList.delete"

text \<open>A loop \<open>for k, v := range m { m[k] = f(k, v) }\<close>.\<close>

definition map_vals :: "(string \<Rightarrow> 'v \<Rightarrow> 'w) \<Rightarrow> 'v gomap \<Rightarrow> 'w gomap" where
  "map_vals f m = map (\<lambda>(k, v). (k, f k v)) m"

text \<open>\<open>SortMapKeys\<close> (helpers.go).\<close>

definition SortMapKeys :: "'v gomap \<Rightarrow> string list" where
  "SortMapKeys m = sort (map fst m)"

section \<open>Errors\<close>

text \<open>The package level error values that the code compares with \<open>errors.Is\<close>.\<close>

datatype sentinel =
    errNoSourceVariant
  | errSourceNamePathSeparator
  | errMissingSource
  | errPatchRequiresSubpath
  | errPatchFileNoSubpath
  | errInvalidMountConfig
  | errNoImageSourcePath
  | errUnknownArg
  | errMissingRequiredField

datatype goerr =
    Sentinel sentinel
  | Msg string
  | Wrap string goerr
  | InvalidSourceError string goerr
  | InvalidPatchError string string goerr
  | WithSource goerr
  | Joined "goerr list"

type_synonym gores = "goerr option"

text \<open>\<open>errors.Join\<close> on a slice: nil when every element is nil; nil elements are dropped.\<close>

definition join_errs :: "goerr list \<Rightarrow> gores" where
  "join_errs es = (if es = [] then None else Some (Joined es))"

text \<open>\<open>errors.Wrap\<close> keeps nil; \<open>errdefs.WithSource\<close> attaches a position and keeps nil.\<close>

definition wrap :: "string \<Rightarrow> gores \<Rightarrow> gores" where
  "wrap m r = map_option (Wrap m) r"

definition with_source :: "gores \<Rightarrow> gores" where
  "with_source r = map_option WithSource r"

text \<open>The append of an error to a slice when it is not nil.\<close>

definition errs_of :: "gores \<Rightarrow> goerr list" where
  "errs_of r = (case r of None \<Rightarrow> [] | Some e \<Rightarrow> [e])"

text \<open>The statement \<open>if c { errs = append(errs, e) }\<close>.\<close>

definition guard_err :: "bool \<Rightarrow> goerr \<Rightarrow> goerr list" where
  "guard_err c e = (if c then [e] else [])"

fun err_is :: "goerr \<Rightarrow> sentinel \<Rightarrow> bool" where
  "err_is (Sentinel t) s = (t = s)"
| "err_is (Msg _) s = False"
| "err_is (Wrap _ e) s = err_is e s"
| "err_is (InvalidSourceError _ e) s = err_is e s"
| "err_is (InvalidPatchError _ _ e) s = err_is e s"
| "err_is (WithSource e) s = err_is e s"
| "err_is (Joined es) s = list_ex (\<lambda>e. err_is e s) es"

definition err_is_opt :: "gores \<Rightarrow> sentinel \<Rightarrow> bool" where
  "err_is_opt r s = (case r of None \<Rightarrow> False | Some e \<Rightarrow> err_is e s)"

section \<open>Lemmas on strings\<close>

lemma HasPrefix_iff_prefix: "HasPrefix s p \<longleftrightarrow> prefix p s"
  by (auto simp: HasPrefix_def prefix_def) (metis append_take_drop_id)

lemma HasPrefix_append [simp]: "HasPrefix (p @ s) p"
  by (simp add: HasPrefix_def)

lemma HasPrefix_Nil [simp]: "HasPrefix s []"
  by (simp add: HasPrefix_def)

lemma HasPrefix_length: "HasPrefix s p \<Longrightarrow> length p \<le> length s"
  by (auto simp: HasPrefix_iff_prefix dest: prefix_length_le)

lemma HasPrefix_drop: "HasPrefix s p \<Longrightarrow> s = p @ drop (length p) s"
  by (metis HasPrefix_def append_take_drop_id)

lemma TrimPrefix_append [simp]: "TrimPrefix (p @ s) p = s"
  by (simp add: TrimPrefix_def)

lemma HasSuffix_append [simp]: "HasSuffix (s @ p) p"
  by (simp add: HasSuffix_def)

lemma TrimSuffix_append [simp]: "TrimSuffix (s @ p) p = s"
  by (simp add: TrimSuffix_def)

lemma Contains_iff_sublist: "Contains s p \<longleftrightarrow> sublist p s"
proof (induction s)
  case Nil
  then show ?case by simp
next
  case (Cons c s)
  then show ?case
    by (auto simp: HasPrefix_iff_prefix sublist_Cons_right)
qed

lemma TrimSpace_subset: "set (TrimSpace s) \<subseteq> set s"
  by (auto simp: TrimSpace_def dest!: set_dropWhileD)

lemma split_on_not_Nil [simp]: "split_on d s \<noteq> []"
  by (induction s) (auto split: list.splits)

lemma join_split_on: "join_with [d] (split_on d s) = s"
proof (induction s)
  case Nil
  then show ?case by simp
next
  case (Cons c s)
  obtain w ws where ws: "split_on d s = w # ws"
    by (cases "split_on d s") auto
  with Cons show ?case
    by (cases ws) auto
qed

lemma split_on_no_delim: "w \<in> set (split_on d s) \<Longrightarrow> d \<notin> set w"
  by (induction s arbitrary: w) (auto split: list.splits if_splits)

lemma Cut_found: "Cut s sep = (a, b, True) \<Longrightarrow> s = a @ sep @ b"
proof (induction s arbitrary: a)
  case Nil
  then show ?case by (auto split: if_splits)
next
  case (Cons c s)
  show ?case
  proof (cases "HasPrefix (c # s) sep")
    case True
    with Cons.prems show ?thesis
      using HasPrefix_drop [OF True] by simp
  next
    case False
    with Cons show ?thesis by (auto split: prod.splits)
  qed
qed

lemma Cut_not_found: "Cut s sep = (a, b, False) \<Longrightarrow> a = s \<and> b = [] \<and> \<not> Contains s sep"
  by (induction s arbitrary: a) (auto split: if_splits prod.splits)

lemma Cut_found_iff: "snd (snd (Cut s sep)) = Contains s sep"
  by (induction s) (auto split: prod.splits)

section \<open>Lemmas on maps\<close>

lemma wf_map_mput [simp]: "wf_map m \<Longrightarrow> wf_map (mput k v m)"
  by (simp add: wf_map_def distinct_update)

lemma wf_map_mdel [simp]: "wf_map m \<Longrightarrow> wf_map (mdel k m)"
  by (simp add: wf_map_def distinct_delete)

lemma map_vals_keys [simp]: "map fst (map_vals f m) = map fst m"
  by (simp add: map_vals_def comp_def case_prod_unfold)

lemma wf_map_map_vals [simp]: "wf_map (map_vals f m) = wf_map m"
  by (simp add: wf_map_def)

lemma map_of_map_vals [simp]: "map_of (map_vals f m) k = map_option (f k) (map_of m k)"
  by (induction m) (auto simp: map_vals_def)

lemma map_vals_id [simp]: "map_vals (\<lambda>k v. v) m = m"
  by (simp add: map_vals_def)

lemma map_vals_map_vals [simp]: "map_vals f (map_vals g m) = map_vals (\<lambda>k v. f k (g k v)) m"
  by (simp add: map_vals_def comp_def case_prod_unfold)

lemma map_vals_cong [fundef_cong]:
  "m = m' \<Longrightarrow> (\<And>k v. (k, v) \<in> set m' \<Longrightarrow> f k v = g k v) \<Longrightarrow> map_vals f m = map_vals g m'"
  by (auto simp: map_vals_def)

lemma map_of_perm:
  "wf_map m \<Longrightarrow> mset m = mset m' \<Longrightarrow> map_of m = map_of m'"
  by (metis wf_map_def mset_map mset_eq_imp_distinct_iff mset_eq_setD map_of_inject_set)

lemma SortMapKeys_set [simp]: "set (SortMapKeys m) = fst ` set m"
  by (simp add: SortMapKeys_def)

lemma SortMapKeys_sorted [simp]: "sorted (SortMapKeys m)"
  by (simp add: SortMapKeys_def)

lemma SortMapKeys_distinct [simp]: "distinct (SortMapKeys m) = wf_map m"
  by (simp add: SortMapKeys_def wf_map_def)

lemma SortMapKeys_perm: "mset m = mset m' \<Longrightarrow> SortMapKeys m = SortMapKeys m'"
  by (metis SortMapKeys_def mset_map sorted_list_of_multiset_mset)

section \<open>Lemmas on errors\<close>

lemma join_errs_None [go_nil, simp]: "join_errs es = None \<longleftrightarrow> es = []"
  by (simp add: join_errs_def)

lemma wrap_None [go_nil, simp]: "wrap m r = None \<longleftrightarrow> r = None"
  by (simp add: wrap_def)

lemma with_source_None [go_nil, simp]: "with_source r = None \<longleftrightarrow> r = None"
  by (simp add: with_source_def)

lemma errs_of_Nil [go_nil, simp]: "errs_of r = [] \<longleftrightarrow> r = None"
  by (simp add: errs_of_def split: option.splits)

lemma guard_err_Nil [go_nil, simp]: "guard_err c e = [] \<longleftrightarrow> \<not> c"
  by (simp add: guard_err_def)

lemma err_is_opt_None [simp]: "\<not> err_is_opt None s"
  by (simp add: err_is_opt_def)

lemma err_is_opt_wrap [simp]: "err_is_opt (wrap m r) s = err_is_opt r s"
  by (cases r) (simp_all add: wrap_def err_is_opt_def)

lemma err_is_opt_with_source [simp]: "err_is_opt (with_source r) s = err_is_opt r s"
  by (cases r) (simp_all add: with_source_def err_is_opt_def)

lemma err_is_opt_join [simp]: "err_is_opt (join_errs es) s = (\<exists>e \<in> set es. err_is e s)"
  by (auto simp: join_errs_def err_is_opt_def list_ex_iff)

section \<open>Lemmas on lists and options\<close>

lemma those_map_Some:
  "those (map f xs) = Some ys \<longleftrightarrow> list_all2 (\<lambda>x y. f x = Some y) xs ys"
  by (induction xs arbitrary: ys) (auto simp: list_all2_Cons1 split: option.splits)

lemma those_map_None: "those (map f xs) = None \<longleftrightarrow> (\<exists>x \<in> set xs. f x = None)"
  by (induction xs) (auto split: option.splits)

lemma those_map_total: "(\<And>x. x \<in> set xs \<Longrightarrow> f x \<noteq> None) \<Longrightarrow> those (map f xs) = Some (map (the \<circ> f) xs)"
proof (induction xs)
  case (Cons x xs)
  then obtain y where "f x = Some y" by (metis list.set_intros(1) not_None_eq)
  with Cons show ?case by simp
qed simp

lemma those_map_eq: "(\<And>x. x \<in> set xs \<Longrightarrow> f x = Some (g x)) \<Longrightarrow> those (map f xs) = Some (map g xs)"
  by (induction xs) auto

lemma those_length: "those xs = Some ys \<Longrightarrow> length ys = length xs"
  by (induction xs arbitrary: ys) (auto split: option.splits)

lemma list_all2_same_cong:
  "list_all2 P xs ys \<Longrightarrow> (\<And>x y. x \<in> set xs \<Longrightarrow> P x y \<Longrightarrow> Q x y) \<Longrightarrow> list_all2 Q xs ys"
  by (induction rule: list_all2_induct) auto

lemma enumerate_all: "(\<forall>p \<in> set (enumerate n xs). P (snd p)) \<longleftrightarrow> (\<forall>x \<in> set xs. P x)"
  by (induction xs arbitrary: n) auto

end
