(* ===== verification/Go_Path.thy ===== *)
theory Go_Path
  imports Go_Prelude
begin

text \<open>
  The lexical path functions of \<open>path/filepath\<close> on Unix (\<open>Clean\<close>, \<open>Join\<close>, \<open>Base\<close>, \<open>Dir\<close>) and the
  two path predicates of source.go.  \<open>Clean\<close> works on the list of path elements, the way its
  documentation states the rewriting rules.
\<close>

section \<open>Definitions\<close>

abbreviation slash :: char where "slash \<equiv> CHR 0x2F"

definition path_elems :: "string \<Rightarrow> string list" where
  "path_elems p = filter (\<lambda>c. c \<noteq> [] \<and> c \<noteq> ''.'') (split_on slash p)"

definition clean_step :: "bool \<Rightarrow> string list \<Rightarrow> string \<Rightarrow> string list" where
  "clean_step rooted out c =
    (if c = ''..'' then
       (if out \<noteq> [] \<and> last out \<noteq> ''..'' then butlast out
        else if rooted then out
        else out @ [c])
     else out @ [c])"

definition is_rooted :: "string \<Rightarrow> bool" where
  "is_rooted p = (case p of [] \<Rightarrow> False | c # _ \<Rightarrow> c = slash)"

definition clean_elems :: "string \<Rightarrow> string list" where
  "clean_elems p = foldl (clean_step (is_rooted p)) [] (path_elems p)"

definition path_string :: "bool \<Rightarrow> string list \<Rightarrow> string" where
  "path_string rooted es =
    (if rooted then slash # join_with [slash] es
     else if es = [] then ''.''
     else join_with [slash] es)"

definition Clean :: "string \<Rightarrow> string" where
  "Clean p = path_string (is_rooted p) (clean_elems p)"

definition Join :: "string list \<Rightarrow> string" where
  "Join es = (case dropWhile (\<lambda>e. e = []) es of [] \<Rightarrow> [] | es' \<Rightarrow> Clean (join_with [slash] es'))"

definition trim_slashes :: "string \<Rightarrow> string" where
  "trim_slashes p = rev (dropWhile (\<lambda>c. c = slash) (rev p))"

definition Base :: "string \<Rightarrow> string" where
  "Base p =
    (if p = [] then ''.''
     else if trim_slashes p = [] then ''/''
     else last (split_on slash (trim_slashes p)))"

definition Dir :: "string \<Rightarrow> string" where
  "Dir p = Clean (rev (dropWhile (\<lambda>c. c \<noteq> slash) (rev p)))"

text \<open>\<open>isRoot\<close> and \<open>pathHasPrefix\<close> of source.go.\<close>

definition isRoot :: "string \<Rightarrow> bool" where
  "isRoot extract = (extract = [] \<or> extract = ''/'' \<or> extract = ''.'')"

definition pathHasPrefix :: "string \<Rightarrow> string \<Rightarrow> bool" where
  "pathHasPrefix s pre =
    (s = pre \<or> Clean s = Clean pre \<or> HasPrefix (Clean s) (Clean pre @ ''/''))"

section \<open>Normal forms\<close>

text \<open>A clean element list: proper elements, and \<open>..\<close> only in front and only in relative paths.\<close>

definition proper_elem :: "string \<Rightarrow> bool" where
  "proper_elem c = (c \<noteq> [] \<and> c \<noteq> ''.'' \<and> slash \<notin> set c)"

fun dots_in_front :: "string list \<Rightarrow> bool" where
  "dots_in_front [] = True"
| "dots_in_front (c # cs) = (if c = ''..'' then dots_in_front cs else ''..'' \<notin> set cs)"

definition clean_form :: "bool \<Rightarrow> string list \<Rightarrow> bool" where
  "clean_form rooted es =
    (list_all proper_elem es \<and> dots_in_front es \<and> (rooted \<longrightarrow> ''..'' \<notin> set es))"

lemma dots_in_front_append:
  "dots_in_front (es @ [c]) \<longleftrightarrow>
    dots_in_front es \<and> (c = ''..'' \<longrightarrow> es = [] \<or> last es = ''..'')"
  by (induction es) (auto dest: last_in_set)

lemma dots_in_front_no_dots: "''..'' \<notin> set es \<Longrightarrow> dots_in_front es"
  by (induction es) auto

lemma clean_form_step:
  assumes "clean_form r es" and "proper_elem c"
  shows "clean_form r (clean_step r es c)"
proof (cases es rule: rev_cases)
  case Nil
  with assms show ?thesis
    by (auto simp: clean_form_def clean_step_def)
next
  case (snoc ds d)
  with assms show ?thesis
    using dots_in_front_append [of "ds @ [d]" c]
    by (auto simp: clean_form_def clean_step_def dots_in_front_append)
qed

lemma path_elems_proper: "list_all proper_elem (path_elems p)"
  by (auto simp: path_elems_def list_all_iff proper_elem_def dest: split_on_no_delim)

lemma foldl_clean_form:
  "list_all proper_elem cs \<Longrightarrow> clean_form r es \<Longrightarrow> clean_form r (foldl (clean_step r) es cs)"
  by (induction cs arbitrary: es) (auto simp: clean_form_step)

lemma clean_elems_form: "clean_form (is_rooted p) (clean_elems p)"
  unfolding clean_elems_def
  by (rule foldl_clean_form [OF path_elems_proper]) (simp add: clean_form_def)

lemma foldl_clean_step_id:
  "clean_form r (ds @ es) \<Longrightarrow> foldl (clean_step r) ds es = ds @ es"
proof (induction es arbitrary: ds)
  case Nil
  then show ?case by simp
next
  case (Cons e es)
  have front: "dots_in_front (ds @ e # es)" and root: "r \<longrightarrow> ''..'' \<notin> set (ds @ e # es)"
    using Cons.prems by (auto simp: clean_form_def)
  have "e = ''..'' \<Longrightarrow> ds = [] \<or> last ds = ''..''"
    using front by (induction ds) (auto split: if_splits)
  with root have "clean_step r ds e = ds @ [e]"
    by (auto simp: clean_step_def)
  with Cons show ?case by simp
qed

lemma split_on_single: "d \<notin> set w \<Longrightarrow> split_on d w = [w]"
  by (induction w) auto

lemma split_on_append: "d \<notin> set w \<Longrightarrow> split_on d (w @ d # s) = w # split_on d s"
  by (induction w) auto

lemma split_on_join:
  "es \<noteq> [] \<Longrightarrow> (\<And>e. e \<in> set es \<Longrightarrow> d \<notin> set e) \<Longrightarrow> split_on d (join_with [d] es) = es"
proof (induction "[d]" es rule: join_with.induct)
  case (2 x)
  then show ?case by (simp add: split_on_single)
next
  case (3 x y ys)
  then show ?case by (simp add: split_on_append)
qed simp

lemma path_elems_join:
  "list_all proper_elem es \<Longrightarrow> path_elems (join_with [slash] es) = es"
proof (cases "es = []")
  case True
  then show ?thesis by (simp add: path_elems_def)
next
  case False
  assume p: "list_all proper_elem es"
  then have "split_on slash (join_with [slash] es) = es"
    using False by (intro split_on_join) (auto simp: list_all_iff proper_elem_def)
  moreover have "filter (\<lambda>c. c \<noteq> [] \<and> c \<noteq> ''.'') es = es"
    using p by (auto simp: list_all_iff proper_elem_def intro: filter_True)
  ultimately show ?thesis
    by (simp add: path_elems_def)
qed

lemma is_rooted_join:
  "list_all proper_elem es \<Longrightarrow> \<not> is_rooted (join_with [slash] es)"
proof (induction "[slash]" es rule: join_with.induct)
  case (2 x)
  then show ?case by (cases x) (auto simp: is_rooted_def proper_elem_def)
next
  case (3 x y ys)
  then show ?case by (cases x) (auto simp: is_rooted_def proper_elem_def)
qed (simp add: is_rooted_def)

lemma path_elems_slash: "path_elems (slash # s) = path_elems s"
  by (simp add: path_elems_def)

lemma clean_path_string:
  assumes "clean_form r es"
  shows "is_rooted (path_string r es) = r" and "clean_elems (path_string r es) = es"
proof -
  have p: "list_all proper_elem es" using assms by (simp add: clean_form_def)
  show r: "is_rooted (path_string r es) = r"
    using is_rooted_join [OF p] by (auto simp: path_string_def is_rooted_def)
  have e: "path_elems (path_string r es) = es"
    using path_elems_join [OF p]
    by (auto simp: path_string_def path_elems_slash) (simp add: path_elems_def)
  have "foldl (clean_step r) [] es = es"
    using foldl_clean_step_id [of r "[]" es] assms by simp
  then show "clean_elems (path_string r es) = es"
    unfolding clean_elems_def r e .
qed

lemma Clean_idem [simp]: "Clean (Clean p) = Clean p"
  unfolding Clean_def using clean_path_string [OF clean_elems_form [of p]] by simp

lemma Clean_eq_iff:
  "Clean p = Clean q \<longleftrightarrow> is_rooted p = is_rooted q \<and> clean_elems p = clean_elems q"
proof
  have form: "is_rooted (Clean x) = is_rooted x \<and> clean_elems (Clean x) = clean_elems x" for x
    unfolding Clean_def using clean_path_string [OF clean_elems_form [of x]] by simp
  show "Clean p = Clean q \<Longrightarrow> is_rooted p = is_rooted q \<and> clean_elems p = clean_elems q"
    using form [of p] form [of q] by simp
qed (simp add: Clean_def)

lemma join_proper_not_Nil:
  "list_all proper_elem es \<Longrightarrow> es \<noteq> [] \<Longrightarrow> join_with [slash] es \<noteq> []"
  by (cases es rule: remdups_adj.cases) (auto simp: proper_elem_def)

lemma Clean_not_Nil [simp]: "Clean p \<noteq> []"
  using join_proper_not_Nil [of "clean_elems p"] clean_elems_form [of p]
  by (auto simp: Clean_def path_string_def clean_form_def)

section \<open>What the path predicates decide\<close>

lemma join_with_append:
  "xs \<noteq> [] \<Longrightarrow> ys \<noteq> [] \<Longrightarrow> join_with sep (xs @ ys) = join_with sep xs @ sep @ join_with sep ys"
proof (induction sep xs rule: join_with.induct)
  case (2 sep x)
  then show ?case by (cases ys) auto
qed auto

lemma HasPrefix_join_slash:
  assumes "list_all proper_elem es" and "list_all proper_elem ps" and "ps \<noteq> []"
  shows "HasPrefix (join_with [slash] es) (join_with [slash] ps @ [slash]) \<longleftrightarrow> strict_prefix ps es"
    (is "?L \<longleftrightarrow> ?R")
proof
  assume ?L
  then obtain t where t: "join_with [slash] es = join_with [slash] ps @ slash # t"
    by (auto simp: HasPrefix_iff_prefix prefix_def)
  have ps: "split_on slash (join_with [slash] ps @ slash # t) = ps @ split_on slash t"
    using assms(2,3)
  proof (induction "[slash]" ps rule: join_with.induct)
    case (2 x)
    then show ?case by (simp add: split_on_append proper_elem_def)
  next
    case (3 x y ys)
    then show ?case by (simp add: split_on_append proper_elem_def)
  qed simp
  have "es \<noteq> []" using t by auto
  then have "split_on slash (join_with [slash] es) = es"
    using assms(1) by (intro split_on_join) (auto simp: list_all_iff proper_elem_def)
  with t ps have "es = ps @ split_on slash t" by simp
  then show ?R by (auto simp: strict_prefix_def prefix_def)
next
  assume ?R
  then obtain q where "es = ps @ q" "q \<noteq> []"
    by (auto simp: strict_prefix_def prefix_def)
  then show ?L
    using assms(3) by (simp add: join_with_append HasPrefix_iff_prefix prefix_def)
qed

text \<open>
  For a prefix that names neither the root nor the current directory, \<open>pathHasPrefix\<close> decides
  whether the cleaned path lies at or below the cleaned prefix, element by element.
\<close>

lemma pathHasPrefix_elems:
  assumes ne: "clean_elems p \<noteq> []"
  shows "pathHasPrefix s p \<longleftrightarrow> is_rooted s = is_rooted p \<and> prefix (clean_elems p) (clean_elems s)"
proof -
  have fs: "list_all proper_elem (clean_elems s)" and fp: "list_all proper_elem (clean_elems p)"
    using clean_elems_form by (auto simp: clean_form_def)
  have hp: "HasPrefix (Clean s) (Clean p @ ''/'') \<longleftrightarrow>
      is_rooted s = is_rooted p \<and> strict_prefix (clean_elems p) (clean_elems s)"
  proof (cases "is_rooted s = is_rooted p")
    case True
    have dot: "\<not> HasPrefix ''.'' (join_with [slash] (clean_elems p) @ ''/'')"
      using join_proper_not_Nil [OF fp ne] by (auto dest: HasPrefix_length)
    show ?thesis
      using True HasPrefix_join_slash [OF fs fp ne] ne dot
      by (auto simp: Clean_def path_string_def HasPrefix_def)
  next
    case False
    have "hd (Clean s) \<noteq> hd (Clean p)"
      using False clean_path_string(1) [OF clean_elems_form [of s]]
        clean_path_string(1) [OF clean_elems_form [of p]]
        Clean_not_Nil [of s] Clean_not_Nil [of p]
      unfolding Clean_def [symmetric]
      by (cases "Clean s"; cases "Clean p") (auto simp: is_rooted_def)
    then have "\<not> HasPrefix (Clean s) (Clean p @ ''/'')"
      using Clean_not_Nil [of s] Clean_not_Nil [of p]
      by (cases "Clean s"; cases "Clean p") (auto simp: HasPrefix_def)
    with False show ?thesis by simp
  qed
  show ?thesis
    unfolding pathHasPrefix_def hp Clean_eq_iff
    by (auto simp: strict_prefix_def)
qed

text \<open>The last element of a plain name is the name.\<close>

lemma Base_plain:
  assumes "p \<noteq> []" and "slash \<notin> set p"
  shows "Base p = p"
proof -
  have "trim_slashes p = p"
    unfolding trim_slashes_def using assms by (cases p rule: rev_cases) auto
  then show ?thesis using assms split_on_single by (simp add: Base_def)
qed

end
