(* ===== verification/Spec_Model.thy ===== *)
theory Spec_Model
  imports Go_Path
begin

text \<open>
  The data of a package spec: the structs of spec.go, source*.go, artifacts.go, deps.go, cache.go,
  image.go, tests.go, systemd.go and target.go.

  A pointer that may be nil is an \<open>option\<close>.  A slice or map is a plain list, or an \<open>option\<close> where the
  code tells a nil one from an empty one.  The unexported source-map fields only carry positions
  for diagnostics and are left out.  Pointers stored inside slices and maps are taken to be
  non-nil, which is what the YAML decoder produces for the documented forms.

  \<open>Source\<close> is recursive through images with commands, build steps, mounts and docker builds, so
  these six structs are one mutually recursive datatype; every other struct is a record.
\<close>

section \<open>Source variants\<close>

type_synonym fileMode = nat

text \<open>\<open>fs.FileMode.Perm\<close>: the nine permission bits.\<close>

definition FileMode_Perm :: "fileMode \<Rightarrow> fileMode" where
  "FileMode_Perm m = m mod 512"

record gitAuth =
  ga_Header :: string
  ga_Token :: string
  ga_SSH :: string

record gomodGitAuthSSH =
  gs_ID :: string
  gs_Username :: string

record gomodGitAuth =
  gga_Header :: string
  gga_Token :: string
  gga_SSH :: "gomodGitAuthSSH option"

record generatorGomod =
  gm_Paths :: "string list option"
  gm_Auth :: "gomodGitAuth gomap"

record generatorCargohome =
  gc_Paths :: "string list option"

record generatorPip =
  gp_Paths :: "string list option"
  gp_RequirementsFile :: string
  gp_IndexUrl :: string
  gp_ExtraIndexUrls :: "string list"

record generatorNodeMod =
  gn_Paths :: "string list option"

record sourceGenerator =
  gen_Subpath :: string
  gen_Gomod :: "generatorGomod option"
  gen_Cargohome :: "generatorCargohome option"
  gen_Pip :: "generatorPip option"
  gen_NodeMod :: "generatorNodeMod option"

record sourceGit =
  git_URL :: string
  git_Commit :: string
  git_KeepGitDir :: bool
  git_Auth :: gitAuth

record sourceHTTP =
  http_URL :: string
  http_Digest :: string
  http_Permissions :: fileMode

record sourceContext =
  ctx_Name :: string

record sourceInlineFile =
  if_Contents :: string
  if_Permissions :: fileMode
  if_UID :: int
  if_GID :: int

record sourceInlineDir =
  idir_Files :: "sourceInlineFile gomap"
  idir_Permissions :: fileMode
  idir_UID :: int
  idir_GID :: int

record sourceInline =
  inl_File :: "sourceInlineFile option"
  inl_Dir :: "sourceInlineDir option"

datatype source =
    Source (s_DockerImage: "sourceDockerImage option") (s_Git: "sourceGit option")
      (s_HTTP: "sourceHTTP option") (s_Context: "sourceContext option")
      (s_Build: "sourceBuild option") (s_Inline: "sourceInline option")
      (s_Path: string) (s_Includes: "string list option") (s_Excludes: "string list option")
      (s_Generate: "sourceGenerator list")
and sourceDockerImage =
    SourceDockerImage (di_Ref: string) (di_Cmd: "command option")
and command =
    Command (cmd_Dir: string) (cmd_Mounts: "sourceMount list") (cmd_Env: "string gomap")
      (cmd_Steps: "buildStep list")
and buildStep =
    BuildStep (step_Command: string) (step_Env: "string gomap") (step_Mounts: "sourceMount list")
and sourceMount =
    SourceMount (mnt_Dest: string) (mnt_Spec: source)
and sourceBuild =
    SourceBuild (sb_Source: source) (sb_DockerfilePath: string) (sb_Target: string)
      (sb_Args: "string gomap")

section \<open>Artifacts\<close>

record artifactConfig =
  ac_SubPath :: string
  ac_Name :: string
  ac_Permissions :: fileMode
  ac_User :: string
  ac_Group :: string

record artifactDirConfig =
  ad_Mode :: fileMode
  ad_User :: string
  ad_Group :: string

record createArtifactDirectories =
  cad_Config :: "artifactDirConfig gomap"
  cad_State :: "artifactDirConfig gomap"

record artifactSymlinkConfig =
  al_Source :: string
  al_Dest :: string
  al_User :: string
  al_Group :: string

record systemdUnitConfig =
  su_Name :: string
  su_Enable :: bool
  su_Start :: bool

record systemdDropinConfig =
  sd_Name :: string
  sd_Unit :: string

record systemdConfiguration =
  sc_Units :: "systemdUnitConfig gomap"
  sc_Dropins :: "systemdDropinConfig gomap"

record artifacts =
  a_Binaries :: "artifactConfig gomap"
  a_Libexec :: "artifactConfig gomap"
  a_Manpages :: "artifactConfig gomap"
  a_DataDirs :: "artifactConfig gomap"
  a_Directories :: "createArtifactDirectories option"
  a_ConfigFiles :: "artifactConfig gomap"
  a_Docs :: "artifactConfig gomap"
  a_Licenses :: "artifactConfig gomap"
  a_Systemd :: "systemdConfiguration option"
  a_Libs :: "artifactConfig gomap"
  a_Links :: "artifactSymlinkConfig list"
  a_Headers :: "artifactConfig gomap"
  a_Users :: "string list"
  a_Groups :: "string list"
  a_DisableStrip :: bool
  a_DisableAutoRequires :: bool

section \<open>Dependencies\<close>

record packageConstraints =
  pc_Version :: "string list"
  pc_Arch :: "string list"

type_synonym packageDependencyList = "packageConstraints gomap"

record packageRepositoryConfig =
  repo_Keys :: "source gomap"
  repo_Config :: "source gomap"
  repo_Data :: "sourceMount list"
  repo_Envs :: "string list"

record packageDependencies =
  pd_Build :: packageDependencyList
  pd_Runtime :: packageDependencyList
  pd_Recommends :: packageDependencyList
  pd_Sysext :: "packageDependencyList option"
  pd_Test :: packageDependencyList
  pd_ExtraRepos :: "packageRepositoryConfig list"

section \<open>Caches and the build\<close>

record cacheDir =
  cd_Key :: string
  cd_Dest :: string
  cd_Sharing :: string
  cd_NoAutoNamespace :: bool

record goBuildCache =
  gbc_Scope :: string
  gbc_Disabled :: bool

record scCache =
  scc_Scope :: string

record bazelCache =
  bzl_Scope :: string

record cacheConfig =
  cc_Dir :: "cacheDir option"
  cc_GoBuild :: "goBuildCache option"
  cc_RustSCCache :: "scCache option"
  cc_Bazel :: "bazelCache option"

record artifactBuild =
  ab_Steps :: "buildStep list"
  ab_Env :: "string gomap"
  ab_NetworkMode :: string
  ab_Caches :: "cacheConfig list"

section \<open>Image configuration\<close>

record symlinkTarget =
  sl_Path :: string
  sl_Paths :: "string list"
  sl_User :: string
  sl_Group :: string

record postInstall =
  pi_Symlinks :: "symlinkTarget gomap"

record baseImage =
  bi_Rootfs :: source

record imageConfig =
  ic_Entrypoint :: string
  ic_Cmd :: string
  ic_Env :: "string list"
  ic_Labels :: "string gomap"
  ic_Volumes :: "unit gomap"
  ic_WorkingDir :: string
  ic_StopSignal :: string
  ic_Base :: string
  ic_Bases :: "baseImage list option"
  ic_Post :: "postInstall option"
  ic_User :: string

section \<open>Tests\<close>

record checkOutput =
  co_Equals :: string
  co_Contains :: "string list"
  co_Matches :: "string list"
  co_StartsWith :: string
  co_EndsWith :: string
  co_Empty :: bool

record fileCheckOutput =
  fc_CheckOutput :: checkOutput
  fc_Permissions :: fileMode
  fc_IsDir :: bool
  fc_NotExist :: bool

record testStep =
  ts_Command :: string
  ts_Env :: "string gomap"
  ts_Stdin :: string
  ts_Stdout :: checkOutput
  ts_Stderr :: checkOutput

record testSpec =
  t_Name :: string
  t_Dir :: string
  t_Mounts :: "sourceMount list"
  t_Env :: "string gomap"
  t_Steps :: "testStep list"
  t_Files :: "fileCheckOutput gomap"

section \<open>Targets and the spec\<close>

record frontend =
  fe_Image :: string
  fe_CmdLine :: string

record packageSigner =
  ps_Frontend :: "frontend option"
  ps_Args :: "string gomap"

record packageConfig =
  pcfg_Signer :: "packageSigner option"

record target =
  tg_Dependencies :: "packageDependencies option"
  tg_Image :: "imageConfig option"
  tg_Frontend :: "frontend option"
  tg_Tests :: "testSpec list"
  tg_PackageConfig :: "packageConfig option"
  tg_Artifacts :: "artifacts option"
  tg_Provides :: "packageDependencyList option"
  tg_Replaces :: "packageDependencyList option"
  tg_Conflicts :: "packageDependencyList option"

record patchSpec =
  p_Source :: string
  p_Strip :: "int option"
  p_Path :: string

text \<open>A changelog date, parsed with the layout \<open>2006-01-02\<close>: year, month and day.\<close>

type_synonym date = "nat \<times> nat \<times> nat"

record changelogEntry =
  ce_Date :: date
  ce_Author :: string
  ce_Changes :: "string list"

record spec =
  sp_Name :: string
  sp_Description :: string
  sp_Website :: string
  sp_Version :: string
  sp_Revision :: string
  sp_NoArch :: bool
  sp_Conflicts :: "packageDependencyList option"
  sp_Replaces :: "packageDependencyList option"
  sp_Provides :: "packageDependencyList option"
  sp_Sources :: "source gomap"
  sp_Patches :: "patchSpec list gomap"
  sp_Build :: artifactBuild
  sp_Args :: "string gomap"
  sp_License :: string
  sp_Vendor :: string
  sp_Packager :: string
  sp_Artifacts :: artifacts
  sp_Targets :: "target gomap"
  sp_Dependencies :: "packageDependencies option"
  sp_PackageConfig :: "packageConfig option"
  sp_Image :: "imageConfig option"
  sp_Changelog :: "changelogEntry list"
  sp_Tests :: "testSpec list"

section \<open>Zero values\<close>

definition empty_source :: source where
  "empty_source = Source None None None None None None [] None None []"

definition empty_deps :: packageDependencies where
  "empty_deps = \<lparr>pd_Build = [], pd_Runtime = [], pd_Recommends = [], pd_Sysext = None, pd_Test = [],
     pd_ExtraRepos = []\<rparr>"

definition empty_image :: imageConfig where
  "empty_image = \<lparr>ic_Entrypoint = [], ic_Cmd = [], ic_Env = [], ic_Labels = [], ic_Volumes = [],
     ic_WorkingDir = [], ic_StopSignal = [], ic_Base = [], ic_Bases = None, ic_Post = None,
     ic_User = []\<rparr>"

definition empty_artifacts :: artifacts where
  "empty_artifacts = \<lparr>a_Binaries = [], a_Libexec = [], a_Manpages = [], a_DataDirs = [],
     a_Directories = None, a_ConfigFiles = [], a_Docs = [], a_Licenses = [], a_Systemd = None,
     a_Libs = [], a_Links = [], a_Headers = [], a_Users = [], a_Groups = [],
     a_DisableStrip = False, a_DisableAutoRequires = False\<rparr>"

definition empty_target :: target where
  "empty_target = \<lparr>tg_Dependencies = None, tg_Image = None, tg_Frontend = None, tg_Tests = [],
     tg_PackageConfig = None, tg_Artifacts = None, tg_Provides = None, tg_Replaces = None,
     tg_Conflicts = None\<rparr>"

definition empty_build :: artifactBuild where
  "empty_build = \<lparr>ab_Steps = [], ab_Env = [], ab_NetworkMode = [], ab_Caches = []\<rparr>"

definition empty_check :: checkOutput where
  "empty_check = \<lparr>co_Equals = [], co_Contains = [], co_Matches = [], co_StartsWith = [],
     co_EndsWith = [], co_Empty = False\<rparr>"

definition empty_spec :: spec where
  "empty_spec = \<lparr>sp_Name = [], sp_Description = [], sp_Website = [], sp_Version = [],
     sp_Revision = [], sp_NoArch = False, sp_Conflicts = None, sp_Replaces = None,
     sp_Provides = None, sp_Sources = [], sp_Patches = [], sp_Build = empty_build, sp_Args = [],
     sp_License = [], sp_Vendor = [], sp_Packager = [], sp_Artifacts = empty_artifacts,
     sp_Targets = [], sp_Dependencies = None, sp_PackageConfig = None, sp_Image = None,
     sp_Changelog = [], sp_Tests = []\<rparr>"

end
