(* ===== verification/Args.thy ===== *)
theory Args
  imports Spec_Model
begin

text \<open>
  Build argument expansion (load.go, lines 28 to 116): which argument names the frontend knows,
  and the expansion of one string.

  The shell lexer of buildkit is third-party code: it is the parameter \<^term>\<open>ax_lex\<close>, a function
  from a word and the argument map to an error or to the expanded word together with the names it
  found no value for (\<open>ProcessWordWithMatches\<close>).  The three values every \<open>processBuildArgs\<close> method
  receives (\<open>lex\<close>, \<open>args\<close>, \<open>allowArg\<close>) travel together as the record \<open>argCtx\<close>.
\<close>

type_synonym lexer = "string \<Rightarrow> string gomap \<Rightarrow> goerr + (string \<times> string list)"

record argCtx =
  ax_lex :: lexer
  ax_args :: "string gomap"
  ax_allow :: "string \<Rightarrow> bool"

definition KeyDalecTarget :: string where
  "KeyDalecTarget = ''DALEC_TARGET''"

definition platformArg :: "string \<Rightarrow> bool" where
  "platformArg key = (key \<in> {''TARGETOS'', ''TARGETARCH'', ''TARGETPLATFORM'', ''TARGETVARIANT'',
     ''BUILDOS'', ''BUILDARCH'', ''BUILDPLATFORM'', ''BUILDVARIANT''})"

definition knownArg :: "string \<Rightarrow> bool" where
  "knownArg key =
    (key \<in> {''BUILDKIT_SYNTAX'', ''DALEC_DISABLE_DIFF_MERGE'', ''DALEC_SKIP_SIGNING'',
       ''DALEC_SIGNING_CONFIG_CONTEXT_NAME'', ''DALEC_SIGNING_CONFIG_PATH'', ''DALEC_SKIP_TESTS'',
       KeyDalecTarget}
     \<or> platformArg key)"

text \<open>The errors for one name the lexer found no value for.\<close>

definition unmatched_errs :: "(string \<Rightarrow> bool) \<Rightarrow> string \<Rightarrow> goerr list" where
  "unmatched_errs allow m =
    (if \<not> knownArg m \<and> \<not> allow m then [Msg (''build arg '' @ dq @ m @ dq @ '' not declared'')]
     else guard_err (platformArg m) (Msg (''opt-in arg '' @ dq @ m @ dq @ '' not present in args'')))"

definition expandArgs :: "argCtx \<Rightarrow> string \<Rightarrow> string \<times> gores" where
  "expandArgs ax s =
    (case ax_lex ax s (ax_args ax) of
       Inl e \<Rightarrow> ([], Some e)
     | Inr (result, unmatched) \<Rightarrow>
         (result,
          wrap ''error performing variable expansion''
            (join_errs (concat (map (unmatched_errs (ax_allow ax)) unmatched)))))"

text \<open>
  The two ways the callers use the result: \<open>expand_keep\<close> leaves the old value when there is an
  error (\<open>continue\<close>), \<open>expand_set\<close> assigns the returned string in any case.  Both return the
  errors to append, wrapped as the caller wraps them.
\<close>

definition expand_keep :: "argCtx \<Rightarrow> (goerr \<Rightarrow> goerr) \<Rightarrow> string \<Rightarrow> string \<times> goerr list" where
  "expand_keep ax w v =
    (case expandArgs ax v of (u, None) \<Rightarrow> (u, []) | (_, Some e) \<Rightarrow> (v, [w e]))"

definition expand_set :: "argCtx \<Rightarrow> (goerr \<Rightarrow> goerr) \<Rightarrow> string \<Rightarrow> string \<times> goerr list" where
  "expand_set ax w v = (case expandArgs ax v of (u, r) \<Rightarrow> (u, map w (errs_of r)))"

text \<open>Loops that rewrite a slice or the values of a map in place and collect errors.\<close>

definition upd_list :: "(nat \<Rightarrow> 'a \<Rightarrow> 'a \<times> goerr list) \<Rightarrow> 'a list \<Rightarrow> 'a list \<times> goerr list" where
  "upd_list f xs =
    (let rs = map (\<lambda>(i, x). f i x) (enumerate 0 xs) in (map fst rs, concat (map snd rs)))"

definition upd_map :: "(string \<Rightarrow> 'v \<Rightarrow> 'v \<times> goerr list) \<Rightarrow> 'v gomap \<Rightarrow> 'v gomap \<times> goerr list" where
  "upd_map f m = (map_vals (\<lambda>k v. fst (f k v)) m, concat (map (\<lambda>(k, v). snd (f k v)) m))"

text \<open>The same loops over elements whose method may panic.\<close>

definition upd_list_opt ::
  "(nat \<Rightarrow> 'a \<Rightarrow> ('a \<times> goerr list) option) \<Rightarrow> 'a list \<Rightarrow> ('a list \<times> goerr list) option" where
  "upd_list_opt f xs =
    map_option (\<lambda>rs. (map fst rs, concat (map snd rs))) (those (map (\<lambda>(i, x). f i x) (enumerate 0 xs)))"

definition upd_map_opt ::
  "(string \<Rightarrow> 'v \<Rightarrow> ('v \<times> goerr list) option) \<Rightarrow> 'v gomap \<Rightarrow> ('v gomap \<times> goerr list) option" where
  "upd_map_opt f m =
    map_option (\<lambda>rs. (map2 (\<lambda>(k, v) r. (k, fst r)) m rs, concat (map snd rs)))
      (those (map (\<lambda>(k, v). f k v) m))"

text \<open>The same loop when the code returns at the first error: the rest of the slice is left alone.\<close>

fun expand_until ::
  "argCtx \<Rightarrow> (nat \<Rightarrow> string \<Rightarrow> goerr \<Rightarrow> goerr) \<Rightarrow> nat \<Rightarrow> string list \<Rightarrow> string list \<times> gores" where
  "expand_until ax w i [] = ([], None)"
| "expand_until ax w i (v # vs) =
    (case expandArgs ax v of
       (_, Some e) \<Rightarrow> (v # vs, Some (w i v e))
     | (u, None) \<Rightarrow> (case expand_until ax w (Suc i) vs of (us, r) \<Rightarrow> (u # us, r)))"

section \<open>When expansion succeeds\<close>

lemma platform_known: "platformArg k \<Longrightarrow> knownArg k"
  by (simp add: knownArg_def)

lemma unmatched_errs_Nil [go_nil, simp]:
  "unmatched_errs allow m = [] \<longleftrightarrow> (knownArg m \<or> allow m) \<and> \<not> platformArg m"
  by (auto simp: unmatched_errs_def platform_known)

lemma expandArgs_ok:
  "expandArgs ax s = (u, None) \<longleftrightarrow>
    (\<exists>un. ax_lex ax s (ax_args ax) = Inr (u, un) \<and>
       (\<forall>m \<in> set un. (knownArg m \<or> ax_allow ax m) \<and> \<not> platformArg m))"
  by (auto simp: expandArgs_def split: sum.splits)

lemma expand_keep_ok:
  "snd (expand_keep ax w v) = [] \<longleftrightarrow> snd (expandArgs ax v) = None"
  by (auto simp: expand_keep_def split: prod.splits option.splits)

lemma expand_set_ok:
  "snd (expand_set ax w v) = [] \<longleftrightarrow> snd (expandArgs ax v) = None"
  by (auto simp: expand_set_def split: prod.splits)

lemma expand_keep_value:
  "snd (expandArgs ax v) = None \<Longrightarrow> expand_keep ax w v = (fst (expandArgs ax v), [])"
  by (auto simp: expand_keep_def split: prod.splits option.splits)

lemma expand_set_value:
  "snd (expandArgs ax v) = None \<Longrightarrow> expand_set ax w v = (fst (expandArgs ax v), [])"
  by (auto simp: expand_set_def errs_of_def split: prod.splits)

section \<open>Laws of the update loops\<close>

lemma upd_list_length [simp]: "length (fst (upd_list f xs)) = length xs"
  by (simp add: upd_list_def Let_def)

lemma upd_list_nth [simp]:
  "i < length xs \<Longrightarrow> fst (upd_list f xs) ! i = fst (f i (xs ! i))"
  by (simp add: upd_list_def Let_def nth_enumerate_eq)

lemma upd_list_ok:
  "snd (upd_list f xs) = [] \<longleftrightarrow> (\<forall>i < length xs. snd (f i (xs ! i)) = [])"
proof -
  have "snd (upd_list f xs) = [] \<longleftrightarrow> (\<forall>p \<in> set (enumerate 0 xs). snd (f (fst p) (snd p)) = [])"
    by (auto simp: upd_list_def Let_def case_prod_unfold)
  also have "\<dots> \<longleftrightarrow> (\<forall>i < length xs. snd (f i (xs ! i)) = [])"
    by (simp add: all_set_conv_all_nth nth_enumerate_eq)
  finally show ?thesis .
qed

lemma upd_map_keys [simp]: "map fst (fst (upd_map f m)) = map fst m"
  by (simp add: upd_map_def)

lemma upd_map_wf [simp]: "wf_map (fst (upd_map f m)) = wf_map m"
  by (simp add: upd_map_def)

lemma upd_map_lookup [simp]:
  "map_of (fst (upd_map f m)) k = map_option (\<lambda>v. fst (f k v)) (map_of m k)"
  by (simp add: upd_map_def)

lemma upd_map_ok: "snd (upd_map f m) = [] \<longleftrightarrow> (\<forall>(k, v) \<in> set m. snd (f k v) = [])"
  by (auto simp: upd_map_def)

lemma expand_until_ok:
  "snd (expand_until ax w i vs) = None \<longleftrightarrow> (\<forall>v \<in> set vs. snd (expandArgs ax v) = None)"
  by (induction vs arbitrary: i) (auto simp: split_beta split: option.splits)

lemma expand_until_value:
  "snd (expand_until ax w i vs) = None \<Longrightarrow>
    fst (expand_until ax w i vs) = map (\<lambda>v. fst (expandArgs ax v)) vs"
  by (induction vs arbitrary: i) (auto simp: split_beta split: option.splits)

lemma upd_list_opt_returns:
  "(\<And>i x. x \<in> set xs \<Longrightarrow> f i x \<noteq> None) \<Longrightarrow> \<exists>ys es. upd_list_opt f xs = Some (ys, es)"
proof -
  assume *: "\<And>i x. x \<in> set xs \<Longrightarrow> f i x \<noteq> None"
  have "snd p \<in> set xs" if "p \<in> set (enumerate 0 xs)" for p
    using that by (metis add.right_neutral diff_zero in_set_enumerate_eq nth_mem)
  with * have "those (map (\<lambda>(i, x). f i x) (enumerate 0 xs)) \<noteq> None"
    unfolding those_map_None split_beta by blast
  then show ?thesis by (auto simp: upd_list_opt_def)
qed

lemma upd_map_opt_returns:
  "(\<And>k v. (k, v) \<in> set m \<Longrightarrow> f k v \<noteq> None) \<Longrightarrow> \<exists>m' es. upd_map_opt f m = Some (m', es)"
proof -
  assume *: "\<And>k v. (k, v) \<in> set m \<Longrightarrow> f k v \<noteq> None"
  have "those (map (\<lambda>(k, v). f k v) m) \<noteq> None"
    using * unfolding those_map_None by auto
  then show ?thesis by (auto simp: upd_map_opt_def)
qed

lemma upd_map_opt_keys:
  assumes "upd_map_opt f m = Some (m', es)"
  shows "map fst m' = map fst m"
proof -
  obtain rs where "those (map (\<lambda>(k, v). f k v) m) = Some rs"
    and m': "m' = map2 (\<lambda>(k, v) r. (k, fst r)) m rs"
    using assms by (auto simp: upd_map_opt_def)
  then have "length rs = length m" by (auto dest: those_length)
  then show ?thesis
    unfolding m' by (induction rs m rule: list_induct2) auto
qed

end
