(* ===== verification/Sources.thy ===== *)
theory Sources
  imports Args
begin

text \<open>
  Sources: the union of source variants with its generated dispatch (source_generated.go), and
  the \<open>validate\<close>, \<open>fillDefaults\<close>, \<open>processBuildArgs\<close> and \<open>IsDir\<close> methods of every variant
  (source.go, source_git.go, source_http.go, source_context.go, source_inline.go, source_image.go,
  source_build.go, generator_gomod.go).

  Third-party parameters: \<open>dg\<close> is \<open>digest.Digest.Validate\<close>, \<open>host\<close> is the host part of
  \<open>url.Parse\<close> (\<^term>\<open>None\<close> when parsing fails).  A panic is the value \<^term>\<open>None\<close> of an \<open>option\<close> result.

  \<open>Source.processBuildArgs\<close> works on a copy of the struct whose pointers, slices and maps are shared
  with the original; a caller that drops the copy after an error therefore loses only the new
  \<open>Path\<close>.  The function \<open>drop_copy\<close> states exactly that.
\<close>

section \<open>The union of variants\<close>

definition is_set :: "'a option \<Rightarrow> nat" where
  "is_set x = (case x of None \<Rightarrow> 0 | Some _ \<Rightarrow> 1)"

definition variant_count :: "source \<Rightarrow> nat" where
  "variant_count s =
    is_set (s_Build s) + is_set (s_Context s) + is_set (s_DockerImage s) + is_set (s_Git s)
    + is_set (s_HTTP s) + is_set (s_Inline s)"

definition validateSourceVariants :: "source \<Rightarrow> gores" where
  "validateSourceVariants s =
    (if variant_count s = 0 then Some (Msg ''no non-nil source variant'')
     else if variant_count s = 1 then None
     else Some (Msg ''more than one source variant defined''))"

datatype variant =
    VBuild sourceBuild
  | VContext sourceContext
  | VDockerImage sourceDockerImage
  | VGit sourceGit
  | VHTTP sourceHTTP
  | VInline sourceInline

definition toInterface :: "source \<Rightarrow> variant option" where
  "toInterface s =
    (case s_Build s of Some b \<Rightarrow> Some (VBuild b) | None \<Rightarrow>
     (case s_Context s of Some c \<Rightarrow> Some (VContext c) | None \<Rightarrow>
     (case s_DockerImage s of Some d \<Rightarrow> Some (VDockerImage d) | None \<Rightarrow>
     (case s_Git s of Some g \<Rightarrow> Some (VGit g) | None \<Rightarrow>
     (case s_HTTP s of Some h \<Rightarrow> Some (VHTTP h) | None \<Rightarrow>
     (case s_Inline s of Some i \<Rightarrow> Some (VInline i) | None \<Rightarrow> None))))))"

definition SourceIsDir :: "source \<Rightarrow> bool option" where
  "SourceIsDir s =
    (case toInterface s of
       None \<Rightarrow> None
     | Some (VHTTP _) \<Rightarrow> Some False
     | Some (VInline i) \<Rightarrow> Some (inl_Dir i \<noteq> None)
     | Some _ \<Rightarrow> Some True)"

section \<open>Validation\<close>

definition generator_Validate :: "sourceGenerator \<Rightarrow> gores" where
  "generator_Validate g =
    (if gen_Gomod g = None \<and> gen_Cargohome g = None \<and> gen_Pip g = None \<and> gen_NodeMod g = None
     then Some (Msg ''no generator type specified'') else None)"

definition git_validate :: "sourceGit \<Rightarrow> gores" where
  "git_validate src =
    with_source (wrap ''invalid git source''
      (join_errs (guard_err (git_URL src = []) (Msg ''git source must have a URL'')
        @ guard_err (git_Commit src = []) (Msg ''git source must have a commit''))))"

definition http_validate ::
  "(string \<Rightarrow> gores) \<Rightarrow> sourceHTTP \<Rightarrow> string \<Rightarrow> string list option \<Rightarrow> string list option \<Rightarrow> gores" where
  "http_validate dg src path includes excludes =
    with_source (join_errs
      (guard_err (http_URL src = []) (Msg ''http source must have a URL'')
       @ (if http_Digest src \<noteq> [] then errs_of (dg (http_Digest src)) else [])
       @ guard_err (excludes \<noteq> None \<and> excludes \<noteq> Some []) (Msg ''http source cannot be used with excludes'')
       @ guard_err (includes \<noteq> None \<and> includes \<noteq> Some []) (Msg ''http source cannot be used with includes'')
       @ guard_err (path \<noteq> []) (Msg ''http source cannot be used with path'')))"

definition inlineFile_validate :: "sourceInlineFile \<Rightarrow> gores" where
  "inlineFile_validate f =
    join_errs
      (guard_err (if_UID f < 0) (WithSource (Msg (''uid '' @ Itoa (if_UID f) @ '' must be non-negative'')))
       @ guard_err (if_GID f < 0) (WithSource (Msg (''gid '' @ Itoa (if_GID f) @ '' must be non-negative''))))"

definition inlineDir_validate :: "sourceInlineDir \<Rightarrow> gores" where
  "inlineDir_validate d =
    join_errs
      (guard_err (idir_UID d < 0) (WithSource (Msg (''uid '' @ Itoa (idir_UID d) @ '' must be non-negative'')))
       @ guard_err (idir_GID d < 0) (WithSource (Msg (''gid '' @ Itoa (idir_GID d) @ '' must be non-negative'')))
       @ concat (map (\<lambda>(k, f).
           guard_err (ContainsRune k slash) (Wrap (''file '' @ Quote k) (Sentinel errSourceNamePathSeparator))
           @ errs_of (wrap (''file '' @ Quote k) (inlineFile_validate f))) (idir_Files d)))"

definition inline_validate ::
  "sourceInline \<Rightarrow> string \<Rightarrow> string list option \<Rightarrow> string list option \<Rightarrow> gores" where
  "inline_validate s path includes excludes =
    join_errs
      (guard_err (inl_File s = None \<and> inl_Dir s = None)
         (WithSource (Msg ''inline source is missing contents to inline''))
       @ guard_err (inl_File s \<noteq> None \<and> inl_Dir s \<noteq> None)
         (WithSource (Msg ''inline source variant cannot have both a file and dir set''))
       @ (case inl_Dir s of None \<Rightarrow> [] | Some d \<Rightarrow> errs_of (inlineDir_validate d))
       @ (case inl_File s of None \<Rightarrow> [] | Some f \<Rightarrow>
            guard_err (path \<noteq> []) (Msg ''inline file source cannot have a path set'')
            @ guard_err (includes \<noteq> None) (Msg ''inline file source cannot have includes set'')
            @ guard_err (excludes \<noteq> None) (Msg ''inline file source cannot have excludes set'')
            @ errs_of (wrap ''inline file source validation failed'' (inlineFile_validate f))))"

definition step_validate :: "buildStep \<Rightarrow> gores" where
  "step_validate step =
    with_source (join_errs (guard_err (step_Command step = []) (Msg ''step must have a command'')))"

text \<open>
  The loop over the mounts of a command: \<open>dests\<close> holds the destinations seen so far; every mount
  comes with the result of its own \<open>validate\<close>.
\<close>

fun cmd_mount_errs :: "nat \<Rightarrow> string list \<Rightarrow> (string \<times> gores) list \<Rightarrow> goerr list" where
  "cmd_mount_errs i dests [] = []"
| "cmd_mount_errs i dests ((d, r) # ms) =
    guard_err (d \<in> set dests)
      (Msg (''cmd mount '' @ nat_str i @ '': dest '' @ Quote d @ '': duplicate mount destination''))
    @ errs_of (wrap (''cmd mount '' @ nat_str i @ '': dest '' @ Quote d) r)
    @ cmd_mount_errs (Suc i) (d # dests) ms"

definition generate_errs :: "sourceGenerator list \<Rightarrow> goerr list" where
  "generate_errs gs =
    concat (map (\<lambda>(i, g). errs_of (wrap (''source generator '' @ nat_str i) (generator_Validate g)))
      (enumerate 0 gs))"

definition step_errs :: "buildStep list \<Rightarrow> goerr list" where
  "step_errs steps =
    concat (map (\<lambda>(i, st). errs_of (wrap (''step '' @ nat_str i) (step_validate st)))
      (enumerate 0 steps))"

fun source_validate :: "(string \<Rightarrow> gores) \<Rightarrow> source \<Rightarrow> gores"
and image_validate :: "(string \<Rightarrow> gores) \<Rightarrow> string \<Rightarrow> sourceDockerImage \<Rightarrow> gores"
and command_validate :: "(string \<Rightarrow> gores) \<Rightarrow> command \<Rightarrow> gores"
and mount_validate :: "(string \<Rightarrow> gores) \<Rightarrow> sourceMount \<Rightarrow> gores"
and build_validate :: "(string \<Rightarrow> gores) \<Rightarrow> sourceBuild \<Rightarrow> gores" where
  "source_validate dg (Source img git http ctx bld inl path incl excl gens) =
    (let s = Source img git http ctx bld inl path incl excl gens;
         genErrs = generate_errs gens
     in case validateSourceVariants s of
          Some e \<Rightarrow> join_errs (genErrs @ [WithSource e])
        | None \<Rightarrow>
            join_errs (genErrs @ errs_of
              (case bld of Some b \<Rightarrow> build_validate dg b | None \<Rightarrow>
               (case ctx of Some c \<Rightarrow> None | None \<Rightarrow>
               (case img of Some d \<Rightarrow> image_validate dg path d | None \<Rightarrow>
               (case git of Some g \<Rightarrow> git_validate g | None \<Rightarrow>
               (case http of Some h \<Rightarrow> http_validate dg h path incl excl | None \<Rightarrow>
               (case inl of Some i \<Rightarrow> inline_validate i path incl excl | None \<Rightarrow> None))))))))"
| "image_validate dg path (SourceDockerImage ref cmd) =
    join_errs
      (guard_err (ref = []) (WithSource (Msg ''docker image source must have a ref''))
       @ errs_of (case cmd of None \<Rightarrow> None | Some c \<Rightarrow> command_validate dg c)
       @ guard_err (path = []) (WithSource (Sentinel errNoImageSourcePath)))"
| "command_validate dg (Command dir mounts env steps) =
    join_errs
      (guard_err (steps = []) (Msg ''command must have at least one step'')
       @ step_errs steps
       @ cmd_mount_errs 0 [] (map (\<lambda>m. (mnt_Dest m, mount_validate dg m)) mounts))"
| "mount_validate dg (SourceMount dest sp) =
    join_errs
      (guard_err (dest = ''/'')
         (Wrap (''mount destination must not be '' @ dq @ ''/'' @ dq) (Sentinel errInvalidMountConfig))
       @ errs_of (source_validate dg sp))"
| "build_validate dg (SourceBuild src dfpath tgt bargs) =
    join_errs
      (guard_err (s_Build src \<noteq> None) (WithSource (Msg ''build sources cannot be recursive''))
       @ errs_of (wrap ''build source'' (source_validate dg src)))"

definition mount_validateInRoot :: "(string \<Rightarrow> gores) \<Rightarrow> string \<Rightarrow> sourceMount \<Rightarrow> gores" where
  "mount_validateInRoot dg root m =
    (case mount_validate dg m of
       Some e \<Rightarrow> Some e
     | None \<Rightarrow>
         if \<not> isRoot root \<and> pathHasPrefix (mnt_Dest m) root
         then Some (Wrap (''mount destination ('' @ mnt_Dest m
                @ '') must not be a descendent of the target source path ('' @ root @ '')'')
              (Sentinel errInvalidMountConfig))
         else None)"

section \<open>Defaults\<close>

definition defaultFilePerms :: fileMode where "defaultFilePerms = 420"

definition defaultDirPerms :: fileMode where "defaultDirPerms = 493"

definition inlineFile_fillDefaults :: "sourceInlineFile \<Rightarrow> sourceInlineFile" where
  "inlineFile_fillDefaults f =
    (if if_Permissions f = 0 then f\<lparr>if_Permissions := defaultFilePerms\<rparr> else f)"

definition inlineDir_fillDefaults :: "sourceInlineDir \<Rightarrow> sourceInlineDir" where
  "inlineDir_fillDefaults d =
    (let d1 = (if idir_Permissions d = 0 then d\<lparr>idir_Permissions := defaultDirPerms\<rparr> else d)
     in d1\<lparr>idir_Files := map_vals (\<lambda>k f. inlineFile_fillDefaults f) (idir_Files d1)\<rparr>)"

definition inline_fillDefaults :: "sourceInline \<Rightarrow> sourceInline" where
  "inline_fillDefaults i =
    i\<lparr>inl_File := map_option inlineFile_fillDefaults (inl_File i),
      inl_Dir := map_option inlineDir_fillDefaults (inl_Dir i)\<rparr>"

definition context_fillDefaults :: "sourceContext \<Rightarrow> sourceContext" where
  "context_fillDefaults c = (if ctx_Name c = [] then c\<lparr>ctx_Name := ''context''\<rparr> else c)"

definition gomod_fillDefaults :: "string \<Rightarrow> gitAuth \<Rightarrow> generatorGomod \<Rightarrow> generatorGomod" where
  "gomod_fillDefaults host auth gm =
    (if map_of (gm_Auth gm) host \<noteq> None then gm
     else if ga_Token auth \<noteq> [] then
       gm\<lparr>gm_Auth := mput host \<lparr>gga_Header = [], gga_Token = ga_Token auth, gga_SSH = None\<rparr> (gm_Auth gm)\<rparr>
     else if ga_Header auth \<noteq> [] then
       gm\<lparr>gm_Auth := mput host \<lparr>gga_Header = ga_Header auth, gga_Token = [], gga_SSH = None\<rparr> (gm_Auth gm)\<rparr>
     else if ga_SSH auth \<noteq> [] then
       gm\<lparr>gm_Auth := mput host \<lparr>gga_Header = [], gga_Token = [],
            gga_SSH = Some \<lparr>gs_ID = ga_SSH auth, gs_Username = ''git''\<rparr>\<rparr> (gm_Auth gm)\<rparr>
     else gm)"

definition generator_fillDefaults :: "string \<Rightarrow> gitAuth \<Rightarrow> sourceGenerator \<Rightarrow> sourceGenerator" where
  "generator_fillDefaults host auth g =
    g\<lparr>gen_Gomod := map_option (gomod_fillDefaults host auth) (gen_Gomod g)\<rparr>"

definition git_host :: "(string \<Rightarrow> string option) \<Rightarrow> sourceGit \<Rightarrow> string" where
  "git_host host g = (case host (git_URL g) of Some h \<Rightarrow> h | None \<Rightarrow> git_URL g)"

text \<open>\<open>SourceGit.fillDefaults\<close> only writes to the generators of the owning source.\<close>

definition git_fillDefaults ::
  "(string \<Rightarrow> string option) \<Rightarrow> sourceGit \<Rightarrow> sourceGenerator list \<Rightarrow> sourceGenerator list" where
  "git_fillDefaults host g gens = map (generator_fillDefaults (git_host host g) (git_Auth g)) gens"

fun source_fillDefaults :: "(string \<Rightarrow> string option) \<Rightarrow> source \<Rightarrow> source option"
and image_fillDefaults :: "(string \<Rightarrow> string option) \<Rightarrow> sourceDockerImage \<Rightarrow> sourceDockerImage option"
and command_fillDefaults :: "(string \<Rightarrow> string option) \<Rightarrow> command \<Rightarrow> command option"
and mount_fillDefaults :: "(string \<Rightarrow> string option) \<Rightarrow> sourceMount \<Rightarrow> sourceMount option"
and build_fillDefaults :: "(string \<Rightarrow> string option) \<Rightarrow> sourceBuild \<Rightarrow> sourceBuild option" where
  "source_fillDefaults host (Source img git http ctx bld inl path incl excl gens) =
    (case bld of Some b \<Rightarrow>
       (case build_fillDefaults host b of None \<Rightarrow> None
        | Some b' \<Rightarrow> Some (Source img git http ctx (Some b') inl path incl excl gens))
     | None \<Rightarrow>
     (case ctx of Some c \<Rightarrow>
        Some (Source img git http (Some (context_fillDefaults c)) bld inl path incl excl gens)
     | None \<Rightarrow>
     (case img of Some d \<Rightarrow>
       (case image_fillDefaults host d of None \<Rightarrow> None
        | Some d' \<Rightarrow> Some (Source (Some d') git http ctx bld inl path incl excl gens))
     | None \<Rightarrow>
     (case git of Some g \<Rightarrow>
        Some (Source img git http ctx bld inl path incl excl (git_fillDefaults host g gens))
     | None \<Rightarrow>
     (case http of Some h \<Rightarrow> Some (Source img git http ctx bld inl path incl excl gens)
     | None \<Rightarrow>
     (case inl of Some i \<Rightarrow>
        Some (Source img git http ctx bld (Some (inline_fillDefaults i)) path incl excl gens)
     | None \<Rightarrow> None))))))"
| "image_fillDefaults host (SourceDockerImage ref cmd) =
    (case cmd of None \<Rightarrow> Some (SourceDockerImage ref None)
     | Some c \<Rightarrow>
        (case command_fillDefaults host c of None \<Rightarrow> None
         | Some c' \<Rightarrow> Some (SourceDockerImage ref (Some c'))))"
| "command_fillDefaults host (Command dir mounts env steps) =
    (case those (map (mount_fillDefaults host) mounts) of None \<Rightarrow> None
     | Some mounts' \<Rightarrow> Some (Command dir mounts' env steps))"
| "mount_fillDefaults host (SourceMount dest sp) =
    (case source_fillDefaults host sp of None \<Rightarrow> None | Some sp' \<Rightarrow> Some (SourceMount dest sp'))"
| "build_fillDefaults host (SourceBuild src dfpath tgt bargs) =
    (case source_fillDefaults host src of None \<Rightarrow> None
     | Some src' \<Rightarrow> Some (SourceBuild src' dfpath tgt bargs))"

section \<open>Build arguments\<close>

definition git_processBuildArgs :: "argCtx \<Rightarrow> sourceGit \<Rightarrow> sourceGit \<times> gores" where
  "git_processBuildArgs ax src =
    (let (url, es1) = expand_set ax id (git_URL src);
         (commit, es2) = expand_set ax id (git_Commit src)
     in (src\<lparr>git_URL := url, git_Commit := commit\<rparr>,
         with_source (wrap ''failed to process build args for git source'' (join_errs (es1 @ es2)))))"

definition http_processBuildArgs :: "argCtx \<Rightarrow> sourceHTTP \<Rightarrow> sourceHTTP \<times> gores" where
  "http_processBuildArgs ax src =
    (case expandArgs ax (http_URL src) of
       (_, Some e) \<Rightarrow> (src, Some (WithSource (Wrap ''failed to expand HTTP URL'' e)))
     | (u, None) \<Rightarrow> (src\<lparr>http_URL := u\<rparr>, None))"

definition context_processBuildArgs :: "argCtx \<Rightarrow> sourceContext \<Rightarrow> sourceContext \<times> gores" where
  "context_processBuildArgs ax src =
    (case expandArgs ax (ctx_Name src) of
       (_, Some e) \<Rightarrow> (src, Some (Wrap (''could not expand context name '' @ Quote (ctx_Name src)) e))
     | (u, None) \<Rightarrow> (src\<lparr>ctx_Name := u\<rparr>, None))"

text \<open>
  \<open>GeneratorGomod.processBuildArgs\<close> renames keys of the map it ranges over.  Keys removed before the
  loop reaches them are not produced; a key added during the loop may or may not be produced in
  Go, and here it is not (visiting it again only expands it once more).
\<close>

fun gomod_auth_loop ::
  "argCtx \<Rightarrow> string list \<Rightarrow> gomodGitAuth gomap \<Rightarrow> gomodGitAuth gomap \<times> goerr list" where
  "gomod_auth_loop ax [] m = (m, [])"
| "gomod_auth_loop ax (h # hs) m =
    (case map_of m h of
       None \<Rightarrow> gomod_auth_loop ax hs m
     | Some auth \<Rightarrow>
         (case expandArgs ax h of
            (_, Some e) \<Rightarrow> (case gomod_auth_loop ax hs m of (m', es) \<Rightarrow> (m', e # es))
          | (subbed, None) \<Rightarrow>
              gomod_auth_loop ax hs
                (if subbed \<noteq> h then mdel h (mput subbed auth m) else mput subbed auth m)))"

definition gomod_processBuildArgs :: "argCtx \<Rightarrow> generatorGomod \<Rightarrow> generatorGomod \<times> gores" where
  "gomod_processBuildArgs ax g =
    (case gomod_auth_loop ax (map fst (gm_Auth g)) (gm_Auth g) of
       (m, es) \<Rightarrow> (g\<lparr>gm_Auth := m\<rparr>, join_errs es))"

definition generator_processBuildArgs :: "argCtx \<Rightarrow> sourceGenerator \<Rightarrow> sourceGenerator \<times> gores" where
  "generator_processBuildArgs ax g =
    (case gen_Gomod g of
       None \<Rightarrow> (g, None)
     | Some gm \<Rightarrow>
         (case gomod_processBuildArgs ax gm of
            (gm', r) \<Rightarrow> (g\<lparr>gen_Gomod := Some gm'\<rparr>, join_errs (errs_of r))))"

definition env_msg :: "string \<Rightarrow> string \<Rightarrow> string \<Rightarrow> goerr \<Rightarrow> goerr" where
  "env_msg pre k v = Wrap (pre @ k @ ''='' @ v)"

definition step_processBuildArgs :: "argCtx \<Rightarrow> buildStep \<Rightarrow> buildStep \<times> gores" where
  "step_processBuildArgs ax s =
    (case upd_map (\<lambda>k v. expand_set ax (env_msg ''env '' k v) v) (step_Env s) of
       (env, es) \<Rightarrow> (BuildStep (step_Command s) env (step_Mounts s), join_errs es))"

text \<open>One iteration of the loop over \<open>c.Steps\<close> in \<open>Command.processBuildArgs\<close>.\<close>

definition cmd_step_processBuildArgs :: "argCtx \<Rightarrow> nat \<Rightarrow> buildStep \<Rightarrow> buildStep \<times> goerr list" where
  "cmd_step_processBuildArgs ax i s =
    (let (s1, r) = step_processBuildArgs ax s;
         (env, es) = upd_map (\<lambda>k v. expand_keep ax (env_msg ''step env '' k v) v) (step_Env s1)
     in (BuildStep (step_Command s1) env (step_Mounts s1),
         errs_of (wrap (''step index '' @ nat_str i) r) @ es))"

definition set_Path :: "string \<Rightarrow> source \<Rightarrow> source" where
  "set_Path p s =
    Source (s_DockerImage s) (s_Git s) (s_HTTP s) (s_Context s) (s_Build s) (s_Inline s) p
      (s_Includes s) (s_Excludes s) (s_Generate s)"

definition drop_copy :: "source \<Rightarrow> source \<Rightarrow> gores \<Rightarrow> source" where
  "drop_copy old upd r = (if r = None then upd else set_Path (s_Path old) upd)"

definition drop_mount_copy :: "sourceMount \<Rightarrow> sourceMount \<times> gores \<Rightarrow> sourceMount \<times> goerr list" where
  "drop_mount_copy m p =
    (case p of (m', r) \<Rightarrow> (SourceMount (mnt_Dest m') (drop_copy (mnt_Spec m) (mnt_Spec m') r), errs_of r))"

definition expand_path :: "argCtx \<Rightarrow> string \<Rightarrow> string \<times> goerr list" where
  "expand_path ax p = (if p \<noteq> [] then expand_keep ax id p else (p, []))"

definition expand_patterns :: "argCtx \<Rightarrow> string list option \<Rightarrow> string list option \<times> goerr list" where
  "expand_patterns ax ps =
    (case ps of None \<Rightarrow> (None, [])
     | Some xs \<Rightarrow> (case upd_list (\<lambda>i g. expand_keep ax id g) xs of (ys, es) \<Rightarrow> (Some ys, es)))"

definition expand_generate :: "argCtx \<Rightarrow> sourceGenerator list \<Rightarrow> sourceGenerator list \<times> goerr list" where
  "expand_generate ax gens =
    upd_list (\<lambda>i g. case generator_processBuildArgs ax g of (g', r) \<Rightarrow> (g', errs_of r)) gens"

fun source_processBuildArgs :: "argCtx \<Rightarrow> source \<Rightarrow> (source \<times> gores) option"
and image_processBuildArgs :: "argCtx \<Rightarrow> sourceDockerImage \<Rightarrow> (sourceDockerImage \<times> gores) option"
and command_processBuildArgs :: "argCtx \<Rightarrow> command \<Rightarrow> (command \<times> gores) option"
and mount_processBuildArgs :: "argCtx \<Rightarrow> sourceMount \<Rightarrow> (sourceMount \<times> gores) option"
and build_processBuildArgs :: "argCtx \<Rightarrow> sourceBuild \<Rightarrow> (sourceBuild \<times> gores) option" where
  "source_processBuildArgs ax (Source img git http ctx bld inl path incl excl gens) =
    (let (path', es1) = expand_path ax path;
         (incl', es2) = expand_patterns ax incl;
         (excl', es3) = expand_patterns ax excl;
         (gens', es5) = expand_generate ax gens;
         fin = (\<lambda>r. wrap ''failed to process build args for source''
                  (join_errs (es1 @ es2 @ es3 @ errs_of r @ es5)))
     in case bld of Some b \<Rightarrow>
          (case build_processBuildArgs ax b of None \<Rightarrow> None
           | Some (b', r) \<Rightarrow> Some (Source img git http ctx (Some b') inl path' incl' excl' gens', fin r))
        | None \<Rightarrow>
        (case ctx of Some c \<Rightarrow>
          (case context_processBuildArgs ax c of (c', r) \<Rightarrow>
             Some (Source img git http (Some c') bld inl path' incl' excl' gens', fin r))
        | None \<Rightarrow>
        (case img of Some d \<Rightarrow>
          (case image_processBuildArgs ax d of None \<Rightarrow> None
           | Some (d', r) \<Rightarrow> Some (Source (Some d') git http ctx bld inl path' incl' excl' gens', fin r))
        | None \<Rightarrow>
        (case git of Some g \<Rightarrow>
          (case git_processBuildArgs ax g of (g', r) \<Rightarrow>
             Some (Source img (Some g') http ctx bld inl path' incl' excl' gens', fin r))
        | None \<Rightarrow>
        (case http of Some h \<Rightarrow>
          (case http_processBuildArgs ax h of (h', r) \<Rightarrow>
             Some (Source img git (Some h') ctx bld inl path' incl' excl' gens', fin r))
        | None \<Rightarrow>
        (case inl of Some i \<Rightarrow> Some (Source img git http ctx bld inl path' incl' excl' gens', fin None)
        | None \<Rightarrow> None))))))"
| "image_processBuildArgs ax (SourceDockerImage ref cmd) =
    (let (ref', es) = expand_set ax (Wrap ''image ref'') ref;
         fin = (\<lambda>es'. wrap ''failed to process build args for docker image source'' (join_errs (es @ es')))
     in case cmd of None \<Rightarrow> Some (SourceDockerImage ref' None, fin [])
        | Some c \<Rightarrow>
            (case command_processBuildArgs ax c of None \<Rightarrow> None
             | Some (c', r) \<Rightarrow>
                 Some (SourceDockerImage ref' (Some c'),
                       fin (errs_of (wrap ''docker image cmd source'' r)))))"
| "command_processBuildArgs ax (Command dir mounts env steps) =
    (case those (map (mount_processBuildArgs ax) mounts) of None \<Rightarrow> None
     | Some rs \<Rightarrow>
         (let ms = map2 drop_mount_copy mounts rs;
              (env', es2) = upd_map (\<lambda>k v. expand_keep ax (env_msg ''env '' k v) v) env;
              (steps', es3) = upd_list (cmd_step_processBuildArgs ax) steps
          in Some (Command dir (map fst ms) env' steps',
                   join_errs (concat (map snd ms) @ es2 @ es3))))"
| "mount_processBuildArgs ax (SourceMount dest sp) =
    (case source_processBuildArgs ax sp of None \<Rightarrow> None
     | Some (sp', r) \<Rightarrow> Some (SourceMount dest sp', wrap (''mount dest: '' @ dest) r))"
| "build_processBuildArgs ax (SourceBuild src dfpath tgt bargs) =
    (case source_processBuildArgs ax src of None \<Rightarrow> None
     | Some (src', r) \<Rightarrow>
         (let (dfpath', es2) = expand_set ax (Wrap ''dockerfile path'') dfpath;
              (tgt', es3) = expand_set ax (Wrap ''target'') tgt
          in Some (SourceBuild src' dfpath' tgt' bargs,
                   wrap ''failed to expand args on build source''
                     (join_errs (errs_of (wrap ''source'' r) @ es2 @ es3)))))"

end
