(* ===== verification/Sources_Props.thy ===== *)
theory Sources_Props
  imports Sources
begin

text \<open>
  Properties of sources.  \<open>source_ok\<close> states what a valid source is, clause by clause and for every
  variant at once; \<open>source_validate\<close> is shown to accept exactly these sources.  A valid source never
  makes the generated dispatch panic: filling defaults and expanding arguments both return, and
  filling defaults keeps a source valid and is idempotent.
\<close>

section \<open>What a valid source is\<close>

definition generator_ok :: "sourceGenerator \<Rightarrow> bool" where
  "generator_ok g =
    (gen_Gomod g \<noteq> None \<or> gen_Cargohome g \<noteq> None \<or> gen_Pip g \<noteq> None \<or> gen_NodeMod g \<noteq> None)"

definition git_ok :: "sourceGit \<Rightarrow> bool" where
  "git_ok g = (git_URL g \<noteq> [] \<and> git_Commit g \<noteq> [])"

definition no_patterns :: "string list option \<Rightarrow> bool" where
  "no_patterns ps = (ps = None \<or> ps = Some [])"

definition http_ok ::
  "(string \<Rightarrow> gores) \<Rightarrow> string \<Rightarrow> string list option \<Rightarrow> string list option \<Rightarrow> sourceHTTP \<Rightarrow> bool" where
  "http_ok dg path incl excl h =
    (http_URL h \<noteq> [] \<and> (http_Digest h = [] \<or> dg (http_Digest h) = None)
     \<and> path = [] \<and> no_patterns incl \<and> no_patterns excl)"

definition inlineFile_ok :: "sourceInlineFile \<Rightarrow> bool" where
  "inlineFile_ok f = (0 \<le> if_UID f \<and> 0 \<le> if_GID f)"

definition inlineDir_ok :: "sourceInlineDir \<Rightarrow> bool" where
  "inlineDir_ok d =
    (0 \<le> idir_UID d \<and> 0 \<le> idir_GID d \<and>
     list_all (\<lambda>(k, f). slash \<notin> set k \<and> inlineFile_ok f) (idir_Files d))"

definition inline_ok ::
  "string \<Rightarrow> string list option \<Rightarrow> string list option \<Rightarrow> sourceInline \<Rightarrow> bool" where
  "inline_ok path incl excl i =
    (case (inl_File i, inl_Dir i) of
       (None, Some d) \<Rightarrow> inlineDir_ok d
     | (Some f, None) \<Rightarrow> inlineFile_ok f \<and> path = [] \<and> incl = None \<and> excl = None
     | _ \<Rightarrow> False)"

definition opt_all :: "('a \<Rightarrow> bool) \<Rightarrow> 'a option \<Rightarrow> bool" where
  "opt_all P x = (case x of None \<Rightarrow> True | Some y \<Rightarrow> P y)"

fun source_ok :: "(string \<Rightarrow> gores) \<Rightarrow> source \<Rightarrow> bool"
and image_ok :: "(string \<Rightarrow> gores) \<Rightarrow> string \<Rightarrow> sourceDockerImage \<Rightarrow> bool"
and command_ok :: "(string \<Rightarrow> gores) \<Rightarrow> command \<Rightarrow> bool"
and mount_ok :: "(string \<Rightarrow> gores) \<Rightarrow> sourceMount \<Rightarrow> bool"
and build_ok :: "(string \<Rightarrow> gores) \<Rightarrow> sourceBuild \<Rightarrow> bool" where
  "source_ok dg (Source img git http ctx bld inl path incl excl gens) =
    (variant_count (Source img git http ctx bld inl path incl excl gens) = 1
     \<and> list_all generator_ok gens
     \<and> (case bld of None \<Rightarrow> True | Some b \<Rightarrow> build_ok dg b)
     \<and> (case img of None \<Rightarrow> True | Some d \<Rightarrow> image_ok dg path d)
     \<and> opt_all git_ok git
     \<and> opt_all (http_ok dg path incl excl) http
     \<and> opt_all (inline_ok path incl excl) inl)"
| "image_ok dg path (SourceDockerImage ref cmd) =
    (ref \<noteq> [] \<and> path \<noteq> [] \<and> (case cmd of None \<Rightarrow> True | Some c \<Rightarrow> command_ok dg c))"
| "command_ok dg (Command dir mounts env steps) =
    (steps \<noteq> [] \<and> list_all (\<lambda>s. step_Command s \<noteq> []) steps
     \<and> distinct (map mnt_Dest mounts) \<and> list_all (mount_ok dg) mounts)"
| "mount_ok dg (SourceMount dest sp) = (dest \<noteq> ''/'' \<and> source_ok dg sp)"
| "build_ok dg (SourceBuild src dfpath tgt bargs) = (s_Build src = None \<and> source_ok dg src)"

lemmas source_induct = source_ok_image_ok_command_ok_mount_ok_build_ok.induct

section \<open>Validation accepts exactly the valid sources\<close>

lemma opt_all_simps [simp]: "opt_all P None" "opt_all P (Some x) = P x"
  by (simp_all add: opt_all_def)

lemma is_set_0 [simp]: "is_set x = 0 \<longleftrightarrow> x = None"
  by (simp add: is_set_def split: option.splits)

lemma is_set_Some [simp]: "is_set (Some x) = 1" "is_set None = 0"
  by (simp_all add: is_set_def)

lemma is_set_1 [simp]: "is_set x = Suc 0 \<longleftrightarrow> (\<exists>y. x = Some y)"
  by (cases x) simp_all

lemma variant_one_cases:
  assumes "variant_count (Source img git http ctx bld inl path incl excl gens) = 1"
  obtains
    (build) b where "bld = Some b" "ctx = None" "img = None" "git = None" "http = None" "inl = None"
  | (ctxt) c where "bld = None" "ctx = Some c" "img = None" "git = None" "http = None" "inl = None"
  | (image) d where "bld = None" "ctx = None" "img = Some d" "git = None" "http = None" "inl = None"
  | (git) g where "bld = None" "ctx = None" "img = None" "git = Some g" "http = None" "inl = None"
  | (http) h where "bld = None" "ctx = None" "img = None" "git = None" "http = Some h" "inl = None"
  | (inline) i where "bld = None" "ctx = None" "img = None" "git = None" "http = None" "inl = Some i"
  using assms
  by (cases bld; cases ctx; cases img; cases git; cases http; cases inl)
    (simp_all add: variant_count_def)

lemma validateSourceVariants_nil [go_nil]:
  "validateSourceVariants s = None \<longleftrightarrow> variant_count s = 1"
  by (simp add: validateSourceVariants_def)

lemma generator_Validate_nil [go_nil]: "generator_Validate g = None \<longleftrightarrow> generator_ok g"
  by (simp add: generator_Validate_def generator_ok_def)

lemma generate_errs_nil [go_nil]: "generate_errs gs = [] \<longleftrightarrow> list_all generator_ok gs"
  using enumerate_all [of 0 gs generator_ok]
  by (auto simp: generate_errs_def list_all_iff generator_Validate_nil split_beta)

lemma step_validate_nil [go_nil]: "step_validate s = None \<longleftrightarrow> step_Command s \<noteq> []"
  by (simp add: step_validate_def)

lemma step_errs_nil [go_nil]: "step_errs ss = [] \<longleftrightarrow> list_all (\<lambda>s. step_Command s \<noteq> []) ss"
  using enumerate_all [of 0 ss "\<lambda>s. step_Command s \<noteq> []"]
  by (auto simp: step_errs_def list_all_iff step_validate_nil split_beta)

lemma git_validate_nil [go_nil]: "git_validate g = None \<longleftrightarrow> git_ok g"
  by (simp add: git_validate_def git_ok_def)

lemma http_validate_nil [go_nil]:
  "http_validate dg h path incl excl = None \<longleftrightarrow> http_ok dg path incl excl h"
  by (auto simp: http_validate_def http_ok_def no_patterns_def)

lemma inlineFile_validate_nil [go_nil]: "inlineFile_validate f = None \<longleftrightarrow> inlineFile_ok f"
  by (auto simp: inlineFile_validate_def inlineFile_ok_def)

lemma inlineDir_validate_nil [go_nil]: "inlineDir_validate d = None \<longleftrightarrow> inlineDir_ok d"
  by (auto simp: inlineDir_validate_def inlineDir_ok_def list_all_iff ContainsRune_def
      inlineFile_validate_nil)

lemma inline_validate_nil [go_nil]:
  "inline_validate i path incl excl = None \<longleftrightarrow> inline_ok path incl excl i"
  by (auto simp: inline_validate_def inline_ok_def go_nil split: option.splits)

lemma cmd_mount_errs_nil [go_nil]:
  "cmd_mount_errs i ds ms = [] \<longleftrightarrow>
    distinct (map fst ms) \<and> set (map fst ms) \<inter> set ds = {} \<and> (\<forall>m \<in> set ms. snd m = None)"
  by (induction i ds ms rule: cmd_mount_errs.induct) auto

lemma source_validate_nil_all:
  "source_validate dg s = None \<longleftrightarrow> source_ok dg s"
  "image_validate dg path d = None \<longleftrightarrow> image_ok dg path d"
  "command_validate dg c = None \<longleftrightarrow> command_ok dg c"
  "mount_validate dg m = None \<longleftrightarrow> mount_ok dg m"
  "build_validate dg b = None \<longleftrightarrow> build_ok dg b"
proof (induction dg s and dg path d and dg c and dg m and dg b rule: source_induct)
  case (1 dg img git http ctx bld inl path incl excl gens)
  show ?case
    using 1
    by (auto simp: Let_def go_nil variant_count_def validateSourceVariants_def
        split: option.splits if_splits)
next
  case (2 dg path ref cmd)
  then show ?case by (auto split: option.splits)
next
  case (3 dg dir mounts env steps)
  then show ?case
    by (auto simp: go_nil list_all_iff comp_def)
next
  case (4 dg dest sp)
  then show ?case by simp
next
  case (5 dg src dfpath tgt bargs)
  then show ?case by simp
qed

lemmas source_validate_nil [go_nil] = source_validate_nil_all(1)
lemmas mount_validate_nil [go_nil] = source_validate_nil_all(4)

section \<open>Filling defaults\<close>

definition same_variants :: "source \<Rightarrow> source \<Rightarrow> bool" where
  "same_variants s t =
    (is_set (s_Build s) = is_set (s_Build t) \<and> is_set (s_Context s) = is_set (s_Context t)
     \<and> is_set (s_DockerImage s) = is_set (s_DockerImage t) \<and> is_set (s_Git s) = is_set (s_Git t)
     \<and> is_set (s_HTTP s) = is_set (s_HTTP t) \<and> is_set (s_Inline s) = is_set (s_Inline t))"

lemma context_fillDefaults_idem [simp]:
  "context_fillDefaults (context_fillDefaults c) = context_fillDefaults c"
  by (simp add: context_fillDefaults_def)

lemma inlineFile_fillDefaults_idem [simp]:
  "inlineFile_fillDefaults (inlineFile_fillDefaults f) = inlineFile_fillDefaults f"
  by (simp add: inlineFile_fillDefaults_def defaultFilePerms_def)

lemma inlineDir_fillDefaults_idem [simp]:
  "inlineDir_fillDefaults (inlineDir_fillDefaults d) = inlineDir_fillDefaults d"
  by (simp add: inlineDir_fillDefaults_def defaultDirPerms_def Let_def)

lemma inline_fillDefaults_idem [simp]:
  "inline_fillDefaults (inline_fillDefaults i) = inline_fillDefaults i"
  by (simp add: inline_fillDefaults_def option.map_comp comp_def)

lemma gomod_fillDefaults_idem [simp]:
  "gomod_fillDefaults h a (gomod_fillDefaults h a gm) = gomod_fillDefaults h a gm"
  by (auto simp: gomod_fillDefaults_def update_conv')

lemma generator_fillDefaults_idem [simp]:
  "generator_fillDefaults h a (generator_fillDefaults h a g) = generator_fillDefaults h a g"
  by (simp add: generator_fillDefaults_def option.map_comp comp_def)

lemma git_fillDefaults_idem [simp]:
  "git_fillDefaults host g (git_fillDefaults host g gens) = git_fillDefaults host g gens"
  by (simp add: git_fillDefaults_def)

lemma generator_ok_fillDefaults [simp]: "generator_ok (generator_fillDefaults h a g) = generator_ok g"
  by (simp add: generator_ok_def generator_fillDefaults_def)

lemma git_fillDefaults_ok [simp]:
  "list_all generator_ok (git_fillDefaults host g gens) = list_all generator_ok gens"
  by (simp add: git_fillDefaults_def list_all_iff)

lemma inlineFile_ok_fillDefaults [simp]: "inlineFile_ok (inlineFile_fillDefaults f) = inlineFile_ok f"
  by (simp add: inlineFile_ok_def inlineFile_fillDefaults_def)

lemma inlineDir_ok_fillDefaults [simp]: "inlineDir_ok (inlineDir_fillDefaults d) = inlineDir_ok d"
  by (auto simp: inlineDir_ok_def inlineDir_fillDefaults_def Let_def list_all_iff map_vals_def)

lemma inline_ok_fillDefaults [simp]:
  "inline_ok path incl excl (inline_fillDefaults i) = inline_ok path incl excl i"
  by (auto simp: inline_ok_def inline_fillDefaults_def split: option.splits)

text \<open>
  One statement for the five mutually recursive methods: on a valid argument the method returns,
  the result is valid, and running it again changes nothing.
\<close>

definition settles :: "('a \<Rightarrow> 'a option) \<Rightarrow> ('a \<Rightarrow> bool) \<Rightarrow> 'a \<Rightarrow> bool" where
  "settles f ok x = (\<exists>y. f x = Some y \<and> ok y \<and> f y = Some y)"

lemma settlesE:
  assumes "settles f ok x"
  obtains y where "f x = Some y" "ok y" "f y = Some y"
  using assms by (auto simp: settles_def)

lemma settles_those:
  assumes "\<And>x. x \<in> set xs \<Longrightarrow> settles f ok x"
  obtains ys where "those (map f xs) = Some ys" "list_all ok ys" "those (map f ys) = Some ys"
    "list_all2 (\<lambda>x y. f x = Some y) xs ys"
proof -
  have "\<exists>ys. those (map f xs) = Some ys \<and> list_all ok ys \<and> those (map f ys) = Some ys"
    using assms
  proof (induction xs)
    case (Cons x xs)
    from Cons.prems obtain y where y: "f x = Some y" "ok y" "f y = Some y"
      by (auto elim: settlesE [of f ok x])
    from Cons obtain ys where "those (map f xs) = Some ys \<and> list_all ok ys \<and> those (map f ys) = Some ys"
      by auto
    with y show ?case by simp
  qed simp
  with that show thesis by (auto simp: those_map_Some)
qed

text \<open>
  The contract of a part that can be given its defaults: on a valid part filling returns, the result
  is valid, and filling again changes nothing.  The locale lifts the contract to a list of parts and to
  the values of a map, which is how the enclosing structs use it.
\<close>

locale defaulter =
  fixes fill :: "'a \<Rightarrow> 'a option" and valid :: "'a \<Rightarrow> bool"
  assumes fill_settles: "valid x \<Longrightarrow> settles fill valid x"
begin

lemma fills: "valid x \<Longrightarrow> fill x = Some y \<Longrightarrow> valid y \<and> fill y = Some y"
  using fill_settles [of x] by (auto simp: settles_def)

lemma returns: "valid x \<Longrightarrow> fill x \<noteq> None"
  using fill_settles [of x] by (auto simp: settles_def)

lemma fill_list:
  assumes "list_all valid xs"
  obtains ys where "those (map fill xs) = Some ys" "list_all valid ys" "those (map fill ys) = Some ys"
    "list_all2 (\<lambda>x y. fill x = Some y) xs ys"
proof (rule settles_those [of xs fill valid])
  show "settles fill valid x" if "x \<in> set xs" for x
    using assms that by (intro fill_settles) (simp add: list_all_iff)
qed (rule that)

lemma fill_map_settles:
  assumes "list_all (\<lambda>p. valid (snd p)) m"
  shows "settles (\<lambda>m. those (map (\<lambda>(k, x). map_option (Pair k) (fill x)) m)) (list_all (\<lambda>p. valid (snd p))) m"
proof -
  let ?f = "\<lambda>(k, x). map_option (Pair k) (fill x)"
  have "settles ?f (\<lambda>p. valid (snd p)) p" if "p \<in> set m" for p
  proof -
    have "settles fill valid (snd p)"
      using assms that fill_settles by (simp add: list_all_iff)
    then show ?thesis by (cases p) (auto simp: settles_def)
  qed
  from settles_those [OF this] show ?thesis unfolding settles_def by blast
qed

end

lemma mount_fillDefaults_dest: "mount_fillDefaults host m = Some m' \<Longrightarrow> mnt_Dest m' = mnt_Dest m"
  by (cases m) (auto split: option.splits)

lemma mounts_fillDefaults_dests:
  "list_all2 (\<lambda>x y. mount_fillDefaults host x = Some y) ms ms' \<Longrightarrow> map mnt_Dest ms' = map mnt_Dest ms"
  by (induction rule: list_all2_induct) (auto dest: mount_fillDefaults_dest)

lemma source_fillDefaults_keeps:
  "source_fillDefaults host s = Some s' \<Longrightarrow>
    same_variants s s' \<and> s_Path s' = s_Path s \<and> s_Includes s' = s_Includes s \<and> s_Excludes s' = s_Excludes s"
  by (cases s) (auto simp: same_variants_def split: option.splits)

lemma source_fillDefaults_settles:
  "source_ok dg s \<Longrightarrow> settles (source_fillDefaults host) (source_ok dg) s"
  "image_ok dg path d \<Longrightarrow> settles (image_fillDefaults host) (image_ok dg path) d"
  "command_ok dg c \<Longrightarrow> settles (command_fillDefaults host) (command_ok dg) c"
  "mount_ok dg m \<Longrightarrow> settles (mount_fillDefaults host) (mount_ok dg) m"
  "build_ok dg b \<Longrightarrow> settles (build_fillDefaults host) (build_ok dg) b"
proof (induction dg s and dg path d and dg c and dg m and dg b rule: source_induct)
  case (1 dg img git http ctx bld inl path incl excl gens)
  have "variant_count (Source img git http ctx bld inl path incl excl gens) = 1"
    using 1(3) by simp
  then show ?case
    by (cases rule: variant_one_cases) (use 1 in \<open>auto simp: variant_count_def settles_def\<close>)
next
  case (2 dg path ref cmd)
  then show ?case by (auto simp: settles_def split: option.splits)
next
  case (3 dg dir mounts env steps)
  then have "\<And>m. m \<in> set mounts \<Longrightarrow> settles (mount_fillDefaults host) (mount_ok dg) m"
    by (simp add: list_all_iff)
  from settles_those [OF this] obtain ms
    where ms: "those (map (mount_fillDefaults host) mounts) = Some ms" "list_all (mount_ok dg) ms"
      "those (map (mount_fillDefaults host) ms) = Some ms"
      "list_all2 (\<lambda>x y. mount_fillDefaults host x = Some y) mounts ms"
    by blast
  from mounts_fillDefaults_dests [OF ms(4)] 3 ms show ?case by (simp add: settles_def)
next
  case (4 dg dest sp)
  then show ?case by (auto simp: settles_def)
next
  case (5 dg src dfpath tgt bargs)
  then obtain s' where s': "source_fillDefaults host src = Some s'" "source_ok dg s'"
    "source_fillDefaults host s' = Some s'"
    by (auto simp: settles_def)
  from source_fillDefaults_keeps [OF s'(1)] 5 have "s_Build s' = None"
    by (auto simp: same_variants_def)
  with s' show ?case by (auto simp: settles_def)
qed

interpretation source_defaults: defaulter "source_fillDefaults host" "source_ok dg" for host dg
  by unfold_locales (rule source_fillDefaults_settles(1))

interpretation mount_defaults: defaulter "mount_fillDefaults host" "mount_ok dg" for host dg
  by unfold_locales (rule source_fillDefaults_settles(4))

section \<open>Expanding build arguments\<close>

lemma source_processBuildArgs_returns:
  "source_ok dg s \<Longrightarrow> \<exists>s' r. source_processBuildArgs ax s = Some (s', r)"
  "image_ok dg path d \<Longrightarrow> \<exists>d' r. image_processBuildArgs ax d = Some (d', r)"
  "command_ok dg c \<Longrightarrow> \<exists>c' r. command_processBuildArgs ax c = Some (c', r)"
  "mount_ok dg m \<Longrightarrow> \<exists>m' r. mount_processBuildArgs ax m = Some (m', r)"
  "build_ok dg b \<Longrightarrow> \<exists>b' r. build_processBuildArgs ax b = Some (b', r)"
proof (induction dg s and dg path d and dg c and dg m and dg b rule: source_induct)
  case (1 dg img git http ctx bld inl path incl excl gens)
  have "variant_count (Source img git http ctx bld inl path incl excl gens) = 1"
    using 1(3) by simp
  then show ?case
    by (cases rule: variant_one_cases) (use 1 in \<open>auto simp: split_beta Let_def\<close>)
next
  case (2 dg path ref cmd)
  then show ?case by (auto simp: Let_def split: option.splits prod.splits)
next
  case (3 dg dir mounts env steps)
  then have "those (map (mount_processBuildArgs ax) mounts) \<noteq> None"
    by (auto simp: those_map_None list_all_iff)
  then show ?case by (auto simp: Let_def split: prod.splits)
next
  case (4 dg dest sp)
  then show ?case by (auto split: option.splits)
next
  case (5 dg src dfpath tgt bargs)
  then show ?case by (auto simp: Let_def split: option.splits prod.splits)
qed

lemma source_processBuildArgs_variants:
  "source_processBuildArgs ax s = Some (s', r) \<Longrightarrow> same_variants s s'"
  by (cases s) (auto simp: same_variants_def Let_def split: option.splits prod.splits)

subsection \<open>Sources without references\<close>

text \<open>
  The strings of a source that are expanded.  The mounts of a build step inside a command are not
  among them: \<open>Command.processBuildArgs\<close> never looks at \<open>step.Mounts\<close>.
\<close>

definition patterns_words :: "string list option \<Rightarrow> string list" where
  "patterns_words ps = (case ps of None \<Rightarrow> [] | Some xs \<Rightarrow> xs)"

definition generator_words :: "sourceGenerator \<Rightarrow> string list" where
  "generator_words g = (case gen_Gomod g of None \<Rightarrow> [] | Some gm \<Rightarrow> map fst (gm_Auth gm))"

fun source_words :: "source \<Rightarrow> string list"
and image_words :: "sourceDockerImage \<Rightarrow> string list"
and command_words :: "command \<Rightarrow> string list"
and mount_words :: "sourceMount \<Rightarrow> string list"
and build_words :: "sourceBuild \<Rightarrow> string list" where
  "source_words (Source img git http ctx bld inl path incl excl gens) =
    path # patterns_words incl @ patterns_words excl
    @ (case bld of Some b \<Rightarrow> build_words b | None \<Rightarrow> [])
    @ (case ctx of Some c \<Rightarrow> [ctx_Name c] | None \<Rightarrow> [])
    @ (case img of Some d \<Rightarrow> image_words d | None \<Rightarrow> [])
    @ (case git of Some g \<Rightarrow> [git_URL g, git_Commit g] | None \<Rightarrow> [])
    @ (case http of Some h \<Rightarrow> [http_URL h] | None \<Rightarrow> [])
    @ concat (map generator_words gens)"
| "image_words (SourceDockerImage ref cmd) =
    ref # (case cmd of None \<Rightarrow> [] | Some c \<Rightarrow> command_words c)"
| "command_words (Command dir mounts env steps) =
    concat (map mount_words mounts) @ map snd env @ concat (map (\<lambda>s. map snd (step_Env s)) steps)"
| "mount_words (SourceMount dest sp) = source_words sp"
| "build_words (SourceBuild src dfpath tgt bargs) = source_words src @ [dfpath, tgt]"

text \<open>A word is literal when the lexer returns it unchanged and reports no unmatched name.\<close>

definition literal :: "argCtx \<Rightarrow> string \<Rightarrow> bool" where
  "literal ax w = (ax_lex ax w (ax_args ax) = Inr (w, []))"

lemma literal_expandArgs [simp]: "literal ax w \<Longrightarrow> expandArgs ax w = (w, None)"
  by (simp add: literal_def expandArgs_ok)

lemma literal_expand_keep [simp]: "literal ax w \<Longrightarrow> expand_keep ax f w = (w, [])"
  by (simp add: expand_keep_def)

lemma literal_expand_set [simp]: "literal ax w \<Longrightarrow> expand_set ax f w = (w, [])"
  by (simp add: expand_set_def errs_of_def)

lemma upd_list_id: "(\<And>i. i < length xs \<Longrightarrow> f i (xs ! i) = (xs ! i, [])) \<Longrightarrow> upd_list f xs = (xs, [])"
  by (rule prod_eqI) (auto simp: upd_list_ok intro: nth_equalityI)

lemma upd_map_id: "(\<And>k v. (k, v) \<in> set m \<Longrightarrow> f k v = (v, [])) \<Longrightarrow> upd_map f m = (m, [])"
  by (auto simp: upd_map_def map_vals_def intro: map_idI)

lemma gomod_auth_loop_literal:
  "(\<forall>h \<in> set hs. literal ax h) \<Longrightarrow> gomod_auth_loop ax hs m = (m, [])"
  by (induction hs) (auto simp: update_triv split: option.splits)

lemma generator_literal:
  "(\<forall>w \<in> set (generator_words g). literal ax w) \<Longrightarrow> generator_processBuildArgs ax g = (g, None)"
  by (cases "gen_Gomod g")
    (auto simp: generator_words_def generator_processBuildArgs_def gomod_processBuildArgs_def
      gomod_auth_loop_literal join_errs_def errs_of_def)

lemma expand_generate_literal:
  "(\<forall>g \<in> set gens. \<forall>w \<in> set (generator_words g). literal ax w) \<Longrightarrow> expand_generate ax gens = (gens, [])"
  unfolding expand_generate_def
proof (rule upd_list_id)
  fix i
  assume "\<forall>g \<in> set gens. \<forall>w \<in> set (generator_words g). literal ax w" and "i < length gens"
  then have "generator_processBuildArgs ax (gens ! i) = (gens ! i, None)"
    by (intro generator_literal) (blast intro: nth_mem)
  then show "(case generator_processBuildArgs ax (gens ! i) of (g', r) \<Rightarrow> (g', errs_of r)) = (gens ! i, [])"
    by (simp add: errs_of_def)
qed

lemma expand_patterns_literal:
  "(\<forall>w \<in> set (patterns_words ps). literal ax w) \<Longrightarrow> expand_patterns ax ps = (ps, [])"
  by (auto simp: expand_patterns_def patterns_words_def upd_list_id split: option.splits)

lemma env_literal:
  "(\<forall>p \<in> set env. literal ax (snd p)) \<Longrightarrow> upd_map (\<lambda>k v. expand_keep ax (f k v) v) env = (env, [])"
  by (rule upd_map_id) fastforce

lemma env_set_literal:
  "(\<forall>p \<in> set env. literal ax (snd p)) \<Longrightarrow> upd_map (\<lambda>k v. expand_set ax (f k v) v) env = (env, [])"
  by (rule upd_map_id) fastforce

lemma cmd_step_literal:
  "(\<forall>p \<in> set (step_Env s). literal ax (snd p)) \<Longrightarrow> cmd_step_processBuildArgs ax i s = (s, [])"
  by (simp add: cmd_step_processBuildArgs_def step_processBuildArgs_def env_literal env_set_literal
      join_errs_def wrap_def errs_of_def)

lemma mount_literal_copies:
  "list_all2 (\<lambda>m p. p = (m, None)) ms rs \<Longrightarrow> map2 drop_mount_copy ms rs = map (\<lambda>m. (m, [])) ms"
  by (induction rule: list_all2_induct)
    (auto simp: drop_mount_copy_def drop_copy_def errs_of_def)

lemma source_literal:
  "\<lbrakk>source_ok dg s; \<forall>w \<in> set (source_words s). literal ax w\<rbrakk> \<Longrightarrow> source_processBuildArgs ax s = Some (s, None)"
  "\<lbrakk>image_ok dg path d; \<forall>w \<in> set (image_words d). literal ax w\<rbrakk> \<Longrightarrow> image_processBuildArgs ax d = Some (d, None)"
  "\<lbrakk>command_ok dg c; \<forall>w \<in> set (command_words c). literal ax w\<rbrakk> \<Longrightarrow> command_processBuildArgs ax c = Some (c, None)"
  "\<lbrakk>mount_ok dg m; \<forall>w \<in> set (mount_words m). literal ax w\<rbrakk> \<Longrightarrow> mount_processBuildArgs ax m = Some (m, None)"
  "\<lbrakk>build_ok dg b; \<forall>w \<in> set (build_words b). literal ax w\<rbrakk> \<Longrightarrow> build_processBuildArgs ax b = Some (b, None)"
proof (induction dg s and dg path d and dg c and dg m and dg b rule: source_induct)
  case (1 dg img git http ctx bld inl path incl excl gens)
  let ?s = "Source img git http ctx bld inl path incl excl gens"
  have ex: "expand_path ax path = (path, [])" "expand_patterns ax incl = (incl, [])"
    "expand_patterns ax excl = (excl, [])" "expand_generate ax gens = (gens, [])"
    using 1(4) by (auto simp: expand_path_def intro!: expand_patterns_literal expand_generate_literal)
  have "variant_count ?s = 1" using 1(3) by simp
  then show ?case
    by (cases rule: variant_one_cases)
      (use 1 ex in \<open>simp_all add: context_processBuildArgs_def git_processBuildArgs_def
        http_processBuildArgs_def join_errs_def errs_of_def wrap_def with_source_def\<close>)
next
  case (2 dg path ref cmd)
  then show ?case by (auto simp: join_errs_def wrap_def errs_of_def split: option.splits)
next
  case (3 dg dir mounts env steps)
  have "those (map (mount_processBuildArgs ax) mounts) = Some (map (\<lambda>m. (m, None)) mounts)"
  proof (rule those_map_eq)
    fix m
    assume m: "m \<in> set mounts"
    then have "mount_ok dg m" and "\<forall>w \<in> set (mount_words m). literal ax w"
      using 3(2,3) by (auto simp: list_all_iff)
    with 3(1) [OF m] show "mount_processBuildArgs ax m = Some (m, None)" by simp
  qed
  moreover have "upd_list (cmd_step_processBuildArgs ax) steps = (steps, [])"
  proof (intro upd_list_id cmd_step_literal)
    fix i
    assume "i < length steps"
    then have "steps ! i \<in> set steps" by simp
    with 3(3) show "\<forall>p \<in> set (step_Env (steps ! i)). literal ax (snd p)" by auto
  qed
  moreover have "upd_map (\<lambda>k v. expand_keep ax (env_msg ''env '' k v) v) env = (env, [])"
    using 3(3) by (intro env_literal) simp
  moreover have "map2 drop_mount_copy mounts (map (\<lambda>m. (m, None)) mounts) = map (\<lambda>m. (m, [])) mounts"
    by (rule mount_literal_copies) (simp add: list_all2_conv_all_nth)
  ultimately show ?case
    by (simp add: comp_def join_errs_def)
next
  case (4 dg dest sp)
  then show ?case by (simp add: wrap_def)
next
  case (5 dg src dfpath tgt bargs)
  then show ?case by (simp add: wrap_def errs_of_def join_errs_def)
qed

end
