(* ===== verification/Image_Config.thy ===== *)
theory Image_Config
  imports Sources_Props
begin

text \<open>
  The image configuration of a spec (image.go, imgconfig.go) and the helpers of load.go and
  helpers.go it uses: validation, defaults, argument expansion, symlinks, and the merge of spec,
  target and base image configuration.

  Third-party parameter: \<open>split\<close> is \<open>shlex.Split\<close>.
\<close>

section \<open>Symlinks\<close>

text \<open>
  The first loop of \<open>validateSymlinks\<close>: the errors of one entry and how many pairs it adds to
  \<open>numPairs\<close>.
\<close>

definition symlink_entry :: "string \<times> symlinkTarget \<Rightarrow> goerr list \<times> nat" where
  "symlink_entry e =
    (case e of (oldpath, cfg) \<Rightarrow>
       let errs = guard_err (oldpath = []) (Msg ''symlink source is empty'')
             @ guard_err ((sl_Path cfg \<noteq> [] \<and> 0 < length (sl_Paths cfg))
                 \<or> (sl_Path cfg = [] \<and> length (sl_Paths cfg) = 0))
               (Msg (''path and paths fields are mutually exclusive, and at least one is required: symlink to '' @ oldpath))
       in if errs \<noteq> [] then (errs, 0)
          else if sl_Path cfg \<noteq> [] then ([], 1)
          else (concat (map (\<lambda>n. guard_err (n = []) (Msg ''symlink newpath should not be empty'')) (sl_Paths cfg)),
                length (sl_Paths cfg)))"

text \<open>The second loop: \<open>checkDuplicateNewpath\<close> on every newpath, with the \<open>seen\<close> map.\<close>

fun symlink_duplicates :: "string gomap \<Rightarrow> (string \<times> string) list \<Rightarrow> goerr list" where
  "symlink_duplicates seen [] = []"
| "symlink_duplicates seen ((newpath, oldpath) # ps) =
    (if newpath = [] then symlink_duplicates seen ps
     else (case map_of seen newpath of
             Some seenPath \<Rightarrow>
               [Msg (''symlink newpaths must be unique: '' @ Quote newpath @ '' points to both ''
                 @ Quote oldpath @ '' and '' @ Quote seenPath)]
           | None \<Rightarrow> [])
          @ symlink_duplicates (mput newpath oldpath seen) ps)"

definition symlink_pairs :: "symlinkTarget gomap \<Rightarrow> (string \<times> string) list" where
  "symlink_pairs links =
    concat (map (\<lambda>(oldpath, cfg). map (\<lambda>n. (n, oldpath)) (sl_Path cfg # sl_Paths cfg)) links)"

definition validateSymlinks :: "symlinkTarget gomap \<Rightarrow> gores" where
  "validateSymlinks symlinks =
    (let rs = map symlink_entry symlinks;
         errs = concat (map fst rs);
         numPairs = sum_list (map snd rs)
     in if numPairs < 2 then join_errs errs
        else join_errs (errs @ symlink_duplicates [] (symlink_pairs symlinks)))"

definition postInstall_validate :: "postInstall option \<Rightarrow> gores" where
  "postInstall_validate p =
    (case p of None \<Rightarrow> None
     | Some pi \<Rightarrow> wrap ''symlink'' (join_errs (errs_of (validateSymlinks (pi_Symlinks pi)))))"

definition normalizeSymlinks :: "postInstall \<Rightarrow> postInstall" where
  "normalizeSymlinks p =
    p\<lparr>pi_Symlinks := map_vals (\<lambda>oldpath cfg.
        if sl_Path cfg = [] then cfg
        else cfg\<lparr>sl_Paths := sl_Paths cfg @ [sl_Path cfg], sl_Path := []\<rparr>) (pi_Symlinks p)\<rparr>"

text \<open>The script that \<open>InstallPostSymlinks\<close> writes (helpers.go), line by line.\<close>

definition rootfsPath :: string where "rootfsPath = ''/tmp/rootfs''"

definition symlink_script_lines :: "string \<Rightarrow> symlinkTarget \<Rightarrow> string \<Rightarrow> string list" where
  "symlink_script_lines oldpath cfg newpath =
    [''mkdir -p '' @ Quote (Join [rootfsPath, Dir newpath]),
     ''ln -s '' @ Quote oldpath @ '' '' @ Quote (Join [rootfsPath, newpath])]
    @ (if sl_User cfg \<noteq> [] then [''chown -h '' @ sl_User cfg @ '' '' @ Quote (Join [rootfsPath, newpath])] else [])
    @ (if sl_Group cfg \<noteq> [] then [''chgrp -h '' @ sl_Group cfg @ '' '' @ Quote (Join [rootfsPath, newpath])] else [])"

definition symlink_script :: "postInstall option \<Rightarrow> string list option" where
  "symlink_script post =
    (case post of None \<Rightarrow> None
     | Some p \<Rightarrow>
         if length (pi_Symlinks p) = 0 then None
         else Some (''set -ex'' # concat (map (\<lambda>oldpath.
                case map_of (pi_Symlinks p) oldpath of
                  None \<Rightarrow> []
                | Some cfg \<Rightarrow> concat (map (symlink_script_lines oldpath cfg) (sort (sl_Paths cfg))))
              (SortMapKeys (pi_Symlinks p)))))"

section \<open>Validation and defaults of the image configuration\<close>

definition errorIsOnly :: "gores \<Rightarrow> sentinel \<Rightarrow> bool" where
  "errorIsOnly err target =
    (case err of
       None \<Rightarrow> False
     | Some (Joined es) \<Rightarrow> length (filter (\<lambda>e. err_is e target) es) = 1
     | Some e \<Rightarrow> err_is e target)"

definition baseImage_validate :: "(string \<Rightarrow> gores) \<Rightarrow> baseImage \<Rightarrow> gores" where
  "baseImage_validate dg b =
    (if s_DockerImage (bi_Rootfs b) = None
     then Some (Msg ''rootfs currently only supports image source types'')
     else wrap ''rootfs'' (source_validate dg (bi_Rootfs b)))"

definition bases_of :: "imageConfig \<Rightarrow> baseImage list" where
  "bases_of i = (case ic_Bases i of None \<Rightarrow> [] | Some bs \<Rightarrow> bs)"

definition imageConfig_validate :: "(string \<Rightarrow> gores) \<Rightarrow> imageConfig option \<Rightarrow> gores" where
  "imageConfig_validate dg img =
    (case img of None \<Rightarrow> None
     | Some i \<Rightarrow> join_errs
         (guard_err (ic_Base i \<noteq> [] \<and> 0 < length (bases_of i))
            (Msg ''cannot specify both image.base and image.bases'')
          @ concat (map (\<lambda>(n, b).
              if \<not> errorIsOnly (baseImage_validate dg b) errNoImageSourcePath
              then errs_of (wrap (''bases['' @ nat_str n @ '']'') (baseImage_validate dg b))
              else []) (enumerate 0 (bases_of i)))
          @ errs_of (wrap ''postinstall'' (postInstall_validate (ic_Post i)))))"

definition baseImage_fillDefaults :: "(string \<Rightarrow> string option) \<Rightarrow> baseImage \<Rightarrow> baseImage option" where
  "baseImage_fillDefaults host b =
    map_option (\<lambda>r. b\<lparr>bi_Rootfs := r\<rparr>) (source_fillDefaults host (bi_Rootfs b))"

definition image_of_ref :: "string \<Rightarrow> baseImage" where
  "image_of_ref ref =
    \<lparr>bi_Rootfs = Source (Some (SourceDockerImage ref None)) None None None None None [] None None []\<rparr>"

definition migrate_base :: "imageConfig \<Rightarrow> imageConfig" where
  "migrate_base i =
    (if ic_Base i \<noteq> []
     then i\<lparr>ic_Bases := Some (bases_of i @ [image_of_ref (ic_Base i)]), ic_Base := []\<rparr>
     else i)"

definition imageConfig_fillDefaults ::
  "(string \<Rightarrow> string option) \<Rightarrow> imageConfig option \<Rightarrow> imageConfig option option" where
  "imageConfig_fillDefaults host img =
    (case img of None \<Rightarrow> Some None
     | Some i \<Rightarrow>
         (let i1 = migrate_base i in
          case those (map (baseImage_fillDefaults host) (bases_of i1)) of
            None \<Rightarrow> None
          | Some bs \<Rightarrow>
              Some (Some (i1\<lparr>ic_Bases := (if ic_Bases i1 = None then None else Some bs),
                             ic_Post := map_option normalizeSymlinks (ic_Post i1)\<rparr>))))"

definition imageConfig_processBuildArgs :: "argCtx \<Rightarrow> imageConfig option \<Rightarrow> imageConfig option \<times> gores" where
  "imageConfig_processBuildArgs ax img =
    (case img of None \<Rightarrow> (None, None)
     | Some i \<Rightarrow>
         (case upd_map (\<lambda>k v. expand_keep ax (env_msg ''env '' k v) v) (ic_Labels i) of
            (labels, es) \<Rightarrow> (Some (i\<lparr>ic_Labels := labels\<rparr>), join_errs es)))"

section \<open>Merging\<close>

text \<open>The fields of \<open>DockerOCIImageConfig\<close> that the merge reads and writes.\<close>

record dockerImageConfig =
  dc_Entrypoint :: "string list option"
  dc_Cmd :: "string list option"
  dc_Env :: "string list"
  dc_WorkingDir :: string
  dc_StopSignal :: string
  dc_User :: string
  dc_Volumes :: "unit gomap"
  dc_Labels :: "string gomap"

text \<open>\<open>envIdx\<close>: the last index of every existing entry, keyed by the whole \<open>K=V\<close> string.\<close>

definition env_index :: "string list \<Rightarrow> string \<Rightarrow> nat option" where
  "env_index env = map_of (rev (map (\<lambda>(i, e). (e, i)) (enumerate 0 env)))"

definition merge_env :: "string list \<Rightarrow> string list \<Rightarrow> string list" where
  "merge_env dst src =
    foldl (\<lambda>d e. case env_index dst e of Some i \<Rightarrow> d[i := e] | None \<Rightarrow> d @ [e]) dst src"

definition merge_map :: "'v gomap \<Rightarrow> 'v gomap \<Rightarrow> 'v gomap" where
  "merge_map dst src = foldl (\<lambda>d (k, v). mput k v d) dst src"

definition or_else :: "string \<Rightarrow> string \<Rightarrow> string" where
  "or_else new old = (if new \<noteq> [] then new else old)"

definition MergeImageConfig ::
  "(string \<Rightarrow> goerr + string list) \<Rightarrow> dockerImageConfig \<Rightarrow> imageConfig option \<Rightarrow> goerr + dockerImageConfig" where
  "MergeImageConfig split dst src =
    (case src of None \<Rightarrow> Inr dst
     | Some i \<Rightarrow>
         (case (if ic_Entrypoint i \<noteq> [] then
                  (case split (ic_Entrypoint i) of
                     Inl e \<Rightarrow> Inl (Wrap ''error splitting entrypoint into args'' e)
                   | Inr ws \<Rightarrow> Inr (dst\<lparr>dc_Entrypoint := Some ws, dc_Cmd := None\<rparr>))
                else Inr dst) of
            Inl e \<Rightarrow> Inl e
          | Inr d1 \<Rightarrow>
              (case (if ic_Cmd i \<noteq> [] then
                       (case split (ic_Cmd i) of
                          Inl e \<Rightarrow> Inl (Wrap ''error splitting cmd into args'' e)
                        | Inr ws \<Rightarrow> Inr (d1\<lparr>dc_Cmd := Some ws\<rparr>))
                     else Inr d1) of
                 Inl e \<Rightarrow> Inl e
               | Inr d2 \<Rightarrow>
                   Inr (d2\<lparr>dc_Env := (if 0 < length (ic_Env i) then merge_env (dc_Env d2) (ic_Env i) else dc_Env d2),
                           dc_WorkingDir := or_else (ic_WorkingDir i) (dc_WorkingDir d2),
                           dc_StopSignal := or_else (ic_StopSignal i) (dc_StopSignal d2),
                           dc_User := or_else (ic_User i) (dc_User d2),
                           dc_Volumes := merge_map (dc_Volumes d2) (ic_Volumes i),
                           dc_Labels := merge_map (dc_Labels d2) (ic_Labels i)\<rparr>))))"

definition target_image :: "spec \<Rightarrow> string \<Rightarrow> imageConfig option" where
  "target_image sp key = (case map_of (sp_Targets sp) key of None \<Rightarrow> None | Some t \<Rightarrow> tg_Image t)"

definition MergeSpecImage :: "spec \<Rightarrow> string \<Rightarrow> imageConfig" where
  "MergeSpecImage sp targetKey =
    (let cfg = (case sp_Image sp of None \<Rightarrow> empty_image | Some i \<Rightarrow> i) in
     case target_image sp targetKey of None \<Rightarrow> cfg
     | Some i \<Rightarrow>
         cfg\<lparr>ic_Entrypoint := or_else (ic_Entrypoint i) (ic_Entrypoint cfg),
             ic_Cmd := or_else (ic_Cmd i) (ic_Cmd cfg),
             ic_Env := ic_Env cfg @ ic_Env i,
             ic_Volumes := merge_map (ic_Volumes cfg) (ic_Volumes i),
             ic_Labels := merge_map (ic_Labels cfg) (ic_Labels i),
             ic_WorkingDir := or_else (ic_WorkingDir i) (ic_WorkingDir cfg),
             ic_StopSignal := or_else (ic_StopSignal i) (ic_StopSignal cfg),
             ic_Base := or_else (ic_Base i) (ic_Base cfg)\<rparr>)"

text \<open>
  \<open>MergeSpecImage\<close> copies the struct \<open>*spec.Image\<close> but not its maps, so writing the labels and volumes of
  the target also writes them into the maps of \<open>spec.Image\<close> when those exist (an empty list stands for
  a nil map here).  This is the spec after the call.
\<close>

definition MergeSpecImage_spec :: "spec \<Rightarrow> string \<Rightarrow> spec" where
  "MergeSpecImage_spec sp targetKey =
    (case (sp_Image sp, target_image sp targetKey) of
       (Some g, Some i) \<Rightarrow>
         sp\<lparr>sp_Image := Some (g\<lparr>
              ic_Volumes := (if ic_Volumes g = [] then [] else merge_map (ic_Volumes g) (ic_Volumes i)),
              ic_Labels := (if ic_Labels g = [] then [] else merge_map (ic_Labels g) (ic_Labels i))\<rparr>)\<rparr>
     | _ \<Rightarrow> sp)"

definition BuildImageConfig ::
  "(string \<Rightarrow> goerr + string list) \<Rightarrow> spec \<Rightarrow> string \<Rightarrow> dockerImageConfig \<Rightarrow> goerr + dockerImageConfig" where
  "BuildImageConfig split sp targetKey cfg = MergeImageConfig split cfg (Some (MergeSpecImage sp targetKey))"

definition GetImageBases :: "spec \<Rightarrow> string \<Rightarrow> baseImage list option" where
  "GetImageBases sp targetKey =
    (case target_image sp targetKey of
       Some i \<Rightarrow>
         (case ic_Bases i of Some bs \<Rightarrow> Some bs
          | None \<Rightarrow> (case sp_Image sp of None \<Rightarrow> None | Some g \<Rightarrow> ic_Bases g))
     | None \<Rightarrow> (case sp_Image sp of None \<Rightarrow> None | Some g \<Rightarrow> ic_Bases g))"

definition GetSingleBase :: "spec \<Rightarrow> string \<Rightarrow> goerr + baseImage option" where
  "GetSingleBase sp targetKey =
    (case GetImageBases sp targetKey of
       None \<Rightarrow> Inr None
     | Some bs \<Rightarrow>
         if 1 < length bs then Inl (Msg ''multiple image bases, expected only one'')
         else (case bs of [] \<Rightarrow> Inr None | b # _ \<Rightarrow> Inr (Some b)))"

definition GetImagePost :: "spec \<Rightarrow> string \<Rightarrow> postInstall option" where
  "GetImagePost sp key =
    (case target_image sp key of
       Some i \<Rightarrow>
         (case ic_Post i of Some p \<Rightarrow> Some p
          | None \<Rightarrow> (case sp_Image sp of None \<Rightarrow> None | Some g \<Rightarrow> ic_Post g))
     | None \<Rightarrow> (case sp_Image sp of None \<Rightarrow> None | Some g \<Rightarrow> ic_Post g))"

section \<open>Lemmas on symlinks\<close>

definition newpaths :: "symlinkTarget \<Rightarrow> string list" where
  "newpaths cfg = (if sl_Path cfg \<noteq> [] then [sl_Path cfg] else []) @ sl_Paths cfg"

definition symlink_ok :: "string \<times> symlinkTarget \<Rightarrow> bool" where
  "symlink_ok e =
    (fst e \<noteq> [] \<and> ((sl_Path (snd e) \<noteq> []) \<longleftrightarrow> (sl_Paths (snd e) = [])) \<and> [] \<notin> set (sl_Paths (snd e)))"

definition symlinks_ok :: "symlinkTarget gomap \<Rightarrow> bool" where
  "symlinks_ok links =
    (list_all symlink_ok links \<and> distinct (concat (map (newpaths \<circ> snd) links)))"

lemma symlink_entry_nil: "fst (symlink_entry e) = [] \<longleftrightarrow> symlink_ok e"
  by (auto simp: symlink_entry_def symlink_ok_def Let_def split: prod.splits if_splits)

lemma symlink_entry_count: "symlink_ok e \<Longrightarrow> snd (symlink_entry e) = length (newpaths (snd e))"
  by (auto simp: symlink_entry_def symlink_ok_def newpaths_def Let_def guard_err_def
      split: prod.splits)

lemma symlink_duplicates_nil:
  "symlink_duplicates seen ps = [] \<longleftrightarrow>
    (let ns = filter (\<lambda>n. n \<noteq> []) (map fst ps) in distinct ns \<and> set ns \<inter> fst ` set seen = {})"
proof (induction seen ps rule: symlink_duplicates.induct)
  case (2 seen newpath oldpath ps)
  have keys: "fst ` set (mput newpath oldpath seen) = insert newpath (fst ` set seen)"
    by (simp add: dom_map_of_conv_image_fst [symmetric] update_conv')
  show ?case
  proof (cases "newpath = [] \<or> newpath \<in> fst ` set seen")
    case True
    then consider "newpath = []" | v where "newpath \<noteq> []" "map_of seen newpath = Some v"
      by (metis map_of_eq_None_iff not_None_eq)
    then show ?thesis
    proof cases
      case 1
      with 2(1) show ?thesis by simp
    next
      case 2
      with True show ?thesis by (auto simp: Let_def)
    qed
  next
    case False
    then have "map_of seen newpath = None"
      by (simp add: map_of_eq_None_iff)
    with 2(2) False show ?thesis
      by (auto simp: Let_def keys)
  qed
qed simp

lemma symlink_pairs_newpaths:
  "list_all symlink_ok links \<Longrightarrow>
    filter (\<lambda>n. n \<noteq> []) (map fst (symlink_pairs links)) = concat (map (newpaths \<circ> snd) links)"
proof (induction links)
  case (Cons e links)
  then have "filter (\<lambda>n. n \<noteq> []) (sl_Path (snd e) # sl_Paths (snd e)) = newpaths (snd e)"
    by (auto simp: symlink_ok_def newpaths_def intro!: filter_True)
  moreover have "map fst (symlink_pairs (e # links)) =
      (sl_Path (snd e) # sl_Paths (snd e)) @ map fst (symlink_pairs links)"
    by (cases e) (simp add: symlink_pairs_def comp_def)
  ultimately show ?case
    using Cons by (simp only: filter_append) simp
qed (simp add: symlink_pairs_def)

lemma symlink_numPairs:
  "list_all symlink_ok links \<Longrightarrow>
    sum_list (map snd (map symlink_entry links)) = length (concat (map (newpaths \<circ> snd) links))"
  by (induction links) (auto simp: symlink_entry_count)

lemma distinct_short: "length xs < 2 \<Longrightarrow> distinct xs"
  by (cases xs) auto

lemma validateSymlinks_nil [go_nil]: "validateSymlinks links = None \<longleftrightarrow> symlinks_ok links"
proof (cases "list_all symlink_ok links")
  case True
  then have "concat (map fst (map symlink_entry links)) = []"
    by (auto simp: list_all_iff symlink_entry_nil)
  moreover have "symlink_duplicates [] (symlink_pairs links) = [] \<longleftrightarrow>
      distinct (concat (map (newpaths \<circ> snd) links))"
    by (simp add: symlink_duplicates_nil symlink_pairs_newpaths [OF True])
  ultimately show ?thesis
    using True distinct_short [of "concat (map (newpaths \<circ> snd) links)"]
    by (simp only: validateSymlinks_def symlink_numPairs [OF True] Let_def symlinks_ok_def) simp
next
  case False
  then have "concat (map fst (map symlink_entry links)) \<noteq> []"
    by (auto simp: list_all_iff symlink_entry_nil)
  with False show ?thesis
    by (simp add: validateSymlinks_def symlinks_ok_def Let_def del: not_None_eq)
qed

definition post_ok :: "postInstall option \<Rightarrow> bool" where
  "post_ok p = opt_all (\<lambda>p. symlinks_ok (pi_Symlinks p)) p"

lemma postInstall_validate_nil [go_nil]: "postInstall_validate p = None \<longleftrightarrow> post_ok p"
  by (auto simp: postInstall_validate_def post_ok_def validateSymlinks_nil split: option.splits)

lemma normalizeSymlinks_idem [simp]: "normalizeSymlinks (normalizeSymlinks p) = normalizeSymlinks p"
  unfolding normalizeSymlinks_def by (auto intro!: map_vals_cong)

lemma symlinks_ok_normalize:
  "symlinks_ok (pi_Symlinks p) \<Longrightarrow> symlinks_ok (pi_Symlinks (normalizeSymlinks p))"
proof -
  let ?f = "\<lambda>cfg. if sl_Path cfg = [] then cfg
      else cfg\<lparr>sl_Paths := sl_Paths cfg @ [sl_Path cfg], sl_Path := []\<rparr>"
  assume ok: "symlinks_ok (pi_Symlinks p)"
  have one: "symlink_ok (k, ?f c) \<and> newpaths (?f c) = newpaths c" if "symlink_ok (k, c)" for k c
    using that by (auto simp: symlink_ok_def newpaths_def)
  have "list_all symlink_ok (map_vals (\<lambda>k. ?f) m) \<and>
      map (newpaths \<circ> snd) (map_vals (\<lambda>k. ?f) m) = map (newpaths \<circ> snd) m"
    if "list_all symlink_ok m" for m
    using that by (induction m) (auto simp: map_vals_def one)
  with ok show ?thesis
    by (simp add: symlinks_ok_def normalizeSymlinks_def)
qed

lemma post_ok_normalize: "post_ok p \<Longrightarrow> post_ok (map_option normalizeSymlinks p)"
  by (cases p) (auto simp: post_ok_def symlinks_ok_normalize)

lemma symlink_script_perm:
  assumes "wf_map m" and "mset m = mset m'"
  shows "symlink_script (Some \<lparr>pi_Symlinks = m\<rparr>) = symlink_script (Some \<lparr>pi_Symlinks = m'\<rparr>)"
  using map_of_perm [OF assms] SortMapKeys_perm [OF assms(2)] mset_eq_length [OF assms(2)]
  by (simp add: symlink_script_def)

section \<open>Lemmas on base images\<close>

text \<open>
  What \<open>FillDefaults\<close> needs of a base image to return: it is an image source whose command, if any,
  is valid.  This does not follow from \<open>validate\<close>, because \<open>errorIsOnly\<close> accepts every error tree that
  contains \<open>errNoImageSourcePath\<close>.
\<close>

definition base_settled :: "(string \<Rightarrow> gores) \<Rightarrow> baseImage \<Rightarrow> bool" where
  "base_settled dg b =
    (variant_count (bi_Rootfs b) = 1 \<and>
     (case s_DockerImage (bi_Rootfs b) of None \<Rightarrow> False | Some d \<Rightarrow> opt_all (command_ok dg) (di_Cmd d)))"

lemma base_settledE:
  assumes "base_settled dg b"
  obtains ref cmd path incl excl gens where
    "bi_Rootfs b = Source (Some (SourceDockerImage ref cmd)) None None None None None path incl excl gens"
    "opt_all (command_ok dg) cmd"
proof (cases "bi_Rootfs b")
  case (Source img git http ctx bld inl path incl excl gens)
  have "variant_count (Source img git http ctx bld inl path incl excl gens) = 1"
    using assms Source by (simp add: base_settled_def)
  then show thesis
  proof (cases rule: variant_one_cases)
    case (image d)
    with assms Source that show thesis
      by (cases d) (auto simp: base_settled_def)
  qed (use assms Source in \<open>auto simp: base_settled_def\<close>)
qed

lemma generate_errs_no_sentinel: "e \<in> set (generate_errs gens) \<Longrightarrow> \<not> err_is e t"
  by (auto simp: generate_errs_def generator_Validate_def errs_of_def wrap_def split: if_splits)

lemma base_accepted_iff:
  assumes "base_settled dg b"
  shows "(baseImage_validate dg b = None \<or> errorIsOnly (baseImage_validate dg b) errNoImageSourcePath)
    \<longleftrightarrow> s_Path (bi_Rootfs b) = [] \<or> source_ok dg (bi_Rootfs b)"
proof -
  obtain ref cmd path incl excl gens where
    b: "bi_Rootfs b = Source (Some (SourceDockerImage ref cmd)) None None None None None path incl excl gens"
      (is "_ = ?s")
    and cmd: "opt_all (command_ok dg) cmd"
    using assms by (rule base_settledE)
  have cmd_nil: "(case cmd of None \<Rightarrow> None | Some c \<Rightarrow> command_validate dg c) = None"
    using cmd by (cases cmd) (simp_all add: source_validate_nil_all)
  have one: "variant_count ?s = 1" by (simp add: variant_count_def)
  have "errorIsOnly (baseImage_validate dg b) errNoImageSourcePath \<longleftrightarrow>
      err_is_opt (source_validate dg ?s) errNoImageSourcePath"
    by (auto simp: errorIsOnly_def baseImage_validate_def b wrap_def err_is_opt_def
        simp del: source_validate.simps split: option.splits)
  also have "\<dots> \<longleftrightarrow> path = []"
    using one generate_errs_no_sentinel [of _ gens errNoImageSourcePath]
    by (auto simp: validateSourceVariants_def cmd_nil errs_of_def guard_err_def join_errs_def
        err_is_opt_def list_ex_iff Let_def split: if_splits)
  finally show ?thesis
    by (auto simp: baseImage_validate_def b go_nil simp del: source_validate.simps source_ok.simps)
qed

lemma base_settled_fillDefaults:
  assumes "base_settled dg b"
  obtains b' where "baseImage_fillDefaults host b = Some b'" "base_settled dg b'"
    "baseImage_fillDefaults host b' = Some b'" "s_Path (bi_Rootfs b') = s_Path (bi_Rootfs b)"
    "source_ok dg (bi_Rootfs b) \<Longrightarrow> source_ok dg (bi_Rootfs b')"
proof -
  obtain ref cmd path incl excl gens where
    b: "bi_Rootfs b = Source (Some (SourceDockerImage ref cmd)) None None None None None path incl excl gens"
    and cmd: "opt_all (command_ok dg) cmd"
    using assms by (rule base_settledE)
  have "settles (image_fillDefaults host) (\<lambda>d. opt_all (command_ok dg) (di_Cmd d) \<and> di_Ref d = ref)
      (SourceDockerImage ref cmd)"
  proof (cases cmd)
    case None
    then show ?thesis by (simp add: settles_def)
  next
    case (Some c)
    then have "settles (command_fillDefaults host) (command_ok dg) c"
      using cmd source_fillDefaults_settles(3) by simp
    with Some show ?thesis by (auto simp: settles_def)
  qed
  then obtain d' where d': "image_fillDefaults host (SourceDockerImage ref cmd) = Some d'"
    "opt_all (command_ok dg) (di_Cmd d')" "di_Ref d' = ref" "image_fillDefaults host d' = Some d'"
    by (auto simp: settles_def)
  let ?b = "b\<lparr>bi_Rootfs := Source (Some d') None None None None None path incl excl gens\<rparr>"
  have ok: "source_ok dg (bi_Rootfs ?b)" if "source_ok dg (bi_Rootfs b)"
    using that d' unfolding b
    by (cases d') (auto simp: variant_count_def opt_all_def split: option.splits)
  show thesis
    by (rule that [of ?b]) (use d' ok in \<open>auto simp: baseImage_fillDefaults_def b base_settled_def
        variant_count_def split: option.splits\<close>)
qed

section \<open>Lemmas on the image configuration\<close>

definition base_ok :: "(string \<Rightarrow> gores) \<Rightarrow> baseImage \<Rightarrow> bool" where
  "base_ok dg b = (base_settled dg b \<and> (s_Path (bi_Rootfs b) = [] \<or> source_ok dg (bi_Rootfs b)))"

definition image_settled :: "(string \<Rightarrow> gores) \<Rightarrow> imageConfig option \<Rightarrow> bool" where
  "image_settled dg img = opt_all (\<lambda>i. list_all (base_settled dg) (bases_of i)) img"

definition imageConfig_ok :: "(string \<Rightarrow> gores) \<Rightarrow> imageConfig \<Rightarrow> bool" where
  "imageConfig_ok dg i =
    ((ic_Base i = [] \<or> bases_of i = []) \<and> list_all (base_ok dg) (bases_of i) \<and> post_ok (ic_Post i))"

lemma imageConfig_validate_settled:
  assumes "image_settled dg img"
  shows "imageConfig_validate dg img = None \<longleftrightarrow> opt_all (imageConfig_ok dg) img"
proof (cases img)
  case None
  then show ?thesis by (simp add: imageConfig_validate_def)
next
  case (Some i)
  have "base_ok dg b \<longleftrightarrow>
      baseImage_validate dg b = None \<or> errorIsOnly (baseImage_validate dg b) errNoImageSourcePath"
    if "b \<in> set (bases_of i)" for b
    using assms that Some base_accepted_iff [of dg b]
    by (auto simp: base_ok_def image_settled_def list_all_iff)
  then have "list_all (base_ok dg) (bases_of i) \<longleftrightarrow> (\<forall>p \<in> set (enumerate 0 (bases_of i)).
      baseImage_validate dg (snd p) = None
      \<or> errorIsOnly (baseImage_validate dg (snd p)) errNoImageSourcePath)"
    unfolding enumerate_all [of 0 "bases_of i" "\<lambda>b. baseImage_validate dg b = None
      \<or> errorIsOnly (baseImage_validate dg b) errNoImageSourcePath"]
    by (simp add: list_all_iff)
  then show ?thesis
    by (auto simp: Some imageConfig_validate_def imageConfig_ok_def go_nil split: if_splits)
qed

lemma image_of_ref_ok: "base_ok dg (image_of_ref ref)"
  by (simp add: base_ok_def base_settled_def image_of_ref_def variant_count_def)

lemma base_ok_settles: "base_ok dg b \<Longrightarrow> settles (baseImage_fillDefaults host) (base_ok dg) b"
  unfolding base_ok_def settles_def
  by (elim conjE) (erule base_settled_fillDefaults [of dg b host], auto)

interpretation base_defaults: defaulter "baseImage_fillDefaults host" "base_ok dg" for host dg
  by unfold_locales (rule base_ok_settles)

lemma migrate_base_ok: "imageConfig_ok dg i \<Longrightarrow> imageConfig_ok dg (migrate_base i)"
  by (auto simp: imageConfig_ok_def migrate_base_def bases_of_def image_of_ref_ok)

lemma migrate_base_done: "ic_Base (migrate_base i) = []"
  by (simp add: migrate_base_def)

lemma imageConfig_fillDefaults_settles:
  assumes "opt_all (imageConfig_ok dg) img"
  shows "settles (imageConfig_fillDefaults host) (opt_all (imageConfig_ok dg)) img"
proof (cases img)
  case None
  then show ?thesis by (simp add: settles_def imageConfig_fillDefaults_def)
next
  case (Some i)
  let ?i = "migrate_base i"
  have ok: "imageConfig_ok dg ?i" using assms Some by (simp add: migrate_base_ok)
  then obtain bs where bs:
    "those (map (baseImage_fillDefaults host) (bases_of ?i)) = Some bs" "list_all (base_ok dg) bs"
    "those (map (baseImage_fillDefaults host) bs) = Some bs"
    using base_defaults.fill_list [of dg "bases_of ?i" host] by (auto simp: imageConfig_ok_def)
  let ?j = "?i\<lparr>ic_Bases := (if ic_Bases ?i = None then None else Some bs),
      ic_Post := map_option normalizeSymlinks (ic_Post ?i)\<rparr>"
  have fill: "imageConfig_fillDefaults host (Some i) = Some (Some ?j)"
    using bs by (simp add: imageConfig_fillDefaults_def Let_def)
  have bases: "bases_of ?j = (if ic_Bases ?i = None then [] else bs)"
    by (simp add: bases_of_def)
  have base: "ic_Base ?j = []" by (simp add: migrate_base_done)
  have ok': "imageConfig_ok dg ?j"
    using ok bs base bases by (simp add: imageConfig_ok_def post_ok_normalize)
  have "migrate_base ?j = ?j"
    unfolding migrate_base_def [of ?j] using base by simp
  then have "imageConfig_fillDefaults host (Some ?j) = Some (Some ?j)"
    using bs bases
    by (simp add: imageConfig_fillDefaults_def Let_def option.map_comp comp_def)
  with fill ok' show ?thesis
    by (auto simp: Some settles_def)
qed

interpretation image_defaults: defaulter "imageConfig_fillDefaults host" "opt_all (imageConfig_ok dg)" for host dg
  by unfold_locales (rule imageConfig_fillDefaults_settles)

section \<open>Lemmas on merging\<close>

lemma env_index_Some: "env_index env e = Some i \<Longrightarrow> i < length env \<and> env ! i = e"
  by (auto simp: env_index_def in_set_enumerate_eq dest!: map_of_SomeD)

lemma env_index_None: "env_index env e = None \<longleftrightarrow> e \<notin> set env"
proof -
  have "fst ` set (rev (map (\<lambda>(i, e). (e, i)) (enumerate 0 env))) = snd ` set (enumerate 0 env)"
    by (force simp: image_iff split_beta)
  also have "\<dots> = set env"
    by (metis list.set_map map_snd_enumerate)
  finally show ?thesis
    unfolding env_index_def map_of_eq_None_iff by simp
qed

text \<open>The index is keyed by the whole entry, so the merge only ever appends.\<close>

lemma merge_env_append:
  "merge_env dst src = dst @ filter (\<lambda>e. e \<notin> set dst) src"
proof -
  let ?f = "\<lambda>d e. case env_index dst e of Some i \<Rightarrow> d[i := e] | None \<Rightarrow> d @ [e]"
  have "foldl ?f (dst @ xs) src = (dst @ xs) @ filter (\<lambda>e. e \<notin> set dst) src" for xs
  proof (induction src arbitrary: xs)
    case (Cons e src)
    show ?case
    proof (cases "env_index dst e")
      case None
      then have "e \<notin> set dst" by (simp add: env_index_None)
      with None Cons [of "xs @ [e]"] show ?thesis by simp
    next
      case (Some i)
      then have "i < length dst" "dst ! i = e" by (auto dest: env_index_Some)
      then have "(dst @ xs)[i := e] = dst @ xs" and "e \<in> set dst"
        by (auto simp: list_update_append)
      with Some Cons [of xs] show ?thesis by simp
    qed
  qed simp
  from this [of "[]"] show ?thesis by (simp add: merge_env_def)
qed

lemma merge_map_lookup:
  "wf_map src \<Longrightarrow> map_of (merge_map dst src) k =
    (case map_of src k of Some v \<Rightarrow> Some v | None \<Rightarrow> map_of dst k)"
proof (induction src arbitrary: dst)
  case Nil
  then show ?case by (simp add: merge_map_def)
next
  case (Cons p src)
  obtain k' v where p: "p = (k', v)" by (cases p)
  have "map_of src k' = None"
    using Cons.prems p by (simp add: wf_map_def map_of_eq_None_iff)
  moreover have "merge_map dst (p # src) = merge_map (mput k' v dst) src"
    by (simp add: merge_map_def p)
  ultimately show ?case
    using Cons p by (auto simp: wf_map_def update_conv' split: option.splits)
qed

lemma merge_map_wf: "wf_map dst \<Longrightarrow> wf_map (merge_map dst src)"
  by (induction src arbitrary: dst) (auto simp: merge_map_def)

end
