(* ===== verification/Deps.thy ===== *)
theory Deps
  imports Sources_Props
begin

text \<open>
  Package dependencies and extra repositories (deps.go) and the functions of helpers.go that look
  them up for a target.
\<close>

section \<open>Decoding\<close>

text \<open>
  The YAML node of a dependency list after the decoder has read its elements: the legacy sequence
  of names, or a mapping from names to constraints.  The result is the new value of \<open>*l\<close>.
\<close>

datatype depNode =
    SeqNode "string list"
  | MapNode "(string \<times> packageConstraints) list"

definition dependencyList_UnmarshalYAML ::
  "packageDependencyList option \<Rightarrow> depNode \<Rightarrow> packageDependencyList option" where
  "dependencyList_UnmarshalYAML l node =
    (case node of
       SeqNode ls \<Rightarrow>
         if length ls = 0 then l
         else let result = foldl (\<lambda>m v. mput v \<lparr>pc_Version = [], pc_Arch = []\<rparr> m) [] ls in l
     | MapNode vs \<Rightarrow> Some (foldl (\<lambda>m (k, pc). mput k pc m) [] vs))"

section \<open>Build arguments\<close>

text \<open>The version loops of \<open>PackageDependencies.processBuildArgs\<close> return at the first error.\<close>

fun expand_deps :: "argCtx \<Rightarrow> string \<Rightarrow> packageDependencyList \<Rightarrow> packageDependencyList \<times> gores" where
  "expand_deps ax pre [] = ([], None)"
| "expand_deps ax pre ((k, v) # m) =
    (case expand_until ax (\<lambda>i ver. Wrap (pre @ ver)) 0 (pc_Version v) of
       (vs, Some e) \<Rightarrow> ((k, v\<lparr>pc_Version := vs\<rparr>) # m, Some e)
     | (vs, None) \<Rightarrow>
         (case expand_deps ax pre m of (m', r) \<Rightarrow> ((k, v\<lparr>pc_Version := vs\<rparr>) # m', r)))"

definition expand_source_map ::
  "argCtx \<Rightarrow> string \<Rightarrow> source gomap \<Rightarrow> (source gomap \<times> goerr list) option" where
  "expand_source_map ax what m =
    map_option (\<lambda>rs.
        (map2 (\<lambda>(k, s) (s', r). (k, drop_copy s s' r)) m rs,
         concat (map2 (\<lambda>(k, s) (s', r). errs_of (wrap (what @ k) r)) m rs)))
      (those (map (\<lambda>(k, s). source_processBuildArgs ax s) m))"

definition repo_processBuildArgs ::
  "argCtx \<Rightarrow> packageRepositoryConfig \<Rightarrow> (packageRepositoryConfig \<times> gores) option" where
  "repo_processBuildArgs ax r =
    (case expand_source_map ax ''config '' (repo_Config r) of None \<Rightarrow> None
     | Some (cfg, es1) \<Rightarrow>
     (case expand_source_map ax ''key '' (repo_Keys r) of None \<Rightarrow> None
     | Some (keys, es2) \<Rightarrow>
     (case those (map (mount_processBuildArgs ax) (repo_Data r)) of None \<Rightarrow> None
     | Some rs \<Rightarrow>
        (let ms = map2 drop_mount_copy (repo_Data r) rs;
             es3 = concat (map (\<lambda>(i, p). map (Wrap (''data index '' @ nat_str i)) (snd p)) (enumerate 0 ms))
         in Some (r\<lparr>repo_Config := cfg, repo_Keys := keys, repo_Data := map fst ms\<rparr>,
                  join_errs (es1 @ es2 @ es3))))))"

definition deps_processBuildArgs ::
  "argCtx \<Rightarrow> packageDependencies option \<Rightarrow> (packageDependencies option \<times> gores) option" where
  "deps_processBuildArgs ax deps =
    (case deps of None \<Rightarrow> Some (None, None)
     | Some d \<Rightarrow>
     (case expand_deps ax ''build version '' (pd_Build d) of
        (bs, Some e) \<Rightarrow> Some (Some (d\<lparr>pd_Build := bs\<rparr>), Some e)
      | (bs, None) \<Rightarrow>
     (case expand_deps ax ''runtime version '' (pd_Runtime d) of
        (rt, Some e) \<Rightarrow> Some (Some (d\<lparr>pd_Build := bs, pd_Runtime := rt\<rparr>), Some e)
      | (rt, None) \<Rightarrow>
     (case those (map (repo_processBuildArgs ax) (pd_ExtraRepos d)) of None \<Rightarrow> None
      | Some rs \<Rightarrow>
          Some (Some (d\<lparr>pd_Build := bs, pd_Runtime := rt, pd_ExtraRepos := map fst rs\<rparr>),
                join_errs (concat (map (\<lambda>(i, r). errs_of (wrap (''extra repos index '' @ nat_str i) (snd r)))
                  (enumerate 0 rs))))))))"

section \<open>Defaults and validation\<close>

definition fill_source_map ::
  "(string \<Rightarrow> string option) \<Rightarrow> source gomap \<Rightarrow> source gomap option" where
  "fill_source_map host m =
    those (map (\<lambda>(k, s). map_option (Pair k) (source_fillDefaults host s)) m)"

definition gpgKeyPerms :: fileMode where "gpgKeyPerms = 420"

definition key_permissions :: "source \<Rightarrow> source" where
  "key_permissions s =
    Source (s_DockerImage s) (s_Git s) (map_option (\<lambda>h. h\<lparr>http_Permissions := gpgKeyPerms\<rparr>) (s_HTTP s))
      (s_Context s) (s_Build s) (s_Inline s) (s_Path s) (s_Includes s) (s_Excludes s) (s_Generate s)"

definition repo_fillDefaults ::
  "(string \<Rightarrow> string option) \<Rightarrow> packageRepositoryConfig \<Rightarrow> packageRepositoryConfig option" where
  "repo_fillDefaults host r =
    (let envs = (if length (repo_Envs r) = 0 then [''build'', ''install'', ''test''] else repo_Envs r) in
     case fill_source_map host (repo_Config r) of None \<Rightarrow> None
     | Some cfg \<Rightarrow>
     (case fill_source_map host (repo_Keys r) of None \<Rightarrow> None
     | Some keys \<Rightarrow>
     (case those (map (mount_fillDefaults host) (repo_Data r)) of None \<Rightarrow> None
     | Some ms \<Rightarrow>
         Some (r\<lparr>repo_Envs := envs, repo_Config := cfg,
                 repo_Keys := map_vals (\<lambda>k s. key_permissions s) keys, repo_Data := ms\<rparr>))))"

definition deps_fillDefaults ::
  "(string \<Rightarrow> string option) \<Rightarrow> packageDependencies option \<Rightarrow> packageDependencies option option" where
  "deps_fillDefaults host deps =
    (case deps of None \<Rightarrow> Some None
     | Some d \<Rightarrow>
         (case those (map (repo_fillDefaults host) (pd_ExtraRepos d)) of None \<Rightarrow> None
          | Some rs \<Rightarrow> Some (Some (d\<lparr>pd_ExtraRepos := rs\<rparr>))))"

definition repo_validate :: "(string \<Rightarrow> gores) \<Rightarrow> packageRepositoryConfig \<Rightarrow> gores" where
  "repo_validate dg r = join_errs
    (concat (map (\<lambda>(k, s). errs_of (wrap (''key '' @ k) (source_validate dg s))) (repo_Keys r))
     @ concat (map (\<lambda>(k, s). errs_of (wrap (''config '' @ k) (source_validate dg s))) (repo_Config r))
     @ concat (map (\<lambda>m. errs_of (wrap (''data mount path '' @ mnt_Dest m) (mount_validate dg m))) (repo_Data r)))"

definition deps_validate :: "(string \<Rightarrow> gores) \<Rightarrow> packageDependencies option \<Rightarrow> gores" where
  "deps_validate dg deps =
    (case deps of None \<Rightarrow> None
     | Some d \<Rightarrow> join_errs (concat (map (\<lambda>(i, r). errs_of (wrap (''extra repo '' @ nat_str i) (repo_validate dg r)))
         (enumerate 0 (pd_ExtraRepos d)))))"

section \<open>Dependencies of a target\<close>

definition if_any :: "'a list \<Rightarrow> 'a list \<Rightarrow> 'a list" where
  "if_any target base = (if 0 < length target then target else base)"

definition MergeDependencies ::
  "packageDependencies option \<Rightarrow> packageDependencies option \<Rightarrow> packageDependencies option" where
  "MergeDependencies base target =
    (case base of None \<Rightarrow> target
     | Some b \<Rightarrow>
         (case target of None \<Rightarrow> base
          | Some t \<Rightarrow> Some \<lparr>pd_Build = if_any (pd_Build t) (pd_Build b),
              pd_Runtime = if_any (pd_Runtime t) (pd_Runtime b),
              pd_Recommends = if_any (pd_Recommends t) (pd_Recommends b),
              pd_Sysext = None,
              pd_Test = if_any (pd_Test t) (pd_Test b),
              pd_ExtraRepos = if_any (pd_ExtraRepos t) (pd_ExtraRepos b)\<rparr>))"

definition GetPackageDeps :: "spec \<Rightarrow> string \<Rightarrow> packageDependencies option" where
  "GetPackageDeps sp target =
    (case map_of (sp_Targets sp) target of
       None \<Rightarrow> (case sp_Dependencies sp of None \<Rightarrow> Some empty_deps | Some d \<Rightarrow> Some d)
     | Some t \<Rightarrow> MergeDependencies (sp_Dependencies sp) (tg_Dependencies t))"

text \<open>The getters of \<open>PackageDependencies\<close> accept a nil receiver.\<close>

definition GetDep :: "(packageDependencies \<Rightarrow> packageDependencyList) \<Rightarrow> packageDependencies option \<Rightarrow> packageDependencyList" where
  "GetDep f p = (case p of None \<Rightarrow> [] | Some d \<Rightarrow> f d)"

abbreviation GetBuild :: "packageDependencies option \<Rightarrow> packageDependencyList" where
  "GetBuild \<equiv> GetDep pd_Build"

abbreviation GetRuntime :: "packageDependencies option \<Rightarrow> packageDependencyList" where
  "GetRuntime \<equiv> GetDep pd_Runtime"

abbreviation GetRecommends :: "packageDependencies option \<Rightarrow> packageDependencyList" where
  "GetRecommends \<equiv> GetDep pd_Recommends"

text \<open>A nil map of extension dependencies is \<^term>\<open>None\<close>: the download distinguishes it from an empty one.\<close>

definition GetSysext :: "packageDependencies option \<Rightarrow> packageDependencyList option" where
  "GetSysext p = (case p of None \<Rightarrow> None | Some d \<Rightarrow> pd_Sysext d)"

abbreviation GetTest :: "packageDependencies option \<Rightarrow> packageDependencyList" where
  "GetTest \<equiv> GetDep pd_Test"

definition GetExtraRepos :: "packageRepositoryConfig list \<Rightarrow> string \<Rightarrow> packageRepositoryConfig list" where
  "GetExtraRepos repos env = filter (\<lambda>r. env \<in> set (repo_Envs r)) repos"

definition spec_repos :: "spec \<Rightarrow> string \<Rightarrow> string \<Rightarrow> packageRepositoryConfig list" where
  "spec_repos sp targetKey env =
    (case GetPackageDeps sp targetKey of None \<Rightarrow> [] | Some d \<Rightarrow> GetExtraRepos (pd_ExtraRepos d) env)"

definition HasGolang :: "spec \<Rightarrow> string \<Rightarrow> bool" where
  "HasGolang sp targetKey =
    list_ex (\<lambda>(dep, c). dep = ''golang'' \<or> dep = ''msft-golang'' \<or> HasPrefix dep ''golang-'')
      (GetBuild (GetPackageDeps sp targetKey))"

definition HasNpm :: "spec \<Rightarrow> string \<Rightarrow> bool" where
  "HasNpm sp targetKey = list_ex (\<lambda>(dep, c). dep = ''npm'') (GetBuild (GetPackageDeps sp targetKey))"

definition target_or_spec ::
  "(target \<Rightarrow> packageDependencyList option) \<Rightarrow> (spec \<Rightarrow> packageDependencyList option) \<Rightarrow>
   spec \<Rightarrow> string \<Rightarrow> packageDependencyList option" where
  "target_or_spec ft fs sp targetKey =
    (case map_of (sp_Targets sp) targetKey of
       None \<Rightarrow> fs sp
     | Some t \<Rightarrow> (case ft t of Some p \<Rightarrow> Some p | None \<Rightarrow> fs sp))"

definition GetProvides :: "spec \<Rightarrow> string \<Rightarrow> packageDependencyList option" where
  "GetProvides = target_or_spec tg_Provides sp_Provides"

definition GetReplaces :: "spec \<Rightarrow> string \<Rightarrow> packageDependencyList option" where
  "GetReplaces = target_or_spec tg_Replaces sp_Replaces"

definition GetConflicts :: "spec \<Rightarrow> string \<Rightarrow> packageDependencyList option" where
  "GetConflicts = target_or_spec tg_Conflicts sp_Conflicts"

definition GetArtifacts :: "spec \<Rightarrow> string \<Rightarrow> artifacts" where
  "GetArtifacts sp targetKey =
    (case map_of (sp_Targets sp) targetKey of
       None \<Rightarrow> sp_Artifacts sp
     | Some t \<Rightarrow> (case tg_Artifacts t of Some a \<Rightarrow> a | None \<Rightarrow> sp_Artifacts sp))"

text \<open>
  The frontend of a signer is an embedded pointer; reading the image through a nil pointer panics, which is
  the outer \<^term>\<open>None\<close>.
\<close>

definition hasValidSigner :: "packageConfig option \<Rightarrow> bool option" where
  "hasValidSigner pc =
    (case pc of None \<Rightarrow> Some False
     | Some c \<Rightarrow>
         (case pcfg_Signer c of None \<Rightarrow> Some False
          | Some s \<Rightarrow> map_option (\<lambda>f. fe_Image f \<noteq> []) (ps_Frontend s)))"

definition signer_of :: "packageConfig option \<Rightarrow> packageSigner option" where
  "signer_of pc = (case pc of None \<Rightarrow> None | Some c \<Rightarrow> pcfg_Signer c)"

definition GetSigner :: "spec \<Rightarrow> string \<Rightarrow> (packageSigner option \<times> bool) option" where
  "GetSigner sp targetKey =
    (case hasValidSigner (sp_PackageConfig sp) of
       None \<Rightarrow> None
     | Some root \<Rightarrow>
         (case (case map_of (sp_Targets sp) targetKey of
                  None \<Rightarrow> Some None
                | Some t \<Rightarrow>
                    map_option (\<lambda>v. if v then signer_of (tg_PackageConfig t) else None)
                      (hasValidSigner (tg_PackageConfig t))) of
            None \<Rightarrow> None
          | Some (Some signer) \<Rightarrow> Some (Some signer, root)
          | Some None \<Rightarrow> Some (if root then signer_of (sp_PackageConfig sp) else None, False)))"

text \<open>Every signer of the spec has a frontend.\<close>

definition signer_set :: "packageConfig option \<Rightarrow> bool" where
  "signer_set pc = (case signer_of pc of None \<Rightarrow> True | Some s \<Rightarrow> ps_Frontend s \<noteq> None)"

definition signers_set :: "spec \<Rightarrow> bool" where
  "signers_set sp =
    (signer_set (sp_PackageConfig sp) \<and> list_all (\<lambda>(k, t). signer_set (tg_PackageConfig t)) (sp_Targets sp))"

lemma hasValidSigner_set: "hasValidSigner pc \<noteq> None \<longleftrightarrow> signer_set pc"
  by (auto simp: hasValidSigner_def signer_set_def signer_of_def split: option.splits)

lemma valid_signer_frontend: "hasValidSigner pc = Some True \<Longrightarrow> \<exists>s f. signer_of pc = Some s \<and> ps_Frontend s = Some f"
  by (auto simp: hasValidSigner_def signer_of_def split: option.splits)

lemma GetSigner_total:
  assumes "signers_set sp"
  shows "\<exists>cfg o'. GetSigner sp key = Some (cfg, o') \<and> (case cfg of None \<Rightarrow> True | Some s \<Rightarrow> ps_Frontend s \<noteq> None)"
proof -
  have root: "hasValidSigner (sp_PackageConfig sp) \<noteq> None"
    using assms unfolding hasValidSigner_set by (simp add: signers_set_def)
  have target: "hasValidSigner (tg_PackageConfig t) \<noteq> None" if "map_of (sp_Targets sp) key = Some t" for t
    using assms map_of_SomeD [OF that] unfolding hasValidSigner_set by (auto simp: signers_set_def list_all_iff)
  show ?thesis
    using root target assms valid_signer_frontend [of "sp_PackageConfig sp"]
    by (auto simp: GetSigner_def signers_set_def hasValidSigner_set split: option.splits dest!: valid_signer_frontend)
qed

section \<open>Lemmas\<close>

definition repo_ok :: "(string \<Rightarrow> gores) \<Rightarrow> packageRepositoryConfig \<Rightarrow> bool" where
  "repo_ok dg r =
    (list_all (\<lambda>p. source_ok dg (snd p)) (repo_Keys r) \<and> list_all (\<lambda>p. source_ok dg (snd p)) (repo_Config r)
     \<and> list_all (mount_ok dg) (repo_Data r))"

definition deps_ok :: "(string \<Rightarrow> gores) \<Rightarrow> packageDependencies option \<Rightarrow> bool" where
  "deps_ok dg d = opt_all (\<lambda>d. list_all (repo_ok dg) (pd_ExtraRepos d)) d"

lemma repo_validate_nil [go_nil]: "repo_validate dg r = None \<longleftrightarrow> repo_ok dg r"
  by (auto simp: repo_validate_def repo_ok_def list_all_iff go_nil)

lemma deps_validate_nil [go_nil]: "deps_validate dg d = None \<longleftrightarrow> deps_ok dg d"
proof (cases d)
  case (Some d')
  then show ?thesis
    using enumerate_all [of 0 "pd_ExtraRepos d'" "repo_ok dg"]
    by (auto simp: deps_validate_def deps_ok_def list_all_iff go_nil split_beta)
qed (simp add: deps_validate_def deps_ok_def)

lemma fill_source_map_settles:
  assumes "list_all (\<lambda>p. source_ok dg (snd p)) m"
  shows "settles (fill_source_map host) (list_all (\<lambda>p. source_ok dg (snd p))) m"
  using source_defaults.fill_map_settles [OF assms, of host]
  unfolding settles_def fill_source_map_def .

lemma key_permissions_ok [simp]: "source_ok dg (key_permissions s) = source_ok dg s"
  by (cases s) (auto simp: key_permissions_def variant_count_def is_set_def http_ok_def opt_all_def
      split: option.splits)

lemma key_permissions_idem [simp]: "key_permissions (key_permissions s) = key_permissions s"
  by (simp add: key_permissions_def option.map_comp comp_def)

lemma source_fillDefaults_key_permissions:
  assumes "source_ok dg s" and "source_fillDefaults host s = Some s"
  shows "source_fillDefaults host (key_permissions s) = Some (key_permissions s)"
proof (cases s)
  case (Source img git http ctx bld inl path incl excl gens)
  have "variant_count (Source img git http ctx bld inl path incl excl gens) = 1"
    using assms(1) Source by simp
  then show ?thesis
    by (cases rule: variant_one_cases)
      (use assms Source in \<open>auto simp: key_permissions_def split: option.splits\<close>)
qed

lemma fill_keys_again:
  assumes "fill_source_map host m = Some m" and "list_all (\<lambda>p. source_ok dg (snd p)) m"
  shows "fill_source_map host (map_vals (\<lambda>k. key_permissions) m) = Some (map_vals (\<lambda>k. key_permissions) m)"
  using assms
proof (induction m)
  case Nil
  then show ?case by (simp add: fill_source_map_def map_vals_def)
next
  case (Cons p m)
  obtain k s where p: "p = (k, s)" by (cases p)
  have "source_fillDefaults host s = Some s" and "fill_source_map host m = Some m"
    using Cons.prems(1) by (auto simp: p fill_source_map_def split: option.splits)
  with Cons source_fillDefaults_key_permissions [of dg s host] show ?case
    by (simp add: p fill_source_map_def map_vals_def)
qed

lemma repo_fillDefaults_settles:
  assumes "repo_ok dg r"
  shows "settles (repo_fillDefaults host) (repo_ok dg) r"
proof -
  have c: "settles (fill_source_map host) (list_all (\<lambda>p. source_ok dg (snd p))) (repo_Config r)"
    and k: "settles (fill_source_map host) (list_all (\<lambda>p. source_ok dg (snd p))) (repo_Keys r)"
    using assms by (simp_all add: repo_ok_def fill_source_map_settles)
  obtain cfg where cfg: "fill_source_map host (repo_Config r) = Some cfg"
    "list_all (\<lambda>p. source_ok dg (snd p)) cfg" "fill_source_map host cfg = Some cfg"
    using c by (auto simp: settles_def)
  obtain keys where keys: "fill_source_map host (repo_Keys r) = Some keys"
    "list_all (\<lambda>p. source_ok dg (snd p)) keys" "fill_source_map host keys = Some keys"
    using k by (auto simp: settles_def)
  obtain ms where
    ms: "those (map (mount_fillDefaults host) (repo_Data r)) = Some ms" "list_all (mount_ok dg) ms"
      "those (map (mount_fillDefaults host) ms) = Some ms"
    using assms mount_defaults.fill_list [of dg "repo_Data r" host] by (auto simp: repo_ok_def)
  let ?keys = "map_vals (\<lambda>k. key_permissions) keys"
  have "fill_source_map host ?keys = Some ?keys"
    using fill_keys_again [OF keys(3,2)] .
  moreover have "list_all (\<lambda>p. source_ok dg (snd p)) ?keys"
    using keys(2) by (auto simp: list_all_iff map_vals_def)
  ultimately show ?thesis
    using cfg keys ms by (auto simp: settles_def repo_fillDefaults_def repo_ok_def Let_def)
qed

interpretation repository_defaults: defaulter "repo_fillDefaults host" "repo_ok dg" for host dg
  by unfold_locales (rule repo_fillDefaults_settles)

lemma deps_fillDefaults_settles:
  assumes "deps_ok dg d"
  shows "settles (deps_fillDefaults host) (deps_ok dg) d"
proof (cases d)
  case None
  then show ?thesis by (simp add: settles_def deps_fillDefaults_def deps_ok_def)
next
  case (Some d')
  then have "list_all (repo_ok dg) (pd_ExtraRepos d')"
    using assms by (simp add: deps_ok_def)
  then obtain rs where
    "those (map (repo_fillDefaults host) (pd_ExtraRepos d')) = Some rs" "list_all (repo_ok dg) rs"
    "those (map (repo_fillDefaults host) rs) = Some rs"
    by (rule repository_defaults.fill_list)
  then show ?thesis
    by (simp add: Some settles_def deps_fillDefaults_def deps_ok_def)
qed

interpretation deps_defaults: defaulter "deps_fillDefaults host" "deps_ok dg" for host dg
  by unfold_locales (rule deps_fillDefaults_settles)

end
