(* ===== verification/Cache.thy ===== *)
theory Cache
  imports Sources_Props
begin

text \<open>
  Build caches (cache.go): validation of a cache configuration and the run option it becomes.

  A run option is modelled by what it changes of an \<open>llb.ExecInfo\<close>: the platform it reads, and the
  mounts, environment variables and ssh sockets it adds, in order.  The states that buildkit would
  build for a mount (a scratch cache directory, a downloaded sccache, a generated bazelrc) are
  described by constructors.  Third-party parameters: \<open>fmt\<close> is \<open>platforms.Format\<close>, \<open>dflt\<close> is
  \<open>platforms.DefaultSpec\<close>.
\<close>

section \<open>Platforms and run state\<close>

record platform =
  pl_OS :: string
  pl_Architecture :: string
  pl_Variant :: string
  pl_OSVersion :: string
  pl_OSFeatures :: "string list option"

datatype sharing = CacheMountShared | CacheMountPrivate | CacheMountLocked

datatype mountState =
    PersistentCacheDir string sharing
  | SccacheBinary string
  | BazelRC string string

record execInfo =
  ei_Platform :: "platform option"
  ei_Mounts :: "(string \<times> mountState) list"
  ei_Env :: "(string \<times> string) list"
  ei_SSH :: "(string \<times> string) list"

definition AddMount :: "string \<Rightarrow> mountState \<Rightarrow> execInfo \<Rightarrow> execInfo" where
  "AddMount dest st ei = ei\<lparr>ei_Mounts := ei_Mounts ei @ [(dest, st)]\<rparr>"

definition AddEnv :: "string \<Rightarrow> string \<Rightarrow> execInfo \<Rightarrow> execInfo" where
  "AddEnv k v ei = ei\<lparr>ei_Env := ei_Env ei @ [(k, v)]\<rparr>"

definition AddSSHSocket :: "string \<Rightarrow> string \<Rightarrow> execInfo \<Rightarrow> execInfo" where
  "AddSSHSocket sid target ei = ei\<lparr>ei_SSH := ei_SSH ei @ [(sid, target)]\<rparr>"

text \<open>\<open>CacheInfo\<close>: the platform each cache option function sets.\<close>

record cacheInfo =
  ci_Dir :: "platform option"
  ci_GoBuild :: "platform option"
  ci_RustSCCache :: "platform option"
  ci_Bazel :: "platform option"

definition resolve_platform :: "platform \<Rightarrow> platform option \<Rightarrow> platform option \<Rightarrow> platform" where
  "resolve_platform dflt ei_p info_p =
    (case ei_p of Some p \<Rightarrow> p | None \<Rightarrow> (case info_p of Some p \<Rightarrow> p | None \<Rightarrow> dflt))"

section \<open>Sccache download\<close>

definition sccache_arch :: "platform \<Rightarrow> string \<times> string" where
  "sccache_arch p =
    (if pl_Architecture p = ''amd64'' then
       (''x86_64-unknown-linux-musl'', ''1fbb35e135660d04a2d5e42b59c7874d39b3deb17de56330b25b713ec59f849b'')
     else if pl_Architecture p = ''arm64'' then
       (''aarch64-unknown-linux-musl'', ''d6a1ce4acd02b937cd61bc675a8be029a60f7bc167594c33d75732bbc0a07400'')
     else if pl_Architecture p = ''arm'' \<and> pl_Variant p = ''v7'' then
       (''armv7-unknown-linux-musleabi'', ''ab7af4e5c78aa71f38145e7bed41dd944d99ce5a00339424d927f8bbd8b61b78'')
     else
       (''x86_64-unknown-linux-musl'', ''1fbb35e135660d04a2d5e42b59c7874d39b3deb17de56330b25b713ec59f849b''))"

definition getSccacheSource :: "platform \<Rightarrow> source" where
  "getSccacheSource p =
    (let (arch, checksum) = sccache_arch p;
         url = ''https://github.com/mozilla/sccache/releases/download'' @ ''/'' @ ''v0.10.0''
               @ ''/sccache-'' @ ''v0.10.0'' @ ''-'' @ arch @ ''.tar.gz''
     in Source None None
          (Some \<lparr>http_URL = url, http_Digest = ''sha256:'' @ checksum, http_Permissions = 0\<rparr>)
          None None None [] None None [])"

section \<open>Validation\<close>

definition is_abs :: "string \<Rightarrow> bool" where
  "is_abs p = HasPrefix p ''/''"

definition valid_sharing :: "string \<Rightarrow> bool" where
  "valid_sharing s = (s \<in> {''shared'', ''locked'', ''private'', []})"

definition cacheDir_validate :: "cacheDir \<Rightarrow> gores" where
  "cacheDir_validate c = join_errs
    (guard_err (cd_Dest c = []) (Msg ''cache dir dest is required'')
     @ guard_err (\<not> is_abs (cd_Dest c)) (Msg (''cache dir dest must be an absolute path: '' @ cd_Dest c))
     @ guard_err (\<not> valid_sharing (cd_Sharing c))
         (Msg (''invalid cache dir sharing mode: '' @ cd_Sharing c @ '', valid values: [shared locked private]'')))"

definition cacheConfig_validate :: "cacheConfig \<Rightarrow> gores" where
  "cacheConfig_validate c =
    (if is_set (cc_Dir c) + is_set (cc_GoBuild c) + is_set (cc_RustSCCache c) + is_set (cc_Bazel c) \<noteq> 1
     then Some (Msg ''invalid cache config: exactly one of (dir, gobuild, rustsccache, bazel) must be set'')
     else join_errs (case cc_Dir c of None \<Rightarrow> []
            | Some d \<Rightarrow> errs_of (wrap ''invalid cache dir config'' (cacheDir_validate d))))"

section \<open>Run options\<close>

text \<open>The run options panic on a configuration that was not validated: the value \<^term>\<open>None\<close>.\<close>

definition sharing_mode :: "string \<Rightarrow> sharing option" where
  "sharing_mode s =
    (if s = ''shared'' \<or> s = [] then Some CacheMountShared
     else if s = ''locked'' then Some CacheMountLocked
     else if s = ''private'' then Some CacheMountPrivate
     else None)"

definition cacheDir_key ::
  "(platform \<Rightarrow> string) \<Rightarrow> platform \<Rightarrow> string \<Rightarrow> platform option \<Rightarrow> platform option \<Rightarrow> cacheDir \<Rightarrow> string" where
  "cacheDir_key fmt dflt distroKey ei_p info_p c =
    (let key = (if cd_Key c = [] then cd_Dest c else cd_Key c) in
     if cd_NoAutoNamespace c then key
     else distroKey @ ''-'' @ fmt (resolve_platform dflt ei_p info_p) @ ''-'' @ key)"

definition cacheDir_ToRunOption ::
  "(platform \<Rightarrow> string) \<Rightarrow> platform \<Rightarrow> string \<Rightarrow> platform option \<Rightarrow> cacheDir \<Rightarrow> execInfo \<Rightarrow> execInfo option" where
  "cacheDir_ToRunOption fmt dflt distroKey info_p c ei =
    (case sharing_mode (cd_Sharing c) of
       None \<Rightarrow> None
     | Some sh \<Rightarrow>
         Some (AddMount (cd_Dest c)
           (PersistentCacheDir (cacheDir_key fmt dflt distroKey (ei_Platform ei) info_p c) sh) ei))"

definition scoped_key :: "string \<Rightarrow> string \<Rightarrow> string" where
  "scoped_key key scope = (if scope \<noteq> [] then key @ ''-'' @ scope else key)"

definition goBuildCacheDir :: string where "goBuildCacheDir = ''/tmp/dalec/gobuild-cache''"

definition goBuild_key :: "(platform \<Rightarrow> string) \<Rightarrow> string \<Rightarrow> platform \<Rightarrow> string \<Rightarrow> string" where
  "goBuild_key fmt distroKey p scope =
    scoped_key (distroKey @ ''-'' @ fmt p @ ''-dalec-gobuildcache'') scope"

definition goBuild_ToRunOption ::
  "(platform \<Rightarrow> string) \<Rightarrow> platform \<Rightarrow> string \<Rightarrow> platform option \<Rightarrow> goBuildCache \<Rightarrow> execInfo \<Rightarrow> execInfo" where
  "goBuild_ToRunOption fmt dflt distroKey info_p c ei =
    (if gbc_Disabled c then ei
     else let p = resolve_platform dflt (ei_Platform ei) info_p in
       AddEnv ''GOCACHE'' goBuildCacheDir
         (AddMount goBuildCacheDir
           (PersistentCacheDir (goBuild_key fmt distroKey p (gbc_Scope c)) CacheMountShared) ei))"

definition sccacheCacheDir :: string where "sccacheCacheDir = ''/tmp/dalec/sccache-cache''"

definition sccacheBinary :: string where "sccacheBinary = ''/tmp/internal/dalec/sccache/sccache''"

text \<open>
  The binary mount is built from the download URL alone: \<open>llb.HTTP\<close> is called without the checksum
  of the source.
\<close>

definition sccache_url :: "platform \<Rightarrow> string" where
  "sccache_url p = (case s_HTTP (getSccacheSource p) of None \<Rightarrow> [] | Some h \<Rightarrow> http_URL h)"

definition sccache_ToRunOption ::
  "(platform \<Rightarrow> string) \<Rightarrow> platform \<Rightarrow> string \<Rightarrow> platform option \<Rightarrow> scCache \<Rightarrow> execInfo \<Rightarrow> execInfo" where
  "sccache_ToRunOption fmt dflt distroKey info_p c ei =
    (let p = resolve_platform dflt (ei_Platform ei) info_p;
         key = scoped_key (distroKey @ ''-'' @ fmt p @ ''-dalec-rustsccache'') (scc_Scope c)
     in AddEnv ''RUSTC_WRAPPER'' sccacheBinary
          (AddMount sccacheBinary (SccacheBinary (sccache_url p))
            (AddEnv ''SCCACHE_DIR'' sccacheCacheDir
              (AddMount sccacheCacheDir (PersistentCacheDir key CacheMountShared) ei))))"

definition BazelDefaultSocketID :: string where "BazelDefaultSocketID = ''bazel-default''"

definition bazelCacheDir :: string where "bazelCacheDir = ''/tmp/dalec/bazel-local-cache''"

definition bazelSockPath :: string where "bazelSockPath = ''/tmp/dalec/bazel-remote.sock''"

definition bazelrc :: string where
  "bazelrc = nl @ ''build --disk_cache='' @ bazelCacheDir @ nl @ ''fetch --disk_cache='' @ bazelCacheDir @ nl"

definition bazel_check_script :: "string \<Rightarrow> string" where
  "bazel_check_script scope =
    (let checkSockPath = Join [Dir bazelSockPath, scope, Base bazelSockPath] in
     ''#!/usr/bin/env sh'' @ nl @ nl
     @ ''if [ -S '' @ Quote checkSockPath @ '' ]; then'' @ nl
     @ tab @ ''echo '' @ dq @ ''build --remote_cache=unix:'' @ bazelSockPath @ dq @ '' >> /tmp/dalec/bazelrc'' @ nl
     @ tab @ ''echo '' @ dq @ ''fetch --remote_cache=unix:'' @ bazelSockPath @ dq @ '' >> /tmp/dalec/bazelrc'' @ nl
     @ ''fi'' @ nl)"

definition bazel_ToRunOption ::
  "(platform \<Rightarrow> string) \<Rightarrow> platform \<Rightarrow> string \<Rightarrow> platform option \<Rightarrow> bazelCache \<Rightarrow> execInfo \<Rightarrow> execInfo" where
  "bazel_ToRunOption fmt dflt distroKey info_p c ei =
    (let p = resolve_platform dflt (ei_Platform ei) info_p;
         key = scoped_key (distroKey @ ''-'' @ fmt p @ ''-dalec-bazelcache'') (bzl_Scope c)
     in AddSSHSocket BazelDefaultSocketID bazelSockPath
          (AddMount bazelCacheDir (PersistentCacheDir key CacheMountShared)
            (AddMount ''/etc/bazel.bazelrc'' (BazelRC bazelrc (bazel_check_script (bzl_Scope c))) ei)))"

definition cacheConfig_ToRunOption ::
  "(platform \<Rightarrow> string) \<Rightarrow> platform \<Rightarrow> string \<Rightarrow> cacheInfo \<Rightarrow> cacheConfig \<Rightarrow> execInfo \<Rightarrow> execInfo option" where
  "cacheConfig_ToRunOption fmt dflt distroKey info c ei =
    (case cc_Dir c of Some d \<Rightarrow> cacheDir_ToRunOption fmt dflt distroKey (ci_Dir info) d ei | None \<Rightarrow>
    (case cc_GoBuild c of Some g \<Rightarrow> Some (goBuild_ToRunOption fmt dflt distroKey (ci_GoBuild info) g ei) | None \<Rightarrow>
    (case cc_RustSCCache c of Some r \<Rightarrow> Some (sccache_ToRunOption fmt dflt distroKey (ci_RustSCCache info) r ei) | None \<Rightarrow>
    (case cc_Bazel c of Some b \<Rightarrow> Some (bazel_ToRunOption fmt dflt distroKey (ci_Bazel info) b ei) | None \<Rightarrow> None))))"

text \<open>
  The ssh sockets that a run with a cache asks the client for: the run that prepares the bazelrc of a bazel
  cache mounts the default socket of bazel to look for it, and the build itself mounts it again.
\<close>

definition mount_sockets :: "mountState \<Rightarrow> string list" where
  "mount_sockets st = (case st of BazelRC _ _ \<Rightarrow> [BazelDefaultSocketID] | _ \<Rightarrow> [])"

definition exec_sockets :: "execInfo \<Rightarrow> string list" where
  "exec_sockets ei = concat (map (mount_sockets \<circ> snd) (ei_Mounts ei)) @ map fst (ei_SSH ei)"

definition cache_sockets :: "cacheConfig \<Rightarrow> string list" where
  "cache_sockets c =
    (if cc_Dir c = None \<and> cc_GoBuild c = None \<and> cc_RustSCCache c = None \<and> cc_Bazel c \<noteq> None
     then [BazelDefaultSocketID, BazelDefaultSocketID] else [])"

section \<open>Lemmas\<close>

lemma cache_option_sockets:
  assumes "cacheConfig_ToRunOption fmt dflt distroKey info c ei = Some ei'"
  shows "mset (exec_sockets ei') = mset (exec_sockets ei) + mset (cache_sockets c)"
  using assms
  by (auto simp: cacheConfig_ToRunOption_def cacheDir_ToRunOption_def goBuild_ToRunOption_def sccache_ToRunOption_def
      bazel_ToRunOption_def AddMount_def AddEnv_def AddSSHSocket_def Let_def exec_sockets_def cache_sockets_def
      mount_sockets_def split: option.splits if_splits)

definition cacheDir_ok :: "cacheDir \<Rightarrow> bool" where
  "cacheDir_ok c = (is_abs (cd_Dest c) \<and> sharing_mode (cd_Sharing c) \<noteq> None)"

lemma sharing_mode_valid: "sharing_mode s \<noteq> None \<longleftrightarrow> valid_sharing s"
  by (auto simp: sharing_mode_def valid_sharing_def)

lemma cacheDir_validate_nil [go_nil]: "cacheDir_validate c = None \<longleftrightarrow> cacheDir_ok c"
  using sharing_mode_valid [of "cd_Sharing c"]
  by (auto simp: cacheDir_validate_def cacheDir_ok_def is_abs_def HasPrefix_def)

definition cacheConfig_ok :: "cacheConfig \<Rightarrow> bool" where
  "cacheConfig_ok c =
    (is_set (cc_Dir c) + is_set (cc_GoBuild c) + is_set (cc_RustSCCache c) + is_set (cc_Bazel c) = 1
     \<and> opt_all cacheDir_ok (cc_Dir c))"

lemma cacheConfig_validate_nil [go_nil]: "cacheConfig_validate c = None \<longleftrightarrow> cacheConfig_ok c"
  by (auto simp: cacheConfig_validate_def cacheConfig_ok_def go_nil split: option.splits)

lemma cacheConfig_ToRunOption_returns:
  "cacheConfig_ok c \<Longrightarrow> cacheConfig_ToRunOption fmt dflt distroKey info c ei \<noteq> None"
  by (auto simp: cacheConfig_ok_def cacheConfig_ToRunOption_def cacheDir_ToRunOption_def cacheDir_ok_def
      split: option.splits)

text \<open>A run option only appends: what was mounted and set before stays in front.\<close>

lemma cacheConfig_ToRunOption_appends:
  assumes "cacheConfig_ToRunOption fmt dflt distroKey info c ei = Some ei'"
  shows "prefix (ei_Mounts ei) (ei_Mounts ei')" and "prefix (ei_Env ei) (ei_Env ei')"
    and "ei_Platform ei' = ei_Platform ei"
  using assms
  by (auto simp: cacheConfig_ToRunOption_def cacheDir_ToRunOption_def goBuild_ToRunOption_def
      sccache_ToRunOption_def bazel_ToRunOption_def AddMount_def AddEnv_def AddSSHSocket_def Let_def
      split: option.splits if_splits)

end
