(* ===== verification/Tests.thy ===== *)
theory Tests
  imports Sources_Props
begin

text \<open>
  Package tests (tests.go): the checks on output streams and files, their argument expansion and
  the validation of a test.

  Third-party parameter: \<open>rx\<close> is \<open>regexp.Compile\<close> followed by \<open>Match\<close>: the compile error text, or the
  predicate of the compiled expression.
\<close>

section \<open>Checks\<close>

datatype checkKind =
    NotExistKind | PermissionsKind | IsDirKind | EmptyKind | EqualsKind | ContainsKind
  | MatchesKind | StartsWithKind | EndsWithKind

record checkOutputError =
  ce_Kind :: checkKind
  ce_Expected :: string
  ce_Actual :: string
  ce_Path :: string

definition checkErr :: "checkKind \<Rightarrow> string \<Rightarrow> string \<Rightarrow> string \<Rightarrow> checkOutputError" where
  "checkErr k ex ac p = \<lparr>ce_Kind = k, ce_Expected = ex, ce_Actual = ac, ce_Path = p\<rparr>"

type_synonym regex = "string \<Rightarrow> string + (string \<Rightarrow> bool)"

definition match_check :: "regex \<Rightarrow> string \<Rightarrow> string \<Rightarrow> string \<Rightarrow> checkOutputError list" where
  "match_check rx dt p m =
    (case rx m of
       Inl e \<Rightarrow> [checkErr MatchesKind m (''invalid regexp '' @ Quote m @ '': '' @ e) p]
     | Inr match \<Rightarrow> if \<not> match dt then [checkErr MatchesKind m dt p] else [])"

text \<open>The result lists the errors of the returned error tree in order; nil is the empty list.\<close>

definition checkOutput_Check :: "regex \<Rightarrow> checkOutput \<Rightarrow> string \<Rightarrow> string \<Rightarrow> checkOutputError list" where
  "checkOutput_Check rx c dt p =
    (if co_Empty c \<and> dt \<noteq> [] then [checkErr EmptyKind [] dt p]
     else
       (if co_Equals c \<noteq> [] \<and> co_Equals c \<noteq> dt then [checkErr EqualsKind (co_Equals c) dt p] else [])
       @ concat (map (\<lambda>s. if s \<noteq> [] \<and> \<not> Contains dt s then [checkErr ContainsKind s dt p] else [])
           (co_Contains c))
       @ concat (map (match_check rx dt p) (co_Matches c))
       @ (if co_StartsWith c \<noteq> [] \<and> \<not> HasPrefix dt (co_StartsWith c)
          then [checkErr StartsWithKind (co_StartsWith c) dt p] else [])
       @ (if co_EndsWith c \<noteq> [] \<and> \<not> HasSuffix dt (co_EndsWith c)
          then [checkErr EndsWithKind (co_EndsWith c) dt p] else []))"

definition checkOutput_IsEmpty :: "checkOutput \<Rightarrow> bool" where
  "checkOutput_IsEmpty c =
    (co_Equals c = [] \<and> length (co_Contains c) = 0 \<and> length (co_Matches c) = 0
     \<and> co_StartsWith c = [] \<and> co_EndsWith c = [] \<and> \<not> co_Empty c)"

text \<open>\<open>fs.FileMode\<close>: \<open>Perm\<close> keeps the nine permission bits, \<open>String\<close> prints them.\<close>

definition mode_bit :: "fileMode \<Rightarrow> nat \<Rightarrow> bool" where
  "mode_bit m k = odd (m div 2 ^ k)"

definition FileMode_String :: "fileMode \<Rightarrow> string" where
  "FileMode_String m =
    (let types = concat (map (\<lambda>(i, c). if mode_bit m (31 - i) then [c] else []) (enumerate 0 ''dalTLDpSugct?''));
         perms = map (\<lambda>(i, c). if mode_bit m (8 - i) then c else CHR ''-'') (enumerate 0 ''rwxrwxrwx'')
     in (if types = [] then ''-'' else types) @ perms)"

definition fileCheck_Check ::
  "regex \<Rightarrow> fileCheckOutput \<Rightarrow> string \<Rightarrow> fileMode \<Rightarrow> bool \<Rightarrow> string \<Rightarrow> checkOutputError list" where
  "fileCheck_Check rx c dt mode isDir p =
    (if fc_IsDir c \<and> \<not> isDir then [checkErr IsDirKind ''ModeDir'' ''ModeFile'' p] else [])
    @ (if \<not> fc_IsDir c \<and> isDir then [checkErr IsDirKind ''ModeFile'' ''ModeDir'' p] else [])
    @ (if fc_Permissions c \<noteq> 0 \<and> fc_Permissions c \<noteq> FileMode_Perm mode
       then [checkErr PermissionsKind (FileMode_String (fc_Permissions c)) (FileMode_String (FileMode_Perm mode)) p]
       else [])
    @ checkOutput_Check rx (fc_CheckOutput c) dt p"

section \<open>Build arguments\<close>

definition checkOutput_processBuildArgs :: "argCtx \<Rightarrow> checkOutput \<Rightarrow> checkOutput \<times> gores" where
  "checkOutput_processBuildArgs ax c =
    (case expand_until ax (\<lambda>i v e. Wrap ('': contains at list index '' @ nat_str i) e) 0 (co_Contains c) of
       (cs, Some e) \<Rightarrow> (c\<lparr>co_Contains := cs\<rparr>, Some e)
     | (cs, None) \<Rightarrow>
     (case expandArgs ax (co_EndsWith c) of
       (_, Some e) \<Rightarrow> (c\<lparr>co_Contains := cs\<rparr>, Some (Wrap '': endsWith'' e))
     | (ew, None) \<Rightarrow>
     (case expand_until ax (\<lambda>i v e. Wrap ('': matches at list index '' @ nat_str i) e) 0 (co_Matches c) of
       (ms, Some e) \<Rightarrow> (c\<lparr>co_Contains := cs, co_EndsWith := ew, co_Matches := ms\<rparr>, Some e)
     | (ms, None) \<Rightarrow>
     (case expandArgs ax (co_Equals c) of
       (_, Some e) \<Rightarrow> (c\<lparr>co_Contains := cs, co_EndsWith := ew, co_Matches := ms\<rparr>, Some (Wrap '': equals'' e))
     | (eq, None) \<Rightarrow>
     (case expandArgs ax (co_StartsWith c) of
       (_, Some e) \<Rightarrow>
         (c\<lparr>co_Contains := cs, co_EndsWith := ew, co_Matches := ms, co_Equals := eq\<rparr>, Some (Wrap '': startsWith'' e))
     | (sw, None) \<Rightarrow>
         (c\<lparr>co_Contains := cs, co_EndsWith := ew, co_Matches := ms, co_Equals := eq, co_StartsWith := sw\<rparr>, None))))))"

text \<open>
  A dropped copy of a \<open>CheckOutput\<close> still shares its two slices with the original, so their elements
  keep the values written before the error.
\<close>

definition check_drop_copy :: "checkOutput \<Rightarrow> checkOutput \<Rightarrow> checkOutput" where
  "check_drop_copy old upd = old\<lparr>co_Contains := co_Contains upd, co_Matches := co_Matches upd\<rparr>"

definition fileCheck_processBuildArgs :: "argCtx \<Rightarrow> fileCheckOutput \<Rightarrow> fileCheckOutput \<times> gores" where
  "fileCheck_processBuildArgs ax c =
    (case checkOutput_processBuildArgs ax (fc_CheckOutput c) of
       (chk, Some e) \<Rightarrow> (c\<lparr>fc_CheckOutput := check_drop_copy (fc_CheckOutput c) chk\<rparr>, Some e)
     | (chk, None) \<Rightarrow> (c\<lparr>fc_CheckOutput := chk\<rparr>, None))"

definition testStep_processBuildArgs :: "argCtx \<Rightarrow> testStep \<Rightarrow> testStep \<times> gores" where
  "testStep_processBuildArgs ax s =
    (let (env, es1) = upd_map (\<lambda>k v. expand_keep ax (env_msg ''env '' k v) v) (ts_Env s);
         (stdin, es2) = expand_set ax (Wrap ''stdin'') (ts_Stdin s);
         (stdout, r3) = checkOutput_processBuildArgs ax (ts_Stdout s);
         (stderr, r4) = checkOutput_processBuildArgs ax (ts_Stderr s)
     in (s\<lparr>ts_Env := env, ts_Stdin := stdin, ts_Stdout := stdout, ts_Stderr := stderr\<rparr>,
         join_errs (es1 @ es2 @ errs_of (wrap ''stdout'' r3) @ errs_of (wrap ''stderr'' r4))))"

text \<open>One iteration over \<open>c.Steps\<close>: on an error the copy is dropped, but its map and slices are shared.\<close>

definition test_step_loop :: "argCtx \<Rightarrow> nat \<Rightarrow> testStep \<Rightarrow> testStep \<times> goerr list" where
  "test_step_loop ax i s =
    (case testStep_processBuildArgs ax s of
       (s', None) \<Rightarrow> (s', [])
     | (s', Some e) \<Rightarrow>
         (s\<lparr>ts_Env := ts_Env s', ts_Stdout := check_drop_copy (ts_Stdout s) (ts_Stdout s'),
            ts_Stderr := check_drop_copy (ts_Stderr s) (ts_Stderr s')\<rparr>,
          [Wrap (''step index '' @ nat_str i) e]))"

definition testSpec_processBuildArgs :: "argCtx \<Rightarrow> testSpec \<Rightarrow> (testSpec \<times> gores) option" where
  "testSpec_processBuildArgs ax c =
    (case those (map (mount_processBuildArgs ax) (t_Mounts c)) of None \<Rightarrow> None
     | Some rs \<Rightarrow>
         (let ms = map2 drop_mount_copy (t_Mounts c) rs;
              (env, es2) = upd_map (\<lambda>k v. expand_keep ax (env_msg [] k v) v) (t_Env c);
              (steps, es3) = upd_list (test_step_loop ax) (t_Steps c);
              (files, es4) = upd_map (\<lambda>name f. case fileCheck_processBuildArgs ax f of (f', r) \<Rightarrow>
                  (f', errs_of (wrap (''error performing shell expansion to check output of file '' @ name) r)))
                (t_Files c)
          in Some (c\<lparr>t_Mounts := map fst ms, t_Env := env, t_Steps := steps, t_Files := files\<rparr>,
                   wrap (t_Name c) (join_errs (concat (map snd ms) @ es2 @ es3 @ es4)))))"

section \<open>Validation\<close>

definition testSpec_validate :: "(string \<Rightarrow> gores) \<Rightarrow> testSpec \<Rightarrow> gores" where
  "testSpec_validate dg t =
    join_errs (concat (map (\<lambda>m. errs_of (wrap (''mount '' @ mnt_Dest m) (mount_validate dg m))) (t_Mounts t)))"

section \<open>Lemmas\<close>

text \<open>What an output has to satisfy for a check to pass.\<close>

definition output_ok :: "regex \<Rightarrow> checkOutput \<Rightarrow> string \<Rightarrow> bool" where
  "output_ok rx c dt =
    ((co_Empty c \<longrightarrow> dt = [])
     \<and> (co_Equals c \<noteq> [] \<longrightarrow> dt = co_Equals c)
     \<and> (\<forall>s \<in> set (co_Contains c). sublist s dt)
     \<and> (\<forall>m \<in> set (co_Matches c). \<exists>f. rx m = Inr f \<and> f dt)
     \<and> prefix (co_StartsWith c) dt
     \<and> suffix (co_EndsWith c) dt)"

lemma HasSuffix_iff_suffix: "HasSuffix s p \<longleftrightarrow> suffix p s"
proof
  assume "HasSuffix s p"
  then have "s = take (length s - length p) s @ p"
    by (metis HasSuffix_def append_take_drop_id)
  then show "suffix p s" by (auto simp: suffix_def)
qed (auto simp: suffix_def)

lemma match_check_nil: "match_check rx dt p m = [] \<longleftrightarrow> (\<exists>f. rx m = Inr f \<and> f dt)"
  by (cases "rx m") (simp_all add: match_check_def)

lemma if_err_nil: "(if c then [e] else []) = [] \<longleftrightarrow> \<not> c"
  by simp

lemma checkOutput_Check_nil [go_nil]:
  "checkOutput_Check rx c dt p = [] \<longleftrightarrow> output_ok rx c dt"
proof (cases "co_Empty c \<and> dt \<noteq> []")
  case True
  then show ?thesis by (simp add: checkOutput_Check_def output_ok_def)
next
  case False
  show ?thesis
    unfolding checkOutput_Check_def output_ok_def if_not_P [OF False] append_is_Nil_conv
      concat_eq_Nil_conv set_map ball_simps match_check_nil if_err_nil
      HasPrefix_iff_prefix HasSuffix_iff_suffix Contains_iff_sublist
    using False by auto
qed

lemma fileCheck_Check_nil [go_nil]:
  "fileCheck_Check rx c dt mode isDir p = [] \<longleftrightarrow>
    (isDir = fc_IsDir c) \<and> (fc_Permissions c = 0 \<or> fc_Permissions c = FileMode_Perm mode)
    \<and> output_ok rx (fc_CheckOutput c) dt"
  by (auto simp: fileCheck_Check_def checkOutput_Check_nil)

lemma checkOutput_IsEmpty_ok: "checkOutput_IsEmpty c \<Longrightarrow> output_ok rx c dt"
  by (simp add: checkOutput_IsEmpty_def output_ok_def)

definition test_ok :: "(string \<Rightarrow> gores) \<Rightarrow> testSpec \<Rightarrow> bool" where
  "test_ok dg t = list_all (mount_ok dg) (t_Mounts t)"

lemma testSpec_validate_nil [go_nil]: "testSpec_validate dg t = None \<longleftrightarrow> test_ok dg t"
  by (auto simp: testSpec_validate_def test_ok_def list_all_iff go_nil)

lemma testSpec_processBuildArgs_returns:
  assumes "test_ok dg t"
  shows "\<exists>t' r. testSpec_processBuildArgs ax t = Some (t', r) \<and> t_Name t' = t_Name t"
proof -
  have "mount_processBuildArgs ax m \<noteq> None" if "m \<in> set (t_Mounts t)" for m
    using assms that source_processBuildArgs_returns(4) [of dg m ax]
    by (auto simp: test_ok_def list_all_iff)
  then have "those (map (mount_processBuildArgs ax) (t_Mounts t)) \<noteq> None"
    by (auto simp: those_map_None)
  then show ?thesis
    by (auto simp: testSpec_processBuildArgs_def Let_def split_beta)
qed

end
