(* ===== verification/Load.thy ===== *)
theory Load
  imports Image_Config Deps Cache Tests
begin

text \<open>
  Loading a spec (load.go, target.go): \<open>Validate\<close>, \<open>FillDefaults\<close> and \<open>SubstituteArgs\<close> on the whole
  spec, with the per-part methods of build, target, signer and patches.

  Results: \<open>Validate\<close> and \<open>SubstituteArgs\<close> are \<^term>\<open>None\<close> when the Go code panics; inside, the error is
  \<^term>\<open>None\<close> when it is nil.
\<close>

section \<open>Validation\<close>

definition validatePatch :: "patchSpec \<Rightarrow> source \<Rightarrow> gores option" where
  "validatePatch patch patchSrc =
    (case SourceIsDir patchSrc of
       None \<Rightarrow> None
     | Some True \<Rightarrow>
         Some (if isRoot (p_Path patch) then Some (Sentinel errPatchRequiresSubpath) else None)
     | Some False \<Rightarrow>
         Some (if \<not> isRoot (p_Path patch) then Some (Sentinel errPatchFileNoSubpath) else None))"

definition patch_check :: "source gomap \<Rightarrow> string \<Rightarrow> patchSpec \<Rightarrow> goerr list option" where
  "patch_check sources src patch =
    (case map_of sources (p_Source patch) of
       None \<Rightarrow> Some [WithSource (InvalidPatchError src (p_Source patch) (Sentinel errMissingSource))]
     | Some patchSrc \<Rightarrow>
         map_option (\<lambda>r. map (\<lambda>e. WithSource (InvalidPatchError src (p_Source patch) e)) (errs_of r))
           (validatePatch patch patchSrc))"

definition patches_check :: "source gomap \<Rightarrow> patchSpec list gomap \<Rightarrow> goerr list option" where
  "patches_check sources patches =
    map_option concat (those (concat (map (\<lambda>(src, ps). map (patch_check sources src) ps) patches)))"

fun cache_errs :: "bool \<Rightarrow> nat \<Rightarrow> cacheConfig list \<Rightarrow> goerr list" where
  "cache_errs haveGo i [] = []"
| "cache_errs haveGo i (c # cs) =
    guard_err (cc_GoBuild c \<noteq> None \<and> haveGo) (Msg ''only one gobuild cache is allowed'')
    @ errs_of (wrap (''cache '' @ nat_str i) (cacheConfig_validate c))
    @ cache_errs (haveGo \<or> cc_GoBuild c \<noteq> None) (Suc i) cs"

definition artifactBuild_validate :: "artifactBuild \<Rightarrow> gores" where
  "artifactBuild_validate b = join_errs
    (guard_err (length (ab_Steps b) = 0 \<and> (0 < length (ab_Caches b) \<or> 0 < length (ab_Env b) \<or> 0 < length (ab_NetworkMode b)))
       (Msg ''artifact build must have at least one step'')
     @ step_errs (ab_Steps b)
     @ guard_err (ab_NetworkMode b \<notin> {[], ''none'', ''sandbox''})
         (Msg (''invalid network mode: '' @ Quote (ab_NetworkMode b) @ '': valid values [none sandbox]''))
     @ cache_errs False 0 (ab_Caches b))"

definition target_validate :: "(string \<Rightarrow> gores) \<Rightarrow> target \<Rightarrow> gores" where
  "target_validate dg t = join_errs
    (errs_of (wrap ''dependencies'' (deps_validate dg (tg_Dependencies t)))
     @ errs_of (wrap ''image'' (imageConfig_validate dg (tg_Image t)))
     @ concat (map (\<lambda>test. errs_of (wrap (''test '' @ t_Name test) (testSpec_validate dg test))) (tg_Tests t))
     @ errs_of (wrap ''postinstall'' (imageConfig_validate dg (tg_Image t))))"

definition Validate :: "(string \<Rightarrow> gores) \<Rightarrow> spec \<Rightarrow> gores option" where
  "Validate dg s =
    map_option (\<lambda>patchErrs. join_errs
      (concat (map (\<lambda>(name, src).
          guard_err (ContainsRune name slash) (InvalidSourceError name (Sentinel errSourceNamePathSeparator))
          @ map (InvalidSourceError name) (errs_of (source_validate dg src))) (sp_Sources s))
       @ concat (map (\<lambda>t. errs_of (wrap (t_Name t) (testSpec_validate dg t))) (sp_Tests s))
       @ patchErrs
       @ errs_of (wrap ''dependencies'' (deps_validate dg (sp_Dependencies s)))
       @ errs_of (wrap ''image'' (imageConfig_validate dg (sp_Image s)))
       @ concat (map (\<lambda>(k, t). errs_of (wrap (''target '' @ k) (target_validate dg t))) (sp_Targets s))
       @ errs_of (wrap ''image'' (imageConfig_validate dg (sp_Image s)))
       @ errs_of (wrap ''build'' (artifactBuild_validate (sp_Build s)))))
      (patches_check (sp_Sources s) (sp_Patches s))"

section \<open>Defaults\<close>

definition DefaultPatchStrip :: int where "DefaultPatchStrip = 1"

definition patch_fillDefaults :: "patchSpec \<Rightarrow> patchSpec" where
  "patch_fillDefaults ps = (if p_Strip ps = None then ps\<lparr>p_Strip := Some DefaultPatchStrip\<rparr> else ps)"

definition target_fillDefaults :: "(string \<Rightarrow> string option) \<Rightarrow> target \<Rightarrow> target option" where
  "target_fillDefaults host t =
    (case deps_fillDefaults host (tg_Dependencies t) of None \<Rightarrow> None
     | Some d \<Rightarrow>
         (case imageConfig_fillDefaults host (tg_Image t) of None \<Rightarrow> None
          | Some i \<Rightarrow> Some (t\<lparr>tg_Dependencies := d, tg_Image := i\<rparr>)))"

definition fill_targets :: "(string \<Rightarrow> string option) \<Rightarrow> target gomap \<Rightarrow> target gomap option" where
  "fill_targets host m = those (map (\<lambda>(k, t). map_option (Pair k) (target_fillDefaults host t)) m)"

definition FillDefaults :: "(string \<Rightarrow> string option) \<Rightarrow> spec \<Rightarrow> spec option" where
  "FillDefaults host s =
    (case fill_source_map host (sp_Sources s) of None \<Rightarrow> None
     | Some srcs \<Rightarrow>
     (case deps_fillDefaults host (sp_Dependencies s) of None \<Rightarrow> None
     | Some deps \<Rightarrow>
     (case imageConfig_fillDefaults host (sp_Image s) of None \<Rightarrow> None
     | Some img \<Rightarrow>
     (case fill_targets host (sp_Targets s) of None \<Rightarrow> None
     | Some tgts \<Rightarrow>
     (case imageConfig_fillDefaults host img of None \<Rightarrow> None
     | Some img2 \<Rightarrow>
         Some (s\<lparr>sp_Sources := srcs,
                 sp_Patches := map_vals (\<lambda>k ps. map patch_fillDefaults ps) (sp_Patches s),
                 sp_Dependencies := deps, sp_Image := img2, sp_Targets := tgts\<rparr>))))))"

section \<open>Argument substitution\<close>

definition SDE :: string where "SDE = ''SOURCE_DATE_EPOCH''"

text \<open>The loop over the build request's arguments: the argument map and the unknown arguments.\<close>

fun merge_args :: "(string \<Rightarrow> bool) \<Rightarrow> string gomap \<Rightarrow> string gomap \<Rightarrow> string gomap \<times> goerr list" where
  "merge_args allow [] args = (args, [])"
| "merge_args allow ((k, v) # env) args =
    (if k = SDE then merge_args allow env (mput k v args)
     else if map_of args k = None then
       (case merge_args allow env args of (args', es) \<Rightarrow>
          (args', guard_err (\<not> knownArg k \<and> \<not> allow k) (Wrap (Quote k) (Sentinel errUnknownArg)) @ es))
     else merge_args allow env (mput k v args))"

text \<open>\<open>SOURCE_DATE_EPOCH\<close> becomes a build environment variable unless the spec sets one.\<close>

definition epoch_env :: "string gomap \<Rightarrow> artifactBuild \<Rightarrow> artifactBuild" where
  "epoch_env args b =
    (case map_of args SDE of
       None \<Rightarrow> b
     | Some v \<Rightarrow> if map_of (ab_Env b) SDE = None then b\<lparr>ab_Env := mput SDE v (ab_Env b)\<rparr> else b)"

definition signer_processBuildArgs :: "argCtx \<Rightarrow> packageSigner \<Rightarrow> packageSigner \<times> gores" where
  "signer_processBuildArgs ax s =
    (case upd_map (\<lambda>k v. expand_keep ax (env_msg ''arg '' k v) v) (ps_Args s) of
       (m, es) \<Rightarrow> (s\<lparr>ps_Args := m\<rparr>, join_errs es))"

definition packageConfig_processBuildArgs :: "argCtx \<Rightarrow> packageConfig \<Rightarrow> packageConfig \<times> gores" where
  "packageConfig_processBuildArgs ax cfg =
    (case pcfg_Signer cfg of None \<Rightarrow> (cfg, None)
     | Some s \<Rightarrow> (case signer_processBuildArgs ax s of (s', r) \<Rightarrow> (cfg\<lparr>pcfg_Signer := Some s'\<rparr>, wrap ''signer'' r)))"

definition pkgcfg_opt ::
  "argCtx \<Rightarrow> packageConfig option \<Rightarrow> packageConfig option \<times> goerr list" where
  "pkgcfg_opt ax cfg =
    (case cfg of None \<Rightarrow> (None, [])
     | Some c \<Rightarrow> (case packageConfig_processBuildArgs ax c of (c', r) \<Rightarrow> (Some c', errs_of (wrap ''package config'' r))))"

definition artifactBuild_processBuildArgs :: "argCtx \<Rightarrow> artifactBuild \<Rightarrow> artifactBuild \<times> gores" where
  "artifactBuild_processBuildArgs ax b =
    (case upd_map (\<lambda>k v. expand_keep ax (env_msg ''env '' k v) v) (ab_Env b) of
       (m, es) \<Rightarrow> (b\<lparr>ab_Env := m\<rparr>, join_errs es))"

text \<open>
  The version loops for provides, replaces and conflicts: the spec assigns the returned string even
  with an error (\<open>expand_set\<close>), a target skips it (\<open>expand_keep\<close>).
\<close>

definition versions_with ::
  "(argCtx \<Rightarrow> (goerr \<Rightarrow> goerr) \<Rightarrow> string \<Rightarrow> string \<times> goerr list) \<Rightarrow> argCtx \<Rightarrow> string \<Rightarrow>
   packageDependencyList option \<Rightarrow> packageDependencyList option \<times> goerr list" where
  "versions_with ex ax what l =
    (case l of None \<Rightarrow> (None, [])
     | Some m \<Rightarrow>
        (case upd_map (\<lambda>k v.
            case upd_list (\<lambda>i ver. ex ax (Wrap (what @ k @ '' version '' @ nat_str i)) ver) (pc_Version v) of
              (vs, es) \<Rightarrow> (v\<lparr>pc_Version := vs\<rparr>, es)) m of
           (m', es) \<Rightarrow> (Some m', es)))"

definition expand_tests :: "argCtx \<Rightarrow> testSpec list \<Rightarrow> (testSpec list \<times> goerr list) option" where
  "expand_tests ax ts =
    upd_list_opt (\<lambda>i t. map_option (\<lambda>(t', r). (t', errs_of r)) (testSpec_processBuildArgs ax t)) ts"

definition target_processBuildArgs :: "argCtx \<Rightarrow> target \<Rightarrow> (target \<times> gores) option" where
  "target_processBuildArgs ax t =
    (case expand_tests ax (tg_Tests t) of None \<Rightarrow> None
     | Some (tests, es1) \<Rightarrow>
     (case deps_processBuildArgs ax (tg_Dependencies t) of None \<Rightarrow> None
     | Some (deps, r4) \<Rightarrow>
        (let (pcfg, es2) = pkgcfg_opt ax (tg_PackageConfig t);
             (img, r3) = imageConfig_processBuildArgs ax (tg_Image t);
             (prov, es5) = versions_with expand_keep ax ''provides '' (tg_Provides t);
             (repl, es6) = versions_with expand_keep ax ''replaces '' (tg_Replaces t);
             (conf, es7) = versions_with expand_keep ax ''conflicts '' (tg_Conflicts t)
         in Some (t\<lparr>tg_Tests := tests, tg_PackageConfig := pcfg, tg_Image := img, tg_Dependencies := deps,
                    tg_Provides := prov, tg_Replaces := repl, tg_Conflicts := conf\<rparr>,
                  join_errs (es1 @ es2 @ errs_of (wrap ''package config'' r3)
                    @ errs_of (wrap ''dependencies'' r4) @ es5 @ es6 @ es7)))))"

definition expand_patches :: "argCtx \<Rightarrow> patchSpec list gomap \<Rightarrow> patchSpec list gomap \<times> goerr list" where
  "expand_patches ax m =
    upd_map (\<lambda>src. upd_list (\<lambda>i patch.
      case expand_set ax (Wrap (''patch '' @ src @ '' path '' @ nat_str i)) (p_Path patch) of
        (u, es) \<Rightarrow> (patch\<lparr>p_Path := u\<rparr>, es))) m"

definition expand_netmode :: "argCtx \<Rightarrow> string \<Rightarrow> string \<times> goerr list" where
  "expand_netmode ax mode =
    (if mode \<noteq> [] then expand_set ax (Wrap (''error performing shell expansion on build network mode: '' @ mode)) mode
     else (mode, []))"

definition expand_build :: "argCtx \<Rightarrow> artifactBuild \<Rightarrow> artifactBuild \<times> goerr list" where
  "expand_build ax b =
    (let (b1, r1) = artifactBuild_processBuildArgs ax b;
         (mode, es2) = expand_netmode ax (ab_NetworkMode b1);
         (steps, es3) = upd_list (\<lambda>i st. case step_processBuildArgs ax st of (st', r) \<Rightarrow>
             (st', errs_of (wrap (''step index '' @ nat_str i) r))) (ab_Steps b1)
     in (b1\<lparr>ab_NetworkMode := mode, ab_Steps := steps\<rparr>, errs_of (wrap ''build'' r1) @ es2 @ es3))"

definition expand_sources :: "argCtx \<Rightarrow> source gomap \<Rightarrow> (source gomap \<times> goerr list) option" where
  "expand_sources ax m =
    upd_map_opt (\<lambda>name src. map_option (\<lambda>(src', r). (src', errs_of (wrap (''source '' @ Quote name) r)))
      (source_processBuildArgs ax src)) m"

definition expand_targets :: "argCtx \<Rightarrow> target gomap \<Rightarrow> (target gomap \<times> goerr list) option" where
  "expand_targets ax m =
    upd_map_opt (\<lambda>name t. map_option (\<lambda>(t', r). (t', errs_of (wrap (''target '' @ name) r)))
      (target_processBuildArgs ax t)) m"

definition SubstituteArgs ::
  "lexer \<Rightarrow> (string \<Rightarrow> bool) \<Rightarrow> string gomap \<Rightarrow> spec \<Rightarrow> (spec \<times> gores) option" where
  "SubstituteArgs lx allow env s =
    (let (args, es0) = merge_args allow env (sp_Args s);
         ax = \<lparr>ax_lex = lx, ax_args = args, ax_allow = allow\<rparr>;
         build0 = epoch_env args (sp_Build s);
         (patches, es2) = expand_patches ax (sp_Patches s);
         (version, es3) = expand_set ax (Wrap ''version'') (sp_Version s);
         (revision, es4) = expand_set ax (Wrap ''revision'') (sp_Revision s);
         (build, es5) = expand_build ax build0;
         (pcfg, es8) = pkgcfg_opt ax (sp_PackageConfig s);
         (img, r9) = imageConfig_processBuildArgs ax (sp_Image s);
         (prov, es11) = versions_with expand_set ax ''provides '' (sp_Provides s);
         (repl, es12) = versions_with expand_set ax ''replaces '' (sp_Replaces s);
         (conf, es13) = versions_with expand_set ax ''replaces '' (sp_Conflicts s)
     in case expand_sources ax (sp_Sources s) of None \<Rightarrow> None
        | Some (srcs, es1) \<Rightarrow>
        (case expand_tests ax (sp_Tests s) of None \<Rightarrow> None
        | Some (tests, es6) \<Rightarrow>
        (case expand_targets ax (sp_Targets s) of None \<Rightarrow> None
        | Some (tgts, es7) \<Rightarrow>
        (case deps_processBuildArgs ax (sp_Dependencies s) of None \<Rightarrow> None
        | Some (deps, r10) \<Rightarrow>
            Some (s\<lparr>sp_Sources := srcs, sp_Patches := patches, sp_Version := version,
                    sp_Revision := revision, sp_Build := build, sp_Tests := tests, sp_Targets := tgts,
                    sp_PackageConfig := pcfg, sp_Image := img, sp_Dependencies := deps,
                    sp_Provides := prov, sp_Replaces := repl, sp_Conflicts := conf\<rparr>,
                  join_errs (es0 @ es1 @ es2 @ es3 @ es4 @ es5 @ es6 @ es7 @ es8
                    @ errs_of (wrap ''package config'' r9) @ errs_of (wrap ''dependencies'' r10)
                    @ es11 @ es12 @ es13))))))"

section \<open>Loading\<close>

text \<open>
  \<open>loadSpec\<close>: the YAML decoder is the parameter \<open>decode\<close>.  The outer \<open>option\<close> is \<^term>\<open>None\<close> when the code
  panics.
\<close>

definition loadSpec ::
  "(string \<Rightarrow> goerr + spec) \<Rightarrow> (string \<Rightarrow> gores) \<Rightarrow> (string \<Rightarrow> string option) \<Rightarrow> string \<Rightarrow> (goerr + spec) option" where
  "loadSpec decode dg host dt =
    (case decode dt of
       Inl e \<Rightarrow> Some (Inl (Wrap ''error unmarshalling spec'' e))
     | Inr s \<Rightarrow>
         (case Validate dg s of
            None \<Rightarrow> None
          | Some (Some e) \<Rightarrow> Some (Inl e)
          | Some None \<Rightarrow> map_option Inr (FillDefaults host s)))"

end
