(* ===== verification/Load_Props.thy ===== *)
theory Load_Props
  imports Load
begin

text \<open>
  Properties of loading: what \<open>Validate\<close> accepts, that a validated spec can be filled and expanded
  without a panic, that filling keeps it valid and is idempotent, and which arguments end up in
  the expansion map.
\<close>

section \<open>What a valid spec is\<close>

definition patch_ok :: "source gomap \<Rightarrow> patchSpec \<Rightarrow> bool" where
  "patch_ok sources p =
    (case map_of sources (p_Source p) of
       None \<Rightarrow> False
     | Some src \<Rightarrow> SourceIsDir src = Some (\<not> isRoot (p_Path p)))"

definition build_block_ok :: "artifactBuild \<Rightarrow> bool" where
  "build_block_ok b =
    ((ab_Steps b = [] \<longrightarrow> ab_Caches b = [] \<and> ab_Env b = [] \<and> ab_NetworkMode b = [])
     \<and> list_all (\<lambda>s. step_Command s \<noteq> []) (ab_Steps b)
     \<and> ab_NetworkMode b \<in> {[], ''none'', ''sandbox''}
     \<and> list_all cacheConfig_ok (ab_Caches b)
     \<and> length (filter (\<lambda>c. cc_GoBuild c \<noteq> None) (ab_Caches b)) \<le> 1)"

definition target_ok :: "(string \<Rightarrow> gores) \<Rightarrow> target \<Rightarrow> bool" where
  "target_ok dg t =
    (deps_ok dg (tg_Dependencies t) \<and> opt_all (imageConfig_ok dg) (tg_Image t)
     \<and> list_all (test_ok dg) (tg_Tests t))"

definition spec_ok :: "(string \<Rightarrow> gores) \<Rightarrow> spec \<Rightarrow> bool" where
  "spec_ok dg s =
    (list_all (\<lambda>(name, src). slash \<notin> set name \<and> source_ok dg src) (sp_Sources s)
     \<and> list_all (test_ok dg) (sp_Tests s)
     \<and> list_all (\<lambda>(k, ps). list_all (patch_ok (sp_Sources s)) ps) (sp_Patches s)
     \<and> deps_ok dg (sp_Dependencies s)
     \<and> opt_all (imageConfig_ok dg) (sp_Image s)
     \<and> list_all (\<lambda>(k, t). target_ok dg t) (sp_Targets s)
     \<and> build_block_ok (sp_Build s))"

definition spec_settled :: "(string \<Rightarrow> gores) \<Rightarrow> spec \<Rightarrow> bool" where
  "spec_settled dg s =
    (image_settled dg (sp_Image s) \<and> list_all (\<lambda>(k, t). image_settled dg (tg_Image t)) (sp_Targets s))"

section \<open>Validation\<close>

lemma validatePatch_nil:
  "validatePatch p src = Some None \<longleftrightarrow> SourceIsDir src = Some (\<not> isRoot (p_Path p))"
  by (auto simp: validatePatch_def split: option.splits bool.splits)

lemma patch_check_nil: "patch_check sources k p = Some [] \<longleftrightarrow> patch_ok sources p"
  by (auto simp: patch_check_def patch_ok_def validatePatch_nil split: option.splits)

lemma those_Some_all: "those xs = Some ys \<longleftrightarrow> xs = map Some ys"
  by (induction xs arbitrary: ys) (auto split: option.splits)

lemma map_option_concat_those:
  "map_option concat (those xs) = Some [] \<longleftrightarrow> (\<forall>x \<in> set xs. x = Some [])"
proof
  assume "map_option concat (those xs) = Some []"
  then obtain ys where "xs = map Some ys" "concat ys = []"
    by (auto simp: those_Some_all)
  then show "\<forall>x \<in> set xs. x = Some []" by auto
next
  assume "\<forall>x \<in> set xs. x = Some []"
  then have "those xs = Some (map (\<lambda>x. []) xs)"
    by (induction xs) auto
  then show "map_option concat (those xs) = Some []" by simp
qed

lemma patches_check_nil:
  "patches_check sources m = Some [] \<longleftrightarrow> list_all (\<lambda>(k, ps). list_all (patch_ok sources) ps) m"
proof -
  have "(\<forall>x \<in> set (concat (map (\<lambda>(src, ps). map (patch_check sources src) ps) m)). x = Some [])
      \<longleftrightarrow> (\<forall>e \<in> set m. \<forall>p \<in> set (snd e). patch_check sources (fst e) p = Some [])"
    by (simp add: split_beta)
  then show ?thesis
    unfolding patches_check_def map_option_concat_those patch_check_nil
    by (simp add: list_all_iff split_beta)
qed

lemma cache_errs_nil:
  "cache_errs haveGo i cs = [] \<longleftrightarrow>
    list_all cacheConfig_ok cs
    \<and> length (filter (\<lambda>c. cc_GoBuild c \<noteq> None) cs) \<le> (if haveGo then 0 else 1)"
  by (induction haveGo i cs rule: cache_errs.induct)
    (auto simp: cacheConfig_validate_nil simp del: not_None_eq)

lemma artifactBuild_validate_nil [go_nil]: "artifactBuild_validate b = None \<longleftrightarrow> build_block_ok b"
  by (auto simp: artifactBuild_validate_def build_block_ok_def step_errs_nil cache_errs_nil
      simp del: not_None_eq)

lemma target_validate_nil:
  "image_settled dg (tg_Image t) \<Longrightarrow> target_validate dg t = None \<longleftrightarrow> target_ok dg t"
  by (auto simp: target_validate_def target_ok_def go_nil imageConfig_validate_settled list_all_iff)

lemma Validate_nil:
  assumes "spec_settled dg s"
  shows "Validate dg s = Some None \<longleftrightarrow> spec_ok dg s"
proof -
  have img: "imageConfig_validate dg (sp_Image s) = None \<longleftrightarrow> opt_all (imageConfig_ok dg) (sp_Image s)"
    using assms by (simp add: spec_settled_def imageConfig_validate_settled)
  have tgt: "(\<forall>p \<in> set (sp_Targets s). target_validate dg (snd p) = None)
      \<longleftrightarrow> list_all (\<lambda>(k, t). target_ok dg t) (sp_Targets s)"
    using assms by (auto simp: spec_settled_def list_all_iff split_beta target_validate_nil)
  have "Validate dg s = Some None \<longleftrightarrow>
      patches_check (sp_Sources s) (sp_Patches s) = Some []
      \<and> (\<forall>p \<in> set (sp_Sources s). slash \<notin> set (fst p) \<and> source_validate dg (snd p) = None)
      \<and> (\<forall>t \<in> set (sp_Tests s). testSpec_validate dg t = None)
      \<and> deps_validate dg (sp_Dependencies s) = None
      \<and> imageConfig_validate dg (sp_Image s) = None
      \<and> (\<forall>p \<in> set (sp_Targets s). target_validate dg (snd p) = None)
      \<and> artifactBuild_validate (sp_Build s) = None"
    by (cases "patches_check (sp_Sources s) (sp_Patches s)")
      (auto simp: Validate_def ContainsRune_def)
  then show ?thesis
    unfolding img tgt patches_check_nil go_nil spec_ok_def list_all_iff by auto
qed

section \<open>Filling defaults\<close>

lemma SourceIsDir_alt:
  "SourceIsDir s =
    (if is_set (s_Build s) = 1 \<or> is_set (s_Context s) = 1 \<or> is_set (s_DockerImage s) = 1 \<or> is_set (s_Git s) = 1
     then Some True
     else if is_set (s_HTTP s) = 1 then Some False
     else map_option (\<lambda>i. inl_Dir i \<noteq> None) (s_Inline s))"
  by (simp add: SourceIsDir_def toInterface_def split: option.splits)

lemma source_fillDefaults_inline:
  "source_fillDefaults host s = Some s' \<Longrightarrow>
    map_option (\<lambda>i. inl_Dir i \<noteq> None) (s_Inline s') = map_option (\<lambda>i. inl_Dir i \<noteq> None) (s_Inline s)"
  by (cases s) (auto simp: inline_fillDefaults_def split: option.splits)

lemma SourceIsDir_fillDefaults:
  "source_fillDefaults host s = Some s' \<Longrightarrow> SourceIsDir s' = SourceIsDir s"
  using source_fillDefaults_keeps [of host s s'] source_fillDefaults_inline [of host s s']
  unfolding SourceIsDir_alt same_variants_def by simp
lemma fill_source_map_Cons:
  "fill_source_map host ((k, s) # m) = Some m' \<longleftrightarrow>
    (\<exists>s' m''. source_fillDefaults host s = Some s' \<and> fill_source_map host m = Some m'' \<and> m' = (k, s') # m'')"
  by (auto simp: fill_source_map_def split: option.splits)

lemma fill_source_map_lookup:
  "fill_source_map host m = Some m' \<Longrightarrow>
    map_of m' k = (case map_of m k of None \<Rightarrow> None | Some s \<Rightarrow> source_fillDefaults host s)"
proof (induction m arbitrary: m')
  case (Cons p m)
  then show ?case by (cases p) (auto simp: fill_source_map_Cons)
qed (auto simp: fill_source_map_def)

lemma fill_source_map_each:
  "fill_source_map host m = Some m' \<Longrightarrow> (k, s) \<in> set m \<Longrightarrow> source_fillDefaults host s \<noteq> None"
proof (induction m arbitrary: m')
  case (Cons p m)
  then show ?case by (cases p) (auto simp: fill_source_map_Cons)
qed simp

lemma fill_source_map_names: "fill_source_map host m = Some m' \<Longrightarrow> map fst m' = map fst m"
proof (induction m arbitrary: m')
  case (Cons p m)
  then show ?case by (cases p) (auto simp: fill_source_map_Cons)
qed (auto simp: fill_source_map_def)

lemma patch_ok_fill:
  assumes "fill_source_map host m = Some m'"
  shows "patch_ok m' (patch_fillDefaults p) = patch_ok m p"
proof (cases "map_of m (p_Source p)")
  case None
  with fill_source_map_lookup [OF assms] show ?thesis
    by (simp add: patch_ok_def patch_fillDefaults_def)
next
  case (Some s)
  obtain s' where s': "source_fillDefaults host s = Some s'"
    using fill_source_map_each [OF assms map_of_SomeD [OF Some]] by blast
  then show ?thesis
    using Some fill_source_map_lookup [OF assms] SourceIsDir_fillDefaults [OF s']
    by (simp add: patch_ok_def patch_fillDefaults_def)
qed

lemma target_fillDefaults_settles:
  "target_ok dg t \<Longrightarrow> settles (target_fillDefaults host) (target_ok dg) t"
  using deps_fillDefaults_settles [of dg "tg_Dependencies t" host]
    imageConfig_fillDefaults_settles [of dg "tg_Image t" host]
  by (auto simp: settles_def target_fillDefaults_def target_ok_def)

interpretation target_defaults: defaulter "target_fillDefaults host" "target_ok dg" for host dg
  by unfold_locales (rule target_fillDefaults_settles)

lemma fill_targets_settles:
  assumes "list_all (\<lambda>(k, t). target_ok dg t) m"
  shows "settles (fill_targets host) (list_all (\<lambda>(k, t). target_ok dg t)) m"
  using target_defaults.fill_map_settles [of dg m host] assms
  unfolding settles_def fill_targets_def split_beta .

lemma patch_fillDefaults_idem [simp]: "patch_fillDefaults (patch_fillDefaults p) = patch_fillDefaults p"
  by (simp add: patch_fillDefaults_def)

lemma FillDefaults_settles:
  assumes ok: "spec_ok dg s"
  shows "settles (FillDefaults host) (spec_ok dg) s"
proof -
  have "settles (fill_source_map host) (list_all (\<lambda>p. source_ok dg (snd p))) (sp_Sources s)"
    using ok by (intro fill_source_map_settles) (auto simp: spec_ok_def list_all_iff)
  then obtain srcs where srcs: "fill_source_map host (sp_Sources s) = Some srcs"
    "list_all (\<lambda>p. source_ok dg (snd p)) srcs" "fill_source_map host srcs = Some srcs"
    by (rule settlesE)
  obtain deps where deps: "deps_fillDefaults host (sp_Dependencies s) = Some deps" "deps_ok dg deps"
    "deps_fillDefaults host deps = Some deps"
    using ok deps_fillDefaults_settles [of dg "sp_Dependencies s" host]
    by (auto simp: spec_ok_def settles_def)
  obtain img where img: "imageConfig_fillDefaults host (sp_Image s) = Some img"
    "opt_all (imageConfig_ok dg) img" "imageConfig_fillDefaults host img = Some img"
    using ok imageConfig_fillDefaults_settles [of dg "sp_Image s" host]
    by (auto simp: spec_ok_def settles_def)
  obtain tgts where tgts: "fill_targets host (sp_Targets s) = Some tgts"
    "list_all (\<lambda>(k, t). target_ok dg t) tgts" "fill_targets host tgts = Some tgts"
    using ok fill_targets_settles [of dg "sp_Targets s" host]
    by (auto simp: spec_ok_def settles_def)
  let ?s = "s\<lparr>sp_Sources := srcs,
      sp_Patches := map_vals (\<lambda>k ps. map patch_fillDefaults ps) (sp_Patches s),
      sp_Dependencies := deps, sp_Image := img, sp_Targets := tgts\<rparr>"
  have names: "fst ` set srcs = fst ` set (sp_Sources s)"
    using fill_source_map_names [OF srcs(1)] by (metis list.set_map)
  have "list_all (\<lambda>(name, src). slash \<notin> set name \<and> source_ok dg src) srcs"
  proof -
    have "\<forall>n \<in> fst ` set (sp_Sources s). slash \<notin> set n"
      using ok by (auto simp: spec_ok_def list_all_iff)
    then have "\<forall>p \<in> set srcs. slash \<notin> set (fst p)"
      unfolding names [symmetric] by blast
    with srcs(2) show ?thesis by (simp add: list_all_iff split_beta)
  qed
  moreover have "list_all (\<lambda>(k, ps). list_all (patch_ok srcs) ps) (sp_Patches ?s)"
  proof -
    have "\<forall>e \<in> set (sp_Patches s). \<forall>p \<in> set (snd e). patch_ok (sp_Sources s) p"
      using ok by (auto simp: spec_ok_def list_all_iff)
    then show ?thesis
      by (simp add: list_all_iff map_vals_def split_beta patch_ok_fill [OF srcs(1)])
  qed
  ultimately have "spec_ok dg ?s"
    using ok deps img tgts by (simp add: spec_ok_def)
  moreover have "FillDefaults host s = Some ?s" and "FillDefaults host ?s = Some ?s"
    using srcs deps img tgts by (simp_all add: FillDefaults_def comp_def)
  ultimately show ?thesis by (auto simp: settles_def)
qed

interpretation spec_defaults: defaulter "FillDefaults host" "spec_ok dg" for host dg
  by unfold_locales (rule FillDefaults_settles)

lemma spec_ok_settled: "spec_ok dg s \<Longrightarrow> spec_settled dg s"
proof -
  have img: "image_settled dg i" if "opt_all (imageConfig_ok dg) i" for i
    using that
    by (cases i) (auto simp: image_settled_def imageConfig_ok_def base_ok_def list_all_iff)
  assume "spec_ok dg s"
  then show ?thesis
    by (auto simp: spec_ok_def spec_settled_def target_ok_def list_all_iff split_beta img)
qed

section \<open>The argument map\<close>

text \<open>
  The expansion map after the loop over the build request: a declared argument takes the requested
  value, \<open>SOURCE_DATE_EPOCH\<close> is always taken, anything else is left out.
\<close>

lemma merge_args_lookup:
  assumes "wf_map env"
  shows "map_of (fst (merge_args allow env args)) k =
    (case map_of env k of
       Some v \<Rightarrow> if k = SDE \<or> map_of args k \<noteq> None then Some v else None
     | None \<Rightarrow> map_of args k)"
  using assms
proof (induction env arbitrary: args)
  case (Cons p env)
  obtain k' v where p: "p = (k', v)" by (cases p)
  have wf: "wf_map env" and k': "map_of env k' = None"
    using Cons.prems by (auto simp: wf_map_def p map_of_eq_None_iff)
  consider "k' = SDE \<or> map_of args k' \<noteq> None" | "k' \<noteq> SDE" "map_of args k' = None" by blast
  then show ?case
  proof cases
    case 1
    then have "merge_args allow (p # env) args = merge_args allow env (mput k' v args)"
      by (auto simp: p)
    with Cons.IH [OF wf, of "mput k' v args"] 1 k' show ?thesis
      by (auto simp: p update_conv' split: option.splits)
  next
    case 2
    then have "fst (merge_args allow (p # env) args) = fst (merge_args allow env args)"
      by (simp add: p split: prod.splits)
    with Cons.IH [OF wf, of args] 2 k' show ?thesis
      by (auto simp: p split: option.splits)
  qed
qed (simp split: option.splits)

lemma merge_args_errors:
  assumes "wf_map env"
  shows "snd (merge_args allow env args) = [] \<longleftrightarrow>
    (\<forall>k \<in> fst ` set env. k = SDE \<or> map_of args k \<noteq> None \<or> knownArg k \<or> allow k)"
  using assms
proof (induction env arbitrary: args)
  case (Cons p env)
  obtain k' v where p: "p = (k', v)" by (cases p)
  have wf: "wf_map env" and k': "k' \<notin> fst ` set env"
    using Cons.prems by (auto simp: wf_map_def p)
  have keep: "(\<forall>k \<in> fst ` set env. k = SDE \<or> map_of (mput k' v args) k \<noteq> None \<or> knownArg k \<or> allow k)
      \<longleftrightarrow> (\<forall>k \<in> fst ` set env. k = SDE \<or> map_of args k \<noteq> None \<or> knownArg k \<or> allow k)"
    using k' by (auto simp: update_conv')
  consider "k' = SDE \<or> map_of args k' \<noteq> None" | "k' \<noteq> SDE" "map_of args k' = None" by blast
  then show ?case
  proof cases
    case 1
    then have "merge_args allow (p # env) args = merge_args allow env (mput k' v args)"
      by (auto simp: p)
    then have "snd (merge_args allow (p # env) args) = [] \<longleftrightarrow>
        (\<forall>k \<in> fst ` set env. k = SDE \<or> map_of args k \<noteq> None \<or> knownArg k \<or> allow k)"
      using Cons.IH [OF wf, of "mput k' v args"] keep by (simp only:)
    with 1 show ?thesis by (auto simp: p)
  next
    case 2
    then have "snd (merge_args allow (p # env) args) = [] \<longleftrightarrow>
        (knownArg k' \<or> allow k') \<and> snd (merge_args allow env args) = []"
      by (auto simp: p split: prod.splits)
    with Cons.IH [OF wf, of args] 2 show ?thesis by (simp add: p)
  qed
qed simp

section \<open>Argument substitution returns\<close>

lemma expand_sources_returns:
  assumes "list_all (\<lambda>(n, src). source_ok dg src) m"
  shows "\<exists>m' es. expand_sources ax m = Some (m', es)"
  unfolding expand_sources_def
proof (rule upd_map_opt_returns)
  fix k v
  assume "(k, v) \<in> set m"
  then have "source_ok dg v" using assms by (auto simp: list_all_iff)
  then show "map_option (\<lambda>(src', r). (src', errs_of (wrap (''source '' @ Quote k) r)))
      (source_processBuildArgs ax v) \<noteq> None"
    using source_processBuildArgs_returns(1) [of dg v ax] by auto
qed

lemma expand_tests_returns:
  assumes "list_all (test_ok dg) ts"
  shows "\<exists>ts' es. expand_tests ax ts = Some (ts', es)"
  unfolding expand_tests_def
proof (rule upd_list_opt_returns)
  fix i t
  assume "t \<in> set ts"
  then have "test_ok dg t" using assms by (auto simp: list_all_iff)
  then show "map_option (\<lambda>(t', r). (t', errs_of r)) (testSpec_processBuildArgs ax t) \<noteq> None"
    using testSpec_processBuildArgs_returns [of dg t ax] by auto
qed

lemma expand_source_map_returns:
  assumes "list_all (\<lambda>p. source_ok dg (snd p)) m"
  shows "expand_source_map ax what m \<noteq> None"
proof -
  have "source_processBuildArgs ax (snd p) \<noteq> None" if "p \<in> set m" for p
    using assms that source_processBuildArgs_returns(1) [of dg "snd p" ax]
    by (auto simp: list_all_iff)
  then have "those (map (\<lambda>(k, s). source_processBuildArgs ax s) m) \<noteq> None"
    unfolding those_map_None split_beta by blast
  then show ?thesis by (simp add: expand_source_map_def del: not_None_eq)
qed

lemma repo_processBuildArgs_returns: "repo_ok dg r \<Longrightarrow> repo_processBuildArgs ax r \<noteq> None"
proof -
  assume ok: "repo_ok dg r"
  have "mount_processBuildArgs ax m \<noteq> None" if "m \<in> set (repo_Data r)" for m
    using ok that source_processBuildArgs_returns(4) [of dg m ax]
    by (auto simp: repo_ok_def list_all_iff)
  then have "those (map (mount_processBuildArgs ax) (repo_Data r)) \<noteq> None"
    unfolding those_map_None by blast
  moreover have "expand_source_map ax ''config '' (repo_Config r) \<noteq> None"
    "expand_source_map ax ''key '' (repo_Keys r) \<noteq> None"
    using ok expand_source_map_returns [of dg] unfolding repo_ok_def by blast+
  ultimately show ?thesis
    by (auto simp: repo_processBuildArgs_def Let_def)
qed

lemma deps_processBuildArgs_returns:
  assumes "deps_ok dg d"
  shows "\<exists>d' r. deps_processBuildArgs ax d = Some (d', r)"
proof (cases d)
  case None
  then show ?thesis by (simp add: deps_processBuildArgs_def)
next
  case (Some d')
  have "repo_processBuildArgs ax r \<noteq> None" if "r \<in> set (pd_ExtraRepos d')" for r
    using assms that Some repo_processBuildArgs_returns by (auto simp: deps_ok_def list_all_iff)
  then have "those (map (repo_processBuildArgs ax) (pd_ExtraRepos d')) \<noteq> None"
    unfolding those_map_None by blast
  then show ?thesis
    by (auto simp: Some deps_processBuildArgs_def split: prod.splits option.splits)
qed

lemma target_processBuildArgs_returns:
  assumes "target_ok dg t"
  shows "\<exists>t' r. target_processBuildArgs ax t = Some (t', r)"
proof -
  obtain ts es where "expand_tests ax (tg_Tests t) = Some (ts, es)"
    using assms expand_tests_returns [of dg "tg_Tests t" ax] by (auto simp: target_ok_def)
  moreover obtain d r where "deps_processBuildArgs ax (tg_Dependencies t) = Some (d, r)"
    using assms deps_processBuildArgs_returns [of dg "tg_Dependencies t" ax] by (auto simp: target_ok_def)
  ultimately show ?thesis
    by (simp add: target_processBuildArgs_def Let_def split_beta)
qed

lemma expand_targets_returns:
  assumes "list_all (\<lambda>(k, t). target_ok dg t) m"
  shows "\<exists>m' es. expand_targets ax m = Some (m', es)"
  unfolding expand_targets_def
proof (rule upd_map_opt_returns)
  fix k t
  assume "(k, t) \<in> set m"
  then have "target_ok dg t" using assms by (auto simp: list_all_iff)
  then show "map_option (\<lambda>(t', r). (t', errs_of (wrap (''target '' @ k) r))) (target_processBuildArgs ax t) \<noteq> None"
    using target_processBuildArgs_returns [of dg t ax] by auto
qed

lemma SubstituteArgs_total:
  assumes "spec_ok dg s"
  shows "\<exists>s' r. SubstituteArgs lx allow env s = Some (s', r)"
proof -
  let ?ax = "\<lparr>ax_lex = lx, ax_args = fst (merge_args allow env (sp_Args s)), ax_allow = allow\<rparr>"
  have "list_all (\<lambda>(n, src). source_ok dg src) (sp_Sources s)"
    using assms by (simp add: spec_ok_def list_all_iff split_beta)
  from expand_sources_returns [OF this, of ?ax]
  obtain srcs es1 where "expand_sources ?ax (sp_Sources s) = Some (srcs, es1)" by blast
  moreover obtain ts es2 where "expand_tests ?ax (sp_Tests s) = Some (ts, es2)"
    using assms expand_tests_returns [of dg "sp_Tests s" ?ax] by (auto simp: spec_ok_def)
  moreover obtain tg es3 where "expand_targets ?ax (sp_Targets s) = Some (tg, es3)"
    using assms expand_targets_returns [of dg "sp_Targets s" ?ax] by (auto simp: spec_ok_def)
  moreover obtain d r where "deps_processBuildArgs ?ax (sp_Dependencies s) = Some (d, r)"
    using assms deps_processBuildArgs_returns [of dg "sp_Dependencies s" ?ax] by (auto simp: spec_ok_def)
  ultimately show ?thesis
    by (simp add: SubstituteArgs_def Let_def split_beta)
qed

lemma SubstituteArgs_errors:
  assumes "SubstituteArgs lx allow env s = Some (s', r)"
  shows "\<exists>es. r = join_errs (snd (merge_args allow env (sp_Args s)) @ es)"
  using assms
  by (auto simp: SubstituteArgs_def Let_def split_beta split: option.splits)

lemma merge_args_unknown:
  "wf_map env \<Longrightarrow> k \<in> fst ` set env \<Longrightarrow> k \<noteq> SDE \<Longrightarrow> map_of args k = None \<Longrightarrow>
    \<not> knownArg k \<Longrightarrow> \<not> allow k \<Longrightarrow> \<exists>e \<in> set (snd (merge_args allow env args)). err_is e errUnknownArg"
proof (induction env arbitrary: args)
  case (Cons p env)
  obtain k' v where p: "p = (k', v)" by (cases p)
  have wf: "wf_map env" using Cons.prems(1) by (simp add: wf_map_def)
  show ?case
  proof (cases "k' = k")
    case True
    with Cons.prems show ?thesis by (auto simp: p guard_err_def split: prod.splits)
  next
    case False
    then have "k \<in> fst ` set env" using Cons.prems(2) p by auto
    moreover have "map_of (mput k' v args) k = None"
      using False Cons.prems(4) by (simp add: update_conv')
    ultimately show ?thesis
      using Cons.IH [OF wf, of "mput k' v args"] Cons.IH [OF wf, of args] Cons.prems(3-6)
      by (auto simp: p split: prod.splits)
  qed
qed simp

end
