(* ===== verification/Examples.thy ===== *)
theory Examples
  imports Load_Props
begin

text \<open>
  Concrete specs, sources and third-party parameters on which the properties are evaluated: a
  digest check, a URL host function, a lexer that replaces the word \<open>$NAME\<close>, and a spec with a git
  source, an inline patch, a repository, a base image and a target.
\<close>

definition any_digest :: "string \<Rightarrow> gores" where
  "any_digest d = (if HasPrefix d ''sha256:'' then None else Some (Msg ''invalid checksum digest format''))"

definition demo_host :: "string \<Rightarrow> string option" where
  "demo_host u = (case Cut u ''://'' of (a, b, found) \<Rightarrow>
     if found then (case Cut b ''/'' of (h, r, f) \<Rightarrow> Some h) else None)"

definition demo_remote :: "string \<Rightarrow> string option" where
  "demo_remote u = Some u"

definition dollar_lex :: lexer where
  "dollar_lex w args =
    (case w of [] \<Rightarrow> Inr ([], [])
     | c # n \<Rightarrow> if c = CHR ''$'' then (case map_of args n of Some v \<Rightarrow> Inr (v, []) | None \<Rightarrow> Inr (w, [n]))
               else Inr (w, []))"

definition no_auth :: gitAuth where
  "no_auth = \<lparr>ga_Header = [], ga_Token = [], ga_SSH = []\<rparr>"

definition gomod_gen :: sourceGenerator where
  "gomod_gen = \<lparr>gen_Subpath = [], gen_Gomod = Some \<lparr>gm_Paths = None, gm_Auth = []\<rparr>,
     gen_Cargohome = None, gen_Pip = None, gen_NodeMod = None\<rparr>"

definition git_source :: source where
  "git_source = Source None (Some \<lparr>git_URL = ''https://example.com/foo.git'', git_Commit = ''$COMMIT'',
     git_KeepGitDir = False, git_Auth = no_auth\<lparr>ga_Token := ''tok''\<rparr>\<rparr>) None None None None [] None None [gomod_gen]"

definition inline_source :: source where
  "inline_source = Source None None None None None
     (Some \<lparr>inl_File = Some \<lparr>if_Contents = ''patch text'', if_Permissions = 0, if_UID = 0, if_GID = 0\<rparr>,
       inl_Dir = None\<rparr>) [] None None []"

definition context_source :: source where
  "context_source = Source None None None (Some \<lparr>ctx_Name = []\<rparr>) None None [] None None []"

definition demo_mount :: sourceMount where
  "demo_mount = SourceMount ''/mnt'' context_source"

definition image_source :: source where
  "image_source = Source (Some (SourceDockerImage ''busybox''
     (Some (Command [] [demo_mount] [(''K'', ''v'')] [BuildStep ''make'' [(''A'', ''$COMMIT'')] []]))))
     None None None None None ''/out'' None None []"

definition plain_source :: source where
  "plain_source = Source (Some (SourceDockerImage ''busybox''
     (Some (Command [] [demo_mount] [(''K'', ''v'')] [BuildStep ''make'' [(''A'', ''b'')] []]))))
     None None None None None ''/out'' None None []"

definition demo_repo :: packageRepositoryConfig where
  "demo_repo = \<lparr>repo_Keys = [(''k.gpg'', Source None None
       (Some \<lparr>http_URL = ''https://example.com/k'', http_Digest = [], http_Permissions = 0\<rparr>)
       None None None [] None None [])],
     repo_Config = [(''r.repo'', inline_source)], repo_Data = [demo_mount], repo_Envs = []\<rparr>"

definition demo_image :: imageConfig where
  "demo_image = empty_image\<lparr>ic_Base := ''mcr.microsoft.com/base'', ic_Labels := [(''l'', ''$COMMIT'')],
     ic_Post := Some \<lparr>pi_Symlinks = [(''/usr/bin/foo'',
       \<lparr>sl_Path = ''/foo'', sl_Paths = [], sl_User = [], sl_Group = []\<rparr>)]\<rparr>\<rparr>"

definition demo_spec :: spec where
  "demo_spec = empty_spec\<lparr>sp_Name := ''foo'', sp_Version := ''1.0'', sp_Revision := ''1'',
     sp_Args := [(''COMMIT'', ''abc'')],
     sp_Sources := [(''src'', git_source), (''fix.patch'', inline_source), (''tools'', image_source)],
     sp_Patches := [(''src'', [\<lparr>p_Source = ''fix.patch'', p_Strip = None, p_Path = []\<rparr>])],
     sp_Build := empty_build\<lparr>ab_Steps := [BuildStep ''make'' [(''V'', ''$COMMIT'')] []]\<rparr>,
     sp_Dependencies := Some (empty_deps\<lparr>pd_ExtraRepos := [demo_repo]\<rparr>),
     sp_Image := Some demo_image,
     sp_Targets := [(''azlinux3'', empty_target\<lparr>tg_Image := Some (empty_image\<lparr>ic_User := ''app''\<rparr>)\<rparr>)]\<rparr>"

definition demo_link :: symlinkTarget where
  "demo_link = \<lparr>sl_Path = [], sl_Paths = [''/x''], sl_User = ''u'', sl_Group = []\<rparr>"

definition two_targets :: spec where
  "two_targets = empty_spec\<lparr>sp_Image := Some (empty_image\<lparr>ic_Labels := [(''l'', ''x'')]\<rparr>),
     sp_Targets := [(''a'', empty_target\<lparr>tg_Image := Some (empty_image\<lparr>ic_Labels := [(''k'', ''a'')]\<rparr>)\<rparr>),
       (''b'', empty_target)]\<rparr>"

definition broken_base_spec :: spec where
  "broken_base_spec = empty_spec\<lparr>sp_Image := Some (empty_image\<lparr>ic_Bases := Some
     [\<lparr>bi_Rootfs = Source (Some (SourceDockerImage ''base'' (Some (Command []
       [SourceMount ''/m'' empty_source] [] [BuildStep ''make'' [] []]))))
       None None None None None [] None None []\<rparr>]\<rparr>)\<rparr>"

definition demo_cache :: cacheConfig where
  "demo_cache = \<lparr>cc_Dir = Some \<lparr>cd_Key = ''k'', cd_Dest = ''/cache'', cd_Sharing = ''locked'',
     cd_NoAutoNamespace = False\<rparr>, cc_GoBuild = None, cc_RustSCCache = None, cc_Bazel = None\<rparr>"

lemmas demo_defs = demo_spec_def demo_image_def demo_repo_def image_source_def demo_mount_def
  context_source_def inline_source_def git_source_def gomod_gen_def no_auth_def dollar_lex_def
  demo_host_def any_digest_def

lemma demo_settled: "spec_settled any_digest demo_spec"
  by code_simp

lemma demo_valid: "Validate any_digest demo_spec = Some None"
  by code_simp

end
