(* ===== verification/Spec_Claims.thy ===== *)
theory Spec_Claims
  imports Examples
begin

text \<open>
  The properties of loading a spec: validation, defaults, argument substitution, sources, symlinks,
  images, dependencies, caches and test checks, each with a witness on concrete data.
\<close>

section \<open>Loading\<close>

text \<open>
  C1 (loading never panics).  A decoded spec that passes \<open>Validate\<close>, and whose base images carry
  valid commands, is loaded: \<open>loadSpec\<close> returns a spec, that spec passes \<open>Validate\<close> again and is a
  fixed point of \<open>FillDefaults\<close>, and \<open>SubstituteArgs\<close> returns on it whatever the lexer and the request
  are.
\<close>

theorem load_then_substitute:
  assumes "decode dt = Inr s" and "spec_settled dg s" and "Validate dg s = Some None"
  shows "\<exists>s'. loadSpec decode dg host dt = Some (Inr s') \<and> Validate dg s' = Some None
    \<and> FillDefaults host s' = Some s' \<and> (\<exists>s'' r. SubstituteArgs lx allow env s' = Some (s'', r))"
proof -
  have ok: "spec_ok dg s" using assms(2,3) by (simp add: Validate_nil)
  obtain s' where s': "FillDefaults host s = Some s'" "spec_ok dg s'" "FillDefaults host s' = Some s'"
    using spec_defaults.returns [OF ok, of host] spec_defaults.fills [OF ok, of host] by blast
  have "Validate dg s' = Some None"
    using s'(2) Validate_nil [OF spec_ok_settled] by blast
  moreover have "loadSpec decode dg host dt = Some (Inr s')"
    using assms s' by (simp add: loadSpec_def)
  ultimately show ?thesis
    using s' SubstituteArgs_total [OF s'(2)] by blast
qed

theorem load_then_substitute_witness:
  "\<exists>s'. loadSpec (\<lambda>_. Inr demo_spec) any_digest demo_host [] = Some (Inr s') \<and> Validate any_digest s' = Some None
    \<and> FillDefaults demo_host s' = Some s'
    \<and> (\<exists>s'' r. SubstituteArgs dollar_lex (\<lambda>_. False) [(''COMMIT'', ''def'')] s' = Some (s'', r))"
  by (rule load_then_substitute [of "\<lambda>_. Inr demo_spec" "[]" demo_spec any_digest demo_host dollar_lex
      "\<lambda>_. False" "[(''COMMIT'', ''def'')]", OF refl demo_settled demo_valid])

text \<open>
  C2 (load.go, Spec.Validate): what validation accepts.  For a spec whose base images, also those of its
  targets, carry valid commands, \<open>Validate\<close> returns nil exactly when every source has one variant and satisfies
  that variant's rules, source names hold no path separator, every patch names an existing source and has a
  subpath iff that source is a directory, repositories, images, symlinks, tests and targets are valid, and the
  build block has steps with commands, a known network mode, valid caches and at most one gobuild cache.  The
  condition is needed: \<open>errorIsOnly\<close> drops the errors of some invalid base images, which then pass \<open>Validate\<close>.
\<close>

theorem Validate_characterised:
  assumes "spec_settled dg s"
  shows "Validate dg s = Some None \<longleftrightarrow> spec_ok dg s"
  using assms by (rule Validate_nil)

theorem Validate_characterised_witness:
  "spec_settled any_digest demo_spec \<and> spec_ok any_digest demo_spec"
  using Validate_characterised [OF demo_settled] demo_valid demo_settled by blast

text \<open>
  C15 (the argument map).  After the loop over the build request, a key has the requested value if
  it is \<open>SOURCE_DATE_EPOCH\<close> or declared in the spec's args, keeps its default if it was not requested,
  and is absent otherwise.  The result does not depend on the iteration order of the request map.
\<close>

theorem substitute_arg_map:
  assumes "wf_map env"
  shows "map_of (fst (merge_args allow env args)) k =
    (case map_of env k of
       Some v \<Rightarrow> if k = SDE \<or> map_of args k \<noteq> None then Some v else None
     | None \<Rightarrow> map_of args k)"
  using assms by (rule merge_args_lookup)

theorem substitute_arg_map_witness:
  "map_of (fst (merge_args (\<lambda>_. False) [(''TARGETARCH'', ''arm64''), (''COMMIT'', ''def'')] [(''COMMIT'', ''abc'')]))
     ''COMMIT'' = Some ''def''
   \<and> map_of (fst (merge_args (\<lambda>_. False) [(''TARGETARCH'', ''arm64''), (''COMMIT'', ''def'')] [(''COMMIT'', ''abc'')]))
     ''TARGETARCH'' = None"
  using substitute_arg_map [of "[(''TARGETARCH'', ''arm64''), (''COMMIT'', ''def'')]" "\<lambda>_. False"
      "[(''COMMIT'', ''abc'')]" "''COMMIT''"]
    substitute_arg_map [of "[(''TARGETARCH'', ''arm64''), (''COMMIT'', ''def'')]" "\<lambda>_. False"
      "[(''COMMIT'', ''abc'')]" "''TARGETARCH''"]
  by (simp add: wf_map_def SDE_def)

text \<open>
  C16 (unknown arguments are rejected).  A request with an argument that is not declared in the
  spec, not known to the frontend, not allowed by the caller and not \<open>SOURCE_DATE_EPOCH\<close> makes
  \<open>SubstituteArgs\<close> return an error that is \<open>errUnknownArg\<close>.
\<close>

theorem unknown_arg_rejected:
  assumes "SubstituteArgs lx allow env s = Some (s', r)" and "wf_map env" and "k \<in> fst ` set env"
    and "k \<noteq> SDE" and "map_of (sp_Args s) k = None" and "\<not> knownArg k" and "\<not> allow k"
  shows "err_is_opt r errUnknownArg"
  using merge_args_unknown [of env k "sp_Args s" allow] assms(2-7) SubstituteArgs_errors [OF assms(1)]
  by auto

lemma demo_unknown_run:
  "map_option (\<lambda>p. err_is_opt (snd p) errUnknownArg)
     (SubstituteArgs dollar_lex (\<lambda>_. False) [(''BOGUS'', ''1'')] demo_spec) \<noteq> None"
  by code_simp

theorem unknown_arg_rejected_witness:
  "\<exists>s' r. SubstituteArgs dollar_lex (\<lambda>_. False) [(''BOGUS'', ''1'')] demo_spec = Some (s', r)
     \<and> err_is_opt r errUnknownArg"
proof -
  obtain s' r where run: "SubstituteArgs dollar_lex (\<lambda>_. False) [(''BOGUS'', ''1'')] demo_spec = Some (s', r)"
    using demo_unknown_run by auto
  have "err_is_opt r errUnknownArg"
    by (rule unknown_arg_rejected [OF run, of "''BOGUS''"])
      (simp_all add: wf_map_def SDE_def demo_spec_def knownArg_def platformArg_def KeyDalecTarget_def)
  with run show ?thesis by blast
qed

text \<open>
  Note (expansion of one word).  \<open>expandArgs\<close> succeeds exactly when the lexer does and every name it
  left unmatched is known or allowed and is not a platform argument; platform arguments must be
  opted into by declaring them.
\<close>

theorem expandArgs_succeeds:
  "expandArgs ax w = (u, None) \<longleftrightarrow>
    (\<exists>un. ax_lex ax w (ax_args ax) = Inr (u, un)
       \<and> list_all (\<lambda>m. (knownArg m \<or> ax_allow ax m) \<and> \<not> platformArg m) un)"
  by (simp add: expandArgs_ok list_all_iff)

text \<open>
  Note (\<open>Validate\<close> itself can panic).  A patch that names a source without any variant makes the
  validation of the patch call \<open>IsDir\<close> on that source, and the generated dispatch panics, although
  validation is meant to report such a source.
\<close>

theorem Validate_panics_on_empty_patch_source:
  "Validate dg (empty_spec\<lparr>sp_Sources := [(''p'', empty_source)],
     sp_Patches := [(''p'', [\<lparr>p_Source = ''p'', p_Strip = None, p_Path = []\<rparr>])]\<rparr>) = None"
  by (simp add: Validate_def patches_check_def patch_check_def validatePatch_def SourceIsDir_def
      toInterface_def empty_source_def)

section \<open>Sources\<close>

text \<open>
  C13 (what \<open>Source.validate\<close> accepts).  The validation of a source, with its nested commands,
  mounts and docker builds, returns nil exactly on the sources that \<open>source_ok\<close> describes.
\<close>

theorem source_validate_characterised: "source_validate dg s = None \<longleftrightarrow> source_ok dg s"
  by (rule source_validate_nil)

text \<open>
  C14 (defaults of a source).  On a valid source \<open>fillDefaults\<close> returns (the dispatch does not panic
  at any depth), the result is valid, keeps path, filters and variant, and filling it again
  changes nothing.
\<close>

theorem source_fillDefaults_correct:
  assumes "source_validate dg s = None"
  shows "\<exists>s'. source_fillDefaults host s = Some s' \<and> source_validate dg s' = None
    \<and> source_fillDefaults host s' = Some s' \<and> same_variants s s' \<and> s_Path s' = s_Path s"
proof -
  have "settles (source_fillDefaults host) (source_ok dg) s"
    using assms by (intro source_fillDefaults_settles) (simp add: source_validate_nil)
  then obtain s' where "source_fillDefaults host s = Some s'" "source_ok dg s'"
    "source_fillDefaults host s' = Some s'"
    by (rule settlesE)
  with source_fillDefaults_keeps [of host s s'] show ?thesis
    by (simp add: source_validate_nil)
qed

theorem source_fillDefaults_correct_witness:
  "\<exists>s'. source_fillDefaults demo_host image_source = Some s' \<and> source_validate any_digest s' = None
    \<and> source_fillDefaults demo_host s' = Some s' \<and> same_variants image_source s' \<and> s_Path s' = s_Path image_source"
proof -
  have "source_validate any_digest image_source = None" by code_simp
  from source_fillDefaults_correct [OF this] show ?thesis .
qed

text \<open>
  Note (git credentials reach the go module generators).  For a git source with a token, every gomod
  generator without an entry for the source's host gets one that carries the token; an explicit
  entry is never overwritten.
\<close>

theorem git_auth_filled:
  assumes "gen_Gomod g = Some gm" and "ga_Token auth \<noteq> []"
  shows "\<exists>gm'. gen_Gomod (generator_fillDefaults h auth g) = Some gm' \<and>
    map_of (gm_Auth gm') k =
      (if map_of (gm_Auth gm) k \<noteq> None then map_of (gm_Auth gm) k
       else if k = h then Some \<lparr>gga_Header = [], gga_Token = ga_Token auth, gga_SSH = None\<rparr>
       else None)"
  using assms
  by (auto simp: generator_fillDefaults_def gomod_fillDefaults_def update_conv')

theorem git_auth_filled_witness:
  "\<exists>gm'. gen_Gomod (generator_fillDefaults ''example.com'' (no_auth\<lparr>ga_Token := ''tok''\<rparr>) gomod_gen) = Some gm' \<and>
    map_of (gm_Auth gm') ''example.com'' = Some \<lparr>gga_Header = [], gga_Token = ''tok'', gga_SSH = None\<rparr>"
  using git_auth_filled [of gomod_gen "\<lparr>gm_Paths = None, gm_Auth = []\<rparr>" "no_auth\<lparr>ga_Token := ''tok''\<rparr>"
      "''example.com''" "''example.com''"]
  by (simp add: gomod_gen_def no_auth_def)

text \<open>
  Note (mounts below the extracted path are refused).  For an extracted path that is not the root,
  \<open>validateInRoot\<close> accepts a mount exactly when the mount is valid and its cleaned destination does
  not lie at or below the cleaned path.
\<close>

theorem validateInRoot_characterised:
  assumes "\<not> isRoot root" and "clean_elems root \<noteq> []"
  shows "mount_validateInRoot dg root m = None \<longleftrightarrow>
    mount_validate dg m = None
    \<and> \<not> (is_rooted (mnt_Dest m) = is_rooted root \<and> prefix (clean_elems root) (clean_elems (mnt_Dest m)))"
  using assms(1) pathHasPrefix_elems [OF assms(2), of "mnt_Dest m"]
  by (auto simp: mount_validateInRoot_def split: option.splits)

theorem validateInRoot_characterised_witness:
  "mount_validateInRoot any_digest ''/out'' (SourceMount ''/out/../mnt'' context_source) = None
   \<and> mount_validateInRoot any_digest ''/out'' (SourceMount ''/out/./sub'' context_source) \<noteq> None"
proof -
  have valid: "mount_validate any_digest (SourceMount ''/out/../mnt'' context_source) = None"
    by code_simp
  have root: "\<not> isRoot ''/out''" "clean_elems ''/out'' \<noteq> []" by code_simp+
  have "\<not> prefix (clean_elems ''/out'') (clean_elems ''/out/../mnt'')"
    "is_rooted ''/out/./sub'' = is_rooted ''/out'' \<and> prefix (clean_elems ''/out'') (clean_elems ''/out/./sub'')"
    by code_simp+
  with valid validateInRoot_characterised [OF root, of any_digest "SourceMount ''/out/../mnt'' context_source"]
    validateInRoot_characterised [OF root, of any_digest "SourceMount ''/out/./sub'' context_source"]
  show ?thesis by simp
qed

text \<open>
  Note (sources without references are left alone).  If the lexer returns every expanded string of a
  valid source unchanged, \<open>processBuildArgs\<close> returns the source unchanged and a nil error.
\<close>

theorem source_without_references:
  assumes "source_validate dg s = None" and "\<forall>w \<in> set (source_words s). literal ax w"
  shows "source_processBuildArgs ax s = Some (s, None)"
  using assms source_literal(1) [of dg s ax] by (simp add: source_validate_nil)

theorem source_without_references_witness:
  "source_processBuildArgs \<lparr>ax_lex = dollar_lex, ax_args = [], ax_allow = \<lambda>_. False\<rparr> plain_source
     = Some (plain_source, None)"
proof -
  have v: "source_validate any_digest plain_source = None" by code_simp
  have l: "\<forall>w \<in> set (source_words plain_source). literal \<lparr>ax_lex = dollar_lex, ax_args = [], ax_allow = \<lambda>_. False\<rparr> w"
    by (simp add: plain_source_def demo_mount_def context_source_def patterns_words_def literal_def dollar_lex_def)
  from source_without_references [OF v l] show ?thesis .
qed

text \<open>
  Note (step variables are expanded twice).  Inside an image command the environment of a step is
  expanded by \<open>BuildStep.processBuildArgs\<close> and then once more by \<open>Command.processBuildArgs\<close>: the value
  of an argument that itself looks like a reference is expanded again, which does not happen for
  the variables of the command.
\<close>

theorem cmd_step_env_expanded_twice:
  assumes "expandArgs ax v = (u, None)" and "expandArgs ax u = (w, None)"
  shows "cmd_step_processBuildArgs ax i (BuildStep c [(k, v)] ms) = (BuildStep c [(k, w)] ms, [])
    \<and> step_processBuildArgs ax (BuildStep c [(k, v)] ms) = (BuildStep c [(k, u)] ms, None)"
  using assms
  by (simp add: cmd_step_processBuildArgs_def step_processBuildArgs_def upd_map_def map_vals_def
      expand_set_def expand_keep_def errs_of_def join_errs_def wrap_def)

theorem cmd_step_env_expanded_twice_witness:
  "cmd_step_processBuildArgs \<lparr>ax_lex = dollar_lex, ax_args = [(''A'', ''$B''), (''B'', ''x'')], ax_allow = \<lambda>_. False\<rparr>
     0 (BuildStep ''make'' [(''V'', ''$A'')] []) = (BuildStep ''make'' [(''V'', ''x'')] [], [])"
proof -
  let ?ax = "\<lparr>ax_lex = dollar_lex, ax_args = [(''A'', ''$B''), (''B'', ''x'')], ax_allow = \<lambda>_. False\<rparr>"
  have "expandArgs ?ax ''$A'' = (''$B'', None)" "expandArgs ?ax ''$B'' = (''x'', None)"
    by (simp_all add: expandArgs_def dollar_lex_def join_errs_def wrap_def)
  from cmd_step_env_expanded_twice [OF this] show ?thesis by simp
qed

section \<open>Images\<close>

text \<open>
  Note (symlink validation).  \<open>validateSymlinks\<close> returns nil exactly when every entry has a non-empty
  source, sets exactly one of \<open>path\<close> and \<open>paths\<close>, has no empty newpath, and all newpaths of all entries
  are different, also when the shortcut for fewer than two pairs is taken.
\<close>

theorem validateSymlinks_characterised: "validateSymlinks links = None \<longleftrightarrow> symlinks_ok links"
  by (rule validateSymlinks_nil)

text \<open>
  Note (the symlink script is reproducible).  The script that creates the post-install symlinks does
  not depend on the iteration order of the symlink map.
\<close>

theorem symlink_script_reproducible:
  assumes "wf_map m" and "mset m = mset m'"
  shows "symlink_script (Some \<lparr>pi_Symlinks = m\<rparr>) = symlink_script (Some \<lparr>pi_Symlinks = m'\<rparr>)"
  using assms by (rule symlink_script_perm)

theorem symlink_script_reproducible_witness:
  "symlink_script (Some \<lparr>pi_Symlinks = [(''/b'', demo_link), (''/a'', demo_link)]\<rparr>)
   = symlink_script (Some \<lparr>pi_Symlinks = [(''/a'', demo_link), (''/b'', demo_link)]\<rparr>)"
  by (rule symlink_script_reproducible) (simp_all add: wf_map_def)

text \<open>
  Note (environment of the image).  The merge of image environments only appends: the result is the
  base environment followed by the new entries that are not already there verbatim.  A variable
  that the base image defines with another value is therefore not replaced but defined twice.
\<close>

theorem MergeImageConfig_env:
  assumes "MergeImageConfig split dst (Some i) = Inr cfg"
  shows "dc_Env cfg = dc_Env dst @ filter (\<lambda>e. e \<notin> set (dc_Env dst)) (ic_Env i)"
  using assms
  by (auto simp: MergeImageConfig_def merge_env_append split: if_splits sum.splits)

theorem MergeImageConfig_env_witness:
  "\<exists>cfg. MergeImageConfig (\<lambda>w. Inr [w]) \<lparr>dc_Entrypoint = None, dc_Cmd = None, dc_Env = [''PATH=/bin''],
      dc_WorkingDir = [], dc_StopSignal = [], dc_User = [], dc_Volumes = [], dc_Labels = []\<rparr>
      (Some (empty_image\<lparr>ic_Env := [''PATH=/opt/bin'']\<rparr>)) = Inr cfg
    \<and> dc_Env cfg = [''PATH=/bin'', ''PATH=/opt/bin'']"
proof -
  let ?d = "\<lparr>dc_Entrypoint = None, dc_Cmd = None, dc_Env = [''PATH=/bin''],
      dc_WorkingDir = [], dc_StopSignal = [], dc_User = [], dc_Volumes = [], dc_Labels = []\<rparr>"
  let ?i = "empty_image\<lparr>ic_Env := [''PATH=/opt/bin'']\<rparr>"
  obtain cfg where run: "MergeImageConfig (\<lambda>w. Inr [w]) ?d (Some ?i) = Inr cfg"
    by (simp add: MergeImageConfig_def empty_image_def)
  from MergeImageConfig_env [OF this] have "dc_Env cfg = [''PATH=/bin'', ''PATH=/opt/bin'']"
    by simp
  with run show ?thesis by blast
qed

text \<open>
  Note (labels leak between targets).  \<open>MergeSpecImage\<close> writes a target's labels into the label map of
  the spec itself: after a merge for one target, the merged configuration of a target without an
  image section of its own carries that target's labels.
\<close>

theorem MergeSpecImage_leaks_labels:
  assumes "sp_Image s = Some g" and "ic_Labels g \<noteq> []" and "target_image s a = Some i"
    and "target_image s b = None" and "wf_map (ic_Labels i)" and "map_of (ic_Labels i) k = Some v"
  shows "map_of (ic_Labels (MergeSpecImage (MergeSpecImage_spec s a) b)) k = Some v
    \<and> map_of (ic_Labels (MergeSpecImage s b)) k = map_of (ic_Labels g) k"
proof -
  have "target_image (MergeSpecImage_spec s a) b = None"
    using assms by (simp add: MergeSpecImage_spec_def target_image_def)
  with assms show ?thesis
    by (simp add: MergeSpecImage_def MergeSpecImage_spec_def merge_map_lookup)
qed

theorem MergeSpecImage_leaks_labels_witness:
  "map_of (ic_Labels (MergeSpecImage (MergeSpecImage_spec two_targets ''a'') ''b'')) ''k'' = Some ''a''
   \<and> map_of (ic_Labels (MergeSpecImage two_targets ''b'')) ''k'' = None"
  using MergeSpecImage_leaks_labels [of two_targets "empty_image\<lparr>ic_Labels := [(''l'', ''x'')]\<rparr>" "''a''"
      "empty_image\<lparr>ic_Labels := [(''k'', ''a'')]\<rparr>" "''b''" "''k''" "''a''"]
  by (simp add: two_targets_def target_image_def empty_target_def empty_image_def wf_map_def)

text \<open>
  Note (invalid base images pass validation).  \<open>errorIsOnly\<close> looks for the target error anywhere in a
  wrapped error, so a base image with an empty reference passes \<open>Validate\<close>, and so does one whose
  command mounts a source without a variant; \<open>FillDefaults\<close> then panics on the validated spec.
\<close>

theorem invalid_base_accepted:
  "imageConfig_validate dg (Some (empty_image\<lparr>ic_Bases := Some [image_of_ref []]\<rparr>)) = None
   \<and> Validate dg broken_base_spec = Some None \<and> FillDefaults host broken_base_spec = None"
proof -
  have a: "imageConfig_validate dg (Some (empty_image\<lparr>ic_Bases := Some [image_of_ref []]\<rparr>)) = None"
    by (simp add: imageConfig_validate_def bases_of_def empty_image_def baseImage_validate_def
        image_of_ref_def validateSourceVariants_def variant_count_def generate_errs_def errs_of_def
        join_errs_def guard_err_def wrap_def errorIsOnly_def postInstall_validate_def Let_def)
  have b: "imageConfig_validate dg (sp_Image broken_base_spec) = None"
    by (simp add: broken_base_spec_def imageConfig_validate_def bases_of_def empty_image_def
        baseImage_validate_def validateSourceVariants_def variant_count_def generate_errs_def
        errs_of_def join_errs_def guard_err_def wrap_def errorIsOnly_def postInstall_validate_def
        empty_source_def Let_def step_errs_def step_validate_def with_source_def)
  have c: "Validate dg broken_base_spec = Some None"
    using b by (simp add: Validate_def broken_base_spec_def empty_spec_def empty_build_def
        patches_check_def deps_validate_def artifactBuild_validate_def step_errs_def join_errs_def
        errs_of_def wrap_def)
  have d: "FillDefaults host broken_base_spec = None"
    by (simp add: FillDefaults_def broken_base_spec_def empty_spec_def fill_source_map_def
        deps_fillDefaults_def imageConfig_fillDefaults_def migrate_base_def bases_of_def
        empty_image_def baseImage_fillDefaults_def empty_source_def Let_def)
  from a c d show ?thesis by blast
qed

section \<open>Dependencies and signing\<close>

text \<open>
  Note (merging dependencies).  A list that the target sets replaces the one of the spec, an empty
  one inherits it, and merging with nil is neutral; the sysext list of both sides is lost as soon
  as both sides are present.
\<close>

theorem MergeDependencies_fields:
  "MergeDependencies None t = t \<and> MergeDependencies b None = b \<and>
   (\<exists>m. MergeDependencies (Some d) (Some e) = Some m
     \<and> pd_Build m = (if pd_Build e = [] then pd_Build d else pd_Build e)
     \<and> pd_Runtime m = (if pd_Runtime e = [] then pd_Runtime d else pd_Runtime e)
     \<and> pd_Recommends m = (if pd_Recommends e = [] then pd_Recommends d else pd_Recommends e)
     \<and> pd_Test m = (if pd_Test e = [] then pd_Test d else pd_Test e)
     \<and> pd_ExtraRepos m = (if pd_ExtraRepos e = [] then pd_ExtraRepos d else pd_ExtraRepos e)
     \<and> pd_Sysext m = None)"
  by (cases b) (simp_all add: MergeDependencies_def if_any_def)

text \<open>
  Signer precedence: if all signers have a frontend, \<open>GetSigner\<close> returns the target's signer when it names an
  image, otherwise the spec's, otherwise none; it reports an override exactly when both are set.
\<close>

lemma GetSigner_precedence:
  assumes "hasValidSigner (sp_PackageConfig s) = Some root"
    and "hasValidSigner (case map_of (sp_Targets s) key of None \<Rightarrow> None | Some t \<Rightarrow> tg_PackageConfig t) = Some v"
  shows "GetSigner s key =
    Some (if v then signer_of (case map_of (sp_Targets s) key of None \<Rightarrow> None | Some t \<Rightarrow> tg_PackageConfig t)
          else if root then signer_of (sp_PackageConfig s) else None, v \<and> root)"
  using assms valid_signer_frontend [of "case map_of (sp_Targets s) key of None \<Rightarrow> None | Some t \<Rightarrow> tg_PackageConfig t"]
  by (cases v) (auto simp: GetSigner_def hasValidSigner_def split: option.splits)

text \<open>
  Legacy dependency lists are dropped: decoding a dependency list in the old sequence form
  leaves the list as it was: the names in the sequence are lost.
\<close>

lemma legacy_dependency_list_dropped:
  "dependencyList_UnmarshalYAML l (SeqNode names) = l"
  by (simp add: dependencyList_UnmarshalYAML_def Let_def)

text \<open>
  Note (repository keys).  Filling the defaults of a repository sets the permissions of every key
  fetched over HTTP to 0644, also when the spec asks for other permissions, and makes a repository
  without environments available for build, install and test.
\<close>

theorem repo_defaults:
  assumes "repo_fillDefaults host r = Some r'"
  shows "(\<forall>p \<in> set (repo_Keys r'). \<forall>h. s_HTTP (snd p) = Some h \<longrightarrow> http_Permissions h = gpgKeyPerms)
    \<and> (repo_Envs r = [] \<longrightarrow> (\<forall>env \<in> {''build'', ''install'', ''test''}. GetExtraRepos [r'] env = [r']))
    \<and> (repo_Envs r \<noteq> [] \<longrightarrow> repo_Envs r' = repo_Envs r)"
  using assms
  by (auto simp: repo_fillDefaults_def Let_def GetExtraRepos_def map_vals_def key_permissions_def
      split: option.splits if_splits)

theorem repo_defaults_witness:
  "\<exists>r'. repo_fillDefaults demo_host demo_repo = Some r' \<and>
     (\<forall>env \<in> {''build'', ''install'', ''test''}. GetExtraRepos [r'] env = [r'])"
proof -
  have "repo_fillDefaults demo_host demo_repo \<noteq> None" by code_simp
  then obtain r' where r': "repo_fillDefaults demo_host demo_repo = Some r'" by blast
  have "repo_Envs demo_repo = []" by (simp add: demo_repo_def)
  with repo_defaults [OF r'] r' show ?thesis by blast
qed

section \<open>Caches\<close>

text \<open>
  Note (validated caches become run options).  For a cache configuration that passes \<open>validate\<close> the run
  option never panics, whatever the platform, and it only appends mounts and variables.
\<close>

theorem cache_run_option_total:
  assumes "cacheConfig_validate c = None"
  shows "\<exists>ei'. cacheConfig_ToRunOption fmt dflt distroKey info c ei = Some ei'
    \<and> prefix (ei_Mounts ei) (ei_Mounts ei') \<and> prefix (ei_Env ei) (ei_Env ei')"
proof -
  have "cacheConfig_ok c" using assms by (simp add: cacheConfig_validate_nil)
  from cacheConfig_ToRunOption_returns [OF this] obtain ei' where
    "cacheConfig_ToRunOption fmt dflt distroKey info c ei = Some ei'" by blast
  with cacheConfig_ToRunOption_appends [OF this] show ?thesis by blast
qed

theorem cache_run_option_total_witness:
  "\<exists>ei'. cacheConfig_ToRunOption pl_Architecture \<lparr>pl_OS = ''linux'', pl_Architecture = ''amd64'', pl_Variant = [],
        pl_OSVersion = [], pl_OSFeatures = None\<rparr>
      ''azlinux3'' \<lparr>ci_Dir = None, ci_GoBuild = None, ci_RustSCCache = None, ci_Bazel = None\<rparr> demo_cache
      \<lparr>ei_Platform = None, ei_Mounts = [], ei_Env = [], ei_SSH = []\<rparr> = Some ei'"
proof -
  have "cacheConfig_validate demo_cache = None" by code_simp
  from cache_run_option_total [OF this] show ?thesis by blast
qed

section \<open>Checks\<close>

text \<open>
  Note (test checks).  A file check reports no error exactly when the file's kind and permissions are
  the expected ones and its contents satisfy every stated condition: empty, equal, containing,
  matching, starting and ending as required.
\<close>

theorem fileCheck_characterised:
  "fileCheck_Check rx c dt mode isDir p = [] \<longleftrightarrow>
    isDir = fc_IsDir c \<and> (fc_Permissions c = 0 \<or> fc_Permissions c = FileMode_Perm mode)
    \<and> output_ok rx (fc_CheckOutput c) dt"
  by (rule fileCheck_Check_nil)

end
