(* ===== verification/Request.thy ===== *)
theory Request
  imports Deps
begin

text \<open>
  Requests to other frontends (frontend/request.go and the forwarding part of frontend/gateway.go):
  the options that build a solve request, the request sent to a signer, the decision whether to
  sign at all, forwarding to a custom frontend or to a Dockerfile build, and the per-reference
  cache switch.

  A build client is seen through its options and inputs.  Marshalled LLB definitions are values of
  a type \<open>'d\<close>; marshalling, the Dockerfile syntax detection and solving are services of
  buildkit and enter as the fields of a \<open>client\<close> record.
\<close>

section \<open>Build options\<close>

type_synonym buildOpts = "string gomap"

text \<open>Reading a missing key of a Go map of strings gives the empty string.\<close>

definition opt_get :: "buildOpts \<Rightarrow> string \<Rightarrow> string" where
  "opt_get opts k = (case map_of opts k of None \<Rightarrow> [] | Some v \<Rightarrow> v)"

definition keyTarget :: string where "keyTarget = ''target''"

definition keyTopLevelTarget :: string where "keyTopLevelTarget = ''dalec.target''"

definition requestIDKey :: string where "requestIDKey = ''requestid''"

definition build_arg :: "string \<Rightarrow> string" where "build_arg k = ''build-arg:'' @ k"

definition GetTargetKey :: "buildOpts \<Rightarrow> string" where
  "GetTargetKey opts = opt_get opts keyTopLevelTarget"

definition GetBuildArg :: "buildOpts \<Rightarrow> string \<Rightarrow> string \<times> bool" where
  "GetBuildArg opts k =
    (case map_of opts (build_arg k) of Some v \<Rightarrow> (v, True) | None \<Rightarrow> ([], False))"

text \<open>
  A loop that copies one map into another, entry by entry, skipping some keys.
\<close>

definition copy_into :: "(string \<Rightarrow> bool) \<Rightarrow> (string \<Rightarrow> string) \<Rightarrow> 'v gomap \<Rightarrow> 'v gomap \<Rightarrow> 'v gomap" where
  "copy_into keep name m dst = foldl (\<lambda>d (k, v). if keep k then mput (name k) v d else d) dst m"

text \<open>The same loop when existing entries of the destination win.\<close>

definition copy_missing :: "(string \<Rightarrow> bool) \<Rightarrow> 'v gomap \<Rightarrow> 'v gomap \<Rightarrow> 'v gomap" where
  "copy_missing keep m dst =
    foldl (\<lambda>d (k, v). if keep k \<and> map_of d k = None then mput k v d else d) dst m"

section \<open>Solve requests\<close>

record 'd solveRequest =
  sr_Frontend :: string
  sr_FrontendOpt :: "string gomap option"
  sr_FrontendInputs :: "'d gomap option"

definition empty_request :: "'d solveRequest" where
  "empty_request = \<lparr>sr_Frontend = [], sr_FrontendOpt = None, sr_FrontendInputs = None\<rparr>"

type_synonym 'd solveRequestOpt = "'d solveRequest \<Rightarrow> goerr + 'd solveRequest"

fun newSolveRequest_loop :: "'d solveRequestOpt list \<Rightarrow> 'd solveRequest \<Rightarrow> goerr + 'd solveRequest" where
  "newSolveRequest_loop [] sr = Inr sr"
| "newSolveRequest_loop (f # fs) sr = (case f sr of Inl e \<Rightarrow> Inl e | Inr sr' \<Rightarrow> newSolveRequest_loop fs sr')"

definition newSolveRequest :: "'d solveRequestOpt list \<Rightarrow> goerr + 'd solveRequest" where
  "newSolveRequest fs = newSolveRequest_loop fs empty_request"

text \<open>A nil map is allocated before it is written.\<close>

definition made :: "'v gomap option \<Rightarrow> 'v gomap" where
  "made m = (case m of None \<Rightarrow> [] | Some x \<Rightarrow> x)"

definition put_opt :: "string \<Rightarrow> string \<Rightarrow> 'd solveRequest \<Rightarrow> 'd solveRequest" where
  "put_opt k v req = req\<lparr>sr_FrontendOpt := Some (mput k v (made (sr_FrontendOpt req)))\<rparr>"

definition put_input :: "string \<Rightarrow> 'd \<Rightarrow> 'd solveRequest \<Rightarrow> 'd solveRequest" where
  "put_input k d req = req\<lparr>sr_FrontendInputs := Some (mput k d (made (sr_FrontendInputs req)))\<rparr>"

definition gatewayFrontend :: string where "gatewayFrontend = ''gateway.v0''"

definition toFrontend :: "frontend \<Rightarrow> 'd solveRequestOpt" where
  "toFrontend f req =
    Inr (put_opt ''cmdline'' (fe_CmdLine f) (put_opt ''source'' (fe_Image f)
      (req\<lparr>sr_Frontend := gatewayFrontend\<rparr>)))"

definition withTarget :: "string \<Rightarrow> 'd solveRequestOpt" where
  "withTarget t req = Inr (put_opt ''target'' t req)"

definition withBuildArgs :: "string gomap \<Rightarrow> 'd solveRequestOpt" where
  "withBuildArgs args req =
    Inr (if args = [] then req
         else req\<lparr>sr_FrontendOpt :=
           Some (copy_into (\<lambda>k. True) build_arg args (made (sr_FrontendOpt req)))\<rparr>)"

text \<open>
  The services of buildkit that the requests use.  \<open>cl_solve_def\<close> solves a definition: the solve may
  fail, the result may have no single reference, and a reference reads files.
\<close>

record ('d, 's) client =
  cl_inputs :: "goerr + (string \<times> (goerr + 'd)) list"
  cl_marshal_file :: "string \<Rightarrow> string \<Rightarrow> goerr + 'd"
  cl_marshal_state :: "'s \<Rightarrow> goerr + 'd"
  cl_marshal_spec :: "spec \<Rightarrow> goerr + string"
  cl_DetectSyntax :: "string \<Rightarrow> (string \<times> string) option"
  cl_solve_def :: "'d \<Rightarrow> goerr + (goerr + (string \<Rightarrow> goerr + string))"
  cl_solve :: "'d solveRequest \<Rightarrow> goerr + 's"
  cl_signing_config :: "string \<Rightarrow> string \<Rightarrow> goerr + packageConfig"

definition wrap_inl :: "string \<Rightarrow> goerr + 'a \<Rightarrow> goerr + 'a" where
  "wrap_inl m r = (case r of Inl e \<Rightarrow> Inl (Wrap m e) | Inr x \<Rightarrow> Inr x)"

definition defaultDockerfileName :: string where "defaultDockerfileName = ''Dockerfile''"

definition withSpec :: "('d, 's) client \<Rightarrow> spec \<Rightarrow> 'd solveRequestOpt" where
  "withSpec cl sp req =
    (case wrap_inl ''error marshalling spec to yaml'' (cl_marshal_spec cl sp) of
       Inl e \<Rightarrow> Inl e
     | Inr dt \<Rightarrow>
         (case wrap_inl ''error marshaling spec to LLB'' (cl_marshal_file cl defaultDockerfileName dt) of
            Inl e \<Rightarrow> Inl e
          | Inr def \<Rightarrow> Inr (put_input ''dockerfile'' def req)))"

definition dockerfile_opts :: "sourceBuild option \<Rightarrow> string gomap option \<Rightarrow> string gomap option" where
  "dockerfile_opts sp fo =
    (case sp of None \<Rightarrow> fo
     | Some b \<Rightarrow>
         Some (copy_into (\<lambda>k. True) build_arg (sb_Args b)
           (if sb_Target b \<noteq> [] then mput ''target'' (sb_Target b) (made fo) else made fo)))"

definition toDockerfile :: "('d, 's) client \<Rightarrow> 's \<Rightarrow> string \<Rightarrow> sourceBuild option \<Rightarrow> 'd solveRequestOpt" where
  "toDockerfile cl bctx dt sp req =
    (case wrap_inl ''error marshaling dockerfile to LLB'' (cl_marshal_state cl bctx) of
       Inl e \<Rightarrow> Inl e
     | Inr bctxDef \<Rightarrow>
         (case wrap_inl ''error marshaling dockerfile to LLB'' (cl_marshal_file cl defaultDockerfileName dt) of
            Inl e \<Rightarrow> Inl e
          | Inr dfDef \<Rightarrow>
              let req1 = put_input ''dockerfile'' dfDef (put_input ''context'' bctxDef
                           (req\<lparr>sr_Frontend := ''dockerfile.v0''\<rparr>));
                  req2 = (case cl_DetectSyntax cl dt of
                            Some (ref, cmdline) \<Rightarrow>
                              put_opt ''cmdline'' cmdline (put_opt ''source'' ref
                                (req1\<lparr>sr_Frontend := gatewayFrontend\<rparr>))
                          | None \<Rightarrow> req1)
              in Inr (req2\<lparr>sr_FrontendOpt := dockerfile_opts sp (sr_FrontendOpt req2)\<rparr>)))"

text \<open>The inputs of the client are marshalled one at a time; the first error stops the loop.\<close>

fun copy_inputs :: "(string \<times> (goerr + 'd)) list \<Rightarrow> 'd gomap \<Rightarrow> goerr + 'd gomap" where
  "copy_inputs [] dst = Inr dst"
| "copy_inputs ((k, v) # rest) dst =
    (if map_of dst k \<noteq> None then copy_inputs rest dst
     else (case wrap_inl ''error marshaling frontend input'' v of
             Inl e \<Rightarrow> Inl e
           | Inr d \<Rightarrow> copy_inputs rest (mput k d dst)))"

definition forward_key :: "string \<Rightarrow> bool" where
  "forward_key k = (\<not> (k = ''filename'' \<or> k = ''dockerfilekey'' \<or> k = ''target''))"

definition copyForForward :: "('d, 's) client \<Rightarrow> buildOpts \<Rightarrow> 'd solveRequestOpt" where
  "copyForForward cl opts req =
    (case cl_inputs cl of
       Inl e \<Rightarrow> Inl e
     | Inr inputs \<Rightarrow>
         (case copy_inputs inputs (made (sr_FrontendInputs req)) of
            Inl e \<Rightarrow> Inl e
          | Inr m \<Rightarrow>
              Inr (req\<lparr>sr_FrontendInputs := Some m,
                       sr_FrontendOpt := Some (copy_missing forward_key opts (made (sr_FrontendOpt req)))\<rparr>)))"

text \<open>The request that the handler of a target with a custom frontend sends.\<close>

definition forward_request :: "('d, 's) client \<Rightarrow> spec \<Rightarrow> frontend \<Rightarrow> buildOpts \<Rightarrow> goerr + 'd solveRequest" where
  "forward_request cl sp fe opts =
    newSolveRequest [copyForForward cl opts, withSpec cl sp, toFrontend fe, withTarget (opt_get opts keyTarget)]"

section \<open>Dockerfile builds\<close>

definition getDockerfile :: "('d, 's) client \<Rightarrow> sourceBuild \<Rightarrow> 'd \<Rightarrow> goerr + string" where
  "getDockerfile cl b def =
    (case wrap_inl ''error getting build context'' (cl_solve_def cl def) of
       Inl e \<Rightarrow> Inl e
     | Inr (Inl e) \<Rightarrow> Inl e
     | Inr (Inr readFile) \<Rightarrow>
         wrap_inl ''error reading dockerfile''
           (readFile (if sb_DockerfilePath b \<noteq> [] then sb_DockerfilePath b else defaultDockerfileName)))"

definition ForwarderFromClient :: "('d, 's) client \<Rightarrow> buildOpts \<Rightarrow> 's \<Rightarrow> sourceBuild option \<Rightarrow> goerr + 's" where
  "ForwarderFromClient cl opts st sp =
    (let b = (case sp of None \<Rightarrow> SourceBuild empty_source [] [] [] | Some b \<Rightarrow> b)
     in case cl_marshal_state cl st of
          Inl e \<Rightarrow> Inl e
        | Inr def \<Rightarrow>
            (case getDockerfile cl b def of
               Inl e \<Rightarrow> Inl e
             | Inr dt \<Rightarrow>
                 (case newSolveRequest [toDockerfile cl st dt (Some b), copyForForward cl opts] of
                    Inl e \<Rightarrow> Inl e
                  | Inr req \<Rightarrow> cl_solve cl req)))"

section \<open>Signing\<close>

definition ParseBool :: "string \<Rightarrow> bool option" where
  "ParseBool s =
    (if s \<in> {''1'', ''t'', ''T'', ''true'', ''TRUE'', ''True''} then Some True
     else if s \<in> {''0'', ''f'', ''F'', ''false'', ''FALSE'', ''False''} then Some False
     else None)"

definition signingDisabled :: "buildOpts \<Rightarrow> bool" where
  "signingDisabled opts =
    (case map_of opts (build_arg ''DALEC_SKIP_SIGNING'') of
       None \<Rightarrow> False
     | Some v \<Rightarrow> (case ParseBool v of None \<Rightarrow> False | Some b \<Rightarrow> b))"

definition getUserSignConfigPath :: "buildOpts \<Rightarrow> string" where
  "getUserSignConfigPath opts = opt_get opts (build_arg ''DALEC_SIGNING_CONFIG_PATH'')"

definition getSignConfigCtxName :: "buildOpts \<Rightarrow> string" where
  "getSignConfigCtxName opts = opt_get opts (build_arg ''DALEC_SIGNING_CONFIG_CONTEXT_NAME'')"

definition getSignContextNameWithDefault :: "buildOpts \<Rightarrow> string" where
  "getSignContextNameWithDefault opts =
    (let cn = getSignConfigCtxName opts in if cn \<noteq> [] then cn else ''context'')"

definition getSigningConfigFromContext :: "('d, 's) client \<Rightarrow> string \<Rightarrow> string \<Rightarrow> goerr + packageSigner option" where
  "getSigningConfigFromContext cl cfgPath ctxName =
    (case cl_signing_config cl cfgPath ctxName of Inl e \<Rightarrow> Inl e | Inr pc \<Rightarrow> Inr (pcfg_Signer pc))"

fun marshal_inputs :: "(string \<times> (goerr + 'd)) list \<Rightarrow> goerr + 'd gomap" where
  "marshal_inputs [] = Inr []"
| "marshal_inputs ((k, v) # rest) =
    (case v of Inl e \<Rightarrow> Inl e
     | Inr d \<Rightarrow> (case marshal_inputs rest of Inl e \<Rightarrow> Inl e | Inr m \<Rightarrow> Inr ((k, d) # m)))"

text \<open>The options of the request to the signer.\<close>

definition signer_opts :: "frontend \<Rightarrow> string gomap \<Rightarrow> buildOpts \<Rightarrow> string gomap" where
  "signer_opts fe args opts =
    mput ''dalec.target'' (opt_get opts ''dalec.target'')
      (mput ''contextkey'' ''context''
        (copy_into (\<lambda>k. \<not> (k = ''source'' \<or> k = ''cmdline'')) (\<lambda>k. k) opts
          (case newSolveRequest [toFrontend fe, withBuildArgs args] of
             Inl e \<Rightarrow> [] | Inr (req :: unit solveRequest) \<Rightarrow> made (sr_FrontendOpt req))))"

text \<open>
  The result is \<^term>\<open>None\<close> when the configuration or its frontend is nil, which the code dereferences, and
  the returned state or error otherwise.
\<close>

definition forwardToSigner :: "('d, 's) client \<Rightarrow> buildOpts \<Rightarrow> packageSigner option \<Rightarrow> 's \<Rightarrow> (goerr + 's) option" where
  "forwardToSigner cl opts cfg st =
    (case cfg of
       None \<Rightarrow> None
     | Some c \<Rightarrow>
     (case ps_Frontend c of
       None \<Rightarrow> None
     | Some fe \<Rightarrow>
         Some (case cl_inputs cl of
           Inl e \<Rightarrow> Inl e
         | Inr inputs \<Rightarrow>
             (case marshal_inputs inputs of
                Inl e \<Rightarrow> Inl e
              | Inr m \<Rightarrow>
                  (case cl_marshal_state cl st of
                     Inl e \<Rightarrow> Inl e
                   | Inr stateDef \<Rightarrow>
                       wrap_inl ''error signing packages''
                         (cl_solve cl \<lparr>sr_Frontend = gatewayFrontend, sr_FrontendOpt = Some (signer_opts fe (ps_Args c) opts),
                            sr_FrontendInputs = Some (mput ''context'' stateDef m)\<rparr>))))))"

datatype signWarning = SigningDisabled | RootOverridden string | SpecOverwritten string string

definition MaybeSign :: "('d, 's) client \<Rightarrow> buildOpts \<Rightarrow> 's \<Rightarrow> spec \<Rightarrow> string \<Rightarrow> signWarning list \<times> (goerr + 's) option" where
  "MaybeSign cl opts st sp targetKey =
    (if signingDisabled opts then ([SigningDisabled], Some (Inr st))
     else case GetSigner sp targetKey of
       None \<Rightarrow> ([], None)
     | Some (cfg, overridden) \<Rightarrow>
       let cfgPath = getUserSignConfigPath opts
       in if cfgPath = [] then
            (case cfg of
               None \<Rightarrow> ([], Some (Inr st))
             | Some c \<Rightarrow> ((if overridden then [RootOverridden targetKey] else []), forwardToSigner cl opts (Some c) st))
          else
            let ctxName = getSignContextNameWithDefault opts;
                ws = (if cfg \<noteq> None then [SpecOverwritten cfgPath ctxName] else [])
            in case getSigningConfigFromContext cl cfgPath ctxName of
                 Inl e \<Rightarrow> (ws, Some (Inl e))
               | Inr c \<Rightarrow> (ws, forwardToSigner cl opts c st))"

section \<open>The cache switch\<close>

text \<open>
  \<open>bufio.Reader.ReadString\<close>: the text up to and including the delimiter and what is left, or an
  error when the input ends first.
\<close>

fun ReadString :: "char \<Rightarrow> string \<Rightarrow> (string \<times> string) option" where
  "ReadString d [] = None"
| "ReadString d (c # s) =
    (if c = d then Some ([c], s)
     else map_option (\<lambda>(a, b). (c # a, b)) (ReadString d s))"

lemma ReadString_shorter: "ReadString d s = Some (a, b) \<Longrightarrow> length b < length s"
  by (induction s arbitrary: a) (auto split: if_splits)

function ignore_scan :: "string set \<Rightarrow> string \<Rightarrow> bool" where
  "ignore_scan idx s =
    (case ReadString (CHR '','') s of
       None \<Rightarrow> False
     | Some (ref, rest) \<Rightarrow> ref \<in> idx \<or> ignore_scan idx rest)"
  by pat_completeness auto
termination
  by (relation "measure (length \<circ> snd)") (auto dest: ReadString_shorter)

declare ignore_scan.simps [simp del]

text \<open>The result says whether the returned option ignores the cache.\<close>

definition IgnoreCache :: "buildOpts \<Rightarrow> string list \<Rightarrow> bool" where
  "IgnoreCache opts refs =
    (case map_of opts ''no-cache'' of
       None \<Rightarrow> False
     | Some v \<Rightarrow> v = [] \<or> ignore_scan (set refs) v)"

section \<open>Lemmas\<close>

lemma wf_copy_into: "wf_map dst \<Longrightarrow> wf_map (copy_into keep name m dst)"
  unfolding copy_into_def
  by (induction m arbitrary: dst) auto

lemma copy_into_lookup:
  assumes "wf_map m" and "inj name"
  shows "map_of (copy_into keep name m dst) x =
    (case find (\<lambda>p. keep (fst p) \<and> name (fst p) = x) m of
       Some p \<Rightarrow> Some (snd p) | None \<Rightarrow> map_of dst x)"
  using assms(1)
proof (induction m arbitrary: dst)
  case (Cons p m)
  obtain k v where p: "p = (k, v)" by (cases p)
  have IH: "map_of (copy_into keep name m dst') x =
    (case find (\<lambda>p. keep (fst p) \<and> name (fst p) = x) m of
       Some p \<Rightarrow> Some (snd p) | None \<Rightarrow> map_of dst' x)" for dst'
    using Cons by (simp add: wf_map_def)
  have fresh: "find (\<lambda>p. keep (fst p) \<and> name (fst p) = x) m = None" if "name k = x"
    using Cons.prems that p injD [OF assms(2)]
    by (force simp: find_None_iff wf_map_def)
  have step: "copy_into keep name (p # m) dst =
      copy_into keep name m (if keep k then mput (name k) v dst else dst)"
    by (simp add: copy_into_def p)
  show ?case
    unfolding step IH
    by (auto simp: p fresh update_conv' split: option.splits)
qed (simp add: copy_into_def)

lemma find_key_map_of:
  "wf_map m \<Longrightarrow> find (\<lambda>p. keep (fst p) \<and> fst p = x) m = (if keep x then map_option (Pair x) (map_of m x) else None)"
  by (induction m) (auto simp: wf_map_def)

lemma copy_into_id_lookup:
  "wf_map m \<Longrightarrow> map_of (copy_into keep (\<lambda>k. k) m dst) x =
    (case (if keep x then map_of m x else None) of Some v \<Rightarrow> Some v | None \<Rightarrow> map_of dst x)"
  by (simp add: copy_into_lookup find_key_map_of inj_on_def split: option.splits)

lemma build_arg_inj: "inj build_arg"
  by (simp add: inj_on_def build_arg_def)

lemma build_arg_neq [simp]:
  "build_arg k \<noteq> ''source''" "build_arg k \<noteq> ''cmdline''" "build_arg k \<noteq> ''contextkey''"
  "build_arg k \<noteq> ''dalec.target''" "build_arg k \<noteq> ''target''"
  "''source'' \<noteq> build_arg k" "''cmdline'' \<noteq> build_arg k" "''contextkey'' \<noteq> build_arg k"
  "''dalec.target'' \<noteq> build_arg k" "''target'' \<noteq> build_arg k"
  by (simp_all add: build_arg_def)

lemma find_build_arg:
  "wf_map m \<Longrightarrow> find (\<lambda>p. build_arg (fst p) = build_arg k) m = map_option (Pair k) (map_of m k)"
  by (induction m) (auto simp: wf_map_def dest: injD [OF build_arg_inj])

lemma copy_args_lookup:
  "wf_map m \<Longrightarrow> map_of (copy_into (\<lambda>k. True) build_arg m dst) (build_arg k) =
    (case map_of m k of Some v \<Rightarrow> Some v | None \<Rightarrow> map_of dst (build_arg k))"
  by (simp add: copy_into_lookup build_arg_inj find_build_arg split: option.splits)

lemma copy_args_other:
  "wf_map m \<Longrightarrow> (\<And>k. x \<noteq> build_arg k) \<Longrightarrow> map_of (copy_into (\<lambda>k. True) build_arg m dst) x = map_of dst x"
proof -
  assume "wf_map m" and "\<And>k. x \<noteq> build_arg k"
  then have "find (\<lambda>p. build_arg (fst p) = x) m = None"
    unfolding find_None_iff by metis
  with \<open>wf_map m\<close> show ?thesis by (simp add: copy_into_lookup build_arg_inj)
qed

lemma copy_missing_lookup:
  "wf_map m \<Longrightarrow> map_of (copy_missing keep m dst) x =
    (case map_of dst x of Some v \<Rightarrow> Some v | None \<Rightarrow> if keep x then map_of m x else None)"
proof (induction m arbitrary: dst)
  case (Cons p m)
  obtain k v where p: "p = (k, v)" by (cases p)
  have wf: "wf_map m" and fresh: "map_of m k = None"
    using Cons.prems by (auto simp: wf_map_def p map_of_eq_None_iff)
  have step: "copy_missing keep (p # m) dst =
      copy_missing keep m (if keep k \<and> map_of dst k = None then mput k v dst else dst)"
    by (simp add: copy_missing_def p)
  show ?case
    unfolding step Cons.IH [OF wf]
    using fresh by (auto simp: p update_conv' split: option.splits)
qed (simp add: copy_missing_def split: option.splits)

lemma forward_request_shape:
  assumes "forward_request cl sp fe opts = Inr req"
  shows "\<exists>m dt def. cl_marshal_spec cl sp = Inr dt \<and> cl_marshal_file cl defaultDockerfileName dt = Inr def
    \<and> req = \<lparr>sr_Frontend = gatewayFrontend,
        sr_FrontendOpt = Some (mput ''target'' (opt_get opts keyTarget) (mput ''cmdline'' (fe_CmdLine fe)
          (mput ''source'' (fe_Image fe) (copy_missing forward_key opts [])))),
        sr_FrontendInputs = Some (mput ''dockerfile'' def m)\<rparr>"
  using assms
  by (auto simp: forward_request_def newSolveRequest_def copyForForward_def withSpec_def toFrontend_def
      withTarget_def put_opt_def put_input_def made_def wrap_inl_def empty_request_def split: sum.splits)

lemma ReadString_delim: "ReadString d s = Some (a, b) \<Longrightarrow> last a = d \<and> a \<noteq> []"
  by (induction s arbitrary: a) (auto split: if_splits)

lemma ignore_scan_comma:
  assumes "\<forall>r \<in> idx. \<not> HasSuffix r '',''"
  shows "\<not> ignore_scan idx s"
proof (induction s rule: length_induct)
  case (1 s)
  show ?case
  proof (cases "ReadString (CHR '','') s")
    case (Some ab)
    obtain a b where ab: "ab = (a, b)" by (cases ab)
    with Some have "last a = CHR '',''" "a \<noteq> []" "length b < length s"
      by (auto dest: ReadString_delim ReadString_shorter)
    then have "HasSuffix a '',''"
      using HasSuffix_append [of "butlast a" "'',''"] by (metis append_butlast_last_id)
    with assms Some ab 1 \<open>length b < length s\<close> show ?thesis
      by (subst ignore_scan.simps) auto
  qed (subst ignore_scan.simps, simp)
qed

end
