(* ===== verification/Prefix_Router.thy ===== *)
theory Prefix_Router
  imports Go_Prelude
begin

text \<open>
  The contract that the two routers of the program share (the build target router of
  frontend/mux.go and the socket router of sessionutil/socketprovider/mux.go): among the registered
  routes that match a request, the longest one is taken.  Both implement it through the order on
  strings, once by sorting the matching routes and taking the last, once by scanning all routes in
  descending order for the first match; the locale shows that both find the longest match.
\<close>

lemma prefix_le_list: "prefix xs ys \<Longrightarrow> xs \<le> (ys :: 'a :: linorder list)"
proof (induction xs arbitrary: ys)
  case (Cons x xs)
  then show ?case by (cases ys) auto
qed simp

lemma prefixes_le_length:
  assumes "prefix xs (zs :: 'a :: linorder list)" and "prefix ys zs"
  shows "xs \<le> ys \<longleftrightarrow> length xs \<le> length ys"
proof
  assume "length xs \<le> length ys"
  then have "prefix xs ys" by (rule prefix_length_prefix [OF assms])
  then show "xs \<le> ys" by (rule prefix_le_list)
next
  assume le: "xs \<le> ys"
  show "length xs \<le> length ys"
  proof (rule ccontr)
    assume "\<not> length xs \<le> length ys"
    then have "prefix ys xs" and "length ys < length xs"
      by (auto intro: prefix_length_prefix [OF assms(2,1)])
    then have "ys \<le> xs" by (simp add: prefix_le_list)
    with le have "xs = ys" by simp
    with \<open>length ys < length xs\<close> show False by simp
  qed
qed

lemma sorted_le_last: "sorted xs \<Longrightarrow> x \<in> set xs \<Longrightarrow> x \<le> last xs"
  by (induction xs) (auto split: if_splits)

lemma find_sorted_desc:
  assumes "sorted (rev xs)" and "find P xs = Some x" and "y \<in> set xs" and "P y"
  shows "y \<le> x"
  using assms
proof (induction xs)
  case (Cons a xs)
  then show ?case
    by (auto simp: sorted_append split: if_splits)
qed simp

definition longest_match :: "(string \<Rightarrow> string \<Rightarrow> bool) \<Rightarrow> string list \<Rightarrow> string \<Rightarrow> string \<Rightarrow> bool" where
  "longest_match matches routes r k =
    (k \<in> set routes \<and> matches k r \<and> (\<forall>k' \<in> set routes. matches k' r \<longrightarrow> length k' \<le> length k))"

locale prefix_router =
  fixes matches :: "string \<Rightarrow> string \<Rightarrow> bool"
  assumes matches_prefix: "matches k r \<Longrightarrow> prefix k r"
begin

lemma by_sorting:
  assumes "filter (\<lambda>k. matches k r) routes = cs" and "cs \<noteq> []"
  shows "longest_match matches routes r (last (sort cs))"
proof -
  let ?k = "last (sort cs)"
  have k: "?k \<in> set cs"
    using assms(2) last_in_set [of "sort cs"] by (metis set_sort sort_key_simps(1) set_empty)
  have "length k' \<le> length ?k" if "k' \<in> set routes" "matches k' r" for k'
  proof -
    have "k' \<in> set (sort cs)" using that assms(1) by auto
    then have "k' \<le> ?k" by (intro sorted_le_last) auto
    moreover have "matches ?k r" using k assms(1) by auto
    ultimately show ?thesis
      using that matches_prefix prefixes_le_length by blast
  qed
  with k assms(1) show ?thesis by (auto simp: longest_match_def)
qed

lemma by_scanning:
  assumes "set ordered = set routes" and "sorted (rev ordered)" and "find (\<lambda>k. matches k r) ordered = Some k"
  shows "longest_match matches routes r k"
proof -
  have k: "k \<in> set ordered" "matches k r"
    using assms(3) by (auto simp: find_Some_iff)
  have "length k' \<le> length k" if "k' \<in> set routes" "matches k' r" for k'
    using find_sorted_desc [OF assms(2,3), of k'] that k assms(1) matches_prefix prefixes_le_length
    by blast
  with k assms(1) show ?thesis by (auto simp: longest_match_def)
qed

text \<open>The longest match is unique, so any two implementations of the contract agree.\<close>

lemma longest_unique:
  "longest_match matches routes r k \<Longrightarrow> longest_match matches routes r k' \<Longrightarrow> k = k'"
  unfolding longest_match_def
  by (metis matches_prefix prefix_length_prefix prefix_order.antisym)

lemma longest_cong:
  "set routes = set routes' \<Longrightarrow> longest_match matches routes r k = longest_match matches routes' r k"
  by (simp add: longest_match_def)

end

text \<open>The two instances: a route matches below a slash, or any continuation of it.\<close>

definition slash_match :: "string \<Rightarrow> string \<Rightarrow> bool" where
  "slash_match k target = HasPrefix target (k @ ''/'')"

definition plain_match :: "string \<Rightarrow> string \<Rightarrow> bool" where
  "plain_match k i = HasPrefix i k"

interpretation slash: prefix_router slash_match
proof
  fix k r
  assume "slash_match k r"
  then show "prefix k r"
    by (auto simp: slash_match_def HasPrefix_iff_prefix prefix_def)
qed

interpretation plain: prefix_router plain_match
  by unfold_locales (simp add: plain_match_def HasPrefix_iff_prefix)

end
