(* ===== verification/Build_Mux.thy ===== *)
theory Build_Mux
  imports Request Prefix_Router
begin

text \<open>
  The router of build requests (frontend/mux.go).

  A build function gets the options of its client and returns a result or an error together with
  the options afterwards: every client the router makes shares one options map with the client it
  was made from, so \<open>trimTargetOpt\<close> and \<open>setClientOptOption\<close> change the caller's map too.
  Decoding and encoding of target lists, the fixed answers to the describe and platform requests and
  the loading of the spec from the build context are services and enter as arguments.
\<close>

section \<open>Types\<close>

record bkTarget =
  bt_Name :: string
  bt_Default :: bool
  bt_Description :: string

record 'r result =
  res_Metadata :: "string gomap"
  res_Ref :: 'r

datatype muxerr =
    NoSuchHandler string "string list"
  | Plain goerr
  | MuxWrap string muxerr

type_synonym 'r buildFunc = "buildOpts \<Rightarrow> (muxerr + 'r result) \<times> buildOpts"

record 'r handler =
  h_f :: "'r buildFunc"
  h_t :: "bkTarget option"

record 'r buildMux =
  m_handlers :: "'r handler gomap"
  m_defaultH :: "'r handler option"
  m_spec :: "spec option"

record 'r services =
  sv_loadSpec :: "buildOpts \<Rightarrow> goerr + spec"
  sv_unmarshal :: "string \<Rightarrow> goerr + bkTarget list"
  sv_marshal :: "bkTarget list \<Rightarrow> goerr + string"
  sv_ToResult :: "bkTarget list \<Rightarrow> goerr + 'r result"
  sv_describe :: "goerr + 'r result"
  sv_resolveSpec :: "buildOpts \<Rightarrow> goerr + 'r result"
  sv_defaultPlatform :: "goerr + 'r result"

section \<open>Registration\<close>

definition Add :: "'r buildMux \<Rightarrow> string \<Rightarrow> 'r buildFunc \<Rightarrow> bkTarget option \<Rightarrow> 'r buildMux" where
  "Add m targetPath bf info =
    (let h = \<lparr>h_f = bf, h_t = info\<rparr>;
         m' = m\<lparr>m_handlers := mput targetPath h (m_handlers m)\<rparr>
     in case info of
          Some t \<Rightarrow> if bt_Default t then m'\<lparr>m_defaultH := Some h\<rparr> else m'
        | None \<Rightarrow> m')"

definition mux_loadSpec :: "'r services \<Rightarrow> buildOpts \<Rightarrow> 'r buildMux \<Rightarrow> (goerr + spec) \<times> 'r buildMux" where
  "mux_loadSpec sv opts m =
    (case m_spec m of
       Some sp \<Rightarrow> (Inr sp, m)
     | None \<Rightarrow>
         (case sv_loadSpec sv opts of
            Inl e \<Rightarrow> (Inl e, m)
          | Inr sp \<Rightarrow> (Inr sp, m\<lparr>m_spec := Some sp\<rparr>)))"

text \<open>The second component is the mux afterwards, since loading the spec caches it.\<close>

definition shouldLoadTarget :: "'r services \<Rightarrow> buildOpts \<Rightarrow> 'r buildMux \<Rightarrow> string \<Rightarrow> bool \<times> 'r buildMux" where
  "shouldLoadTarget sv opts m targetKey =
    (case mux_loadSpec sv opts m of
       (Inl e, m') \<Rightarrow> (False, m')
     | (Inr sp, m') \<Rightarrow>
         (if sp_Targets sp = [] then (True, m')
          else (case map_of (sp_Targets sp) targetKey of
                  None \<Rightarrow> (False, m')
                | Some t \<Rightarrow> (tg_Frontend t = None, m'))))"

definition WithBuiltinHandler :: "'r services \<Rightarrow> string \<Rightarrow> 'r buildFunc \<Rightarrow> buildOpts \<Rightarrow> 'r buildMux \<Rightarrow> muxerr option \<times> 'r buildMux" where
  "WithBuiltinHandler sv key bf opts m =
    (case shouldLoadTarget sv opts m key of
       (False, m') \<Rightarrow> (None, m')
     | (True, m') \<Rightarrow> (None, Add m' key bf None))"

fun load_builtins :: "'r services \<Rightarrow> buildOpts \<Rightarrow> 'r buildFunc gomap \<Rightarrow> 'r buildMux \<Rightarrow> 'r buildMux" where
  "load_builtins sv opts [] m = m"
| "load_builtins sv opts ((k, bf) # rest) m =
    (case shouldLoadTarget sv opts m k of
       (b, m') \<Rightarrow> load_builtins sv opts rest (if b then Add m' k bf None else m'))"

definition LoadBuiltinTargets :: "'r services \<Rightarrow> 'r buildFunc gomap \<Rightarrow> buildOpts \<Rightarrow> 'r buildMux \<Rightarrow> muxerr option \<times> 'r buildMux" where
  "LoadBuiltinTargets sv targets opts m = (None, load_builtins sv opts targets m)"

text \<open>
  The handler of a target with a custom frontend forwards the request; \<open>solve\<close> is the solve of the
  client.
\<close>

definition forward_handler :: "('d, 's) client \<Rightarrow> ('d solveRequest \<Rightarrow> muxerr + 'r result) \<Rightarrow> spec \<Rightarrow> frontend \<Rightarrow> 'r buildFunc" where
  "forward_handler cl solve sp fe opts =
    (case forward_request cl sp fe opts of
       Inl e \<Rightarrow> (Inl (Plain e), opts)
     | Inr req \<Rightarrow> (solve req, opts))"

definition add_forward :: "(spec \<Rightarrow> frontend \<Rightarrow> 'r buildFunc) \<Rightarrow> spec \<Rightarrow> 'r buildMux \<Rightarrow> string \<times> target \<Rightarrow> 'r buildMux" where
  "add_forward fwd sp m p =
    (case tg_Frontend (snd p) of None \<Rightarrow> m | Some fe \<Rightarrow> Add m (fst p) (fwd sp fe) None)"

definition forward_targets :: "(spec \<Rightarrow> frontend \<Rightarrow> 'r buildFunc) \<Rightarrow> spec \<Rightarrow> 'r buildMux \<Rightarrow> 'r buildMux" where
  "forward_targets fwd sp m = foldl (add_forward fwd sp) m (sp_Targets sp)"

definition WithTargetForwardingHandler :: "'r services \<Rightarrow> (spec \<Rightarrow> frontend \<Rightarrow> 'r buildFunc) \<Rightarrow> buildOpts \<Rightarrow> 'r buildMux \<Rightarrow> muxerr option \<times> 'r buildMux" where
  "WithTargetForwardingHandler sv fwd opts m =
    (if GetTargetKey opts \<noteq> [] then
       (Some (Plain (Msg (''target forwarding requested but target is already forwarded: this is a bug in the frontend for ''
          @ Quote (GetTargetKey opts)))), m)
     else (case mux_loadSpec sv opts m of
             (Inl e, m') \<Rightarrow> (Some (Plain e), m')
           | (Inr sp, m') \<Rightarrow> (None, forward_targets fwd sp m')))"

section \<open>Lookup\<close>

definition lookupTarget :: "'r buildMux \<Rightarrow> string \<Rightarrow> muxerr + (string \<times> 'r handler)" where
  "lookupTarget m target =
    (case map_of (m_handlers m) target of
       Some h \<Rightarrow> Inr (target, h)
     | None \<Rightarrow>
         (case (if target = [] then m_defaultH m else None) of
            Some h \<Rightarrow> Inr (target, h)
          | None \<Rightarrow>
              (let candidates = filter (\<lambda>k. slash_match k target) (map fst (m_handlers m))
               in if candidates \<noteq> [] then
                    (let k = last (sort candidates)
                     in Inr (k, the (map_of (m_handlers m) k)))
                  else Inl (NoSuchHandler target (map fst (m_handlers m))))))"

section \<open>Options of the handler's client\<close>

definition trimmed :: "string \<Rightarrow> string \<Rightarrow> string" where
  "trimmed target pre =
    (let updated = TrimPrefix target pre
     in case updated of [] \<Rightarrow> [] | c # rest \<Rightarrow> if c = CHR ''/'' then rest else updated)"

definition trimTargetOpt :: "buildOpts \<Rightarrow> string \<Rightarrow> buildOpts" where
  "trimTargetOpt opts pre = mput keyTarget (trimmed (opt_get opts keyTarget) pre) opts"

definition setClientOptOption :: "buildOpts \<Rightarrow> string gomap \<Rightarrow> buildOpts" where
  "setClientOptOption opts extra = copy_into (\<lambda>k. True) (\<lambda>k. k) extra opts"

definition maybeSetDalecTargetKey :: "buildOpts \<Rightarrow> string \<Rightarrow> buildOpts" where
  "maybeSetDalecTargetKey opts key =
    (if opt_get opts keyTopLevelTarget \<noteq> [] then opts
     else setClientOptOption opts [(keyTopLevelTarget, key), (build_arg ''DALEC_TARGET'', key)])"

definition handler_opts :: "buildOpts \<Rightarrow> string \<Rightarrow> buildOpts" where
  "handler_opts opts matched = maybeSetDalecTargetKey (trimTargetOpt opts matched) matched"

section \<open>Results\<close>

definition unmarshalResult :: "'r services \<Rightarrow> 'r result \<Rightarrow> goerr + bkTarget list" where
  "unmarshalResult sv res =
    (case map_of (res_Metadata res) ''result.json'' of
       None \<Rightarrow> Inl (Msg ''no result.json metadata in response'')
     | Some dt \<Rightarrow> sv_unmarshal sv dt)"

definition AddMeta :: "string \<Rightarrow> string \<Rightarrow> 'r result \<Rightarrow> 'r result" where
  "AddMeta k v res = res\<lparr>res_Metadata := mput k v (res_Metadata res)\<rparr>"

definition marshalResult :: "'r services \<Rightarrow> 'r result \<Rightarrow> bkTarget list \<Rightarrow> goerr + 'r result" where
  "marshalResult sv res v =
    (case wrap_inl ''error marshalling result to json'' (sv_marshal sv v) of
       Inl e \<Rightarrow> Inl e
     | Inr dt \<Rightarrow> Inr (AddMeta ''result.txt'' dt (AddMeta ''result.json'' dt res)))"

definition prefix_name :: "string \<Rightarrow> bkTarget \<Rightarrow> bkTarget" where
  "prefix_name matched t = t\<lparr>bt_Name := Join [matched, bt_Name t]\<rparr>"

definition fixupListResult :: "'r services \<Rightarrow> string \<Rightarrow> 'r result \<Rightarrow> goerr + 'r result" where
  "fixupListResult sv matched res =
    (case unmarshalResult sv res of
       Inl e \<Rightarrow> Inl e
     | Inr v \<Rightarrow>
         (let updated = map (prefix_name matched) v
          in case marshalResult sv res updated of
               Inl e \<Rightarrow> Inl e
             | Inr res' \<Rightarrow>
                 (case sv_ToResult sv updated of
                    Inl e \<Rightarrow> Inl e
                  | Inr asRes \<Rightarrow>
                      (let g = opt_get (res_Metadata asRes)
                       in Inr (AddMeta ''version'' (g ''version'')
                            (AddMeta ''result.txt'' (g ''result.txt'')
                              (AddMeta ''result.json'' (g ''result.json'') res')))))))"

fun as_not_found :: "muxerr \<Rightarrow> (string \<times> string list) option" where
  "as_not_found (NoSuchHandler t av) = Some (t, av)"
| "as_not_found (Plain e) = None"
| "as_not_found (MuxWrap msg e) = as_not_found e"

definition injectPathsToNotFoundError :: "string \<Rightarrow> muxerr \<Rightarrow> muxerr" where
  "injectPathsToNotFoundError matched err =
    (case as_not_found err of
       None \<Rightarrow> err
     | Some (t, av) \<Rightarrow> NoSuchHandler (Join [matched, t]) (map (\<lambda>v. Join [matched, v]) av))"

section \<open>Requests\<close>

fun list_loop :: "'r services \<Rightarrow> 'r buildMux \<Rightarrow> string list \<Rightarrow> buildOpts \<Rightarrow> bkTarget list \<Rightarrow> (muxerr + bkTarget list) \<times> buildOpts" where
  "list_loop sv m [] opts ls = (Inr ls, opts)"
| "list_loop sv m (t # check) opts ls =
    (case lookupTarget m t of
       Inl e \<Rightarrow> list_loop sv m check opts ls
     | Inr (matched, h) \<Rightarrow>
         (case h_t h of
            Some info \<Rightarrow> list_loop sv m check opts (ls @ [info])
          | None \<Rightarrow>
              (case h_f h (handler_opts opts matched) of
                 (Inl e, opts') \<Rightarrow> (Inl e, opts')
               | (Inr res, opts') \<Rightarrow>
                   (case unmarshalResult sv res of
                      Inl e \<Rightarrow> (Inl (Plain e), opts')
                    | Inr ts \<Rightarrow> list_loop sv m check opts' (ls @ map (prefix_name matched) ts)))))"

definition lift_err :: "goerr + 'a \<Rightarrow> muxerr + 'a" where
  "lift_err r = (case r of Inl e \<Rightarrow> Inl (Plain e) | Inr x \<Rightarrow> Inr x)"

definition list_targets :: "'r services \<Rightarrow> 'r buildMux \<Rightarrow> string \<Rightarrow> buildOpts \<Rightarrow> (muxerr + 'r result) \<times> buildOpts" where
  "list_targets sv m target opts =
    (case list_loop sv m (sort (if target = [] then map fst (m_handlers m) else [target])) opts [] of
       (Inl e, opts') \<Rightarrow> (Inl e, opts')
     | (Inr ls, opts') \<Rightarrow> (lift_err (sv_ToResult sv ls), opts'))"

definition targetsRequest :: string where "targetsRequest = ''frontend.targets''"

text \<open>\<^term>\<open>None\<close> in the first component: not a subrequest, the request is routed.\<close>

definition handleSubrequest :: "'r services \<Rightarrow> 'r buildMux \<Rightarrow> buildOpts \<Rightarrow> (muxerr + 'r result) option \<times> buildOpts" where
  "handleSubrequest sv m opts =
    (let rid = opt_get opts requestIDKey
     in if rid = [] then (None, opts)
        else if rid = ''frontend.subrequests.describe'' then (Some (lift_err (sv_describe sv)), opts)
        else if rid = targetsRequest then
          (case list_targets sv m (opt_get opts keyTarget) opts of (r, opts') \<Rightarrow> (Some r, opts'))
        else if rid = keyTopLevelTarget then (None, opts)
        else if rid = ''frontend.dalec.resolve'' then (Some (lift_err (sv_resolveSpec sv opts)), opts)
        else if rid = ''frontend.dalec.defaultPlatform'' then (Some (lift_err (sv_defaultPlatform sv)), opts)
        else (Some (Inl (Plain (Msg (''unsupported subrequest '' @ Quote rid)))), opts))"

text \<open>The body of \<open>Handle\<close> before its deferred function runs.\<close>

definition handle_body :: "'r services \<Rightarrow> 'r buildMux \<Rightarrow> 'r buildFunc" where
  "handle_body sv m opts =
    (case handleSubrequest sv m opts of
       (Some r, opts') \<Rightarrow> (r, opts')
     | (None, opts') \<Rightarrow>
         (case lookupTarget m (opt_get opts keyTarget) of
            Inl e \<Rightarrow> (Inl e, opts')
          | Inr (matched, h) \<Rightarrow>
              (case h_f h (handler_opts opts' matched) of
                 (Inl e, opts'') \<Rightarrow> (Inl (injectPathsToNotFoundError matched e), opts'')
               | (Inr res, opts'') \<Rightarrow>
                   (if opt_get opts'' requestIDKey = targetsRequest
                    then (lift_err (fixupListResult sv matched res), opts'')
                    else (Inr res, opts'')))))"

text \<open>The deferred function: an outermost request says which target and spec failed.\<close>

definition decorate :: "'r services \<Rightarrow> buildOpts \<Rightarrow> buildOpts \<Rightarrow> 'r buildMux \<Rightarrow> muxerr \<Rightarrow> muxerr \<times> 'r buildMux" where
  "decorate sv origOpts opts m err =
    (if map_of origOpts keyTopLevelTarget \<noteq> None then (err, m)
     else
       let e1 = MuxWrap (''error handling requested build target '' @ Quote (opt_get origOpts keyTarget)) err
       in case mux_loadSpec sv opts m of
            (Inl _, m') \<Rightarrow> (e1, m')
          | (Inr sp, m') \<Rightarrow>
              ((if sp_Name sp \<noteq> [] then MuxWrap (''spec: '' @ sp_Name sp) e1 else e1), m'))"

definition Handle :: "'r services \<Rightarrow> 'r buildMux \<Rightarrow> buildOpts \<Rightarrow> ((muxerr + 'r result) \<times> buildOpts) \<times> 'r buildMux" where
  "Handle sv m opts =
    (case handle_body sv m opts of
       (Inr res, opts') \<Rightarrow> ((Inr res, opts'), m)
     | (Inl e, opts') \<Rightarrow> (case decorate sv opts opts' m e of (e', m') \<Rightarrow> ((Inl e', opts'), m')))"

text \<open>A nested router as the build function of a route.\<close>

definition mux_func :: "'r services \<Rightarrow> 'r buildMux \<Rightarrow> 'r buildFunc" where
  "mux_func sv m opts = fst (Handle sv m opts)"

fun apply_mux_options :: "(buildOpts \<Rightarrow> 'r buildMux \<Rightarrow> muxerr option \<times> 'r buildMux) list \<Rightarrow> buildOpts \<Rightarrow> 'r buildMux \<Rightarrow> muxerr option \<times> 'r buildMux" where
  "apply_mux_options [] opts m = (None, m)"
| "apply_mux_options (f # fs) opts m =
    (case f opts m of (Some e, m') \<Rightarrow> (Some e, m') | (None, m') \<Rightarrow> apply_mux_options fs opts m')"

text \<open>
  \<open>BuildMux.Handler\<close>: the options run in order, then the request is routed.  Two parts of the Go function leave no
  trace here.  Its \<open>recover\<close> stands in a function that is deferred by the deferred function, where Go gives it no
  effect, so a panic of a handler goes through.  The probe of \<open>SupportsDiffMerge\<close> sets a process-wide switch, which
  is the field \<open>so_DiffMergeOff\<close> of the source options that the builds take; the probe itself is modelled with the
  platform builds.
\<close>

definition Handler :: "'r services \<Rightarrow> (buildOpts \<Rightarrow> 'r buildMux \<Rightarrow> muxerr option \<times> 'r buildMux) list \<Rightarrow> 'r buildMux \<Rightarrow> buildOpts \<Rightarrow> ((muxerr + 'r result) \<times> buildOpts) \<times> 'r buildMux" where
  "Handler sv fs m opts =
    (case apply_mux_options fs opts m of
       (Some e, m') \<Rightarrow> ((Inl e, opts), m')
     | (None, m') \<Rightarrow> Handle sv m' opts)"

section \<open>Lookup lemmas\<close>

lemma opt_get_mput [simp]: "opt_get (mput k v m) x = (if x = k then v else opt_get m x)"
  by (simp add: opt_get_def update_conv')

lemma candidates_Nil:
  "filter (\<lambda>k. slash_match k t) ks = [] \<longleftrightarrow> \<not> list_ex (\<lambda>k. slash_match k t) ks"
  by (auto simp: filter_empty_conv list_ex_iff)

lemma longest_match_ex: "longest_match p ks t k \<Longrightarrow> list_ex (\<lambda>k. p k t) ks"
  by (auto simp: longest_match_def list_ex_iff)

lemma sorted_candidates:
  assumes "list_ex (\<lambda>k. slash_match k t) ks"
  shows "last (sort (filter (\<lambda>k. slash_match k t) ks)) = k \<longleftrightarrow> longest_match slash_match ks t k"
proof -
  have "longest_match slash_match ks t (last (sort (filter (\<lambda>k. slash_match k t) ks)))"
    using assms by (intro slash.by_sorting [OF refl]) (simp add: candidates_Nil)
  then show ?thesis using slash.longest_unique by blast
qed

lemma keys_lookup: "k \<in> set (map fst m) \<Longrightarrow> \<exists>v. map_of m k = Some v"
  by (metis map_of_eq_None_iff not_None_eq set_map)

lemma lookup_cases:
  assumes "lookupTarget m t = Inr (k, h)"
  obtains (here) "k = t" | (below) rest where "t = k @ ''/'' @ rest"
proof (cases "map_of (m_handlers m) t")
  case (Some h')
  with assms here show ?thesis by (simp add: lookupTarget_def)
next
  case None
  show ?thesis
  proof (cases "if t = [] then m_defaultH m else None")
    case (Some h')
    with None assms here show ?thesis by (simp add: lookupTarget_def split: if_splits)
  next
    case None2: None
    let ?ks = "map fst (m_handlers m)"
    have ex: "list_ex (\<lambda>k. slash_match k t) ?ks"
      using assms None None2 by (auto simp: lookupTarget_def candidates_Nil Let_def split: if_splits)
    then have "longest_match slash_match ?ks t k"
      using assms None None2 sorted_candidates [OF ex]
      by (auto simp: lookupTarget_def candidates_Nil Let_def split: if_splits)
    then have "slash_match k t" by (simp add: longest_match_def)
    then show ?thesis
      using below by (auto simp: slash_match_def HasPrefix_iff_prefix prefix_def)
  qed
qed

section \<open>Option lemmas\<close>

lemma keys_differ [simp]:
  "keyTarget \<noteq> keyTopLevelTarget" "keyTopLevelTarget \<noteq> keyTarget"
  "requestIDKey \<noteq> keyTarget" "requestIDKey \<noteq> keyTopLevelTarget"
  "keyTarget \<noteq> build_arg k" "keyTopLevelTarget \<noteq> build_arg k" "requestIDKey \<noteq> build_arg k"
  "build_arg k \<noteq> keyTopLevelTarget"
  by (simp_all add: keyTarget_def keyTopLevelTarget_def requestIDKey_def build_arg_def)

lemma trimmed_same [simp]: "trimmed k k = []"
  by (simp add: trimmed_def TrimPrefix_def HasPrefix_def)

lemma trimmed_below [simp]: "trimmed (k @ CHR ''/'' # rest) k = rest"
  by (simp add: trimmed_def)

lemma handler_opts_simps [simp]:
  "opt_get (handler_opts opts k) keyTarget = trimmed (opt_get opts keyTarget) k"
  "opt_get (handler_opts opts k) requestIDKey = opt_get opts requestIDKey"
  "opt_get (handler_opts opts k) keyTopLevelTarget =
    (if opt_get opts keyTopLevelTarget \<noteq> [] then opt_get opts keyTopLevelTarget else k)"
  by (simp_all add: handler_opts_def maybeSetDalecTargetKey_def trimTargetOpt_def
      setClientOptOption_def copy_into_def)

lemma handler_opts_other:
  "x \<noteq> keyTarget \<Longrightarrow> x \<noteq> keyTopLevelTarget \<Longrightarrow> x \<noteq> build_arg ''DALEC_TARGET'' \<Longrightarrow>
    opt_get (handler_opts opts k) x = opt_get opts x"
  by (simp add: handler_opts_def maybeSetDalecTargetKey_def trimTargetOpt_def
      setClientOptOption_def copy_into_def)

lemma top_level_present:
  "opt_get opts keyTopLevelTarget \<noteq> [] \<Longrightarrow> map_of opts keyTopLevelTarget \<noteq> None"
  by (cases "map_of opts keyTopLevelTarget") (simp_all add: opt_get_def)

section \<open>Routing lemmas\<close>

lemma handleSubrequest_none:
  "opt_get opts requestIDKey = [] \<Longrightarrow> handleSubrequest sv m opts = (None, opts)"
  by (simp add: handleSubrequest_def Let_def)

lemma Handle_success:
  assumes "opt_get opts requestIDKey = []" and "lookupTarget m (opt_get opts keyTarget) = Inr (k, h)"
    and "h_f h (handler_opts opts k) = (Inr res, opts')" and "opt_get opts' requestIDKey \<noteq> targetsRequest"
  shows "Handle sv m opts = ((Inr res, opts'), m)"
  using assms by (simp add: Handle_def handle_body_def handleSubrequest_none)

text \<open>A request that a nested router serves.\<close>

lemma nested_Handle:
  assumes "opt_get opts requestIDKey = []" and "lookupTarget m1 (opt_get opts keyTarget) = Inr (k1, \<lparr>h_f = mux_func sv m2, h_t = i\<rparr>)"
    and "lookupTarget m2 (opt_get (handler_opts opts k1) keyTarget) = Inr (k2, h2)"
    and "h_f h2 (handler_opts (handler_opts opts k1) k2) = (Inr res, opts')" and "opt_get opts' requestIDKey = []"
    and "opt_get (handler_opts opts k1) requestIDKey = []"
  shows "Handle sv m1 opts = ((Inr res, opts'), m1)"
proof -
  have "Handle sv m2 (handler_opts opts k1) = ((Inr res, opts'), m2)"
    using assms by (intro Handle_success [of _ _ k2 h2]) (simp_all add: targetsRequest_def)
  then show ?thesis
    using assms by (intro Handle_success [of _ _ k1 "\<lparr>h_f = mux_func sv m2, h_t = i\<rparr>"])
      (simp_all add: mux_func_def targetsRequest_def)
qed

lemma handleSubrequest_handles_lists:
  assumes "handleSubrequest sv m opts = (None, opts')"
  shows "opt_get opts requestIDKey \<noteq> targetsRequest \<and> opts' = opts"
  using assms
  by (auto simp: handleSubrequest_def Let_def targetsRequest_def split: if_splits prod.splits)

section \<open>Registration lemmas\<close>

lemma Add_handlers [simp]:
  "m_handlers (Add m k bf info) = mput k \<lparr>h_f = bf, h_t = info\<rparr> (m_handlers m)"
  "m_spec (Add m k bf info) = m_spec m"
  by (auto simp: Add_def Let_def split: option.splits)

definition builtin_enabled :: "spec \<Rightarrow> string \<Rightarrow> bool" where
  "builtin_enabled sp k =
    (sp_Targets sp = [] \<or> (case map_of (sp_Targets sp) k of None \<Rightarrow> False | Some t \<Rightarrow> tg_Frontend t = None))"

lemma shouldLoadTarget_cached:
  "m_spec m = Some sp \<Longrightarrow> shouldLoadTarget sv opts m k = (builtin_enabled sp k, m)"
  by (auto simp: shouldLoadTarget_def mux_loadSpec_def builtin_enabled_def split: option.splits)

lemma load_builtins_lookup:
  assumes "m_spec m = Some sp" and "wf_map bs"
  shows "map_of (m_handlers (load_builtins sv opts bs m)) k =
    (case (if builtin_enabled sp k then map_of bs k else None) of
       Some bf \<Rightarrow> Some \<lparr>h_f = bf, h_t = None\<rparr> | None \<Rightarrow> map_of (m_handlers m) k)"
  using assms
proof (induction bs arbitrary: m)
  case (Cons p bs)
  obtain k' bf where p: "p = (k', bf)" by (cases p)
  let ?m = "if builtin_enabled sp k' then Add m k' bf None else m"
  have "m_spec ?m = Some sp" "wf_map bs" and fresh: "map_of bs k' = None"
    using Cons.prems by (auto simp: p wf_map_def map_of_eq_None_iff)
  note IH = Cons.IH [OF this(1,2)]
  have "load_builtins sv opts (p # bs) m = load_builtins sv opts bs ?m"
    by (simp add: p shouldLoadTarget_cached [OF Cons.prems(1)])
  then show ?case
    using fresh by (auto simp: IH p update_conv' split: option.splits)
qed (simp split: option.splits)

lemma add_forward_lookup:
  "map_of (m_handlers (add_forward fwd sp m (k', t))) k =
    (case tg_Frontend t of
       Some fe \<Rightarrow> if k = k' then Some \<lparr>h_f = fwd sp fe, h_t = None\<rparr> else map_of (m_handlers m) k
     | None \<Rightarrow> map_of (m_handlers m) k)"
  by (simp add: add_forward_def update_conv' split: option.splits)

lemma forward_fold_spec: "m_spec (foldl (add_forward fwd sp) m ts) = m_spec m"
  by (induction ts arbitrary: m) (auto simp: add_forward_def split: option.splits)

lemma forward_fold_lookup:
  "wf_map ts \<Longrightarrow> map_of (m_handlers (foldl (add_forward fwd sp) m ts)) k =
    (case map_option tg_Frontend (map_of ts k) of
       Some (Some fe) \<Rightarrow> Some \<lparr>h_f = fwd sp fe, h_t = None\<rparr> | _ \<Rightarrow> map_of (m_handlers m) k)"
proof (induction ts arbitrary: m)
  case (Cons p ts)
  obtain k' t where p: "p = (k', t)" by (cases p)
  have wf: "wf_map ts" and fresh: "map_of ts k' = None"
    using Cons.prems by (auto simp: p wf_map_def map_of_eq_None_iff)
  show ?case
    using wf fresh by (auto simp: Cons.IH p add_forward_lookup split: option.splits)
qed simp

lemma forward_targets_lookup:
  "wf_map (sp_Targets sp) \<Longrightarrow> map_of (m_handlers (forward_targets fwd sp m)) k =
    (case map_option tg_Frontend (map_of (sp_Targets sp) k) of
       Some (Some fe) \<Rightarrow> Some \<lparr>h_f = fwd sp fe, h_t = None\<rparr> | _ \<Rightarrow> map_of (m_handlers m) k)"
  "wf_map (sp_Targets sp) \<Longrightarrow> m_spec (forward_targets fwd sp m) = m_spec m"
  by (simp_all add: forward_targets_def forward_fold_lookup forward_fold_spec)

end
