(* ===== verification/Go_Reader.thy ===== *)
theory Go_Reader
  imports Go_Prelude
begin

text \<open>
  The contract of \<open>io.Reader\<close> as the callers of the program rely on it: a locale whose laws say that a
  read delivers the next bytes in order, never more than the buffer holds, that the end is only
  reported when nothing is left, and that reads with non-empty buffers make progress.  A caller that
  reads until the end then gets all the bytes.
\<close>

datatype ioErr = EOF | IOError goerr

text \<open>
  A caller that reads with a sequence of buffer lengths, keeps what it got and stops at the first
  error; without an error after the last buffer it has not seen the end.
\<close>

fun ReadAll ::
  "(nat \<Rightarrow> 's \<Rightarrow> ('b list \<times> ioErr option) \<times> 's) \<Rightarrow> nat list \<Rightarrow> 's \<Rightarrow> ('b list \<times> ioErr option) \<times> 's" where
  "ReadAll rd [] s = (([], None), s)"
| "ReadAll rd (n # ns) s =
    (case rd n s of
       ((bs, Some e), s') \<Rightarrow> ((bs, Some e), s')
     | ((bs, None), s') \<Rightarrow> (case ReadAll rd ns s' of ((rest, e), s'') \<Rightarrow> ((bs @ rest, e), s'')))"

locale byte_reader =
  fixes rd :: "nat \<Rightarrow> 's \<Rightarrow> ('b list \<times> ioErr option) \<times> 's"
    and inv :: "'s \<Rightarrow> bool"
    and remaining :: "'s \<Rightarrow> 'b list"
    and work_left :: "'s \<Rightarrow> nat"
  assumes keeps: "inv s \<Longrightarrow> rd n s = (r, s') \<Longrightarrow> inv s'"
    and delivers: "inv s \<Longrightarrow> rd n s = ((bs, e), s') \<Longrightarrow> remaining s = bs @ remaining s'"
    and fits: "inv s \<Longrightarrow> rd n s = ((bs, e), s') \<Longrightarrow> length bs \<le> n"
    and ends: "inv s \<Longrightarrow> rd n s = ((bs, Some x), s') \<Longrightarrow> x = EOF \<and> remaining s' = []"
    and progress: "inv s \<Longrightarrow> rd n s = ((bs, None), s') \<Longrightarrow> 0 < n \<Longrightarrow> work_left s' < work_left s"
begin

lemma ReadAll_delivers: "inv s \<Longrightarrow> ReadAll rd ns s = ((bs, e), s') \<Longrightarrow> remaining s = bs @ remaining s' \<and> inv s'"
proof (induction ns arbitrary: s bs e s')
  case (Cons n ns)
  obtain xs e1 s1 where r: "rd n s = ((xs, e1), s1)" by (metis surj_pair)
  note d = delivers [OF Cons.prems(1) r] keeps [OF Cons.prems(1) r]
  show ?case
  proof (cases e1)
    case None
    obtain ys e2 s2 where "ReadAll rd ns s1 = ((ys, e2), s2)" by (metis surj_pair)
    with Cons.IH [OF d(2) this] Cons.prems(2) r None d show ?thesis by auto
  qed (use r d Cons.prems(2) in auto)
qed auto

lemma ReadAll_complete:
  assumes "inv s" and "work_left s < length ns" and "\<forall>n \<in> set ns. 0 < n"
  shows "\<exists>s'. ReadAll rd ns s = ((remaining s, Some EOF), s') \<and> remaining s' = []"
  using assms
proof (induction ns arbitrary: s)
  case (Cons n ns)
  obtain xs e1 s1 where r: "rd n s = ((xs, e1), s1)" by (metis surj_pair)
  note d = delivers [OF Cons.prems(1) r] keeps [OF Cons.prems(1) r]
  show ?case
  proof (cases e1)
    case None
    have "work_left s1 < work_left s" using progress [OF Cons.prems(1)] r None Cons.prems(3) by simp
    then obtain s' where "ReadAll rd ns s1 = ((remaining s1, Some EOF), s')" "remaining s' = []"
      using Cons.IH [OF d(2)] Cons.prems(2,3) by auto
    with r None d(1) show ?thesis by simp
  next
    case (Some e)
    with ends [OF Cons.prems(1)] r have "e = EOF \<and> remaining s1 = []" by blast
    with r Some d(1) show ?thesis by simp
  qed
qed simp

end

end
