(* ===== verification/Socket_Mux.thy ===== *)
theory Socket_Mux
  imports Prefix_Router Go_Reader
begin

text \<open>
  The socket provider (sessionutil/socketprovider): the router of ssh-forward requests (mux.go) and
  the reader and writer that turn a message stream into a byte stream (io.go).
  A server is any value of type \<open>'s\<close>; the fallback \<open>defaultMuxHandler\<close> carries the requested id.
\<close>

section \<open>Router\<close>

record 's socketMux =
  sm_routes :: "(string \<times> 's) list"
  sm_ordered :: "string list"
  sm_defaultHandler :: "'s option"

datatype 's muxOption = WithMuxRoute string 's | WithDefaultHandler 's

fun apply_option :: "'s socketMux \<Rightarrow> 's muxOption \<Rightarrow> 's socketMux" where
  "apply_option m (WithMuxRoute pre srv) =
    m\<lparr>sm_routes := mput pre srv (sm_routes m), sm_ordered := sm_ordered m @ [pre]\<rparr>"
| "apply_option m (WithDefaultHandler srv) = m\<lparr>sm_defaultHandler := Some srv\<rparr>"

definition NewMux :: "'s muxOption list \<Rightarrow> 's socketMux" where
  "NewMux opts =
    (let m = foldl apply_option \<lparr>sm_routes = [], sm_ordered = [], sm_defaultHandler = None\<rparr> opts
     in m\<lparr>sm_ordered := rev (sort (sm_ordered m))\<rparr>)"

datatype 's server = Registered 's | DefaultMuxHandler string

definition getHandler :: "'s socketMux \<Rightarrow> string \<Rightarrow> 's server option" where
  "getHandler m i =
    (case map_of (sm_routes m) i of
       Some srv \<Rightarrow> Some (Registered srv)
     | None \<Rightarrow>
         (case find (\<lambda>p. plain_match p i) (sm_ordered m) of
            Some p \<Rightarrow> map_option Registered (map_of (sm_routes m) p)
          | None \<Rightarrow>
              (case sm_defaultHandler m of
                 Some srv \<Rightarrow> Some (Registered srv)
               | None \<Rightarrow> Some (DefaultMuxHandler i))))"

text \<open>\<open>ForwardAgent\<close> reads the id from the request metadata; without one the id is empty.\<close>

definition forward_id :: "string list option \<Rightarrow> string" where
  "forward_id v = (case v of Some (x # _) \<Rightarrow> x | _ \<Rightarrow> [])"

text \<open>
  A registered server answers by itself (the arguments \<open>check\<close> and \<open>forward\<close>); the fallback server
  answers both calls with an error that names the id.
\<close>

definition server_call :: "('s \<Rightarrow> gores) \<Rightarrow> 's server \<Rightarrow> gores" where
  "server_call call srv =
    (case srv of Registered s \<Rightarrow> call s | DefaultMuxHandler i \<Rightarrow> Some (Msg (''no handler for key '' @ i)))"

definition CheckAgent :: "('s \<Rightarrow> gores) \<Rightarrow> 's socketMux \<Rightarrow> string \<Rightarrow> gores option" where
  "CheckAgent check m i = map_option (server_call check) (getHandler m i)"

definition ForwardAgent :: "('s \<Rightarrow> gores) \<Rightarrow> 's socketMux \<Rightarrow> string list option \<Rightarrow> gores option" where
  "ForwardAgent forward m v = map_option (server_call forward) (getHandler m (forward_id v))"

section \<open>Streams\<close>

text \<open>
  The reader: \<open>sr_in\<close> holds the messages that \<open>Recv\<close> will return in order before its first error, which is the end
  of the stream or a failure of the connection; \<open>Read\<close> hands this error on, and which one it is is not recorded.
  \<open>Read\<close> gets the length of the caller's buffer.
\<close>

record 'b streamReader =
  sr_in :: "'b list list"
  sr_buf :: "'b list"

definition streamReader_Read :: "nat \<Rightarrow> 'b streamReader \<Rightarrow> ('b list option) \<times> 'b streamReader" where
  "streamReader_Read len sr =
    (if 0 < length (sr_buf sr) then
       (Some (take len (sr_buf sr)), sr\<lparr>sr_buf := drop len (sr_buf sr)\<rparr>)
     else (case sr_in sr of
             [] \<Rightarrow> (None, sr)
           | msg # rest \<Rightarrow>
               (Some (take len msg),
                sr\<lparr>sr_in := rest,
                   sr_buf := (if len < length msg then sr_buf sr @ drop len msg else sr_buf sr)\<rparr>)))"

text \<open>The writer sends every slice as one message; \<open>err\<close> is the error of the send.\<close>

definition streamWriter_Write :: "gores \<Rightarrow> 'b list \<Rightarrow> 'b list list \<Rightarrow> (nat \<times> gores) \<times> 'b list list" where
  "streamWriter_Write err p sent =
    (case err of Some e \<Rightarrow> ((0, Some e), sent) | None \<Rightarrow> ((length p, None), sent @ [p]))"

text \<open>The reader as an \<open>io.Reader\<close>: the end of the stream is the error \<open>EOF\<close>.\<close>

definition stream_read :: "nat \<Rightarrow> 'b streamReader \<Rightarrow> ('b list \<times> ioErr option) \<times> 'b streamReader" where
  "stream_read len sr =
    (case streamReader_Read len sr of (None, sr') \<Rightarrow> (([], Some EOF), sr') | (Some bs, sr') \<Rightarrow> ((bs, None), sr'))"

section \<open>Router lemmas\<close>

lemma NewMux_fold:
  assumes "foldl apply_option m opts = m'"
    and "fst ` set (sm_routes m) = set (sm_ordered m)"
  shows "fst ` set (sm_routes m') = set (sm_ordered m')"
  using assms
proof (induction opts arbitrary: m)
  case (Cons opt opts)
  have "fst ` set (mput k v al) = insert k (fst ` set al)" for k and v :: 'a and al
    by (simp add: dom_map_of_conv_image_fst [symmetric] update_conv')
  then have "fst ` set (sm_routes (apply_option m opt)) = set (sm_ordered (apply_option m opt))"
    using Cons.prems(2) by (cases opt) auto
  with Cons show ?case by auto
qed auto

lemma NewMux_ordered:
  "set (sm_ordered (NewMux opts)) = fst ` set (sm_routes (NewMux opts))"
  "sorted (rev (sm_ordered (NewMux opts)))"
  using NewMux_fold [OF refl, of "\<lparr>sm_routes = [], sm_ordered = [], sm_defaultHandler = None\<rparr>" opts]
  by (simp_all add: NewMux_def Let_def)

lemma exact_longest: "i \<in> set ks \<Longrightarrow> longest_match plain_match ks i i"
  by (auto simp: longest_match_def plain_match_def HasPrefix_length) (simp add: HasPrefix_def)

section \<open>Stream lemmas\<close>

definition pending :: "'b streamReader \<Rightarrow> 'b list" where
  "pending sr = sr_buf sr @ concat (sr_in sr)"

lemma Read_pending:
  "streamReader_Read n sr = (Some bs, sr') \<Longrightarrow> pending sr = bs @ pending sr'"
  by (auto simp: streamReader_Read_def pending_def split: if_splits list.splits)

lemma Read_end: "streamReader_Read n sr = (None, sr') \<Longrightarrow> pending sr = [] \<and> sr' = sr"
  by (auto simp: streamReader_Read_def pending_def split: if_splits list.splits)

lemma Read_fits: "streamReader_Read n sr = (Some bs, sr') \<Longrightarrow> length bs \<le> n"
  by (auto simp: streamReader_Read_def split: if_splits list.splits)

text \<open>Reads with non-empty buffers make progress: the amount of work left decreases.\<close>

definition work :: "'b streamReader \<Rightarrow> nat" where
  "work sr = length (sr_buf sr) + sum_list (map (\<lambda>m. Suc (length m)) (sr_in sr))"

lemma Read_progress:
  "streamReader_Read n sr = (Some bs, sr') \<Longrightarrow> 0 < n \<Longrightarrow> work sr' < work sr"
  by (auto simp: streamReader_Read_def work_def split: if_splits list.splits)

interpretation stream_reader: byte_reader stream_read "\<lambda>sr. True" pending work
proof
  fix sr :: "'b streamReader" and n bs e sr'
  assume r: "stream_read n sr = ((bs, e), sr')"
  then show "pending sr = bs @ pending sr'" and "length bs \<le> n"
    by (auto simp: stream_read_def split: prod.splits option.splits dest: Read_end Read_pending Read_fits)
next
  fix sr :: "'b streamReader" and n bs x sr'
  assume "stream_read n sr = ((bs, Some x), sr')"
  then show "x = EOF \<and> pending sr' = []"
    by (auto simp: stream_read_def split: prod.splits option.splits dest: Read_end)
next
  fix sr :: "'b streamReader" and n bs sr'
  assume "stream_read n sr = ((bs, None), sr')" and "0 < n"
  then show "work sr' < work sr"
    by (auto simp: stream_read_def split: prod.splits option.splits dest: Read_progress)
qed auto

end
