(* ===== verification/Frontend_Claims.thy ===== *)
theory Frontend_Claims
  imports Build_Mux Socket_Mux Examples
begin

text \<open>
  The properties of the frontend: routing of build requests, registration of routes, requests to
  custom frontends and signers, the cache switch, and the socket router with its streams.
\<close>

section \<open>Concrete routers\<close>

definition leaf :: "string \<Rightarrow> string buildFunc" where
  "leaf name opts = (Inr \<lparr>res_Metadata = [(''result.json'', name)], res_Ref = name\<rparr>, opts)"

definition demo_services :: "string services" where
  "demo_services = \<lparr>sv_loadSpec = (\<lambda>opts. Inr demo_spec),
     sv_unmarshal = (\<lambda>dt. Inr [\<lparr>bt_Name = dt, bt_Default = False, bt_Description = []\<rparr>]),
     sv_marshal = (\<lambda>ts. Inr (concat (map bt_Name ts))),
     sv_ToResult = (\<lambda>ts. Inr \<lparr>res_Metadata = [(''result.json'', concat (map bt_Name ts))], res_Ref = []\<rparr>),
     sv_describe = Inl (Msg ''describe''), sv_resolveSpec = (\<lambda>opts. Inl (Msg ''resolve'')),
     sv_defaultPlatform = Inl (Msg ''platform'')\<rparr>"

definition empty_mux :: "string buildMux" where
  "empty_mux = \<lparr>m_handlers = [], m_defaultH = None, m_spec = None\<rparr>"

definition inner_mux :: "string buildMux" where
  "inner_mux = Add (Add empty_mux ''container'' (leaf ''c'') None) ''container/depsonly'' (leaf ''d'') None"

definition outer_mux :: "string buildMux" where
  "outer_mux = Add (Add empty_mux ''azlinux3'' (mux_func demo_services inner_mux) None) ''debug'' (leaf ''dbg'') None"

definition demo_opts :: buildOpts where
  "demo_opts = [(''target'', ''azlinux3/container/depsonly/x''), (''platform'', ''linux/amd64'')]"

definition demo_client :: "(string, string) client" where
  "demo_client = \<lparr>cl_inputs = Inr [(''src'', Inr ''src-def'')],
     cl_marshal_file = (\<lambda>f dt. Inr (f @ '':'' @ dt)), cl_marshal_state = (\<lambda>s. Inr s),
     cl_marshal_spec = (\<lambda>sp. Inr (sp_Name sp)), cl_DetectSyntax = (\<lambda>dt. None),
     cl_solve_def = (\<lambda>d. Inr (Inr (\<lambda>f. Inr f))), cl_solve = (\<lambda>req. Inr ''signed''),
     cl_signing_config = (\<lambda>p c. Inr \<lparr>pcfg_Signer = None\<rparr>)\<rparr>"

definition demo_frontend :: frontend where
  "demo_frontend = \<lparr>fe_Image = ''example.com/fe'', fe_CmdLine = ''/run''\<rparr>"

definition demo_signer :: packageSigner where
  "demo_signer = \<lparr>ps_Frontend = Some demo_frontend, ps_Args = [(''KEY'', ''k'')]\<rparr>"

lemmas demo_mux_defs = leaf_def demo_services_def empty_mux_def inner_mux_def outer_mux_def demo_opts_def
  demo_client_def demo_frontend_def demo_signer_def

section \<open>Routing\<close>

text \<open>
  C10 (frontend/mux.go, BuildMux.lookupTarget): the route found for a target is the route equal to
  it if there is one; otherwise, for the empty target, the default handler; otherwise the longest
  registered route that the target continues after a slash.  The route found this way is unique,
  although the code only sorts the candidates alphabetically.
\<close>

theorem lookupTarget_characterised:
  "lookupTarget m t = Inr (k, h) \<longleftrightarrow>
    (case map_of (m_handlers m) t of
       Some h' \<Rightarrow> k = t \<and> h = h'
     | None \<Rightarrow>
         (case (if t = [] then m_defaultH m else None) of
            Some h' \<Rightarrow> k = t \<and> h = h'
          | None \<Rightarrow> longest_match slash_match (map fst (m_handlers m)) t k \<and> map_of (m_handlers m) k = Some h))"
proof -
  let ?ks = "map fst (m_handlers m)" and ?c = "filter (\<lambda>k. slash_match k t) (map fst (m_handlers m))"
  have found: "(k = last (sort ?c) \<and> h = the (map_of (m_handlers m) k)) \<longleftrightarrow>
      longest_match slash_match ?ks t k \<and> map_of (m_handlers m) k = Some h"
    if "list_ex (\<lambda>k. slash_match k t) ?ks"
  proof -
    have "\<exists>v. map_of (m_handlers m) k = Some v" if "longest_match slash_match ?ks t k"
      using that by (intro keys_lookup) (simp add: longest_match_def)
    with sorted_candidates [OF that, of k] show ?thesis by fastforce
  qed
  have none: "\<not> longest_match slash_match ?ks t k" if "\<not> list_ex (\<lambda>k. slash_match k t) ?ks"
    using that longest_match_ex by blast
  show ?thesis
    using found none
    by (auto simp: lookupTarget_def Let_def candidates_Nil split: option.splits)
qed

text \<open>
  Note (frontend/mux.go, BuildMux.lookupTarget): the lookup fails exactly when no registered route
  equals the target or is continued by it and there is no default for an empty target; the error
  carries the target and every registered route.
\<close>

theorem lookupTarget_not_found:
  "lookupTarget m t = Inl e \<longleftrightarrow>
    t \<notin> fst ` set (m_handlers m) \<and> (if t = [] then m_defaultH m else None) = None
    \<and> \<not> list_ex (\<lambda>k. slash_match k t) (map fst (m_handlers m))
    \<and> e = NoSuchHandler t (map fst (m_handlers m))"
  unfolding map_of_eq_None_iff [symmetric] lookupTarget_def Let_def candidates_Nil
  by (auto split: option.splits)

text \<open>
  Note (frontend/mux.go, trimTargetOpt and maybeSetDalecTargetKey): the client that a matched handler
  gets asks for the part of the target below the route, has \<open>dalec.target\<close> set to the route unless
  it was set before, and keeps every option other than the target and the two target keys.
\<close>

theorem handler_client:
  assumes "lookupTarget m (opt_get opts keyTarget) = Inr (k, h)"
  shows "(opt_get opts keyTarget = k \<and> opt_get (handler_opts opts k) keyTarget = []
          \<or> opt_get opts keyTarget = k @ ''/'' @ opt_get (handler_opts opts k) keyTarget)
    \<and> GetTargetKey (handler_opts opts k) = (if GetTargetKey opts = [] then k else GetTargetKey opts)
    \<and> (x \<in> {keyTarget, keyTopLevelTarget, build_arg ''DALEC_TARGET''}
        \<or> opt_get (handler_opts opts k) x = opt_get opts x)"
proof -
  have "opt_get opts keyTarget = k \<and> opt_get (handler_opts opts k) keyTarget = []
      \<or> opt_get opts keyTarget = k @ ''/'' @ opt_get (handler_opts opts k) keyTarget"
    using assms by (cases rule: lookup_cases) auto
  then show ?thesis
    using handler_opts_other [of x opts k] by (auto simp: GetTargetKey_def)
qed

theorem handler_client_witness:
  "opt_get (handler_opts demo_opts ''azlinux3'') keyTarget = ''container/depsonly/x''
    \<and> GetTargetKey (handler_opts demo_opts ''azlinux3'') = ''azlinux3''
    \<and> opt_get (handler_opts demo_opts ''azlinux3'') ''platform'' = ''linux/amd64''"
proof -
  have "lookupTarget outer_mux (opt_get demo_opts keyTarget) =
      Inr (''azlinux3'', \<lparr>h_f = mux_func demo_services inner_mux, h_t = None\<rparr>)"
    by (simp add: lookupTarget_def outer_mux_def demo_opts_def Add_def empty_mux_def keyTarget_def
        opt_get_def slash_match_def HasPrefix_def)
  from handler_client [OF this, of "''platform''"] show ?thesis
    by (simp add: demo_opts_def keyTarget_def keyTopLevelTarget_def build_arg_def opt_get_def GetTargetKey_def)
qed

text \<open>
  C11 (frontend/mux.go, BuildMux.Handle): routers nest.  A target that continues a route of the outer
  router and then a route of the inner one reaches the inner handler with the rest of the target,
  with \<open>dalec.target\<close> naming the outer route, and its result is returned unchanged.
\<close>

theorem nested_route:
  assumes "opt_get opts requestIDKey = []" and "GetTargetKey opts = []" and "k1 \<noteq> []"
    and "lookupTarget m1 (k1 @ ''/'' @ t) = Inr (k1, \<lparr>h_f = mux_func sv m2, h_t = i\<rparr>)"
    and "lookupTarget m2 t = Inr (k2, h2)"
    and "opt_get opts keyTarget = k1 @ ''/'' @ t"
    and "h_f h2 (handler_opts (handler_opts opts k1) k2) = (Inr res, opts')"
    and "opt_get opts' requestIDKey = []"
  shows "fst (Handle sv m1 opts) = (Inr res, opts')
    \<and> GetTargetKey (handler_opts (handler_opts opts k1) k2) = k1
    \<and> opt_get (handler_opts (handler_opts opts k1) k2) keyTarget = trimmed t k2"
proof -
  let ?o1 = "handler_opts opts k1"
  have t: "opt_get ?o1 keyTarget = t" using assms(6) by simp
  have "Handle sv m1 opts = ((Inr res, opts'), m1)"
    using assms t by (intro nested_Handle [of _ _ k1 _ m2 i k2 h2]) simp_all
  with assms(2,3) t show ?thesis by (simp add: GetTargetKey_def)
qed

theorem nested_route_witness:
  "fst (Handle demo_services outer_mux demo_opts) =
    (Inr \<lparr>res_Metadata = [(''result.json'', ''d'')], res_Ref = ''d''\<rparr>,
     handler_opts (handler_opts demo_opts ''azlinux3'') ''container/depsonly'')"
  by (rule nested_route [of demo_opts "''azlinux3''" outer_mux "''container/depsonly/x''" demo_services
        inner_mux None "''container/depsonly''" "\<lparr>h_f = leaf ''d'', h_t = None\<rparr>", THEN conjunct1])
     (simp_all add: lookupTarget_def outer_mux_def inner_mux_def demo_opts_def Add_def empty_mux_def
        keyTarget_def requestIDKey_def keyTopLevelTarget_def opt_get_def GetTargetKey_def slash_match_def
        HasPrefix_def leaf_def handler_opts_def trimTargetOpt_def maybeSetDalecTargetKey_def
        setClientOptOption_def copy_into_def build_arg_def)

text \<open>
  Note (frontend/mux.go, BuildMux.Handle and fixupListResult): a request that is routed to a handler
  is never a request for the target list, since those are answered before the lookup; the result of
  the handler is changed only if the handler itself turned the request into a list request.
\<close>

theorem routed_result_unchanged:
  assumes "handleSubrequest sv m opts = (None, opts1)"
    and "lookupTarget m (opt_get opts keyTarget) = Inr (k, h)"
    and "h_f h (handler_opts opts1 k) = (Inr res, opts2)"
    and "opt_get opts2 requestIDKey = opt_get opts requestIDKey"
  shows "Handle sv m opts = ((Inr res, opts2), m)"
  using assms handleSubrequest_handles_lists [OF assms(1)]
  by (simp add: Handle_def handle_body_def)

theorem routed_result_unchanged_witness:
  "Handle demo_services outer_mux [(''target'', ''debug'')] =
    ((Inr \<lparr>res_Metadata = [(''result.json'', ''dbg'')], res_Ref = ''dbg''\<rparr>,
      handler_opts [(''target'', ''debug'')] ''debug''), outer_mux)"
  by (rule routed_result_unchanged [where k = "''debug''" and ?opts1.0 = "[(''target'', ''debug'')]"
        and h = "\<lparr>h_f = leaf ''dbg'', h_t = None\<rparr>"])
     (simp_all add: handleSubrequest_def lookupTarget_def outer_mux_def Add_def empty_mux_def
        keyTarget_def requestIDKey_def opt_get_def leaf_def handler_opts_def trimTargetOpt_def
        maybeSetDalecTargetKey_def setClientOptOption_def copy_into_def build_arg_def keyTopLevelTarget_def)

section \<open>Registration\<close>

text \<open>
  C21 (frontend/mux.go, WithTargetForwardingHandler and LoadBuiltinTargets): after both options ran, a
  route leads to the custom frontend if the spec's target of that name has one; otherwise to the
  built-in handler if the spec lists no targets or lists this one; otherwise to whatever was
  registered before.  The iteration order of the two maps does not matter.
\<close>

theorem registered_handlers:
  assumes "sv_loadSpec sv opts = Inr sp" and "m_spec m = None" and "GetTargetKey opts = []"
    and "wf_map (sp_Targets sp)" and "wf_map builtins"
  shows "\<exists>m'. apply_mux_options [WithTargetForwardingHandler sv fwd, LoadBuiltinTargets sv builtins] opts m = (None, m')
    \<and> map_of (m_handlers m') k =
       (case map_option tg_Frontend (map_of (sp_Targets sp) k) of
          Some (Some fe) \<Rightarrow> Some \<lparr>h_f = fwd sp fe, h_t = None\<rparr>
        | _ \<Rightarrow>
            (case (if builtin_enabled sp k then map_of builtins k else None) of
               Some bf \<Rightarrow> Some \<lparr>h_f = bf, h_t = None\<rparr>
             | None \<Rightarrow> map_of (m_handlers m) k))"
proof -
  let ?m1 = "forward_targets fwd sp (m\<lparr>m_spec := Some sp\<rparr>)"
  let ?m2 = "load_builtins sv opts builtins ?m1"
  have "apply_mux_options [WithTargetForwardingHandler sv fwd, LoadBuiltinTargets sv builtins] opts m = (None, ?m2)"
    using assms(1-3) by (simp add: WithTargetForwardingHandler_def LoadBuiltinTargets_def mux_loadSpec_def)
  moreover have "m_spec ?m1 = Some sp" using assms(4) by (simp add: forward_targets_lookup)
  then have "map_of (m_handlers ?m2) k =
      (case (if builtin_enabled sp k then map_of builtins k else None) of
         Some bf \<Rightarrow> Some \<lparr>h_f = bf, h_t = None\<rparr> | None \<Rightarrow> map_of (m_handlers ?m1) k)"
    using assms(5) by (rule load_builtins_lookup)
  ultimately show ?thesis
    using assms(4)
    by (auto simp: forward_targets_lookup builtin_enabled_def split: option.splits)
qed

theorem registered_handlers_witness:
  "\<exists>m'. apply_mux_options [WithTargetForwardingHandler demo_services (\<lambda>sp fe. leaf (fe_Image fe)),
       LoadBuiltinTargets demo_services [(''azlinux3'', leaf ''az''), (''jammy'', leaf ''ja'')]] [] outer_mux = (None, m')
    \<and> map_of (m_handlers m') ''azlinux3'' = Some \<lparr>h_f = leaf ''az'', h_t = None\<rparr>"
  using registered_handlers [of demo_services "[]" demo_spec outer_mux
      "[(''azlinux3'', leaf ''az''), (''jammy'', leaf ''ja'')]" "\<lambda>sp fe. leaf (fe_Image fe)" "''azlinux3''"]
  by (simp add: demo_services_def demo_spec_def empty_spec_def outer_mux_def Add_def empty_mux_def
      GetTargetKey_def opt_get_def keyTopLevelTarget_def wf_map_def builtin_enabled_def empty_target_def)

text \<open>
  Note (frontend/mux.go, BuildMux.list): the options map is shared by the clients of all handlers that
  a list request calls, so the handler of the second route is called with \<open>dalec.target\<close> naming the
  first route.
\<close>

theorem list_passes_first_target:
  assumes "map_of (m_handlers m) k1 = Some \<lparr>h_f = f1, h_t = None\<rparr>"
    and "map_of (m_handlers m) k2 = Some \<lparr>h_f = f2, h_t = None\<rparr>"
    and "GetTargetKey opts = []" and "k1 \<noteq> []"
    and "f1 (handler_opts opts k1) = (Inr r1, handler_opts opts k1)"
    and "unmarshalResult sv r1 = Inr ts"
  shows "\<exists>o2. GetTargetKey o2 = k1 \<and>
    list_loop sv m [k1, k2] opts [] =
      (case f2 o2 of
         (Inl e, o3) \<Rightarrow> (Inl e, o3)
       | (Inr r2, o3) \<Rightarrow>
           (case unmarshalResult sv r2 of
              Inl e \<Rightarrow> (Inl (Plain e), o3)
            | Inr ts2 \<Rightarrow> (Inr (map (prefix_name k1) ts @ map (prefix_name k2) ts2), o3)))"
  using assms
  by (intro exI [of _ "handler_opts (handler_opts opts k1) k2"])
     (simp add: lookupTarget_def GetTargetKey_def split: sum.splits prod.splits)

theorem list_passes_first_target_witness:
  "\<exists>o2. GetTargetKey o2 = ''container'' \<and>
    list_loop demo_services inner_mux [''container'', ''container/depsonly''] [] [] =
      (Inr (map (prefix_name ''container'') [\<lparr>bt_Name = ''c'', bt_Default = False, bt_Description = []\<rparr>]
         @ map (prefix_name ''container/depsonly'') [\<lparr>bt_Name = ''d'', bt_Default = False, bt_Description = []\<rparr>]), o2)"
  using list_passes_first_target [of inner_mux "''container''" "leaf ''c''" "''container/depsonly''" "leaf ''d''" "[]"
      "\<lparr>res_Metadata = [(''result.json'', ''c'')], res_Ref = ''c''\<rparr>" demo_services
      "[\<lparr>bt_Name = ''c'', bt_Default = False, bt_Description = []\<rparr>]"]
  by (simp add: inner_mux_def Add_def empty_mux_def leaf_def unmarshalResult_def demo_services_def
      GetTargetKey_def opt_get_def)

section \<open>Requests to other frontends\<close>

text \<open>
  Note (frontend/mux.go, WithTargetForwardingHandler; frontend/gateway.go, copyForForward;
  frontend/request.go): the request to a custom frontend names the frontend's image and command line,
  asks for the target that is left, carries the spec as its dockerfile input, and copies every
  other build option except the two that select a dockerfile.
\<close>

theorem forwarded_options:
  assumes "forward_request cl sp fe opts = Inr req" and "wf_map opts"
  shows "sr_Frontend req = gatewayFrontend
    \<and> (\<exists>dt def. cl_marshal_spec cl sp = Inr dt \<and> cl_marshal_file cl defaultDockerfileName dt = Inr def
         \<and> map_of (made (sr_FrontendInputs req)) ''dockerfile'' = Some def)
    \<and> map_of (made (sr_FrontendOpt req)) x =
       (if x = ''target'' then Some (opt_get opts keyTarget)
        else if x = ''cmdline'' then Some (fe_CmdLine fe)
        else if x = ''source'' then Some (fe_Image fe)
        else if x = ''filename'' \<or> x = ''dockerfilekey'' then None
        else map_of opts x)"
proof -
  obtain m dt def where spec: "cl_marshal_spec cl sp = Inr dt" "cl_marshal_file cl defaultDockerfileName dt = Inr def"
    and req: "req = \<lparr>sr_Frontend = gatewayFrontend,
      sr_FrontendOpt = Some (mput ''target'' (opt_get opts keyTarget) (mput ''cmdline'' (fe_CmdLine fe)
        (mput ''source'' (fe_Image fe) (copy_missing forward_key opts [])))),
      sr_FrontendInputs = Some (mput ''dockerfile'' def m)\<rparr>"
    using forward_request_shape [OF assms(1)] by blast
  have "map_of (made (sr_FrontendOpt req)) x =
     (if x = ''target'' then Some (opt_get opts keyTarget)
      else if x = ''cmdline'' then Some (fe_CmdLine fe)
      else if x = ''source'' then Some (fe_Image fe)
      else if forward_key x then map_of opts x else None)"
    by (simp only: req made_def option.case solveRequest.simps update_conv' fun_upd_apply
        copy_missing_lookup [OF assms(2)] map_of.simps)
  with spec req show ?thesis by (simp add: forward_key_def made_def update_conv')
qed

theorem forwarded_options_witness:
  "\<exists>req. forward_request demo_client demo_spec demo_frontend demo_opts = Inr req
    \<and> map_of (made (sr_FrontendOpt req)) ''platform'' = Some ''linux/amd64''
    \<and> map_of (made (sr_FrontendInputs req)) ''dockerfile'' = Some ''Dockerfile:foo''"
proof -
  obtain req where req: "forward_request demo_client demo_spec demo_frontend demo_opts = Inr req"
    by (auto simp: forward_request_def newSolveRequest_def copyForForward_def withSpec_def toFrontend_def
        withTarget_def demo_client_def wrap_inl_def empty_request_def made_def)
  have "wf_map demo_opts" by (simp add: demo_opts_def wf_map_def)
  from forwarded_options [OF req this, of "''platform''"] req show ?thesis
    by (simp add: demo_opts_def demo_client_def demo_spec_def defaultDockerfileName_def)
qed

text \<open>
  Note (frontend/request.go, forwardToSigner): the request to a signer always names the signer's image
  and command line and the context to sign, whatever the client's options say; a build argument of
  the client wins over the one of the signer configuration, and the requested target is passed on.
\<close>

theorem signer_options:
  assumes "wf_map opts" and "wf_map args"
  shows "map_of (signer_opts fe args opts) ''source'' = Some (fe_Image fe)
    \<and> map_of (signer_opts fe args opts) ''cmdline'' = Some (fe_CmdLine fe)
    \<and> map_of (signer_opts fe args opts) ''contextkey'' = Some ''context''
    \<and> map_of (signer_opts fe args opts) ''dalec.target'' = Some (GetTargetKey opts)
    \<and> map_of (signer_opts fe args opts) ''target'' = map_of opts ''target''
    \<and> map_of (signer_opts fe args opts) (build_arg k) =
       (case map_of opts (build_arg k) of Some v \<Rightarrow> Some v | None \<Rightarrow> map_of args k)"
  using assms
  by (simp add: signer_opts_def newSolveRequest_def toFrontend_def withBuildArgs_def put_opt_def made_def
      empty_request_def update_conv' copy_into_id_lookup copy_args_lookup copy_args_other GetTargetKey_def
      keyTopLevelTarget_def split: option.splits)

theorem signer_options_witness:
  "map_of (signer_opts demo_frontend (ps_Args demo_signer) [(''source'', ''evil''), (''build-arg:KEY'', ''mine'')]) ''source'' = Some ''example.com/fe''
    \<and> map_of (signer_opts demo_frontend (ps_Args demo_signer) [(''source'', ''evil''), (''build-arg:KEY'', ''mine'')]) (build_arg ''KEY'') = Some ''mine''"
  using signer_options [of "[(''source'', ''evil''), (''build-arg:KEY'', ''mine'')]" "ps_Args demo_signer" demo_frontend "''KEY''"]
  by (simp add: wf_map_def demo_signer_def demo_frontend_def build_arg_def)

text \<open>
  Note (frontend/request.go, MaybeSign and forwardToSigner): for a spec whose signers have frontends, signing
  panics exactly when signing is not disabled, a signing configuration file is requested, and the file is read
  but has no signer, or a signer without a frontend.
\<close>

theorem MaybeSign_panics:
  assumes "signers_set sp"
  shows "snd (MaybeSign cl opts st sp targetKey) = None \<longleftrightarrow>
    \<not> signingDisabled opts \<and> getUserSignConfigPath opts \<noteq> []
    \<and> (\<exists>c. getSigningConfigFromContext cl (getUserSignConfigPath opts) (getSignContextNameWithDefault opts) = Inr c
           \<and> (case c of None \<Rightarrow> True | Some s \<Rightarrow> ps_Frontend s = None))"
proof -
  obtain cfg o' where signer: "GetSigner sp targetKey = Some (cfg, o')"
    and set: "case cfg of None \<Rightarrow> True | Some s \<Rightarrow> ps_Frontend s \<noteq> None"
    using GetSigner_total [OF assms, of targetKey] by blast
  have forward: "forwardToSigner cl opts c st = None \<longleftrightarrow> (case c of None \<Rightarrow> True | Some s \<Rightarrow> ps_Frontend s = None)" for c
    by (simp add: forwardToSigner_def split: option.splits)
  show ?thesis
  proof (cases "getUserSignConfigPath opts = []")
    case True
    with set forward [of cfg] show ?thesis by (cases cfg) (auto simp: MaybeSign_def signer)
  next
    case False
    then show ?thesis
      by (cases "getSigningConfigFromContext cl (getUserSignConfigPath opts) (getSignContextNameWithDefault opts)")
        (simp_all add: MaybeSign_def signer Let_def forward)
  qed
qed

text \<open>
  Note (frontend/request.go, IgnoreCache): a list of references in \<open>no-cache\<close> has no effect.  Each
  segment is read together with its trailing comma and the last one is dropped, so for references
  that do not end in a comma only the empty value disables the cache.
\<close>

theorem IgnoreCache_ignores_references:
  assumes "list_all (\<lambda>r. \<not> HasSuffix r '','') refs"
  shows "IgnoreCache opts refs = (map_of opts ''no-cache'' = Some [])"
  using assms ignore_scan_comma [of "set refs"]
  by (auto simp: IgnoreCache_def list_all_iff split: option.splits)

theorem IgnoreCache_ignores_references_witness:
  "\<not> IgnoreCache [(''no-cache'', ''foo,bar'')] [''foo'', ''bar'']"
  using IgnoreCache_ignores_references [of "[''foo'', ''bar'']" "[(''no-cache'', ''foo,bar'')]"]
  by (simp add: HasSuffix_def)

section \<open>Sockets\<close>

text \<open>
  C22 (sessionutil/socketprovider/mux.go, getHandler): every request gets the server of the longest
  route that is a prefix of its id (an equal route being the longest possible one), and if no route is
  a prefix, the configured default server or the handler that reports the id as unknown.
\<close>

theorem getHandler_longest:
  "(case find (\<lambda>p. plain_match p i) (sm_ordered (NewMux opts)) of
      Some p \<Rightarrow> \<exists>k srv. longest_match plain_match (map fst (sm_routes (NewMux opts))) i k
        \<and> map_of (sm_routes (NewMux opts)) k = Some srv \<and> getHandler (NewMux opts) i = Some (Registered srv)
    | None \<Rightarrow> \<not> list_ex (\<lambda>k. plain_match k i) (map fst (sm_routes (NewMux opts)))
        \<and> getHandler (NewMux opts) i =
           Some (case sm_defaultHandler (NewMux opts) of Some srv \<Rightarrow> Registered srv | None \<Rightarrow> DefaultMuxHandler i))"
proof (cases "find (\<lambda>p. plain_match p i) (sm_ordered (NewMux opts))")
  case None
  let ?m = "NewMux opts"
  have no: "\<not> list_ex (\<lambda>k. plain_match k i) (map fst (sm_routes ?m))"
    using None NewMux_ordered(1) [of opts] by (force simp: find_None_iff list_ex_iff)
  then have "map_of (sm_routes ?m) i = None"
    by (auto simp: list_ex_iff plain_match_def HasPrefix_def map_of_eq_None_iff)
  with None no show ?thesis by (simp add: getHandler_def split: option.splits)
next
  case (Some p)
  let ?m = "NewMux opts"
  have long: "longest_match plain_match (map fst (sm_routes ?m)) i p"
    using Some NewMux_ordered [of opts] by (intro plain.by_scanning) auto
  show ?thesis
  proof (cases "map_of (sm_routes ?m) i")
    case (Some srv)
    then have "longest_match plain_match (map fst (sm_routes ?m)) i i"
      by (intro exact_longest) (metis map_of_eq_None_iff option.distinct(1) set_map)
    with Some \<open>find _ _ = Some p\<close> show ?thesis by (auto simp: getHandler_def)
  next
    case None
    obtain srv where "map_of (sm_routes ?m) p = Some srv"
      using long map_of_eq_None_iff [of "sm_routes ?m" p] by (auto simp: longest_match_def)
    with None long \<open>find _ _ = Some p\<close> show ?thesis by (auto simp: getHandler_def)
  qed
qed

text \<open>
  C25 (sessionutil/socketprovider/io.go, streamWriter.Write and streamReader.Read): whatever the sizes of
  the written slices and of the (non-empty) read buffers, a reader that reads until the stream ends
  gets exactly the written bytes, in order, and then the end of the stream.
\<close>

theorem stream_delivers:
  assumes "\<forall>n \<in> set ns. 0 < n" and "length (concat ps) + length ps < length ns"
  shows "fst (ReadAll stream_read ns \<lparr>sr_in = foldl (\<lambda>sent p. snd (streamWriter_Write None p sent)) [] ps, sr_buf = []\<rparr>)
    = (concat ps, Some EOF)"
proof -
  have sent: "foldl (\<lambda>sent p. snd (streamWriter_Write None p sent)) acc ps = acc @ ps" for acc
    by (induction ps arbitrary: acc) (simp_all add: streamWriter_Write_def)
  have "work \<lparr>sr_in = ps, sr_buf = []\<rparr> = length (concat ps) + length ps"
    by (induction ps) (simp_all add: work_def)
  with assms show ?thesis
    using stream_reader.ReadAll_complete [of "\<lparr>sr_in = ps, sr_buf = []\<rparr>" ns] by (auto simp: sent pending_def)
qed

theorem stream_delivers_witness:
  "fst (ReadAll stream_read (replicate 9 2) \<lparr>sr_in = foldl (\<lambda>sent p. snd (streamWriter_Write None p sent)) [] [''abc'', [], ''de''],
     sr_buf = []\<rparr>) = (''abcde'', Some EOF)"
  using stream_delivers [of "replicate 9 2" "[''abc'', [], ''de'']"] by simp

end
