(* ===== verification/Source_Doc.thy ===== *)
theory Source_Doc
  imports Sources
begin

text \<open>
  The description of a source that the packaging code writes as comments (the \<open>doc\<close> methods of
  source*.go and the indenting writer of helpers.go).

  \<open>remote\<close> is the remote that the git URL parser reports, \<^term>\<open>None\<close> when the URL does not parse, where
  the code panics.  Every print ends in a newline, so the indenting writer may be applied to the
  text of all prints at once.  The limit of 64 KiB on a scanned line is not modelled.
\<close>

definition line :: "string \<Rightarrow> string" where
  "line s = s @ nl"

text \<open>\<open>bufio.Scanner\<close> with its default split function.\<close>

definition drop_cr :: "string \<Rightarrow> string" where
  "drop_cr l = TrimSuffix l [CHR 0x0D]"

definition scan_lines :: "string \<Rightarrow> string list" where
  "scan_lines s =
    (let ls = split_on (CHR 0x0A) s
     in map drop_cr (if last ls = [] then butlast ls else ls))"

text \<open>\<open>indentWriter\<close>.\<close>

definition indent :: "string \<Rightarrow> string" where
  "indent s = concat (map (\<lambda>l. line (tab @ l)) (scan_lines s))"

definition octal :: "nat \<Rightarrow> string" where
  "octal n = nat_base 8 n"

definition chown_doc :: "int \<Rightarrow> int \<Rightarrow> string \<Rightarrow> string" where
  "chown_doc uid gid name =
    (if uid \<noteq> 0 then line (tab @ ''chown '' @ Itoa uid @ '' '' @ name) else [])
    @ (if gid \<noteq> 0 then line (tab @ ''chgrp '' @ Itoa gid @ '' '' @ name) else [])"

definition chmod_doc :: "fileMode \<Rightarrow> string \<Rightarrow> string" where
  "chmod_doc mode name =
    line (tab @ ''chmod '' @ octal (if FileMode_Perm mode = 0 then 420 else FileMode_Perm mode) @ '' '' @ name)"

definition inlineFile_Doc :: "sourceInlineFile \<Rightarrow> string \<Rightarrow> string" where
  "inlineFile_Doc f name =
    line (tab @ ''cat << EOF > '' @ name @ nl @ if_Contents f @ nl @ tab @ ''EOF'')
    @ chown_doc (if_UID f) (if_GID f) name @ chmod_doc (if_Permissions f) name"

definition sorted_entries :: "'v gomap \<Rightarrow> (string \<times> 'v) list" where
  "sorted_entries m = map (\<lambda>k. (k, the (map_of m k))) (SortMapKeys m)"

definition inlineDir_Doc :: "sourceInlineDir \<Rightarrow> string \<Rightarrow> string" where
  "inlineDir_Doc d name =
    line (tab @ ''mkdir -p '' @ name)
    @ chown_doc (idir_UID d) (idir_GID d) name
    @ concat (map (\<lambda>(k, f). inlineFile_Doc f (Join [name, k])) (sorted_entries (idir_Files d)))
    @ chmod_doc (idir_Permissions d) name"

definition inline_doc :: "sourceInline \<Rightarrow> string \<Rightarrow> string" where
  "inline_doc i name =
    line ''Generated from an inline source:''
    @ (case inl_File i of None \<Rightarrow> [] | Some f \<Rightarrow> inlineFile_Doc f name)
    @ (case inl_Dir i of None \<Rightarrow> [] | Some d \<Rightarrow> inlineDir_Doc d name)"

definition git_doc :: "(string \<Rightarrow> string option) \<Rightarrow> sourceGit \<Rightarrow> string option" where
  "git_doc remote g =
    map_option (\<lambda>r. line ''Generated from a git repository:'' @ line (tab @ ''Remote: '' @ r)
      @ line (tab @ ''Ref: '' @ git_Commit g)) (remote (git_URL g))"

definition http_doc :: "sourceHTTP \<Rightarrow> string" where
  "http_doc h = line ''Generated from a http(s) source:'' @ line (tab @ ''URL: '' @ http_URL h)"

definition env_doc :: "string \<Rightarrow> string gomap \<Rightarrow> string" where
  "env_doc pre env = concat (map (\<lambda>(k, v). line (pre @ k @ ''='' @ v)) (sorted_entries env))"

definition step_doc :: "buildStep \<Rightarrow> string" where
  "step_doc st =
    line (tab @ tab @ step_Command st)
    @ (if step_Env st \<noteq> [] then
         line (tab @ tab @ tab @ ''With the following environment variables set for this command:'')
         @ env_doc (tab @ tab @ tab @ tab) (step_Env st)
       else [])"

fun source_doc :: "(string \<Rightarrow> string option) \<Rightarrow> string \<Rightarrow> source \<Rightarrow> string option"
and image_doc :: "(string \<Rightarrow> string option) \<Rightarrow> string \<Rightarrow> sourceDockerImage \<Rightarrow> string option"
and command_doc :: "(string \<Rightarrow> string option) \<Rightarrow> string \<Rightarrow> command \<Rightarrow> string option"
and mount_doc :: "(string \<Rightarrow> string option) \<Rightarrow> string \<Rightarrow> sourceMount \<Rightarrow> string option"
and build_doc :: "(string \<Rightarrow> string option) \<Rightarrow> string \<Rightarrow> sourceBuild \<Rightarrow> string option" where
  "source_doc remote name (Source img git http ctx bld inl path incl excl gens) =
    (case bld of Some b \<Rightarrow> build_doc remote name b | None \<Rightarrow>
     (case ctx of Some c \<Rightarrow> Some (line ''Generated from a local docker build context and is unreproducible.'') | None \<Rightarrow>
     (case img of Some d \<Rightarrow> image_doc remote name d | None \<Rightarrow>
     (case git of Some g \<Rightarrow> git_doc remote g | None \<Rightarrow>
     (case http of Some h \<Rightarrow> Some (http_doc h) | None \<Rightarrow>
     (case inl of Some i \<Rightarrow> Some (inline_doc i name) | None \<Rightarrow> None))))))"
| "image_doc remote name (SourceDockerImage ref cmd) =
    (case (case cmd of None \<Rightarrow> Some [] | Some c \<Rightarrow> map_option indent (command_doc remote name c)) of
       None \<Rightarrow> None
     | Some t \<Rightarrow> Some (line ''Generated from a docker image:'' @ line (tab @ ''Image: '' @ ref) @ t))"
| "command_doc remote name (Command dir mounts env steps) =
    (case those (map (mount_doc remote name) mounts) of
       None \<Rightarrow> None
     | Some ms \<Rightarrow>
         Some ((if env \<noteq> [] then
                  line (tab @ ''With the following environment variables set for all commands:'')
                  @ env_doc (tab @ tab) env
                else [])
               @ (if dir \<noteq> [] then line (tab @ ''Working Directory: '' @ dir) else [])
               @ line (tab @ ''Command(s):'')
               @ concat (map step_doc steps)
               @ (if mounts \<noteq> [] then line (tab @ ''With the following items mounted:'') else [])
               @ concat ms))"
| "mount_doc remote name (SourceMount dest sp) =
    map_option (\<lambda>t. line (tab @ tab @ ''Destination Path: '' @ dest) @ indent t) (source_doc remote name sp)"
| "build_doc remote name (SourceBuild src dfpath tgt bargs) =
    map_option (\<lambda>t. line ''Generated from a docker build:''
        @ line (tab @ ''Docker Build Target: '' @ tgt)
        @ indent t
        @ env_doc (tab @ tab) bargs
        @ line (tab @ ''Dockerfile path in context: '' @ (if dfpath \<noteq> [] then dfpath else ''Dockerfile'')))
      (source_doc remote name src)"

text \<open>\<open>Source.Doc\<close>.\<close>

definition Source_Doc_text :: "(string \<Rightarrow> string option) \<Rightarrow> source \<Rightarrow> string \<Rightarrow> string option" where
  "Source_Doc_text remote s name =
    map_option (\<lambda>t. t @ (if s_Path s \<noteq> [] then line (tab @ ''Extracted path: '' @ s_Path s) else []))
      (source_doc remote name s)"

section \<open>Lemmas\<close>

lemma TrimSuffix_subset: "set (TrimSuffix s p) \<subseteq> set s"
  by (auto simp: TrimSuffix_def dest: in_set_takeD)

lemma scan_lines_no_newline: "l \<in> set (scan_lines s) \<Longrightarrow> CHR 0x0A \<notin> set l"
proof -
  assume "l \<in> set (scan_lines s)"
  then obtain w where "w \<in> set (split_on (CHR 0x0A) s)" and "l = drop_cr w"
    by (auto simp: scan_lines_def Let_def split: if_splits dest: in_set_butlastD)
  then show ?thesis
    using split_on_no_delim TrimSuffix_subset unfolding drop_cr_def by blast
qed

end
