(* ===== verification/Artifacts.thy ===== *)
theory Artifacts
  imports Deps Source_Doc
begin

text \<open>
  The artifact helpers of artifacts.go, systemd.go, spec.go and generator_*.go that the package
  writers use, the sorted traversal of a map, and the path lemmas that relate the place where an
  artifact is installed to the place where the package lists it.
\<close>

section \<open>Artifact helpers\<close>

definition ResolveName :: "artifactConfig \<Rightarrow> string \<Rightarrow> string" where
  "ResolveName a path = (if ac_Name a \<noteq> [] then ac_Name a else Base path)"

definition unit_Artifact :: "systemdUnitConfig \<Rightarrow> artifactConfig" where
  "unit_Artifact s = \<lparr>ac_SubPath = [], ac_Name = su_Name s, ac_Permissions = 0, ac_User = [], ac_Group = []\<rparr>"

definition unit_ResolveName :: "systemdUnitConfig \<Rightarrow> string \<Rightarrow> string" where
  "unit_ResolveName s name = ResolveName (unit_Artifact s) name"

definition unit_SplitName :: "systemdUnitConfig \<Rightarrow> string \<Rightarrow> string \<times> string" where
  "unit_SplitName s name = (case Cut (unit_ResolveName s name) ''.'' of (base, other, _) \<Rightarrow> (base, other))"

definition dropin_Artifact :: "systemdDropinConfig \<Rightarrow> artifactConfig" where
  "dropin_Artifact s =
    \<lparr>ac_SubPath = sd_Unit s @ ''.d'', ac_Name = sd_Name s, ac_Permissions = 0, ac_User = [], ac_Group = []\<rparr>"

text \<open>The getters of \<open>CreateArtifactDirectories\<close> and \<open>SystemdConfiguration\<close> accept a nil receiver.\<close>

definition GetConfig :: "createArtifactDirectories option \<Rightarrow> artifactDirConfig gomap" where
  "GetConfig d = (case d of None \<Rightarrow> [] | Some ds \<Rightarrow> cad_Config ds)"

definition GetState :: "createArtifactDirectories option \<Rightarrow> artifactDirConfig gomap" where
  "GetState d = (case d of None \<Rightarrow> [] | Some ds \<Rightarrow> cad_State ds)"

definition GetUnits :: "systemdConfiguration option \<Rightarrow> systemdUnitConfig gomap" where
  "GetUnits s = (case s of None \<Rightarrow> [] | Some c \<Rightarrow> sc_Units c)"

definition GetDropins :: "systemdConfiguration option \<Rightarrow> systemdDropinConfig gomap" where
  "GetDropins s = (case s of None \<Rightarrow> [] | Some c \<Rightarrow> sc_Dropins c)"

definition systemd_IsEmpty :: "systemdConfiguration option \<Rightarrow> bool" where
  "systemd_IsEmpty s = (case s of None \<Rightarrow> True | Some c \<Rightarrow> sc_Units c = [])"

definition EnabledUnits :: "systemdConfiguration \<Rightarrow> systemdUnitConfig gomap" where
  "EnabledUnits s = filter (\<lambda>(p, u). su_Enable u) (sc_Units s)"

definition artifacts_IsEmpty :: "artifacts \<Rightarrow> bool" where
  "artifacts_IsEmpty a =
    (a_Binaries a = [] \<and> a_Manpages a = []
     \<and> (case a_Directories a of None \<Rightarrow> True | Some d \<Rightarrow> cad_Config d = [] \<and> cad_State d = [])
     \<and> a_DataDirs a = [] \<and> a_ConfigFiles a = []
     \<and> (case a_Systemd a of None \<Rightarrow> True | Some s \<Rightarrow> sc_Units s = [] \<and> sc_Dropins s = [])
     \<and> a_Docs a = [] \<and> a_Licenses a = [] \<and> a_Libs a = [] \<and> a_Links a = [] \<and> a_Headers a = [])"

definition HasDocs :: "artifacts \<Rightarrow> bool" where
  "HasDocs a = (a_Docs a \<noteq> [] \<or> a_Manpages a \<noteq> [])"

definition isGomod :: "source \<Rightarrow> bool" where
  "isGomod s = list_ex (\<lambda>g. gen_Gomod g \<noteq> None) (s_Generate s)"

definition isCargohome :: "source \<Rightarrow> bool" where
  "isCargohome s = list_ex (\<lambda>g. gen_Cargohome g \<noteq> None) (s_Generate s)"

definition isPip :: "source \<Rightarrow> bool" where
  "isPip s = list_ex (\<lambda>g. gen_Pip g \<noteq> None) (s_Generate s)"

definition isNodeMod :: "source \<Rightarrow> bool" where
  "isNodeMod s = list_ex (\<lambda>g. gen_NodeMod g \<noteq> None) (s_Generate s)"

definition HasGomods :: "spec \<Rightarrow> bool" where
  "HasGomods sp = list_ex (\<lambda>(k, s). isGomod s) (sp_Sources sp)"

definition HasCargohomes :: "spec \<Rightarrow> bool" where
  "HasCargohomes sp = list_ex (\<lambda>(k, s). isCargohome s) (sp_Sources sp)"

definition HasPips :: "spec \<Rightarrow> bool" where
  "HasPips sp = list_ex (\<lambda>(k, s). isPip s) (sp_Sources sp)"

definition HasNodeMods :: "spec \<Rightarrow> bool" where
  "HasNodeMods sp = list_ex (\<lambda>(k, s). isNodeMod s) (sp_Sources sp)"

section \<open>Sorted traversal\<close>

lemma sorted_entries_set:
  "wf_map m \<Longrightarrow> set (sorted_entries m) = set m"
proof -
  assume wf: "wf_map m"
  have "(k, the (map_of m k)) \<in> set m" if "k \<in> fst ` set m" for k
    using that wf by (metis map_of_SomeD option.exhaust_sel map_of_eq_None_iff)
  moreover have "(k, v) = (k, the (map_of m k))" if "(k, v) \<in> set m" for k v
    using that wf by (simp add: wf_map_def)
  ultimately show ?thesis
    by (force simp: sorted_entries_def image_iff)
qed

lemma sorted_entries_perm:
  "wf_map m \<Longrightarrow> mset m = mset m' \<Longrightarrow> sorted_entries m = sorted_entries m'"
  unfolding sorted_entries_def using map_of_perm SortMapKeys_perm by metis

lemma sorted_entries_Nil [simp]: "sorted_entries [] = []"
  by (simp add: sorted_entries_def SortMapKeys_def)

text \<open>
  The contract of a writer that traverses a map through its sorted keys: its output is a function of
  the sorted entries.  Then the iteration order of the map cannot show in the output.
\<close>

locale sorted_writer =
  fixes render :: "'v gomap \<Rightarrow> 'o"
  assumes sorted_only: "sorted_entries m = sorted_entries m' \<Longrightarrow> render m = render m'"
begin

lemma order_irrelevant: "wf_map m \<Longrightarrow> mset m = mset m' \<Longrightarrow> render m = render m'"
  by (intro sorted_only sorted_entries_perm)

end

section \<open>Paths without parent elements\<close>

definition no_dots :: "string \<Rightarrow> bool" where
  "no_dots p = (''..'' \<notin> set (path_elems p))"

lemma split_on_append_any: "split_on d (x @ d # s) = split_on d x @ split_on d s"
  by (induction x) (auto split: list.splits)

lemma path_elems_append: "path_elems (x @ slash # s) = path_elems x @ path_elems s"
  by (simp add: path_elems_def split_on_append_any)

lemma path_elems_Nil [simp]: "path_elems [] = []"
  by (simp add: path_elems_def)

lemma path_elems_join_all: "path_elems (join_with [slash] ys) = concat (map path_elems ys)"
  by (induction "[slash]" ys rule: join_with.induct) (simp_all add: path_elems_append)

lemma is_rooted_join_Cons: "a \<noteq> [] \<Longrightarrow> is_rooted (join_with [slash] (a # xs)) = is_rooted a"
  by (cases xs; cases a) (auto simp: is_rooted_def)

lemma concat_path_elems_proper: "list_all proper_elem (concat (map path_elems xs))"
  using path_elems_proper by (fastforce simp: list_all_iff)

lemma Join_no_dots:
  assumes "a \<noteq> []" and "\<not> is_rooted a" and "path_elems a \<noteq> []" and "list_all no_dots (a # xs)"
  shows "Join (a # xs) = join_with [slash] (concat (map path_elems (a # xs)))"
proof -
  let ?es = "concat (map path_elems (a # xs))"
  have "''..'' \<notin> set ?es"
    using assms(4) by (auto simp: no_dots_def list_all_iff)
  then have "clean_form False ?es"
    using concat_path_elems_proper [of "a # xs"] by (simp add: clean_form_def dots_in_front_no_dots)
  then have fold: "foldl (clean_step False) [] ?es = ?es"
    using foldl_clean_step_id [of False "[]" ?es] by simp
  have "is_rooted (join_with [slash] (a # xs)) = False"
    using assms(1,2) is_rooted_join_Cons by simp
  then have "clean_elems (join_with [slash] (a # xs)) = ?es"
    unfolding clean_elems_def path_elems_join_all using fold by simp
  then show ?thesis
    using assms(1-3) by (simp add: Join_def Clean_def path_string_def is_rooted_join_Cons del: join_with.simps)
qed

lemma Join_rooted:
  assumes "is_rooted a" and "list_all no_dots (a # xs)"
  shows "Join (a # xs) = slash # join_with [slash] (concat (map path_elems (a # xs)))"
proof -
  let ?es = "concat (map path_elems (a # xs))"
  have ne: "a \<noteq> []" using assms(1) by (auto simp: is_rooted_def)
  have "clean_form True ?es"
    using concat_path_elems_proper [of "a # xs"] assms(2)
    by (auto simp: clean_form_def no_dots_def list_all_iff intro!: dots_in_front_no_dots)
  then have fold: "foldl (clean_step True) [] ?es = ?es"
    using foldl_clean_step_id [of True "[]" ?es] by simp
  have root: "is_rooted (join_with [slash] (a # xs))"
    using assms(1) is_rooted_join_Cons [OF ne] by simp
  then have "clean_elems (join_with [slash] (a # xs)) = ?es"
    unfolding clean_elems_def path_elems_join_all using fold by simp
  with root ne show ?thesis
    by (simp add: Join_def Clean_def path_string_def del: join_with.simps)
qed

lemma path_elems_Join_rooted:
  assumes "is_rooted a" and "list_all no_dots (a # xs)"
  shows "path_elems (Join (a # xs)) = concat (map path_elems (a # xs))" and "no_dots (Join (a # xs))"
    and "is_rooted (Join (a # xs))"
proof -
  show es: "path_elems (Join (a # xs)) = concat (map path_elems (a # xs))"
    unfolding Join_rooted [OF assms] path_elems_slash by (rule path_elems_join [OF concat_path_elems_proper])
  show "no_dots (Join (a # xs))"
    using assms(2) unfolding no_dots_def es by (auto simp: list_all_iff no_dots_def)
  show "is_rooted (Join (a # xs))"
    unfolding Join_rooted [OF assms] by (simp add: is_rooted_def)
qed

lemma no_dots_join: "list_all no_dots xs \<Longrightarrow> no_dots (join_with [slash] (concat (map path_elems xs)))"
  using path_elems_join [OF concat_path_elems_proper [of xs]]
  by (auto simp: no_dots_def list_all_iff)

text \<open>
  Joining step by step below a directory is joining at once below the directory's name.
\<close>

lemma Join_below:
  assumes "proper_elem b" and "b \<noteq> ''..''" and "proper_elem r" and "r \<noteq> ''..''" and "list_all no_dots [sub, file]"
  shows "Join [Join [b @ ''/'' @ r, sub], file] = b @ ''/'' @ Join [r, sub, file]"
proof -
  have one: "path_elems x = [x]" if "proper_elem x" for x
    using path_elems_join [of "[x]"] that by simp
  have br: "path_elems (b @ ''/'' @ r) = [b, r]"
    using one [OF assms(1)] one [OF assms(3)] path_elems_append [of b r] by simp
  have rooted: "\<not> is_rooted (b @ y)" "\<not> is_rooted (r @ y)" for y
    using assms(1,3) by (cases b; cases r; auto simp: is_rooted_def proper_elem_def)+
  have ne: "b \<noteq> []" "r \<noteq> []" using assms(1,3) by (auto simp: proper_elem_def)
  have nd: "no_dots (b @ ''/'' @ r)" "no_dots r"
    using br one [OF assms(3)] assms(2,4) by (auto simp: no_dots_def)
  have inner: "Join [b @ ''/'' @ r, sub] = join_with [slash] (b # r # path_elems sub)"
    using Join_no_dots [of "b @ ''/'' @ r" "[sub]"] rooted(1) [of "''/'' @ r"] nd assms(5) br ne by simp
  have es: "path_elems (join_with [slash] (b # r # path_elems sub)) = b # r # path_elems sub"
    using path_elems_join [of "b # r # path_elems sub"] assms(1,3) path_elems_proper by simp
  have nd2: "no_dots (join_with [slash] (b # r # path_elems sub))"
    using es assms(2,4,5) by (auto simp: no_dots_def)
  have root2: "\<not> is_rooted (join_with [slash] (b # r # path_elems sub))"
    using is_rooted_join_Cons [OF ne(1), of "r # path_elems sub"] rooted(1) [of "[]"] by simp
  have "Join [Join [b @ ''/'' @ r, sub], file] = join_with [slash] (b # r # path_elems sub @ path_elems file)"
    unfolding inner
    using Join_no_dots [of "join_with [slash] (b # r # path_elems sub)" "[file]"] es nd2 root2 assms(5) ne
    by (simp del: join_with.simps) (cases "path_elems sub"; simp)
  moreover have "Join [r, sub, file] = join_with [slash] (r # path_elems sub @ path_elems file)"
    using Join_no_dots [of r "[sub, file]"] one [OF assms(3)] rooted(2) [of "[]"] nd assms(5) ne by simp
  ultimately show ?thesis by simp
qed

end
