(* ===== verification/Writers.thy ===== *)
theory Writers
  imports Artifacts
begin

text \<open>
  What the writers of package files share: text made of lines, the traversal of a map through its
  sorted keys, calendar dates, and the lemmas on complete lines and on the iteration order of maps.
\<close>

abbreviation sq :: string where "sq \<equiv> [CHR 0x27]"

definition lines_text :: "string list \<Rightarrow> string" where
  "lines_text ls = concat (map line ls)"

definition for_sorted :: "(string \<Rightarrow> 'v \<Rightarrow> string list) \<Rightarrow> 'v gomap \<Rightarrow> string list" where
  "for_sorted f m = concat (map (\<lambda>(k, v). f k v) (sorted_entries m))"

text \<open>
  The shell lines that install pip dependencies from the unpacked cache \<open>name\<close>; the build scripts of
  all three package formats carry them.
\<close>

definition pip_setup :: "string \<Rightarrow> string list" where
  \<open>pip_setup name =
    [''# Set up pip environment'',
     ''export PIP_CACHE_DIR="$(pwd)/'' @ name @ ''"'',
     [],
     ''# Install pip dependencies from cache'',
     ''for reqfile in $(find . -name '' @ sq @ ''requirements*.txt'' @ sq @ '' -o -name '' @ sq @ ''pyproject.toml'' @ sq
       @ '' -o -name '' @ sq @ ''setup.py'' @ sq @ ''); do'',
     ''  if [ -f "$reqfile" ]; then'',
     ''    reqdir=$(dirname "$reqfile")'',
     ''    mkdir -p "$reqdir/site-packages"'',
     ''    case "$reqfile" in'',
     ''      *.txt) python3 -m pip install --target="$reqdir/site-packages" --find-links="${PIP_CACHE_DIR}" --no-index --requirement="$reqfile" 2>/dev/null || python3 -m pip install --target="$reqdir/site-packages" --find-links="${PIP_CACHE_DIR}" --no-index --requirement="$reqfile" ;;'',
     ''      *) (cd "$reqdir" && python3 -m pip install --target=site-packages --find-links="${PIP_CACHE_DIR}" --no-index . 2>/dev/null || python3 -m pip install --target=site-packages --find-links="${PIP_CACHE_DIR}" --no-index .) ;;'',
     ''    esac'',
     ''    export PYTHONPATH="$reqdir/site-packages:${PYTHONPATH}"'',
     ''  fi'',
     ''done'',
     []]\<close>

definition list_of :: "packageDependencyList option \<Rightarrow> packageDependencyList" where
  "list_of d = (case d of None \<Rightarrow> [] | Some x \<Rightarrow> x)"

text \<open>\<open>strconv.Atoi\<close> of one character succeeds on a digit.\<close>

definition is_digit :: "char \<Rightarrow> bool" where
  "is_digit c = (48 \<le> (of_char c :: nat) \<and> (of_char c :: nat) \<le> 57)"

section \<open>Dates\<close>

text \<open>The weekday of a date, by counting days from a Monday (the year 1 starts with one).\<close>

definition leap :: "nat \<Rightarrow> bool" where
  "leap y = (4 dvd y \<and> (\<not> 100 dvd y \<or> 400 dvd y))"

definition month_days :: "nat \<Rightarrow> nat list" where
  "month_days y = [31, (if leap y then 29 else 28), 31, 30, 31, 30, 31, 31, 30, 31, 30, 31]"

definition day_number :: "date \<Rightarrow> nat" where
  "day_number dt =
    (case dt of (y, m, d) \<Rightarrow>
       365 * (y - 1) + (y - 1) div 4 - (y - 1) div 100 + (y - 1) div 400
       + sum_list (take (m - 1) (month_days y)) + (d - 1))"

definition weekday_names :: "string list" where
  "weekday_names = [''Mon'', ''Tue'', ''Wed'', ''Thu'', ''Fri'', ''Sat'', ''Sun'']"

definition month_names :: "string list" where
  "month_names = [''Jan'', ''Feb'', ''Mar'', ''Apr'', ''May'', ''Jun'', ''Jul'', ''Aug'', ''Sep'', ''Oct'', ''Nov'', ''Dec'']"

definition pad4 :: "string \<Rightarrow> string" where
  "pad4 s = replicate (4 - length s) (CHR ''0'') @ s"

section \<open>Complete lines\<close>

definition complete :: "string \<Rightarrow> bool" where
  "complete t = (t = [] \<or> last t = CHR 0x0A)"

lemma complete_Nil [simp]: "complete []"
  by (simp add: complete_def)

lemma complete_append [simp]: "complete s \<Longrightarrow> complete t \<Longrightarrow> complete (s @ t)"
  by (cases t) (auto simp: complete_def)

lemma complete_suffix [simp]: "complete t \<Longrightarrow> t \<noteq> [] \<Longrightarrow> complete (s @ t)"
  by (simp add: complete_def)

lemma complete_nl [simp]: "complete (s @ nl)"
  by (simp add: complete_def)

lemma complete_concat: "list_all complete ts \<Longrightarrow> complete (concat ts)"
  by (induction ts) auto

lemma complete_line [simp]: "complete (line s)"
  by (simp add: line_def)

lemma complete_lines_text [simp]: "complete (lines_text ls)"
  unfolding lines_text_def by (rule complete_concat) (simp add: list_all_iff)

lemma complete_nl_alone [simp]: "complete nl"
  by (simp add: complete_def)

lemma complete_concat_map: "(\<And>x. complete (f x)) \<Longrightarrow> complete (concat (map f xs))"
  by (rule complete_concat) (simp add: list_all_iff)

lemma complete_if [simp]: "complete a \<Longrightarrow> complete b \<Longrightarrow> complete (if c then a else b)"
  by simp

section \<open>Reading lines back\<close>

definition scannable :: "string \<Rightarrow> bool" where
  "scannable l = (CHR 0x0A \<notin> set l \<and> (l = [] \<or> last l \<noteq> CHR 0x0D))"

lemma drop_cr_scannable: "scannable l \<Longrightarrow> drop_cr l = l"
  by (cases l rule: rev_cases) (auto simp: scannable_def drop_cr_def TrimSuffix_def HasSuffix_def)

lemma split_on_lines_text:
  "\<forall>l \<in> set ls. CHR 0x0A \<notin> set l \<Longrightarrow> split_on (CHR 0x0A) (lines_text ls) = ls @ [[]]"
  by (induction ls) (simp_all add: lines_text_def line_def split_on_append)

lemma scan_lines_lines_text: "\<forall>l \<in> set ls. scannable l \<Longrightarrow> scan_lines (lines_text ls) = ls"
proof -
  assume a: "\<forall>l \<in> set ls. scannable l"
  then have "split_on (CHR 0x0A) (lines_text ls) = ls @ [[]]"
    by (intro split_on_lines_text) (simp add: scannable_def)
  then show ?thesis using a by (simp add: scan_lines_def Let_def map_idI drop_cr_scannable)
qed

lemma digit_not_newline: "d < 10 \<Longrightarrow> digit_char d \<noteq> CHR 0x0A"
proof -
  assume "d < 10"
  then have d: "(of_char (digit_char d) :: nat) = 48 + d" by (simp add: digit_char_def)
  show ?thesis
  proof
    assume "digit_char d = CHR 0x0A"
    with d show False by simp
  qed
qed

lemma nat_base_no_newline: "CHR 0x0A \<notin> set (nat_base 10 n)"
proof (induction "10 :: nat" n rule: nat_base.induct)
  case (1 n)
  show ?case
    using 1 digit_not_newline [of n] digit_not_newline [of "n mod 10"]
    by (subst nat_base.simps) auto
qed

section \<open>Traversals\<close>

lemma map_option_SomeE: "map_option f x = Some y \<Longrightarrow> (\<And>z. x = Some z \<Longrightarrow> y = f z \<Longrightarrow> P) \<Longrightarrow> P"
  by (cases x) auto

lemma enumerate_mem: "(i, x) \<in> set (enumerate n xs) \<Longrightarrow> x \<in> set xs"
  by (induction xs arbitrary: n) auto

lemma sorted_entries_keys: "fst ` set (sorted_entries m) = fst ` set m"
  by (force simp: sorted_entries_def image_iff)

lemma those_map_mem: "those (map f xs) = Some ys \<Longrightarrow> y \<in> set ys \<Longrightarrow> \<exists>x \<in> set xs. f x = Some y"
  by (induction xs arbitrary: ys) (auto split: option.splits)

lemma for_sorted_mem:
  "wf_map m \<Longrightarrow> x \<in> set (for_sorted f m) \<longleftrightarrow> (\<exists>k v. (k, v) \<in> set m \<and> x \<in> set (f k v))"
  unfolding for_sorted_def by (simp add: sorted_entries_set split_beta) (metis prod.collapse fst_conv snd_conv)

section \<open>Map order\<close>

definition same_map :: "'v gomap \<Rightarrow> 'v gomap \<Rightarrow> bool" where
  "same_map m m' = (wf_map m \<and> mset m = mset m')"

lemma for_sorted_only: "sorted_entries m = sorted_entries m' \<Longrightarrow> for_sorted f m = for_sorted f m'"
  by (simp add: for_sorted_def)

lemma same_map_vals: "same_map m m' \<Longrightarrow> same_map (map_vals f m) (map_vals f m')"
  by (simp add: same_map_def) (simp add: map_vals_def)

lemma same_map_Nil: "same_map m m' \<Longrightarrow> m = [] \<longleftrightarrow> m' = []"
  by (auto simp: same_map_def)

lemma same_for_sorted: "same_map m m' \<Longrightarrow> for_sorted f m = for_sorted f m'"
  unfolding same_map_def by (intro for_sorted_only sorted_entries_perm) auto

end
