(* ===== verification/Rpm.thy ===== *)
theory Rpm
  imports Writers
begin

text \<open>
  The rpm spec file writer (packaging/linux/rpm/template.go).  Every method of \<open>specWrapper\<close> is a
  function that returns the text it writes; a section made of lines is the list of its lines,
  joined by \<open>lines_text\<close>.  A nil pointer that the code dereferences (a patch without a strip count,
  a source without a variant) panics inside the template engine, which turns the panic into the
  error of \<open>WriteSpec\<close>: the result \<^term>\<open>None\<close>.
\<close>

section \<open>Header fields\<close>

definition optionalField :: "string \<Rightarrow> string \<Rightarrow> string" where
  "optionalField key val = (if val = [] then [] else key @ '': '' @ val @ nl)"

definition Release :: "spec \<Rightarrow> string" where
  "Release sp = (if sp_Revision sp = [] then ''1'' else sp_Revision sp)"

definition DisableStrip :: "spec \<Rightarrow> string \<Rightarrow> string" where
  "DisableStrip sp target = (if a_DisableStrip (GetArtifacts sp target) then ''%global __strip /bin/true'' else [])"

definition DisableAutoReq :: "spec \<Rightarrow> string \<Rightarrow> string" where
  "DisableAutoReq sp target = (if a_DisableAutoRequires (GetArtifacts sp target) then ''AutoReq: no'' else [])"

section \<open>Dependencies\<close>

definition FormatVersionConstraint :: "string \<Rightarrow> string" where
  "FormatVersionConstraint v =
    (case Cut v '' '' of (pre, suf, ok) \<Rightarrow>
       if \<not> ok then (case pre of [] \<Rightarrow> v | c # _ \<Rightarrow> if is_digit c then ''== '' @ v else v)
       else if pre = ''<<'' then ''< '' @ suf
       else if pre = ''>>'' then ''> '' @ suf
       else if pre = ''='' then ''== '' @ suf
       else v)"

definition dep_lines :: "string \<Rightarrow> string \<Rightarrow> packageConstraints \<Rightarrow> string list" where
  "dep_lines kind name c =
    (if pc_Version c = [] then [kind @ '': '' @ name]
     else map (\<lambda>v. kind @ '': '' @ name @ '' '' @ FormatVersionConstraint v) (pc_Version c))"

definition writeDep :: "string \<Rightarrow> string \<Rightarrow> packageConstraints \<Rightarrow> string list" where
  "writeDep kind name c =
    (if pc_Arch c = [] then dep_lines kind name c
     else concat (map (\<lambda>arch. [''%ifarch '' @ arch] @ dep_lines kind name c @ [''%endif'']) (pc_Arch c)))"

definition write_deps :: "string \<Rightarrow> packageDependencyList \<Rightarrow> string list" where
  "write_deps kind deps = for_sorted (writeDep kind) deps"

definition Provides :: "spec \<Rightarrow> string \<Rightarrow> string" where
  "Provides sp target =
    (let deps = list_of (GetProvides sp target)
     in if deps = [] then [] else lines_text (write_deps ''Provides'' deps) @ nl)"

definition Replaces :: "spec \<Rightarrow> string \<Rightarrow> string" where
  "Replaces sp target = lines_text (write_deps ''Obsoletes'' (list_of (GetReplaces sp target)))"

definition Conflicts :: "spec \<Rightarrow> string \<Rightarrow> string" where
  "Conflicts sp target =
    (let deps = list_of (GetConflicts sp target)
     in if deps = [] then [] else lines_text (write_deps ''Conflicts'' deps) @ nl)"

definition getSystemdRequires :: "systemdConfiguration option \<Rightarrow> string" where
  "getSystemdRequires cfg =
    (if systemd_IsEmpty cfg then []
     else
       let enabled = (EnabledUnits (the cfg) \<noteq> [])
       in lines_text ((if enabled then [''Requires(post): systemd''] else [])
            @ [''Requires(preun): systemd'', ''Requires(postun): systemd'']
            @ (if enabled then [''OrderWithRequires(post): systemd''] else [])
            @ [''OrderWithRequires(preun): systemd'', ''OrderWithRequires(postun): systemd'']))"

definition getUserPostRequires :: "string list \<Rightarrow> string list \<Rightarrow> string" where
  "getUserPostRequires users groups =
    lines_text ((if users \<noteq> [] then [''Requires(post): /usr/sbin/adduser, /usr/bin/getent''] else [])
      @ (if groups \<noteq> [] then [''Requires(post): /usr/sbin/groupadd, /usr/bin/getent''] else []))"

definition Requires :: "spec \<Rightarrow> string \<Rightarrow> string" where
  "Requires sp target =
    (let a = GetArtifacts sp target;
         deps = GetPackageDeps sp target;
         buildDeps = GetDep pd_Build deps;
         runtimeDeps = GetDep pd_Runtime deps
     in getSystemdRequires (a_Systemd a) @ getUserPostRequires (a_Users a) (a_Groups a)
        @ (if buildDeps = [] \<and> runtimeDeps = [] then []
           else lines_text (write_deps ''BuildRequires'' buildDeps)
             @ (if buildDeps \<noteq> [] \<and> runtimeDeps \<noteq> [] then nl else [])
             @ lines_text (write_deps ''Requires'' runtimeDeps) @ nl))"

definition Recommends :: "spec \<Rightarrow> string \<Rightarrow> string" where
  "Recommends sp target =
    (let deps = GetDep pd_Recommends (GetPackageDeps sp target)
     in if deps = [] then [] else lines_text (write_deps ''Recommends'' deps) @ nl)"

section \<open>Sources and preparation\<close>

definition gomodsName :: string where "gomodsName = ''__gomods''"
definition cargohomeName :: string where "cargohomeName = ''__cargohome''"
definition pipDepsName :: string where "pipDepsName = ''__pipdeps''"
definition buildScriptName :: string where "buildScriptName = ''build.sh''"

text \<open>The lines of one source; \<open>remote\<close> as in \<open>Source_Doc_text\<close>.\<close>

definition source_ref :: "string \<Rightarrow> bool \<Rightarrow> string" where
  "source_ref name isDir = (if isDir then name @ ''.tar.gz'' else name)"

definition comment_lines :: "string \<Rightarrow> string list" where
  "comment_lines doc = map (\<lambda>l. ''# '' @ l) (scan_lines doc)"

definition source_line :: "nat \<Rightarrow> string \<Rightarrow> string" where
  "source_line idx ref = ''Source'' @ nat_str idx @ '': '' @ ref"

definition source_entry :: "(string \<Rightarrow> string option) \<Rightarrow> nat \<times> string \<times> source \<Rightarrow> string list option" where
  "source_entry remote e =
    (case e of (idx, name, src) \<Rightarrow>
       (case SourceIsDir src of
          None \<Rightarrow> None
        | Some isDir \<Rightarrow>
            map_option (\<lambda>doc. comment_lines doc @ [source_line idx (source_ref name isDir)])
              (Source_Doc_text remote src name)))"

definition extra_refs :: "spec \<Rightarrow> string list" where
  "extra_refs sp =
    (if HasGomods sp then [gomodsName @ ''.tar.gz''] else [])
    @ (if HasCargohomes sp then [cargohomeName @ ''.tar.gz''] else [])
    @ (if ab_Steps (sp_Build sp) \<noteq> [] then [buildScriptName] else [])"

definition source_lines :: "(string \<Rightarrow> string option) \<Rightarrow> spec \<Rightarrow> string list option" where
  "source_lines remote sp =
    (let es = sorted_entries (sp_Sources sp)
     in case those (map (source_entry remote) (enumerate 0 es)) of
          None \<Rightarrow> None
        | Some lss \<Rightarrow>
            Some (concat lss @ map (\<lambda>(i, ref). source_line i ref) (enumerate (length es) (extra_refs sp))))"

definition rpm_Sources :: "(string \<Rightarrow> string option) \<Rightarrow> spec \<Rightarrow> string option" where
  "rpm_Sources remote sp =
    map_option (\<lambda>ls. lines_text ls @ (if sp_Sources sp \<noteq> [] then nl else [])) (source_lines remote sp)"

definition untar_generated :: "string \<Rightarrow> string list" where
  "untar_generated name =
    [''mkdir -p '' @ dq @ ''%{_builddir}/'' @ name @ dq,
     ''tar -C '' @ dq @ ''%{_builddir}/'' @ name @ dq @ '' -xzf '' @ dq @ ''%{_sourcedir}/'' @ name @ ''.tar.gz'' @ dq]"

definition prepareGenerators :: "spec \<Rightarrow> string list" where
  "prepareGenerators sp =
    (if HasGomods sp then untar_generated gomodsName else [])
    @ (if HasCargohomes sp then untar_generated cargohomeName else [])
    @ (if HasPips sp then untar_generated pipDepsName else [])"

definition extract_line :: "string \<times> source \<Rightarrow> string option" where
  "extract_line e =
    map_option (\<lambda>d. if d
        then ''tar -C '' @ dq @ ''%{_builddir}/'' @ dq @ '' -xzf '' @ dq @ ''%{_sourcedir}/'' @ fst e @ ''.tar.gz'' @ dq
        else ''cp -a '' @ dq @ ''%{_sourcedir}/'' @ fst e @ dq @ '' .'')
      (SourceIsDir (snd e))"

definition patch_line :: "string \<Rightarrow> patchSpec \<Rightarrow> string option" where
  "patch_line key p =
    map_option (\<lambda>strip. ''patch -d '' @ Quote key @ '' -p'' @ Itoa strip @ '' -s --input '' @ dq
        @ ''%{_builddir}/'' @ Join [p_Source p, p_Path p] @ dq)
      (p_Strip p)"

definition PrepareSources :: "spec \<Rightarrow> string option" where
  "PrepareSources sp =
    (if sp_Sources sp = [] then Some []
     else
       case those (map extract_line (sorted_entries (sp_Sources sp))) of
         None \<Rightarrow> None
       | Some ex \<Rightarrow>
           (case those (concat (map (\<lambda>(k, ps). map (patch_line k) ps) (sorted_entries (sp_Patches sp)))) of
              None \<Rightarrow> None
            | Some ps \<Rightarrow> Some (lines_text ([''%prep''] @ ex @ prepareGenerators sp @ ps) @ nl)))"

definition writeStep :: "buildStep \<Rightarrow> string" where
  "writeStep st =
    line ''('' @ lines_text (for_sorted (\<lambda>k v. [''export '' @ k @ ''='' @ dq @ v @ dq]) (step_Env st))
    @ step_Command st @ line '')''"

definition BuildSteps :: "spec \<Rightarrow> string" where
  "BuildSteps sp =
    (if ab_Steps (sp_Build sp) = [] then []
     else lines_text [''%build'', ''%{_sourcedir}/'' @ buildScriptName] @ nl)"

section \<open>Scriptlets\<close>

definition systemdPreUnScript :: "string \<Rightarrow> systemdUnitConfig \<Rightarrow> string" where
  "systemdPreUnScript unitName cfg =
    (if \<not> su_Enable cfg then []
     else lines_text [[], ''if [ $1 -eq 0 ]; then'', ''    # complete uninstallation'',
       ''    systemctl disable --now '' @ unitName, ''fi''])"

definition PreUn :: "spec \<Rightarrow> string \<Rightarrow> string" where
  "PreUn sp target =
    (case a_Systemd (GetArtifacts sp target) of
       None \<Rightarrow> []
     | Some sd \<Rightarrow>
         (if sc_Units sd = [] \<or> EnabledUnits sd = [] then []
          else line ''%preun''
            @ concat (map (\<lambda>(p, u). systemdPreUnScript (Base p) u) (sorted_entries (sc_Units sd)))))"

definition systemdPostScript :: "string \<Rightarrow> systemdUnitConfig \<Rightarrow> string" where
  "systemdPostScript unitName cfg =
    (if \<not> su_Enable cfg then []
     else lines_text [[], ''if [ $1 -eq 1 ]; then'', ''    # initial installation'',
       (if su_Start cfg then ''    systemctl enable --now '' @ unitName else ''    systemctl enable '' @ unitName),
       ''fi''])"

definition postSystemd :: "artifacts \<Rightarrow> string" where
  "postSystemd a =
    (case a_Systemd a of
       None \<Rightarrow> []
     | Some sd \<Rightarrow>
         (if sc_Units sd = [] \<or> EnabledUnits sd = [] then []
          else concat (map (\<lambda>k. let u = the (map_of (sc_Units sd) k)
                                 in systemdPostScript (ResolveName (unit_Artifact u) k) u)
                  (SortMapKeys (EnabledUnits sd)))))"

definition postUsers :: "artifacts \<Rightarrow> string" where
  "postUsers a = lines_text (map (\<lambda>u. ''getent passwd '' @ u @ '' >/dev/null || adduser '' @ u) (a_Users a))"

definition postGroups :: "artifacts \<Rightarrow> string" where
  "postGroups a = lines_text (map (\<lambda>g. ''getent group '' @ g @ '' >/dev/null || groupadd --system '' @ g) (a_Groups a))"

definition chown_lines :: "string \<Rightarrow> string \<Rightarrow> string \<Rightarrow> string list" where
  "chown_lines user grp path =
    (if user \<noteq> [] then [''chown -R '' @ user @ '' '' @ path] else [])
    @ (if grp \<noteq> [] then [''chgrp -R '' @ grp @ '' '' @ path] else [])"

definition getDirectoryOwnership :: "artifacts \<Rightarrow> string" where
  "getDirectoryOwnership a =
    (case a_Directories a of
       None \<Rightarrow> []
     | Some d \<Rightarrow>
         lines_text
           (for_sorted (\<lambda>p c. chown_lines (ad_User c) (ad_Group c) (Join [''/%{_sysconfdir}'', p])) (cad_Config d)
            @ for_sorted (\<lambda>p c. chown_lines (ad_User c) (ad_Group c) (Join [''/%{_sharedstatedir}'', p])) (cad_State d)))"

text \<open>The path an artifact is copied to: a directory when the name has a wildcard.\<close>

definition target_path :: "string \<Rightarrow> string \<Rightarrow> artifactConfig \<Rightarrow> string" where
  "target_path root p cfg =
    (let targetDir = Join [root, ac_SubPath cfg]; file = ResolveName cfg p
     in if \<not> Contains file ''*'' then Join [targetDir, file] else targetDir @ ''/'')"

definition own_artifacts :: "string \<Rightarrow> artifactConfig gomap \<Rightarrow> string list" where
  "own_artifacts root m = for_sorted (\<lambda>p cfg. chown_lines (ac_User cfg) (ac_Group cfg) (target_path root p cfg)) m"

definition getArtifactOwnership :: "artifacts \<Rightarrow> string" where
  "getArtifactOwnership a =
    lines_text (own_artifacts ''/%{_sysconfdir}'' (a_ConfigFiles a) @ own_artifacts ''/%{_datadir}'' (a_DataDirs a)
      @ own_artifacts ''/%{_libdir}'' (a_Libs a) @ own_artifacts ''/%{_bindir}'' (a_Binaries a))"

definition getSymlinkOwnership :: "artifacts \<Rightarrow> string" where
  "getSymlinkOwnership a =
    lines_text (concat (map (\<lambda>l.
        (if al_User l \<in> set (a_Users a) then [''chown -h '' @ al_User l @ '' '' @ al_Dest l] else [])
        @ (if al_Group l \<in> set (a_Groups a) then [''chgrp -h '' @ al_Group l @ '' '' @ al_Dest l] else []))
      (a_Links a)))"

definition Post :: "spec \<Rightarrow> string \<Rightarrow> string" where
  "Post sp target =
    (let a = GetArtifacts sp target;
         body = postSystemd a @ postUsers a @ postGroups a @ getSymlinkOwnership a @ getArtifactOwnership a
                @ getDirectoryOwnership a
     in if body = [] then [] else line ''%post'' @ body @ nl)"

definition PostUn :: "spec \<Rightarrow> string \<Rightarrow> string" where
  "PostUn sp target =
    (case a_Systemd (GetArtifacts sp target) of
       None \<Rightarrow> []
     | Some sd \<Rightarrow>
         (if sc_Units sd = [] then []
          else lines_text (''%postun'' #
            for_sorted (\<lambda>p u. [''%systemd_postun '' @ ResolveName (unit_Artifact u) p]) (sc_Units sd))))"

section \<open>Installation\<close>

definition copyArtifact :: "string \<Rightarrow> string \<Rightarrow> artifactConfig \<Rightarrow> string list" where
  "copyArtifact root p cfg =
    [''mkdir -p '' @ Join [root, ac_SubPath cfg], ''cp -r '' @ p @ '' '' @ target_path root p cfg]
    @ (if FileMode_Perm (ac_Permissions cfg) \<noteq> 0
       then [''chmod '' @ octal (ac_Permissions cfg) @ '' '' @ target_path root p cfg] else [])"

definition copy_all :: "string \<Rightarrow> artifactConfig gomap \<Rightarrow> string list" where
  "copy_all root m = for_sorted (copyArtifact root) m"

definition createArtifactDir :: "string \<Rightarrow> string \<Rightarrow> artifactDirConfig \<Rightarrow> string list" where
  "createArtifactDir root p cfg =
    [(if FileMode_Perm (ad_Mode cfg) \<noteq> 0 then ''mkdir -m '' @ octal (ad_Mode cfg) else ''mkdir'') @ '' -p '' @ Quote (Join [root, p])]"

definition install_dirs :: "createArtifactDirectories option \<Rightarrow> string list" where
  "install_dirs d =
    (case d of None \<Rightarrow> []
     | Some ds \<Rightarrow>
         for_sorted (createArtifactDir ''%{buildroot}/%{_sysconfdir}'') (cad_Config ds)
         @ for_sorted (createArtifactDir ''%{buildroot}/%{_sharedstatedir}'') (cad_State ds))"

definition install_systemd :: "systemdConfiguration option \<Rightarrow> string list" where
  "install_systemd s =
    (case s of None \<Rightarrow> []
     | Some sd \<Rightarrow>
         copy_all ''%{buildroot}/%{_unitdir}'' (map_vals (\<lambda>k u. unit_Artifact u) (sc_Units sd))
         @ copy_all ''%{buildroot}/%{_unitdir}'' (map_vals (\<lambda>k d. dropin_Artifact d) (sc_Dropins sd)))"

definition install_link :: "artifactSymlinkConfig \<Rightarrow> string list" where
  "install_link l =
    [''mkdir -p '' @ Dir (Join [''%{buildroot}'', al_Dest l]), ''ln -sf '' @ al_Source l @ '' %{buildroot}/'' @ al_Dest l]"

definition install_lines :: "artifacts \<Rightarrow> string \<Rightarrow> string list" where
  "install_lines a name =
    copy_all ''%{buildroot}/%{_bindir}'' (a_Binaries a)
    @ copy_all ''%{buildroot}/%{_mandir}'' (a_Manpages a)
    @ install_dirs (a_Directories a)
    @ copy_all ''%{buildroot}/%{_datadir}'' (a_DataDirs a)
    @ copy_all ''%{buildroot}/%{_libexecdir}'' (a_Libexec a)
    @ copy_all ''%{buildroot}/%{_sysconfdir}'' (a_ConfigFiles a)
    @ install_systemd (a_Systemd a)
    @ copy_all (Join [''%{buildroot}/%{_docdir}'', name]) (a_Docs a)
    @ copy_all (Join [''%{buildroot}/%{_licensedir}'', name]) (a_Licenses a)
    @ copy_all (Join [''%{buildroot}/%{_libdir}'']) (a_Libs a)
    @ concat (map install_link (a_Links a))
    @ copy_all ''%{buildroot}/%{_includedir}'' (a_Headers a)"

definition Install :: "spec \<Rightarrow> string \<Rightarrow> string" where
  "Install sp target = lines_text (''%install'' # install_lines (GetArtifacts sp target) (sp_Name sp)) @ nl"

section \<open>File list\<close>

definition list_artifacts :: "(string \<Rightarrow> string) \<Rightarrow> string list \<Rightarrow> artifactConfig gomap \<Rightarrow> string list" where
  "list_artifacts directive root m =
    for_sorted (\<lambda>p cfg. [directive (Join (root @ [ac_SubPath cfg, ResolveName cfg p]))]) m"

definition list_libexec :: "artifactConfig gomap \<Rightarrow> string list" where
  "list_libexec m =
    for_sorted (\<lambda>p cfg. [Join [Join [''%{_libexecdir}'', ac_SubPath cfg], ResolveName cfg p]]) m"

definition list_dirs :: "createArtifactDirectories option \<Rightarrow> string list" where
  "list_dirs d =
    (case d of None \<Rightarrow> []
     | Some ds \<Rightarrow>
         for_sorted (\<lambda>p c. [''%dir '' @ Join [''%{_sysconfdir}'', p]]) (cad_Config ds)
         @ for_sorted (\<lambda>p c. [''%dir '' @ Join [''%{_sharedstatedir}'', p]]) (cad_State ds))"

text \<open>The drop-in files grouped by unit, in the order of the sorted keys.\<close>

definition dropin_path :: "string \<Rightarrow> systemdDropinConfig \<Rightarrow> string" where
  "dropin_path d cfg = Join [''%{_unitdir}'', sd_Unit cfg @ ''.d'', ResolveName (dropin_Artifact cfg) d]"

definition dropin_group :: "string list gomap \<Rightarrow> string \<times> systemdDropinConfig \<Rightarrow> string list gomap" where
  "dropin_group groups e =
    (case e of (d, cfg) \<Rightarrow>
       mput (sd_Unit cfg)
         ((case map_of groups (sd_Unit cfg) of None \<Rightarrow> [] | Some fs \<Rightarrow> fs) @ [dropin_path d cfg]) groups)"

definition group_dropins :: "systemdDropinConfig gomap \<Rightarrow> string list gomap" where
  "group_dropins ds = foldl dropin_group [] (sorted_entries ds)"

definition list_systemd :: "systemdConfiguration option \<Rightarrow> string list" where
  "list_systemd s =
    (case s of None \<Rightarrow> []
     | Some sd \<Rightarrow>
         list_artifacts (\<lambda>x. x) [''%{_unitdir}/''] (map_vals (\<lambda>k u. unit_Artifact u) (sc_Units sd))
         @ for_sorted (\<lambda>u fs. (''%dir '' @ Join [''%{_unitdir}'', u @ ''.d'']) # fs) (group_dropins (sc_Dropins sd)))"

definition list_link :: "artifactSymlinkConfig \<Rightarrow> string" where
  "list_link l =
    (if al_User l \<noteq> [] \<or> al_Group l \<noteq> []
     then ''%attr(-, '' @ (if al_User l = [] then ''root'' else al_User l) @ '', ''
          @ (if al_Group l = [] then ''root'' else al_Group l) @ '') '' @ al_Dest l
     else al_Dest l)"

definition file_lines :: "artifacts \<Rightarrow> string \<Rightarrow> string list" where
  "file_lines a name =
    list_artifacts (\<lambda>x. x) [''%{_bindir}/''] (a_Binaries a)
    @ (if a_Manpages a \<noteq> [] then [''%{_mandir}/*/*''] else [])
    @ list_dirs (a_Directories a)
    @ list_artifacts (\<lambda>x. x) [''%{_datadir}''] (a_DataDirs a)
    @ list_libexec (a_Libexec a)
    @ list_artifacts (\<lambda>x. ''%config(noreplace) '' @ x) [''%{_sysconfdir}''] (a_ConfigFiles a)
    @ list_systemd (a_Systemd a)
    @ list_artifacts (\<lambda>x. ''%doc '' @ x) [''%{_docdir}'', name] (a_Docs a)
    @ list_artifacts (\<lambda>x. ''%license '' @ x) [''%{_licensedir}'', name] (a_Licenses a)
    @ list_artifacts (\<lambda>x. x) [''%{_libdir}''] (a_Libs a)
    @ map list_link (a_Links a)
    @ list_artifacts (\<lambda>x. x) [''%{_includedir}''] (a_Headers a)"

definition Files :: "spec \<Rightarrow> string \<Rightarrow> string" where
  "Files sp target = lines_text (''%files'' # file_lines (GetArtifacts sp target) (sp_Name sp)) @ nl"

section \<open>Changelog\<close>

text \<open>The layout \<open>Mon Jan 2 2006\<close>.\<close>

definition format_date :: "date \<Rightarrow> string" where
  "format_date dt =
    (case dt of (y, m, d) \<Rightarrow>
       weekday_names ! (day_number dt mod 7) @ '' '' @ month_names ! (m - 1) @ '' '' @ nat_str d @ '' '' @ pad4 (nat_str y))"

definition Changelog :: "spec \<Rightarrow> string" where
  "Changelog sp =
    (if sp_Changelog sp = [] then []
     else lines_text (''%changelog''
            # concat (map (\<lambda>e. (''* '' @ format_date (ce_Date e) @ '' '' @ ce_Author e) # map (\<lambda>c. ''- '' @ c) (ce_Changes e))
                (sp_Changelog sp))) @ nl)"

section \<open>The spec file\<close>

definition header_text :: "spec \<Rightarrow> string \<Rightarrow> string" where
  "header_text sp target =
    lines_text [DisableStrip sp target, ''Name: '' @ sp_Name sp, ''Version: '' @ sp_Version sp,
      ''Release: '' @ Release sp @ ''%{?dist}'', ''License: '' @ sp_License sp, ''Summary: '' @ sp_Description sp,
      DisableAutoReq sp target]
    @ optionalField ''URL'' (sp_Website sp) @ optionalField ''Vendor'' (sp_Vendor sp)
    @ optionalField ''Packager'' (sp_Packager sp)
    @ (if sp_NoArch sp then lines_text [[], ''BuildArch: noarch''] else [])"

definition WriteSpec :: "(string \<Rightarrow> string option) \<Rightarrow> spec \<Rightarrow> string \<Rightarrow> string option" where
  "WriteSpec remote sp target =
    (case rpm_Sources remote sp of
       None \<Rightarrow> None
     | Some srcs \<Rightarrow>
         (case PrepareSources sp of
            None \<Rightarrow> None
          | Some prep \<Rightarrow>
              Some (header_text sp target @ srcs @ Conflicts sp target @ Provides sp target @ Replaces sp target
                @ Requires sp target @ Recommends sp target
                @ lines_text [''%description'', sp_Description sp, []]
                @ prep @ BuildSteps sp @ Install sp target @ Post sp target @ PreUn sp target @ PostUn sp target
                @ Files sp target @ Changelog sp)))"

end
