(* ===== verification/Rpm_Props.thy ===== *)
theory Rpm_Props
  imports Rpm Load_Props
begin

text \<open>
  Lemmas on the rpm spec writer: every part consists of complete lines, the description of a source
  cannot leave its comment, installed artifacts are listed, the output does not depend on map
  iteration order, and the writer succeeds on every loaded spec.
\<close>

section \<open>Complete lines\<close>

lemma complete_systemd_scripts [simp]:
  "complete (systemdPreUnScript u c)" "complete (systemdPostScript u c)"
  by (simp_all add: systemdPreUnScript_def systemdPostScript_def)

lemma complete_optionalField [simp]: "complete (optionalField k v)"
  unfolding optionalField_def by (cases "v = []") (simp_all only: if_True if_False complete_Nil complete_suffix
      complete_nl append_is_Nil_conv list.distinct simp_thms)

lemmas complete_intros = complete_append complete_Nil complete_nl complete_nl_alone complete_line complete_lines_text
  complete_if complete_optionalField complete_systemd_scripts

lemma complete_header: "complete (header_text sp t)"
  unfolding header_text_def by (intro complete_intros)

lemma complete_deps:
  "complete (Conflicts sp t)" "complete (Provides sp t)" "complete (Replaces sp t)" "complete (Recommends sp t)"
  unfolding Conflicts_def Provides_def Replaces_def Recommends_def Let_def by (intro complete_intros)+

lemma complete_Requires: "complete (Requires sp t)"
  unfolding Requires_def getSystemdRequires_def getUserPostRequires_def Let_def by (intro complete_intros)

lemma complete_sections:
  "complete (BuildSteps sp)" "complete (Install sp t)" "complete (Files sp t)" "complete (Changelog sp)"
  unfolding BuildSteps_def Install_def Files_def Changelog_def by (intro complete_intros)+

lemma complete_PostUn: "complete (PostUn sp t)"
  unfolding PostUn_def by (cases "a_Systemd (GetArtifacts sp t)") simp_all

lemma complete_PreUn: "complete (PreUn sp t)"
  by (auto simp: PreUn_def split_beta split: option.splits intro!: complete_append complete_concat_map)

lemma complete_Post: "complete (Post sp t)"
  unfolding Post_def Let_def append_assoc [symmetric] by (intro complete_intros)

section \<open>Sources\<close>

lemma complete_Sources: "rpm_Sources remote sp = Some t \<Longrightarrow> complete t"
  unfolding rpm_Sources_def by (erule map_option_SomeE) simp

lemma complete_PrepareSources: "PrepareSources sp = Some t \<Longrightarrow> complete t"
  by (auto simp: PrepareSources_def split: if_splits option.splits)

text \<open>A line of the source section: a comment or a numbered source.\<close>

definition source_section_line :: "string \<Rightarrow> bool" where
  "source_section_line l = (CHR 0x0A \<notin> set l \<and> (HasPrefix l ''# '' \<or> HasPrefix l ''Source''))"

lemma source_line_section: "CHR 0x0A \<notin> set ref \<Longrightarrow> source_section_line (source_line i ref)"
  by (simp add: source_section_line_def source_line_def nat_base_no_newline HasPrefix_def)

lemma source_entry_Some:
  "source_entry remote (i, name, src) = Some ls \<longleftrightarrow>
    (\<exists>d doc. SourceIsDir src = Some d \<and> Source_Doc_text remote src name = Some doc
      \<and> ls = comment_lines doc @ [source_line i (source_ref name d)])"
  by (auto simp: source_entry_def split: option.splits)

lemma comment_lines_section: "list_all source_section_line (comment_lines doc)"
proof -
  have "source_section_line (''# '' @ l)" if "l \<in> set (scan_lines doc)" for l
    using scan_lines_no_newline [OF that] by (simp add: source_section_line_def HasPrefix_def)
  then show ?thesis unfolding comment_lines_def list_all_iff set_map ball_simps by blast
qed

lemma source_ref_no_newline: "CHR 0x0A \<notin> set name \<Longrightarrow> CHR 0x0A \<notin> set (source_ref name d)"
  by (simp add: source_ref_def)

lemma source_entry_section:
  "source_entry remote (i, name, src) = Some ls \<Longrightarrow> CHR 0x0A \<notin> set name \<Longrightarrow> list_all source_section_line ls"
  using comment_lines_section source_line_section source_ref_no_newline
  by (auto simp: source_entry_Some)

lemma extra_refs_no_newline: "ref \<in> set (extra_refs sp) \<Longrightarrow> CHR 0x0A \<notin> set ref"
  by (auto simp: extra_refs_def gomodsName_def cargohomeName_def buildScriptName_def split: if_splits)

lemma source_lines_section:
  assumes "source_lines remote sp = Some ls" and "\<forall>name \<in> fst ` set (sp_Sources sp). CHR 0x0A \<notin> set name"
  shows "list_all source_section_line ls"
proof -
  let ?es = "sorted_entries (sp_Sources sp)"
  obtain lss where lss: "those (map (source_entry remote) (enumerate 0 ?es)) = Some lss"
    and ls: "ls = concat lss @ map (\<lambda>(i, ref). source_line i ref) (enumerate (length ?es) (extra_refs sp))"
    using assms(1) by (auto simp: source_lines_def Let_def split: option.splits)
  have "list_all source_section_line l" if mem: "l \<in> set lss" for l
  proof -
    obtain i name src where "(i, name, src) \<in> set (enumerate 0 ?es)" "source_entry remote (i, name, src) = Some l"
      using those_map_mem [OF lss mem] by (metis prod_cases3)
    moreover have "name \<in> fst ` set (sp_Sources sp)"
      using enumerate_mem [OF \<open>(i, name, src) \<in> _\<close>] sorted_entries_keys [of "sp_Sources sp"]
      by (metis fst_conv image_eqI)
    ultimately show ?thesis using assms(2) source_entry_section by blast
  qed
  moreover have "source_section_line (source_line i ref)" if "(i, ref) \<in> set (enumerate n (extra_refs sp))" for i ref n
    using enumerate_mem [OF that] by (intro source_line_section extra_refs_no_newline)
  ultimately show ?thesis
    unfolding ls by (auto simp: list_all_iff)
qed

section \<open>Installed artifacts are listed\<close>

text \<open>The kinds of artifacts whose files are listed one by one: directive, directory macro, artifacts.\<close>

definition listed_kinds :: "artifacts \<Rightarrow> (string \<times> string \<times> artifactConfig gomap) list" where
  "listed_kinds a =
    [([], ''%{_bindir}'', a_Binaries a), ([], ''%{_datadir}'', a_DataDirs a), ([], ''%{_libdir}'', a_Libs a),
     ([], ''%{_includedir}'', a_Headers a), ([], ''%{_libexecdir}'', a_Libexec a),
     (''%config(noreplace) '', ''%{_sysconfdir}'', a_ConfigFiles a),
     ([], ''%{_unitdir}'', (case a_Systemd a of None \<Rightarrow> [] | Some sd \<Rightarrow> map_vals (\<lambda>k u. unit_Artifact u) (sc_Units sd)))]"

lemma copy_all_mem:
  "wf_map m \<Longrightarrow> (p, cfg) \<in> set m \<Longrightarrow> ''cp -r '' @ p @ '' '' @ target_path root p cfg \<in> set (copy_all root m)"
  unfolding copy_all_def for_sorted_mem copyArtifact_def by (intro exI conjI) simp_all

lemma list_artifacts_mem:
  "wf_map m \<Longrightarrow> (p, cfg) \<in> set m \<Longrightarrow>
    directive (Join (root @ [ac_SubPath cfg, ResolveName cfg p])) \<in> set (list_artifacts directive root m)"
  unfolding list_artifacts_def for_sorted_mem by (intro exI conjI) simp_all

lemma target_path_below:
  assumes "\<not> Contains (ResolveName cfg p) ''*''" and "no_dots (ac_SubPath cfg)" and "no_dots (ResolveName cfg p)"
    and "proper_elem r" and "r \<noteq> ''..''"
  shows "target_path (''%{buildroot}/'' @ r) p cfg = ''%{buildroot}/'' @ Join [r, ac_SubPath cfg, ResolveName cfg p]"
  using Join_below [of "''%{buildroot}''" r "ac_SubPath cfg" "ResolveName cfg p"] assms
  by (simp add: target_path_def proper_elem_def Let_def)

lemma Join_macro:
  assumes "proper_elem r" and "r \<noteq> ''..''" and "no_dots sub" and "no_dots file"
  shows "Join [r @ ''/'', sub, file] = Join [r, sub, file]"
    and "Join [Join [r, sub], file] = Join [r, sub, file]"
proof -
  have es: "path_elems r = [r]" using path_elems_join [of "[r]"] assms(1) by simp
  then have es': "path_elems (r @ ''/'') = [r]" using path_elems_append [of r "[]"] by simp
  have r: "r \<noteq> []" "\<not> is_rooted r" "\<not> is_rooted (r @ ''/'')"
    using assms(1) by (cases r; auto simp: proper_elem_def is_rooted_def)+
  have nd: "no_dots r" "no_dots (r @ ''/'')" using es es' assms(2) by (simp_all add: no_dots_def)
  have flat: "Join [r, sub, file] = join_with [slash] (r # path_elems sub @ path_elems file)"
    using Join_no_dots [of r "[sub, file]"] r nd es assms(3,4) by simp
  show "Join [r @ ''/'', sub, file] = Join [r, sub, file]"
    using Join_no_dots [of "r @ ''/''" "[sub, file]"] r nd es' assms(3,4) flat by simp
  have inner: "Join [r, sub] = join_with [slash] (r # path_elems sub)"
    using Join_no_dots [of r "[sub]"] r nd es assms(3) by simp
  have es2: "path_elems (join_with [slash] (r # path_elems sub)) = r # path_elems sub"
    using path_elems_join [of "r # path_elems sub"] assms(1) path_elems_proper by simp
  have ne: "join_with [slash] (r # path_elems sub) \<noteq> []" "\<not> is_rooted (join_with [slash] (r # path_elems sub))"
    using is_rooted_join_Cons [OF r(1)] r join_proper_not_Nil [of "r # path_elems sub"] assms(1) path_elems_proper
    by simp_all
  have "no_dots (join_with [slash] (r # path_elems sub))"
    using es2 assms(2,3) by (simp add: no_dots_def)
  then show "Join [Join [r, sub], file] = Join [r, sub, file]"
    unfolding inner flat
    using Join_no_dots [of "join_with [slash] (r # path_elems sub)" "[file]"] ne es2 assms(4)
    by (simp del: join_with.simps)
qed

lemma listed_kinds_proper: "(d, r, m) \<in> set (listed_kinds a) \<Longrightarrow> proper_elem r \<and> r \<noteq> ''..''"
  by (auto simp: listed_kinds_def proper_elem_def)

lemma Join_libdir: "Join [''%{buildroot}/%{_libdir}''] = ''%{buildroot}/%{_libdir}''"
  by code_simp

lemma kind_installed:
  "(d, r, m) \<in> set (listed_kinds a) \<Longrightarrow> x \<in> set (copy_all (''%{buildroot}/'' @ r) m) \<Longrightarrow> x \<in> set (install_lines a name)"
  unfolding install_lines_def Join_libdir install_systemd_def listed_kinds_def
  by (auto simp: copy_all_def for_sorted_def split: option.splits)

definition kind_lines :: "string \<Rightarrow> string \<Rightarrow> artifactConfig gomap \<Rightarrow> string list" where
  "kind_lines d r m =
    (if r \<in> {''%{_bindir}'', ''%{_unitdir}''} then list_artifacts (\<lambda>x. d @ x) [r @ ''/''] m
     else if r = ''%{_libexecdir}'' then list_libexec m
     else list_artifacts (\<lambda>x. d @ x) [r] m)"

lemma kind_listed:
  "(d, r, m) \<in> set (listed_kinds a) \<Longrightarrow> x \<in> set (kind_lines d r m) \<Longrightarrow> x \<in> set (file_lines a name)"
  unfolding file_lines_def list_systemd_def listed_kinds_def kind_lines_def
  by (auto simp: list_artifacts_def for_sorted_def split: option.splits)

lemma kind_lines_mem:
  assumes "wf_map m" and "(p, cfg) \<in> set m" and "proper_elem r" and "r \<noteq> ''..''"
    and "r = ''%{_libexecdir}'' \<Longrightarrow> d = []" and "no_dots (ac_SubPath cfg)" and "no_dots (ResolveName cfg p)"
  shows "d @ Join [r, ac_SubPath cfg, ResolveName cfg p] \<in> set (kind_lines d r m)"
proof -
  note eqs = Join_macro [OF assms(3,4,6,7)]
  have "Join [Join [r, ac_SubPath cfg], ResolveName cfg p] \<in> set (list_libexec m)" if "r = ''%{_libexecdir}''"
    unfolding list_libexec_def for_sorted_mem [OF assms(1)] that using assms(2)
    by (intro exI conjI) simp_all
  with eqs(2) assms(5) show ?thesis
    using list_artifacts_mem [OF assms(1,2), of "\<lambda>x. d @ x" "[r]"]
      list_artifacts_mem [OF assms(1,2), of "\<lambda>x. d @ x" "[r @ ''/'']"] eqs(1)
    by (auto simp: kind_lines_def)
qed

section \<open>Map order\<close>

interpretation deps_writer: sorted_writer "write_deps kind" for kind
  by unfold_locales (auto simp: write_deps_def intro: for_sorted_only)

interpretation copy_writer: sorted_writer "copy_all root" for root
  by unfold_locales (auto simp: copy_all_def intro: for_sorted_only)

interpretation owner_writer: sorted_writer "own_artifacts root" for root
  by unfold_locales (auto simp: own_artifacts_def intro: for_sorted_only)

interpretation list_writer: sorted_writer "list_artifacts directive root" for directive root
  by unfold_locales (auto simp: list_artifacts_def intro: for_sorted_only)

interpretation libexec_writer: sorted_writer list_libexec
  by unfold_locales (auto simp: list_libexec_def intro: for_sorted_only)

interpretation dir_writer: sorted_writer "for_sorted (createArtifactDir root)" for root
  by unfold_locales (rule for_sorted_only)

interpretation dropin_writer: sorted_writer group_dropins
  by unfold_locales (simp add: group_dropins_def)

text \<open>Two artifact blocks that differ only in the iteration order of their maps.\<close>

definition same_opt :: "('a \<Rightarrow> 'a \<Rightarrow> bool) \<Rightarrow> 'a option \<Rightarrow> 'a option \<Rightarrow> bool" where
  "same_opt r x y = (case (x, y) of (None, None) \<Rightarrow> True | (Some a, Some b) \<Rightarrow> r a b | _ \<Rightarrow> False)"

definition same_dirs :: "createArtifactDirectories \<Rightarrow> createArtifactDirectories \<Rightarrow> bool" where
  "same_dirs d d' = (same_map (cad_Config d) (cad_Config d') \<and> same_map (cad_State d) (cad_State d'))"

definition same_systemd :: "systemdConfiguration \<Rightarrow> systemdConfiguration \<Rightarrow> bool" where
  "same_systemd s s' = (same_map (sc_Units s) (sc_Units s') \<and> same_map (sc_Dropins s) (sc_Dropins s'))"

definition same_artifacts :: "artifacts \<Rightarrow> artifacts \<Rightarrow> bool" where
  "same_artifacts a b =
    (same_map (a_Binaries a) (a_Binaries b) \<and> same_map (a_Libexec a) (a_Libexec b)
     \<and> same_map (a_Manpages a) (a_Manpages b) \<and> same_map (a_DataDirs a) (a_DataDirs b)
     \<and> same_opt same_dirs (a_Directories a) (a_Directories b) \<and> same_map (a_ConfigFiles a) (a_ConfigFiles b)
     \<and> same_map (a_Docs a) (a_Docs b) \<and> same_map (a_Licenses a) (a_Licenses b)
     \<and> same_opt same_systemd (a_Systemd a) (a_Systemd b) \<and> same_map (a_Libs a) (a_Libs b)
     \<and> a_Links a = a_Links b \<and> same_map (a_Headers a) (a_Headers b))"

lemma same_renders:
  assumes "same_map m m'"
  shows "copy_all root m = copy_all root m'" and "list_artifacts directive rs m = list_artifacts directive rs m'"
    and "list_libexec m = list_libexec m'" and "own_artifacts root m = own_artifacts root m'"
  using assms copy_writer.order_irrelevant list_writer.order_irrelevant libexec_writer.order_irrelevant
    owner_writer.order_irrelevant
  unfolding same_map_def by blast+

lemma same_group_dropins: "same_map m m' \<Longrightarrow> group_dropins m = group_dropins m'"
  unfolding same_map_def using dropin_writer.order_irrelevant by blast

lemma same_install_dirs: "same_opt same_dirs d d' \<Longrightarrow> install_dirs d = install_dirs d' \<and> list_dirs d = list_dirs d'"
  by (auto simp: same_opt_def same_dirs_def install_dirs_def list_dirs_def split: option.splits
      intro: arg_cong2 [where f = append] same_for_sorted)

lemma same_install_systemd:
  "same_opt same_systemd s s' \<Longrightarrow> install_systemd s = install_systemd s' \<and> list_systemd s = list_systemd s'"
  by (auto simp: same_opt_def same_systemd_def install_systemd_def list_systemd_def split: option.splits
      intro!: arg_cong2 [where f = append] same_renders same_map_vals
      arg_cong [where f = "for_sorted f" for f] same_group_dropins)

lemma same_artifacts_lines:
  assumes "same_artifacts a b"
  shows "install_lines a name = install_lines b name \<and> file_lines a name = file_lines b name"
proof -
  have m: "same_map (a_Binaries a) (a_Binaries b)" "same_map (a_Libexec a) (a_Libexec b)"
    "same_map (a_Manpages a) (a_Manpages b)" "same_map (a_DataDirs a) (a_DataDirs b)"
    "same_map (a_ConfigFiles a) (a_ConfigFiles b)" "same_map (a_Docs a) (a_Docs b)"
    "same_map (a_Licenses a) (a_Licenses b)" "same_map (a_Libs a) (a_Libs b)"
    "same_map (a_Headers a) (a_Headers b)" "a_Links a = a_Links b"
    and d: "same_opt same_dirs (a_Directories a) (a_Directories b)"
    and s: "same_opt same_systemd (a_Systemd a) (a_Systemd b)"
    using assms by (simp_all add: same_artifacts_def)
  show ?thesis
    unfolding install_lines_def file_lines_def
    using same_renders [OF m(1)] same_renders [OF m(2)] same_renders [OF m(3)] same_renders [OF m(4)]
      same_renders [OF m(5)] same_renders [OF m(6)] same_renders [OF m(7)] same_renders [OF m(8)]
      same_renders [OF m(9)] same_map_Nil [OF m(3)] m(10) same_install_dirs [OF d] same_install_systemd [OF s]
    by simp
qed

section \<open>The writer succeeds on loaded specs\<close>

text \<open>The git URLs that the description of a source parses.\<close>

fun git_urls :: "source \<Rightarrow> string list"
and image_urls :: "sourceDockerImage \<Rightarrow> string list"
and command_urls :: "command \<Rightarrow> string list"
and mount_urls :: "sourceMount \<Rightarrow> string list"
and build_urls :: "sourceBuild \<Rightarrow> string list" where
  "git_urls (Source img git http ctx bld inl path incl excl gens) =
    (case bld of None \<Rightarrow> [] | Some b \<Rightarrow> build_urls b) @ (case img of None \<Rightarrow> [] | Some d \<Rightarrow> image_urls d)
    @ (case git of None \<Rightarrow> [] | Some g \<Rightarrow> [git_URL g])"
| "image_urls (SourceDockerImage ref cmd) = (case cmd of None \<Rightarrow> [] | Some c \<Rightarrow> command_urls c)"
| "command_urls (Command dir mounts env steps) = concat (map mount_urls mounts)"
| "mount_urls (SourceMount dest sp) = git_urls sp"
| "build_urls (SourceBuild src dfpath tgt bargs) = git_urls src"

definition parsed :: "(string \<Rightarrow> string option) \<Rightarrow> string list \<Rightarrow> bool" where
  "parsed remote us = list_all (\<lambda>u. remote u \<noteq> None) us"

lemma source_doc_returns:
  "source_ok dg s \<Longrightarrow> parsed remote (git_urls s) \<Longrightarrow> source_doc remote name s \<noteq> None"
  "image_ok dg path d \<Longrightarrow> parsed remote (image_urls d) \<Longrightarrow> image_doc remote name d \<noteq> None"
  "command_ok dg c \<Longrightarrow> parsed remote (command_urls c) \<Longrightarrow> command_doc remote name c \<noteq> None"
  "mount_ok dg m \<Longrightarrow> parsed remote (mount_urls m) \<Longrightarrow> mount_doc remote name m \<noteq> None"
  "build_ok dg b \<Longrightarrow> parsed remote (build_urls b) \<Longrightarrow> build_doc remote name b \<noteq> None"
proof (induction dg s and dg path d and dg c and dg m and dg b rule: source_induct)
  case (1 dg img git http ctx bld inl path incl excl gens)
  have "variant_count (Source img git http ctx bld inl path incl excl gens) = 1"
    using 1(3) by simp
  then show ?case
    by (cases rule: variant_one_cases) (use 1 in \<open>auto simp: parsed_def git_doc_def\<close>)
next
  case (2 dg path ref cmd)
  then show ?case by (auto split: option.splits)
next
  case (3 dg dir mounts env steps)
  then have "those (map (mount_doc remote name) mounts) \<noteq> None"
    by (auto simp: those_map_None list_all_iff parsed_def)
  then show ?case by auto
qed (auto simp: parsed_def)

lemma SourceIsDir_ok: "source_ok dg s \<Longrightarrow> SourceIsDir s \<noteq> None"
proof (cases s)
  case (Source img git http ctx bld inl path incl excl gens)
  assume "source_ok dg s"
  with Source have "variant_count (Source img git http ctx bld inl path incl excl gens) = 1" by simp
  then show ?thesis
    unfolding Source by (cases rule: variant_one_cases) (auto simp: SourceIsDir_def toInterface_def)
qed

lemma extract_lines_return:
  assumes "list_all (\<lambda>p. source_ok dg (snd p)) (sp_Sources s)" and "wf_map (sp_Sources s)"
  shows "those (map extract_line (sorted_entries (sp_Sources s))) \<noteq> None"
proof -
  have "extract_line e \<noteq> None" if "e \<in> set (sp_Sources s)" for e
    using assms(1) that SourceIsDir_ok [of dg "snd e"] by (auto simp: extract_line_def list_all_iff)
  then show ?thesis unfolding those_map_None sorted_entries_set [OF assms(2)] by blast
qed

lemma those_all_Some: "(\<And>x. x \<in> set xs \<Longrightarrow> x \<noteq> None) \<Longrightarrow> those xs \<noteq> None"
  using those_map_None [of "\<lambda>x. x" xs] by auto

lemma patch_lines_return:
  assumes "list_all (\<lambda>(k, ps). list_all (\<lambda>p. p_Strip p \<noteq> None) ps) m" and "wf_map m"
  shows "those (concat (map (\<lambda>(k, ps). map (patch_line k) ps) (sorted_entries m))) \<noteq> None"
proof (rule those_all_Some)
  fix x
  assume "x \<in> set (concat (map (\<lambda>(k, ps). map (patch_line k) ps) (sorted_entries m)))"
  then obtain k ps q where "(k, ps) \<in> set m" "q \<in> set ps" "x = patch_line k q"
    using sorted_entries_set [OF assms(2)] by auto
  with assms(1) show "x \<noteq> None" by (auto simp: patch_line_def list_all_iff)
qed

lemma source_lines_return:
  assumes "list_all (\<lambda>p. source_ok dg (snd p)) (sp_Sources s)" and "wf_map (sp_Sources s)"
    and "list_all (\<lambda>p. parsed remote (git_urls (snd p))) (sp_Sources s)"
  shows "source_lines remote s \<noteq> None"
proof -
  have "source_entry remote (i, e) \<noteq> None" if "e \<in> set (sp_Sources s)" for i e
  proof -
    have "source_ok dg (snd e)" "parsed remote (git_urls (snd e))"
      using assms(1,3) that by (simp_all add: list_all_iff)
    then have "SourceIsDir (snd e) \<noteq> None" "source_doc remote (fst e) (snd e) \<noteq> None"
      using SourceIsDir_ok source_doc_returns(1) by blast+
    then show ?thesis by (auto simp: source_entry_def Source_Doc_text_def split_beta split: option.splits)
  qed
  then have "those (map (source_entry remote) (enumerate 0 (sorted_entries (sp_Sources s)))) \<noteq> None"
    unfolding those_map_None using sorted_entries_set [OF assms(2)] enumerate_mem by (metis surj_pair)
  then show ?thesis by (auto simp: source_lines_def Let_def)
qed

lemma FillDefaults_patches:
  "FillDefaults host s = Some s' \<Longrightarrow> list_all (\<lambda>(k, ps). list_all (\<lambda>p. p_Strip p \<noteq> None) ps) (sp_Patches s')"
  by (auto simp: FillDefaults_def map_vals_def list_all_iff patch_fillDefaults_def split: option.splits)


lemma WriteSpec_returns:
  assumes "list_all (\<lambda>p. source_ok dg (snd p)) (sp_Sources s)" and "wf_map (sp_Sources s)"
    and "list_all (\<lambda>(k, ps). list_all (\<lambda>p. p_Strip p \<noteq> None) ps) (sp_Patches s)" and "wf_map (sp_Patches s)"
    and "list_all (\<lambda>p. parsed remote (git_urls (snd p))) (sp_Sources s)"
  shows "WriteSpec remote s target \<noteq> None"
  using source_lines_return [OF assms(1,2,5)] extract_lines_return [OF assms(1,2)] patch_lines_return [OF assms(3,4)]
  by (auto simp: WriteSpec_def rpm_Sources_def PrepareSources_def split: option.splits)

end
