(* ===== verification/Packaging_Claims.thy ===== *)
theory Packaging_Claims
  imports Rpm_Props Examples
begin

text \<open>
  The properties of the rpm spec writer (packaging/linux/rpm/template.go), each with a witness on
  concrete data.
\<close>

definition demo_bin :: artifactConfig where
  "demo_bin = \<lparr>ac_SubPath = ''tools'', ac_Name = [], ac_Permissions = 493, ac_User = [], ac_Group = []\<rparr>"

definition demo_artifacts :: artifacts where
  "demo_artifacts = empty_artifacts\<lparr>a_Binaries := [(''out/foo'', demo_bin), (''out/bar'', demo_bin\<lparr>ac_Name := ''baz''\<rparr>)]\<rparr>"

definition swapped_artifacts :: artifacts where
  "swapped_artifacts = empty_artifacts\<lparr>a_Binaries := [(''out/bar'', demo_bin\<lparr>ac_Name := ''baz''\<rparr>), (''out/foo'', demo_bin)]\<rparr>"

definition demo_unit :: systemdUnitConfig where
  "demo_unit = \<lparr>su_Name = ''app.service'', su_Enable = True, su_Start = False\<rparr>"

definition unit_spec :: spec where
  "unit_spec = empty_spec\<lparr>sp_Artifacts := empty_artifacts\<lparr>a_Systemd :=
     Some \<lparr>sc_Units = [(''out/simple.service'', demo_unit)], sc_Dropins = []\<rparr>\<rparr>\<rparr>"

definition inline_spec :: spec where
  "inline_spec = empty_spec\<lparr>sp_Sources := [(''f'', Source None None None None None
     (Some \<lparr>inl_File = Some \<lparr>if_Contents = ''a'' @ nl @ ''%post'', if_Permissions = 0, if_UID = 0, if_GID = 0\<rparr>,
       inl_Dir = None\<rparr>) [] None None [])]\<rparr>"

section \<open>The spec file\<close>

text \<open>
  Note (template.go, WriteSpec): a loaded spec is always written.  If the spec passes validation and
  its defaults are filled, and the git URLs of its sources parse, no nil pointer is reached while the
  spec file is produced, for any target.
\<close>

theorem rpm_spec_written:
  assumes "spec_settled dg s" and "Validate dg s = Some None" and "FillDefaults host s = Some s'"
    and "wf_map (sp_Sources s')" and "wf_map (sp_Patches s')"
    and "list_all (\<lambda>p. parsed remote (git_urls (snd p))) (sp_Sources s')"
  shows "WriteSpec remote s' target \<noteq> None"
proof -
  have "spec_ok dg s" using assms(1,2) by (simp add: Validate_nil)
  then have "spec_ok dg s'" using spec_defaults.fills assms(3) by blast
  then have ok: "list_all (\<lambda>p. source_ok dg (snd p)) (sp_Sources s')"
    by (auto simp: spec_ok_def list_all_iff)
  show ?thesis by (rule WriteSpec_returns [OF ok assms(4) FillDefaults_patches [OF assms(3)] assms(5,6)])
qed

theorem rpm_spec_written_witness:
  "\<exists>s'. FillDefaults demo_host demo_spec = Some s' \<and> WriteSpec demo_remote s' ''azlinux3'' \<noteq> None"
proof -
  obtain s' where s': "FillDefaults demo_host demo_spec = Some s'"
    using spec_defaults.returns [of any_digest demo_spec demo_host] demo_valid Validate_nil [OF demo_settled] by auto
  have keys: "wf_map (sp_Sources s') = wf_map (sp_Sources demo_spec)"
    "wf_map (sp_Patches s') = wf_map (sp_Patches demo_spec)"
    using s' fill_source_map_names by (auto simp: FillDefaults_def wf_map_def split: option.splits)
  have "wf_map (sp_Sources s')" "wf_map (sp_Patches s')"
    unfolding keys by (simp_all add: demo_spec_def empty_spec_def wf_map_def)
  moreover have "list_all (\<lambda>p. parsed demo_remote (git_urls (snd p))) (sp_Sources s')"
    by (simp add: list_all_iff parsed_def demo_remote_def)
  ultimately show ?thesis
    using rpm_spec_written [OF demo_settled demo_valid s', of demo_remote "''azlinux3''"] s' by blast
qed

definition spec_parts :: "spec \<Rightarrow> string \<Rightarrow> string \<Rightarrow> string \<Rightarrow> string list" where
  "spec_parts sp target srcs prep =
    [header_text sp target, srcs, Conflicts sp target, Provides sp target, Replaces sp target, Requires sp target,
     Recommends sp target, lines_text [''%description'', sp_Description sp, []], prep, BuildSteps sp,
     Install sp target, Post sp target, PreUn sp target, PostUn sp target, Files sp target, Changelog sp]"

text \<open>
  Note (template.go, specTmpl): every part of the spec file consists of complete lines, so each section
  keyword starts a line, whatever fields are empty.
\<close>

theorem rpm_sections_start_lines:
  assumes "WriteSpec remote sp target = Some out"
  shows "\<exists>srcs prep. out = concat (spec_parts sp target srcs prep)
    \<and> (\<forall>n. complete (concat (take n (spec_parts sp target srcs prep))))"
proof -
  obtain srcs prep where parts: "rpm_Sources remote sp = Some srcs" "PrepareSources sp = Some prep"
    and out: "out = concat (spec_parts sp target srcs prep)"
    using assms by (auto simp: WriteSpec_def spec_parts_def split: option.splits)
  have all: "list_all complete (spec_parts sp target srcs prep)"
    unfolding spec_parts_def list.pred_inject
    using complete_Sources [OF parts(1)] complete_PrepareSources [OF parts(2)]
    by (intro conjI complete_header complete_deps complete_Requires complete_sections complete_PreUn complete_Post
        complete_PostUn complete_lines_text) simp_all
  have "complete (concat (take n (spec_parts sp target srcs prep)))" for n
    using all by (intro complete_concat) (auto simp: list_all_iff dest: in_set_takeD)
  with out show ?thesis by blast
qed

theorem rpm_sections_start_lines_witness:
  "\<exists>out srcs prep. WriteSpec demo_remote unit_spec [] = Some out
    \<and> out = concat (spec_parts unit_spec [] srcs prep)
    \<and> complete (concat (take 12 (spec_parts unit_spec [] srcs prep)))"
proof -
  obtain out where "WriteSpec demo_remote unit_spec [] = Some out"
    by (auto simp: WriteSpec_def rpm_Sources_def source_lines_def PrepareSources_def unit_spec_def empty_spec_def
        sorted_entries_def SortMapKeys_def)
  with rpm_sections_start_lines [OF this] show ?thesis by blast
qed

text \<open>
  Note (template.go, Sources): the description of a source stays inside comments.  Whatever an inline
  file contains, every line of the source section is a comment or a numbered source line.
\<close>

theorem rpm_source_comments:
  assumes "rpm_Sources remote sp = Some out" and "\<forall>name \<in> fst ` set (sp_Sources sp). CHR 0x0A \<notin> set name"
  shows "\<exists>ls. out = lines_text ls @ (if sp_Sources sp \<noteq> [] then nl else []) \<and> list_all source_section_line ls"
proof -
  obtain ls where "source_lines remote sp = Some ls"
    and "out = lines_text ls @ (if sp_Sources sp \<noteq> [] then nl else [])"
    using assms(1) unfolding rpm_Sources_def by (elim map_option_SomeE)
  with source_lines_section [OF this(1) assms(2)] show ?thesis by blast
qed

theorem rpm_source_comments_witness:
  "\<exists>out ls. rpm_Sources demo_remote inline_spec = Some out \<and> out = lines_text ls @ nl \<and> list_all source_section_line ls"
proof -
  obtain out where t: "rpm_Sources demo_remote inline_spec = Some out"
    by (auto simp: rpm_Sources_def source_lines_def inline_spec_def empty_spec_def sorted_entries_def SortMapKeys_def
        source_entry_def SourceIsDir_def toInterface_def Source_Doc_text_def)
  have "\<forall>name \<in> fst ` set (sp_Sources inline_spec). CHR 0x0A \<notin> set name"
    by (simp add: inline_spec_def)
  from rpm_source_comments [OF t this] t show ?thesis
    by (simp add: inline_spec_def)
qed

section \<open>Artifacts\<close>

text \<open>
  C12 (template.go, Install and Files): what is installed is listed, for binaries, data files, libraries, headers,
  libexec files, config files and systemd units.  If the name of such an artifact has no wildcard, and neither its
  name nor its subpath climbs with \<open>..\<close>, the install section copies it to a path below the build root, and the
  files section lists the same path, with its directive.  Docs, licenses, manpages and drop-ins are not covered.
\<close>

theorem rpm_installed_listed:
  assumes "(d, r, m) \<in> set (listed_kinds a)" and "wf_map m" and "(p, cfg) \<in> set m"
    and "\<not> Contains (ResolveName cfg p) ''*''" and "no_dots (ac_SubPath cfg)" and "no_dots (ResolveName cfg p)"
  shows "''cp -r '' @ p @ '' %{buildroot}/'' @ Join [r, ac_SubPath cfg, ResolveName cfg p] \<in> set (install_lines a name)
    \<and> d @ Join [r, ac_SubPath cfg, ResolveName cfg p] \<in> set (file_lines a name)"
proof
  note r = listed_kinds_proper [OF assms(1)]
  have "''cp -r '' @ p @ '' '' @ target_path (''%{buildroot}/'' @ r) p cfg \<in> set (install_lines a name)"
    by (rule kind_installed [OF assms(1) copy_all_mem [OF assms(2,3)]])
  moreover have "target_path (''%{buildroot}/'' @ r) p cfg = ''%{buildroot}/'' @ Join [r, ac_SubPath cfg, ResolveName cfg p]"
    using target_path_below [OF assms(4-6)] r by blast
  ultimately show "''cp -r '' @ p @ '' %{buildroot}/'' @ Join [r, ac_SubPath cfg, ResolveName cfg p] \<in> set (install_lines a name)"
    by simp
  have "r = ''%{_libexecdir}'' \<Longrightarrow> d = []"
    using assms(1) by (auto simp: listed_kinds_def)
  then show "d @ Join [r, ac_SubPath cfg, ResolveName cfg p] \<in> set (file_lines a name)"
    using r assms by (intro kind_listed [OF assms(1)] kind_lines_mem) auto
qed

theorem rpm_installed_listed_witness:
  "''cp -r out/bar %{buildroot}/%{_bindir}/tools/baz'' \<in> set (install_lines demo_artifacts ''foo'')
    \<and> ''%{_bindir}/tools/baz'' \<in> set (file_lines demo_artifacts ''foo'')"
proof -
  let ?cfg = "demo_bin\<lparr>ac_Name := ''baz''\<rparr>"
  have j: "Join [''%{_bindir}'', ''tools'', ''baz''] = ''%{_bindir}/tools/baz''" by code_simp
  have "no_dots ''tools''" "no_dots ''baz''" "\<not> Contains ''baz'' ''*''" by code_simp+
  then show ?thesis
    using rpm_installed_listed [of "[]" "''%{_bindir}''" "a_Binaries demo_artifacts" demo_artifacts "''out/bar''" ?cfg "''foo''"] j
    by (simp add: listed_kinds_def demo_artifacts_def demo_bin_def ResolveName_def wf_map_def)
qed

text \<open>
  Note (template.go, Install and Files; helpers.go, SortMapKeys): the install script and the file list
  do not depend on the iteration order of any map of the artifact block.
\<close>

theorem rpm_artifacts_reproducible:
  assumes "same_artifacts a b"
  shows "install_lines a name = install_lines b name \<and> file_lines a name = file_lines b name"
  using assms by (rule same_artifacts_lines)

theorem rpm_artifacts_reproducible_witness:
  "demo_artifacts \<noteq> swapped_artifacts \<and> install_lines demo_artifacts ''foo'' = install_lines swapped_artifacts ''foo''"
proof
  show "demo_artifacts \<noteq> swapped_artifacts"
    by (simp add: demo_artifacts_def swapped_artifacts_def empty_artifacts_def)
  have "same_artifacts demo_artifacts swapped_artifacts"
    by (simp add: same_artifacts_def same_map_def same_opt_def demo_artifacts_def swapped_artifacts_def
        empty_artifacts_def wf_map_def add_mset_commute)
  from rpm_artifacts_reproducible [OF this, of "''foo''"]
  show "install_lines demo_artifacts ''foo'' = install_lines swapped_artifacts ''foo''" ..
qed

text \<open>
  Note (template.go, PreUn and postSystemd): the scripts of an enabled unit with a name of its own do
  not name the same unit.  The installation script enables the configured name, the removal script
  disables the base name of the unit's path.
\<close>

theorem rpm_preun_names_path:
  assumes "a_Systemd (GetArtifacts sp target) = Some sd" and "sc_Units sd = [(p, u)]" and "su_Enable u"
    and "su_Name u \<noteq> []"
  shows "PreUn sp target = line ''%preun'' @ systemdPreUnScript (Base p) u
    \<and> postSystemd (GetArtifacts sp target) = systemdPostScript (su_Name u) u"
  using assms
  by (simp add: PreUn_def postSystemd_def EnabledUnits_def sorted_entries_def SortMapKeys_def ResolveName_def
      unit_Artifact_def)

theorem rpm_preun_names_path_witness:
  "PreUn unit_spec [] = line ''%preun'' @ systemdPreUnScript ''simple.service'' demo_unit
    \<and> postSystemd (GetArtifacts unit_spec []) = systemdPostScript ''app.service'' demo_unit"
proof -
  have "Base ''out/simple.service'' = ''simple.service''" by code_simp
  then show ?thesis
    using rpm_preun_names_path [of unit_spec "[]" "\<lparr>sc_Units = [(''out/simple.service'', demo_unit)], sc_Dropins = []\<rparr>"
        "''out/simple.service''" demo_unit]
    by (simp add: unit_spec_def demo_unit_def GetArtifacts_def empty_spec_def)
qed

end
