(* ===== verification/Deb_Control.thy ===== *)
theory Deb_Control
  imports Writers "HOL-Library.Product_Lexorder"
begin

text \<open>
  The control file and the changelog of a Debian source package
  (packaging/linux/deb/template_control.go, template_changelog.go and their templates).  A method of
  \<open>controlWrapper\<close> or \<open>changelogWrapper\<close> is a function that returns the text it writes; names that
  the rpm writer has too carry the prefix \<open>deb\<close>.

  \<open>AppendConstraints\<close> sorts the version and architecture lists of a dependency in place; the model
  returns the text only, sorting an already sorted list changes nothing.
\<close>

section \<open>Version constraints\<close>

definition formatVersionConstraint :: "string \<Rightarrow> string" where
  "formatVersionConstraint v =
    (case Cut v '' '' of (pre, suf, ok) \<Rightarrow>
       if \<not> ok then (case pre of [] \<Rightarrow> v | c # _ \<Rightarrow> if is_digit c then ''= '' @ v else v)
       else if pre = ''<'' then ''<< '' @ suf
       else if pre = ''>'' then ''>> '' @ suf
       else if pre = ''=='' then ''= '' @ suf
       else v)"

definition version_constraints :: "string \<Rightarrow> packageConstraints \<Rightarrow> string list" where
  "version_constraints dep c =
    (if pc_Version c = [] then [dep]
     else map (\<lambda>v. dep @ '' ('' @ formatVersionConstraint v @ '')'') (sort (pc_Version c)))"

definition arch_constraints :: "packageConstraints \<Rightarrow> string list \<Rightarrow> string list" where
  "arch_constraints c vs =
    (if pc_Arch c = [] then vs
     else map (\<lambda>v. v @ '' ['' @ join_with '' '' (sort (pc_Arch c)) @ '']'') vs)"

definition AppendConstraints :: "packageDependencyList \<Rightarrow> string list" where
  "AppendConstraints deps =
    map (\<lambda>(dep, c). join_with '', '' (arch_constraints c (version_constraints dep c))) (sorted_entries deps)"

section \<open>Fields\<close>

definition deb_Architecture :: "spec \<Rightarrow> string" where
  "deb_Architecture sp = (if sp_NoArch sp then ''all'' else ''linux-any'')"

definition multiline :: "string \<Rightarrow> string list \<Rightarrow> string" where
  "multiline field vals = field @ '': '' @ join_with ('','' @ nl @ replicate (length field + 2) (CHR '' '')) vals"

definition no_constraints :: packageConstraints where
  "no_constraints = \<lparr>pc_Version = [], pc_Arch = []\<rparr>"

definition shlibsDeps :: string where "shlibsDeps = ''${shlibs:Depends}''"
definition miscDeps :: string where "miscDeps = ''${misc:Depends}''"

definition add_missing :: "string \<Rightarrow> packageDependencyList \<Rightarrow> packageDependencyList" where
  "add_missing dep deps = (if map_of deps dep = None then mput dep no_constraints deps else deps)"

definition runtime_deps :: "spec \<Rightarrow> string \<Rightarrow> packageDependencies option \<Rightarrow> packageDependencyList" where
  "runtime_deps sp target depsSpec =
    (let rt = GetRuntime depsSpec;
         rt' = (if a_DisableAutoRequires (GetArtifacts sp target) then rt else add_missing shlibsDeps rt)
     in add_missing miscDeps rt')"

definition depends :: "spec \<Rightarrow> string \<Rightarrow> packageDependencies option \<Rightarrow> string" where
  "depends sp target depsSpec = line (multiline ''Depends'' (AppendConstraints (runtime_deps sp target depsSpec)))"

definition recommends :: "packageDependencies option \<Rightarrow> string" where
  "recommends depsSpec =
    (case depsSpec of None \<Rightarrow> []
     | Some d \<Rightarrow> if pd_Recommends d = [] then []
                else line (multiline ''Recommends'' (AppendConstraints (pd_Recommends d))))"

definition DebHelperCompat :: string where "DebHelperCompat = ''11''"

definition BuildDeps :: "spec \<Rightarrow> string \<Rightarrow> string" where
  "BuildDeps sp target =
    line (multiline ''Build-Depends''
      (AppendConstraints (GetBuild (GetPackageDeps sp target)) @ [''debhelper-compat (= '' @ DebHelperCompat @ '')'']))"

definition AllRuntimeDeps :: "spec \<Rightarrow> string \<Rightarrow> string" where
  "AllRuntimeDeps sp target =
    (let deps = GetPackageDeps sp target in depends sp target deps @ recommends deps)"

definition relation_field :: "string \<Rightarrow> packageDependencyList option \<Rightarrow> string" where
  "relation_field field deps =
    (if list_of deps = [] then [] else line (multiline field (AppendConstraints (list_of deps))))"

definition deb_Replaces :: "spec \<Rightarrow> string \<Rightarrow> string" where
  "deb_Replaces sp target = relation_field ''Replaces'' (GetReplaces sp target)"

definition deb_Conflicts :: "spec \<Rightarrow> string \<Rightarrow> string" where
  "deb_Conflicts sp target = relation_field ''Conflicts'' (GetConflicts sp target)"

definition deb_Provides :: "spec \<Rightarrow> string \<Rightarrow> string" where
  "deb_Provides sp target = relation_field ''Provides'' (GetProvides sp target)"

section \<open>The control file\<close>

text \<open>The template trims the space after \<open>Source:\<close>, \<open>Maintainer:\<close>, \<open>Homepage:\<close>, \<open>Package:\<close> and \<open>Architecture:\<close>.\<close>

definition WriteControl :: "spec \<Rightarrow> string \<Rightarrow> string" where
  "WriteControl sp target =
    line (''Source:'' @ sp_Name sp)
    @ (if sp_Packager sp \<noteq> [] then line (''Maintainer:'' @ sp_Packager sp) else [])
    @ (if sp_Website sp \<noteq> [] then line (''Homepage:'' @ sp_Website sp) else [])
    @ BuildDeps sp target
    @ nl @ nl
    @ line (''Package:'' @ sp_Name sp)
    @ line (''Architecture:'' @ deb_Architecture sp)
    @ line ''Section: -''
    @ AllRuntimeDeps sp target @ deb_Replaces sp target @ deb_Conflicts sp target @ deb_Provides sp target
    @ (if sp_Description sp \<noteq> [] then ''Description: '' @ sp_Description sp else []) @ nl"

text \<open>\<open>controlFile\<close>; \<open>main_path\<close> is the module path in the build information of the running program.\<close>

definition controlFile :: "string \<Rightarrow> spec \<Rightarrow> string \<Rightarrow> string" where
  "controlFile main_path sp target =
    line (''# Automatically generated by '' @ main_path) @ nl @ WriteControl sp target"

section \<open>The changelog\<close>

definition distroVersionIDSeparator :: string where "distroVersionIDSeparator = ''u''"

definition DistroVersionID :: "string \<Rightarrow> string" where
  "DistroVersionID distroID = (if distroID = [] then [] else distroID)"

definition DistroVersionSeparator :: "string \<Rightarrow> string" where
  "DistroVersionSeparator distroID = (if distroID = [] then [] else distroVersionIDSeparator)"

definition pad2 :: "string \<Rightarrow> string" where
  "pad2 s = replicate (2 - length s) (CHR ''0'') @ s"

text \<open>The layout \<open>Mon, 02 Jan 2006 15:04:05 -0700\<close> of a date, which is midnight UTC.\<close>

definition format_rfc_date :: "date \<Rightarrow> string" where
  "format_rfc_date dt =
    (case dt of (y, m, d) \<Rightarrow>
       weekday_names ! (day_number dt mod 7) @ '', '' @ pad2 (nat_str d) @ '' '' @ month_names ! (m - 1) @ '' ''
       @ pad4 (nat_str y) @ '' 00:00:00 +0000'')"

definition dummyChangelogEntry :: changelogEntry where
  "dummyChangelogEntry = \<lparr>ce_Date = (1970, 1, 1), ce_Author = ''Dalec Dummy Changelog <>'',
     ce_Changes = [''Dummy changelog entry'']\<rparr>"

text \<open>
  The entry that \<open>Change\<close> writes.  The entries are sorted by date (year, month, day, compared in this
  order); entries of the same date keep
  their order in the model, Go leaves it open for long lists.  The date of the dummy entry is
  printed for a process that runs in UTC.
\<close>

definition change_entry :: "changelogEntry list \<Rightarrow> changelogEntry" where
  "change_entry es = (case sort_key ce_Date es of [] \<Rightarrow> dummyChangelogEntry | e # _ \<Rightarrow> e)"

definition Change :: "spec \<Rightarrow> string" where
  "Change sp =
    (let e = change_entry (sp_Changelog sp)
     in lines_text (map (\<lambda>c. ''  * '' @ c) (ce_Changes e))
        @ '' -- '' @ ce_Author e @ ''  '' @ format_rfc_date (ce_Date e))"

definition WriteChangelog :: "spec \<Rightarrow> string \<Rightarrow> string \<Rightarrow> string" where
  "WriteChangelog sp target distroID =
    line (sp_Name sp @ '' ('' @ sp_Version sp @ ''-'' @ DistroVersionID distroID @ DistroVersionSeparator distroID
      @ sp_Revision sp @ '') '' @ target @ ''; urgency=low'')
    @ nl @ Change sp @ nl @ nl"

section \<open>Lemmas\<close>

lemma add_missing_keys: "fst ` set (add_missing d m) = insert d (fst ` set m)"
proof (cases "map_of m d")
  case None
  then show ?thesis
    by (simp add: add_missing_def dom_map_of_conv_image_fst [symmetric] update_conv')
next
  case (Some c)
  then have "d \<in> fst ` set m" by (simp add: dom_map_of_conv_image_fst [symmetric] domI)
  with Some show ?thesis by (simp add: add_missing_def insert_absorb)
qed

lemma add_missing_keeps: "k \<noteq> d \<Longrightarrow> map_of (add_missing d m) k = map_of m k"
  by (simp add: add_missing_def update_conv)

lemma add_missing_wf [simp]: "wf_map m \<Longrightarrow> wf_map (add_missing d m)"
  by (simp add: add_missing_def)

lemma Cut_space_Cons: "c \<noteq> CHR '' '' \<Longrightarrow> Cut (c # s) '' '' = (case Cut s '' '' of (a, b, f) \<Rightarrow> (c # a, b, f))"
  by (simp add: HasPrefix_def)

lemma Cut_space_here: "Cut (CHR '' '' # s) '' '' = ([], s, True)"
  by (simp add: HasPrefix_def)

end
