(* ===== verification/Deb_Rules.thy ===== *)
theory Deb_Rules
  imports Writers
begin

text \<open>
  The \<open>debian/rules\<close> file and the maintainer script for units of one base name that are enabled
  differently (packaging/linux/deb/template_rules.go,
  template_custom_dh_installsystemd_postinst.go and their templates).
\<close>

definition deb_gomodsName :: string where "deb_gomodsName = ''xxxdalecGomodsInternal''"
definition deb_cargohomeName :: string where "deb_cargohomeName = ''xxxdalecCargoHomeInternal''"
definition deb_pipDepsName :: string where "deb_pipDepsName = ''xxxdalecPipDepsInternal''"
definition customSystemdPostinstFile :: string where
  "customSystemdPostinstFile = ''custom_systemd_postinst.sh.partial''"

section \<open>Environment and permissions\<close>

text \<open>\<open>Envs\<close> ranges over the map itself: its lines come in the iteration order of the run.\<close>

definition Envs :: "spec \<Rightarrow> string" where
  "Envs sp =
    lines_text
      (map (\<lambda>(k, v). ''export '' @ k @ '' := '' @ v) (ab_Env (sp_Build sp))
       @ (if HasGomods sp then [''export GOMODCACHE := $(PWD)/'' @ deb_gomodsName] else [])
       @ (if HasCargohomes sp then [''export CARGO_HOME := $(PWD)/'' @ deb_cargohomeName] else [])
       @ (if HasPips sp then [''export PIP_CACHE_DIR := $(PWD)/'' @ deb_pipDepsName,
            ''export PYTHONPATH := $(PWD)/site-packages:${PYTHONPATH}''] else []))"

definition checkPerms :: "artifactConfig gomap \<Rightarrow> bool" where
  "checkPerms cfgs = list_ex (\<lambda>(k, cfg). FileMode_Perm (ac_Permissions cfg) \<noteq> 0) cfgs"

definition checkDirPerms :: "artifactDirConfig gomap \<Rightarrow> bool" where
  "checkDirPerms cfgs = list_ex (\<lambda>(k, cfg). FileMode_Perm (ad_Mode cfg) \<noteq> 0) cfgs"

definition fixPerms :: "artifacts \<Rightarrow> bool" where
  "fixPerms a =
    (checkPerms (a_Binaries a) \<or> checkPerms (a_ConfigFiles a) \<or> checkPerms (a_Manpages a) \<or> checkPerms (a_Headers a)
     \<or> checkPerms (a_Licenses a) \<or> checkPerms (a_Docs a) \<or> checkPerms (a_Libs a) \<or> checkPerms (a_Libexec a)
     \<or> checkPerms (a_DataDirs a) \<or> checkDirPerms (GetConfig (a_Directories a))
     \<or> checkDirPerms (GetState (a_Directories a)))"

definition OverridePerms :: "spec \<Rightarrow> string \<Rightarrow> string" where
  "OverridePerms sp target =
    (if fixPerms (GetArtifacts sp target)
     then lines_text [''override_dh_fixperms:'', tab @ ''dh_fixperms'',
            tab @ ''DESTDIR=debian/$(shell dh_listpackages) debian/dalec/fix_perms.sh'', []]
     else [])"

section \<open>Systemd units\<close>

text \<open>One step of \<open>groupUnitsByBaseName\<close>: the unit is filed under its base name and its full name.\<close>

definition group_unit ::
  "systemdUnitConfig gomap gomap \<Rightarrow> string \<times> systemdUnitConfig \<Rightarrow> systemdUnitConfig gomap gomap" where
  "group_unit idx e =
    (case e of (k, v) \<Rightarrow>
       (case unit_SplitName v k of (base, suf) \<Rightarrow>
          mput base (mput (base @ ''.'' @ suf) v (case map_of idx base of None \<Rightarrow> [] | Some g \<Rightarrow> g)) idx))"

definition groupUnitsByBaseName :: "systemdUnitConfig gomap \<Rightarrow> systemdUnitConfig gomap gomap" where
  "groupUnitsByBaseName ls = foldl group_unit [] ls"

definition requiresCustomEnable :: "systemdUnitConfig gomap \<Rightarrow> bool" where
  "requiresCustomEnable ls =
    (let enable = length (filter (\<lambda>(k, v). su_Enable v) ls)
     in if enable = 0 then False else enable \<noteq> length ls)"

text \<open>The line of one base name; the first key is the first in the iteration order of the group.\<close>

definition installsystemd_line :: "string \<Rightarrow> systemdUnitConfig gomap \<Rightarrow> string" where
  "installsystemd_line basename grouping =
    tab @ ''dh_installsystemd --name='' @ basename
    @ (if \<not> su_Enable (snd (hd grouping)) \<or> requiresCustomEnable grouping then '' --no-enable'' else [])"

definition custom_enable_lines :: "string list" where
  "custom_enable_lines =
    [tab @ ''[ -f debian/postinst ] || (echo '' @ sq @ ''#!/bin/sh'' @ sq @ '' > debian/postinst; echo '' @ sq @ ''set -e'' @ sq
       @ '' >> debian/postinst)'',
     tab @ ''[ -x debian/postinst ] || chmod +x debian/postinst'',
     tab @ ''cat debian/dalec/'' @ customSystemdPostinstFile @ '' >> debian/postinst'']"

definition OverrideSystemd :: "spec \<Rightarrow> string \<Rightarrow> string" where
  "OverrideSystemd sp target =
    (let units = GetUnits (a_Systemd (GetArtifacts sp target));
         grouped = sorted_entries (groupUnitsByBaseName units)
     in if units = [] then []
        else lines_text
          (''override_dh_installsystemd:''
           # map (\<lambda>(b, g). installsystemd_line b g) grouped
           @ (if list_ex (\<lambda>(b, g). requiresCustomEnable g) grouped then custom_enable_lines else [])))"

definition OverrideStrip :: "spec \<Rightarrow> string \<Rightarrow> string" where
  "OverrideStrip sp target = (if a_DisableStrip (GetArtifacts sp target) then line ''override_dh_strip:'' else [])"

section \<open>The rules file\<close>

definition WriteRules :: "spec \<Rightarrow> string \<Rightarrow> string" where
  \<open>WriteRules sp target =
    lines_text [''#!/usr/bin/make -f'', []]
    @ line (Envs sp)
    @ lines_text
      [[],
       ''override_dh_auto_clean:'',
       tab @ ''@# Stop debhelper from doing "make clean"'',
       [],
       ''override_dh_auto_install:'',
       tab @ ''@# Stop debhelper from doing "make install"'',
       tab @ ''@# Dalec will generate the right install commands'',
       [],
       ''override_dh_auto_build:'',
       tab @ ''./debian/dalec/build.sh'',
       [],
       ''.PHONY: fix_generators'',
       [],
       ''fix_generators:'',
       tab @ ''./debian/dalec/fix_generators.sh'',
       [],
       ''override_dh_auto_configure: fix_generators'',
       tab @ ''@# Stop debhelper from running auto configure, which should be part of the build steps'',
       [],
       ''# dh_dwz is problematic for (some) go builds and causes the build to error out.'',
       ''override_dh_dwz:'',
       tab @ ''@# https://salsa.debian.org/go-team/packages/dh-golang/-/commit/831f3a9dccc14f63f21d3dfac0c0d0e0c25b4084'',
       [],
       OverridePerms sp target,
       [],
       OverrideSystemd sp target,
       [],
       OverrideStrip sp target,
       [],
       ''%:'',
       tab @ ''dh $@ -v'']\<close>

section \<open>The custom maintainer script\<close>

definition postinst_intro :: "string list" where
  \<open>postinst_intro =
    [''# Automatically added by github.com/project-dalec/dalec'',
     ''# This is generally copied from dh_installsystemd'',
     ''# This is required because dh_installsystemd operates on the unit base name and'',
     ''# not the full unit name (e.g. "foo" instead of "foo.service") and sometimes'',
     ''# we want to enable one and not the other.'',
     ''if [ "$1" = "configure" ] || [ "$1" = "abort-upgrade" ] || [ "$1" = "abort-deconfigure" ] || [ "$1" = "abort-remove" ] ; then'']\<close>

definition customEnableTmpl :: "string \<Rightarrow> string" where
  "customEnableTmpl name =
    (let u = sq @ name @ sq
     in lines_text (postinst_intro @
       [tab @ ''# This will only remove masks created by d-s-h on package removal.'',
        tab @ ''deb-systemd-helper unmask '' @ u @ '' >/dev/null || true'',
        [],
        tab @ ''if deb-systemd-helper --quiet was-enabled '' @ u @ ''; then'',
        tab @ tab @ ''deb-systemd-helper enable '' @ u @ '' > /dev/null || true'',
        tab @ ''else'',
        tab @ tab @ ''deb-systemd-helper update-state '' @ u @ '' >/dev/null || true'',
        tab @ ''fi'',
        ''fi'',
        ''# End automatically added section'',
        []]))"

definition customNoEnableTmpl :: "string \<Rightarrow> string" where
  "customNoEnableTmpl name =
    (let u = sq @ name @ sq
     in lines_text (postinst_intro @
       [''    if deb-systemd-helper debian-installed '' @ u @ ''; then'',
        ''        # This will only remove masks created by d-s-h on package removal.'',
        ''        deb-systemd-helper unmask '' @ u @ '' >/dev/null || true'',
        [],
        ''        if deb-systemd-helper --quiet was-enabled '' @ u @ ''; then'',
        ''            # Create new symlinks, if any.'',
        ''            deb-systemd-helper enable '' @ u @ '' >/dev/null || true'',
        ''        fi'',
        ''    fi'',
        [],
        ''    # Update the statefile to add new symlinks (if any), which need to be cleaned'',
        ''    # up on purge. Also remove old symlinks.'',
        ''    deb-systemd-helper update-state '' @ u @ '' >/dev/null || true'',
        ''fi'',
        ''# End automatically added section'']))"

definition customStartTmpl :: "string \<Rightarrow> string" where
  \<open>customStartTmpl name =
    lines_text (postinst_intro @
      [''    if [ -d /run/systemd/system ]; then'',
       ''        systemctl --system daemon-reload >/dev/null || true'',
       ''        if [ -n "$2" ]; then'',
       ''            _dh_action=restart'',
       ''        else'',
       ''            _dh_action=start'',
       ''        fi'',
       ''        deb-systemd-invoke $_dh_action '' @ sq @ name @ sq @ '' >/dev/null || true'',
       ''    fi'',
       ''fi'',
       ''# End automatically added section'',
       []])\<close>

definition writeCustomEnablePartial :: "string \<Rightarrow> systemdUnitConfig \<Rightarrow> string" where
  "writeCustomEnablePartial name cfg = (if su_Enable cfg then customEnableTmpl name else customNoEnableTmpl name)"

definition customDHInstallSystemdPostinst :: "spec \<Rightarrow> string \<Rightarrow> string" where
  "customDHInstallSystemdPostinst sp target =
    concat (map (\<lambda>(b, g).
        if \<not> requiresCustomEnable g then []
        else concat (map (\<lambda>(name, cfg). writeCustomEnablePartial name cfg @ customStartTmpl name) (sorted_entries g)))
      (sorted_entries (groupUnitsByBaseName (GetUnits (a_Systemd (GetArtifacts sp target))))))"

end
