(* ===== verification/Deb_Root.thy ===== *)
theory Deb_Root
  imports Deb_Control Deb_Rules
begin

text \<open>
  The Debian source tree (packaging/linux/deb/debroot.go): the scripts under \<open>debian/dalec\<close>, the
  debhelper files that list what is installed, the maintainer script, and \<open>Debroot\<close>, which puts all
  of them together.

  A build state is the list of the file actions that the code attaches to it.  \<open>toState\<close> stands for
  the state that a source resolves to, which the build system produces.  A nil pointer that is
  dereferenced (a patch without a strip count, a source without a variant) panics: the result is
  \<^term>\<open>None\<close>.
\<close>

section \<open>Paths\<close>

definition BinariesPath :: string where "BinariesPath = ''/usr/bin''"
definition ConfigFilesPath :: string where "ConfigFilesPath = ''/etc''"
definition ManpagesPath :: string where "ManpagesPath = ''/usr/share/doc/manpages''"
definition HeadersPath :: string where "HeadersPath = ''/usr/include''"
definition LicensesPath :: string where "LicensesPath = ''/usr/share/doc''"
definition DocsPath :: string where "DocsPath = ''/usr/share/doc''"
definition LibsPath :: string where "LibsPath = ''/usr/lib''"
definition LibexecPath :: string where "LibexecPath = ''/usr/libexec''"
definition DataDirsPath :: string where "DataDirsPath = ''/usr/share''"

section \<open>Scripts\<close>

record sourcePkgConfig =
  cfg_PrependPath :: "string list"
  cfg_AppendPath :: "string list"

definition AddPath :: "string list \<Rightarrow> string list \<Rightarrow> sourcePkgConfig" where
  "AddPath pre post = \<lparr>cfg_PrependPath = pre, cfg_AppendPath = post\<rparr>"

definition setupPathVar :: "string list \<Rightarrow> string list \<Rightarrow> string" where
  "setupPathVar pre post = (if pre = [] \<and> post = [] then [] else join_with '':'' (pre @ [''$PATH''] @ post))"

definition writeScriptHeader :: "sourcePkgConfig option \<Rightarrow> string" where
  "writeScriptHeader cfg =
    lines_text [''#!/usr/bin/env sh'', [], ''set -ex'']
    @ (case cfg of None \<Rightarrow> []
       | Some c \<Rightarrow>
           (let pathVar = setupPathVar (cfg_PrependPath c) (cfg_AppendPath c)
            in if pathVar \<noteq> [] then line (''export PATH='' @ pathVar) else []))"

definition chmod_line :: "fileMode \<Rightarrow> string \<Rightarrow> string" where
  "chmod_line m p = ''chmod '' @ octal (FileMode_Perm m) @ '' '' @ Quote p"

text \<open>The permissions that an inline source gives to the file of an artifact; none when they are unset.\<close>

definition set_perms :: "fileMode \<Rightarrow> fileMode option" where
  "set_perms m = (if FileMode_Perm m \<noteq> 0 then Some m else None)"

definition inline_perms :: "sourceInline \<Rightarrow> string \<Rightarrow> fileMode option" where
  "inline_perms inl subpath =
    (case (case inl_File inl of None \<Rightarrow> None | Some f \<Rightarrow> set_perms (if_Permissions f)) of
       Some m \<Rightarrow> Some m
     | None \<Rightarrow>
         (case inl_Dir inl of
            None \<Rightarrow> None
          | Some d \<Rightarrow>
              if subpath = [] then set_perms (idir_Permissions d)
              else (case map_of (idir_Files d) subpath of None \<Rightarrow> None | Some f \<Rightarrow> set_perms (if_Permissions f))))"

definition source_perms :: "source gomap \<Rightarrow> string \<Rightarrow> fileMode option" where
  "source_perms srcs key =
    (case Cut key ''/'' of (srcKey, subpath, _) \<Rightarrow>
       (case map_of srcs srcKey of
          None \<Rightarrow> None
        | Some src \<Rightarrow> (case s_Inline src of None \<Rightarrow> None | Some inl \<Rightarrow> inline_perms inl subpath)))"

definition artifact_perms :: "spec \<Rightarrow> string \<Rightarrow> string \<Rightarrow> artifactConfig \<Rightarrow> string list" where
  "artifact_perms sp dir key cfg =
    (let basePath = Join [''debian'', sp_Name sp];
         resolvedName = ResolveName cfg key;
         p = (if ac_SubPath cfg \<noteq> [] then Join [basePath, dir, ac_SubPath cfg, resolvedName]
              else Join [basePath, dir, resolvedName])
     in if FileMode_Perm (ac_Permissions cfg) \<noteq> 0 then [chmod_line (ac_Permissions cfg) p]
        else (case source_perms (sp_Sources sp) key of None \<Rightarrow> [] | Some m \<Rightarrow> [chmod_line m p]))"

definition dir_perms :: "spec \<Rightarrow> string \<Rightarrow> string \<Rightarrow> artifactDirConfig \<Rightarrow> string list" where
  "dir_perms sp root name cfg =
    (if FileMode_Perm (ad_Mode cfg) \<noteq> 0
     then [chmod_line (ad_Mode cfg) (Join [Join [''debian'', sp_Name sp], root, name])] else [])"

text \<open>The kinds of artifacts in the order of the code, with the directory each is installed below.\<close>

definition deb_kinds :: "spec \<Rightarrow> artifacts \<Rightarrow> (string \<times> artifactConfig gomap) list" where
  "deb_kinds sp a =
    [(BinariesPath, a_Binaries a), (ConfigFilesPath, a_ConfigFiles a), (Join [ManpagesPath, sp_Name sp], a_Manpages a),
     (HeadersPath, a_Headers a), (Join [LicensesPath, sp_Name sp], a_Licenses a),
     (Join [DocsPath, sp_Name sp], a_Docs a), (LibsPath, a_Libs a), (LibexecPath, a_Libexec a),
     (DataDirsPath, a_DataDirs a)]"

definition perm_lines :: "spec \<Rightarrow> artifacts \<Rightarrow> string list" where
  "perm_lines sp a =
    concat (map (\<lambda>(dir, m). for_sorted (artifact_perms sp dir) m) (deb_kinds sp a))
    @ for_sorted (dir_perms sp ''/etc'') (GetConfig (a_Directories a))
    @ for_sorted (dir_perms sp ''/var/lib'') (GetState (a_Directories a))"

definition fixupArtifactPerms :: "spec \<Rightarrow> string \<Rightarrow> sourcePkgConfig option \<Rightarrow> string" where
  "fixupArtifactPerms sp target cfg = writeScriptHeader cfg @ lines_text (perm_lines sp (GetArtifacts sp target))"

definition fixupGenerators :: "spec \<Rightarrow> sourcePkgConfig option \<Rightarrow> string" where
  \<open>fixupGenerators sp cfg =
    writeScriptHeader cfg
    @ (if HasGomods sp
       then line (''test -n "$(go env GOMODCACHE)" || (GOPATH="$(go env GOPATH)"; mkdir -p "${GOPATH}/pkg" && ln -s "$(pwd)/''
              @ deb_gomodsName @ ''" "${GOPATH}/pkg/mod")'')
       else [])\<close>

text \<open>\<open>createPatchScript\<close> ranges over the map of patches itself.\<close>

definition deb_patch_line :: "string \<Rightarrow> patchSpec \<Rightarrow> string option" where
  "deb_patch_line name p =
    map_option (\<lambda>strip. ''patch -d '' @ Quote name @ '' -p'' @ Itoa strip @ '' -s < ''
        @ Quote (Join [''${DEBIAN_DIR:=debian}/dalec/patches'', name, p_Source p]))
      (p_Strip p)"

definition createPatchScript :: "spec \<Rightarrow> sourcePkgConfig option \<Rightarrow> string option" where
  "createPatchScript sp cfg =
    map_option (\<lambda>ls. writeScriptHeader cfg @ lines_text ls)
      (those (concat (map (\<lambda>(name, ps). map (deb_patch_line name) ps) (sp_Patches sp))))"

definition pip_lines :: "string list" where
  "pip_lines = pip_setup deb_pipDepsName"

definition export_line :: "string \<Rightarrow> string \<Rightarrow> string" where
  "export_line k v = ''export '' @ Quote k @ ''='' @ Quote v"

definition step_script :: "buildStep \<Rightarrow> string list" where
  "step_script st =
    [[], ''('']
    @ for_sorted (\<lambda>k v. [tab @ export_line k v]) (step_Env st)
    @ [step_Command st, '')'']"

definition createBuildScript :: "spec \<Rightarrow> sourcePkgConfig option \<Rightarrow> string" where
  "createBuildScript sp cfg =
    writeScriptHeader cfg
    @ lines_text
      ((if HasPips sp then pip_lines else [])
       @ for_sorted (\<lambda>k v. [export_line k v]) (ab_Env (sp_Build sp))
       @ concat (map step_script (ab_Steps (sp_Build sp))))"

section \<open>Installation\<close>

definition debianInstall :: string where
  \<open>debianInstall = lines_text
    [''#!/usr/bin/env bash'',
     [],
     ''set -eux'',
     [],
     ''do_install() {'',
     tab @ ''local parent="${1}"'',
     tab @ ''shift'',
     [],
     tab @ ''local dest="${1}"'',
     tab @ ''shift'',
     [],
     tab @ ''mkdir -p "${parent}"'',
     [],
     tab @ ''local files=($@)'',
     [],
     tab @ ''# When the number of files passed in is more than 1, then dest *must* refer'',
     tab @ ''# to a directory'',
     tab @ ''if test ${#files[@]} -gt 1; then'',
     tab @ tab @ ''mkdir -p "${dest}"'',
     tab @ ''fi'',
     [],
     tab @ ''for src in ${files[@]}; do'',
     tab @ tab @ ''cp --reflink=auto -a "${src}" "${dest}"'',
     tab @ ''done'',
     ''}'']\<close>

text \<open>
  The calls of \<open>writeInstall\<close>, as triples of source, directory and name, and the lines of the
  \<open>.manpages\<close> and \<open>.docs\<close> files.
\<close>

type_synonym install_call = "string \<times> string \<times> string"

definition install_dest :: "string \<Rightarrow> string \<Rightarrow> string \<Rightarrow> string" where
  "install_dest pkg dir name = Join [''debian'', pkg, dir, TrimSuffix name ''*'']"

definition writeInstall :: "string \<Rightarrow> install_call \<Rightarrow> string" where
  "writeInstall pkg c =
    (case c of (src, dir, name) \<Rightarrow>
       (let dest = install_dest pkg dir name in ''do_install '' @ Dir dest @ '' '' @ dest @ '' '' @ src))"

definition install_each :: "string \<Rightarrow> artifactConfig gomap \<Rightarrow> install_call list" where
  "install_each root m =
    map (\<lambda>(key, cfg). (key, Join [root, ac_SubPath cfg], ResolveName cfg key)) (sorted_entries m)"

definition manpage_moved :: "string \<Rightarrow> artifactConfig \<Rightarrow> bool" where
  "manpage_moved key cfg = (ac_Name cfg \<noteq> [] \<or> (ac_SubPath cfg \<noteq> [] \<and> ac_SubPath cfg \<noteq> Base (Dir key)))"

definition doc_moved :: "string \<Rightarrow> artifactConfig \<Rightarrow> bool" where
  "doc_moved key cfg = (ResolveName cfg key \<noteq> key \<or> ac_SubPath cfg \<noteq> [])"

definition install_moved ::
  "(string \<Rightarrow> artifactConfig \<Rightarrow> bool) \<Rightarrow> string \<Rightarrow> string \<Rightarrow> artifactConfig gomap \<Rightarrow> install_call list" where
  "install_moved moved root pkg m =
    map (\<lambda>(key, cfg). (key, Join [root, pkg, ac_SubPath cfg], ResolveName cfg key))
      (filter (\<lambda>(key, cfg). moved key cfg) (sorted_entries m))"

definition listed_keys :: "(string \<Rightarrow> artifactConfig \<Rightarrow> bool) \<Rightarrow> artifactConfig gomap \<Rightarrow> string list" where
  "listed_keys moved m = map fst (filter (\<lambda>(key, cfg). \<not> moved key cfg) (sorted_entries m))"

definition install_dropins :: "systemdDropinConfig gomap \<Rightarrow> install_call list" where
  "install_dropins ds =
    map (\<lambda>(key, cfg). (key, Join [''/lib/systemd/system'', sd_Unit cfg @ ''.d''], ResolveName (dropin_Artifact cfg) key))
      (sorted_entries ds)"

definition install_calls :: "artifacts \<Rightarrow> string \<Rightarrow> install_call list" where
  "install_calls a pkg =
    install_each BinariesPath (a_Binaries a)
    @ install_each ConfigFilesPath (a_ConfigFiles a)
    @ install_moved manpage_moved ManpagesPath pkg (a_Manpages a)
    @ install_moved doc_moved DocsPath pkg (a_Docs a)
    @ install_moved doc_moved LicensesPath pkg (a_Licenses a)
    @ install_each HeadersPath (a_Headers a)
    @ install_dropins (GetDropins (a_Systemd a))
    @ install_each DataDirsPath (a_DataDirs a)
    @ install_each LibexecPath (a_Libexec a)
    @ install_each LibsPath (a_Libs a)"

text \<open>The header is written once, before the first call.\<close>

definition install_script :: "artifacts \<Rightarrow> string \<Rightarrow> string" where
  "install_script a pkg =
    (let calls = install_calls a pkg
     in if calls = [] then [] else line debianInstall @ lines_text (map (writeInstall pkg) calls))"

section \<open>File actions\<close>

datatype 's fileAction =
    Mkdir string fileMode bool
  | Mkfile string fileMode string
  | CopyFrom 's string string
  | RunAt string string

type_synonym 's actions = "'s fileAction list"

text \<open>Octal modes.\<close>

definition m0755 :: fileMode where "m0755 = 493"
definition m0700 :: fileMode where "m0700 = 448"
definition m0644 :: fileMode where "m0644 = 420"
definition m0640 :: fileMode where "m0640 = 416"
definition m0600 :: fileMode where "m0600 = 384"

text \<open>A file that is only written when it has content.\<close>

definition if_content :: "'s actions \<Rightarrow> string \<Rightarrow> fileMode \<Rightarrow> string \<Rightarrow> 's actions list" where
  "if_content base path mode content = (if content = [] then [] else [base @ [Mkfile path mode content]])"

text \<open>The symbolic link through which debhelper finds a unit file.\<close>

definition unit_link_name :: "string \<Rightarrow> string \<Rightarrow> systemdUnitConfig \<Rightarrow> string" where
  "unit_link_name pkg key cfg =
    (case unit_SplitName cfg key of (name, suf) \<Rightarrow> (if name \<noteq> pkg then pkg @ ''.'' @ name else name) @ ''.'' @ suf)"

definition unit_link :: "string \<Rightarrow> string \<Rightarrow> string \<times> systemdUnitConfig \<Rightarrow> 's actions" where
  "unit_link dir pkg e =
    (case e of (key, cfg) \<Rightarrow>
       [RunAt (Join [''/tmp/work'', dir]) (''ln -s ../'' @ key @ '' '' @ unit_link_name pkg key cfg)])"

definition dirs_lines :: "createArtifactDirectories \<Rightarrow> string list" where
  "dirs_lines d =
    for_sorted (\<lambda>name c. [Join [''/etc'', name]]) (cad_Config d)
    @ for_sorted (\<lambda>name c. [Join [''/var/lib'', name]]) (cad_State d)"

text \<open>\<open>createInstallScripts\<close>; the first state of the result is the zero state.\<close>

definition createInstallScripts :: "spec \<Rightarrow> string \<Rightarrow> string \<Rightarrow> 's actions list" where
  "createInstallScripts sp dir target =
    (let a = GetArtifacts sp target;
         base = [Mkdir dir m0755 True];
         file = (\<lambda>ext. Join [dir, sp_Name sp @ ext])
     in [[]]
        @ if_content base (file ''.manpages'') m0640 (lines_text (listed_keys manpage_moved (a_Manpages a)))
        @ (case a_Directories a of None \<Rightarrow> [] | Some d \<Rightarrow> [base @ [Mkfile (file ''.dirs'') m0640 (lines_text (dirs_lines d))]])
        @ if_content base (file ''.docs'') m0640
            (lines_text (listed_keys doc_moved (a_Docs a) @ listed_keys doc_moved (a_Licenses a)))
        @ map (unit_link dir (sp_Name sp)) (sorted_entries (GetUnits (a_Systemd a)))
        @ if_content base (file ''.install'') m0700 (install_script a (sp_Name sp)))"

section \<open>The maintainer script\<close>

definition writeUsersPostInst :: "string list \<Rightarrow> string list" where
  "writeUsersPostInst users = map (\<lambda>u. ''getent passwd '' @ u @ '' >/dev/null || useradd '' @ u) users"

definition writeGroupsPostInst :: "string list \<Rightarrow> string list" where
  "writeGroupsPostInst groups = map (\<lambda>g. ''getent group '' @ g @ '' >/dev/null || groupadd --system '' @ g) groups"

definition owner_lines :: "string \<Rightarrow> string \<Rightarrow> string \<Rightarrow> string \<Rightarrow> string list" where
  "owner_lines opt user grp p =
    (if user \<noteq> [] then [''chown '' @ opt @ '' '' @ user @ '' '' @ dq @ ''$DESTDIR'' @ p @ dq] else [])
    @ (if grp \<noteq> [] then [''chgrp '' @ opt @ '' '' @ grp @ '' '' @ dq @ ''$DESTDIR'' @ p @ dq] else [])"

definition artifact_owner :: "string \<Rightarrow> string \<Rightarrow> artifactConfig \<Rightarrow> string list" where
  "artifact_owner root key cfg =
    owner_lines ''-R'' (ac_User cfg) (ac_Group cfg) (Join [root, ac_SubPath cfg, ResolveName cfg key])"

definition dir_owner :: "string \<Rightarrow> string \<Rightarrow> artifactDirConfig \<Rightarrow> string list" where
  "dir_owner root key cfg = owner_lines ''-R'' (ad_User cfg) (ad_Group cfg) (Join [root, key])"

definition link_owner :: "artifactSymlinkConfig \<Rightarrow> string list" where
  "link_owner l = owner_lines ''-h'' (al_User l) (al_Group l) (al_Dest l)"

definition setArtifactOwnershipPostInst :: "spec \<Rightarrow> string \<Rightarrow> string list" where
  "setArtifactOwnershipPostInst sp target =
    (let a = GetArtifacts sp target
     in concat (map (\<lambda>(root, m). for_sorted (artifact_owner root) m) (deb_kinds sp a))
        @ (case a_Directories a of None \<Rightarrow> []
           | Some d \<Rightarrow> for_sorted (dir_owner ConfigFilesPath) (cad_Config d) @ for_sorted (dir_owner ''/var/lib'') (cad_State d))
        @ (if a_Links a = [] then []
           else ''# Set ownership for artifact symlinks'' # concat (map link_owner (a_Links a))))"

definition postinst_lines :: "spec \<Rightarrow> string \<Rightarrow> string list" where
  "postinst_lines sp target =
    (let a = GetArtifacts sp target
     in writeUsersPostInst (a_Users a) @ writeGroupsPostInst (a_Groups a) @ setArtifactOwnershipPostInst sp target)"

section \<open>Patches\<close>

text \<open>One patch of a source: its state, and its line in the series file.\<close>

definition patch_state ::
  "(source \<Rightarrow> string \<Rightarrow> 's) \<Rightarrow> 's actions \<Rightarrow> string \<Rightarrow> spec \<Rightarrow> patchSpec \<Rightarrow> 's actions option" where
  "patch_state toState base patchesPath sp p =
    (let src0 = (case map_of (sp_Sources sp) (p_Source p) of None \<Rightarrow> empty_source | Some s \<Rightarrow> s);
         withPath = (p_Path p \<noteq> []);
         src = (if withPath
                then (case src0 of Source img git http ctx bld inl path incl excl gens \<Rightarrow>
                        Source img git http ctx bld inl path
                          (Some ((case incl of None \<Rightarrow> [] | Some is \<Rightarrow> is) @ [p_Path p])) excl gens)
                else src0);
         copySrc = (if withPath then p_Path p else p_Source p)
     in map_option (\<lambda>isDir.
            base @ [CopyFrom (toState src (if isDir then [] else p_Source p)) copySrc (Join [patchesPath, p_Source p])])
          (SourceIsDir src))"

definition patches_of :: "spec \<Rightarrow> string \<Rightarrow> patchSpec list" where
  "patches_of sp name = (case map_of (sp_Patches sp) name of None \<Rightarrow> [] | Some ps \<Rightarrow> ps)"

definition sourcePatchesDir ::
  "(source \<Rightarrow> string \<Rightarrow> 's) \<Rightarrow> 's actions \<Rightarrow> string \<Rightarrow> string \<Rightarrow> spec \<Rightarrow> 's actions list option" where
  "sourcePatchesDir toState base0 dir name sp =
    (let patchesPath = Join [dir, name];
         base = base0 @ [Mkdir patchesPath m0755 False];
         ps = patches_of sp name
     in map_option (\<lambda>states.
            states @ [base @ [Mkfile (Join [patchesPath, ''series'']) m0640 (lines_text (map (\<lambda>p. name) ps))]])
          (those (map (patch_state toState base patchesPath sp) ps)))"

section \<open>The source tree\<close>

definition link_line :: "artifactSymlinkConfig \<Rightarrow> string" where
  "link_line l = TrimPrefix (al_Source l) ''/'' @ '' '' @ TrimPrefix (al_Dest l) ''/''"

definition dir_or_default :: "string \<Rightarrow> string" where
  "dir_or_default dir = (if dir = [] then ''debian'' else dir)"

text \<open>\<open>controlFile\<close>, \<open>Rules\<close> and \<open>Changelog\<close> each add one file to the input state.\<close>

definition control_states :: "string \<Rightarrow> spec \<Rightarrow> string \<Rightarrow> string \<Rightarrow> string \<Rightarrow> 's actions list" where
  "control_states main_path sp target dir0 distroVersionID =
    (let dir = dir_or_default dir0; base = [Mkdir dir m0755 True]
     in [base @ [Mkfile (Join [dir, ''control'']) m0640 (controlFile main_path sp target)],
         base @ [Mkfile (Join [dir, ''rules'']) m0700 (WriteRules sp target)],
         base @ [Mkfile (Join [dir, ''changelog'']) m0644 (WriteChangelog sp target distroVersionID)]])"

definition debian_state :: "string \<Rightarrow> 's actions" where
  "debian_state dir =
    [Mkdir dir m0755 False, Mkdir (Join [dir, ''source'']) m0755 False,
     Mkfile (Join [dir, ''source/format'']) m0640 ''3.0 (quilt)'',
     Mkdir (Join [dir, ''dalec'']) m0755 False,
     Mkfile (Join [dir, ''source/include-binaries'']) m0640 (line ''dalec'')]"

definition script_states :: "spec \<Rightarrow> string \<Rightarrow> string \<Rightarrow> sourcePkgConfig \<Rightarrow> string \<Rightarrow> 's actions list" where
  "script_states sp target dir cfg patchScript =
    (let dalecDir = [Mkdir dir m0755 False, Mkdir (Join [dir, ''dalec'']) m0755 False];
         script = (\<lambda>name content. dalecDir @ [Mkfile (Join [dir, ''dalec/'' @ name]) m0700 content])
     in [script ''build.sh'' (createBuildScript sp (Some cfg)), script ''patch.sh'' patchScript,
         script ''fix_generators.sh'' (fixupGenerators sp (Some cfg)),
         script ''fix_perms.sh'' (fixupArtifactPerms sp target (Some cfg))]
        @ if_content dalecDir (Join [dir, ''dalec/'' @ customSystemdPostinstFile]) m0600
            (customDHInstallSystemdPostinst sp target)
        @ (let postinst = lines_text (postinst_lines sp target)
           in if postinst = [] then []
              else [dalecDir @ [Mkfile (Join [dir, ''postinst'']) m0700
                      (lines_text [''#!/usr/bin/env sh'', ''set -e''] @ postinst)]]))"

definition link_states :: "spec \<Rightarrow> string \<Rightarrow> string \<Rightarrow> 's actions list" where
  "link_states sp target dir =
    (let links = a_Links (GetArtifacts sp target)
     in if links = [] then []
        else [[Mkdir dir m0755 False, Mkdir (Join [dir, ''dalec'']) m0755 False,
               Mkfile (Join [dir, sp_Name sp @ ''.links'']) m0644 (lines_text (map link_line links))]])"

text \<open>\<open>Debroot\<close>: the states that are merged, in their order, on top of the input state.\<close>

definition Debroot ::
  "(source \<Rightarrow> string \<Rightarrow> 's) \<Rightarrow> string \<Rightarrow> spec \<Rightarrow> string \<Rightarrow> string \<Rightarrow> string \<Rightarrow> sourcePkgConfig \<Rightarrow> 's actions list option" where
  "Debroot toState main_path sp target dir0 distroVersionID cfg =
    (let dir = dir_or_default dir0;
         patches = Join [dir, ''dalec/patches''];
         patchDir = [Mkdir dir m0755 False, Mkdir (Join [dir, ''dalec'']) m0755 False, Mkdir patches m0755 False]
     in case createPatchScript sp (Some cfg) of
          None \<Rightarrow> None
        | Some patchScript \<Rightarrow>
            map_option (\<lambda>pls.
                control_states main_path sp target dir0 distroVersionID
                @ [debian_state dir]
                @ createInstallScripts sp dir target
                @ script_states sp target dir cfg patchScript
                @ concat pls
                @ link_states sp target dir)
              (those (map (\<lambda>name. sourcePatchesDir toState patchDir patches name sp) (SortMapKeys (sp_Patches sp)))))"

section \<open>The source package\<close>

definition deb_validateSpec :: "spec \<Rightarrow> gores" where
  "deb_validateSpec sp = (if sp_Packager sp = [] then Some (Wrap ''packager'' (Sentinel errMissingRequiredField)) else None)"

end
