(* ===== verification/Deb_Props.thy ===== *)
theory Deb_Props
  imports Deb_Root Rpm_Props
begin

text \<open>
  Lemmas on the Debian writers: the two notations for version constraints, the grouping of systemd
  units, the paths that the install, permission and ownership scripts use, independence of map
  iteration order, and that the source tree of a loaded spec is always produced.
\<close>

section \<open>Version constraints\<close>

lemma Cut_space_append: "CHR '' '' \<notin> set pre \<Longrightarrow> Cut (pre @ CHR '' '' # suf) '' '' = (pre, suf, True)"
  by (induction pre) (auto simp: HasPrefix_def)

lemma Cut_space_free: "CHR '' '' \<notin> set v \<Longrightarrow> Cut v '' '' = (v, [], False)"
  by (induction v) (auto simp: HasPrefix_def)

lemma Cut_space_cases:
  obtains (plain) "CHR '' '' \<notin> set v" | (cut) pre suf where "v = pre @ CHR '' '' # suf" "CHR '' '' \<notin> set pre"
  by (metis split_list_first)

lemma rpm_constraint_cut:
  "CHR '' '' \<notin> set pre \<Longrightarrow> FormatVersionConstraint (pre @ CHR '' '' # suf) =
    (if pre = ''<<'' then ''< '' @ suf else if pre = ''>>'' then ''> '' @ suf else if pre = ''='' then ''== '' @ suf
     else pre @ CHR '' '' # suf)"
  by (simp add: FormatVersionConstraint_def Cut_space_append)

lemma deb_constraint_cut:
  "CHR '' '' \<notin> set pre \<Longrightarrow> formatVersionConstraint (pre @ CHR '' '' # suf) =
    (if pre = ''<'' then ''<< '' @ suf else if pre = ''>'' then ''>> '' @ suf else if pre = ''=='' then ''= '' @ suf
     else pre @ CHR '' '' # suf)"
  by (simp add: formatVersionConstraint_def Cut_space_append)

lemma constraint_plain:
  assumes "CHR '' '' \<notin> set v"
  shows "FormatVersionConstraint v = (if v \<noteq> [] \<and> is_digit (hd v) then ''== '' @ v else v)"
    and "formatVersionConstraint v = (if v \<noteq> [] \<and> is_digit (hd v) then ''= '' @ v else v)"
  using Cut_space_free [OF assms] by (cases v; simp add: FormatVersionConstraint_def formatVersionConstraint_def)+

lemma constraint_operators:
  "FormatVersionConstraint (''= '' @ s) = ''== '' @ s" "FormatVersionConstraint (''<< '' @ s) = ''< '' @ s"
  "FormatVersionConstraint (''>> '' @ s) = ''> '' @ s" "FormatVersionConstraint (''== '' @ s) = ''== '' @ s"
  "FormatVersionConstraint (''< '' @ s) = ''< '' @ s" "FormatVersionConstraint (''> '' @ s) = ''> '' @ s"
  "formatVersionConstraint (''== '' @ s) = ''= '' @ s" "formatVersionConstraint (''< '' @ s) = ''<< '' @ s"
  "formatVersionConstraint (''> '' @ s) = ''>> '' @ s" "formatVersionConstraint (''= '' @ s) = ''= '' @ s"
  "formatVersionConstraint (''<< '' @ s) = ''<< '' @ s" "formatVersionConstraint (''>> '' @ s) = ''>> '' @ s"
  using rpm_constraint_cut [of "''=''" s] rpm_constraint_cut [of "''<<''" s] rpm_constraint_cut [of "''>>''" s]
    rpm_constraint_cut [of "''==''" s] rpm_constraint_cut [of "''<''" s] rpm_constraint_cut [of "''>''" s]
    deb_constraint_cut [of "''==''" s] deb_constraint_cut [of "''<''" s] deb_constraint_cut [of "''>''" s]
    deb_constraint_cut [of "''=''" s] deb_constraint_cut [of "''<<''" s] deb_constraint_cut [of "''>>''" s]
  by simp_all

lemma constraint_rpm_of_deb: "FormatVersionConstraint (formatVersionConstraint v) = FormatVersionConstraint v"
proof (cases v rule: Cut_space_cases)
  case plain
  then show ?thesis by (simp add: constraint_plain constraint_operators del: append_Cons)
next
  case (cut pre suf)
  note ops = constraint_operators [of suf, simplified]
  show ?thesis
    unfolding cut(1) deb_constraint_cut [OF cut(2)] using rpm_constraint_cut [OF cut(2)] ops by auto
qed

lemma constraint_deb_of_rpm: "formatVersionConstraint (FormatVersionConstraint v) = formatVersionConstraint v"
proof (cases v rule: Cut_space_cases)
  case plain
  then show ?thesis by (simp add: constraint_plain constraint_operators del: append_Cons)
next
  case (cut pre suf)
  note ops = constraint_operators [of suf, simplified]
  show ?thesis
    unfolding cut(1) rpm_constraint_cut [OF cut(2)] using deb_constraint_cut [OF cut(2)] ops by auto
qed

section \<open>Dependency fields\<close>

lemma sorted_entries_eq_Nil [simp]: "sorted_entries m = [] \<longleftrightarrow> m = []"
proof -
  have "length (sorted_entries m) = length m" by (simp add: sorted_entries_def SortMapKeys_def)
  then show ?thesis by (metis length_0_conv)
qed


interpretation constraint_writer: sorted_writer AppendConstraints
  by unfold_locales (simp add: AppendConstraints_def)

section \<open>Systemd units\<close>

definition unit_base :: "string \<times> systemdUnitConfig \<Rightarrow> string" where
  "unit_base e = fst (unit_SplitName (snd e) (fst e))"

definition unit_full :: "string \<times> systemdUnitConfig \<Rightarrow> string" where
  "unit_full e = unit_base e @ ''.'' @ snd (unit_SplitName (snd e) (fst e))"

definition units_of :: "systemdUnitConfig gomap \<Rightarrow> string \<Rightarrow> systemdUnitConfig gomap" where
  "units_of us b = map (\<lambda>e. (unit_full e, snd e)) (filter (\<lambda>e. unit_base e = b) us)"

lemma mput_new: "k \<notin> fst ` set m \<Longrightarrow> mput k v m = m @ [(k, v)]"
  by (induction m) auto

lemma group_unit_alt:
  "group_unit idx e = mput (unit_base e) (mput (unit_full e) (snd e)
     (case map_of idx (unit_base e) of None \<Rightarrow> [] | Some g \<Rightarrow> g)) idx"
  by (simp add: group_unit_def unit_base_def unit_full_def split_beta)

lemma group_lookup:
  "distinct (map unit_full us) \<Longrightarrow>
    map_of (groupUnitsByBaseName us) b = (if units_of us b = [] then None else Some (units_of us b))"
proof (induction us arbitrary: b rule: rev_induct)
  case Nil
  then show ?case by (simp add: groupUnitsByBaseName_def units_of_def)
next
  case (snoc e us)
  have new: "unit_full e \<notin> fst ` set (units_of us (unit_base e))"
    using snoc.prems by (auto simp: units_of_def)
  have old: "(case map_of (groupUnitsByBaseName us) (unit_base e) of None \<Rightarrow> [] | Some g \<Rightarrow> g) = units_of us (unit_base e)"
    using snoc by simp
  have "groupUnitsByBaseName (us @ [e]) =
      mput (unit_base e) (units_of us (unit_base e) @ [(unit_full e, snd e)]) (groupUnitsByBaseName us)"
    using old mput_new [OF new] by (simp add: groupUnitsByBaseName_def group_unit_alt)
  then show ?case
    using snoc by (auto simp: update_conv' units_of_def)
qed

lemma group_wf: "wf_map (groupUnitsByBaseName us)"
  unfolding groupUnitsByBaseName_def
  by (induction us rule: rev_induct) (simp_all add: group_unit_alt wf_map_def distinct_update)

lemma group_keys:
  "distinct (map unit_full us) \<Longrightarrow> SortMapKeys (groupUnitsByBaseName us) = sorted_list_of_set (unit_base ` set us)"
proof -
  assume d: "distinct (map unit_full us)"
  have "fst ` set (groupUnitsByBaseName us) = unit_base ` set us"
    unfolding dom_map_of_conv_image_fst [symmetric]
    using group_lookup [OF d] by (auto simp: dom_def units_of_def filter_empty_conv split: if_splits)
  then show ?thesis
    using group_wf [of us]
    by (metis SortMapKeys_distinct SortMapKeys_set SortMapKeys_sorted sorted_list_of_set.idem_if_sorted_distinct)
qed

lemma group_entries:
  "distinct (map unit_full us) \<Longrightarrow>
    sorted_entries (groupUnitsByBaseName us) = map (\<lambda>b. (b, units_of us b)) (sorted_list_of_set (unit_base ` set us))"
  unfolding sorted_entries_def group_keys
  by (auto simp: group_lookup units_of_def filter_empty_conv)

definition mixed :: "systemdUnitConfig gomap \<Rightarrow> string \<Rightarrow> bool" where
  "mixed us b = ((\<exists>e \<in> set us. unit_base e = b \<and> su_Enable (snd e)) \<and> (\<exists>e \<in> set us. unit_base e = b \<and> \<not> su_Enable (snd e)))"

definition all_enabled :: "systemdUnitConfig gomap \<Rightarrow> string \<Rightarrow> bool" where
  "all_enabled us b = (\<forall>e \<in> set us. unit_base e = b \<longrightarrow> su_Enable (snd e))"

lemma requiresCustomEnable_iff:
  "requiresCustomEnable g \<longleftrightarrow> (\<exists>e \<in> set g. su_Enable (snd e)) \<and> (\<exists>e \<in> set g. \<not> su_Enable (snd e))"
proof -
  have "length (filter (\<lambda>(k, v). su_Enable v) g) = length g \<longleftrightarrow> (\<forall>e \<in> set g. su_Enable (snd e))"
    by (metis (mono_tags, lifting) case_prod_unfold filter_True length_filter_less less_irrefl)
  then show ?thesis
    unfolding requiresCustomEnable_def Let_def length_0_conv filter_empty_conv case_prod_unfold by auto
qed

lemma units_of_ex: "(\<exists>x \<in> set (units_of us b). P (snd x)) \<longleftrightarrow> (\<exists>e \<in> set us. unit_base e = b \<and> P (snd e))"
proof -
  have "set (units_of us b) = (\<lambda>e. (unit_full e, snd e)) ` {e \<in> set us. unit_base e = b}"
    by (auto simp: units_of_def)
  then show ?thesis by fastforce
qed

lemma requiresCustomEnable_mixed: "requiresCustomEnable (units_of us b) = mixed us b"
  unfolding requiresCustomEnable_iff mixed_def units_of_ex [where P = su_Enable]
    units_of_ex [where P = "\<lambda>u. \<not> su_Enable u"] ..

text \<open>Which unit of a group is looked at first does not matter.\<close>

lemma installsystemd_line_units_of:
  assumes "b \<in> unit_base ` set us"
  shows "installsystemd_line b (units_of us b) =
    tab @ ''dh_installsystemd --name='' @ b @ (if all_enabled us b then [] else '' --no-enable'')"
proof -
  have ne: "units_of us b \<noteq> []" using assms by (auto simp: units_of_def filter_empty_conv)
  have "su_Enable (snd (hd (units_of us b))) \<and> \<not> mixed us b \<longleftrightarrow> all_enabled us b"
  proof -
    obtain e where e: "e \<in> set us" "unit_base e = b" "snd (hd (units_of us b)) = snd e"
      using hd_in_set [OF ne] by (auto simp: units_of_def)
    then show ?thesis by (auto simp: mixed_def all_enabled_def)
  qed
  then show ?thesis by (simp add: installsystemd_line_def requiresCustomEnable_mixed)
qed

text \<open>
  What the rules file and the maintainer script promise, stated on the set of units alone: debhelper
  enables the units of a base name when all of them are enabled, and the units of a base name that
  are enabled differently are handled one by one by the script.
\<close>

definition systemd_rules_spec :: "systemdUnitConfig gomap \<Rightarrow> string list" where
  "systemd_rules_spec us =
    ''override_dh_installsystemd:''
    # map (\<lambda>b. tab @ ''dh_installsystemd --name='' @ b @ (if all_enabled us b then [] else '' --no-enable''))
        (sorted_list_of_set (unit_base ` set us))
    @ (if \<exists>e \<in> set us. mixed us (unit_base e) then custom_enable_lines else [])"

definition custom_script_spec :: "systemdUnitConfig gomap \<Rightarrow> string" where
  "custom_script_spec us =
    concat (map (\<lambda>b. if mixed us b
        then concat (map (\<lambda>(name, cfg). writeCustomEnablePartial name cfg @ customStartTmpl name) (sorted_entries (units_of us b)))
        else [])
      (sorted_list_of_set (unit_base ` set us)))"

lemma lines_text_Cons: "lines_text (l # ls) = line l @ lines_text ls"
  by (simp add: lines_text_def)

lemma lines_text_append: "lines_text (xs @ ys) = lines_text xs @ lines_text ys"
  by (simp add: lines_text_def)

lemma lines_text_Nil [simp]: "lines_text [] = []"
  by (simp add: lines_text_def)

lemma line_not_Nil [simp]: "line l \<noteq> []"
  by (simp add: line_def)

lemma lines_text_eq_Nil [simp]: "lines_text ls = [] \<longleftrightarrow> ls = []"
  by (cases ls) (simp_all add: lines_text_Cons)

lemma OverrideSystemd_spec:
  assumes "GetUnits (a_Systemd (GetArtifacts sp target)) = us" and "distinct (map unit_full us)" and "us \<noteq> []"
  shows "OverrideSystemd sp target = lines_text (systemd_rules_spec us)"
proof -
  let ?bs = "sorted_list_of_set (unit_base ` set us)"
  have lines: "map (\<lambda>(b, g). installsystemd_line b g) (sorted_entries (groupUnitsByBaseName us)) =
      map (\<lambda>b. tab @ ''dh_installsystemd --name='' @ b @ (if all_enabled us b then [] else '' --no-enable'')) ?bs"
    unfolding group_entries [OF assms(2)] by (simp add: installsystemd_line_units_of)
  have "list_ex (\<lambda>(b, g). requiresCustomEnable g) (sorted_entries (groupUnitsByBaseName us))
      \<longleftrightarrow> (\<exists>e \<in> set us. mixed us (unit_base e))"
    unfolding group_entries [OF assms(2)] by (simp add: list_ex_iff requiresCustomEnable_mixed)
  with lines show ?thesis
    unfolding OverrideSystemd_def systemd_rules_spec_def Let_def assms(1) using assms(3) by simp
qed

lemma customDHInstallSystemdPostinst_spec:
  assumes "GetUnits (a_Systemd (GetArtifacts sp target)) = us" and "distinct (map unit_full us)"
  shows "customDHInstallSystemdPostinst sp target = custom_script_spec us"
proof -
  have eq: "(\<lambda>b. if \<not> requiresCustomEnable (units_of us b) then [] else f b) = (\<lambda>b. if mixed us b then f b else [])"
    for f :: "string \<Rightarrow> string"
    by (simp add: requiresCustomEnable_mixed fun_eq_iff)
  show ?thesis
    unfolding customDHInstallSystemdPostinst_def custom_script_spec_def assms(1) group_entries [OF assms(2)]
    by (simp add: comp_def eq)
qed

lemma customStartTmpl_not_Nil [simp]: "customStartTmpl name \<noteq> []"
  by (simp add: customStartTmpl_def postinst_intro_def)

lemma concat_map_if_Nil:
  "(\<And>b. P b \<Longrightarrow> f b \<noteq> []) \<Longrightarrow> concat (map (\<lambda>b. if P b then f b else []) bs) \<noteq> [] \<longleftrightarrow> (\<exists>b \<in> set bs. P b)"
  by (induction bs) auto

lemma custom_script_written: "custom_script_spec us \<noteq> [] \<longleftrightarrow> (\<exists>e \<in> set us. mixed us (unit_base e))"
proof -
  have "concat (map (\<lambda>(n, c). writeCustomEnablePartial n c @ customStartTmpl n) (sorted_entries (units_of us b))) \<noteq> []"
    if "mixed us b" for b
  proof -
    have "sorted_entries (units_of us b) \<noteq> []"
      using that by (auto simp: units_of_def mixed_def filter_empty_conv)
    then show ?thesis by (cases "sorted_entries (units_of us b)") (auto simp: split_beta)
  qed
  then show ?thesis
    unfolding custom_script_spec_def by (subst concat_map_if_Nil) simp_all
qed

section \<open>Installed paths\<close>

definition pkg_name :: "string \<Rightarrow> bool" where
  "pkg_name n = (proper_elem n \<and> n \<noteq> ''..'')"

lemma pkg_name_elems: "pkg_name n \<Longrightarrow> path_elems n = [n] \<and> no_dots n"
  using path_elems_join [of "[n]"] by (auto simp: pkg_name_def no_dots_def)

lemma path_elems_debian: "path_elems ''debian'' = [''debian'']"
  by code_simp

lemma Join_debian:
  assumes "pkg_name n" and "list_all no_dots xs" and "concat (map path_elems xs) \<noteq> []"
  shows "Join (''debian'' # n # xs) = ''debian/'' @ n @ slash # join_with [slash] (concat (map path_elems xs))"
proof -
  have "no_dots ''debian''" by code_simp
  then have "Join (''debian'' # n # xs) = join_with [slash] (concat (map path_elems (''debian'' # n # xs)))"
    using assms pkg_name_elems [OF assms(1)] path_elems_debian
    by (intro Join_no_dots) (simp_all add: is_rooted_def)
  then show ?thesis
    using assms(3) pkg_name_elems [OF assms(1)] path_elems_debian
    by (cases "concat (map path_elems xs)") auto
qed

lemma Join_debian_base:
  assumes "pkg_name n"
  shows "Join [''debian'', n] = ''debian/'' @ n" and "path_elems (''debian/'' @ n) = [''debian'', n]"
proof -
  have "no_dots ''debian''" by code_simp
  then show "Join [''debian'', n] = ''debian/'' @ n"
    using Join_no_dots [of "''debian''" "[n]"] pkg_name_elems [OF assms] path_elems_debian
    by (simp add: is_rooted_def)
  show "path_elems (''debian/'' @ n) = [''debian'', n]"
    using path_elems_append [of "''debian''" n] pkg_name_elems [OF assms] path_elems_debian by simp
qed

text \<open>The path of an artifact below the package directory, in the three ways the scripts build it.\<close>

lemma Join_debian_nested:
  assumes "pkg_name n" and "list_all no_dots xs" and "concat (map path_elems xs) \<noteq> []"
  shows "Join ((''debian/'' @ n) # xs) = Join (''debian'' # n # xs)"
proof -
  have "no_dots (''debian/'' @ n)"
    using Join_debian_base(2) [OF assms(1)] assms(1) by (auto simp: no_dots_def pkg_name_def)
  then have "Join ((''debian/'' @ n) # xs) = join_with [slash] (concat (map path_elems ((''debian/'' @ n) # xs)))"
    using assms(2) Join_debian_base(2) [OF assms(1)]
    by (intro Join_no_dots) (simp_all add: is_rooted_def)
  with Join_debian [OF assms] Join_debian_base(2) [OF assms(1)] assms(3) show ?thesis
    by (cases "concat (map path_elems xs)") auto
qed

definition plain_artifact :: "string \<Rightarrow> artifactConfig \<Rightarrow> bool" where
  "plain_artifact key cfg =
    (no_dots (ac_SubPath cfg) \<and> no_dots (ResolveName cfg key) \<and> \<not> HasSuffix (ResolveName cfg key) ''*'')"

definition deb_path :: "string \<Rightarrow> string \<Rightarrow> artifactConfig \<Rightarrow> string" where
  "deb_path root key cfg = Join [root, ac_SubPath cfg, ResolveName cfg key]"

lemma deb_paths_agree:
  assumes "pkg_name n" and "is_rooted root" and "no_dots root" and "path_elems root \<noteq> []" and "plain_artifact key cfg"
  shows "install_dest n (Join [root, ac_SubPath cfg]) (ResolveName cfg key) = ''debian/'' @ n @ deb_path root key cfg"
    and "Join [Join [''debian'', n], root, ac_SubPath cfg, ResolveName cfg key] = ''debian/'' @ n @ deb_path root key cfg"
    and "ac_SubPath cfg = [] \<Longrightarrow> Join [Join [''debian'', n], root, ResolveName cfg key] = ''debian/'' @ n @ deb_path root key cfg"
proof -
  let ?sub = "ac_SubPath cfg" and ?file = "ResolveName cfg key"
  have nd: "no_dots ?sub" "no_dots ?file" and star: "TrimSuffix ?file ''*'' = ?file"
    using assms(5) by (simp_all add: plain_artifact_def TrimSuffix_def)
  have path: "deb_path root key cfg = slash # join_with [slash] (path_elems root @ path_elems ?sub @ path_elems ?file)"
    unfolding deb_path_def using Join_rooted [of root "[?sub, ?file]"] assms(2,3) nd by simp
  have inner: "path_elems (Join [root, ?sub]) = path_elems root @ path_elems ?sub" "no_dots (Join [root, ?sub])"
    using path_elems_Join_rooted [of root "[?sub]"] assms(2,3) nd by simp_all
  show "install_dest n (Join [root, ?sub]) ?file = ''debian/'' @ n @ deb_path root key cfg"
    unfolding install_dest_def star path
    using Join_debian [OF assms(1), of "[Join [root, ?sub], ?file]"] inner nd assms(4) by simp
  have flat: "Join (''debian'' # n # xs) = ''debian/'' @ n @ deb_path root key cfg"
    if "list_all no_dots xs" "concat (map path_elems xs) = path_elems root @ path_elems ?sub @ path_elems ?file" for xs
    unfolding path using Join_debian [OF assms(1) that(1)] that(2) assms(4) by simp
  have "Join (Join [''debian'', n] # xs) = ''debian/'' @ n @ deb_path root key cfg"
    if "list_all no_dots xs" "concat (map path_elems xs) = path_elems root @ path_elems ?sub @ path_elems ?file" for xs
    unfolding Join_debian_base(1) [OF assms(1)]
    using Join_debian_nested [OF assms(1) that(1)] flat [OF that] that(2) assms(4) by simp
  then show "Join [Join [''debian'', n], root, ?sub, ?file] = ''debian/'' @ n @ deb_path root key cfg"
    and "?sub = [] \<Longrightarrow> Join [Join [''debian'', n], root, ?file] = ''debian/'' @ n @ deb_path root key cfg"
    using nd assms(3) by simp_all
qed

lemma fixed_roots:
  "\<forall>r \<in> {BinariesPath, ConfigFilesPath, ManpagesPath, HeadersPath, LicensesPath, DocsPath, LibsPath, LibexecPath, DataDirsPath}.
     is_rooted r \<and> no_dots r \<and> path_elems r \<noteq> []"
  by code_simp

lemma pkg_root:
  assumes "r \<in> {ManpagesPath, LicensesPath, DocsPath}" and "pkg_name n" and "no_dots sub"
  shows "is_rooted (Join [r, n]) \<and> no_dots (Join [r, n]) \<and> path_elems (Join [r, n]) \<noteq> []"
    and "Join [Join [r, n], sub] = Join [r, n, sub]"
proof -
  have r: "is_rooted r" "no_dots r" "path_elems r \<noteq> []"
    using fixed_roots assms(1) by blast+
  note n = pkg_name_elems [OF assms(2)]
  have j: "path_elems (Join [r, n]) = path_elems r @ [n]" "no_dots (Join [r, n])" "is_rooted (Join [r, n])"
    using path_elems_Join_rooted [of r "[n]"] r n by simp_all
  then show "is_rooted (Join [r, n]) \<and> no_dots (Join [r, n]) \<and> path_elems (Join [r, n]) \<noteq> []" by simp
  show "Join [Join [r, n], sub] = Join [r, n, sub]"
    using Join_rooted [of "Join [r, n]" "[sub]"] Join_rooted [of r "[n, sub]"] j r n assms(3) by simp
qed

lemma deb_kinds_root:
  assumes "(root, m) \<in> set (deb_kinds sp a)" and "pkg_name (sp_Name sp)"
  shows "is_rooted root \<and> no_dots root \<and> path_elems root \<noteq> []"
proof -
  have "root \<in> {BinariesPath, ConfigFilesPath, HeadersPath, LibsPath, LibexecPath, DataDirsPath}
      \<or> (\<exists>r \<in> {ManpagesPath, LicensesPath, DocsPath}. root = Join [r, sp_Name sp])"
    using assms(1) by (auto simp: deb_kinds_def)
  moreover have "no_dots []" by code_simp
  ultimately show ?thesis using fixed_roots pkg_root(1) [OF _ assms(2)] by blast
qed

text \<open>The manual pages and documents that are left to debhelper.\<close>

definition debhelper_keys :: "artifacts \<Rightarrow> string set" where
  "debhelper_keys a = set (listed_keys manpage_moved (a_Manpages a) @ listed_keys doc_moved (a_Docs a)
     @ listed_keys doc_moved (a_Licenses a))"

lemma install_each_mem:
  "wf_map m \<Longrightarrow> (key, cfg) \<in> set m \<Longrightarrow> (key, Join [root, ac_SubPath cfg], ResolveName cfg key) \<in> set (install_each root m)"
  unfolding install_each_def set_map sorted_entries_set by force

lemma install_moved_mem:
  assumes "wf_map m" and "(key, cfg) \<in> set m"
  shows "key \<in> set (listed_keys moved m)
    \<or> (key, Join [root, pkg, ac_SubPath cfg], ResolveName cfg key) \<in> set (install_moved moved root pkg m)"
proof (cases "moved key cfg")
  case True
  then show ?thesis unfolding install_moved_def set_map set_filter sorted_entries_set [OF assms(1)] using assms(2) by force
next
  case False
  then show ?thesis unfolding listed_keys_def set_map set_filter sorted_entries_set [OF assms(1)] using assms(2) by force
qed

lemma install_call_mem:
  assumes "(root, m) \<in> set (deb_kinds sp a)" and "wf_map m" and "(key, cfg) \<in> set m" and "pkg_name (sp_Name sp)"
    and "no_dots (ac_SubPath cfg)"
  shows "key \<in> debhelper_keys a
    \<or> (key, Join [root, ac_SubPath cfg], ResolveName cfg key) \<in> set (install_calls a (sp_Name sp))"
proof -
  have each: "\<And>r. (key, Join [r, ac_SubPath cfg], ResolveName cfg key) \<in> set (install_each r m)"
    by (rule install_each_mem [OF assms(2,3)])
  have moved: "\<And>mv r. r \<in> {ManpagesPath, LicensesPath, DocsPath} \<Longrightarrow> key \<in> set (listed_keys mv m)
      \<or> (key, Join [Join [r, sp_Name sp], ac_SubPath cfg], ResolveName cfg key) \<in> set (install_moved mv r (sp_Name sp) m)"
    using install_moved_mem [OF assms(2,3)] pkg_root(2) [OF _ assms(4,5)] by simp
  consider (fixed) "(root, m) \<in> {(BinariesPath, a_Binaries a), (ConfigFilesPath, a_ConfigFiles a), (HeadersPath, a_Headers a),
      (LibsPath, a_Libs a), (LibexecPath, a_Libexec a), (DataDirsPath, a_DataDirs a)}"
    | (man) "(root, m) = (Join [ManpagesPath, sp_Name sp], a_Manpages a)"
    | (docs) "(root, m) = (Join [DocsPath, sp_Name sp], a_Docs a)"
    | (lic) "(root, m) = (Join [LicensesPath, sp_Name sp], a_Licenses a)"
    using assms(1) by (auto simp: deb_kinds_def)
  then show ?thesis
  proof cases
    case fixed
    then show ?thesis using each [of root] by (auto simp: install_calls_def)
  next
    case man
    then show ?thesis using moved [of ManpagesPath manpage_moved] by (auto simp: install_calls_def debhelper_keys_def)
  next
    case docs
    then show ?thesis using moved [of DocsPath doc_moved] by (auto simp: install_calls_def debhelper_keys_def)
  next
    case lic
    then show ?thesis using moved [of LicensesPath doc_moved] by (auto simp: install_calls_def debhelper_keys_def)
  qed
qed

lemma kind_line_mem:
  assumes "(root, m) \<in> set (deb_kinds sp a)" and "wf_map m" and "(key, cfg) \<in> set m" and "l \<in> set (f root key cfg)"
  shows "l \<in> set (concat (map (\<lambda>(root, m). for_sorted (f root) m) (deb_kinds sp a)))"
  using assms for_sorted_mem [OF assms(2), of l "f root"] by (auto intro!: bexI [of _ "(root, m)"])

section \<open>The source tree is written\<close>

lemma deb_patch_lines_return:
  assumes "list_all (\<lambda>(k, ps). list_all (\<lambda>p. p_Strip p \<noteq> None) ps) (sp_Patches sp)"
  shows "createPatchScript sp cfg \<noteq> None"
proof -
  have "those (concat (map (\<lambda>(name, ps). map (deb_patch_line name) ps) (sp_Patches sp))) \<noteq> None"
    using assms by (intro those_all_Some) (auto simp: deb_patch_line_def list_all_iff)
  then show ?thesis by (auto simp: createPatchScript_def)
qed

lemma SourceIsDir_includes:
  "SourceIsDir (Source img git http ctx bld inl path incl excl gens) = SourceIsDir (Source img git http ctx bld inl path incl' excl gens)"
  unfolding SourceIsDir_def toInterface_def source.sel ..

lemma patch_state_returns: "patch_ok (sp_Sources sp) p \<Longrightarrow> patch_state toState base path sp p \<noteq> None"
  by (auto simp: patch_ok_def patch_state_def Let_def split: option.splits source.splits) (metis SourceIsDir_includes option.distinct(1))+

lemma sourcePatchesDir_returns:
  assumes "list_all (patch_ok (sp_Sources sp)) (patches_of sp name)"
  shows "sourcePatchesDir toState base dir name sp \<noteq> None"
proof -
  have "those (map (patch_state toState b p sp) (patches_of sp name)) \<noteq> None" for b p
    unfolding those_map_None using assms patch_state_returns by (metis list_all_iff)
  then show ?thesis by (simp add: sourcePatchesDir_def Let_def)
qed

lemma Debroot_returns:
  assumes "spec_ok dg sp" and "list_all (\<lambda>(k, ps). list_all (\<lambda>p. p_Strip p \<noteq> None) ps) (sp_Patches sp)"
  shows "Debroot toState main_path sp target dir ver cfg \<noteq> None"
proof -
  have "list_all (patch_ok (sp_Sources sp)) (patches_of sp name)" for name
  proof (cases "map_of (sp_Patches sp) name")
    case (Some ps)
    then have "(name, ps) \<in> set (sp_Patches sp)" by (rule map_of_SomeD)
    with assms(1) Some show ?thesis by (auto simp: patches_of_def spec_ok_def list_all_iff)
  qed (simp add: patches_of_def)
  then have "those (map (\<lambda>name. sourcePatchesDir toState b p name sp) ns) \<noteq> None" for b p ns
    unfolding those_map_None using sourcePatchesDir_returns by blast
  with deb_patch_lines_return [OF assms(2)] show ?thesis
    by (auto simp: Debroot_def Let_def split: option.splits)
qed

end
