(* ===== verification/Deb_Claims.thy ===== *)
theory Deb_Claims
  imports Deb_Props Packaging_Claims
begin




definition deb_bin :: artifactConfig where
  "deb_bin = \<lparr>ac_SubPath = ''tools'', ac_Name = [], ac_Permissions = 493, ac_User = ''app'', ac_Group = []\<rparr>"

definition deb_spec :: spec where
  "deb_spec = empty_spec\<lparr>sp_Name := ''foo'', sp_Artifacts := empty_artifacts\<lparr>a_Binaries := [(''out/foo'', deb_bin)]\<rparr>\<rparr>"

section \<open>The source tree\<close>

text \<open>
  Note (debroot.go, Debroot): the source tree of a loaded spec is always produced.  If the spec passes
  validation and its defaults are filled, no nil pointer is reached: every patch has a strip count
  and names a source with a variant.
\<close>

theorem debroot_written:
  assumes "spec_settled dg s" and "Validate dg s = Some None" and "FillDefaults host s = Some s'"
  shows "Debroot toState main_path s' target dir ver cfg \<noteq> None"
proof -
  have "spec_ok dg s" using assms(1,2) by (simp add: Validate_nil)
  then have "spec_ok dg s'" using spec_defaults.fills assms(3) by blast
  then show ?thesis using FillDefaults_patches [OF assms(3)] by (rule Debroot_returns)
qed

theorem debroot_written_witness:
  "\<exists>s'. FillDefaults demo_host demo_spec = Some s'
    \<and> Debroot (\<lambda>src name. name) ''dalec'' s' ''jammy'' [] ''ubuntu22.04'' (AddPath [] []) \<noteq> None"
proof -
  obtain s' where s': "FillDefaults demo_host demo_spec = Some s'"
    using spec_defaults.returns [of any_digest demo_spec demo_host] demo_valid Validate_nil [OF demo_settled] by auto
  with debroot_written [OF demo_settled demo_valid s'] show ?thesis by blast
qed

text \<open>
  Note (debroot.go, createInstallScripts, fixupArtifactPerms, setArtifactOwnershipPostInst): the scripts
  agree on where an artifact is.  For every kind of artifact, the file is copied to one path below
  the package directory, or left to debhelper, its permissions are set at the same path, and its owner
  is changed at that path of the installed system; unless the name ends in a wildcard or the path
  climbs with \<open>..\<close>.
\<close>

theorem deb_artifact_paths:
  assumes "(root, m) \<in> set (deb_kinds sp (GetArtifacts sp target))" and "wf_map m" and "(key, cfg) \<in> set m"
    and "pkg_name (sp_Name sp)" and "plain_artifact key cfg"
  shows "(key \<in> debhelper_keys (GetArtifacts sp target)
      \<or> (\<exists>dir. ''do_install '' @ dir @ '' debian/'' @ sp_Name sp @ deb_path root key cfg @ '' '' @ key
           \<in> set (map (writeInstall (sp_Name sp)) (install_calls (GetArtifacts sp target) (sp_Name sp)))))
    \<and> (FileMode_Perm (ac_Permissions cfg) \<noteq> 0 \<longrightarrow>
         chmod_line (ac_Permissions cfg) (''debian/'' @ sp_Name sp @ deb_path root key cfg)
           \<in> set (perm_lines sp (GetArtifacts sp target)))
    \<and> set (owner_lines ''-R'' (ac_User cfg) (ac_Group cfg) (deb_path root key cfg))
         \<subseteq> set (setArtifactOwnershipPostInst sp target)"
proof (intro conjI impI)
  let ?a = "GetArtifacts sp target"
  have root: "is_rooted root" "no_dots root" "path_elems root \<noteq> []"
    using deb_kinds_root [OF assms(1,4)] by blast+
  note paths = deb_paths_agree [OF assms(4) root assms(5)]
  have nd: "no_dots (ac_SubPath cfg)" using assms(5) by (simp add: plain_artifact_def)
  have call: "key \<in> debhelper_keys ?a
      \<or> writeInstall (sp_Name sp) (key, Join [root, ac_SubPath cfg], ResolveName cfg key)
           \<in> set (map (writeInstall (sp_Name sp)) (install_calls ?a (sp_Name sp)))"
    using install_call_mem [OF assms(1-4) nd] by auto
  have "writeInstall (sp_Name sp) (key, Join [root, ac_SubPath cfg], ResolveName cfg key)
      = ''do_install '' @ Dir (''debian/'' @ sp_Name sp @ deb_path root key cfg) @ '' debian/'' @ sp_Name sp
        @ deb_path root key cfg @ '' '' @ key"
    unfolding writeInstall_def split_conv Let_def paths(1) by simp
  with call show "key \<in> debhelper_keys ?a
      \<or> (\<exists>dir. ''do_install '' @ dir @ '' debian/'' @ sp_Name sp @ deb_path root key cfg @ '' '' @ key
           \<in> set (map (writeInstall (sp_Name sp)) (install_calls ?a (sp_Name sp))))"
    by metis
  show "chmod_line (ac_Permissions cfg) (''debian/'' @ sp_Name sp @ deb_path root key cfg) \<in> set (perm_lines sp ?a)"
    if "FileMode_Perm (ac_Permissions cfg) \<noteq> 0"
  proof -
    have "chmod_line (ac_Permissions cfg) (''debian/'' @ sp_Name sp @ deb_path root key cfg)
        \<in> set (artifact_perms sp root key cfg)"
      using that paths(2,3) unfolding artifact_perms_def Let_def by simp
    from kind_line_mem [OF assms(1-3), of _ "artifact_perms sp", OF this] show ?thesis
      by (simp add: perm_lines_def)
  qed
  show "set (owner_lines ''-R'' (ac_User cfg) (ac_Group cfg) (deb_path root key cfg))
      \<subseteq> set (setArtifactOwnershipPostInst sp target)"
    using kind_line_mem [OF assms(1-3), of _ artifact_owner]
    unfolding setArtifactOwnershipPostInst_def Let_def artifact_owner_def deb_path_def by auto
qed

theorem deb_artifact_paths_witness:
  "''debian/foo/usr/bin/tools/foo'' = ''debian/'' @ sp_Name deb_spec @ deb_path BinariesPath ''out/foo'' deb_bin
    \<and> chmod_line 493 ''debian/foo/usr/bin/tools/foo'' \<in> set (perm_lines deb_spec (GetArtifacts deb_spec ''jammy''))"
proof -
  have a: "GetArtifacts deb_spec ''jammy'' = sp_Artifacts deb_spec"
    by (simp add: deb_spec_def empty_spec_def GetArtifacts_def)
  have p: "deb_path BinariesPath ''out/foo'' deb_bin = ''/usr/bin/tools/foo''"
    and plain: "plain_artifact ''out/foo'' deb_bin" and name: "pkg_name ''foo''" by code_simp+
  have "(BinariesPath, [(''out/foo'', deb_bin)]) \<in> set (deb_kinds deb_spec (GetArtifacts deb_spec ''jammy''))"
    unfolding a by (simp add: deb_kinds_def deb_spec_def)
  from deb_artifact_paths [OF this, of "''out/foo''" deb_bin] name plain p show ?thesis
    by (simp add: wf_map_def deb_spec_def deb_bin_def FileMode_Perm_def)
qed

section \<open>Control file and changelog\<close>

text \<open>
  Note (template_control.go, formatVersionConstraint; packaging/linux/rpm/template.go,
  FormatVersionConstraint): a version constraint may be written in either notation.  Translating the
  Debian form to rpm gives what the original gives, and the other way round, so a constraint keeps its
  meaning whichever notation a spec uses.
\<close>

theorem constraint_formats_agree:
  "FormatVersionConstraint (formatVersionConstraint v) = FormatVersionConstraint v
    \<and> formatVersionConstraint (FormatVersionConstraint v) = formatVersionConstraint v"
  by (simp add: constraint_rpm_of_deb constraint_deb_of_rpm)

definition same_control :: "spec \<Rightarrow> spec \<Rightarrow> string \<Rightarrow> bool" where
  "same_control sp sp' t =
    (sp_Name sp = sp_Name sp' \<and> sp_Packager sp = sp_Packager sp' \<and> sp_Website sp = sp_Website sp'
     \<and> sp_Description sp = sp_Description sp' \<and> sp_NoArch sp = sp_NoArch sp'
     \<and> a_DisableAutoRequires (GetArtifacts sp t) = a_DisableAutoRequires (GetArtifacts sp' t)
     \<and> same_map (GetBuild (GetPackageDeps sp t)) (GetBuild (GetPackageDeps sp' t))
     \<and> same_map (GetRuntime (GetPackageDeps sp t)) (GetRuntime (GetPackageDeps sp' t))
     \<and> same_map (GetRecommends (GetPackageDeps sp t)) (GetRecommends (GetPackageDeps sp' t))
     \<and> same_map (list_of (GetReplaces sp t)) (list_of (GetReplaces sp' t))
     \<and> same_map (list_of (GetConflicts sp t)) (list_of (GetConflicts sp' t))
     \<and> same_map (list_of (GetProvides sp t)) (list_of (GetProvides sp' t)))"

lemma AppendConstraints_same: "same_map m m' \<Longrightarrow> AppendConstraints m = AppendConstraints m'"
  unfolding same_map_def using constraint_writer.order_irrelevant by blast

lemma add_missing_same: "same_map m m' \<Longrightarrow> same_map (add_missing d m) (add_missing d m')"
proof -
  assume s: "same_map m m'"
  then have eq: "map_of m = map_of m'" and wf: "wf_map m" "mset m = mset m'"
    using map_of_perm by (auto simp: same_map_def)
  show ?thesis
  proof (cases "map_of m d")
    case None
    then have "d \<notin> fst ` set m" "d \<notin> fst ` set m'" using eq by (metis map_of_eq_None_iff)+
    then show ?thesis using wf None eq by (simp add: add_missing_def same_map_def mput_new) (simp add: wf_map_def)
  qed (use s eq in \<open>simp add: add_missing_def\<close>)
qed

lemma relation_field_same:
  "same_map (list_of d) (list_of d') \<Longrightarrow> relation_field f d = relation_field f d'"
  using AppendConstraints_same same_map_Nil unfolding relation_field_def by metis

lemma recommends_alt:
  "recommends d = (if GetRecommends d = [] then [] else line (multiline ''Recommends'' (AppendConstraints (GetRecommends d))))"
  by (simp add: recommends_def GetDep_def split: option.splits)

text \<open>
  Note (template_control.go, WriteControl; helpers.go, SortMapKeys): the control file is reproducible.
  Two specs that differ only in the iteration order of their dependency maps give the same text.
\<close>

theorem deb_control_reproducible:
  assumes "same_control sp sp' t"
  shows "WriteControl sp t = WriteControl sp' t"
proof -
  have m: "same_map (GetBuild (GetPackageDeps sp t)) (GetBuild (GetPackageDeps sp' t))"
    "same_map (GetRuntime (GetPackageDeps sp t)) (GetRuntime (GetPackageDeps sp' t))"
    "same_map (GetRecommends (GetPackageDeps sp t)) (GetRecommends (GetPackageDeps sp' t))"
    using assms by (simp_all add: same_control_def)
  have "a_DisableAutoRequires (GetArtifacts sp t) = a_DisableAutoRequires (GetArtifacts sp' t)"
    using assms by (simp add: same_control_def)
  then have "same_map (runtime_deps sp t (GetPackageDeps sp t)) (runtime_deps sp' t (GetPackageDeps sp' t))"
    using add_missing_same [OF m(2)] m(2) unfolding runtime_deps_def Let_def by (auto intro: add_missing_same)
  then have "AllRuntimeDeps sp t = AllRuntimeDeps sp' t"
    unfolding AllRuntimeDeps_def Let_def depends_def recommends_alt
    using AppendConstraints_same [OF m(3)] same_map_Nil [OF m(3)] by (simp add: AppendConstraints_same)
  moreover have "BuildDeps sp t = BuildDeps sp' t"
    unfolding BuildDeps_def using AppendConstraints_same [OF m(1)] by simp
  moreover have "deb_Replaces sp t = deb_Replaces sp' t" "deb_Conflicts sp t = deb_Conflicts sp' t"
    "deb_Provides sp t = deb_Provides sp' t"
    using assms unfolding deb_Replaces_def deb_Conflicts_def deb_Provides_def same_control_def
    by (blast intro: relation_field_same)+
  moreover have "sp_Name sp = sp_Name sp'" "sp_Packager sp = sp_Packager sp'" "sp_Website sp = sp_Website sp'"
    "sp_Description sp = sp_Description sp'" "deb_Architecture sp = deb_Architecture sp'"
    using assms by (simp_all add: same_control_def deb_Architecture_def)
  ultimately show ?thesis by (simp only: WriteControl_def)
qed

theorem deb_control_reproducible_witness:
  "WriteControl (empty_spec\<lparr>sp_Provides := Some [(''a'', no_constraints), (''b'', no_constraints)]\<rparr>) ''t''
    = WriteControl (empty_spec\<lparr>sp_Provides := Some [(''b'', no_constraints), (''a'', no_constraints)]\<rparr>) ''t''"
  by (rule deb_control_reproducible)
    (simp add: same_control_def empty_spec_def GetArtifacts_def GetPackageDeps_def GetDep_def empty_deps_def same_map_def
      wf_map_def GetReplaces_def GetConflicts_def GetProvides_def target_or_spec_def list_of_def add_mset_commute)

text \<open>
  Note (template_changelog.go, Change): the entry written to the changelog is the oldest one.  The
  comment asks for the most recent entry, the sort is ascending and the first element is taken.
\<close>

theorem changelog_writes_oldest:
  assumes "e \<in> set es"
  shows "change_entry es \<in> set es \<and> ce_Date (change_entry es) \<le> ce_Date e"
proof -
  have mem: "e \<in> set (sort_key ce_Date es)" using assms by simp
  then obtain x xs where s: "sort_key ce_Date es = x # xs" by (cases "sort_key ce_Date es") auto
  then have "x \<in> set es" by (metis list.set_intros(1) set_sort)
  moreover have "sorted (map ce_Date (x # xs))" unfolding s [symmetric] by (rule sorted_sort_key)
  ultimately show ?thesis using mem by (auto simp: change_entry_def s)
qed

theorem changelog_writes_oldest_witness:
  "ce_Date (change_entry [dummyChangelogEntry\<lparr>ce_Date := (2024, 5, 1)\<rparr>, dummyChangelogEntry\<lparr>ce_Date := (2023, 1, 9)\<rparr>])
    \<le> (2023, 1, 9)"
  using changelog_writes_oldest [of "dummyChangelogEntry\<lparr>ce_Date := (2023, 1, 9)\<rparr>"
      "[dummyChangelogEntry\<lparr>ce_Date := (2024, 5, 1)\<rparr>, dummyChangelogEntry\<lparr>ce_Date := (2023, 1, 9)\<rparr>]"]
  by simp

section \<open>Rules\<close>



definition inline_perm_spec :: spec where
  "inline_perm_spec = empty_spec\<lparr>sp_Name := ''foo'',
     sp_Sources := [(''run.sh'', Source None None None None None
       (Some \<lparr>inl_File = Some \<lparr>if_Contents = ''true'', if_Permissions = 493, if_UID = 0, if_GID = 0\<rparr>, inl_Dir = None\<rparr>) [] None None [])],
     sp_Artifacts := empty_artifacts\<lparr>a_Binaries :=
       [(''run.sh'', \<lparr>ac_SubPath = [], ac_Name = [], ac_Permissions = 0, ac_User = [], ac_Group = []\<rparr>)]\<rparr>\<rparr>"

text \<open>
  Note (debroot.go, fixupArtifactPerms; template_rules.go, OverridePerms): the permissions of an inline
  source are written to the permission script, but the rules only run the script when an artifact or
  a directory has permissions of its own.  There is a spec whose script sets permissions and is never
  run.
\<close>

theorem inline_permissions_not_applied:
  "perm_lines inline_perm_spec (GetArtifacts inline_perm_spec ''jammy'') = [''chmod 755 '' @ Quote ''debian/foo/usr/bin/run.sh'']
    \<and> OverridePerms inline_perm_spec ''jammy'' = []"
  by code_simp

text \<open>
  Note (template_rules.go, Envs): the rules file is not reproducible.  \<open>Envs\<close> ranges over the
  environment map itself, so two runs on one spec may export the variables in different orders.
\<close>

theorem rules_env_order:
  "\<exists>sp sp'. same_map (ab_Env (sp_Build sp)) (ab_Env (sp_Build sp'))
    \<and> sp' = sp\<lparr>sp_Build := (sp_Build sp)\<lparr>ab_Env := rev (ab_Env (sp_Build sp))\<rparr>\<rparr> \<and> Envs sp \<noteq> Envs sp'"
proof -
  let ?env = "[(''A'', ''1''), (''B'', ''$(A)'')]"
  let ?sp = "empty_spec\<lparr>sp_Build := empty_build\<lparr>ab_Env := ?env\<rparr>\<rparr>"
  have "Envs ?sp \<noteq> Envs (?sp\<lparr>sp_Build := (sp_Build ?sp)\<lparr>ab_Env := rev ?env\<rparr>\<rparr>)"
    by code_simp
  moreover have "same_map ?env (rev ?env)" by (simp add: same_map_def wf_map_def)
  ultimately show ?thesis by (intro exI [of _ ?sp] exI [of _ "?sp\<lparr>sp_Build := (sp_Build ?sp)\<lparr>ab_Env := rev ?env\<rparr>\<rparr>"]) simp
qed

end
