(* ===== verification/Test_Runner.thy ===== *)
theory Test_Runner
  imports Tests Request
begin

text \<open>
  The test runner: the two commands that run inside the test container (internal/testrunner/files.go
  and step.go), the container runs that a test is made of, and the collection of their results
  (frontend/test_runner.go).

  The file system of the container, the shell word splitter, the execution of a command and of a
  container run are parameters; opening and reading a file are one operation of the file system.  The results that a command writes as JSON are the values that the
  frontend decodes.  A panic is \<^term>\<open>None\<close>.
\<close>

section \<open>File checks\<close>

datatype lstat = NotExist | LstatError string | Stat fileMode bool

record testFS =
  tfs_Lstat :: "string \<Rightarrow> lstat"
  tfs_ReadFile :: "string \<Rightarrow> string + string"

text \<open>The error of a check: a check error, another error, a wrapper with one cause, or joined errors.\<close>

datatype checkTree =
    CheckLeaf checkOutputError
  | OtherError string
  | CheckWrap string checkTree
  | CheckJoin "checkTree list"

fun getFileCheckErrs :: "checkTree \<Rightarrow> checkOutputError list" where
  "getFileCheckErrs (CheckJoin es) = concat (map getFileCheckErrs es)"
| "getFileCheckErrs (CheckWrap m e) = getFileCheckErrs e"
| "getFileCheckErrs (CheckLeaf c) = [c]"
| "getFileCheckErrs (OtherError m) = []"

record fileCheckErrResult =
  fr_Filename :: string
  fr_StepIndex :: "nat option"
  fr_Checks :: "checkOutputError list"

definition joined_checks :: "checkOutputError list \<Rightarrow> checkTree option" where
  "joined_checks es = (if es = [] then None else Some (CheckJoin (map CheckLeaf es)))"

definition checkFile :: "regex \<Rightarrow> testFS \<Rightarrow> string \<Rightarrow> fileCheckOutput \<Rightarrow> checkTree option" where
  "checkFile rx fsys p check =
    (let wrong = CheckLeaf (checkErr NotExistKind ''exists=false'' ''exists=true'' p);
         in_file = CheckWrap (''checking file '' @ p)
     in case tfs_Lstat fsys p of
          NotExist \<Rightarrow> if fc_NotExist check then None else Some wrong
        | LstatError e \<Rightarrow> Some (in_file (OtherError e))
        | Stat mode isDir \<Rightarrow>
            if fc_NotExist check then Some wrong
            else
              (case (if isDir then Inr [] else tfs_ReadFile fsys p) of
                 Inl e \<Rightarrow> Some (CheckWrap (''reading file '' @ p) (OtherError e))
               | Inr v \<Rightarrow> map_option in_file (joined_checks (fileCheck_Check rx check v mode isDir p))))"

definition checkFiles :: "regex \<Rightarrow> testFS \<Rightarrow> fileCheckOutput gomap \<Rightarrow> fileCheckErrResult list" where
  "checkFiles rx fsys files =
    concat (map (\<lambda>(p, check). case checkFile rx fsys p check of
        None \<Rightarrow> []
      | Some e \<Rightarrow> [\<lparr>fr_Filename = p, fr_StepIndex = None, fr_Checks = getFileCheckErrs e\<rparr>]) files)"

text \<open>
  \<open>CheckFilesCmd\<close> after its flags are parsed: the exit code and the results appended to the output.
  \<open>input\<close> is the decoded file of checks, \<open>write\<close> the result of the append.
\<close>

definition CheckFilesCmd ::
  "regex \<Rightarrow> testFS \<Rightarrow> string \<Rightarrow> (string + fileCheckOutput gomap) \<Rightarrow> gores \<Rightarrow> nat \<times> fileCheckErrResult list list" where
  "CheckFilesCmd rx fsys outputPath input write =
    (if outputPath = [] then (1, [])
     else case input of
       Inl e \<Rightarrow> (1, [])
     | Inr files \<Rightarrow>
         (let results = checkFiles rx fsys files
          in if results = [] then (0, [])
             else if write \<noteq> None then (2, [])
             else (0, [results])))"

section \<open>Steps\<close>

datatype procErr = ProcExit nat | ProcFailed string

record procResult =
  pr_Stdout :: string
  pr_Stderr :: string
  pr_Err :: "procErr option"

definition stream_result ::
  "regex \<Rightarrow> nat \<Rightarrow> checkOutput \<Rightarrow> string \<Rightarrow> string \<Rightarrow> fileCheckErrResult list" where
  "stream_result rx stepIndex checker out name =
    (if checkOutput_IsEmpty checker then []
     else case joined_checks (checkOutput_Check rx checker out name) of
       None \<Rightarrow> []
     | Some e \<Rightarrow> [\<lparr>fr_Filename = name, fr_StepIndex = Some stepIndex, fr_Checks = getFileCheckErrs e\<rparr>])"

definition runStep ::
  "regex \<Rightarrow> (string \<Rightarrow> string + string list) \<Rightarrow> (string list \<Rightarrow> string \<Rightarrow> procResult) \<Rightarrow> testStep \<Rightarrow> nat
    \<Rightarrow> (procErr + fileCheckErrResult list) option" where
  "runStep rx shlex exec step stepIndex =
    (case shlex (ts_Command step) of
       Inl e \<Rightarrow> Some (Inl (ProcFailed e))
     | Inr [] \<Rightarrow> None
     | Inr args \<Rightarrow>
         (let res = exec args (ts_Stdin step)
          in case pr_Err res of
               Some e \<Rightarrow> Some (Inl e)
             | None \<Rightarrow>
                 Some (Inr (stream_result rx stepIndex (ts_Stdout step) (pr_Stdout res) ''stdout''
                   @ stream_result rx stepIndex (ts_Stderr step) (pr_Stderr res) ''stderr''))))"

text \<open>\<open>StepCmd\<close> after its flags are parsed; a step index of \<^term>\<open>None\<close> is the flag's default.\<close>

definition StepCmd ::
  "regex \<Rightarrow> (string \<Rightarrow> string + string list) \<Rightarrow> (string list \<Rightarrow> string \<Rightarrow> procResult) \<Rightarrow> nat option
    \<Rightarrow> (string + testStep) \<Rightarrow> gores \<Rightarrow> (nat \<times> fileCheckErrResult list list) option" where
  "StepCmd rx shlex exec stepIndex input write =
    (case stepIndex of
       None \<Rightarrow> Some (1, [])
     | Some i \<Rightarrow>
         (case input of
            Inl e \<Rightarrow> Some (0, [])
          | Inr step \<Rightarrow>
              map_option (\<lambda>r. case r of
                  Inl (ProcExit c) \<Rightarrow> (c, [])
                | Inl (ProcFailed e) \<Rightarrow> (2, [])
                | Inr results \<Rightarrow> if write \<noteq> None then (2, []) else (0, [results]))
                (runStep rx shlex exec step i)))"

section \<open>The container runs of a test\<close>

datatype jsonFile = StepJson testStep | FilesJson "fileCheckOutput gomap"

datatype runMount = FrontendAt string | JsonAt string jsonFile | SourceAt sourceMount

record containerRun =
  cr_Args :: "string list"
  cr_Env :: "string gomap"
  cr_Mounts :: "runMount list"

definition testRunnerPath :: string where "testRunnerPath = ''/tmp/dalec/internal/frontend/test-runner''"
definition testStepPath :: string where "testStepPath = ''/tmp/dalec/internal/frontend/test/step.json''"
definition checkFilesPath :: string where "checkFilesPath = ''/tmp/dalec/internal/frontend/test/check_files''"
definition fileChecksPath :: string where "fileChecksPath = ''/tmp/dalec/internal/frontend/test/files.json''"
definition errorsOutputFullPath :: string where
  "errorsOutputFullPath = ''/tmp/dalec/internal/test/step/output/.errors.txt''"

definition WithTestStep :: "runMount list \<Rightarrow> testStep \<Rightarrow> nat \<Rightarrow> string \<Rightarrow> containerRun" where
  "WithTestStep mounts step index outputPath =
    \<lparr>cr_Args = [testRunnerPath, ''test-steprunner'', ''--output'', outputPath, ''--step-index'', nat_str index, testStepPath],
     cr_Env = ts_Env step,
     cr_Mounts = mounts @ [FrontendAt testRunnerPath, JsonAt testStepPath (StepJson step)]\<rparr>"

definition WithFileChecks :: "runMount list \<Rightarrow> testSpec \<Rightarrow> string \<Rightarrow> containerRun" where
  "WithFileChecks mounts test outputPath =
    \<lparr>cr_Args = [checkFilesPath, ''test-checkfiles'', ''--output'', outputPath, fileChecksPath, t_Name test],
     cr_Env = [],
     cr_Mounts = mounts @ [FrontendAt checkFilesPath, JsonAt fileChecksPath (FilesJson (t_Files test))]\<rparr>"

text \<open>
  The runs of one test on top of the container with the test dependencies.  The code also adds the
  environment of the test to a state of its own, which it does not use afterwards.
\<close>

definition test_runs :: "testSpec \<Rightarrow> containerRun list" where
  "test_runs test =
    (let mounts = map SourceAt (t_Mounts test)
     in map (\<lambda>(i, step). WithTestStep mounts step i errorsOutputFullPath) (enumerate 0 (t_Steps test))
        @ (if t_Files test \<noteq> [] then [WithFileChecks mounts test errorsOutputFullPath] else []))"

section \<open>Collecting the results\<close>

definition kind_text :: "checkKind \<Rightarrow> string" where
  "kind_text k =
    (case k of NotExistKind \<Rightarrow> ''not_exist'' | PermissionsKind \<Rightarrow> ''permissions'' | IsDirKind \<Rightarrow> ''is_dir''
     | EmptyKind \<Rightarrow> ''empty'' | EqualsKind \<Rightarrow> ''equals'' | ContainsKind \<Rightarrow> ''contains'' | MatchesKind \<Rightarrow> ''matches''
     | StartsWithKind \<Rightarrow> ''starts_with'' | EndsWithKind \<Rightarrow> ''ends_with'')"

definition checkOutputError_Error :: "checkOutputError \<Rightarrow> string" where
  "checkOutputError_Error c =
    ''expected '' @ Quote (ce_Path c) @ '' '' @ kind_text (ce_Kind c) @ '' '' @ Quote (ce_Expected c) @ '', got '' @ Quote (ce_Actual c)"

text \<open>\<open>src\<close> is the position of the failed check in the spec, as \<open>file:line\<close>, if it is known.\<close>

definition wrapWithSource :: "gores \<Rightarrow> string option \<Rightarrow> gores" where
  "wrapWithSource err src = with_source (case src of None \<Rightarrow> err | Some s \<Rightarrow> wrap s err)"

datatype checkStep = Return gores | Panic | Append gores gores

text \<open>
  The body of the inner loop for one failed check: the variable \<open>err\<close> before, and afterwards an early
  return, a panic, or the new value of \<open>err\<close> and the error that is appended.
\<close>

definition check_step ::
  "(checkOutputError \<Rightarrow> string option) \<Rightarrow> testSpec \<Rightarrow> fileCheckErrResult \<Rightarrow> gores \<Rightarrow> checkOutputError \<Rightarrow> checkStep" where
  "check_step src test r err ce =
    (case fr_StepIndex r of
       Some idx \<Rightarrow>
         if length (t_Steps test) \<le> idx then Panic
         else
           (let err1 = wrap (Quote (t_Name test)) (wrap (''step '' @ nat_str idx) err)
            in if fr_Filename r \<notin> {''stdout'', ''stderr''}
               then Return (wrap (''unknown output stream name for step command check, if you see this it is a bug and should be reported: stream ''
                      @ Quote (fr_Filename r)) err1)
               else (let err2 = wrapWithSource err1 (src ce) in Append err2 err2))
     | None \<Rightarrow>
         (case map_of (t_Files test) (fr_Filename r) of
            Some f \<Rightarrow>
              (let err2 = wrapWithSource (Some (Wrap (Quote (t_Name test)) (Wrap (fr_Filename r) (Msg (checkOutputError_Error ce))))) (src ce)
               in Append err2 err2)
          | None \<Rightarrow>
              Append err (wrap (''unknown file '' @ Quote (fr_Filename r) @ '' in test '' @ Quote (t_Name test)
                @ '', if you see this it is a bug and should be reported'') err)))"

fun check_loop ::
  "(checkOutputError \<Rightarrow> string option) \<Rightarrow> testSpec \<Rightarrow> (fileCheckErrResult \<times> checkOutputError) list \<Rightarrow> gores
    \<Rightarrow> goerr list \<Rightarrow> checkStep + goerr list" where
  "check_loop src test [] err errs = Inr errs"
| "check_loop src test ((r, ce) # rest) err errs =
    (case check_step src test r err ce of
       Append err' e \<Rightarrow> check_loop src test rest err' (errs @ errs_of e)
     | other \<Rightarrow> Inl other)"

definition flat_checks :: "fileCheckErrResult list \<Rightarrow> (fileCheckErrResult \<times> checkOutputError) list" where
  "flat_checks rs = concat (map (\<lambda>r. map (\<lambda>c. (r, c)) (fr_Checks r)) rs)"

definition test_panic :: "testSpec \<Rightarrow> gores" where
  "test_panic test = Some (Msg (''panic running test '' @ Quote (t_Name test)))"

text \<open>What the decoder of the results file delivers, one element per call before the end of input.\<close>

datatype decoded = Batch "fileCheckErrResult list" | BadJson goerr

fun collect :: "(checkOutputError \<Rightarrow> string option) \<Rightarrow> testSpec \<Rightarrow> decoded list \<Rightarrow> goerr list \<Rightarrow> gores" where
  "collect src test [] errs = join_errs errs"
| "collect src test (BadJson e # ds) errs = Some (Wrap (''failed to decode test result for '' @ Quote (t_Name test)) e)"
| "collect src test (Batch rs # ds) errs =
    (case check_loop src test (flat_checks rs) None errs of
       Inr errs' \<Rightarrow> collect src test ds errs'
     | Inl (Return e) \<Rightarrow> e
     | Inl _ \<Rightarrow> test_panic test)"

text \<open>The outcome of solving the runs of a test and opening the results file.\<close>

datatype evaluated = EvalError goerr bool nat | OpenError goerr | NoResults | Results "decoded list"

text \<open>\<open>FilterStepError\<close>: an exit error of a step replaces the chain around it.\<close>

definition FilterStepError :: "goerr \<Rightarrow> bool \<Rightarrow> nat \<Rightarrow> goerr" where
  "FilterStepError err isExit code =
    (if isExit then Msg (''step did not complete successfully: exit code: '' @ nat_str code) else err)"

definition run_test :: "(checkOutputError \<Rightarrow> string option) \<Rightarrow> (containerRun list \<Rightarrow> evaluated) \<Rightarrow> testSpec \<Rightarrow> gores" where
  "run_test src eval test =
    (case eval (test_runs test) of
       EvalError e isExit code \<Rightarrow> Some (Wrap (Quote (t_Name test)) (FilterStepError e isExit code))
     | OpenError e \<Rightarrow> Some (Wrap (''failed to read test result for '' @ Quote (t_Name test)) e)
     | NoResults \<Rightarrow> None
     | Results ds \<Rightarrow> collect src test ds [])"

section \<open>The group of running tests\<close>

text \<open>
  \<open>errGroup\<close>: the goroutines that have been started and not finished, each with the error it will
  return, and the errors collected so far.  A goroutine finishes in one step because it appends its
  error under the mutex; \<open>Wait\<close> returns when no goroutine is left, and clears the collected errors.
\<close>

record errGroup =
  eg_running :: "gores list"
  eg_errs :: "gores list"

datatype groupEvent = GoEvent gores | FinishEvent gores | WaitEvent gores

definition empty_group :: errGroup where
  "empty_group = \<lparr>eg_running = [], eg_errs = []\<rparr>"

definition join_all :: "gores list \<Rightarrow> gores" where
  "join_all rs = join_errs (concat (map errs_of rs))"

inductive group_step :: "errGroup \<Rightarrow> groupEvent \<Rightarrow> errGroup \<Rightarrow> bool" where
  Go: "group_step g (GoEvent r) (g\<lparr>eg_running := eg_running g @ [r]\<rparr>)"
| Finish: "eg_running g = xs @ r # ys \<Longrightarrow>
    group_step g (FinishEvent r) (g\<lparr>eg_running := xs @ ys, eg_errs := eg_errs g @ [r]\<rparr>)"
| Wait: "eg_running g = [] \<Longrightarrow> group_step g (WaitEvent (join_all (eg_errs g))) (g\<lparr>eg_errs := []\<rparr>)"

inductive group_run :: "errGroup \<Rightarrow> groupEvent list \<Rightarrow> errGroup \<Rightarrow> bool" where
  Stop: "group_run g [] g"
| Step: "group_step g e g' \<Longrightarrow> group_run g' es g'' \<Longrightarrow> group_run g (e # es) g''"

inductive_cases group_stepE: "group_step g e g'"
inductive_cases group_GoE: "group_step g (GoEvent r) g'"
inductive_cases group_FinishE: "group_step g (FinishEvent r) g'"
inductive_cases group_WaitE: "group_step g (WaitEvent r) g'"
inductive_simps group_run_Nil [simp]: "group_run g [] g'"
inductive_simps group_run_Cons: "group_run g (e # es) g'"

section \<open>RunTests\<close>

record runEnv =
  re_Opts :: buildOpts
  re_Evaluate :: gores
  re_ToState :: gores
  re_SourceOpts :: gores
  re_Frontend :: gores
  re_Eval :: "containerRun list \<Rightarrow> evaluated"
  re_Src :: "checkOutputError \<Rightarrow> string option"

definition spec_tests :: "spec \<Rightarrow> string \<Rightarrow> testSpec list" where
  "spec_tests sp target =
    sp_Tests sp @ (case map_of (sp_Targets sp) target of None \<Rightarrow> [] | Some t \<Rightarrow> tg_Tests t)"

text \<open>
  Either \<open>RunTests\<close> returns before a test is started, or it starts one goroutine per test and returns
  what \<open>Wait\<close> returns.
\<close>

datatype runStart = Finished gores | Started "gores list"

definition RunTests :: "runEnv \<Rightarrow> spec \<Rightarrow> string \<Rightarrow> runStart option" where
  "RunTests env sp target =
    (let skipVar = opt_get (re_Opts env) (build_arg ''DALEC_SKIP_TESTS'')
     in if skipVar \<noteq> [] \<and> ParseBool skipVar = None
        then Some (Finished (Some (Wrap ''could not parse build-arg DALEC_SKIP_TESTS'' (Msg skipVar))))
        else if skipVar \<noteq> [] \<and> ParseBool skipVar = Some True then Some (Finished None)
        else if spec_tests sp target = [] then Some (Finished None)
        else if re_Evaluate env \<noteq> None then Some (Finished (re_Evaluate env))
        else if re_ToState env \<noteq> None then Some (Finished (re_ToState env))
        else if re_SourceOpts env \<noteq> None then Some (Finished (re_SourceOpts env))
        else if re_Frontend env \<noteq> None then None
        else Some (Started (map (run_test (re_Src env) (re_Eval env)) (spec_tests sp target))))"

text \<open>The errors of the goroutines that a sequence of events starts, and whether it waits.\<close>

fun started :: "groupEvent list \<Rightarrow> gores list" where
  "started [] = []"
| "started (GoEvent r # es) = r # started es"
| "started (e # es) = started es"

definition is_wait :: "groupEvent \<Rightarrow> bool" where
  "is_wait e = (case e of WaitEvent r \<Rightarrow> True | _ \<Rightarrow> False)"

text \<open>The goroutines may finish in any order, also before all are started.\<close>

inductive RunTests_returns :: "runEnv \<Rightarrow> spec \<Rightarrow> string \<Rightarrow> gores \<Rightarrow> bool" for env sp target where
  early: "RunTests env sp target = Some (Finished r) \<Longrightarrow> RunTests_returns env sp target r"
| waited: "RunTests env sp target = Some (Started (started es)) \<Longrightarrow> \<not> list_ex is_wait es \<Longrightarrow>
    group_run empty_group (es @ [WaitEvent r]) g \<Longrightarrow> RunTests_returns env sp target r"

section \<open>Lemmas on the group\<close>

lemma group_run_append: "group_run g (es @ fs) g'' \<longleftrightarrow> (\<exists>g'. group_run g es g' \<and> group_run g' fs g'')"
  by (induction es arbitrary: g) (auto simp: group_run_Cons)

text \<open>Without a \<open>Wait\<close>, no error is lost and none is invented.\<close>

lemma group_run_conserves:
  "group_run g es g' \<Longrightarrow> \<not> list_ex is_wait es \<Longrightarrow>
    mset (eg_running g') + mset (eg_errs g') = mset (eg_running g) + mset (eg_errs g) + mset (started es)"
proof (induction rule: group_run.induct)
  case (Step g e g' es g'')
  then show ?case by (auto elim!: group_stepE simp: is_wait_def)
qed simp

lemma group_wait:
  assumes "group_run empty_group (es @ [WaitEvent r]) g" and "\<not> list_ex is_wait es"
  shows "\<exists>rs. mset rs = mset (started es) \<and> r = join_all rs"
proof -
  obtain g' where run: "group_run empty_group es g'" and last: "group_step g' (WaitEvent r) g"
    using assms(1) by (auto simp: group_run_append group_run_Cons)
  from last have "eg_running g' = []" "r = join_all (eg_errs g')" by (auto elim: group_WaitE)
  moreover have "mset (eg_running g') + mset (eg_errs g') = mset (started es)"
    using group_run_conserves [OF run assms(2)] by (simp add: empty_group_def)
  ultimately show ?thesis by (intro exI [of _ "eg_errs g'"]) simp
qed

lemma join_all_None: "join_all rs = None \<longleftrightarrow> (\<forall>r \<in> set rs. r = None)"
  by (auto simp: join_all_def)

lemma group_drains: "\<exists>g'. group_run g (map FinishEvent (eg_running g)) g' \<and> eg_running g' = []
    \<and> eg_errs g' = eg_errs g @ eg_running g"
proof (induction "eg_running g" arbitrary: g)
  case Nil
  then show ?case by (intro exI [of _ g]) simp
next
  case (Cons r rs)
  let ?g = "g\<lparr>eg_running := rs, eg_errs := eg_errs g @ [r]\<rparr>"
  have "group_step g (FinishEvent r) ?g"
    using group_step.Finish [of g "[]" r rs] Cons(2) by simp
  moreover obtain g' where "group_run ?g (map FinishEvent rs) g'" "eg_running g' = []" "eg_errs g' = eg_errs ?g @ rs"
    using Cons(1) [of ?g] by auto
  ultimately have "group_run g (FinishEvent r # map FinishEvent rs) g'" "eg_errs g' = eg_errs g @ r # rs"
    by (auto intro: group_run.Step)
  with Cons(2) \<open>eg_running g' = []\<close> show ?case by (metis list.simps(9))
qed

lemma group_starts: "\<exists>g'. group_run g (map GoEvent rs) g' \<and> eg_running g' = eg_running g @ rs \<and> eg_errs g' = eg_errs g"
proof (induction rs arbitrary: g)
  case Nil
  then show ?case by (intro exI [of _ g]) simp
next
  case (Cons r rs)
  let ?g = "g\<lparr>eg_running := eg_running g @ [r]\<rparr>"
  obtain g' where "group_run ?g (map GoEvent rs) g'" "eg_running g' = eg_running ?g @ rs" "eg_errs g' = eg_errs ?g"
    using Cons [of ?g] by blast
  moreover have "group_step g (GoEvent r) ?g" by (rule group_step.Go)
  ultimately show ?case by (intro exI [of _ g']) (auto intro: group_run.Step)
qed

lemma started_append [simp]: "started (es @ fs) = started es @ started fs"
  by (induction es rule: started.induct) auto

lemma started_Go [simp]: "started (map GoEvent rs) = rs"
  by (induction rs) auto

lemma started_Finish [simp]: "started (map FinishEvent rs) = []"
  by (induction rs) auto

lemma no_wait_map [simp]: "\<not> list_ex is_wait (map GoEvent rs)" "\<not> list_ex is_wait (map FinishEvent rs)"
  by (simp_all add: list_ex_iff is_wait_def)

lemma group_completes: "\<exists>g. group_run empty_group ((map GoEvent rs @ map FinishEvent rs) @ [WaitEvent (join_all rs)]) g"
proof -
  obtain g1 where g1: "group_run empty_group (map GoEvent rs) g1" "eg_running g1 = rs" "eg_errs g1 = []"
    using group_starts [of empty_group rs] by (auto simp: empty_group_def)
  obtain g2 where g2: "group_run g1 (map FinishEvent rs) g2" "eg_running g2 = []" "eg_errs g2 = rs"
    using group_drains [of g1] g1 by auto
  have "group_step g2 (WaitEvent (join_all rs)) (g2\<lparr>eg_errs := []\<rparr>)"
    using group_step.Wait [of g2] g2 by simp
  then have "group_run g2 [WaitEvent (join_all rs)] (g2\<lparr>eg_errs := []\<rparr>)"
    by (auto intro: group_run.intros)
  with g1(1) g2(1) show ?thesis by (auto simp: group_run_append)
qed

section \<open>Lemmas on the results\<close>

lemma wrapWithSource_None [simp]: "wrapWithSource err src = None \<longleftrightarrow> err = None"
  by (simp add: wrapWithSource_def split: option.splits)

text \<open>Failed checks of known files are all reported.\<close>

lemma check_loop_files:
  assumes "\<forall>(r, ce) \<in> set xs. fr_StepIndex r = None \<and> map_of (t_Files test) (fr_Filename r) \<noteq> None"
  shows "\<exists>es. check_loop src test xs err errs = Inr (errs @ es) \<and> length es = length xs"
  using assms
proof (induction xs arbitrary: err errs)
  case (Cons x xs)
  obtain r ce where x: "x = (r, ce)" by (cases x)
  then obtain f where "fr_StepIndex r = None" "map_of (t_Files test) (fr_Filename r) = Some f"
    using Cons.prems by auto
  then obtain e where "check_step src test r err ce = Append (Some e) (Some e)"
    by (cases "src ce") (simp_all add: check_step_def Let_def wrapWithSource_def with_source_def wrap_def)
  moreover obtain es where "check_loop src test xs (Some e) (errs @ [e]) = Inr ((errs @ [e]) @ es)" "length es = length xs"
    using Cons.IH [of "Some e" "errs @ [e]"] Cons.prems by auto
  ultimately show ?case unfolding x by (intro exI [of _ "e # es"]) (simp add: errs_of_def)
qed simp

text \<open>Failed checks of the output of a step leave no error behind.\<close>

lemma check_loop_steps:
  assumes "\<forall>(r, ce) \<in> set xs. \<exists>i < length (t_Steps test). fr_StepIndex r = Some i \<and> fr_Filename r \<in> {''stdout'', ''stderr''}"
  shows "check_loop src test xs None errs = Inr errs"
  using assms
proof (induction xs)
  case (Cons x xs)
  obtain r ce where x: "x = (r, ce)" by (cases x)
  then have "check_step src test r None ce = Append None None"
    using Cons.prems by (auto simp: check_step_def Let_def wrapWithSource_def with_source_def wrap_def split: option.splits)
  with Cons show ?case unfolding x by (simp add: errs_of_def)
qed simp

text \<open>When a file passes: also when the check could not be carried out.\<close>

definition file_passes :: "regex \<Rightarrow> testFS \<Rightarrow> string \<Rightarrow> fileCheckOutput \<Rightarrow> bool" where
  "file_passes rx fsys p c =
    (case tfs_Lstat fsys p of
       NotExist \<Rightarrow> fc_NotExist c
     | LstatError e \<Rightarrow> True
     | Stat mode isDir \<Rightarrow>
         \<not> fc_NotExist c
         \<and> (case (if isDir then Inr [] else tfs_ReadFile fsys p) of
              Inl e \<Rightarrow> True
            | Inr v \<Rightarrow> isDir = fc_IsDir c \<and> (fc_Permissions c = 0 \<or> fc_Permissions c = FileMode_Perm mode)
                \<and> output_ok rx (fc_CheckOutput c) v))"

lemma getFileCheckErrs_leaves: "concat (map (getFileCheckErrs \<circ> CheckLeaf) es) = es"
  by (induction es) auto

lemma checkFile_errs:
  "(case checkFile rx fsys p c of None \<Rightarrow> True | Some e \<Rightarrow> getFileCheckErrs e = []) \<longleftrightarrow> file_passes rx fsys p c"
  by (auto simp: checkFile_def file_passes_def Let_def joined_checks_def getFileCheckErrs_leaves fileCheck_Check_nil
      split: lstat.splits sum.splits)

lemma checkFiles_mem:
  "r \<in> set (checkFiles rx fsys files) \<longleftrightarrow>
    (\<exists>x \<in> set files. \<exists>e. checkFile rx fsys (fst x) (snd x) = Some e
      \<and> r = \<lparr>fr_Filename = fst x, fr_StepIndex = None, fr_Checks = getFileCheckErrs e\<rparr>)"
proof -
  have "r \<in> set (case checkFile rx fsys p c of None \<Rightarrow> []
      | Some e \<Rightarrow> [\<lparr>fr_Filename = p, fr_StepIndex = None, fr_Checks = getFileCheckErrs e\<rparr>])
    \<longleftrightarrow> (\<exists>e. checkFile rx fsys p c = Some e \<and> r = \<lparr>fr_Filename = p, fr_StepIndex = None, fr_Checks = getFileCheckErrs e\<rparr>)"
    for p c by (cases "checkFile rx fsys p c") auto
  then show ?thesis unfolding checkFiles_def case_prod_unfold set_concat set_map by simp
qed

lemma flat_checks_Nil: "flat_checks rs = [] \<longleftrightarrow> (\<forall>r \<in> set rs. fr_Checks r = [])"
  by (auto simp: flat_checks_def)

lemma checkFiles_pass: "flat_checks (checkFiles rx fsys files) = [] \<longleftrightarrow> (\<forall>x \<in> set files. file_passes rx fsys (fst x) (snd x))"
proof -
  have "(\<forall>e. checkFile rx fsys p c = Some e \<longrightarrow> getFileCheckErrs e = []) \<longleftrightarrow> file_passes rx fsys p c" for p c
    unfolding checkFile_errs [symmetric] by (simp split: option.splits)
  then show ?thesis
    unfolding flat_checks_Nil Ball_def checkFiles_mem by force
qed

end
