(* ===== verification/Runner_Claims.thy ===== *)
theory Runner_Claims
  imports Test_Runner
begin

text \<open>
  The properties of the test runner (internal/testrunner, frontend/test_runner.go), each with a
  witness on concrete data.
\<close>

definition no_regex :: regex where
  "no_regex m = Inl ''unsupported''"

definition one_file_fs :: testFS where
  "one_file_fs = \<lparr>tfs_Lstat = (\<lambda>p. if p = ''/etc/conf'' then Stat 420 False else NotExist),
     tfs_ReadFile = (\<lambda>p. if p = ''/etc/conf'' then Inr ''a=1'' else Inl ''no such file'')\<rparr>"

definition plain_check :: fileCheckOutput where
  "plain_check = \<lparr>fc_CheckOutput = empty_check\<lparr>co_Equals := ''a=2''\<rparr>, fc_Permissions = 0, fc_IsDir = False, fc_NotExist = False\<rparr>"

definition echo_step :: testStep where
  "echo_step = \<lparr>ts_Command = ''echo hi'', ts_Env = [], ts_Stdin = [], ts_Stdout = empty_check\<lparr>co_Equals := ''hello''\<rparr>,
     ts_Stderr = empty_check\<rparr>"

definition file_test :: testSpec where
  "file_test = \<lparr>t_Name = ''t'', t_Dir = [], t_Mounts = [], t_Env = [(''K'', ''v'')], t_Steps = [echo_step],
     t_Files = [(''/etc/conf'', plain_check)]\<rparr>"

definition words :: "string \<Rightarrow> string + string list" where
  "words s = Inr (split_on (CHR '' '') s)"

definition echo :: "string list \<Rightarrow> string \<Rightarrow> procResult" where
  "echo args stdin = \<lparr>pr_Stdout = ''hi'', pr_Stderr = [], pr_Err = None\<rparr>"

definition demo_env :: runEnv where
  "demo_env = \<lparr>re_Opts = [], re_Evaluate = None, re_ToState = None, re_SourceOpts = None, re_Frontend = None,
     re_Eval = (\<lambda>rs. NoResults), re_Src = (\<lambda>c. None)\<rparr>"

definition test_spec :: spec where
  "test_spec = empty_spec\<lparr>sp_Tests := [file_test]\<rparr>"

section \<open>Results of a test\<close>

text \<open>
  Note (files.go, checkFiles; test_runner.go, RunTests): file checks are reported.  What the check
  command writes is turned into a test failure exactly when a file is missing that should exist,
  exists and should not, or has the wrong kind, permissions or contents.  A check that could not be
  carried out because the file could not be inspected or read counts as passed.
\<close>

theorem file_checks_reported:
  assumes "CheckFilesCmd rx fsys out (Inr (t_Files test)) None = (0, batches)"
  shows "collect src test (map Batch batches) [] = None
    \<longleftrightarrow> (\<forall>x \<in> set (t_Files test). file_passes rx fsys (fst x) (snd x))"
proof -
  let ?rs = "checkFiles rx fsys (t_Files test)"
  have b: "batches = (if ?rs = [] then [] else [?rs])"
    using assms by (auto simp: CheckFilesCmd_def Let_def split: if_splits)
  have "\<forall>(r, ce) \<in> set (flat_checks ?rs). fr_StepIndex r = None \<and> map_of (t_Files test) (fr_Filename r) \<noteq> None"
    by (auto simp: flat_checks_def checkFiles_mem map_of_eq_None_iff) (metis fst_conv image_eqI option.exhaust_sel map_of_eq_None_iff)
  from check_loop_files [OF this, of src None "[]"] obtain es
    where "check_loop src test (flat_checks ?rs) None [] = Inr es" "length es = length (flat_checks ?rs)" by auto
  then have "collect src test [Batch ?rs] [] = None \<longleftrightarrow> flat_checks ?rs = []" by simp (metis length_0_conv)
  moreover have "flat_checks [] = []" by (simp add: flat_checks_def)
  ultimately have "collect src test (map Batch batches) [] = None \<longleftrightarrow> flat_checks ?rs = []"
    unfolding b by simp
  then show ?thesis unfolding checkFiles_pass .
qed

theorem file_checks_reported_witness:
  "\<exists>batches. CheckFilesCmd no_regex one_file_fs ''/out'' (Inr (t_Files file_test)) None = (0, batches)
    \<and> collect (\<lambda>c. None) file_test (map Batch batches) [] \<noteq> None"
proof -
  have "snd (CheckFilesCmd no_regex one_file_fs ''/out'' (Inr (t_Files file_test)) None)
      = [checkFiles no_regex one_file_fs (t_Files file_test)]"
    and ok: "fst (CheckFilesCmd no_regex one_file_fs ''/out'' (Inr (t_Files file_test)) None) = 0" by code_simp+
  then have cmd: "CheckFilesCmd no_regex one_file_fs ''/out'' (Inr (t_Files file_test)) None
      = (0, [checkFiles no_regex one_file_fs (t_Files file_test)])" by (simp add: prod_eq_iff)
  have "\<not> file_passes no_regex one_file_fs ''/etc/conf'' plain_check"
    by (simp add: file_passes_def one_file_fs_def plain_check_def output_ok_def)
  then have "\<not> (\<forall>x \<in> set (t_Files file_test). file_passes no_regex one_file_fs (fst x) (snd x))"
    by (simp add: file_test_def)
  with file_checks_reported [OF cmd] cmd show ?thesis by blast
qed

text \<open>
  Note (step.go, runStep; test_runner.go, RunTests): the checks on the output of a step are not
  reported.  Whatever a step that exits with code 0 prints, the test passes: the error that is wrapped
  for a failed check is the nil error of the decoder, and a wrapped nil error is nil.
\<close>

theorem step_checks_not_reported:
  assumes "StepCmd rx shlex exec (Some i) (Inr step) None = Some (0, batches)" and "i < length (t_Steps test)"
  shows "collect src test (map Batch batches) [] = None"
proof -
  have steps: "\<forall>(r, ce) \<in> set (flat_checks rs). \<exists>i < length (t_Steps test). fr_StepIndex r = Some i
      \<and> fr_Filename r \<in> {''stdout'', ''stderr''}" if "runStep rx shlex exec step i = Some (Inr rs)" for rs
    using that assms(2)
    by (auto simp: runStep_def Let_def stream_result_def flat_checks_def split: sum.splits list.splits option.splits if_splits)
  obtain r where r: "runStep rx shlex exec step i = Some r" using assms(1) by (auto simp: StepCmd_def)
  show ?thesis
  proof (cases r)
    case (Inl e)
    with assms(1) r show ?thesis by (cases e) (auto simp: StepCmd_def)
  next
    case (Inr rs)
    with assms(1) r have "batches = [rs]" by (simp add: StepCmd_def)
    with check_loop_steps [OF steps, of rs src "[]"] r Inr show ?thesis by simp
  qed
qed

theorem step_checks_not_reported_witness:
  "\<exists>batches. StepCmd no_regex words echo (Some 0) (Inr echo_step) None = Some (0, batches)
    \<and> batches = [stream_result no_regex 0 (ts_Stdout echo_step) ''hi'' ''stdout'']
    \<and> fr_Checks (hd (hd batches)) \<noteq> [] \<and> collect (\<lambda>c. None) file_test (map Batch batches) [] = None"
proof -
  let ?b = "[stream_result no_regex 0 (ts_Stdout echo_step) ''hi'' ''stdout'']"
  have "StepCmd no_regex words echo (Some 0) (Inr echo_step) None = Some (0, ?b)" and c: "fr_Checks (hd (hd ?b)) \<noteq> []"
    by code_simp+
  moreover from step_checks_not_reported [OF this(1), of file_test "\<lambda>c. None"]
  have "collect (\<lambda>c. None) file_test (map Batch ?b) [] = None" by (simp add: file_test_def)
  ultimately show ?thesis by blast
qed

text \<open>
  Note (test_runner.go, RunTests): the environment of a test has no effect.  The container runs of a test
  are the same for every value of its environment.
\<close>

theorem test_env_unused:
  "test_runs (t\<lparr>t_Env := env\<rparr>) = test_runs t"
  by (simp add: test_runs_def WithFileChecks_def Let_def)

section \<open>Running all tests\<close>

text \<open>
  Note (test_runner.go, errGroup): no error is lost.  In every interleaving of goroutines that start and
  finish, the errors collected and the errors still to be returned are exactly those of the goroutines
  started since the last wait.
\<close>

theorem group_keeps_errors:
  assumes "group_run empty_group es g" and "\<not> list_ex is_wait es"
  shows "mset (eg_running g) + mset (eg_errs g) = mset (started es)"
  using group_run_conserves [OF assms] by (simp add: empty_group_def)

theorem group_keeps_errors_witness:
  "\<exists>g. group_run empty_group (map GoEvent [None, Some (Msg ''e'')]) g \<and> size (mset (eg_running g) + mset (eg_errs g)) = 2"
proof -
  obtain g where "group_run empty_group (map GoEvent [None, Some (Msg ''e'')]) g"
    using group_starts [of empty_group "[None, Some (Msg ''e'')]"] by blast
  moreover from group_keeps_errors [OF this]
  have "mset (eg_running g) + mset (eg_errs g) = mset [None, Some (Msg ''e'')]" by (simp add: is_wait_def)
  then have "size (mset (eg_running g) + mset (eg_errs g)) = 2" by (simp only:) simp
  ultimately show ?thesis by blast
qed

text \<open>
  C30 (test_runner.go, RunTests): the verdict does not depend on the order in which the tests finish.
  Whatever the interleaving, \<open>RunTests\<close> returns nil exactly when every test of the spec and of the
  target passes.
\<close>

theorem run_tests_verdict:
  assumes "RunTests env sp target = Some (Started ts)" and "RunTests_returns env sp target r"
  shows "r = None \<longleftrightarrow> (\<forall>t \<in> set (spec_tests sp target). run_test (re_Src env) (re_Eval env) t = None)"
proof -
  have ts: "ts = map (run_test (re_Src env) (re_Eval env)) (spec_tests sp target)"
    using assms(1) by (auto simp: RunTests_def Let_def split: if_splits)
  from assms(2) show ?thesis
  proof cases
    case early
    with assms(1) show ?thesis by simp
  next
    case (waited es g)
    with assms(1) have "started es = ts" by simp
    with group_wait [OF waited(3,2)] obtain rs where rs: "mset rs = mset ts" "r = join_all rs" by auto
    then have "set rs = set ts" by (metis set_mset_mset)
    with rs(2) ts show ?thesis by (auto simp: join_all_None)
  qed
qed

theorem run_tests_verdict_witness:
  "\<exists>ts r. RunTests demo_env test_spec ''jammy'' = Some (Started ts) \<and> RunTests_returns demo_env test_spec ''jammy'' r \<and> r = None"
proof -
  have start: "RunTests demo_env test_spec ''jammy'' = Some (Started [None])"
    by code_simp
  obtain g where "group_run empty_group ((map GoEvent [None] @ map FinishEvent [None]) @ [WaitEvent (join_all [None])]) g"
    using group_completes by blast
  then have ret: "RunTests_returns demo_env test_spec ''jammy'' (join_all [None])"
    using start by (intro RunTests_returns.waited [where es = "map GoEvent [None] @ map FinishEvent [None]"]) (simp_all add: is_wait_def)
  have "\<forall>t \<in> set (spec_tests test_spec ''jammy''). run_test (re_Src demo_env) (re_Eval demo_env) t = None"
    by (simp add: run_test_def demo_env_def)
  with run_tests_verdict [OF start ret] start ret show ?thesis by blast
qed

text \<open>
  Note (test_runner.go, RunTests and errGroup): the run comes to an end.  If the frontend image is known,
  \<open>RunTests\<close> can always return, and from every state of the group in which goroutines are running it is
  enough that each of them finishes once for \<open>Wait\<close> to return.
\<close>

theorem run_tests_return:
  assumes "re_Frontend env = None"
  shows "(\<exists>r. RunTests_returns env sp target r)
    \<and> (\<exists>g' r g''. group_run g (map FinishEvent (eg_running g)) g' \<and> group_step g' (WaitEvent r) g'')"
proof
  obtain st where st: "RunTests env sp target = Some st"
    using assms by (cases "RunTests env sp target") (auto simp: RunTests_def Let_def split: if_splits)
  show "\<exists>r. RunTests_returns env sp target r"
  proof (cases st)
    case (Finished r)
    with st show ?thesis by (blast intro: RunTests_returns.early)
  next
    case (Started ts)
    obtain g where "group_run empty_group ((map GoEvent ts @ map FinishEvent ts) @ [WaitEvent (join_all ts)]) g"
      using group_completes by blast
    with st Started have "RunTests_returns env sp target (join_all ts)"
      by (intro RunTests_returns.waited [where es = "map GoEvent ts @ map FinishEvent ts"]) simp_all
    then show ?thesis ..
  qed
  show "\<exists>g' r g''. group_run g (map FinishEvent (eg_running g)) g' \<and> group_step g' (WaitEvent r) g''"
    using group_drains [of g] group_step.Wait by blast
qed

theorem run_tests_return_witness:
  "\<exists>r. RunTests_returns demo_env test_spec ''jammy'' r"
  using run_tests_return [of demo_env test_spec "''jammy''" empty_group] by (simp add: demo_env_def)

end
