(* ===== verification/Git_Cred.thy ===== *)
theory Git_Cred
  imports Writers
begin

text \<open>
  The git credential helper (cmd/frontend/git_credential_helper.go): the payload that git sends and
  expects, the lookup of the secret of a host, and the response.

  Exiting with code 1 is \<^term>\<open>None\<close> or the exit code of the result.  The secrets directory is a parameter:
  a function from paths to contents.
\<close>

section \<open>Base64\<close>

text \<open>\<open>base64.StdEncoding\<close> on byte strings, and its inverse.\<close>

definition b64_alphabet :: string where
  "b64_alphabet = ''ABCDEFGHIJKLMNOPQRSTUVWXYZabcdefghijklmnopqrstuvwxyz0123456789+/''"

definition b64_char :: "nat \<Rightarrow> char" where
  "b64_char i = b64_alphabet ! i"

definition byte :: "char \<Rightarrow> nat" where
  "byte c = of_char c"

fun EncodeToString :: "string \<Rightarrow> string" where
  "EncodeToString [] = []"
| "EncodeToString [a] = [b64_char (byte a div 4), b64_char (byte a mod 4 * 16), CHR ''='', CHR ''='']"
| "EncodeToString [a, b] =
    [b64_char (byte a div 4), b64_char (byte a mod 4 * 16 + byte b div 16), b64_char (byte b mod 16 * 4), CHR ''='']"
| "EncodeToString (a # b # c # rest) =
    [b64_char (byte a div 4), b64_char (byte a mod 4 * 16 + byte b div 16),
     b64_char (byte b mod 16 * 4 + byte c div 64), b64_char (byte c mod 64)] @ EncodeToString rest"

definition b64_val :: "char \<Rightarrow> nat" where
  "b64_val c = length (takeWhile (\<lambda>x. x \<noteq> c) b64_alphabet)"

fun b64_decode :: "string \<Rightarrow> string" where
  "b64_decode (w # x # y # z # rest) =
    char_of (b64_val w * 4 + b64_val x div 16)
    # (if y = CHR ''='' then []
       else char_of (b64_val x mod 16 * 16 + b64_val y div 4)
            # (if z = CHR ''='' then [] else char_of (b64_val y mod 4 * 64 + b64_val z) # b64_decode rest))"
| "b64_decode s = []"

section \<open>The payload\<close>

record gitPayload =
  gp_protocol :: string
  gp_host :: string
  gp_path :: string
  gp_username :: string
  gp_password :: string
  gp_passwordExpiryUtc :: string
  gp_oauthRefreshToken :: string
  gp_url :: string
  gp_authtype :: string
  gp_credential :: string
  gp_ephemeral :: string
  gp_kontinue :: string
  gp_wwwauth :: "string list"
  gp_capability :: "string list"
  gp_state :: "string list"

definition empty_payload :: gitPayload where
  "empty_payload = \<lparr>gp_protocol = [], gp_host = [], gp_path = [], gp_username = [], gp_password = [],
     gp_passwordExpiryUtc = [], gp_oauthRefreshToken = [], gp_url = [], gp_authtype = [], gp_credential = [],
     gp_ephemeral = [], gp_kontinue = [], gp_wwwauth = [], gp_capability = [], gp_state = []\<rparr>"

definition set_key :: "gitPayload \<Rightarrow> string \<Rightarrow> string \<Rightarrow> gitPayload option" where
  "set_key p k v =
    (if k = ''protocol'' then Some (p\<lparr>gp_protocol := v\<rparr>)
     else if k = ''host'' then Some (p\<lparr>gp_host := v\<rparr>)
     else if k = ''path'' then Some (p\<lparr>gp_path := v\<rparr>)
     else if k = ''username'' then Some (p\<lparr>gp_username := v\<rparr>)
     else if k = ''password'' then Some (p\<lparr>gp_password := v\<rparr>)
     else if k = ''password_expiry_utc'' then Some (p\<lparr>gp_passwordExpiryUtc := v\<rparr>)
     else if k = ''oauth_refresh_token'' then Some (p\<lparr>gp_oauthRefreshToken := v\<rparr>)
     else if k = ''url'' then Some (p\<lparr>gp_url := v\<rparr>)
     else if k = ''authtype'' then Some (p\<lparr>gp_authtype := v\<rparr>)
     else if k = ''credential'' then Some (p\<lparr>gp_credential := v\<rparr>)
     else if k = ''ephemeral'' then Some (p\<lparr>gp_ephemeral := v\<rparr>)
     else if k = ''continue'' then Some (p\<lparr>gp_kontinue := v\<rparr>)
     else if k = ''wwwauth[]'' then Some (p\<lparr>gp_wwwauth := gp_wwwauth p @ [v]\<rparr>)
     else if k = ''capability[]'' then Some (p\<lparr>gp_capability := gp_capability p @ [v]\<rparr>)
     else if k = ''state[]'' then Some (p\<lparr>gp_state := gp_state p @ [v]\<rparr>)
     else None)"

fun read_lines :: "gitPayload \<Rightarrow> string list \<Rightarrow> gitPayload option" where
  "read_lines p [] = Some p"
| "read_lines p (l # ls) =
    (case Cut l ''='' of (k, v, ok) \<Rightarrow>
       if \<not> ok then None
       else (case set_key p k v of None \<Rightarrow> None | Some p' \<Rightarrow> read_lines p' ls))"

definition readPayload :: "string \<Rightarrow> gitPayload option" where
  "readPayload input = read_lines empty_payload (scan_lines input)"

definition payload_fill :: "string \<Rightarrow> string \<Rightarrow> string list" where
  "payload_fill k v = (if v = [] then [] else [k @ ''='' @ v])"

definition fillArray :: "string \<Rightarrow> string list \<Rightarrow> string list" where
  "fillArray k vs = concat (map (payload_fill k) vs)"

definition printPayload :: "gitPayload \<Rightarrow> string" where
  "printPayload p =
    lines_text
      (payload_fill ''protocol'' (gp_protocol p) @ payload_fill ''path'' (gp_path p) @ payload_fill ''username'' (gp_username p)
       @ payload_fill ''password'' (gp_password p) @ payload_fill ''password_expiry_utc'' (gp_passwordExpiryUtc p)
       @ payload_fill ''oauth_refresh_token'' (gp_oauthRefreshToken p) @ payload_fill ''url'' (gp_url p)
       @ payload_fill ''authtype'' (gp_authtype p) @ payload_fill ''credential'' (gp_credential p)
       @ payload_fill ''ephemeral'' (gp_ephemeral p) @ payload_fill ''continue'' (gp_kontinue p)
       @ fillArray ''wwwauth[]'' (gp_wwwauth p) @ fillArray ''capability[]'' (gp_capability p)
       @ fillArray ''state[]'' (gp_state p))"

section \<open>Responses\<close>

definition handleSecretHeader :: "string \<Rightarrow> gitPayload \<Rightarrow> goerr + string" where
  "handleSecretHeader b p =
    (case Cut b '' '' of (authtype, credential, ok) \<Rightarrow>
       if \<not> ok then Inl (Msg ''improperly formatted auth header'')
       else Inr (printPayload (p\<lparr>gp_authtype := authtype, gp_credential := credential\<rparr>)))"

definition handleSecretToken :: "string \<Rightarrow> gitPayload \<Rightarrow> string" where
  "handleSecretToken token p =
    printPayload (p\<lparr>gp_authtype := ''basic'', gp_credential := EncodeToString (''x-access-token:'' @ token)\<rparr>)"

definition generateResponse :: "gitPayload \<Rightarrow> string \<Rightarrow> string \<Rightarrow> goerr + string" where
  "generateResponse p secret kind =
    (if kind = ''token'' then Inr (handleSecretToken secret p)
     else if kind = ''header'' then handleSecretHeader secret p
     else Inl (Msg (''unrecognized authType: '' @ Quote kind)))"

definition sendContinue :: "gitPayload \<Rightarrow> string" where
  "sendContinue p = line (printPayload (p\<lparr>gp_kontinue := ''true''\<rparr>))"

definition readKind :: "string \<Rightarrow> string option" where
  "readKind s = (if s \<in> {''token'', ''header''} then Some s else None)"

definition secretDir :: string where "secretDir = ''/run/secrets/''"

definition secret_file :: "string \<Rightarrow> string \<Rightarrow> string" where
  "secret_file host kind = Join [secretDir, host, kind]"

text \<open>\<open>gomodMain\<close> after its flags are parsed: the exit code and the output.\<close>

definition gomodMain :: "(string \<Rightarrow> string option) \<Rightarrow> string \<Rightarrow> string \<Rightarrow> string \<Rightarrow> nat \<times> string" where
  "gomodMain secrets kind action stdin =
    (case readPayload stdin of
       None \<Rightarrow> (1, [])
     | Some p \<Rightarrow>
         if action \<in> {''store'', ''erase''} then (0, sendContinue p)
         else if action \<noteq> ''get'' then (1, [])
         else if gp_protocol p \<noteq> ''http'' \<and> gp_protocol p \<noteq> ''https'' then (0, sendContinue p)
         else (case secrets (secret_file (gp_host p) kind) of
                 None \<Rightarrow> (1, [])
               | Some secret \<Rightarrow>
                   (case generateResponse p secret kind of Inl e \<Rightarrow> (1, []) | Inr resp \<Rightarrow> (0, line resp))))"

section \<open>Lemmas\<close>

lemma secret_path:
  assumes "proper_elem host" and "host \<noteq> ''..''" and "kind \<in> {''token'', ''header''}" and "d \<in> {''/run/secrets'', ''/run/secrets/''}"
  shows "Join [d, host, kind] = ''/run/secrets/'' @ host @ ''/'' @ kind"
proof -
  have "path_elems host = [host]" using path_elems_join [of "[host]"] assms(1) by simp
  moreover have "path_elems ''token'' = [''token'']" "path_elems ''header'' = [''header'']"
    "path_elems ''/run/secrets'' = [''run'', ''secrets'']" "path_elems ''/run/secrets/'' = [''run'', ''secrets'']" by code_simp+
  ultimately have elems: "concat (map path_elems [d, host, kind]) = [''run'', ''secrets'', host, kind]"
    and dots: "list_all no_dots [d, host, kind]"
    using assms(2-4) by (auto simp: no_dots_def)
  moreover have "is_rooted d" using assms(4) by (auto simp: is_rooted_def HasPrefix_def)
  ultimately have "Join [d, host, kind] = slash # join_with [slash] [''run'', ''secrets'', host, kind]"
    using Join_rooted [OF _ dots] by simp
  then show ?thesis by simp
qed

lemma takeWhile_nth: "distinct xs \<Longrightarrow> i < length xs \<Longrightarrow> length (takeWhile (\<lambda>x. x \<noteq> xs ! i) xs) = i"
  by (induction xs arbitrary: i) (auto simp: nth_Cons split: nat.splits)

lemma b64_alphabet: "distinct b64_alphabet" "length b64_alphabet = 64" "CHR ''='' \<notin> set b64_alphabet"
  by code_simp+

lemma b64_val_char [simp]: "i < 64 \<Longrightarrow> b64_val (b64_char i) = i"
  unfolding b64_val_def b64_char_def using takeWhile_nth [of b64_alphabet i] b64_alphabet by simp

lemma b64_char_not_pad [simp]: "i < 64 \<Longrightarrow> b64_char i \<noteq> CHR ''=''"
  unfolding b64_char_def using b64_alphabet by (metis nth_mem)

lemma byte_less: "byte c < 256"
  by (cases c) (simp add: byte_def)

lemma byte_char [simp]: "char_of (byte c) = c"
  by (simp add: byte_def)

text \<open>The three bytes behind four sextets.\<close>

lemma digit_div_mod: "y < k \<Longrightarrow> (x * k + y) div k = x \<and> (x * k + y) mod k = (y :: nat)"
  by simp

lemma digit_less: "x < m \<Longrightarrow> y < k \<Longrightarrow> x * k + y < m * (k :: nat)"
  by (metis add.commute digit_div_mod less_mult_imp_div_less div_less_iff_less_mult less_nat_zero_code neq0_conv)

lemma sextets:
  fixes a b c :: nat
  assumes "a < 256" and "b < 256" and "c < 256"
  shows "a div 4 < 64" "a mod 4 * 16 + b div 16 < 64" "b mod 16 * 4 + c div 64 < 64" "c mod 64 < 64"
    "a div 4 * 4 + (a mod 4 * 16 + b div 16) div 16 = a"
    "(a mod 4 * 16 + b div 16) mod 16 * 16 + (b mod 16 * 4 + c div 64) div 4 = b"
    "(b mod 16 * 4 + c div 64) mod 4 * 64 + c mod 64 = c"
proof -
  have d: "b div 16 < 16" "c div 64 < 4" "a mod 4 < 4" "b mod 16 < 16" using assms by simp_all
  show "a div 4 < 64" "c mod 64 < 64" using assms by simp_all
  show "a mod 4 * 16 + b div 16 < 64" "b mod 16 * 4 + c div 64 < 64"
    using digit_less [OF d(3,1)] digit_less [OF d(4,2)] by simp_all
  show "a div 4 * 4 + (a mod 4 * 16 + b div 16) div 16 = a"
    using digit_div_mod [OF d(1), of "a mod 4"] by (simp only:) simp
  show "(a mod 4 * 16 + b div 16) mod 16 * 16 + (b mod 16 * 4 + c div 64) div 4 = b"
    using digit_div_mod [OF d(1), of "a mod 4"] digit_div_mod [OF d(2), of "b mod 16"] by (simp only:) simp
  show "(b mod 16 * 4 + c div 64) mod 4 * 64 + c mod 64 = c"
    using digit_div_mod [OF d(2), of "b mod 16"] by (simp only:) simp
qed

lemma b64_decode_encode: "b64_decode (EncodeToString s) = s"
proof (induction s rule: EncodeToString.induct)
  case (2 a)
  then show ?case using sextets [of "byte a" 0 0] byte_less [of a] by simp
next
  case (3 a b)
  then show ?case using sextets [of "byte a" "byte b" 0] byte_less [of a] byte_less [of b] by simp
next
  case (4 a b c rest)
  then show ?case
    using sextets [of "byte a" "byte b" "byte c"] byte_less [of a] byte_less [of b] byte_less [of c] by simp
qed simp

section \<open>Reading a printed payload\<close>

lemma Cut_equals: "CHR ''='' \<notin> set k \<Longrightarrow> Cut (k @ ''='' @ v) ''='' = (k, v, True)"
  by (induction k) (auto simp: HasPrefix_def)

lemma read_fill:
  "CHR ''='' \<notin> set k \<Longrightarrow> read_lines p (payload_fill k v @ ls) =
    (if v = [] then read_lines p ls else case set_key p k v of None \<Rightarrow> None | Some p' \<Rightarrow> read_lines p' ls)"
  using Cut_equals [of k v] by (auto simp: payload_fill_def)

lemma read_fillArray:
  assumes "CHR ''='' \<notin> set k" and "\<And>p v. set_key p k v = Some (upd (get p @ [v]) p)"
    and "\<And>x p. get (upd x p) = x" and "\<And>x y p. upd x (upd y p) = upd x p" and "\<And>p. upd (get p) p = p"
    and "[] \<notin> set vs"
  shows "read_lines p (fillArray k vs @ ls) = read_lines (upd (get p @ vs) p) ls"
  using assms(6)
proof (induction vs arbitrary: p)
  case Nil
  then show ?case by (simp add: fillArray_def assms(5))
next
  case (Cons v vs)
  have "v \<noteq> []" using Cons.prems by auto
  then have "read_lines p (fillArray k (v # vs) @ ls) = read_lines (upd (get p @ [v]) p) (fillArray k vs @ ls)"
    using read_fill [OF assms(1), of p v "fillArray k vs @ ls"] assms(2) by (simp add: fillArray_def)
  with Cons show ?case by (simp add: assms(3,4))
qed

lemma read_arrays:
  "[] \<notin> set vs \<Longrightarrow> read_lines p (fillArray ''wwwauth[]'' vs @ ls) = read_lines (p\<lparr>gp_wwwauth := gp_wwwauth p @ vs\<rparr>) ls"
  "[] \<notin> set vs \<Longrightarrow> read_lines p (fillArray ''capability[]'' vs @ ls) = read_lines (p\<lparr>gp_capability := gp_capability p @ vs\<rparr>) ls"
  "[] \<notin> set vs \<Longrightarrow> read_lines p (fillArray ''state[]'' vs @ ls) = read_lines (p\<lparr>gp_state := gp_state p @ vs\<rparr>) ls"
  by (rule read_fillArray; simp add: set_key_def)+

definition payload_values :: "gitPayload \<Rightarrow> string list" where
  "payload_values p =
    [gp_protocol p, gp_path p, gp_username p, gp_password p, gp_passwordExpiryUtc p, gp_oauthRefreshToken p, gp_url p,
     gp_authtype p, gp_credential p, gp_ephemeral p, gp_kontinue p] @ gp_wwwauth p @ gp_capability p @ gp_state p"

definition printable :: "gitPayload \<Rightarrow> bool" where
  "printable p = (list_all scannable (payload_values p) \<and> [] \<notin> set (gp_wwwauth p @ gp_capability p @ gp_state p))"

lemma payload_fill_scannable: "scannable v \<Longrightarrow> CHR 0x0A \<notin> set k \<Longrightarrow> \<forall>l \<in> set (payload_fill k v). scannable l"
  by (auto simp: payload_fill_def scannable_def split: if_splits)

lemma fillArray_scannable:
  "\<forall>v \<in> set vs. scannable v \<Longrightarrow> CHR 0x0A \<notin> set k \<Longrightarrow> \<forall>l \<in> set (fillArray k vs). scannable l"
  unfolding fillArray_def using payload_fill_scannable by auto

lemma read_fills:
  "gp_protocol p = [] \<Longrightarrow> read_lines p (payload_fill ''protocol'' v @ ls) = read_lines (p\<lparr>gp_protocol := v\<rparr>) ls"
  "gp_path p = [] \<Longrightarrow> read_lines p (payload_fill ''path'' v @ ls) = read_lines (p\<lparr>gp_path := v\<rparr>) ls"
  "gp_username p = [] \<Longrightarrow> read_lines p (payload_fill ''username'' v @ ls) = read_lines (p\<lparr>gp_username := v\<rparr>) ls"
  "gp_password p = [] \<Longrightarrow> read_lines p (payload_fill ''password'' v @ ls) = read_lines (p\<lparr>gp_password := v\<rparr>) ls"
  "gp_passwordExpiryUtc p = [] \<Longrightarrow> read_lines p (payload_fill ''password_expiry_utc'' v @ ls) = read_lines (p\<lparr>gp_passwordExpiryUtc := v\<rparr>) ls"
  "gp_oauthRefreshToken p = [] \<Longrightarrow> read_lines p (payload_fill ''oauth_refresh_token'' v @ ls) = read_lines (p\<lparr>gp_oauthRefreshToken := v\<rparr>) ls"
  "gp_url p = [] \<Longrightarrow> read_lines p (payload_fill ''url'' v @ ls) = read_lines (p\<lparr>gp_url := v\<rparr>) ls"
  "gp_authtype p = [] \<Longrightarrow> read_lines p (payload_fill ''authtype'' v @ ls) = read_lines (p\<lparr>gp_authtype := v\<rparr>) ls"
  "gp_credential p = [] \<Longrightarrow> read_lines p (payload_fill ''credential'' v @ ls) = read_lines (p\<lparr>gp_credential := v\<rparr>) ls"
  "gp_ephemeral p = [] \<Longrightarrow> read_lines p (payload_fill ''ephemeral'' v @ ls) = read_lines (p\<lparr>gp_ephemeral := v\<rparr>) ls"
  "gp_kontinue p = [] \<Longrightarrow> read_lines p (payload_fill ''continue'' v @ ls) = read_lines (p\<lparr>gp_kontinue := v\<rparr>) ls"
  by (subst read_fill; cases p; simp add: set_key_def)+

definition payload_lines :: "gitPayload \<Rightarrow> string list" where
  "payload_lines p =
    payload_fill ''protocol'' (gp_protocol p) @ payload_fill ''path'' (gp_path p) @ payload_fill ''username'' (gp_username p)
    @ payload_fill ''password'' (gp_password p) @ payload_fill ''password_expiry_utc'' (gp_passwordExpiryUtc p)
    @ payload_fill ''oauth_refresh_token'' (gp_oauthRefreshToken p) @ payload_fill ''url'' (gp_url p)
    @ payload_fill ''authtype'' (gp_authtype p) @ payload_fill ''credential'' (gp_credential p)
    @ payload_fill ''ephemeral'' (gp_ephemeral p) @ payload_fill ''continue'' (gp_kontinue p)
    @ fillArray ''wwwauth[]'' (gp_wwwauth p) @ fillArray ''capability[]'' (gp_capability p)
    @ fillArray ''state[]'' (gp_state p) @ []"

lemma printPayload_lines: "printPayload p = lines_text (payload_lines p)"
  unfolding printPayload_def payload_lines_def append_Nil2 ..

lemma keys_no_newline:
  "\<forall>k \<in> set [''protocol'', ''path'', ''username'', ''password'', ''password_expiry_utc'', ''oauth_refresh_token'', ''url'', ''authtype'',
     ''credential'', ''ephemeral'', ''continue'', ''wwwauth[]'', ''capability[]'', ''state[]'']. CHR 0x0A \<notin> set k"
  by code_simp

lemma payload_lines_scannable:
  assumes "\<forall>v \<in> set (payload_values p). scannable v"
  shows "\<forall>l \<in> set (payload_lines p). scannable l"
  unfolding payload_lines_def set_append ball_Un
  by (intro conjI payload_fill_scannable fillArray_scannable ballI bspec [OF keys_no_newline] bspec [OF assms])
    (simp_all only: payload_values_def set_append list.set insert_iff Un_iff simp_thms empty_iff)

lemma read_payload_lines:
  "[] \<notin> set (gp_wwwauth p) \<Longrightarrow> [] \<notin> set (gp_capability p) \<Longrightarrow> [] \<notin> set (gp_state p) \<Longrightarrow>
    read_lines empty_payload (payload_lines p) = Some (p\<lparr>gp_host := []\<rparr>)"
  unfolding payload_lines_def
  by (simp only: read_fills read_arrays empty_payload_def gitPayload.select_convs gitPayload.update_convs append_Nil
      read_lines.simps not_False_eq_True) (cases p, simp only: gitPayload.select_convs gitPayload.update_convs)

lemma read_printed: "printable p \<Longrightarrow> readPayload (printPayload p) = Some (p\<lparr>gp_host := []\<rparr>)"
  unfolding readPayload_def printPayload_lines printable_def list_all_iff
  using scan_lines_lines_text [OF payload_lines_scannable, of p] read_payload_lines [of p] by simp

end
