(* ===== verification/Gha.thy ===== *)
theory Gha
  imports Writers Go_Reader
begin

text \<open>
  The converter of Go test events to GitHub annotations (cmd/test2json2gha): collecting the events of
  a run per test (event.go), the console groups and error annotations (github.go) and the loop over
  the event stream (main.go).

  The output of a test is kept in memory instead of a temporary file.  Elapsed times, which only the
  summary prints, are left out with the summary.
\<close>

section \<open>Events and results\<close>

record testEvent =
  te_Action :: string
  te_Package :: string
  te_Test :: string
  te_Output :: string

record testResult =
  tr_output :: string
  tr_pkg :: string
  tr_name :: string
  tr_failed :: bool
  tr_skipped :: bool
  tr_pass :: bool
  tr_timeout :: bool

definition event_key :: "testEvent \<Rightarrow> string" where
  "event_key te = Join [te_Package te, te_Test te]"

definition getOutputStream :: "testResult gomap \<Rightarrow> testEvent \<Rightarrow> testResult" where
  "getOutputStream rs te =
    (case map_of rs (event_key te) of
       Some tr \<Rightarrow> tr
     | None \<Rightarrow> \<lparr>tr_output = [], tr_pkg = te_Package te, tr_name = te_Test te, tr_failed = False, tr_skipped = False,
                tr_pass = False, tr_timeout = False\<rparr>)"

definition mark_action :: "string \<Rightarrow> testResult \<Rightarrow> testResult" where
  "mark_action a tr =
    (if a = ''fail'' then tr\<lparr>tr_failed := True\<rparr>
     else if a = ''skip'' then tr\<lparr>tr_skipped := True\<rparr>
     else if a = ''pass'' then tr\<lparr>tr_pass := True\<rparr>
     else tr)"

definition results_HandleEvent :: "testResult gomap \<Rightarrow> testEvent \<Rightarrow> testResult gomap" where
  "results_HandleEvent rs te =
    (let tr = mark_action (te_Action te) (getOutputStream rs te)
     in mput (event_key te) (tr\<lparr>tr_output := tr_output tr @ te_Output te\<rparr>) rs)"

definition checkFailed_HandleEvent :: "bool \<Rightarrow> testEvent \<Rightarrow> bool" where
  "checkFailed_HandleEvent c te = (c \<or> te_Action te = ''fail'')"

definition markUnfinishedAsTimeout :: "testResult gomap \<Rightarrow> testResult gomap" where
  "markUnfinishedAsTimeout rs =
    map_vals (\<lambda>k tr. if \<not> tr_pass tr \<and> \<not> tr_skipped tr \<and> \<not> tr_failed tr then tr\<lparr>tr_timeout := True\<rparr> else tr) rs"

definition Results :: "testResult gomap \<Rightarrow> testResult list" where
  "Results rs = map snd (sorted_entries rs)"

definition log_name :: "string \<Rightarrow> testResult \<Rightarrow> string" where
  "log_name dir r =
    Join [dir, tr_pkg r, map (\<lambda>c. if c = slash then CHR ''_'' else c) (tr_name r) @ ''.txt'']"

section \<open>Console groups\<close>

definition group_name :: "string \<Rightarrow> testResult \<Rightarrow> string" where
  "group_name modName tr =
    (let pkg = TrimPrefix (TrimPrefix (tr_pkg tr) modName) ''/''
     in (if pkg \<noteq> [] then pkg @ ''.'' else pkg) @ tr_name tr)"

definition console_group :: "string \<Rightarrow> testResult \<Rightarrow> string" where
  "console_group modName tr =
    line (''::group::'' @ group_name modName tr)
    @ (if tr_timeout tr then line ''::warning::Test timed out'' else [])
    @ tr_output tr @ line ''::endgroup::''"

definition console_shown :: "bool \<Rightarrow> testResult \<Rightarrow> bool" where
  "console_shown verbose tr = (tr_name tr \<noteq> [] \<and> (verbose \<or> tr_failed tr \<or> tr_timeout tr))"

definition console_FormatResults :: "string \<Rightarrow> bool \<Rightarrow> testResult list \<Rightarrow> string" where
  "console_FormatResults modName verbose trs = concat (map (console_group modName) (filter (console_shown verbose) trs))"

section \<open>Source positions in test output\<close>

definition getTestOutputLoc :: "string \<Rightarrow> (string \<times> string) option" where
  "getTestOutputLoc s =
    (case Cut s '':'' of (file, extra, ok) \<Rightarrow>
       if \<not> ok then None
       else if \<not> HasPrefix file ''    '' then None
       else (case Cut extra '':'' of (l, _, ok2) \<Rightarrow> if \<not> ok2 then None else Some (TrimSpace file, l)))"

text \<open>\<open>strconv.Atoi\<close> for 64-bit integers.\<close>

definition digits_val :: "string \<Rightarrow> int option" where
  "digits_val s =
    (if s = [] \<or> \<not> list_all is_digit s then None else Some (foldl (\<lambda>n c. 10 * n + (of_char c - 48)) 0 s))"

definition Atoi :: "string \<Rightarrow> int option" where
  "Atoi s =
    (let (neg, ds) = (case s of c # r \<Rightarrow> if c = CHR ''-'' then (True, r) else if c = CHR ''+'' then (False, r) else (False, s)
                      | [] \<Rightarrow> (False, []))
     in case digits_val ds of
          None \<Rightarrow> None
        | Some n \<Rightarrow>
            if neg then (if n \<le> 9223372036854775808 then Some (- n) else None)
            else (if n < 9223372036854775808 then Some n else None))"

definition loc_step :: "string \<times> int \<Rightarrow> string \<Rightarrow> string \<times> int" where
  "loc_step acc txt =
    (case getTestOutputLoc txt of
       None \<Rightarrow> acc
     | Some (f, l) \<Rightarrow>
         if \<not> HasSuffix f ''_test.go'' then acc
         else (f, case Atoi l of None \<Rightarrow> snd acc | Some n \<Rightarrow> n))"

definition getLastFileLine :: "string \<Rightarrow> string \<times> int" where
  "getLastFileLine output = foldl loc_step ([], 0) (scan_lines output)"

section \<open>Filtered logs\<close>

text \<open>
  \<open>filterBuildLogs\<close>: the scan over the lines, with the position after the current line and whether a
  panic has started; a kept line is a section of the original output.
\<close>

definition section_of :: "string \<Rightarrow> nat \<Rightarrow> nat \<Rightarrow> string" where
  "section_of output off len = take len (drop off output)"

fun filter_loop :: "string \<Rightarrow> nat \<Rightarrow> bool \<Rightarrow> string list \<Rightarrow> string" where
  "filter_loop output pos isPanic [] = []"
| "filter_loop output pos isPanic (l # ls) =
    (let lineLength = length l + 1;
         pos' = pos + lineLength;
         loc = getTestOutputLoc l;
         isPanic' = (isPanic \<or> loc = None \<and> HasPrefix l ''panic:'');
         file = (case loc of None \<Rightarrow> [] | Some (f, _) \<Rightarrow> f)
     in (if loc = None \<and> \<not> isPanic' then []
         else if \<not> isPanic' \<and> \<not> HasSuffix file ''_test.go'' then []
         else section_of output (pos' - lineLength) lineLength)
        @ filter_loop output pos' isPanic' ls)"

definition filterBuildLogs :: "string \<Rightarrow> string" where
  "filterBuildLogs output = filter_loop output 0 False (scan_lines output)"

section \<open>Error annotations\<close>

text \<open>
  \<open>urlEncodeNewlineReader\<close> over a buffered reader with \<open>bufio_size\<close> bytes.  The loop over the peeked bytes
  stops as soon as the output fills the caller's buffer of \<open>n\<close> bytes.
\<close>

definition bufio_size :: nat where "bufio_size = 4096"

definition enc_char :: "char \<Rightarrow> string" where
  "enc_char c = (if c = CHR 0x0A then ''%0A'' else [c])"

definition url_encode :: "string \<Rightarrow> string" where
  "url_encode s = concat (map enc_char s)"

fun enc_loop :: "nat \<Rightarrow> string \<Rightarrow> nat \<Rightarrow> string \<Rightarrow> string \<times> nat" where
  "enc_loop n out consumed [] = (out, consumed)"
| "enc_loop n out consumed (c # cs) =
    (let out' = out @ enc_char c
     in if n \<le> length out' then (out', consumed + 1) else enc_loop n out' (consumed + 1) cs)"

definition urlEncodeNewline_Read :: "nat \<Rightarrow> string \<Rightarrow> (string \<times> ioErr option) \<times> string" where
  "urlEncodeNewline_Read n rest =
    (if n = 0 then (([], None), rest)
     else
       (let peeked = take (min n bufio_size) rest
        in if peeked = [] then (([], Some EOF), rest)
           else (case enc_loop n [] 0 peeked of (out, consumed) \<Rightarrow> ((take n out, None), drop consumed rest))))"

definition annotation_header :: "string \<times> int \<Rightarrow> string" where
  "annotation_header loc =
    (case loc of (file, l) \<Rightarrow>
       if file = [] \<and> l = 0 then ''::error::'' else ''::error file='' @ file @ '',line='' @ Itoa l @ ''::'')"

text \<open>The text of an annotation when its reader is copied with buffers of the given lengths.\<close>

definition asErrorAnnotations :: "nat list \<Rightarrow> testResult \<Rightarrow> string" where
  "asErrorAnnotations ns tr =
    annotation_header (getLastFileLine (tr_output tr))
    @ fst (fst (ReadAll urlEncodeNewline_Read ns (filterBuildLogs (tr_output tr)))) @ nl"

definition annotated :: "testResult \<Rightarrow> bool" where
  "annotated tr = ((tr_failed tr \<or> tr_timeout tr) \<and> tr_name tr \<noteq> [])"

definition errorAnnotation_FormatResults :: "nat list \<Rightarrow> testResult list \<Rightarrow> string" where
  "errorAnnotation_FormatResults ns trs = concat (map (asErrorAnnotations ns) (filter annotated trs))"

section \<open>The event loop\<close>

record ghaConfig =
  gc_modName :: string
  gc_verbose :: bool
  gc_stream :: bool

text \<open>
  The streamed output, the formatted results and the returned values of \<open>do\<close>: whether a test failed, or
  the error of a broken event stream.  The results are formatted in both cases.
\<close>

definition gha_do :: "nat list \<Rightarrow> ghaConfig \<Rightarrow> testEvent list \<Rightarrow> gores \<Rightarrow> string \<times> (goerr + bool)" where
  "gha_do ns cfg events decodeErr =
    (let results = markUnfinishedAsTimeout (foldl results_HandleEvent [] events);
         streamed = (if gc_stream cfg then concat (map te_Output events) else [])
     in (streamed @ console_FormatResults (gc_modName cfg) (gc_verbose cfg) (Results results)
           @ errorAnnotation_FormatResults ns (Results results),
         case decodeErr of Some e \<Rightarrow> Inl e | None \<Rightarrow> Inr (foldl checkFailed_HandleEvent False events)))"

text \<open>The exit code of the program.\<close>

definition gha_exit :: "goerr + bool \<Rightarrow> nat" where
  "gha_exit r = (case r of Inl e \<Rightarrow> 1 | Inr failed \<Rightarrow> if failed then 2 else 0)"

section \<open>What the results hold\<close>

text \<open>The result of a test as a function of its events, in their order.\<close>

definition result_of :: "testEvent list \<Rightarrow> testResult" where
  "result_of es =
    \<lparr>tr_output = concat (map te_Output es), tr_pkg = te_Package (hd es), tr_name = te_Test (hd es),
     tr_failed = list_ex (\<lambda>e. te_Action e = ''fail'') es, tr_skipped = list_ex (\<lambda>e. te_Action e = ''skip'') es,
     tr_pass = list_ex (\<lambda>e. te_Action e = ''pass'') es, tr_timeout = False\<rparr>"

definition events_of :: "string \<Rightarrow> testEvent list \<Rightarrow> testEvent list" where
  "events_of k es = filter (\<lambda>e. event_key e = k) es"

lemma result_of_snoc:
  "es \<noteq> [] \<Longrightarrow> result_of (es @ [e]) =
    (let tr = mark_action (te_Action e) (result_of es) in tr\<lparr>tr_output := tr_output tr @ te_Output e\<rparr>)"
  by (simp add: result_of_def mark_action_def Let_def)

lemma result_of_single:
  "result_of [e] = (let tr = mark_action (te_Action e) \<lparr>tr_output = [], tr_pkg = te_Package e, tr_name = te_Test e,
      tr_failed = False, tr_skipped = False, tr_pass = False, tr_timeout = False\<rparr> in tr\<lparr>tr_output := tr_output tr @ te_Output e\<rparr>)"
  by (simp add: result_of_def mark_action_def Let_def)

lemma results_collected:
  "map_of (foldl results_HandleEvent [] es) k = (if events_of k es = [] then None else Some (result_of (events_of k es)))"
proof (induction es arbitrary: k rule: rev_induct)
  case Nil
  then show ?case by (simp add: events_of_def)
next
  case (snoc e es)
  have old: "getOutputStream (foldl results_HandleEvent [] es) e =
      (if events_of (event_key e) es = [] then \<lparr>tr_output = [], tr_pkg = te_Package e, tr_name = te_Test e,
         tr_failed = False, tr_skipped = False, tr_pass = False, tr_timeout = False\<rparr> else result_of (events_of (event_key e) es))"
    by (simp add: getOutputStream_def snoc)
  have "map_of (foldl results_HandleEvent [] (es @ [e])) (event_key e) = Some (result_of (events_of (event_key e) es @ [e]))"
    using old result_of_snoc [of "events_of (event_key e) es" e] result_of_single [of e]
    by (simp add: results_HandleEvent_def Let_def update_conv)
  moreover have "map_of (foldl results_HandleEvent [] (es @ [e])) k = map_of (foldl results_HandleEvent [] es) k" if "k \<noteq> event_key e" for k
    using that by (simp add: results_HandleEvent_def Let_def update_conv)
  ultimately show ?case using snoc by (cases "k = event_key e") (simp_all add: events_of_def)
qed

lemma results_wf: "wf_map (foldl results_HandleEvent [] es)"
  by (induction es rule: rev_induct) (simp_all add: results_HandleEvent_def Let_def wf_map_def distinct_update)

lemma checkFailed_fold: "foldl checkFailed_HandleEvent c es = (c \<or> list_ex (\<lambda>e. te_Action e = ''fail'') es)"
  by (induction es arbitrary: c) (auto simp: checkFailed_HandleEvent_def)

section \<open>Filtering keeps whole lines\<close>

fun kept :: "bool \<Rightarrow> string list \<Rightarrow> string list" where
  "kept isPanic [] = []"
| "kept isPanic (l # ls) =
    (let isPanic' = (isPanic \<or> getTestOutputLoc l = None \<and> HasPrefix l ''panic:'')
     in (if isPanic' \<or> (case getTestOutputLoc l of None \<Rightarrow> False | Some (f, n) \<Rightarrow> HasSuffix f ''_test.go'') then [l] else [])
        @ kept isPanic' ls)"

lemma filter_loop_kept:
  "output = pre @ lines_text ls \<Longrightarrow> filter_loop output (length pre) isPanic ls = lines_text (kept isPanic ls)"
proof (induction ls arbitrary: pre isPanic)
  case Nil
  then show ?case by (simp add: lines_text_def)
next
  case (Cons l ls)
  have out: "output = (pre @ line l) @ lines_text ls" using Cons.prems by (simp add: lines_text_def)
  have sec: "section_of output (length pre) (length l + 1) = line l"
    unfolding out section_of_def by (simp add: line_def)
  have len: "length (pre @ line l) = length pre + (length l + 1)" by (simp add: line_def)
  note IH = Cons.IH [OF out, unfolded len]
  show ?case
    unfolding filter_loop.simps kept.simps Let_def IH
    by (auto simp: sec [simplified] lines_text_def split: option.splits)
qed

lemma filterBuildLogs_kept: "\<forall>l \<in> set ls. scannable l \<Longrightarrow> filterBuildLogs (lines_text ls) = lines_text (kept False ls)"
  unfolding filterBuildLogs_def scan_lines_lines_text by (rule filter_loop_kept [where pre = "[]", simplified]) simp

section \<open>Encoding newlines\<close>

lemma enc_char_length: "1 \<le> length (enc_char c)" "length (enc_char c) \<le> 3"
  by (simp_all add: enc_char_def)

lemma url_encode_append: "url_encode (a @ b) = url_encode a @ url_encode b"
  by (simp add: url_encode_def)

lemma url_encode_length: "length (url_encode s) \<le> 3 * length s"
  by (induction s) (use enc_char_length(2) in \<open>auto simp: url_encode_def intro: add_mono\<close>)

lemma url_encode_no_newline: "CHR 0x0A \<notin> set (url_encode s)"
  by (auto simp: url_encode_def enc_char_def split: if_splits)

text \<open>When the output fits into the caller's buffer, the loop encodes all peeked bytes.\<close>

lemma enc_loop_fits:
  "length (out @ url_encode cs) \<le> n \<Longrightarrow> enc_loop n out consumed cs = (out @ url_encode cs, consumed + length cs)"
proof (induction cs arbitrary: out consumed)
  case Nil
  then show ?case by (simp add: url_encode_def)
next
  case (Cons c cs)
  have split: "url_encode (c # cs) = enc_char c @ url_encode cs" by (simp add: url_encode_def)
  show ?case
  proof (cases cs)
    case Nil
    then show ?thesis by (simp add: split Let_def) (simp add: url_encode_def)
  next
    case (Cons d ds)
    then have "0 < length (url_encode cs)" using enc_char_length(1) [of d] by (auto simp: url_encode_def)
    moreover have "length (out @ enc_char c) + length (url_encode cs) \<le> n" using Cons.prems split by simp
    ultimately have "\<not> n \<le> length (out @ enc_char c)" by linarith
    then show ?thesis using Cons.IH [of "out @ enc_char c" "consumed + 1"] Cons.prems by (simp add: split Let_def)
  qed
qed

lemma urlEncodeNewline_Read_large:
  assumes "3 * bufio_size \<le> n" and "rest \<noteq> []"
  shows "urlEncodeNewline_Read n rest = ((url_encode (take bufio_size rest), None), drop bufio_size rest)"
proof -
  have n: "min n bufio_size = bufio_size" "n \<noteq> 0" using assms(1) by (auto simp: bufio_size_def)
  have "length (url_encode (take bufio_size rest)) \<le> n"
    using url_encode_length [of "take bufio_size rest"] assms(1) by simp
  then have "enc_loop n [] 0 (take bufio_size rest) = (url_encode (take bufio_size rest), length (take bufio_size rest))"
    using enc_loop_fits [of "[]"] by simp
  moreover have "take bufio_size rest \<noteq> []" using assms(2) by (simp add: bufio_size_def)
  ultimately show ?thesis
    unfolding urlEncodeNewline_Read_def Let_def n using n \<open>length (url_encode (take bufio_size rest)) \<le> n\<close>
    by (simp add: min_def)
qed

lemma urlEncode_complete:
  assumes "\<forall>n \<in> set ns. 3 * bufio_size \<le> n" and "length rest < length ns"
  shows "ReadAll urlEncodeNewline_Read ns rest = ((url_encode rest, Some EOF), [])"
  using assms
proof (induction ns arbitrary: rest)
  case (Cons n ns)
  show ?case
  proof (cases "rest = []")
    case True
    have "n \<noteq> 0" using Cons.prems(1) by (auto simp: bufio_size_def)
    with True show ?thesis by (simp add: urlEncodeNewline_Read_def url_encode_def)
  next
    case False
    have "length (drop bufio_size rest) < length ns" using Cons.prems(2) False by (cases rest) (auto simp: bufio_size_def)
    then have "ReadAll urlEncodeNewline_Read ns (drop bufio_size rest) = ((url_encode (drop bufio_size rest), Some EOF), [])"
      using Cons by simp
    moreover have "url_encode (take bufio_size rest) @ url_encode (drop bufio_size rest) = url_encode rest"
      unfolding url_encode_append [symmetric] by simp
    ultimately show ?thesis using urlEncodeNewline_Read_large [of n rest] Cons.prems(1) False by simp
  qed
qed simp

section \<open>Annotation headers\<close>

lemma Cut_subset: "Cut s sep = (a, b, ok) \<Longrightarrow> set a \<subseteq> set s"
  using Cut_found [of s sep a b] Cut_not_found [of s sep a b] by (cases ok) auto

lemma getTestOutputLoc_subset: "getTestOutputLoc s = Some (f, l) \<Longrightarrow> set f \<subseteq> set s"
  by (auto simp: getTestOutputLoc_def split: prod.splits if_splits dest!: Cut_subset subsetD [OF TrimSpace_subset])

lemma getLastFileLine_no_newline: "CHR 0x0A \<notin> set (fst (getLastFileLine s))"
proof -
  have "CHR 0x0A \<notin> set (fst (foldl loc_step acc ls))"
    if "CHR 0x0A \<notin> set (fst acc)" and "\<forall>l \<in> set ls. CHR 0x0A \<notin> set l" for acc ls
    using that
  proof (induction ls arbitrary: acc)
    case (Cons l ls)
    have "CHR 0x0A \<notin> set (fst (loc_step acc l))"
      using Cons.prems getTestOutputLoc_subset [of l] by (auto simp: loc_step_def split: option.splits)
    with Cons show ?case by simp
  qed simp
  then show ?thesis using scan_lines_no_newline by (simp add: getLastFileLine_def)
qed

lemma Itoa_no_newline: "CHR 0x0A \<notin> set (Itoa i)"
  by (simp add: Itoa_def nat_base_no_newline)

lemma annotation_header_no_newline: "CHR 0x0A \<notin> set (annotation_header (getLastFileLine s))"
  using getLastFileLine_no_newline [of s] Itoa_no_newline by (simp add: annotation_header_def split_beta)

end
