(* ===== verification/Bkfs.thy ===== *)
theory Bkfs
  imports Go_Reader Go_Path
begin

text \<open>
  The file system over a build result (frontend/pkg/bkfs/bkfs.go): opening a file, reading it by ranges
  and listing a directory.

  The reference of the build result is a parameter: \<open>ref_Stat\<close> gives the size of a file or an error
  text, \<open>ref_ReadFile\<close> the bytes of a range, \<open>ref_ReadDir\<close> the paths of the entries.
\<close>

record reference =
  ref_Stat :: "string \<Rightarrow> string + int"
  ref_ReadFile :: "string \<Rightarrow> int \<Rightarrow> nat \<Rightarrow> goerr + string"
  ref_ReadDir :: "string \<Rightarrow> goerr + string list"

section \<open>Errors\<close>

datatype pathErr = ErrInvalid | ErrNotExist string | PathOther string | DirError goerr

record pathError =
  pe_Op :: string
  pe_Path :: string
  pe_Err :: pathErr

section \<open>Files\<close>

record stateRefFile =
  rf_path :: string
  rf_size :: int
  rf_offset :: int

text \<open>\<open>fs.ValidPath\<close>; the encoding is not checked.\<close>

definition ValidPath :: "string \<Rightarrow> bool" where
  "ValidPath name = (name = ''.'' \<or> list_all (\<lambda>e. e \<noteq> [] \<and> e \<noteq> ''.'' \<and> e \<noteq> ''..'') (split_on slash name))"

definition Open :: "reference \<Rightarrow> string \<Rightarrow> pathError + stateRefFile" where
  "Open ref name =
    (if \<not> ValidPath name then Inl \<lparr>pe_Op = ''open'', pe_Path = name, pe_Err = ErrInvalid\<rparr>
     else case ref_Stat ref name of
       Inl e \<Rightarrow> Inl \<lparr>pe_Op = ''open'', pe_Path = name,
           pe_Err = (if Contains e ''no such file or directory'' then ErrNotExist e else PathOther e)\<rparr>
     | Inr sz \<Rightarrow> Inr \<lparr>rf_path = name, rf_size = sz, rf_offset = 0\<rparr>)"

text \<open>\<open>ReadAt\<close> with a buffer of \<open>len\<close> bytes: the bytes copied into the buffer and the error.\<close>

definition ReadAt :: "reference \<Rightarrow> stateRefFile \<Rightarrow> nat \<Rightarrow> int \<Rightarrow> string \<times> ioErr option" where
  "ReadAt ref f len off =
    (if off < 0 then ([], Some (IOError (Msg (''read '' @ rf_path f @ '': invalid argument''))))
     else if rf_size f \<le> off then ([], Some EOF)
     else case ref_ReadFile ref (rf_path f) off len of
       Inl e \<Rightarrow> ([], Some (IOError e))
     | Inr seg \<Rightarrow>
         (let b = take len seg
          in (b, if length b < len then Some EOF else None)))"

definition Read :: "reference \<Rightarrow> nat \<Rightarrow> stateRefFile \<Rightarrow> (string \<times> ioErr option) \<times> stateRefFile" where
  "Read ref len f =
    (case ReadAt ref f len (rf_offset f) of (b, e) \<Rightarrow> ((b, e), f\<lparr>rf_offset := rf_offset f + int (length b)\<rparr>))"

section \<open>Directories\<close>

definition ReadDir :: "reference \<Rightarrow> string \<Rightarrow> pathError + string list" where
  "ReadDir ref name =
    (case ref_ReadDir ref name of
       Inl e \<Rightarrow> Inl \<lparr>pe_Op = ''readdir'', pe_Path = name, pe_Err = DirError e\<rparr>
     | Inr stats \<Rightarrow> Inr (map Base stats))"

section \<open>The null file system\<close>

definition nullFS_Open :: "string \<Rightarrow> pathErr" where
  "nullFS_Open name = ErrNotExist (''nullfs: '' @ name)"

section \<open>Reading a file\<close>

text \<open>
  A reference that serves a file with fixed contents: its size is the length, and a range gives the
  bytes of the range that exist.
\<close>

definition serves :: "reference \<Rightarrow> string \<Rightarrow> string \<Rightarrow> bool" where
  "serves ref name content =
    (ref_Stat ref name = Inr (int (length content))
     \<and> (\<forall>off len. 0 \<le> off \<longrightarrow> ref_ReadFile ref name off len = Inr (take len (drop (nat off) content))))"

definition file_inv :: "string \<Rightarrow> string \<Rightarrow> stateRefFile \<Rightarrow> bool" where
  "file_inv name content f =
    (rf_path f = name \<and> rf_size f = int (length content) \<and> 0 \<le> rf_offset f \<and> rf_offset f \<le> rf_size f)"

definition file_rest :: "string \<Rightarrow> stateRefFile \<Rightarrow> string" where
  "file_rest content f = drop (nat (rf_offset f)) content"

lemma Read_serves:
  assumes "serves ref name content" and "file_inv name content f"
  shows "Read ref n f = (let b = take n (file_rest content f)
    in ((b, if file_rest content f = [] \<or> length b < n then Some EOF else None), f\<lparr>rf_offset := rf_offset f + int (length b)\<rparr>))"
proof -
  have off: "0 \<le> rf_offset f" and path: "rf_path f = name" and size: "rf_size f = int (length content)"
    using assms(2) by (simp_all add: file_inv_def)
  have "rf_size f \<le> rf_offset f \<longleftrightarrow> file_rest content f = []"
    using off size by (auto simp: file_rest_def)
  then show ?thesis
    using assms(1) off path by (simp add: Read_def ReadAt_def serves_def file_rest_def Let_def)
qed

lemma Read_step:
  assumes "serves ref name content" and "file_inv name content f" and "Read ref n f = ((b, e), f')"
  shows "b = take n (file_rest content f)" and "file_rest content f = b @ file_rest content f'"
    and "file_inv name content f'" and "e = (if file_rest content f = [] \<or> length b < n then Some EOF else None)"
proof -
  have eq: "b = take n (file_rest content f)" "f' = f\<lparr>rf_offset := rf_offset f + int (length b)\<rparr>"
    "e = (if file_rest content f = [] \<or> length b < n then Some EOF else None)"
    using Read_serves [OF assms(1,2), of n] assms(3) by (simp_all add: Let_def)
  show "b = take n (file_rest content f)" "e = (if file_rest content f = [] \<or> length b < n then Some EOF else None)"
    by (rule eq)+
  have "int (length b) \<le> rf_size f - rf_offset f"
    using assms(2) eq(1) by (auto simp: file_inv_def file_rest_def)
  then show "file_inv name content f'" using assms(2) eq(2) by (simp add: file_inv_def)
  have "nat (rf_offset f + int (length b)) = nat (rf_offset f) + length b"
    using assms(2) by (simp add: file_inv_def nat_add_distrib)
  then have "file_rest content f' = drop (length b) (file_rest content f)"
    using eq(2) by (simp add: file_rest_def add.commute)
  then show "file_rest content f = b @ file_rest content f'"
    using eq(1) by (cases "length (file_rest content f) \<le> n") auto
qed

text \<open>A file of a serving reference fulfils the contract of a reader.\<close>

interpretation bkfs_reader: byte_reader "Read ref" "\<lambda>f. serves ref name content \<and> file_inv name content f"
  "file_rest content" "\<lambda>f. length (file_rest content f)" for ref name content
proof
  fix f n r f'
  assume "serves ref name content \<and> file_inv name content f" and "Read ref n f = (r, f')"
  then show "serves ref name content \<and> file_inv name content f'"
    using Read_step(3) by (metis surj_pair)
next
  fix f n b e f'
  assume i: "serves ref name content \<and> file_inv name content f" and r: "Read ref n f = ((b, e), f')"
  note s = Read_step [OF conjunct1 [OF i] conjunct2 [OF i] r]
  show "file_rest content f = b @ file_rest content f'" by (rule s(2))
  show "length b \<le> n" unfolding s(1) by simp
next
  fix f n b x f'
  assume i: "serves ref name content \<and> file_inv name content f" and r: "Read ref n f = ((b, Some x), f')"
  note s = Read_step [OF conjunct1 [OF i] conjunct2 [OF i] r]
  from s(4) have "x = EOF" "file_rest content f = [] \<or> length b < n" by (auto split: if_splits)
  with s(1,2) show "x = EOF \<and> file_rest content f' = []" by auto
next
  fix f n b f'
  assume i: "serves ref name content \<and> file_inv name content f" and r: "Read ref n f = ((b, None), f')" and "0 < n"
  note s = Read_step [OF conjunct1 [OF i] conjunct2 [OF i] r]
  from s(4) have "file_rest content f \<noteq> []" by (auto split: if_splits)
  with s(1,2) \<open>0 < n\<close> show "length (file_rest content f') < length (file_rest content f)"
    by (metis append_self_conv2 length_append length_greater_0_conv less_add_same_cancel2 take_eq_Nil less_numeral_extra(3))
qed

lemma Open_inv: "serves ref name content \<Longrightarrow> Open ref name = Inr f \<Longrightarrow> file_inv name content f \<and> file_rest content f = content"
  by (auto simp: Open_def serves_def file_inv_def file_rest_def split: if_splits)

end
