(* ===== verification/Tools_Claims.thy ===== *)
theory Tools_Claims
  imports Git_Cred Gha Bkfs
begin

text \<open>
  The properties of the git credential helper (cmd/frontend), the test event converter
  (cmd/test2json2gha) and the file system over a build result (frontend/pkg/bkfs), each with a witness
  on concrete data.
\<close>

definition demo_payload :: gitPayload where
  "demo_payload = empty_payload\<lparr>gp_protocol := ''https'', gp_host := ''example.com'', gp_wwwauth := [''Basic'', ''Bearer'']\<rparr>"

definition demo_ref :: reference where
  "demo_ref = \<lparr>ref_Stat = (\<lambda>p. if p = ''a/b'' then Inr 5 else Inl ''no such file or directory''),
     ref_ReadFile = (\<lambda>p off len. Inr (take len (drop (nat off) ''hello''))), ref_ReadDir = (\<lambda>p. Inr [])\<rparr>"

definition demo_events :: "testEvent list" where
  "demo_events =
    [\<lparr>te_Action = ''run'', te_Package = ''p'', te_Test = ''TestA'', te_Output = []\<rparr>,
     \<lparr>te_Action = ''output'', te_Package = ''p'', te_Test = ''TestA'', te_Output = ''x''\<rparr>,
     \<lparr>te_Action = ''output'', te_Package = ''p'', te_Test = ''TestB'', te_Output = ''z''\<rparr>,
     \<lparr>te_Action = ''fail'', te_Package = ''p'', te_Test = ''TestA'', te_Output = ''y''\<rparr>]"

section \<open>Git credentials\<close>

text \<open>
  Note (git_credential_helper.go, printPayload and readPayload): a payload is read back as it was
  printed, but for the host, which is not printed; values without line breaks and arrays without empty
  elements.
\<close>

theorem payload_roundtrip:
  assumes "printable p"
  shows "readPayload (printPayload p) = Some (p\<lparr>gp_host := []\<rparr>)"
  using assms by (rule read_printed)

theorem payload_roundtrip_witness:
  "readPayload (printPayload demo_payload) = Some (demo_payload\<lparr>gp_host := []\<rparr>)"
proof -
  have "printable demo_payload" by code_simp
  then show ?thesis by (rule payload_roundtrip)
qed

text \<open>
  Note (git_credential_helper.go, gomodMain): the secret that is sent is the secret of the requested host.
  For a get request over http or https from a host that is a single path element, a token response
  carries the contents of the file of this host below the secrets directory, and it can be decoded from
  the printed credential.
\<close>

theorem token_of_host:
  assumes "readPayload stdin = Some p" and "gp_protocol p \<in> {''http'', ''https''}"
    and "proper_elem (gp_host p)" and "gp_host p \<noteq> ''..''"
    and "gomodMain secrets ''token'' ''get'' stdin = (0, out)"
  shows "\<exists>token cred. secrets (''/run/secrets/'' @ gp_host p @ ''/token'') = Some token
    \<and> out = line (printPayload (p\<lparr>gp_authtype := ''basic'', gp_credential := cred\<rparr>))
    \<and> b64_decode cred = ''x-access-token:'' @ token"
proof -
  have path: "secret_file (gp_host p) ''token'' = ''/run/secrets/'' @ gp_host p @ ''/token''"
    using secret_path [OF assms(3,4), of "''token''" secretDir] by (simp add: secret_file_def secretDir_def)
  obtain token where "secrets (''/run/secrets/'' @ gp_host p @ ''/token'') = Some token"
    and "out = line (handleSecretToken token p)"
    using assms(1,2,5) path by (auto simp: gomodMain_def generateResponse_def split: option.splits)
  then show ?thesis
    using b64_decode_encode [of "''x-access-token:'' @ token"] unfolding handleSecretToken_def by blast
qed

theorem token_of_host_witness:
  "\<exists>cred. gomodMain (\<lambda>f. if f = ''/run/secrets/h/token'' then Some ''t0k'' else None) ''token'' ''get''
      (lines_text [''protocol=https'', ''host=h'']) =
      (0, line (printPayload (empty_payload\<lparr>gp_protocol := ''https'', gp_host := ''h'', gp_authtype := ''basic'', gp_credential := cred\<rparr>)))
    \<and> b64_decode cred = ''x-access-token:t0k''"
proof -
  let ?p = "empty_payload\<lparr>gp_protocol := ''https'', gp_host := ''h''\<rparr>"
  let ?secrets = "\<lambda>f. if f = ''/run/secrets/h/token'' then Some ''t0k'' else None"
  let ?in = "lines_text [''protocol=https'', ''host=h'']"
  have p: "readPayload ?in = Some ?p" by code_simp
  have code: "fst (gomodMain ?secrets ''token'' ''get'' ?in) = 0" by code_simp
  have h: "proper_elem (gp_host ?p)" "gp_host ?p \<noteq> ''..''" "gp_protocol ?p \<in> {''http'', ''https''}" by code_simp+
  have "gomodMain ?secrets ''token'' ''get'' ?in = (0, snd (gomodMain ?secrets ''token'' ''get'' ?in))"
    using code by (simp add: prod_eq_iff)
  from token_of_host [OF p h(3,1,2) this] this show ?thesis by auto
qed

section \<open>Files of a build result\<close>

text \<open>
  Note (bkfs.go, ReadAt and Read): a read never delivers more than the buffer holds, a negative offset is
  refused, an offset at or past the end gives the end of file, and reading a served file keeps the
  offset between zero and the size of the file.
\<close>

theorem bkfs_read_bounds:
  "length (fst (ReadAt ref f n off)) \<le> n
    \<and> (off < 0 \<longrightarrow> fst (ReadAt ref f n off) = [] \<and> snd (ReadAt ref f n off) \<noteq> None)
    \<and> (0 \<le> off \<and> rf_size f \<le> off \<longrightarrow> ReadAt ref f n off = ([], Some EOF))
    \<and> (serves ref name content \<and> file_inv name content f \<longrightarrow>
         0 \<le> rf_offset (snd (Read ref n f)) \<and> rf_offset (snd (Read ref n f)) \<le> int (length content))"
proof (intro conjI impI)
  show "length (fst (ReadAt ref f n off)) \<le> n"
    by (simp add: ReadAt_def Let_def split: sum.splits)
  assume s: "serves ref name content \<and> file_inv name content f"
  obtain r f' where r: "Read ref n f = (r, f')" by (metis surj_pair)
  with bkfs_reader.keeps [OF s r] show "0 \<le> rf_offset (snd (Read ref n f))" "rf_offset (snd (Read ref n f)) \<le> int (length content)"
    by (simp_all add: file_inv_def)
qed (simp_all add: ReadAt_def)

theorem bkfs_read_bounds_witness:
  "rf_offset (snd (Read demo_ref 100 \<lparr>rf_path = ''a/b'', rf_size = 5, rf_offset = 3\<rparr>)) \<le> 5
    \<and> ReadAt demo_ref \<lparr>rf_path = ''a/b'', rf_size = 5, rf_offset = 3\<rparr> 100 7 = ([], Some EOF)"
proof -
  let ?f = "\<lparr>rf_path = ''a/b'', rf_size = 5, rf_offset = 3\<rparr>"
  have "serves demo_ref ''a/b'' ''hello''" "file_inv ''a/b'' ''hello'' ?f"
    by (simp_all add: serves_def demo_ref_def file_inv_def)
  then show ?thesis
    using bkfs_read_bounds [of demo_ref ?f 100 7 "''a/b''" "''hello''"] by simp
qed

text \<open>
  C39 (bkfs.go, Open and Read): a file is read completely.  Reading an opened file with any sequence of
  non-empty buffers ends after at most one read more than it has bytes, with all its bytes in order.
\<close>

theorem bkfs_reads_file:
  assumes "serves ref name content" and "Open ref name = Inr f"
    and "\<forall>n \<in> set ns. 0 < n" and "length content < length ns"
  shows "fst (ReadAll (Read ref) ns f) = (content, Some EOF)"
proof -
  have "file_inv name content f" "file_rest content f = content" using Open_inv [OF assms(1,2)] by auto
  with bkfs_reader.ReadAll_complete [of ref name content f ns] assms(1,3,4) show ?thesis by auto
qed

theorem bkfs_reads_file_witness:
  "fst (ReadAll (Read demo_ref) (replicate 6 2) \<lparr>rf_path = ''a/b'', rf_size = 5, rf_offset = 0\<rparr>) = (''hello'', Some EOF)"
proof -
  have "serves demo_ref ''a/b'' ''hello''" by (simp add: serves_def demo_ref_def)
  moreover have "Open demo_ref ''a/b'' = Inr \<lparr>rf_path = ''a/b'', rf_size = 5, rf_offset = 0\<rparr>" by code_simp
  ultimately show ?thesis using bkfs_reads_file [of demo_ref "''a/b''" "''hello''" _ "replicate 6 2"] by simp
qed

section \<open>Test events\<close>

text \<open>
  Note (event.go, resultsHandler; main.go, do): every test is reported with its own events.  The result of
  a test holds the outputs of its events in their order and whether it failed, was skipped or passed;
  it counts as timed out exactly when none of these happened, and the program exits with 0 exactly when
  the stream is well-formed and no event failed.
\<close>

theorem test_results_collected:
  "map_of (markUnfinishedAsTimeout (foldl results_HandleEvent [] es)) k =
     (if events_of k es = [] then None
      else Some ((result_of (events_of k es))\<lparr>tr_timeout :=
             \<not> list_ex (\<lambda>e. te_Action e \<in> {''fail'', ''skip'', ''pass''}) (events_of k es)\<rparr>))
    \<and> (gha_exit (snd (gha_do ns cfg es err)) = 0 \<longleftrightarrow> err = None \<and> \<not> list_ex (\<lambda>e. te_Action e = ''fail'') es)"
proof
  show "map_of (markUnfinishedAsTimeout (foldl results_HandleEvent [] es)) k =
     (if events_of k es = [] then None
      else Some ((result_of (events_of k es))\<lparr>tr_timeout :=
             \<not> list_ex (\<lambda>e. te_Action e \<in> {''fail'', ''skip'', ''pass''}) (events_of k es)\<rparr>))"
    unfolding markUnfinishedAsTimeout_def map_of_map_vals results_collected
    by (auto simp: result_of_def list_ex_iff)
  show "gha_exit (snd (gha_do ns cfg es err)) = 0 \<longleftrightarrow> err = None \<and> \<not> list_ex (\<lambda>e. te_Action e = ''fail'') es"
    by (simp add: gha_exit_def gha_do_def Let_def checkFailed_fold split: option.splits)
qed

text \<open>
  Note (github.go, asErrorAnnotations, filterBuildLogs and urlEncodeNewlineReader): an error annotation is
  one line.  Copied with buffers of at least three times the size of the buffered reader, which
  \<open>io.Copy\<close> uses, it is the header, the lines of the output that name a test file or follow a panic with
  their line breaks encoded, and one newline at the end.
\<close>

theorem annotation_one_line:
  assumes "\<forall>n \<in> set ns. 3 * bufio_size \<le> n" and "length (filterBuildLogs (tr_output tr)) < length ns"
    and "tr_output tr = lines_text ls" and "\<forall>l \<in> set ls. scannable l"
  shows "asErrorAnnotations ns tr =
      annotation_header (getLastFileLine (tr_output tr)) @ url_encode (lines_text (kept False ls)) @ nl
    \<and> CHR 0x0A \<notin> set (butlast (asErrorAnnotations ns tr))"
proof -
  have "asErrorAnnotations ns tr =
      annotation_header (getLastFileLine (tr_output tr)) @ url_encode (lines_text (kept False ls)) @ nl"
    using urlEncode_complete [OF assms(1,2)] filterBuildLogs_kept [OF assms(4)] assms(3)
    by (simp add: asErrorAnnotations_def)
  then show ?thesis
    using annotation_header_no_newline url_encode_no_newline by (simp add: butlast_append)
qed

theorem annotation_one_line_witness:
  "asErrorAnnotations (replicate 40 32768) ((result_of demo_events)\<lparr>tr_output := lines_text [''ok'', ''    a_test.go:7: bad'']\<rparr>) =
    ''::error file=a_test.go,line=7::'' @ ''    a_test.go:7: bad'' @ ''%0A'' @ nl"
proof -
  let ?ls = "[''ok'', ''    a_test.go:7: bad'']"
  let ?tr = "(result_of demo_events)\<lparr>tr_output := lines_text ?ls\<rparr>"
  have n: "\<forall>n \<in> set (replicate 40 32768). 3 * bufio_size \<le> n" by (simp add: bufio_size_def)
  have out: "tr_output ?tr = lines_text ?ls" by simp
  have "length (filterBuildLogs (lines_text ?ls)) < 40" and scan: "\<forall>l \<in> set ?ls. scannable l"
    and shown: "annotation_header (getLastFileLine (lines_text ?ls)) @ url_encode (lines_text (kept False ?ls)) @ nl =
      ''::error file=a_test.go,line=7::'' @ ''    a_test.go:7: bad'' @ ''%0A'' @ nl"
    by code_simp+
  then have len: "length (filterBuildLogs (tr_output ?tr)) < length (replicate 40 (32768 :: nat))"
    unfolding out length_replicate by blast
  show ?thesis using annotation_one_line [OF n len out scan, unfolded out shown] by blast
qed

text \<open>
  Note (github.go, urlEncodeNewlineReader.Read): with a small buffer the reader loses bytes.  A newline
  whose encoding does not fit into the rest of the buffer is consumed, and only the part of its
  encoding that fits is delivered.
\<close>

theorem encoder_loses_bytes:
  "fst (ReadAll urlEncodeNewline_Read [2, 2, 2, 2] (''a'' @ nl @ ''b'')) = (''a%b'', Some EOF)
    \<and> url_encode (''a'' @ nl @ ''b'') = ''a%0Ab''"
  by code_simp

end
