(* ===== verification/Llb.thy ===== *)
theory Llb
  imports Cache
begin

text \<open>
  Build graphs.  The program describes its work to buildkit as a graph of states; buildkit runs it.
  A state is modelled by the calls that construct it: \<open>Copy base src from to info\<close> is
  \<open>base.File(llb.Copy(src, from, to, info))\<close>, \<open>ExecRoot worker opts\<close> is \<open>worker.Run(opts...).Root()\<close>,
  \<open>ExecMount dest worker opts\<close> is the output of the mount at \<open>dest\<close> of that run, whose own
  \<open>AddMount\<close> is the last of \<open>opts\<close>.  \<open>PrependPath\<close> puts directories in front of the variable \<open>PATH\<close>
  of a state, whose value is only known when the graph is marshalled; \<open>AddExtraHost st h a\<close> is
  \<open>st.AddExtraHost(h, net.ParseIP(a))\<close>, and \<open>RunShlex\<close> is a command line that buildkit splits.  An error that is reported when the graph is marshalled
  (\<open>Async\<close> with an error) is \<open>AsyncErr\<close>.

  Progress groups, source positions and platform constraints only annotate operations and are left
  out.  What buildkit does with a graph is not modelled: every statement is about the graph.
\<close>

section \<open>Graphs\<close>

record copyInfo =
  cp_Includes :: "string list"
  cp_Excludes :: "string list"
  cp_ContentsOnly :: bool
  cp_CreateDest :: bool

record gitInfo =
  gi_KeepGitDir :: bool
  gi_AuthHeader :: string
  gi_AuthToken :: string
  gi_SSHSock :: string

record httpInfo =
  hi_Checksum :: string
  hi_Chmod :: fileMode
  hi_Filename :: string

text \<open>The options of a local context: \<open>llb.LocalInfo\<close>.\<close>

record localInfo =
  li_Includes :: "string list"
  li_Excludes :: "string list"
  li_FollowPaths :: "string list"

datatype mountOpt = SourcePath string | Readonly | AsPersistentCacheDir string sharing | Tmpfs

datatype netMode = NetModeNone | NetModeSandbox

datatype llb =
    Scratch
  | ZeroState
  | Image string
  | Git string string gitInfo
  | HTTP string httpInfo
  | Local string localInfo
  | Copy llb llb string string copyInfo
  | Mkfile llb string fileMode string "(int \<times> int) option"
  | Mkdir llb string fileMode bool "(int \<times> int) option"
  | ExecRoot llb "runOpt list"
  | ExecMount string llb "runOpt list"
  | Merge "llb list"
  | Diff llb llb
  | WithEnv llb string string
  | WithDir llb string
  | WithNetwork llb netMode
  | PrependPath llb "string list"
  | AddExtraHost llb string string
  | AsyncErr llb goerr
and runOpt =
    RunArgs "string list"
  | RunMount string llb "mountOpt list"
  | RunEnv string string
  | RunDir string
  | RunSecret string string
  | RunSSH string
  | RunIgnoreCache
  | RunRm string
  | RunCache cacheConfig string
  | RunStateEnv string string
  | RunShlex string

text \<open>\<open>worker.Run(opts...).AddMount(dest, st)\<close>.\<close>

definition run_mount :: "llb \<Rightarrow> runOpt list \<Rightarrow> string \<Rightarrow> llb \<Rightarrow> llb" where
  "run_mount worker opts dest st = ExecMount dest worker (opts @ [RunMount dest st []])"

definition no_copyInfo :: copyInfo where
  "no_copyInfo = \<lparr>cp_Includes = [], cp_Excludes = [], cp_ContentsOnly = False, cp_CreateDest = False\<rparr>"

definition WithCreateDestPath :: copyInfo where
  "WithCreateDestPath = no_copyInfo\<lparr>cp_CreateDest := True\<rparr>"

definition WithDirContentsOnly :: copyInfo where
  "WithDirContentsOnly = no_copyInfo\<lparr>cp_ContentsOnly := True\<rparr>"

section \<open>Helpers of helpers.go\<close>

definition ErrorState :: "llb \<Rightarrow> gores \<Rightarrow> llb" where
  "ErrorState st r = (case r of None \<Rightarrow> st | Some e \<Rightarrow> AsyncErr st e)"

definition ShArgs :: "string \<Rightarrow> runOpt" where
  "ShArgs cmd = RunArgs [''sh'', ''-c'', cmd]"

text \<open>\<open>dm\<close> is the process-wide switch that replaces diff and merge by copies.\<close>

definition MergeAtPath :: "bool \<Rightarrow> llb \<Rightarrow> llb list \<Rightarrow> string \<Rightarrow> llb" where
  "MergeAtPath dm st states dest =
    (if dm then foldl (\<lambda>out s. Copy out s ''/'' dest WithCreateDestPath) st states
     else Merge (st # map (\<lambda>s. Diff st
            (if dest \<noteq> [] \<and> dest \<noteq> ''/'' then Copy Scratch s ''/'' dest WithCreateDestPath else s)) states))"

definition WithMountedAptCache :: "string \<Rightarrow> runOpt list" where
  "WithMountedAptCache namePrefix =
    [RunRm ''/etc/apt/apt.conf.d/docker-clean'',
     RunMount ''/var/cache/apt'' Scratch
       [AsPersistentCacheDir (namePrefix @ ''dalec-var-cache-apt'') CacheMountLocked],
     RunMount ''/var/lib/apt'' Scratch
       [AsPersistentCacheDir (namePrefix @ ''dalec-var-lib-apt'') CacheMountLocked]]"

definition SetBuildNetworkMode :: "spec \<Rightarrow> llb \<Rightarrow> llb" where
  "SetBuildNetworkMode sp st =
    (let m = ab_NetworkMode (sp_Build sp)
     in if m = [] \<or> m = ''none'' then WithNetwork st NetModeNone
        else if m = ''sandbox'' then WithNetwork st NetModeSandbox
        else AsyncErr st (Msg (''invalid build network mode '' @ Quote m)))"

section \<open>What a graph contains\<close>

text \<open>The errors that marshalling a graph reports, and the operations below a state.\<close>

fun state_errs :: "llb \<Rightarrow> goerr list"
and opt_errs :: "runOpt \<Rightarrow> goerr list" where
  "state_errs (Copy b s f t i) = state_errs b @ state_errs s"
| "state_errs (Mkfile b p m c ids) = state_errs b"
| "state_errs (Mkdir b p m w ids) = state_errs b"
| "state_errs (ExecRoot b opts) = state_errs b @ concat (map opt_errs opts)"
| "state_errs (ExecMount d b opts) = state_errs b @ concat (map opt_errs opts)"
| "state_errs (Merge sts) = concat (map state_errs sts)"
| "state_errs (Diff a b) = state_errs a @ state_errs b"
| "state_errs (WithEnv b k v) = state_errs b"
| "state_errs (WithDir b d) = state_errs b"
| "state_errs (WithNetwork b m) = state_errs b"
| "state_errs (PrependPath b ps) = state_errs b"
| "state_errs (AddExtraHost b h ip) = state_errs b"
| "state_errs (AsyncErr b e) = state_errs b @ [e]"
| "state_errs _ = []"
| "opt_errs (RunMount d st os) = state_errs st"
| "opt_errs _ = []"

text \<open>The secrets and ssh sockets that a graph asks the client for.\<close>

definition git_secrets :: "gitInfo \<Rightarrow> string list" where
  "git_secrets g = filter (\<lambda>s. s \<noteq> []) [gi_AuthHeader g, gi_AuthToken g, gi_SSHSock g]"

fun graph_secrets :: "llb \<Rightarrow> string list"
and opt_secrets :: "runOpt \<Rightarrow> string list" where
  "graph_secrets (Git u c g) = git_secrets g"
| "graph_secrets (Copy b s f t i) = graph_secrets b @ graph_secrets s"
| "graph_secrets (Mkfile b p m c ids) = graph_secrets b"
| "graph_secrets (Mkdir b p m w ids) = graph_secrets b"
| "graph_secrets (ExecRoot b opts) = graph_secrets b @ concat (map opt_secrets opts)"
| "graph_secrets (ExecMount d b opts) = graph_secrets b @ concat (map opt_secrets opts)"
| "graph_secrets (Merge sts) = concat (map graph_secrets sts)"
| "graph_secrets (Diff a b) = graph_secrets a @ graph_secrets b"
| "graph_secrets (WithEnv b k v) = graph_secrets b"
| "graph_secrets (WithDir b d) = graph_secrets b"
| "graph_secrets (WithNetwork b m) = graph_secrets b"
| "graph_secrets (PrependPath b ps) = graph_secrets b"
| "graph_secrets (AddExtraHost b h ip) = graph_secrets b"
| "graph_secrets (AsyncErr b e) = graph_secrets b"
| "graph_secrets _ = []"
| "opt_secrets (RunMount d st os) = graph_secrets st"
| "opt_secrets (RunSecret p i) = [i]"
| "opt_secrets (RunSSH i) = [i]"
| "opt_secrets (RunCache c k) = cache_sockets c"
| "opt_secrets _ = []"

section \<open>Queries of graphs\<close>

text \<open>
  A query collects something from the operations of a graph.  The locale states how a query passes
  through the operations that contribute nothing themselves; git sources, secrets and errors are
  left to each query, and \<open>qc\<close> is what a cache contributes.
\<close>

locale graph_query =
  fixes q :: "llb \<Rightarrow> 'a set"
    and qo :: "runOpt \<Rightarrow> 'a set"
    and qc :: "cacheConfig \<Rightarrow> 'a set"
  assumes q_leaf: "q Scratch = {}" "q ZeroState = {}" "q (Image r) = {}" "q (HTTP u h) = {}"
    and q_copy: "q (Copy b s f t i) = q b \<union> q s"
    and q_make: "q (Mkfile b p m c ids) = q b" "q (Mkdir b p m w ids) = q b"
    and q_exec: "q (ExecRoot b opts) = q b \<union> (\<Union>o' \<in> set opts. qo o')"
      "q (ExecMount d b opts) = q b \<union> (\<Union>o' \<in> set opts. qo o')"
    and q_merge: "q (Merge sts) = (\<Union>s \<in> set sts. q s)" "q (Diff a b) = q a \<union> q b"
    and q_with: "q (WithEnv b k v) = q b" "q (WithDir b e) = q b" "q (WithNetwork b n) = q b"
      "q (PrependPath b ps) = q b" "q (AddExtraHost b hn ip) = q b"
    and qo_mount: "qo (RunMount d st os) = q st"
    and qo_plain: "qo (RunArgs as) = {}" "qo (RunEnv k v) = {}" "qo (RunDir e) = {}" "qo RunIgnoreCache = {}"
      "qo (RunRm f) = {}" "qo (RunStateEnv k v) = {}" "qo (RunShlex c) = {}"
    and qo_cache: "qo (RunCache cfg t) = qc cfg"
begin

lemmas query_simps = q_leaf q_copy q_make q_exec q_merge q_with qo_mount qo_plain qo_cache

lemma run_mount_query: "q (run_mount w opts d st) = q w \<union> (\<Union>o' \<in> set opts. qo o') \<union> q st"
  by (auto simp: run_mount_def query_simps)

lemma ShArgs_query: "qo (ShArgs c) = {}"
  by (simp add: ShArgs_def query_simps)

lemma copies_query: "q (foldl (\<lambda>out s. Copy out s f d i) st sts) = q st \<union> (\<Union>s \<in> set sts. q s)"
  by (induction sts arbitrary: st) (auto simp: query_simps)

lemma MergeAtPath_query: "q (MergeAtPath dm st sts d) = q st \<union> (\<Union>s \<in> set sts. q s)"
  by (auto simp: MergeAtPath_def copies_query query_simps split: if_splits)

lemma AptCache_query: "(\<Union>o' \<in> set (WithMountedAptCache p). qo o') = {}"
  by (simp add: WithMountedAptCache_def query_simps)

lemma envs_query: "q (foldl (\<lambda>st (k, v). WithEnv st k v) st kvs) = q st"
  by (induction kvs arbitrary: st) (auto simp: query_simps)

end

interpretation errs_query: graph_query "\<lambda>st. set (state_errs st)" "\<lambda>o'. set (opt_errs o')" "\<lambda>c. {}"
  by unfold_locales simp_all

interpretation secrets_query: graph_query "\<lambda>st. set (graph_secrets st)" "\<lambda>o'. set (opt_secrets o')" "\<lambda>c. set (cache_sockets c)"
  by unfold_locales simp_all

lemma ErrorState_nil [simp]: "ErrorState st None = st"
  by (simp add: ErrorState_def)

end
