(* ===== verification/Source_State.thy ===== *)
theory Source_State
  imports Llb
begin

text \<open>
  From sources to build graphs: the \<open>toState\<close>, \<open>toMount\<close> and \<open>baseState\<close> methods of every source
  variant, the filters they apply, and patching (source.go, source_git.go, source_http.go,
  source_context.go, source_inline.go, source_image.go, source_build.go; helpers.go and image.go for
  repositories and base images).

  \<open>sourceOpts\<close> carries what the code gets from its client: the lookup of a named build context and
  the forwarding of a docker build to another frontend, both of which buildkit resolves, the run
  option of the git credential helper, and the digest check of the digest library.  A panic (a source without a
  variant, an inline file without a usable name, a patch without a strip count) is \<^term>\<open>None\<close>.
\<close>

section \<open>Fetch options\<close>

record fetchOptions =
  fo_Path :: string
  fo_Includes :: "string list"
  fo_Excludes :: "string list"
  fo_Rename :: string

record sourceOpts =
  so_Forward :: "llb \<Rightarrow> sourceBuild \<Rightarrow> goerr + llb"
  so_GetContext :: "string \<Rightarrow> (localInfo \<Rightarrow> localInfo) \<Rightarrow> goerr + llb option"
  so_CredHelper :: "goerr + runOpt list"
  so_Digest :: "string \<Rightarrow> gores"
  so_DiffMergeOff :: bool

definition patterns :: "string list option \<Rightarrow> string list" where
  "patterns p = (case p of None \<Rightarrow> [] | Some ps \<Rightarrow> ps)"

definition copy_opts :: "fetchOptions \<Rightarrow> copyInfo" where
  "copy_opts fo = \<lparr>cp_Includes = fo_Includes fo, cp_Excludes = fo_Excludes fo, cp_ContentsOnly = True,
     cp_CreateDest = False\<rparr>"

definition sourceFilters :: "fetchOptions \<Rightarrow> llb \<Rightarrow> llb" where
  "sourceFilters fo st =
    (if fo_Rename fo = [] \<and> fo_Includes fo = [] \<and> fo_Excludes fo = [] \<and> isRoot (fo_Path fo) then st
     else Copy Scratch st (if fo_Path fo = [] then ''/'' else fo_Path fo) (fo_Rename fo @ ''/'') (copy_opts fo))"

definition mountFilters :: "fetchOptions \<Rightarrow> llb \<Rightarrow> llb" where
  "mountFilters fo st =
    (if fo_Includes fo = [] \<and> fo_Excludes fo = [] then st
     else Copy Scratch st ''/'' ''/'' (copy_opts fo))"

definition withFollowPath :: "string \<Rightarrow> localInfo \<Rightarrow> localInfo" where
  "withFollowPath p li = (if isRoot p then li else li\<lparr>li_FollowPaths := li_FollowPaths li @ [p]\<rparr>)"

definition excludeAllButPath :: "string \<Rightarrow> string list" where
  "excludeAllButPath p = [''*'', ''!'' @ Clean p]"

definition localIncludeExcludeMerge :: "string list \<Rightarrow> string list \<Rightarrow> localInfo \<Rightarrow> localInfo" where
  "localIncludeExcludeMerge includes excludes li =
    (let li1 = (if excludes \<noteq> [] then li\<lparr>li_Excludes := excludes @ li_Excludes li\<rparr> else li)
     in if includes \<noteq> [] then li1\<lparr>li_Includes := includes @ li_Includes li1\<rparr> else li1)"

definition SetLocalOption :: "fetchOptions \<Rightarrow> localInfo \<Rightarrow> localInfo" where
  "SetLocalOption fo li =
    (let p = fo_Path fo;
         below = (\<lambda>ps. if isRoot p then ps else map (\<lambda>e. Join [p, e]) ps);
         excludes = (if isRoot p then [] else excludeAllButPath p) @ below (fo_Excludes fo)
     in withFollowPath p (localIncludeExcludeMerge (below (fo_Includes fo)) excludes li))"

section \<open>Leaf variants\<close>

definition git_base :: "sourceGit \<Rightarrow> llb" where
  "git_base g = Git (git_URL g) (git_Commit g)
     \<lparr>gi_KeepGitDir = git_KeepGitDir g, gi_AuthHeader = ga_Header (git_Auth g),
      gi_AuthToken = ga_Token (git_Auth g), gi_SSHSock = ga_SSH (git_Auth g)\<rparr>"

definition http_toState :: "sourceHTTP \<Rightarrow> string \<Rightarrow> llb" where
  "http_toState h rename = HTTP (http_URL h)
     \<lparr>hi_Checksum = http_Digest h, hi_Chmod = http_Permissions h, hi_Filename = rename\<rparr>"

definition internalMountSourceName :: string where "internalMountSourceName = ''mount''"

definition mount_name :: "string \<Rightarrow> string" where
  "mount_name rename = (if isRoot rename then internalMountSourceName else rename)"

definition http_toMount :: "sourceHTTP \<Rightarrow> string \<Rightarrow> llb \<times> mountOpt list" where
  "http_toMount h rename = (http_toState h (mount_name rename), [SourcePath (mount_name rename)])"

definition context_base :: "sourceOpts \<Rightarrow> sourceContext \<Rightarrow> fetchOptions \<Rightarrow> llb" where
  "context_base so c fo =
    (case so_GetContext so (ctx_Name c) (SetLocalOption fo) of
       Inl e \<Rightarrow> AsyncErr Scratch (WithSource e)
     | Inr None \<Rightarrow> AsyncErr Scratch (WithSource (Msg (''context '' @ Quote (ctx_Name c) @ '' not found'')))
     | Inr (Some st) \<Rightarrow> st)"

definition inlineFile_toState :: "sourceInlineFile \<Rightarrow> string \<Rightarrow> llb \<Rightarrow> llb option" where
  "inlineFile_toState f rename st =
    (if isRoot rename then None
     else Some (Mkfile st rename (if_Permissions f) (if_Contents f) (Some (if_UID f, if_GID f))))"

definition inlineFile_toMount :: "sourceInlineFile \<Rightarrow> string \<Rightarrow> (llb \<times> mountOpt list) option" where
  "inlineFile_toMount f rename =
    map_option (\<lambda>st. (st, [SourcePath (mount_name rename)])) (inlineFile_toState f (mount_name rename) Scratch)"

text \<open>The loop over the sorted files; with a path only the file of that name is made.\<close>

fun inlineDir_files :: "fetchOptions \<Rightarrow> sourceInlineFile gomap \<Rightarrow> string list \<Rightarrow> llb \<Rightarrow> llb option" where
  "inlineDir_files fo fs [] st = Some st"
| "inlineDir_files fo fs (k # ks) st =
    (if \<not> isRoot (fo_Path fo) \<and> fo_Path fo \<noteq> k then inlineDir_files fo fs ks st
     else (case map_of fs k of
             None \<Rightarrow> None
           | Some f \<Rightarrow>
               (case inlineFile_toState f (Join [fo_Rename fo, k]) st of
                  None \<Rightarrow> None
                | Some st' \<Rightarrow> inlineDir_files fo fs ks st')))"

definition inlineDir_base :: "sourceInlineDir \<Rightarrow> fetchOptions \<Rightarrow> llb option" where
  "inlineDir_base d fo =
    inlineDir_files fo (idir_Files d) (SortMapKeys (idir_Files d))
      (Mkdir Scratch (fo_Rename fo) (idir_Permissions d) False (Some (idir_UID d, idir_GID d)))"

definition inlineDir_toState :: "sourceInlineDir \<Rightarrow> fetchOptions \<Rightarrow> llb option" where
  "inlineDir_toState d fo = map_option (sourceFilters (fo\<lparr>fo_Rename := []\<rparr>)) (inlineDir_base d fo)"

definition inlineDir_toMount :: "sourceInlineDir \<Rightarrow> fetchOptions \<Rightarrow> (llb \<times> mountOpt list) option" where
  "inlineDir_toMount d fo = map_option (\<lambda>st. (mountFilters fo st, [])) (inlineDir_toState d fo)"

definition inline_toState :: "sourceInline \<Rightarrow> fetchOptions \<Rightarrow> llb option" where
  "inline_toState i fo =
    (case inl_File i of
       Some f \<Rightarrow> inlineFile_toState f (fo_Rename fo) Scratch
     | None \<Rightarrow> (case inl_Dir i of None \<Rightarrow> None | Some d \<Rightarrow> inlineDir_toState d fo))"

definition inline_toMount :: "sourceInline \<Rightarrow> fetchOptions \<Rightarrow> (llb \<times> mountOpt list) option" where
  "inline_toMount i fo =
    (case inl_File i of
       Some f \<Rightarrow> inlineFile_toMount f (fo_Rename fo)
     | None \<Rightarrow> (case inl_Dir i of None \<Rightarrow> None | Some d \<Rightarrow> inlineDir_toMount d fo))"

section \<open>Commands\<close>

text \<open>The first mount that is refused below the extracted path.\<close>

fun refused_mount :: "(string \<Rightarrow> gores) \<Rightarrow> string \<Rightarrow> sourceMount list \<Rightarrow> gores" where
  "refused_mount dg sub [] = None"
| "refused_mount dg sub (m # ms) =
    (case mount_validateInRoot dg sub m of Some e \<Rightarrow> Some e | None \<Rightarrow> refused_mount dg sub ms)"

text \<open>
  The loop over the steps.  \<open>base\<close> are the mounts of the command; each step comes with its own.  The
  run option of a mount is built when the step runs, so a panic in it happens only there.
\<close>

fun run_steps :: "(string \<Rightarrow> gores) \<Rightarrow> string \<Rightarrow> runOpt list option \<Rightarrow> bool \<Rightarrow> llb \<Rightarrow> llb
    \<Rightarrow> (buildStep \<times> runOpt list option) list \<Rightarrow> llb option" where
  "run_steps dg sub base first img out [] = Some out"
| "run_steps dg sub base first img out ((step, ms) # rest) =
    (case refused_mount dg sub (step_Mounts step) of
       Some e \<Rightarrow> Some (AsyncErr img e)
     | None \<Rightarrow>
         (case (base, ms) of
            (Some bs, Some os) \<Rightarrow>
              (let rOpts = RunArgs [''/bin/sh'', ''-c'', step_Command step] # bs
                     @ map (\<lambda>(k, v). RunEnv k v) (step_Env step) @ os
               in if first \<and> isRoot sub
                  then run_steps dg sub base False (ExecRoot img rOpts) (ExecRoot img rOpts) rest
                  else run_steps dg sub base False (ExecRoot img (rOpts @ [RunMount sub out []]))
                         (run_mount img rOpts sub out) rest)
          | _ \<Rightarrow> None))"

definition command_env :: "command \<Rightarrow> llb \<Rightarrow> llb" where
  "command_env cmd img =
    (let img1 = foldl (\<lambda>st (k, v). WithEnv st k v) img (cmd_Env cmd)
     in if cmd_Dir cmd \<noteq> [] then WithDir img1 (cmd_Dir cmd) else img1)"

fun source_toState :: "sourceOpts \<Rightarrow> string \<Rightarrow> source \<Rightarrow> llb option"
and source_toMount :: "sourceOpts \<Rightarrow> source \<Rightarrow> (llb \<times> mountOpt list) option"
and image_base :: "sourceOpts \<Rightarrow> string \<Rightarrow> sourceDockerImage \<Rightarrow> llb option"
and command_base :: "sourceOpts \<Rightarrow> string \<Rightarrow> llb \<Rightarrow> command \<Rightarrow> llb option"
and step_mounts :: "sourceOpts \<Rightarrow> buildStep \<Rightarrow> runOpt list option"
and mount_ToRunOption :: "sourceOpts \<Rightarrow> sourceMount \<Rightarrow> runOpt option"
and build_base :: "sourceOpts \<Rightarrow> sourceBuild \<Rightarrow> llb option" where
  "source_toState so name (Source img git http ctx bld inl path incl excl gens) =
    (let fo = \<lparr>fo_Path = path, fo_Includes = patterns incl, fo_Excludes = patterns excl, fo_Rename = name\<rparr>
     in case bld of Some b \<Rightarrow> map_option (sourceFilters fo) (build_base so b) | None \<Rightarrow>
       (case ctx of Some c \<Rightarrow> Some (sourceFilters fo (context_base so c fo)) | None \<Rightarrow>
       (case img of Some d \<Rightarrow>
          map_option (sourceFilters (if di_Cmd d = None then fo else fo\<lparr>fo_Path := ''/''\<rparr>)) (image_base so path d)
        | None \<Rightarrow>
       (case git of Some g \<Rightarrow> Some (sourceFilters fo (git_base g)) | None \<Rightarrow>
       (case http of Some h \<Rightarrow> Some (http_toState h name) | None \<Rightarrow>
       (case inl of Some i \<Rightarrow> inline_toState i fo | None \<Rightarrow> None))))))"
| "source_toMount so (Source img git http ctx bld inl path incl excl gens) =
    (let fo = \<lparr>fo_Path = path, fo_Includes = patterns incl, fo_Excludes = patterns excl, fo_Rename = []\<rparr>;
         r = (case bld of Some b \<Rightarrow> map_option (\<lambda>st. (mountFilters fo st, [])) (build_base so b) | None \<Rightarrow>
       (case ctx of Some c \<Rightarrow> Some (mountFilters fo (context_base so c fo), []) | None \<Rightarrow>
       (case img of Some d \<Rightarrow>
          map_option (\<lambda>st. (mountFilters fo st, if di_Cmd d = None then [] else [SourcePath ''/''])) (image_base so path d)
        | None \<Rightarrow>
       (case git of Some g \<Rightarrow> Some (mountFilters fo (git_base g), []) | None \<Rightarrow>
       (case http of Some h \<Rightarrow> Some (http_toMount h []) | None \<Rightarrow>
       (case inl of Some i \<Rightarrow> inline_toMount i fo | None \<Rightarrow> None))))))
     in map_option (\<lambda>(st, os). (st, (if isRoot path then os else SourcePath path # os))) r)"
| "image_base so path (SourceDockerImage ref cmd) =
    (case cmd of None \<Rightarrow> Some (Image ref) | Some c \<Rightarrow> command_base so path (Image ref) c)"
| "command_base so path img (Command dir mounts env steps) =
    (let sub = (if path = [] then ''/'' else path);
         img' = command_env (Command dir mounts env steps) img
     in case refused_mount (so_Digest so) sub mounts of
          Some e \<Rightarrow> Some (AsyncErr img' e)
        | None \<Rightarrow>
            run_steps (so_Digest so) sub (those (map (mount_ToRunOption so) mounts)) True img' Scratch
              (map (\<lambda>st. (st, step_mounts so st)) steps))"
| "step_mounts so (BuildStep cmd env mounts) = those (map (mount_ToRunOption so) mounts)"
| "mount_ToRunOption so (SourceMount dest sp) =
    map_option (\<lambda>(st, os). RunMount dest st os) (source_toMount so sp)"
| "build_base so (SourceBuild src dfpath tgt bargs) =
    (case SourceIsDir src of
       None \<Rightarrow> None
     | Some isDir \<Rightarrow>
         (let name = (if isDir then [] else if dfpath \<noteq> [] then dfpath else ''Dockerfile'')
          in case source_toState so name src of
               None \<Rightarrow> None
             | Some st \<Rightarrow>
                 Some (case so_Forward so st (SourceBuild src dfpath tgt bargs) of
                         Inl e \<Rightarrow> AsyncErr st e | Inr r \<Rightarrow> r)))"

definition baseImage_ToState :: "sourceOpts \<Rightarrow> baseImage option \<Rightarrow> llb option" where
  "baseImage_ToState so bi = (case bi of None \<Rightarrow> Some Scratch | Some b \<Rightarrow> source_toState so [] (bi_Rootfs b))"

section \<open>The sources of a spec and their patches\<close>

definition Sources_llb :: "spec \<Rightarrow> sourceOpts \<Rightarrow> llb gomap option" where
  "Sources_llb sp so = those (map (\<lambda>(k, src). map_option (Pair k) (source_toState so k src)) (sp_Sources sp))"

definition state_of :: "llb gomap \<Rightarrow> string \<Rightarrow> llb" where
  "state_of states k = (case map_of states k of None \<Rightarrow> ZeroState | Some st \<Rightarrow> st)"

text \<open>One patch: the source is mounted at \<open>/src\<close>, and what the mount holds afterwards is the new source.\<close>

definition patch_run :: "llb \<Rightarrow> llb gomap \<Rightarrow> string \<Rightarrow> llb \<Rightarrow> patchSpec \<Rightarrow> llb option" where
  "patch_run worker states subPath st p =
    map_option (\<lambda>n. run_mount worker
        [RunMount ''/patch'' (state_of states (p_Source p)) [Readonly, SourcePath (Join [p_Source p, p_Path p])],
         RunDir (Join [''src'', subPath]),
         ShArgs (''patch -p'' @ Itoa n @ '' < /patch'')] ''/src'' st)
      (p_Strip p)"

fun patchSource :: "llb \<Rightarrow> llb gomap \<Rightarrow> string \<Rightarrow> llb \<Rightarrow> patchSpec list \<Rightarrow> llb option" where
  "patchSource worker states subPath st [] = Some st"
| "patchSource worker states subPath st (p # ps) =
    (case patch_run worker states subPath st p of
       None \<Rightarrow> None | Some st' \<Rightarrow> patchSource worker states subPath st' ps)"

fun patch_loop :: "llb \<Rightarrow> spec \<Rightarrow> llb gomap \<Rightarrow> string list \<Rightarrow> llb gomap option" where
  "patch_loop worker sp states [] = Some states"
| "patch_loop worker sp states (k # ks) =
    (case map_of (sp_Patches sp) k of
       None \<Rightarrow> patch_loop worker sp states ks
     | Some ps \<Rightarrow>
         (case patchSource worker states k (state_of states k) ps of
            None \<Rightarrow> None
          | Some st \<Rightarrow> patch_loop worker sp (mput k st states) ks))"

definition PatchSources :: "llb \<Rightarrow> spec \<Rightarrow> llb gomap \<Rightarrow> llb gomap option" where
  "PatchSources worker sp states = patch_loop worker sp states (SortMapKeys states)"

text \<open>The states of the selected sources and of the patches they need; a missing patch source is an error.\<close>

fun patch_states :: "sourceOpts \<Rightarrow> spec \<Rightarrow> llb gomap \<Rightarrow> patchSpec list \<Rightarrow> (goerr + llb gomap) option" where
  "patch_states so sp states [] = Some (Inr states)"
| "patch_states so sp states (p # ps) =
    (case map_of (sp_Sources sp) (p_Source p) of
       None \<Rightarrow> Some (Inl (Msg (''patch source '' @ Quote (p_Source p) @ '' not found'')))
     | Some src \<Rightarrow>
         (case source_toState so (p_Source p) src of
            None \<Rightarrow> None
          | Some st \<Rightarrow> patch_states so sp (mput (p_Source p) st states) ps))"

fun needed_states :: "sourceOpts \<Rightarrow> spec \<Rightarrow> (string \<Rightarrow> bool) \<Rightarrow> llb gomap \<Rightarrow> source gomap \<Rightarrow> (goerr + llb gomap) option" where
  "needed_states so sp wanted states [] = Some (Inr states)"
| "needed_states so sp wanted states ((k, src) # rest) =
    (if \<not> wanted k then needed_states so sp wanted states rest
     else (case source_toState so k src of
             None \<Rightarrow> None
           | Some st \<Rightarrow>
               (case patch_states so sp (mput k st states)
                       (case map_of (sp_Patches sp) k of None \<Rightarrow> [] | Some ps \<Rightarrow> ps) of
                  None \<Rightarrow> None
                | Some (Inl e) \<Rightarrow> Some (Inl e)
                | Some (Inr states') \<Rightarrow> needed_states so sp wanted states' rest)))"

definition getPatchedSources :: "sourceOpts \<Rightarrow> llb \<Rightarrow> spec \<Rightarrow> (string \<Rightarrow> bool) \<Rightarrow> (goerr + llb gomap) option" where
  "getPatchedSources so worker sp wanted =
    (case needed_states so sp wanted [] (sp_Sources sp) of
       None \<Rightarrow> None
     | Some (Inl e) \<Rightarrow> Some (Inl e)
     | Some (Inr states) \<Rightarrow> map_option Inr (PatchSources worker sp states))"

definition Tar :: "llb \<Rightarrow> llb \<Rightarrow> string \<Rightarrow> llb" where
  "Tar work st dest =
    (let out = Join [''/tmp/out'', Dir dest]
     in run_mount
          (ExecRoot work [RunMount ''/src'' st [Readonly], ShArgs ''tar -C /src -czf /tmp/st .''])
          [RunArgs [''/bin/sh'', ''-c'', ''mkdir -p '' @ out @ '' && mv /tmp/st '' @ Join [out, Base dest]]]
          ''/tmp/out'' Scratch)"

section \<open>Repositories\<close>

record repoPlatformConfig =
  rpc_ConfigRoot :: string
  rpc_GPGKeyRoot :: string
  rpc_ConfigExt :: string

text \<open>\<open>filepath.Ext\<close>: the text from the last dot of the last element.\<close>

definition Ext :: "string \<Rightarrow> string" where
  "Ext p =
    (let s = takeWhile (\<lambda>c. c \<noteq> slash) (rev p)
     in if CHR ''.'' \<in> set s then CHR ''.'' # rev (takeWhile (\<lambda>c. c \<noteq> CHR ''.'') s) else [])"

definition repo_data_mounts :: "sourceOpts \<Rightarrow> packageRepositoryConfig \<Rightarrow> runOpt list option" where
  "repo_data_mounts so repo = those (map (mount_ToRunOption so) (repo_Data repo))"

definition WithRepoData :: "sourceOpts \<Rightarrow> packageRepositoryConfig list \<Rightarrow> runOpt list option" where
  "WithRepoData so repos = map_option concat (those (map (repo_data_mounts so) repos))"

definition config_file :: "repoPlatformConfig \<Rightarrow> string \<Rightarrow> string" where
  "config_file cfg name =
    Join [rpc_ConfigRoot cfg, if Ext name \<noteq> rpc_ConfigExt cfg then name @ rpc_ConfigExt cfg else name]"

definition mount_at :: "sourceOpts \<Rightarrow> string \<Rightarrow> source \<Rightarrow> runOpt option" where
  "mount_at so dest src = map_option (\<lambda>(st, os). RunMount dest st os) (source_toMount so src)"

definition repoConfigAsMount :: "sourceOpts \<Rightarrow> repoPlatformConfig \<Rightarrow> packageRepositoryConfig \<Rightarrow> runOpt list option" where
  "repoConfigAsMount so cfg repo =
    those (map (\<lambda>name. case map_of (repo_Config repo) name of
                         None \<Rightarrow> None | Some src \<Rightarrow> mount_at so (config_file cfg name) src)
             (SortMapKeys (repo_Config repo)))"

definition WithRepoConfigs :: "sourceOpts \<Rightarrow> repoPlatformConfig \<Rightarrow> packageRepositoryConfig list \<Rightarrow> runOpt list option" where
  "WithRepoConfigs so cfg repos = map_option concat (those (map (repoConfigAsMount so cfg) repos))"

text \<open>The keys are taken in the iteration order of the map.\<close>

definition GetRepoKeys :: "sourceOpts \<Rightarrow> repoPlatformConfig \<Rightarrow> packageRepositoryConfig list \<Rightarrow> (runOpt list \<times> string list) option" where
  "GetRepoKeys so cfg repos =
    (let keys = concat (map repo_Keys repos)
     in map_option (\<lambda>ms. (ms, map fst keys))
          (those (map (\<lambda>(name, src). mount_at so (Join [rpc_GPGKeyRoot cfg, name]) src) keys)))"

end
