(* ===== verification/Source_State_Props.thy ===== *)
theory Source_State_Props
  imports Source_State
begin

text \<open>
  Properties of the graphs of sources: when a graph is produced at all, which errors it reports, and
  which secrets it asks for.
\<close>

section \<open>Names\<close>

text \<open>
  \<open>source_tidy\<close>: the names the code takes from the spec without checking them.  Files of an inline
  directory have proper names, and a docker build from a single file has a usable dockerfile name.
\<close>

definition file_name :: "string \<Rightarrow> bool" where
  "file_name k = (proper_elem k \<and> k \<noteq> ''..'')"

definition inline_tidy :: "sourceInline \<Rightarrow> bool" where
  "inline_tidy i = (case inl_Dir i of None \<Rightarrow> True | Some d \<Rightarrow> list_all (\<lambda>(k, f). file_name k) (idir_Files d))"

fun source_tidy :: "source \<Rightarrow> bool"
and image_tidy :: "sourceDockerImage \<Rightarrow> bool"
and command_tidy :: "command \<Rightarrow> bool"
and step_tidy :: "buildStep \<Rightarrow> bool"
and mount_tidy :: "sourceMount \<Rightarrow> bool"
and build_tidy :: "sourceBuild \<Rightarrow> bool" where
  "source_tidy (Source img git http ctx bld inl path incl excl gens) =
    ((case bld of None \<Rightarrow> True | Some b \<Rightarrow> build_tidy b)
     \<and> (case img of None \<Rightarrow> True | Some d \<Rightarrow> image_tidy d)
     \<and> (case inl of None \<Rightarrow> True | Some i \<Rightarrow> inline_tidy i))"
| "image_tidy (SourceDockerImage ref cmd) = (case cmd of None \<Rightarrow> True | Some c \<Rightarrow> command_tidy c)"
| "command_tidy (Command dir mounts env steps) = (list_all mount_tidy mounts \<and> list_all step_tidy steps)"
| "step_tidy (BuildStep cmd env mounts) = list_all mount_tidy mounts"
| "mount_tidy (SourceMount dest sp) = source_tidy sp"
| "build_tidy (SourceBuild src dfpath tgt bargs) = (source_tidy src \<and> dfpath \<noteq> ''/'' \<and> dfpath \<noteq> ''.'')"

lemma Join_name_file:
  assumes "name = [] \<or> file_name name" and "file_name k"
  shows "\<not> isRoot (Join [name, k])" and "Join [name, k] = (if name = [] then k else name @ ''/'' @ k)"
proof -
  let ?es = "(if name = [] then [] else [name]) @ [k]"
  have p: "list_all proper_elem ?es" and d: "''..'' \<notin> set ?es"
    using assms by (auto simp: file_name_def)
  have k: "k \<noteq> []" using assms(2) by (simp add: file_name_def proper_elem_def)
  have join: "Join [name, k] = Clean (join_with [slash] ?es)"
    using k by (auto simp: Join_def)
  have "clean_form False ?es"
    using p d by (auto simp: clean_form_def intro: dots_in_front_no_dots)
  then have "Clean (join_with [slash] ?es) = join_with [slash] ?es"
    using clean_path_string [of False ?es] by (simp add: Clean_def path_string_def)
  with join show eq: "Join [name, k] = (if name = [] then k else name @ ''/'' @ k)"
    by simp
  show "\<not> isRoot (Join [name, k])"
    unfolding eq using assms by (cases name) (auto simp: isRoot_def file_name_def proper_elem_def)
qed

section \<open>Graphs are produced\<close>

lemma inlineDir_files_total:
  assumes "list_all (\<lambda>(k, f). file_name k) fs" and "fo_Rename fo = [] \<or> file_name (fo_Rename fo)"
    and "set ks \<subseteq> fst ` set fs"
  shows "inlineDir_files fo fs ks st \<noteq> None"
  using assms(3)
proof (induction ks arbitrary: st)
  case (Cons k ks)
  then obtain f where f: "map_of fs k = Some f"
    by (cases "map_of fs k") (auto simp: map_of_eq_None_iff)
  then have "file_name k" using assms(1) by (auto simp: list_all_iff dest: map_of_SomeD)
  then have "\<not> isRoot (Join [fo_Rename fo, k])" by (rule Join_name_file(1) [OF assms(2)])
  with Cons f show ?case by (simp add: inlineFile_toState_def)
qed simp

lemma refused_mount_none: "refused_mount dg sub ms = None \<longleftrightarrow> (\<forall>m \<in> set ms. mount_validateInRoot dg sub m = None)"
  by (induction ms) (auto split: option.splits)

lemma refused_mountE:
  assumes "refused_mount dg sub ms = Some e"
  obtains m where "m \<in> set ms" and "mount_validateInRoot dg sub m = Some e"
  using assms by (induction ms) (auto split: option.splits)

lemma validateInRoot_ok: "mount_validateInRoot dg sub m = None \<Longrightarrow> mount_ok dg m"
  by (simp add: mount_validateInRoot_def go_nil split: option.splits)

lemma those_total: "(\<And>x. x \<in> set xs \<Longrightarrow> f x \<noteq> None) \<Longrightarrow> \<exists>ys. those (map f xs) = Some ys"
  by (induction xs) force+

lemma those_map_set: "those (map f xs) = Some ys \<Longrightarrow> y \<in> set ys \<Longrightarrow> \<exists>x \<in> set xs. f x = Some y"
  by (induction xs arbitrary: ys) (auto split: option.splits)

lemma run_steps_total:
  assumes "base \<noteq> None"
    and "\<And>s ms. (s, ms) \<in> set steps \<Longrightarrow> refused_mount dg sub (step_Mounts s) = None \<Longrightarrow> ms \<noteq> None"
  shows "run_steps dg sub base first img out steps \<noteq> None"
  using assms(2)
proof (induction steps arbitrary: first img out)
  case (Cons x steps)
  obtain s ms where x: "x = (s, ms)" by (cases x)
  show ?case
  proof (cases "refused_mount dg sub (step_Mounts s)")
    case None
    then obtain os where os: "ms = Some os" using Cons.prems x by fastforce
    have ih: "run_steps dg sub base f i o' steps \<noteq> None" for f i o'
      using Cons.IH Cons.prems by (meson list.set_intros(2))
    obtain bs where "base = Some bs" using assms(1) by blast
    with ih show ?thesis by (simp add: x os None Let_def)
  qed (simp add: x)
qed simp

definition name_fits :: "string \<Rightarrow> source \<Rightarrow> bool" where
  "name_fits name s = (if SourceIsDir s = Some True then name = [] \<or> file_name name else \<not> isRoot name)"

lemma mount_name_not_root [simp]: "\<not> isRoot (mount_name n)"
  by (simp add: mount_name_def internalMountSourceName_def isRoot_def)

lemma inlineDir_total:
  assumes "list_all (\<lambda>(k, f). file_name k) (idir_Files d)" and "fo_Rename fo = [] \<or> file_name (fo_Rename fo)"
  shows "inlineDir_toState d fo \<noteq> None" and "inlineDir_toMount d fo \<noteq> None"
  using inlineDir_files_total [OF assms, of "SortMapKeys (idir_Files d)"]
  by (simp_all add: inlineDir_toState_def inlineDir_toMount_def inlineDir_base_def)

lemma inline_total:
  assumes "inline_ok path incl excl i" and "inline_tidy i"
  shows "(if inl_Dir i \<noteq> None then fo_Rename fo = [] \<or> file_name (fo_Rename fo) else \<not> isRoot (fo_Rename fo))
      \<Longrightarrow> inline_toState i fo \<noteq> None"
    and "fo_Rename fo = [] \<Longrightarrow> inline_toMount i fo \<noteq> None"
  using assms inlineDir_total [of "the (inl_Dir i)" fo]
  by (auto simp: inline_ok_def inline_tidy_def inline_toState_def inline_toMount_def inlineFile_toState_def
      inlineFile_toMount_def split: option.splits)

lemma source_ok_isDir: "source_ok dg s \<Longrightarrow> SourceIsDir s \<noteq> None"
  by (cases s) (auto simp: SourceIsDir_def toInterface_def variant_count_def split: option.splits)

lemma source_total:
  "source_tidy s \<Longrightarrow> source_ok (so_Digest so) s \<Longrightarrow>
     (\<forall>name. name_fits name s \<longrightarrow> source_toState so name s \<noteq> None) \<and> source_toMount so s \<noteq> None"
  "image_tidy d \<Longrightarrow> \<forall>path. image_ok (so_Digest so) path d \<longrightarrow> image_base so path d \<noteq> None"
  "command_tidy c \<Longrightarrow> command_ok (so_Digest so) c \<Longrightarrow> \<forall>path img. command_base so path img c \<noteq> None"
  "step_tidy t \<Longrightarrow> \<forall>m \<in> set (step_Mounts t). mount_ok (so_Digest so) m \<Longrightarrow> step_mounts so t \<noteq> None"
  "mount_tidy m \<Longrightarrow> mount_ok (so_Digest so) m \<Longrightarrow> mount_ToRunOption so m \<noteq> None"
  "build_tidy b \<Longrightarrow> build_ok (so_Digest so) b \<Longrightarrow> build_base so b \<noteq> None"
proof (induction s and d and c and t and m and b
    rule: source_tidy_image_tidy_command_tidy_step_tidy_mount_tidy_build_tidy.induct)
  case (1 img git http ctx bld inl path incl excl gens)
  have one: "variant_count (Source img git http ctx bld inl path incl excl gens) = 1" using 1 by simp
  show ?case
    using 1 one inline_total [of path "incl" "excl" "the inl"]
    by (elim variant_one_cases)
      (auto simp: name_fits_def SourceIsDir_def toInterface_def Let_def image_base.simps split: if_splits option.splits)
next
  case (3 dir mounts env steps)
  show ?case
  proof (intro allI)
    fix path img
    let ?sub = "if path = [] then ''/'' else path"
    have "those (map (mount_ToRunOption so) mounts) \<noteq> None"
      using 3 those_total [of mounts "mount_ToRunOption so"] by (auto simp: list_all_iff)
    moreover have "step_mounts so t \<noteq> None"
      if "t \<in> set steps" and "refused_mount (so_Digest so) ?sub (step_Mounts t) = None" for t
      proof -
      have "\<forall>m \<in> set (step_Mounts t). mount_ok (so_Digest so) m"
        using that(2) validateInRoot_ok by (auto simp: refused_mount_none)
      then show ?thesis using that(1) 3 by (auto simp: list_all_iff)
    qed
    ultimately have "run_steps (so_Digest so) ?sub (those (map (mount_ToRunOption so) mounts)) True img' Scratch
        (map (\<lambda>st. (st, step_mounts so st)) steps) \<noteq> None" for img'
      by (intro run_steps_total) auto
    then show "command_base so path img (Command dir mounts env steps) \<noteq> None"
      by (cases "path = []") (simp_all add: Let_def split: option.split)
  qed
next
  case (4 cmd env mounts)
  then show ?case using those_total [of mounts "mount_ToRunOption so"] by (auto simp: list_all_iff)
next
  case (6 src dfpath tgt bargs)
  then obtain isDir where dir: "SourceIsDir src = Some isDir"
    using source_ok_isDir by fastforce
  let ?name = "if isDir then [] else if dfpath \<noteq> [] then dfpath else ''Dockerfile''"
  have "name_fits ?name src"
    using 6 dir by (auto simp: name_fits_def isRoot_def)
  then obtain st where "source_toState so ?name src = Some st" using 6 by fastforce
  then show ?case unfolding build_base.simps Let_def dir by simp
qed (auto split: option.splits)

section \<open>What the graph of a source contains\<close>

text \<open>
  \<open>source_over pg pm s\<close>: every git source within \<open>s\<close> satisfies \<open>pg\<close>, and every mount of a command
  satisfies \<open>pm\<close> for the path that is extracted from that command.
\<close>

fun source_over :: "(sourceGit \<Rightarrow> bool) \<Rightarrow> (string \<Rightarrow> sourceMount \<Rightarrow> bool) \<Rightarrow> source \<Rightarrow> bool"
and image_over :: "(sourceGit \<Rightarrow> bool) \<Rightarrow> (string \<Rightarrow> sourceMount \<Rightarrow> bool) \<Rightarrow> string \<Rightarrow> sourceDockerImage \<Rightarrow> bool"
and command_over :: "(sourceGit \<Rightarrow> bool) \<Rightarrow> (string \<Rightarrow> sourceMount \<Rightarrow> bool) \<Rightarrow> string \<Rightarrow> command \<Rightarrow> bool"
and step_over :: "(sourceGit \<Rightarrow> bool) \<Rightarrow> (string \<Rightarrow> sourceMount \<Rightarrow> bool) \<Rightarrow> string \<Rightarrow> buildStep \<Rightarrow> bool"
and mount_over :: "(sourceGit \<Rightarrow> bool) \<Rightarrow> (string \<Rightarrow> sourceMount \<Rightarrow> bool) \<Rightarrow> sourceMount \<Rightarrow> bool"
and build_over :: "(sourceGit \<Rightarrow> bool) \<Rightarrow> (string \<Rightarrow> sourceMount \<Rightarrow> bool) \<Rightarrow> sourceBuild \<Rightarrow> bool" where
  "source_over pg pm (Source img git http ctx bld inl path incl excl gens) =
    ((case bld of None \<Rightarrow> True | Some b \<Rightarrow> build_over pg pm b)
     \<and> (case img of None \<Rightarrow> True | Some d \<Rightarrow> image_over pg pm (if path = [] then ''/'' else path) d)
     \<and> (case git of None \<Rightarrow> True | Some g \<Rightarrow> pg g))"
| "image_over pg pm sub (SourceDockerImage ref cmd) = (case cmd of None \<Rightarrow> True | Some c \<Rightarrow> command_over pg pm sub c)"
| "command_over pg pm sub (Command dir mounts env steps) =
    (list_all (\<lambda>m. pm sub m \<and> mount_over pg pm m) mounts \<and> list_all (step_over pg pm sub) steps)"
| "step_over pg pm sub (BuildStep cmd env mounts) = list_all (\<lambda>m. pm sub m \<and> mount_over pg pm m) mounts"
| "mount_over pg pm (SourceMount dest sp) = source_over pg pm sp"
| "build_over pg pm (SourceBuild src dfpath tgt bargs) = source_over pg pm src"

context graph_query
begin

lemma sourceFilters_query: "q (sourceFilters fo st) = q st"
  by (simp add: sourceFilters_def query_simps)

lemma mountFilters_query: "q (mountFilters fo st) = q st"
  by (simp add: mountFilters_def query_simps)

lemma command_env_query: "q (command_env c st) = q st"
  by (simp add: command_env_def envs_query query_simps Let_def)

lemma inlineDir_files_query: "inlineDir_files fo fs ks st = Some st' \<Longrightarrow> q st' = q st"
  by (induction ks arbitrary: st)
    (auto simp: inlineFile_toState_def query_simps split: if_splits option.splits)

lemma inlineDir_query: "inlineDir_toState d fo = Some st \<Longrightarrow> q st = {}"
  by (auto simp: inlineDir_toState_def inlineDir_base_def sourceFilters_query query_simps dest: inlineDir_files_query)

lemma inline_toState_query: "inline_toState i fo = Some st \<Longrightarrow> q st = {}"
  by (auto simp: inline_toState_def inlineFile_toState_def query_simps dest: inlineDir_query split: option.splits if_splits)

lemma inline_toMount_query: "inline_toMount i fo = Some (st, os) \<Longrightarrow> q st = {}"
  by (auto simp: inline_toMount_def inlineFile_toMount_def inlineDir_toMount_def mountFilters_query
      inlineFile_toState_def query_simps dest: inlineDir_query split: option.splits if_splits)

lemma run_steps_query:
  assumes "\<And>img e m. m \<in> M \<Longrightarrow> mount_validateInRoot dg sub m = Some e \<Longrightarrow> q img \<subseteq> B \<Longrightarrow> q (AsyncErr img e) \<subseteq> B"
    and "\<And>bs. base = Some bs \<Longrightarrow> (\<Union>o' \<in> set bs. qo o') \<subseteq> B"
    and "\<And>s ms. (s, ms) \<in> set steps \<Longrightarrow> set (step_Mounts s) \<subseteq> M"
    and "\<And>s ms os. (s, ms) \<in> set steps \<Longrightarrow> ms = Some os \<Longrightarrow> (\<Union>o' \<in> set os. qo o') \<subseteq> B"
  shows "q img \<subseteq> B \<Longrightarrow> q out \<subseteq> B \<Longrightarrow> run_steps dg sub base first img out steps = Some st \<Longrightarrow> q st \<subseteq> B"
  using assms(3,4)
proof (induction steps arbitrary: first img out)
  case (Cons x steps)
  obtain s ms where x: "x = (s, ms)" by (cases x)
  have step: "q st \<subseteq> B" if "run_steps dg sub base f i o' steps = Some st" "q i \<subseteq> B" "q o' \<subseteq> B" for f i o'
  proof (rule Cons.IH [OF that(2,3,1)])
    show "set (step_Mounts s') \<subseteq> M" if "(s', ms') \<in> set steps" for s' ms'
      using Cons.prems(4) [of s' ms'] that by simp
    show "(\<Union>o' \<in> set os. qo o') \<subseteq> B" if "(s', ms') \<in> set steps" "ms' = Some os" for s' ms' os
      using Cons.prems(5) [of s' ms' os] that by simp
  qed
  show ?case
  proof (cases "refused_mount dg sub (step_Mounts s)")
    case (Some e)
    then obtain m where "m \<in> set (step_Mounts s)" "mount_validateInRoot dg sub m = Some e"
      by (rule refused_mountE)
    then have "q (AsyncErr img e) \<subseteq> B" using assms(1) [of m e img] Cons.prems(1) Cons.prems(4) [of s ms] x by auto
    moreover have "st = AsyncErr img e" using Cons.prems(3) x Some by simp
    ultimately show ?thesis by simp
  next
    case None
    with Cons.prems(3) x obtain bs os where bs: "base = Some bs" and os: "ms = Some os" by (auto split: option.splits)
    define rOpts where "rOpts = RunArgs [''/bin/sh'', ''-c'', step_Command s] # bs
      @ map (\<lambda>(k, v). RunEnv k v) (step_Env s) @ os"
    have opts: "(\<Union>o' \<in> set rOpts. qo o') \<subseteq> B"
      using assms(2) [OF bs] Cons.prems(5) [of s ms os] unfolding x os rOpts_def by (auto simp: query_simps)
    have "run_steps dg sub base False (ExecRoot img rOpts) (ExecRoot img rOpts) steps = Some st
        \<or> run_steps dg sub base False (ExecRoot img (rOpts @ [RunMount sub out []])) (run_mount img rOpts sub out) steps = Some st"
      using Cons.prems(3) x None bs os by (auto simp: Let_def rOpts_def split: if_splits)
    moreover have "q (ExecRoot img rOpts) \<subseteq> B" "q (ExecRoot img (rOpts @ [RunMount sub out []])) \<subseteq> B"
        "q (run_mount img rOpts sub out) \<subseteq> B"
      using opts Cons.prems(1,2) by (simp_all add: query_simps run_mount_query)
    ultimately show ?thesis using step by blast
  qed
qed simp

lemma mounts_query:
  assumes "those (map (mount_ToRunOption so) ms) = Some os" and "\<And>m o'. m \<in> set ms \<Longrightarrow> mount_ToRunOption so m = Some o' \<Longrightarrow> qo o' \<subseteq> B"
  shows "(\<Union>o' \<in> set os. qo o') \<subseteq> B"
  using those_map_set [OF assms(1)] assms(2) by blast

lemma command_base_query:
  assumes refuse: "\<And>sub m img e. pm sub m \<Longrightarrow> mount_validateInRoot (so_Digest so) sub m = Some e \<Longrightarrow> q img \<subseteq> B
        \<Longrightarrow> q (AsyncErr img e) \<subseteq> B"
    and over: "command_over pg pm (if path = [] then ''/'' else path) (Command dir mounts env steps)"
    and img: "q img \<subseteq> B" and st: "command_base so path img (Command dir mounts env steps) = Some st"
    and mounts: "\<And>m o'. m \<in> set mounts \<Longrightarrow> mount_ToRunOption so m = Some o' \<Longrightarrow> qo o' \<subseteq> B"
    and steps: "\<And>t os. t \<in> set steps \<Longrightarrow> step_mounts so t = Some os \<Longrightarrow> (\<Union>o' \<in> set os. qo o') \<subseteq> B"
  shows "q st \<subseteq> B"
proof (cases "refused_mount (so_Digest so) (if path = [] then ''/'' else path) mounts")
  let ?sub = "if path = [] then ''/'' else path" and ?c = "Command dir mounts env steps"
  case (Some e)
  then obtain m where "m \<in> set mounts" "mount_validateInRoot (so_Digest so) ?sub m = Some e" by (rule refused_mountE)
  then have "q (AsyncErr (command_env ?c img) e) \<subseteq> B"
    using over img by (intro refuse [of ?sub m]) (auto simp: list_all_iff command_env_query)
  moreover have "st = AsyncErr (command_env ?c img) e" using st Some by (cases "path = []") (auto simp: Let_def)
  ultimately show ?thesis by simp
next
  let ?sub = "if path = [] then ''/'' else path" and ?c = "Command dir mounts env steps"
  case None
  have run: "run_steps (so_Digest so) ?sub (those (map (mount_ToRunOption so) mounts)) True (command_env ?c img)
      Scratch (map (\<lambda>st. (st, step_mounts so st)) steps) = Some st"
    using st None by (cases "path = []") (auto simp: Let_def)
  show ?thesis
  proof (rule run_steps_query [OF _ _ _ _ _ _ run, where M = "{m. pm ?sub m}"])
    show "(\<Union>o' \<in> set bs. qo o') \<subseteq> B" if "those (map (mount_ToRunOption so) mounts) = Some bs" for bs
      by (rule mounts_query [OF that mounts])
    show "set (step_Mounts s) \<subseteq> {m. pm ?sub m}" if "(s, ms) \<in> set (map (\<lambda>st. (st, step_mounts so st)) steps)" for s ms
      using that over by (cases s) (auto simp: list_all_iff)
    show "(\<Union>o' \<in> set os. qo o') \<subseteq> B"
      if "(s, ms) \<in> set (map (\<lambda>st. (st, step_mounts so st)) steps)" "ms = Some os" for s ms os
      using that by (intro steps [of s]) auto
  qed (use refuse img in \<open>auto simp: command_env_query query_simps\<close>)
qed

lemma source_query_all:
  assumes ctx: "\<And>c fo. q (context_base so c fo) \<subseteq> B"
    and fwd: "\<And>st b. q st \<subseteq> B \<Longrightarrow> q (case so_Forward so st b of Inl e \<Rightarrow> AsyncErr st e | Inr r \<Rightarrow> r) \<subseteq> B"
    and git: "\<And>g. pg g \<Longrightarrow> q (git_base g) \<subseteq> B"
    and refuse: "\<And>sub m img e. pm sub m \<Longrightarrow> mount_validateInRoot (so_Digest so) sub m = Some e \<Longrightarrow> q img \<subseteq> B
        \<Longrightarrow> q (AsyncErr img e) \<subseteq> B"
  shows "source_over pg pm s \<Longrightarrow> (\<forall>name st. source_toState so name s = Some st \<longrightarrow> q st \<subseteq> B)
      \<and> (\<forall>st os. source_toMount so s = Some (st, os) \<longrightarrow> q st \<subseteq> B)"
    and "\<forall>path st. image_over pg pm (if path = [] then ''/'' else path) d \<longrightarrow> image_base so path d = Some st \<longrightarrow> q st \<subseteq> B"
    and "\<forall>path img st. command_over pg pm (if path = [] then ''/'' else path) c \<longrightarrow> q img \<subseteq> B
      \<longrightarrow> command_base so path img c = Some st \<longrightarrow> q st \<subseteq> B"
    and "\<forall>sub os. step_over pg pm sub t \<longrightarrow> step_mounts so t = Some os \<longrightarrow> (\<Union>o' \<in> set os. qo o') \<subseteq> B"
    and "mount_over pg pm m \<Longrightarrow> \<forall>o'. mount_ToRunOption so m = Some o' \<longrightarrow> qo o' \<subseteq> B"
    and "build_over pg pm b \<Longrightarrow> \<forall>st. build_base so b = Some st \<longrightarrow> q st \<subseteq> B"
proof (induction s and d and c and t and m and b
    rule: source_tidy_image_tidy_command_tidy_step_tidy_mount_tidy_build_tidy.induct)
  case (1 img git http ctx bld inl path incl excl gens)
  note simps = sourceFilters_query mountFilters_query http_toState_def http_toMount_def query_simps Let_def
  show ?case
  proof (intro conjI allI impI)
    fix name st
    assume "source_toState so name (Source img git http ctx bld inl path incl excl gens) = Some st"
    then show "q st \<subseteq> B"
      using 1 by (auto simp: simps dest: inline_toState_query ctx [THEN subsetD] git [THEN subsetD] split: option.splits) blast+
  next
    fix st os
    assume "source_toMount so (Source img git http ctx bld inl path incl excl gens) = Some (st, os)"
    then show "q st \<subseteq> B"
      using 1 by (auto simp: simps dest: inline_toMount_query ctx [THEN subsetD] git [THEN subsetD] split: option.splits) blast+
  qed
next
  case (2 ref cmd)
  have img: "q (Image ref) \<subseteq> B" by (simp add: query_simps)
  show ?case
  proof (cases cmd)
    case (Some c)
    with 2 [OF Some] img show ?thesis by (simp del: command_over.simps)
  qed (use img in simp)
next
  case (3 dir mounts env steps)
  show ?case
  proof (intro allI impI)
    fix path img st
    assume over: "command_over pg pm (if path = [] then ''/'' else path) (Command dir mounts env steps)"
      and img: "q img \<subseteq> B" and st: "command_base so path img (Command dir mounts env steps) = Some st"
    show "q st \<subseteq> B"
    proof (rule command_base_query [OF refuse over img st])
      show "qo o' \<subseteq> B" if "m \<in> set mounts" "mount_ToRunOption so m = Some o'" for m o'
        using 3(1) [OF that(1)] that(2) over by (simp add: list_all_iff that(1))
      show "(\<Union>o' \<in> set os. qo o') \<subseteq> B" if t: "t \<in> set steps" and os: "step_mounts so t = Some os" for t os
        using 3(2) [OF t] os over t by (simp add: list_all_iff) blast
    qed
  qed
next
  case (4 cmd env mounts)
  show ?case
  proof (intro allI impI)
    fix sub os
    assume "step_over pg pm sub (BuildStep cmd env mounts)" and os: "step_mounts so (BuildStep cmd env mounts) = Some os"
    with 4 show "(\<Union>o' \<in> set os. qo o') \<subseteq> B"
      by (intro mounts_query [of so mounts os]) (auto simp: list_all_iff)
  qed
next
  case (5 dest sp)
  then show ?case by (auto simp: query_simps)
next
  case (6 src dfpath tgt bargs)
  then show ?case using fwd by (auto simp: Let_def split: option.splits)
qed

end

section \<open>Errors and secrets of the graph of a source\<close>

text \<open>Every git source inside a source: in mounted sources and in the context of a docker build.\<close>

fun git_sources :: "source \<Rightarrow> sourceGit list"
and image_gits :: "sourceDockerImage \<Rightarrow> sourceGit list"
and command_gits :: "command \<Rightarrow> sourceGit list"
and step_gits :: "buildStep \<Rightarrow> sourceGit list"
and mount_gits :: "sourceMount \<Rightarrow> sourceGit list"
and build_gits :: "sourceBuild \<Rightarrow> sourceGit list" where
  "git_sources (Source img git http ctx bld inl path incl excl gens) =
    (case bld of None \<Rightarrow> [] | Some b \<Rightarrow> build_gits b) @ (case img of None \<Rightarrow> [] | Some d \<Rightarrow> image_gits d)
    @ (case git of None \<Rightarrow> [] | Some g \<Rightarrow> [g])"
| "image_gits (SourceDockerImage ref cmd) = (case cmd of None \<Rightarrow> [] | Some c \<Rightarrow> command_gits c)"
| "command_gits (Command dir mounts env steps) = concat (map mount_gits mounts) @ concat (map step_gits steps)"
| "step_gits (BuildStep cmd env mounts) = concat (map mount_gits mounts)"
| "mount_gits (SourceMount dest sp) = git_sources sp"
| "build_gits (SourceBuild src dfpath tgt bargs) = git_sources src"

definition auth_names :: "gitAuth \<Rightarrow> string set" where
  "auth_names a = {n. n \<noteq> [] \<and> (n = ga_Header a \<or> n = ga_Token a \<or> n = ga_SSH a)}"

definition source_secrets :: "source \<Rightarrow> string set" where
  "source_secrets s = (\<Union>g \<in> set (git_sources s). auth_names (git_Auth g))"

lemma source_over_gits:
  "source_over pg (\<lambda>_ _. True) s = list_all pg (git_sources s)"
  "\<forall>sub. image_over pg (\<lambda>_ _. True) sub d = list_all pg (image_gits d)"
  "\<forall>sub. command_over pg (\<lambda>_ _. True) sub c = list_all pg (command_gits c)"
  "\<forall>sub. step_over pg (\<lambda>_ _. True) sub t = list_all pg (step_gits t)"
  "mount_over pg (\<lambda>_ _. True) m = list_all pg (mount_gits m)"
  "build_over pg (\<lambda>_ _. True) b = list_all pg (build_gits b)"
  by (induction s and d and c and t and m and b
      rule: source_tidy_image_tidy_command_tidy_step_tidy_mount_tidy_build_tidy.induct)
    (auto simp: list_all_iff split: option.splits)

text \<open>The client resolves contexts and forwards builds without errors, or without secrets of its own.\<close>

definition resolves :: "sourceOpts \<Rightarrow> bool" where
  "resolves so = ((\<forall>n f. \<exists>st. so_GetContext so n f = Inr (Some st) \<and> state_errs st = [])
    \<and> (\<forall>st b. state_errs st = [] \<longrightarrow> (\<exists>r. so_Forward so st b = Inr r \<and> state_errs r = [])))"

definition keeps_secrets :: "sourceOpts \<Rightarrow> bool" where
  "keeps_secrets so = ((\<forall>n f st. so_GetContext so n f = Inr (Some st) \<longrightarrow> graph_secrets st = [])
    \<and> (\<forall>st b r. so_Forward so st b = Inr r \<longrightarrow> set (graph_secrets r) \<subseteq> set (graph_secrets st)))"

text \<open>No mount of a command lies at or below the path that is extracted.\<close>

definition source_clear :: "sourceOpts \<Rightarrow> source \<Rightarrow> bool" where
  "source_clear so = source_over (\<lambda>g. True) (\<lambda>sub m. mount_validateInRoot (so_Digest so) sub m = None)"

lemma source_no_errs:
  assumes "resolves so" and "source_clear so s"
  shows "source_toState so name s = Some st \<Longrightarrow> state_errs st = []"
    and "source_toMount so s = Some (st, os) \<Longrightarrow> state_errs st = []"
proof -
  have ctx: "set (state_errs (context_base so c fo)) \<subseteq> {}" for c fo
  proof -
    obtain st where "so_GetContext so (ctx_Name c) (SetLocalOption fo) = Inr (Some st)" "state_errs st = []"
      using assms(1) unfolding resolves_def by blast
    then show ?thesis by (simp add: context_base_def)
  qed
  have fwd: "set (state_errs (case so_Forward so st b of Inl e \<Rightarrow> AsyncErr st e | Inr r \<Rightarrow> r)) \<subseteq> {}"
    if none: "set (state_errs st) \<subseteq> {}" for st b
  proof -
    obtain r where "so_Forward so st b = Inr r" "state_errs r = []"
      using assms(1) none unfolding resolves_def by (metis set_empty subset_empty)
    then show ?thesis by simp
  qed
  note all = errs_query.source_query_all(1) [OF ctx fwd _ _ assms(2) [unfolded source_clear_def]]
  show "source_toState so name s = Some st \<Longrightarrow> state_errs st = []"
    and "source_toMount so s = Some (st, os) \<Longrightarrow> state_errs st = []"
    using all by (auto simp: git_base_def)
qed

lemma source_secrets_declared:
  assumes "keeps_secrets so"
  shows "source_toState so name s = Some st \<Longrightarrow> set (graph_secrets st) \<subseteq> source_secrets s"
    and "source_toMount so s = Some (st, os) \<Longrightarrow> set (graph_secrets st) \<subseteq> source_secrets s"
proof -
  let ?pg = "\<lambda>g. auth_names (git_Auth g) \<subseteq> source_secrets s"
  have over: "source_over ?pg (\<lambda>_ _. True) s"
    unfolding source_over_gits by (auto simp: list_all_iff source_secrets_def)
  have ctx: "set (graph_secrets (context_base so c fo)) \<subseteq> source_secrets s" for c fo
    using assms by (auto simp: keeps_secrets_def context_base_def split: sum.splits option.splits)
  have fwd: "set (graph_secrets (case so_Forward so st b of Inl e \<Rightarrow> AsyncErr st e | Inr r \<Rightarrow> r)) \<subseteq> source_secrets s"
    if "set (graph_secrets st) \<subseteq> source_secrets s" for st b
    using assms that by (fastforce simp: keeps_secrets_def split: sum.splits)
  have git: "set (graph_secrets (git_base g)) \<subseteq> source_secrets s" if "?pg g" for g
    using that by (auto simp: git_base_def git_secrets_def auth_names_def)
  note all = secrets_query.source_query_all(1) [OF ctx fwd git _ over]
  show "source_toState so name s = Some st \<Longrightarrow> set (graph_secrets st) \<subseteq> source_secrets s"
    and "source_toMount so s = Some (st, os) \<Longrightarrow> set (graph_secrets st) \<subseteq> source_secrets s"
    using all by auto
qed

end
