(* ===== verification/Generators.thy ===== *)
theory Generators
  imports Source_State_Props Writers
begin

text \<open>
  Generated dependencies (generator_gomod.go, generator_cargohome.go, generator_pip.go,
  generator_nodemodules.go): the graphs that download the modules of go, cargo, pip and npm projects
  for the patched sources of a spec, with the credentials of private go modules.

  A generator method runs on a generator of its own kind: \<open>withGomod\<close> takes the gomod part beside the
  generator.  \<open>\<^term>\<open>None\<close>\<close> is a panic, \<^term>\<open>Inl\<close> an error, and \<open>Inr None\<close> the nil state of a spec without
  such a generator.
\<close>

section \<open>Sequencing\<close>

text \<open>Steps that may fail or panic, one after the other.\<close>

fun then_do :: "(goerr + 'a) option \<Rightarrow> ('a \<Rightarrow> (goerr + 'b) option) \<Rightarrow> (goerr + 'b) option" where
  "then_do (Some (Inr x)) f = f x"
| "then_do (Some (Inl e)) f = Some (Inl e)"
| "then_do None f = None"

definition wrap_dep :: "string \<Rightarrow> (goerr + 'a) option \<Rightarrow> (goerr + 'a) option" where
  "wrap_dep m r = map_option (map_sum (Wrap m) id) r"

section \<open>Go modules\<close>

definition gen_paths :: "string list option \<Rightarrow> string list" where
  "gen_paths ps = (case ps of None \<Rightarrow> [''.''] | Some l \<Rightarrow> l)"

definition sshCommand :: string where
  "sshCommand = ''ssh -o UserKnownHostsFile=/dev/null -o StrictHostKeyChecking=no''"

definition gomod_kind :: "gomodGitAuth \<Rightarrow> string option" where
  "gomod_kind auth = (if gga_Token auth \<noteq> [] then Some ''token''
     else if gga_Header auth \<noteq> [] then Some ''header'' else None)"

definition go_private :: "string \<Rightarrow> string" where
  "go_private host = fst (Cut host '':'')"

definition credential_line :: "string \<Rightarrow> string \<Rightarrow> string" where
  "credential_line host kind =
    ''git config --global credential.'' @ dq @ ''https://'' @ host @ ''.helper'' @ dq @ '' '' @ dq
    @ ''/usr/local/bin/frontend credential-helper --kind='' @ kind @ dq"

definition ssh_line :: "string \<Rightarrow> gomodGitAuthSSH \<Rightarrow> string" where
  "ssh_line host ssh =
    ''git config --global url.'' @ dq @ ''ssh://'' @ (if gs_Username ssh \<noteq> [] then gs_Username ssh else ''git'')
    @ ''@'' @ host @ ''/'' @ dq @ ''.insteadOf https://'' @ go_private host @ ''/''"

definition host_lines :: "string \<Rightarrow> gomodGitAuth \<Rightarrow> string list" where
  "host_lines host auth =
    [] # (case gga_SSH auth of
            Some ssh \<Rightarrow> [ssh_line host ssh]
          | None \<Rightarrow> (case gomod_kind auth of None \<Rightarrow> [] | Some kind \<Rightarrow> [credential_line host kind]))"

definition gitconfig_script :: "generatorGomod \<Rightarrow> string" where
  "gitconfig_script gm =
    lines_text
      ((if gm_Auth gm \<noteq> [] then [''set -eu'', []] else [])
       @ for_sorted host_lines (gm_Auth gm)
       @ [''go env -w GOPRIVATE='' @ join_with '','' (map go_private (SortMapKeys (gm_Auth gm))),
          ''[ -f go.mod ]; go mod download''])"

definition gitconfigGeneratorScript :: "generatorGomod \<Rightarrow> string \<Rightarrow> llb" where
  "gitconfigGeneratorScript gm scriptPath = Mkfile Scratch scriptPath 493 (gitconfig_script gm) None"

definition host_secret :: "string \<Rightarrow> gomodGitAuth \<Rightarrow> runOpt list" where
  "host_secret host auth =
    (if gga_Token auth \<noteq> [] then [RunSecret (Join [''/run/secrets'', host, ''token'']) (gga_Token auth)]
     else if gga_Header auth \<noteq> [] then [RunSecret (Join [''/run/secrets'', host, ''header'']) (gga_Header auth)]
     else (case gga_SSH auth of
             None \<Rightarrow> []
           | Some ssh \<Rightarrow> [RunSSH (gs_ID ssh), RunEnv ''GIT_SSH_COMMAND'' sshCommand]))"

definition withGomodSecretsAndSockets :: "generatorGomod \<Rightarrow> runOpt list" where
  "withGomodSecretsAndSockets gm = concat (map (\<lambda>(host, auth). host_secret host auth) (gm_Auth gm))"

definition gomod_run :: "generatorGomod \<Rightarrow> string \<Rightarrow> llb \<Rightarrow> llb \<Rightarrow> string \<Rightarrow> runOpt list \<Rightarrow> llb \<Rightarrow> string \<Rightarrow> llb" where
  \<open>gomod_run gm subpath srcSt worker name credHelper st path =
    (let scriptPath = ''/tmp/dalec/internal/gomod/go_mod_download.sh''
     in run_mount worker
      ([ShArgs (''set -e; GOMODCACHE="${TMP_GOMODCACHE}" '' @ scriptPath
          @ ''; GOPROXY="file://${TMP_GOMODCACHE}/cache/download" '' @ scriptPath)]
       @ withGomodSecretsAndSockets gm
       @ [RunMount ''/tmp/dalec/internal/gomod'' (gitconfigGeneratorScript gm ''go_mod_download.sh'') [],
          RunEnv ''GOPATH'' ''/go'']
       @ credHelper
       @ [RunEnv ''TMP_GOMODCACHE'' ''/tmp/dalec/gomod-proxy-cache'',
          RunEnv ''GIT_SSH_COMMAND'' sshCommand,
          RunDir (Join [Join [''/work/src'', name, subpath], path]),
          RunMount ''/work/src'' srcSt [],
          RunMount ''/tmp/dalec/gomod-proxy-cache'' Scratch
            [AsPersistentCacheDir ''dalec-gomod-proxy-cache'' CacheMountShared]])
      ''/go/pkg/mod'' st)\<close>

definition withGomod :: "sourceGenerator \<Rightarrow> generatorGomod \<Rightarrow> llb \<Rightarrow> llb \<Rightarrow> string \<Rightarrow> runOpt list \<Rightarrow> llb \<Rightarrow> llb" where
  "withGomod g gm srcSt worker name credHelper st =
    foldl (gomod_run gm (gen_Subpath g) srcSt worker name credHelper) st (gen_paths (gm_Paths gm))"

text \<open>The loop over the generators of one source.\<close>

definition over_generators :: "(sourceGenerator \<Rightarrow> 'g option) \<Rightarrow> (sourceGenerator \<Rightarrow> 'g \<Rightarrow> 's \<Rightarrow> 's) \<Rightarrow> sourceGenerator list \<Rightarrow> 's \<Rightarrow> 's" where
  "over_generators sel f gens st =
    foldl (\<lambda>st g. case sel g of None \<Rightarrow> st | Some x \<Rightarrow> f g x st) st gens"

definition generate_of :: "spec \<Rightarrow> string \<Rightarrow> sourceGenerator list" where
  "generate_of sp k = (case map_of (sp_Sources sp) k of None \<Rightarrow> [] | Some src \<Rightarrow> s_Generate src)"

text \<open>The patched sources of the kind \<open>pred\<close>, or nothing if there are none.\<close>

definition patched_for :: "sourceOpts \<Rightarrow> llb \<Rightarrow> spec \<Rightarrow> (source \<Rightarrow> bool) \<Rightarrow> (goerr + llb gomap) option" where
  "patched_for so worker sp pred =
    map_option (map_sum (Wrap ''failed to get patched sources'') id)
      (getPatchedSources so worker sp
        (\<lambda>k. case map_of (sp_Sources sp) k of None \<Rightarrow> False | Some src \<Rightarrow> pred src))"

definition GomodDeps :: "sourceOpts \<Rightarrow> llb \<Rightarrow> spec \<Rightarrow> (goerr + llb option) option" where
  "GomodDeps so worker sp =
    (if \<not> HasGomods sp then Some (Inr None)
     else (case patched_for so worker sp isGomod of
             None \<Rightarrow> None
           | Some (Inl e) \<Rightarrow> Some (Inl e)
           | Some (Inr patched) \<Rightarrow>
               (case so_CredHelper so of
                  Inl e \<Rightarrow> Some (Inl (Wrap ''failed to get git credential helper'' e))
                | Inr cred \<Rightarrow>
                    Some (Inr (Some (foldl (\<lambda>st k. over_generators gen_Gomod
                        (\<lambda>g gm. withGomod g gm (state_of patched k) worker k cred) (generate_of sp k) st)
                      Scratch (SortMapKeys patched)))))))"

section \<open>Cargo\<close>

definition cargo_run :: "string \<Rightarrow> llb \<Rightarrow> llb \<Rightarrow> string \<Rightarrow> llb \<Rightarrow> string \<Rightarrow> llb" where
  "cargo_run subpath srcSt worker name st path =
    run_mount worker
      [ShArgs ''cargo fetch'', RunEnv ''CARGO_HOME'' ''/cargo/registry'',
       RunDir (Join [Join [''/work/src'', name, subpath], path]), RunMount ''/work/src'' srcSt []]
      ''/cargo/registry'' st"

definition withCargohome :: "sourceGenerator \<Rightarrow> generatorCargohome \<Rightarrow> llb \<Rightarrow> llb \<Rightarrow> string \<Rightarrow> llb \<Rightarrow> llb" where
  "withCargohome g gc srcSt worker name st =
    foldl (cargo_run (gen_Subpath g) srcSt worker name) st (gen_paths (gc_Paths gc))"

definition CargohomeDeps :: "sourceOpts \<Rightarrow> llb \<Rightarrow> spec \<Rightarrow> (goerr + llb option) option" where
  "CargohomeDeps so worker sp =
    (if \<not> HasCargohomes sp then Some (Inr None)
     else (case patched_for so worker sp isCargohome of
             None \<Rightarrow> None
           | Some (Inl e) \<Rightarrow> Some (Inl e)
           | Some (Inr patched) \<Rightarrow>
               Some (Inr (Some (foldl (\<lambda>st k. over_generators gen_Cargohome
                   (\<lambda>g gc. withCargohome g gc (state_of patched k) worker k) (generate_of sp k) st)
                 Scratch (SortMapKeys patched))))))"

section \<open>Pip\<close>

definition pip_index :: "generatorPip \<Rightarrow> string" where
  "pip_index gp =
    (if gp_IndexUrl gp \<noteq> [] then '' --index-url='' @ gp_IndexUrl gp else [])
    @ concat (map (\<lambda>u. '' --extra-index-url='' @ u) (gp_ExtraIndexUrls gp))"

definition pip_command :: "generatorPip \<Rightarrow> string" where
  "pip_command gp =
    ''set -e; mkdir -p /pip-cache; python3 -m pip download --dest=/pip-cache setuptools wheel'' @ pip_index gp
    @ ''; python3 -m pip download --no-binary=:all: --dest=/pip-cache --requirement=''
    @ (if gp_RequirementsFile gp = [] then ''requirements.txt'' else gp_RequirementsFile gp) @ pip_index gp"

definition pip_run :: "generatorPip \<Rightarrow> string \<Rightarrow> llb \<Rightarrow> llb \<Rightarrow> string \<Rightarrow> llb \<Rightarrow> string \<Rightarrow> llb" where
  "pip_run gp subpath srcSt worker name st path =
    run_mount worker
      [RunArgs [''bash'', ''-c'', pip_command gp],
       RunDir (Join [Join [''/work/src'', name, subpath], path]), RunMount ''/work/src'' srcSt []]
      ''/pip-cache'' st"

definition withPip :: "sourceGenerator \<Rightarrow> generatorPip \<Rightarrow> llb \<Rightarrow> llb \<Rightarrow> string \<Rightarrow> llb" where
  "withPip g gp srcSt worker name =
    foldl (pip_run gp (gen_Subpath g) srcSt worker name) Scratch (gen_paths (gp_Paths gp))"

definition PipDeps :: "sourceOpts \<Rightarrow> llb \<Rightarrow> spec \<Rightarrow> (goerr + llb option) option" where
  "PipDeps so worker sp =
    (if \<not> HasPips sp then Some (Inr None)
     else (case patched_for so worker sp isPip of
             None \<Rightarrow> None
           | Some (Inl e) \<Rightarrow> Some (Inl e)
           | Some (Inr patched) \<Rightarrow>
               (let cacheStates = concat (map (\<lambda>k. over_generators gen_Pip
                        (\<lambda>g gp sts. sts @ [withPip g gp (state_of patched k) worker k]) (generate_of sp k) [])
                      (SortMapKeys patched))
                in Some (Inr (if cacheStates = [] then None
                     else Some (MergeAtPath (so_DiffMergeOff so) Scratch cacheStates ''/''))))))"

section \<open>Node modules\<close>

definition npm_run :: "string \<Rightarrow> llb \<Rightarrow> string \<Rightarrow> llb \<Rightarrow> string \<Rightarrow> llb" where
  "npm_run subpath worker name st path =
    run_mount worker
      [ShArgs (''npm install --prefix '' @ Join [''/work/download'', name, subpath, path]),
       RunDir (Join [Join [''/work/src'', name, subpath], path]), RunMount ''/work/src'' st [Readonly], RunIgnoreCache]
      ''/work/download'' st"

definition withNodeMod :: "bool \<Rightarrow> sourceGenerator \<Rightarrow> generatorNodeMod \<Rightarrow> llb \<Rightarrow> string \<Rightarrow> llb \<Rightarrow> llb" where
  "withNodeMod dm g gn worker name st =
    MergeAtPath dm Scratch (map (npm_run (gen_Subpath g) worker name st) (gen_paths (gn_Paths gn)) @ [st]) ''/''"

text \<open>The states of the sources with their node modules; a nil map has no entries.\<close>

definition NodeModDeps :: "sourceOpts \<Rightarrow> llb \<Rightarrow> spec \<Rightarrow> (goerr + llb gomap) option" where
  "NodeModDeps so worker sp =
    (if \<not> HasNodeMods sp then Some (Inr [])
     else (case patched_for so worker sp isNodeMod of
             None \<Rightarrow> None
           | Some (Inl e) \<Rightarrow> Some (Inl e)
           | Some (Inr patched) \<Rightarrow>
               Some (Inr (map (\<lambda>k. (k, over_generators gen_NodeMod
                   (\<lambda>g gn. withNodeMod (so_DiffMergeOff so) g gn worker k) (generate_of sp k) (state_of patched k)))
                 (SortMapKeys patched)))))"

end
