(* ===== verification/Rpm_Build.thy ===== *)
theory Rpm_Build
  imports Rpm Generators
begin

text \<open>
  The rpm build (packaging/linux/rpm/sources.go, buildroot.go, rpmbuild.go): the source files, the
  build script, the spec file in its place and the run of rpmbuild, as build graphs.  \<open>main_path\<close> is
  the module path of the running program; \<open>remote\<close> is the URL parser of the spec writer.
\<close>

section \<open>The build script\<close>

definition gomod_link :: "string list" where
  \<open>gomod_link =
    [''test -n "$(go env GOMODCACHE)" || (GOPATH="$(go env GOPATH)"; mkdir -p "${GOPATH}/pkg" && ln -s "$(pwd)/''
       @ gomodsName @ ''" "${GOPATH}/pkg/mod")'',
     ''export GOMODCACHE="$(pwd)/'' @ gomodsName @ ''"'']\<close>

definition buildScript :: "spec \<Rightarrow> string" where
  \<open>buildScript sp =
    (if ab_Steps (sp_Build sp) = [] then []
     else lines_text
        ([''#!/bin/sh'', ''set -e'']
         @ (if HasGomods sp then gomod_link else [])
         @ (if HasCargohomes sp then [''export CARGO_HOME="$(pwd)/'' @ cargohomeName @ ''"''] else [])
         @ (if HasPips sp then pip_setup pipDepsName else [])
         @ for_sorted (\<lambda>k v. [''export '' @ k @ ''="'' @ v @ ''"'']) (ab_Env (sp_Build sp)))
       @ concat (map writeStep (ab_Steps (sp_Build sp))) @ nl)\<close>

definition buildScriptSourceState :: "spec \<Rightarrow> llb option" where
  "buildScriptSourceState sp =
    (if ab_Steps (sp_Build sp) = [] then None
     else Some (Mkfile Scratch ''build.sh'' 493 (buildScript sp) None))"

section \<open>Sources\<close>

definition sourceTar :: "llb \<Rightarrow> string \<Rightarrow> llb \<Rightarrow> llb" where
  "sourceTar worker key st = Tar worker st (key @ ''.tar.gz'')"

definition dep_tar :: "llb \<Rightarrow> string \<Rightarrow> llb option \<Rightarrow> llb list" where
  "dep_tar worker name dep = (case dep of None \<Rightarrow> [] | Some st \<Rightarrow> [sourceTar worker name st])"

text \<open>The file of one source: an archive for a directory, the state itself for a file.\<close>

definition source_file :: "llb \<Rightarrow> spec \<Rightarrow> llb gomap \<Rightarrow> llb gomap \<Rightarrow> string \<Rightarrow> llb option" where
  "source_file worker sp sources nodeMods k =
    (let st = (case map_of nodeMods k of Some st \<Rightarrow> st | None \<Rightarrow> state_of sources k)
     in case map_of (sp_Sources sp) k of
          None \<Rightarrow> None
        | Some src \<Rightarrow> map_option (\<lambda>isDir. if isDir then sourceTar worker k st else st) (SourceIsDir src))"

definition ToSourcesLLB :: "llb \<Rightarrow> spec \<Rightarrow> sourceOpts \<Rightarrow> (goerr + llb list) option" where
  "ToSourcesLLB worker sp so =
    then_do (map_option Inr (Sources_llb sp so)) (\<lambda>sources.
    then_do (wrap_dep ''error adding gomod sources'' (GomodDeps so worker sp)) (\<lambda>gomod.
    then_do (wrap_dep ''error adding cargohome sources'' (CargohomeDeps so worker sp)) (\<lambda>cargo.
    then_do (wrap_dep ''error adding pip sources'' (PipDeps so worker sp)) (\<lambda>pip.
    then_do (wrap_dep ''error preparing node deps'' (NodeModDeps so worker sp)) (\<lambda>nodeMods.
      map_option (\<lambda>srcs. Inr (dep_tar worker gomodsName gomod @ dep_tar worker cargohomeName cargo
          @ dep_tar worker pipDepsName pip @ srcs
          @ (case buildScriptSourceState sp of None \<Rightarrow> [] | Some st \<Rightarrow> [st])))
        (those (map (source_file worker sp sources nodeMods) (SortMapKeys sources))))))))"

section \<open>The build root\<close>

definition missing_field :: "string \<Rightarrow> string \<Rightarrow> goerr list" where
  "missing_field v name = guard_err (v = []) (Wrap (''missing required field: '' @ name) (Sentinel errMissingRequiredField))"

text \<open>The errors are joined one by one, so they nest.\<close>

definition ValidateSpec :: "spec \<Rightarrow> gores" where
  "ValidateSpec sp =
    foldl (\<lambda>out e. join_errs (errs_of out @ [e])) None
      (missing_field (sp_Name sp) ''name'' @ missing_field (sp_Version sp) ''version''
       @ missing_field (sp_Revision sp) ''revision'' @ missing_field (sp_Description sp) ''description''
       @ missing_field (sp_License sp) ''license'')"

definition rpm_spec_path :: "spec \<Rightarrow> string" where
  "rpm_spec_path sp = Join [''SPECS'', sp_Name sp, sp_Name sp @ ''.spec'']"

definition ToSpecLLB :: "string \<Rightarrow> (string \<Rightarrow> string option) \<Rightarrow> spec \<Rightarrow> llb \<Rightarrow> string \<Rightarrow> string \<Rightarrow> (goerr + llb) option" where
  "ToSpecLLB main_path remote sp st target dir0 =
    (case ValidateSpec sp of
       Some e \<Rightarrow> Some (Inl (Wrap ''invalid spec'' e))
     | None \<Rightarrow>
         map_option (\<lambda>body.
             let dir = (if dir0 = [] then ''SPECS/'' @ sp_Name sp else dir0)
             in Inr (Mkfile (Mkdir st dir 493 True None) (Join [dir, sp_Name sp] @ ''.spec'') 416
                  (line (''# Automatically generated by '' @ main_path) @ nl @ body) None))
           (WriteSpec remote sp target))"

definition SpecToBuildrootLLB ::
  "string \<Rightarrow> (string \<Rightarrow> string option) \<Rightarrow> llb \<Rightarrow> spec \<Rightarrow> sourceOpts \<Rightarrow> string \<Rightarrow> (goerr + llb) option" where
  "SpecToBuildrootLLB main_path remote worker sp so target =
    (case ValidateSpec sp of
       Some e \<Rightarrow> Some (Inl (Wrap ''invalid spec'' e))
     | None \<Rightarrow>
         then_do (ToSourcesLLB worker sp so) (\<lambda>sources.
           ToSpecLLB main_path remote sp (MergeAtPath (so_DiffMergeOff so) Scratch sources ''SOURCES'') target []))"

section \<open>The run of rpmbuild\<close>

definition rpm_Build :: "llb \<Rightarrow> llb \<Rightarrow> string \<Rightarrow> string \<Rightarrow> cacheConfig list \<Rightarrow> llb" where
  \<open>rpm_Build topDir worker specPath targetKey caches =
    run_mount worker
      ([ShArgs (''rpmbuild --define "_topdir /build/top" --define "_srcrpmdir /build/out/SRPMS" --define "_rpmdir /build/out/RPMS" --buildroot /build/tmp/work -ba '' @ specPath),
        RunMount ''/build/top'' topDir [], RunMount ''/build/tmp'' Scratch [Tmpfs], RunDir ''/build/top'']
       @ map (\<lambda>c. RunCache c targetKey) caches)
      ''/build/out'' Scratch\<close>

end
