(* ===== verification/Deb_Build.thy ===== *)
theory Deb_Build
  imports Deb_Root Generators
begin

text \<open>
  The Debian build (packaging/linux/deb/pkg.go): the merged source tree, the combined patch, the
  source package and the runs of dpkg-buildpackage, as build graphs.
\<close>

section \<open>The source tree as a graph\<close>

text \<open>
  The file actions of \<open>Deb_Root\<close> applied to the scratch state.  The source of a copy was resolved with
  \<open>ToState\<close>, which may panic.  A state without actions is the zero state.
\<close>

definition action_llb :: "llb \<Rightarrow> llb option \<Rightarrow> llb option fileAction \<Rightarrow> llb option" where
  "action_llb worker st a =
    (case st of None \<Rightarrow> None
     | Some s \<Rightarrow>
         (case a of
            fileAction.Mkdir p m parents \<Rightarrow> Some (llb.Mkdir s p m parents None)
          | fileAction.Mkfile p m c \<Rightarrow> Some (llb.Mkfile s p m c None)
          | CopyFrom src from to \<Rightarrow> map_option (\<lambda>x. Copy s x from to no_copyInfo) src
          | RunAt dir cmd \<Rightarrow> Some (run_mount worker [RunDir dir, ShArgs cmd] ''/tmp/work'' s)))"

definition actions_llb :: "llb \<Rightarrow> llb option actions \<Rightarrow> llb option" where
  "actions_llb worker as = (if as = [] then Some ZeroState else foldl (action_llb worker) (Some Scratch) as)"

definition Debroot_llb :: "sourceOpts \<Rightarrow> string \<Rightarrow> llb \<Rightarrow> spec \<Rightarrow> string \<Rightarrow> string \<Rightarrow> string \<Rightarrow> sourcePkgConfig \<Rightarrow> llb option" where
  "Debroot_llb so main_path worker sp target dir distroVersionID cfg =
    (case Debroot (\<lambda>src name. source_toState so name src) main_path sp target dir distroVersionID cfg of
       None \<Rightarrow> None
     | Some states \<Rightarrow>
         map_option (\<lambda>sts. MergeAtPath (so_DiffMergeOff so) Scratch sts ''/'') (those (map (actions_llb worker) states)))"

section \<open>Patches and archives\<close>

definition mountSources :: "llb gomap \<Rightarrow> string \<Rightarrow> runOpt list" where
  "mountSources sources dir = map (\<lambda>(key, src). RunMount (Join [dir, key]) src [SourcePath key]) sources"

definition patchHeader :: string where
  \<open>patchHeader = lines_text
    [''This patch contains all the patches specified in a Dalec (https://github.com/project-dalec/dalec) spec.'',
     ''Patches in Dalec are not compatible with Debian'' @ sq @ ''s source package layout as they are applied directly to the source directory.'',
     ''As such, a single patch file is generated after applying all patches to the source directories.'',
     [],
     ''To review patches separately, see the debian/dalec/patches/<source name> directory or'',
     ''see the patch script in debian/dalec/patch.sh'']\<close>

definition createPatches :: "spec \<Rightarrow> llb gomap \<Rightarrow> llb \<Rightarrow> llb \<Rightarrow> llb" where
  \<open>createPatches sp sources worker dr =
    (if sp_Patches sp = [] then Scratch
     else run_mount
        (ExecRoot worker [ShArgs ''set -e; git config --global user.email phony; git config --global user.name Dalec''])
        ([ShArgs (''set -e; git init .; git add .; git commit -m '' @ sq @ ''Initial commit'' @ sq
            @ ''; "${DEBIAN_DIR}/dalec/patch.sh"; git add .; git commit -m '' @ sq @ ''With patch'' @ sq
            @ ''; git diff HEAD~1 >> /work/out/dalec-changes.patch; echo '' @ sq @ ''dalec-changes.patch'' @ sq
            @ '' > /work/out/series''),
          RunDir ''/work/sources'']
         @ mountSources sources ''/work/sources''
         @ [RunEnv ''DEBIAN_DIR'' ''/work/debian'', RunMount ''/work/debian'' dr [SourcePath ''debian'', Readonly]])
        ''/work/out'' (llb.Mkfile Scratch ''dalec-changes.patch'' 384 patchHeader None))\<close>

definition nestState :: "string \<Rightarrow> llb \<Rightarrow> llb" where
  "nestState dest st = Copy (llb.Mkdir Scratch dest 493 True None) st ''/'' dest WithDirContentsOnly"

text \<open>A key that is not a source of the spec is the directory of a generator.\<close>

definition tar_state :: "spec \<Rightarrow> nat \<Rightarrow> string \<times> llb \<Rightarrow> llb option" where
  "tar_state sp n e =
    (case e of (key, st) \<Rightarrow>
       map_option (\<lambda>isDir. if n = 1 \<and> isDir then nestState key st else st)
         (case map_of (sp_Sources sp) key of None \<Rightarrow> Some True | Some src \<Rightarrow> SourceIsDir src))"

definition TarDebSources :: "bool \<Rightarrow> llb \<Rightarrow> spec \<Rightarrow> llb gomap \<Rightarrow> string \<Rightarrow> llb option" where
  "TarDebSources dm work sp srcStates dest =
    map_option (\<lambda>states. Tar work (MergeAtPath dm Scratch states ''/'') dest)
      (those (map (tar_state sp (length srcStates)) srcStates))"

section \<open>The source package\<close>

definition put_dep :: "string \<Rightarrow> llb option \<Rightarrow> llb gomap \<Rightarrow> llb gomap" where
  "put_dep name dep m = (case dep of None \<Rightarrow> m | Some st \<Rightarrow> mput name (nestState name st) m)"

text \<open>The sources that are packed: those of the spec, replaced where node modules were added, and the generated ones.\<close>

definition deb_sources :: "llb \<Rightarrow> spec \<Rightarrow> sourceOpts \<Rightarrow> (goerr + llb gomap) option" where
  "deb_sources worker sp so =
    then_do (map_option Inr (Sources_llb sp so)) (\<lambda>sources.
    then_do (wrap_dep ''error preparing gomod deps'' (GomodDeps so worker sp)) (\<lambda>gomod.
    then_do (wrap_dep ''error preparing cargohome deps'' (CargohomeDeps so worker sp)) (\<lambda>cargo.
    then_do (wrap_dep ''error preparing pip deps'' (PipDeps so worker sp)) (\<lambda>pip.
    then_do (wrap_dep ''error preparing node deps'' (NodeModDeps so worker sp)) (\<lambda>nodeMods.
      Some (Inr (put_dep deb_pipDepsName pip (put_dep deb_cargohomeName cargo (put_dep deb_gomodsName gomod
        (foldl (\<lambda>m k. mput k (state_of nodeMods k) m) sources (SortMapKeys nodeMods)))))))))))"

definition source_run :: "sourceOpts \<Rightarrow> llb \<Rightarrow> spec \<Rightarrow> llb gomap \<Rightarrow> llb \<Rightarrow> llb option" where
  "source_run so worker sp sources dr =
    map_option (\<lambda>debSources.
        run_mount worker
          [ShArgs (''set -e; dpkg-buildpackage -S -us -uc; mkdir -p /tmp/out; cp -r /work/''
             @ sp_Name sp @ ''_'' @ sp_Version sp @ ''* /tmp/out''),
           RunDir ''/work/pkg'',
           RunMount ''/work/pkg/debian'' dr [SourcePath ''debian''],
           RunMount ''/work/pkg/debian/patches'' (createPatches sp sources worker dr) [Readonly],
           RunMount (''/work/'' @ sp_Name sp @ ''_'' @ sp_Version sp @ ''.orig.tar.gz'') debSources [SourcePath ''src.tar.gz'']]
          ''/tmp/out'' Scratch)
      (TarDebSources (so_DiffMergeOff so) worker sp sources ''src.tar.gz'')"

definition SourcePackage ::
  "string \<Rightarrow> sourceOpts \<Rightarrow> llb \<Rightarrow> spec \<Rightarrow> string \<Rightarrow> string \<Rightarrow> sourcePkgConfig \<Rightarrow> (goerr + llb) option" where
  "SourcePackage main_path so worker sp target distroVersionID cfg =
    (case deb_validateSpec sp of
       Some e \<Rightarrow> Some (Inl e)
     | None \<Rightarrow>
         (case Debroot_llb so main_path worker sp target [] distroVersionID cfg of
            None \<Rightarrow> None
          | Some dr \<Rightarrow>
              then_do (deb_sources worker sp so) (\<lambda>sources. map_option Inr (source_run so worker sp sources dr))))"

section \<open>Binary packages\<close>

definition deb_dir :: "spec \<Rightarrow> string" where
  "deb_dir sp = Join [''/work'', sp_Name sp @ ''_'' @ sp_Version sp @ ''-'' @ sp_Revision sp]"

definition BuildDebBinaryOnly :: "llb \<Rightarrow> spec \<Rightarrow> llb \<Rightarrow> llb" where
  "BuildDebBinaryOnly worker sp debroot =
    run_mount worker
      [ShArgs ''set -e; dpkg-buildpackage -b -uc -us; mkdir -p /tmp/out; cp ../*.deb /tmp/out'',
       RunDir (deb_dir sp), RunMount (deb_dir sp) debroot []]
      ''/tmp/out'' Scratch"

definition BuildDeb :: "bool \<Rightarrow> llb \<Rightarrow> spec \<Rightarrow> llb \<Rightarrow> string \<Rightarrow> llb" where
  "BuildDeb dm worker sp srcPkg distroVersionID =
    MergeAtPath dm Scratch
      [run_mount worker
         ([ShArgs (''set -e; dpkg-source -x ./*.dsc; cd '' @ sp_Name sp @ ''-'' @ sp_Version sp
             @ ''; dpkg-buildpackage -b -uc -us; mkdir -p /tmp/out; cp ../*.deb /tmp/out''),
           RunDir (deb_dir sp), RunMount (deb_dir sp) srcPkg []]
          @ map (\<lambda>c. RunCache c distroVersionID) (ab_Caches (sp_Build sp)))
         ''/tmp/out'' Scratch,
       srcPkg] ''/''"

end
