(* ===== verification/Build_Props.thy ===== *)
theory Build_Props
  imports Rpm_Build Deb_Build Rpm_Props Deb_Props
begin

text \<open>
  Properties of the build graphs: patches are applied once and in order, the graphs of a loaded spec
  are always produced, and what the graph of a build contains comes from its inputs.
\<close>

section \<open>Patches\<close>

text \<open>The state of a source after its patches, as a function of the unpatched states.\<close>

definition patched_state :: "llb \<Rightarrow> spec \<Rightarrow> llb gomap \<Rightarrow> string \<Rightarrow> llb option" where
  "patched_state worker sp states k = patchSource worker states k (state_of states k) (patches_of sp k)"

text \<open>No source of a patch is patched itself.\<close>

definition patches_plain :: "spec \<Rightarrow> bool" where
  "patches_plain sp = (\<forall>k. \<forall>p \<in> set (patches_of sp k). map_of (sp_Patches sp) (p_Source p) = None)"

lemma patchSource_cong:
  "(\<And>p. p \<in> set ps \<Longrightarrow> map_of s (p_Source p) = map_of s' (p_Source p)) \<Longrightarrow> patchSource w s sub st ps = patchSource w s' sub st ps"
  by (induction ps arbitrary: st) (auto simp: patch_run_def state_of_def split: option.splits)

lemma patchSource_total: "list_all (\<lambda>p. p_Strip p \<noteq> None) ps \<Longrightarrow> patchSource w s sub st ps \<noteq> None"
  by (induction ps arbitrary: st) (auto simp: patch_run_def)

lemma patches_of_simps:
  "map_of (sp_Patches sp) k = None \<Longrightarrow> patches_of sp k = []"
  "map_of (sp_Patches sp) k = Some ps \<Longrightarrow> patches_of sp k = ps"
  by (simp_all add: patches_of_def)

lemma patched_state_mput:
  assumes "patches_plain sp" and "map_of (sp_Patches sp) j = Some ps" and "j \<noteq> k"
  shows "patched_state w sp (mput j st states) k = patched_state w sp states k"
proof -
  have "map_of (mput j st states) (p_Source p) = map_of states (p_Source p)" if "p \<in> set (patches_of sp k)" for p
    using that assms(1,2) by (auto simp: patches_plain_def update_conv)
  then have "patchSource w (mput j st states) k st0 (patches_of sp k) = patchSource w states k st0 (patches_of sp k)" for st0
    by (rule patchSource_cong)
  then show ?thesis
    using assms(3) by (simp add: patched_state_def state_of_def update_conv)
qed

lemma patch_loop_states:
  assumes "patches_plain sp" and "distinct ks" and "set ks \<subseteq> dom (map_of states)"
    and "patch_loop w sp states ks = Some states'"
  shows "map_of states' k = (if k \<in> set ks then patched_state w sp states k else map_of states k)"
  using assms(2-)
proof (induction ks arbitrary: states)
  case (Cons j ks)
  have j: "map_of states j = Some (state_of states j)" using Cons.prems(2) by (auto simp: state_of_def)
  show ?case
  proof (cases "map_of (sp_Patches sp) j")
    case None
    then show ?thesis
      using Cons j by (auto simp: patched_state_def patches_of_simps)
  next
    case (Some ps)
    then obtain st where st: "patched_state w sp states j = Some st"
        and loop: "patch_loop w sp (mput j st states) ks = Some states'"
      using Cons.prems(3) by (auto simp: patched_state_def patches_of_simps split: option.splits)
    have "map_of states' k = (if k \<in> set ks then patched_state w sp (mput j st states) k else map_of (mput j st states) k)"
      using Cons.prems(1,2) by (intro Cons.IH [OF _ _ loop]) (auto simp: update_conv)
    moreover have "patched_state w sp (mput j st states) k = patched_state w sp states k" if "k \<in> set ks"
      using that Cons.prems(1) by (intro patched_state_mput [OF assms(1) Some]) auto
    ultimately show ?thesis
      using Cons.prems(1) st by (auto simp: update_conv)
  qed
qed simp

lemma patch_loop_total:
  "list_all (\<lambda>(k, ps). list_all (\<lambda>p. p_Strip p \<noteq> None) ps) (sp_Patches sp) \<Longrightarrow> patch_loop w sp states ks \<noteq> None"
proof (induction ks arbitrary: states)
  case (Cons k ks)
  have "patchSource w states k (state_of states k) ps \<noteq> None" if "map_of (sp_Patches sp) k = Some ps" for ps
    using that Cons.prems by (intro patchSource_total) (auto simp: list_all_iff dest!: map_of_SomeD)
  with Cons show ?case by (auto split: option.splits)
qed simp

section \<open>The graphs are produced\<close>

definition sources_tidy :: "spec \<Rightarrow> bool" where
  "sources_tidy sp = list_all (\<lambda>(k, src). file_name k \<and> source_tidy src) (sp_Sources sp)"

text \<open>What loading gives the package builders: valid sources and patches, strip counts, usable names.\<close>

definition buildable :: "sourceOpts \<Rightarrow> spec \<Rightarrow> bool" where
  "buildable so sp = (spec_ok (so_Digest so) sp \<and> sources_tidy sp
    \<and> list_all (\<lambda>(k, ps). list_all (\<lambda>p. p_Strip p \<noteq> None) ps) (sp_Patches sp))"

lemma buildable_source:
  assumes "buildable so sp" and "(k, src) \<in> set (sp_Sources sp)"
  shows "source_toState so k src \<noteq> None" and "SourceIsDir src \<noteq> None"
proof -
  have ok: "source_ok (so_Digest so) src" "source_tidy src" "file_name k"
    using assms by (auto simp: buildable_def spec_ok_def sources_tidy_def list_all_iff)
  then show "SourceIsDir src \<noteq> None" using source_ok_isDir by blast
  have "name_fits k src" using ok by (auto simp: name_fits_def file_name_def proper_elem_def isRoot_def)
  then show "source_toState so k src \<noteq> None" using source_total(1) ok by blast
qed

lemma buildable_patch:
  assumes "buildable so sp" and "map_of (sp_Patches sp) k = Some ps" and "p \<in> set ps"
  obtains src where "map_of (sp_Sources sp) (p_Source p) = Some src"
proof -
  have "patch_ok (sp_Sources sp) p"
    using assms by (auto simp: buildable_def spec_ok_def list_all_iff dest!: map_of_SomeD)
  then show ?thesis using that by (auto simp: patch_ok_def split: option.splits)
qed

lemma Sources_llb_total:
  assumes "buildable so sp"
  shows "\<exists>m. Sources_llb sp so = Some m \<and> map fst m = map fst (sp_Sources sp)"
proof -
  have "\<exists>m. those (map (\<lambda>(k, src). map_option (Pair k) (source_toState so k src)) xs) = Some m \<and> map fst m = map fst xs"
    if "set xs \<subseteq> set (sp_Sources sp)" for xs
    using that buildable_source(1) [OF assms] by (induction xs) (auto split: option.splits)
  then show ?thesis by (simp add: Sources_llb_def)
qed

lemma patch_states_total:
  assumes "buildable so sp" and "\<And>p. p \<in> set ps \<Longrightarrow> map_of (sp_Sources sp) (p_Source p) \<noteq> None"
  shows "\<exists>m. patch_states so sp states ps = Some (Inr m)"
  using assms(2)
proof (induction ps arbitrary: states)
  case (Cons p ps)
  then obtain src where src: "map_of (sp_Sources sp) (p_Source p) = Some src" by fastforce
  then have "source_toState so (p_Source p) src \<noteq> None"
    by (intro buildable_source(1) [OF assms(1)] map_of_SomeD)
  with src Cons show ?case by auto
qed simp

lemma needed_states_total:
  assumes "buildable so sp" and "set srcs \<subseteq> set (sp_Sources sp)"
  shows "\<exists>m. needed_states so sp wanted states srcs = Some (Inr m)"
  using assms(2)
proof (induction srcs arbitrary: states)
  case (Cons e srcs)
  obtain k src where e: "e = (k, src)" by (cases e)
  with Cons.prems obtain st where st: "source_toState so k src = Some st"
    using buildable_source(1) [OF assms(1), of k src] by auto
  obtain m where m: "patch_states so sp (mput k st states) (patches_of sp k) = Some (Inr m)"
    using patch_states_total [OF assms(1)] buildable_patch [OF assms(1)]
    by (metis (lifting) empty_iff list.set(1) option.distinct(1) option.exhaust patches_of_simps)
  then show ?case
    using Cons e st by (auto simp: patches_of_def)
qed simp

lemma getPatchedSources_total:
  assumes "buildable so sp"
  shows "\<exists>m. getPatchedSources so worker sp wanted = Some (Inr m)"
proof -
  obtain m where m: "needed_states so sp wanted [] (sp_Sources sp) = Some (Inr m)"
    using needed_states_total [OF assms] by blast
  have "PatchSources worker sp m \<noteq> None"
    unfolding PatchSources_def using assms by (intro patch_loop_total) (simp add: buildable_def)
  with m show ?thesis by (auto simp: getPatchedSources_def)
qed

lemma patched_for_total: "buildable so sp \<Longrightarrow> \<exists>m. patched_for so worker sp pred = Some (Inr m)"
  using getPatchedSources_total by (fastforce simp: patched_for_def)

lemma deps_total:
  assumes "buildable so sp"
  shows "so_CredHelper so = Inr cred \<Longrightarrow> \<exists>st. GomodDeps so worker sp = Some (Inr st) \<and> (st \<noteq> None \<longleftrightarrow> HasGomods sp)"
    and "\<exists>st. CargohomeDeps so worker sp = Some (Inr st) \<and> (st \<noteq> None \<longleftrightarrow> HasCargohomes sp)"
    and "\<exists>st. PipDeps so worker sp = Some (Inr st)"
    and "\<exists>m. NodeModDeps so worker sp = Some (Inr m)"
  using patched_for_total [OF assms, of worker isGomod] patched_for_total [OF assms, of worker isCargohome]
    patched_for_total [OF assms, of worker isPip] patched_for_total [OF assms, of worker isNodeMod]
  by (auto simp: GomodDeps_def CargohomeDeps_def PipDeps_def NodeModDeps_def Let_def)


lemma then_do_Inr [simp]: "then_do r f = Some (Inr y) \<longleftrightarrow> (\<exists>x. r = Some (Inr x) \<and> f x = Some (Inr y))"
  by (cases "(r, f)" rule: then_do.cases) auto

lemma wrap_dep_Inr [simp]: "wrap_dep m r = Some (Inr x) \<longleftrightarrow> r = Some (Inr x)"
  by (cases r rule: then_do.cases [of "(_, undefined)", simplified]) (auto simp: wrap_dep_def)

lemma ToSourcesLLB_total:
  assumes "buildable so sp" and "so_CredHelper so = Inr cred"
  shows "\<exists>sts. ToSourcesLLB worker sp so = Some (Inr sts)"
proof -
  obtain m where m: "Sources_llb sp so = Some m" "map fst m = map fst (sp_Sources sp)"
    using Sources_llb_total [OF assms(1)] by blast
  have "source_file worker sp m nm k \<noteq> None" if "k \<in> set (SortMapKeys m)" for nm k
  proof -
    have "k \<in> fst ` set (sp_Sources sp)" using that m(2) by (metis SortMapKeys_set list.set_map)
    then obtain src where src: "map_of (sp_Sources sp) k = Some src" by (metis map_of_eq_None_iff option.exhaust)
    with buildable_source(2) [OF assms(1) map_of_SomeD [OF src]] show ?thesis
      by (auto simp: source_file_def Let_def)
  qed
  then have "those (map (source_file worker sp m nm) (SortMapKeys m)) \<noteq> None" for nm
    by (simp add: those_map_None)
  with m deps_total(1) [OF assms] deps_total(2-4) [OF assms(1)] show ?thesis
    by (fastforce simp: ToSourcesLLB_def)
qed


section \<open>What the graph of a build contains\<close>

text \<open>Every state of a map stays within the bound.\<close>

definition within :: "(llb \<Rightarrow> 'a set) \<Rightarrow> 'a set \<Rightarrow> llb gomap \<Rightarrow> bool" where
  "within q B m = (\<forall>(k, st) \<in> set m. q st \<subseteq> B)"

lemma within_mem: "within q B m \<Longrightarrow> (k, st) \<in> set m \<Longrightarrow> x \<in> q st \<Longrightarrow> x \<in> B"
  unfolding within_def by fast

lemma within_mput: "within q B m \<Longrightarrow> q st \<subseteq> B \<Longrightarrow> within q B (mput k st m)"
  by (induction m) (auto simp: within_def)

text \<open>A source with other include patterns; the copies of Debian patches add one.\<close>

definition with_includes :: "string list option \<Rightarrow> source \<Rightarrow> source" where
  "with_includes incl s = Source (s_DockerImage s) (s_Git s) (s_HTTP s) (s_Context s) (s_Build s) (s_Inline s)
     (s_Path s) incl (s_Excludes s) (s_Generate s)"

lemma with_includes_same [simp]: "with_includes (s_Includes s) s = s"
  by (cases s) (simp add: with_includes_def)

text \<open>What a build takes in: its sources, the worker, the credential helper and the secrets of go modules.\<close>

definition inputs_within :: "(llb \<Rightarrow> 'a set) \<Rightarrow> (runOpt \<Rightarrow> 'a set) \<Rightarrow> 'a set \<Rightarrow> sourceOpts \<Rightarrow> llb \<Rightarrow> spec \<Rightarrow> bool" where
  "inputs_within q qo B so worker sp =
    (q worker \<subseteq> B
     \<and> (\<forall>(k, src) \<in> set (sp_Sources sp). \<forall>incl name st. source_toState so name (with_includes incl src) = Some st \<longrightarrow> q st \<subseteq> B)
     \<and> (\<forall>cred. so_CredHelper so = Inr cred \<longrightarrow> (\<Union>o' \<in> set cred. qo o') \<subseteq> B)
     \<and> (\<forall>(k, src) \<in> set (sp_Sources sp). \<forall>g \<in> set (s_Generate src). \<forall>gm. gen_Gomod g = Some gm
          \<longrightarrow> (\<Union>o' \<in> set (withGomodSecretsAndSockets gm). qo o') \<subseteq> B))"

lemma inputs_withinD:
  assumes "inputs_within q qo B so worker sp"
  shows "q worker \<subseteq> B"
    and "(k, src) \<in> set (sp_Sources sp) \<Longrightarrow> source_toState so name (with_includes incl src) = Some st \<Longrightarrow> q st \<subseteq> B"
    and "so_CredHelper so = Inr cred \<Longrightarrow> (\<Union>o' \<in> set cred. qo o') \<subseteq> B"
    and "(k, src) \<in> set (sp_Sources sp) \<Longrightarrow> g \<in> set (s_Generate src) \<Longrightarrow> gen_Gomod g = Some gm
      \<Longrightarrow> (\<Union>o' \<in> set (withGomodSecretsAndSockets gm). qo o') \<subseteq> B"
proof -
  note parts = assms [unfolded inputs_within_def]
  show "q worker \<subseteq> B" using parts by (elim conjE)
  show "(k, src) \<in> set (sp_Sources sp) \<Longrightarrow> source_toState so name (with_includes incl src) = Some st \<Longrightarrow> q st \<subseteq> B"
    using parts [THEN conjunct2, THEN conjunct1] by fast
  show "so_CredHelper so = Inr cred \<Longrightarrow> (\<Union>o' \<in> set cred. qo o') \<subseteq> B"
    using parts [THEN conjunct2, THEN conjunct2, THEN conjunct1] by fast
  show "(k, src) \<in> set (sp_Sources sp) \<Longrightarrow> g \<in> set (s_Generate src) \<Longrightarrow> gen_Gomod g = Some gm
      \<Longrightarrow> (\<Union>o' \<in> set (withGomodSecretsAndSockets gm). qo o') \<subseteq> B"
    using parts [THEN conjunct2, THEN conjunct2, THEN conjunct2] by fast
qed

lemma over_generators_append:
  "over_generators sel (\<lambda>g x sts. sts @ [f g x]) gens sts
    = sts @ concat (map (\<lambda>g. case sel g of None \<Rightarrow> [] | Some x \<Rightarrow> [f g x]) gens)"
  unfolding over_generators_def by (induction gens arbitrary: sts) (auto split: option.splits)

lemma inputs_source:
  "inputs_within q qo B so worker sp \<Longrightarrow> (k, src) \<in> set (sp_Sources sp) \<Longrightarrow> source_toState so name src = Some st \<Longrightarrow> q st \<subseteq> B"
  using inputs_withinD(2) [where incl = "s_Includes src" and src = src and name = name] unfolding with_includes_same by blast

context graph_query
begin

lemma within_state_of: "within q B m \<Longrightarrow> q (state_of m k) \<subseteq> B"
  by (auto simp: within_def state_of_def q_leaf dest!: map_of_SomeD split: option.splits)

lemma patch_run_query:
  assumes "q worker \<subseteq> B" and "within q B states" and "q st \<subseteq> B" and "patch_run worker states sub st p = Some st'"
  shows "q st' \<subseteq> B"
  using assms within_state_of [OF assms(2), of "p_Source p"]
  by (auto simp: patch_run_def run_mount_query ShArgs_query query_simps)

lemma patchSource_query:
  assumes "q worker \<subseteq> B" and "within q B states"
  shows "q st \<subseteq> B \<Longrightarrow> patchSource worker states sub st ps = Some st' \<Longrightarrow> q st' \<subseteq> B"
  by (induction ps arbitrary: st) (auto dest: patch_run_query [OF assms] split: option.splits)

lemma patch_loop_query:
  assumes "q worker \<subseteq> B"
  shows "within q B states \<Longrightarrow> patch_loop worker sp states ks = Some states' \<Longrightarrow> within q B states'"
proof (induction ks arbitrary: states)
  case (Cons k ks)
  have "within q B (mput k st states)" if "patchSource worker states k (state_of states k) ps = Some st" for ps st
    using patchSource_query [OF assms Cons.prems(1) within_state_of [OF Cons.prems(1)] that] Cons.prems(1)
    by (rule within_mput [rotated])
  with Cons show ?case by (auto split: option.splits)
qed simp

lemma patch_states_query:
  assumes "\<And>k src st. (k, src) \<in> set (sp_Sources sp) \<Longrightarrow> source_toState so k src = Some st \<Longrightarrow> q st \<subseteq> B"
  shows "within q B states \<Longrightarrow> patch_states so sp states ps = Some (Inr states') \<Longrightarrow> within q B states'"
proof (induction ps arbitrary: states)
  case (Cons p ps)
  have "within q B (mput (p_Source p) st states)"
    if "map_of (sp_Sources sp) (p_Source p) = Some src" "source_toState so (p_Source p) src = Some st" for src st
    using assms [OF map_of_SomeD [OF that(1)] that(2)] Cons.prems(1) by (rule within_mput [rotated])
  with Cons show ?case by (auto split: option.splits)
qed simp

lemma needed_states_query:
  assumes "\<And>k src st. (k, src) \<in> set (sp_Sources sp) \<Longrightarrow> source_toState so k src = Some st \<Longrightarrow> q st \<subseteq> B"
  shows "set srcs \<subseteq> set (sp_Sources sp) \<Longrightarrow> within q B states
    \<Longrightarrow> needed_states so sp wanted states srcs = Some (Inr states') \<Longrightarrow> within q B states'"
proof (induction srcs arbitrary: states)
  case (Cons e srcs)
  obtain k src where e: "e = (k, src)" by (cases e)
  show ?case
  proof (cases "wanted k")
    case True
    then obtain st m where st: "source_toState so k src = Some st"
        and m: "patch_states so sp (mput k st states) (patches_of sp k) = Some (Inr m)"
        and rest: "needed_states so sp wanted m srcs = Some (Inr states')"
      using Cons.prems(3) unfolding e by (auto simp: patches_of_def split: option.splits sum.splits)
    have "within q B (mput k st states)"
      using Cons.prems(1,2) assms [OF _ st] e by (intro within_mput) auto
    from patch_states_query [OF assms this m] Cons.IH [OF _ _ rest] Cons.prems(1) show ?thesis by simp
  qed (use Cons e in auto)
qed simp

lemma patched_for_query:
  assumes "\<And>k src st. (k, src) \<in> set (sp_Sources sp) \<Longrightarrow> source_toState so k src = Some st \<Longrightarrow> q st \<subseteq> B"
    and "q worker \<subseteq> B" and "patched_for so worker sp pred = Some (Inr m)"
  shows "within q B m"
proof -
  obtain states where needed: "needed_states so sp (\<lambda>k. case map_of (sp_Sources sp) k of None \<Rightarrow> False | Some src \<Rightarrow> pred src) []
        (sp_Sources sp) = Some (Inr states)" and loop: "PatchSources worker sp states = Some m"
    using assms(3) by (auto simp: patched_for_def getPatchedSources_def map_sum_def split: option.splits sum.splits)
  have "within q B states"
    by (rule needed_states_query [OF assms(1) subset_refl _ needed]) (simp_all add: within_def)
  then show ?thesis
    using patch_loop_query [OF assms(2)] loop unfolding PatchSources_def by blast
qed

lemma foldl_query: "q st \<subseteq> B \<Longrightarrow> (\<And>st x. x \<in> set xs \<Longrightarrow> q st \<subseteq> B \<Longrightarrow> q (f st x) \<subseteq> B) \<Longrightarrow> q (foldl f st xs) \<subseteq> B"
  by (induction xs arbitrary: st) auto

lemma over_generators_query:
  "q st \<subseteq> B \<Longrightarrow> (\<And>g x st. g \<in> set gens \<Longrightarrow> sel g = Some x \<Longrightarrow> q st \<subseteq> B \<Longrightarrow> q (f g x st) \<subseteq> B)
    \<Longrightarrow> q (over_generators sel f gens st) \<subseteq> B"
  unfolding over_generators_def by (rule foldl_query) (auto split: option.splits)

lemma gomod_run_query:
  "(\<Union>o' \<in> set (withGomodSecretsAndSockets gm). qo o') \<subseteq> B \<Longrightarrow> (\<Union>o' \<in> set cred. qo o') \<subseteq> B \<Longrightarrow> q worker \<subseteq> B \<Longrightarrow> q src \<subseteq> B
    \<Longrightarrow> q st \<subseteq> B \<Longrightarrow> q (gomod_run gm sub src worker name cred st path) \<subseteq> B"
  by (auto simp: gomod_run_def Let_def run_mount_query ShArgs_query gitconfigGeneratorScript_def query_simps)

lemma cargo_run_query:
  "q worker \<subseteq> B \<Longrightarrow> q src \<subseteq> B \<Longrightarrow> q st \<subseteq> B \<Longrightarrow> q (cargo_run sub src worker name st path) \<subseteq> B"
  by (auto simp: cargo_run_def run_mount_query ShArgs_query query_simps)

lemma pip_run_query:
  "q worker \<subseteq> B \<Longrightarrow> q src \<subseteq> B \<Longrightarrow> q st \<subseteq> B \<Longrightarrow> q (pip_run gp sub src worker name st path) \<subseteq> B"
  by (auto simp: pip_run_def run_mount_query query_simps)

lemma npm_run_query: "q worker \<subseteq> B \<Longrightarrow> q st \<subseteq> B \<Longrightarrow> q (npm_run sub worker name st path) \<subseteq> B"
  by (auto simp: npm_run_def run_mount_query ShArgs_query query_simps)

lemma generate_of_gomod:
  assumes "inputs_within q qo B so worker sp" and "g \<in> set (generate_of sp k)" and "gen_Gomod g = Some gm"
  shows "(\<Union>o' \<in> set (withGomodSecretsAndSockets gm). qo o') \<subseteq> B"
proof -
  obtain src where "map_of (sp_Sources sp) k = Some src" "g \<in> set (s_Generate src)"
    using assms(2) by (cases "map_of (sp_Sources sp) k") (auto simp: generate_of_def)
  then show ?thesis using inputs_withinD(4) [OF assms(1) map_of_SomeD _ assms(3)] by blast
qed

lemma patched_within:
  "inputs_within q qo B so worker sp \<Longrightarrow> patched_for so worker sp pred = Some (Inr m) \<Longrightarrow> within q B m"
  by (rule patched_for_query) (assumption | erule (2) inputs_source | erule inputs_withinD(1))+

lemma GomodDeps_query:
  assumes in': "inputs_within q qo B so worker sp" and "GomodDeps so worker sp = Some (Inr (Some st))"
  shows "q st \<subseteq> B"
proof -
  obtain m cred where m: "patched_for so worker sp isGomod = Some (Inr m)" and cred: "so_CredHelper so = Inr cred"
    and st: "st = foldl (\<lambda>st k. over_generators gen_Gomod (\<lambda>g gm. withGomod g gm (state_of m k) worker k cred)
        (generate_of sp k) st) Scratch (SortMapKeys m)"
    using assms(2) by (auto simp: GomodDeps_def split: if_splits option.splits sum.splits)
  note ins = inputs_withinD(1) [OF in'] inputs_withinD(3) [OF in' cred]
  show ?thesis
    unfolding st withGomod_def
    using ins within_state_of [OF patched_within [OF in' m]] generate_of_gomod [OF in']
    by (intro foldl_query over_generators_query gomod_run_query) (simp_all add: q_leaf)
qed

lemma CargohomeDeps_query:
  assumes in': "inputs_within q qo B so worker sp" and "CargohomeDeps so worker sp = Some (Inr (Some st))"
  shows "q st \<subseteq> B"
proof -
  obtain m where m: "patched_for so worker sp isCargohome = Some (Inr m)"
    and st: "st = foldl (\<lambda>st k. over_generators gen_Cargohome (\<lambda>g gc. withCargohome g gc (state_of m k) worker k)
        (generate_of sp k) st) Scratch (SortMapKeys m)"
    using assms(2) by (auto simp: CargohomeDeps_def split: if_splits option.splits sum.splits)
  note ins = inputs_withinD(1) [OF in']
  show ?thesis
    unfolding st withCargohome_def using ins within_state_of [OF patched_within [OF in' m]]
    by (intro foldl_query over_generators_query cargo_run_query) (simp_all add: q_leaf)
qed

lemma PipDeps_query:
  assumes in': "inputs_within q qo B so worker sp" and "PipDeps so worker sp = Some (Inr (Some st))"
  shows "q st \<subseteq> B"
proof -
  obtain m where m: "patched_for so worker sp isPip = Some (Inr m)"
    and st: "st = MergeAtPath (so_DiffMergeOff so) Scratch (concat (map (\<lambda>k. over_generators gen_Pip
        (\<lambda>g gp sts. sts @ [withPip g gp (state_of m k) worker k]) (generate_of sp k) []) (SortMapKeys m))) ''/''"
    using assms(2) by (auto simp: PipDeps_def Let_def split: if_splits option.splits sum.splits)
  note ins = inputs_withinD(1) [OF in']
  have "q (withPip g gp (state_of m k) worker k) \<subseteq> B" for g gp k
    unfolding withPip_def using ins within_state_of [OF patched_within [OF in' m]]
    by (intro foldl_query pip_run_query) (simp_all add: q_leaf)
  then show ?thesis by (force simp: st MergeAtPath_query q_leaf over_generators_append split: option.splits)
qed

lemma NodeModDeps_query:
  assumes in': "inputs_within q qo B so worker sp" and "NodeModDeps so worker sp = Some (Inr nm)"
  shows "within q B nm"
proof (cases "HasNodeMods sp")
  case True
  then obtain m where m: "patched_for so worker sp isNodeMod = Some (Inr m)"
    and nm: "nm = map (\<lambda>k. (k, over_generators gen_NodeMod (\<lambda>g gn. withNodeMod (so_DiffMergeOff so) g gn worker k)
        (generate_of sp k) (state_of m k))) (SortMapKeys m)"
    using assms(2) by (auto simp: NodeModDeps_def split: if_splits option.splits sum.splits)
  note ins = inputs_withinD(1) [OF in']
  have "q (withNodeMod dm g gn worker k st) \<subseteq> B" if "q st \<subseteq> B" for dm g gn k st
    using npm_run_query [OF ins that] that by (auto simp: withNodeMod_def MergeAtPath_query q_leaf)
  then have "q (over_generators gen_NodeMod (\<lambda>g gn. withNodeMod (so_DiffMergeOff so) g gn worker k)
      (generate_of sp k) (state_of m k)) \<subseteq> B" for k
    by (intro over_generators_query within_state_of [OF patched_within [OF in' m]])
  then show ?thesis by (auto simp: nm within_def)
qed (use assms(2) in \<open>simp add: NodeModDeps_def within_def\<close>)

lemma Sources_llb_query:
  assumes "inputs_within q qo B so worker sp" and "Sources_llb sp so = Some m"
  shows "within q B m"
proof -
  have "q st \<subseteq> B" if "(k, st) \<in> set m" for k st
    using those_map_set [OF assms(2) [unfolded Sources_llb_def] that]
    by (auto dest!: inputs_source [OF assms(1), THEN subsetD, rotated 2])
  then show ?thesis by (auto simp: within_def)
qed

lemma Tar_query: "q (Tar w st d) = q w \<union> q st"
  by (auto simp: Tar_def Let_def run_mount_query ShArgs_query query_simps)

end

end
