(* ===== verification/Package_Props.thy ===== *)
theory Package_Props
  imports Build_Props
begin

text \<open>
  Properties of the rpm and Debian package builds: they return for every loaded spec, what their graphs
  contain comes from the inputs, and the files the rpm spec names are among the sources of the build.
\<close>

section \<open>The sources of the debian directory\<close>

text \<open>The sources that a list of file actions copies from.\<close>

definition copied :: "'s actions \<Rightarrow> 's set" where
  "copied as = (\<Union>a \<in> set as. set_fileAction a)"

lemma copied_simps [simp]:
  "copied [] = {}" "copied (a # as) = set_fileAction a \<union> copied as" "copied (as @ bs) = copied as \<union> copied bs"
  by (auto simp: copied_def)

lemma copied_written [simp]:
  "as \<in> set (control_states m sp t d v) \<Longrightarrow> copied as = {}"
  "copied (debian_state d) = {}"
  "as \<in> set (createInstallScripts sp d t) \<Longrightarrow> copied as = {}"
  "as \<in> set (script_states sp t d cfg ps) \<Longrightarrow> copied as = {}"
  "as \<in> set (link_states sp t d) \<Longrightarrow> copied as = {}"
  by (auto simp: control_states_def debian_state_def createInstallScripts_def script_states_def link_states_def
      if_content_def unit_link_def Let_def split: if_splits option.splits)

text \<open>The states that copies of patches may use: a source of the spec, under its own name or none.\<close>

definition patch_inputs :: "(source \<Rightarrow> string \<Rightarrow> 's) \<Rightarrow> spec \<Rightarrow> 's set" where
  "patch_inputs toState sp =
    {toState (with_includes incl src) (if SourceIsDir src = Some True then [] else k) | k src incl. map_of (sp_Sources sp) k = Some src}"

lemma SourceIsDir_with_includes [simp]: "SourceIsDir (with_includes incl s) = SourceIsDir s"
  by (cases s) (simp add: with_includes_def SourceIsDir_includes [where incl = incl and incl' = "s_Includes s"])

lemma patch_state_eq:
  assumes "map_of (sp_Sources sp) (p_Source p) = Some src"
  shows "\<exists>incl from to. patch_state toState base path sp p
    = map_option (\<lambda>isDir. base @ [CopyFrom (toState (with_includes incl src) (if isDir then [] else p_Source p)) from to])
        (SourceIsDir src)"
proof (cases "p_Path p = []")
  case True
  with assms show ?thesis
    by (intro exI [of _ "s_Includes src"]) (auto simp: patch_state_def)
next
  case False
  let ?incl = "Some ((case s_Includes src of None \<Rightarrow> [] | Some is \<Rightarrow> is) @ [p_Path p])"
  have "(case src of Source img git http ctx bld inl path incl excl gens \<Rightarrow>
      Source img git http ctx bld inl path (Some ((case incl of None \<Rightarrow> [] | Some is \<Rightarrow> is) @ [p_Path p])) excl gens)
      = with_includes ?incl src"
    by (cases src) (simp add: with_includes_def)
  with False assms show ?thesis
    by (intro exI [of _ ?incl]) (auto simp: patch_state_def)
qed

lemma patch_state_copied:
  assumes "patch_ok (sp_Sources sp) p" and "patch_state toState base path sp p = Some as" and "copied base = {}"
  shows "copied as \<subseteq> patch_inputs toState sp"
proof -
  obtain src where src: "map_of (sp_Sources sp) (p_Source p) = Some src"
    using assms(1) by (auto simp: patch_ok_def split: option.splits)
  obtain incl copyFrom copyTo isDir where isDir: "SourceIsDir src = Some isDir"
      and as: "as = base @ [CopyFrom (toState (with_includes incl src) (if isDir then [] else p_Source p)) copyFrom copyTo]"
    using patch_state_eq [OF src, of toState base path] assms(2) by (cases "SourceIsDir src") auto
  have "copied as = {toState (with_includes incl src) (if SourceIsDir src = Some True then [] else p_Source p)}"
    by (simp add: as assms(3) isDir)
  then show ?thesis using src unfolding patch_inputs_def by blast
qed

lemma sourcePatchesDir_copied:
  assumes "list_all (patch_ok (sp_Sources sp)) (patches_of sp name)" and "copied base = {}"
    and "sourcePatchesDir toState base dir name sp = Some pl" and "as \<in> set pl"
  shows "copied as \<subseteq> patch_inputs toState sp"
proof -
  let ?path = "Join [dir, name]"
  let ?base = "base @ [fileAction.Mkdir ?path m0755 False]"
  obtain sts c where sts: "those (map (patch_state toState ?base ?path sp) (patches_of sp name)) = Some sts"
      and pl: "pl = sts @ [?base @ [fileAction.Mkfile (Join [?path, ''series'']) m0640 c]]"
    using assms(3) unfolding sourcePatchesDir_def Let_def by auto
  have "copied as \<subseteq> patch_inputs toState sp" if in': "as \<in> set sts"
  proof -
    obtain p where "p \<in> set (patches_of sp name)" "patch_state toState ?base ?path sp p = Some as"
      using those_map_set [OF sts in'] by blast
    then show ?thesis using assms(1,2) by (intro patch_state_copied [where base = ?base]) (auto simp: list_all_iff)
  qed
  with assms(2,4) pl show ?thesis by auto
qed

lemma Debroot_copied:
  assumes ok: "\<And>name. list_all (patch_ok (sp_Sources sp)) (patches_of sp name)"
    and states: "Debroot toState main_path sp target dir ver cfg = Some states" and as: "as \<in> set states"
  shows "copied as \<subseteq> patch_inputs toState sp"
proof -
  let ?d = "dir_or_default dir"
  define base :: "'a actions" where "base = [fileAction.Mkdir ?d m0755 False,
      fileAction.Mkdir (Join [?d, ''dalec'']) m0755 False, fileAction.Mkdir (Join [?d, ''dalec/patches'']) m0755 False]"
  then have base: "copied base = {}" by simp
  obtain d ps pls where pls: "those (map (\<lambda>name. sourcePatchesDir toState base d name sp) (SortMapKeys (sp_Patches sp))) = Some pls"
    and st: "states = control_states main_path sp target dir ver @ [debian_state ?d] @ createInstallScripts sp ?d target
      @ script_states sp target ?d cfg ps @ concat pls @ link_states sp target ?d"
    using states unfolding Debroot_def Let_def base_def [symmetric] by (auto split: option.splits)
  have "copied as \<subseteq> patch_inputs toState sp" if "pl \<in> set pls" "as \<in> set pl" for pl
    using those_map_set [OF pls that(1)] sourcePatchesDir_copied [OF ok base _ that(2)] by blast
  then show ?thesis using as unfolding st by auto
qed

section \<open>The contents of the graphs\<close>


context graph_query
begin

lemma sourceTar_query: "q (sourceTar w k st) = q w \<union> q st"
  by (simp add: sourceTar_def Tar_query)

lemma dep_tar_query: "q worker \<subseteq> B \<Longrightarrow> (\<And>st. dep = Some st \<Longrightarrow> q st \<subseteq> B) \<Longrightarrow> (\<Union>st \<in> set (dep_tar worker n dep). q st) \<subseteq> B"
  by (auto simp: dep_tar_def sourceTar_query split: option.splits)

lemma source_file_query:
  assumes "q worker \<subseteq> B" and "within q B sources" and "within q B nodeMods"
    and "source_file worker sp sources nodeMods k = Some st"
  shows "q st \<subseteq> B"
proof -
  have "q (case map_of nodeMods k of Some st \<Rightarrow> st | None \<Rightarrow> state_of sources k) \<subseteq> B"
    using within_state_of [OF assms(2)] assms(3) by (auto simp: within_def dest!: map_of_SomeD split: option.splits)
  with assms(1,4) show ?thesis
    by (auto simp: source_file_def Let_def sourceTar_query split: option.splits if_splits)
qed

lemma ToSourcesLLB_query:
  assumes in': "inputs_within q qo B so worker sp" and "ToSourcesLLB worker sp so = Some (Inr sts)"
  shows "(\<Union>st \<in> set sts. q st) \<subseteq> B"
proof -
  obtain sources gomod cargo pip nodeMods srcs where
    sources: "Sources_llb sp so = Some sources" and gomod: "GomodDeps so worker sp = Some (Inr gomod)"
    and cargo: "CargohomeDeps so worker sp = Some (Inr cargo)" and pip: "PipDeps so worker sp = Some (Inr pip)"
    and nodeMods: "NodeModDeps so worker sp = Some (Inr nodeMods)"
    and srcs: "those (map (source_file worker sp sources nodeMods) (SortMapKeys sources)) = Some srcs"
    and sts: "sts = dep_tar worker gomodsName gomod @ dep_tar worker cargohomeName cargo
          @ dep_tar worker pipDepsName pip @ srcs @ (case buildScriptSourceState sp of None \<Rightarrow> [] | Some st \<Rightarrow> [st])"
    using assms(2) by (auto simp: ToSourcesLLB_def)
  note ins = inputs_withinD(1) [OF in']
  have "q st \<subseteq> B" if "st \<in> set srcs" for st
    using those_map_set [OF srcs that]
      source_file_query [OF ins Sources_llb_query [OF in' sources] NodeModDeps_query [OF in' nodeMods]] by blast
  moreover have "(\<Union>st \<in> set (dep_tar worker n d). q st) \<subseteq> B" if "d \<in> {gomod, cargo, pip}" for n d
    using that gomod cargo pip
    by (intro dep_tar_query ins) (auto dest: GomodDeps_query [OF in', THEN subsetD] CargohomeDeps_query [OF in', THEN subsetD]
        PipDeps_query [OF in', THEN subsetD])
  moreover have "q st = {}" if "buildScriptSourceState sp = Some st" for st
    using that by (auto simp: buildScriptSourceState_def query_simps split: if_splits)
  ultimately show ?thesis by (auto simp: sts split: option.splits)
qed

lemma SpecToBuildrootLLB_query:
  assumes "inputs_within q qo B so worker sp" and "SpecToBuildrootLLB main_path remote worker sp so target = Some (Inr st)"
  shows "q st \<subseteq> B"
proof -
  obtain sts where sts: "ToSourcesLLB worker sp so = Some (Inr sts)"
    and st: "ToSpecLLB main_path remote sp (MergeAtPath (so_DiffMergeOff so) Scratch sts ''SOURCES'') target [] = Some (Inr st)"
    using assms(2) by (auto simp: SpecToBuildrootLLB_def split: option.splits)
  have "q st = q (MergeAtPath (so_DiffMergeOff so) Scratch sts ''SOURCES'')"
    using st by (auto simp: ToSpecLLB_def Let_def query_simps split: option.splits)
  with ToSourcesLLB_query [OF assms(1) sts] show ?thesis by (simp add: MergeAtPath_query q_leaf)
qed

lemma rpm_Build_query:
  "q (rpm_Build topDir worker path key caches) = q worker \<union> q topDir \<union> (\<Union>c \<in> set caches. qc c)"
  by (auto simp: rpm_Build_def run_mount_query ShArgs_query query_simps)

lemma action_llb_query:
  assumes "q worker \<subseteq> B" and "q st \<subseteq> B" and "\<And>x. x \<in> set_fileAction a \<Longrightarrow> \<forall>s. x = Some s \<longrightarrow> q s \<subseteq> B"
    and "action_llb worker (Some st) a = Some st'"
  shows "q st' \<subseteq> B"
  using assms by (cases a) (auto simp: action_llb_def run_mount_query ShArgs_query query_simps)

lemma foldl_action_None: "foldl (action_llb worker) None as = None"
  by (induction as) (simp_all add: action_llb_def)

lemma actions_query:
  assumes "q worker \<subseteq> B"
  shows "q st \<subseteq> B \<Longrightarrow> (\<And>x. Some x \<in> copied as \<Longrightarrow> q x \<subseteq> B) \<Longrightarrow> foldl (action_llb worker) (Some st) as = Some st' \<Longrightarrow> q st' \<subseteq> B"
proof (induction as arbitrary: st)
  case (Cons a as)
  then obtain st1 where st1: "action_llb worker (Some st) a = Some st1"
    by (cases "action_llb worker (Some st) a") (auto simp: foldl_action_None)
  have "q st1 \<subseteq> B" using Cons.prems by (intro action_llb_query [OF assms _ _ st1]) auto
  then show ?case using Cons.IH [of st1] Cons.prems st1 by simp
qed simp

lemma Debroot_query:
  assumes in': "inputs_within q qo B so worker sp" and ok: "\<And>name. list_all (patch_ok (sp_Sources sp)) (patches_of sp name)"
    and "Debroot_llb so main_path worker sp target dir ver cfg = Some dr"
  shows "q dr \<subseteq> B"
proof -
  let ?to = "\<lambda>src name. source_toState so name src"
  obtain states sts where states: "Debroot ?to main_path sp target dir ver cfg = Some states"
      and sts: "those (map (actions_llb worker) states) = Some sts"
      and dr: "dr = MergeAtPath (so_DiffMergeOff so) Scratch sts ''/''"
    using assms(3) by (auto simp: Debroot_llb_def split: option.splits)
  have "q x \<subseteq> B" if "Some x \<in> patch_inputs ?to sp" for x
    using that inputs_withinD(2) [OF in'] by (force simp: patch_inputs_def dest!: map_of_SomeD)
  then have "q st \<subseteq> B" if "as \<in> set states" "foldl (action_llb worker) (Some Scratch) as = Some st" for as st
    using actions_query [OF inputs_withinD(1) [OF in'] _ _ that(2)] Debroot_copied [OF ok states that(1)] by (auto simp: q_leaf)
  then have "q st \<subseteq> B" if "st \<in> set sts" for st
    using those_map_set [OF sts that] by (auto simp: actions_llb_def q_leaf split: if_splits)
  then show ?thesis by (auto simp: dr MergeAtPath_query q_leaf)
qed

lemma nestState_query: "q (nestState d st) = q st"
  by (simp add: nestState_def query_simps)

lemma TarDebSources_query:
  assumes "q worker \<subseteq> B" and "within q B m" and "TarDebSources dm worker sp m dest = Some st"
  shows "q st \<subseteq> B"
proof -
  obtain sts where sts: "those (map (tar_state sp (length m)) m) = Some sts" and st: "st = Tar worker (MergeAtPath dm Scratch sts ''/'') dest"
    using assms(3) by (auto simp: TarDebSources_def)
  have "q s \<subseteq> B" if "s \<in> set sts" for s
    using those_map_set [OF sts that] assms(2) by (auto simp: tar_state_def nestState_query split: if_splits dest: within_mem)
  then show ?thesis using assms(1) by (auto simp: st Tar_query MergeAtPath_query q_leaf)
qed

lemma deb_sources_query:
  assumes in': "inputs_within q qo B so worker sp" and "deb_sources worker sp so = Some (Inr m)"
  shows "within q B m"
proof -
  obtain sources gomod cargo pip nodeMods where
    sources: "Sources_llb sp so = Some sources" and gomod: "GomodDeps so worker sp = Some (Inr gomod)"
    and cargo: "CargohomeDeps so worker sp = Some (Inr cargo)" and pip: "PipDeps so worker sp = Some (Inr pip)"
    and nodeMods: "NodeModDeps so worker sp = Some (Inr nodeMods)"
    and m: "m = put_dep deb_pipDepsName pip (put_dep deb_cargohomeName cargo (put_dep deb_gomodsName gomod
        (foldl (\<lambda>m k. mput k (state_of nodeMods k) m) sources (SortMapKeys nodeMods))))"
    using assms(2) by (auto simp: deb_sources_def)
  have put: "within q B (put_dep n d m0)" if "within q B m0" "\<And>st. d = Some st \<Longrightarrow> q st \<subseteq> B" for n d m0
    using that by (auto simp: put_dep_def nestState_query intro!: within_mput split: option.splits)
  have "within q B (foldl (\<lambda>m k. mput k (state_of nodeMods k) m) m0 ks)" if "within q B m0" for m0 ks
    using that by (induction ks arbitrary: m0) (simp_all add: within_mput within_state_of [OF NodeModDeps_query [OF in' nodeMods]])
  then show ?thesis unfolding m
    using Sources_llb_query [OF in' sources] GomodDeps_query [OF in'] CargohomeDeps_query [OF in'] PipDeps_query [OF in'] gomod cargo pip
    by (intro put) simp_all
qed

lemma createPatches_query:
  "q worker \<subseteq> B \<Longrightarrow> within q B m \<Longrightarrow> q dr \<subseteq> B \<Longrightarrow> q (createPatches sp m worker dr) \<subseteq> B"
  by (auto simp: createPatches_def mountSources_def run_mount_query ShArgs_query query_simps dest: within_mem)

lemma SourcePackage_query:
  assumes in': "inputs_within q qo B so worker sp" and ok: "\<And>name. list_all (patch_ok (sp_Sources sp)) (patches_of sp name)"
    and "SourcePackage main_path so worker sp target ver cfg = Some (Inr st)"
  shows "q st \<subseteq> B"
proof -
  obtain dr m where dr: "Debroot_llb so main_path worker sp target [] ver cfg = Some dr"
      and m: "deb_sources worker sp so = Some (Inr m)" and run: "source_run so worker sp m dr = Some st"
    using assms(3) by (auto simp: SourcePackage_def split: option.splits)
  note ins = inputs_withinD(1) [OF in'] and m' = deb_sources_query [OF in' m] and dr' = Debroot_query [OF in' ok dr]
  obtain tar where tar: "TarDebSources (so_DiffMergeOff so) worker sp m ''src.tar.gz'' = Some tar"
      and st: "q st = q worker \<union> q dr \<union> q (createPatches sp m worker dr) \<union> q tar"
    using run by (auto simp: source_run_def run_mount_query ShArgs_query query_simps Un_assoc)
  show ?thesis
    using ins dr' createPatches_query [OF ins m' dr', of sp] TarDebSources_query [OF ins m' tar] by (simp add: st)
qed

lemma BuildDeb_query:
  "q (BuildDeb dm worker sp src ver) = q worker \<union> q src \<union> (\<Union>c \<in> set (ab_Caches (sp_Build sp)). qc c)"
  by (auto simp: BuildDeb_def MergeAtPath_query run_mount_query ShArgs_query query_simps)

end


section \<open>The package builds return\<close>

lemma buildable_patch_ok: "buildable so sp \<Longrightarrow> list_all (patch_ok (sp_Sources sp)) (patches_of sp name)"
  by (cases "map_of (sp_Patches sp) name")
    (auto simp: buildable_def spec_ok_def patches_of_simps list_all_iff dest!: map_of_SomeD)

lemma with_includes_keeps:
  "source_over pg pm (with_includes incl s) = source_over pg pm s" "git_sources (with_includes incl s) = git_sources s"
  by (cases s; simp only: with_includes_def source.sel source_over.simps git_sources.simps)+

lemma inlineDir_files_fo:
  "fo_Path fo = fo_Path fo' \<Longrightarrow> fo_Rename fo = fo_Rename fo' \<Longrightarrow> inlineDir_files fo fs ks st = inlineDir_files fo' fs ks st"
  by (induction ks arbitrary: st) (auto split: option.splits)

lemma inline_toState_fo:
  assumes "fo_Path fo = fo_Path fo'" and "fo_Rename fo = fo_Rename fo'"
  shows "inline_toState i fo = None \<longleftrightarrow> inline_toState i fo' = None"
  by (simp add: inline_toState_def inlineDir_toState_def inlineDir_base_def inlineDir_files_fo [OF assms] assms split: option.splits)

lemma toState_with_includes: "source_toState so name (with_includes incl s) = None \<longleftrightarrow> source_toState so name s = None"
  unfolding with_includes_def
  by (cases s) (auto simp: Let_def split: option.splits elim!: inline_toState_fo [THEN iffD1, rotated 2])

lemma patch_inputs_total:
  assumes "buildable so sp"
  shows "None \<notin> patch_inputs (\<lambda>src name. source_toState so name src) sp"
proof -
  have "source_toState so (if SourceIsDir src = Some True then [] else k) (with_includes incl src) \<noteq> None"
    if "map_of (sp_Sources sp) k = Some src" for k src incl
  proof -
    have ok: "source_ok (so_Digest so) src" "source_tidy src" "file_name k"
      using assms map_of_SomeD [OF that] by (auto simp: buildable_def spec_ok_def sources_tidy_def list_all_iff)
    then have "name_fits (if SourceIsDir src = Some True then [] else k) src"
      by (auto simp: name_fits_def file_name_def proper_elem_def isRoot_def)
    then show ?thesis unfolding toState_with_includes using source_total(1) ok by blast
  qed
  then show ?thesis unfolding patch_inputs_def by (smt (verit) mem_Collect_eq)
qed

lemma actions_total: "None \<notin> copied as \<Longrightarrow> foldl (action_llb worker) (Some st) as \<noteq> None"
proof (induction as arbitrary: st)
  case (Cons a as)
  have "action_llb worker (Some st) a \<noteq> None"
    using Cons.prems by (cases a; cases "\<exists>x f t. a = CopyFrom (Some x) f t") (auto simp: action_llb_def)
  then obtain st1 where "action_llb worker (Some st) a = Some st1" by blast
  with Cons show ?case by simp
qed simp

lemma Debroot_llb_total:
  assumes "buildable so sp"
  shows "Debroot_llb so main_path worker sp target dir ver cfg \<noteq> None"
proof -
  let ?to = "\<lambda>src name. source_toState so name src"
  obtain states where states: "Debroot ?to main_path sp target dir ver cfg = Some states"
    using Debroot_returns [of "so_Digest so" sp ?to] assms unfolding buildable_def by blast
  have "actions_llb worker as \<noteq> None" if "as \<in> set states" for as
    using Debroot_copied [OF buildable_patch_ok [OF assms] states that] patch_inputs_total [OF assms] actions_total
    by (fastforce simp: actions_llb_def)
  then have "those (map (actions_llb worker) states) \<noteq> None" by (simp add: those_map_None)
  with states show ?thesis by (simp add: Debroot_llb_def)
qed

lemma deb_sources_total:
  assumes "buildable so sp" and "so_CredHelper so = Inr cred"
  shows "\<exists>m. deb_sources worker sp so = Some (Inr m)"
  using Sources_llb_total [OF assms(1)] deps_total(1) [OF assms] deps_total(2-4) [OF assms(1)]
  by (fastforce simp: deb_sources_def)

lemma source_run_total:
  assumes "buildable so sp"
  shows "source_run so worker sp m dr \<noteq> None"
proof -
  have "tar_state sp n e \<noteq> None" for n e
    using buildable_source(2) [OF assms map_of_SomeD] by (auto simp: tar_state_def split: prod.splits option.splits)
  then have "those (map (tar_state sp n) es) \<noteq> None" for n es by (simp add: those_map_None)
  then show ?thesis by (simp add: source_run_def TarDebSources_def)
qed

lemma SourcePackage_total:
  assumes "buildable so sp" and "so_CredHelper so = Inr cred"
  shows "\<exists>st. SourcePackage main_path so worker sp target ver cfg
    = Some (case deb_validateSpec sp of Some e \<Rightarrow> Inl e | None \<Rightarrow> Inr st)"
proof (cases "deb_validateSpec sp")
  case None
  obtain dr m st where "Debroot_llb so main_path worker sp target [] ver cfg = Some dr"
      "deb_sources worker sp so = Some (Inr m)" "source_run so worker sp m dr = Some st"
    using Debroot_llb_total [OF assms(1)] deb_sources_total [OF assms] source_run_total [OF assms(1)] by blast
  with None show ?thesis by (simp add: SourcePackage_def)
qed (simp add: SourcePackage_def)

lemma SpecToBuildrootLLB_total:
  assumes "buildable so sp" and "so_CredHelper so = Inr cred" and "WriteSpec remote sp target \<noteq> None"
  shows "\<exists>st. SpecToBuildrootLLB main_path remote worker sp so target
    = Some (case ValidateSpec sp of Some e \<Rightarrow> Inl (Wrap ''invalid spec'' e) | None \<Rightarrow> Inr st)"
  using ToSourcesLLB_total [OF assms(1,2), of worker] assms(3)
  by (auto simp: SpecToBuildrootLLB_def ToSpecLLB_def Let_def split: option.splits)

end
