(* ===== verification/Build_Agreement.thy ===== *)
theory Build_Agreement
  imports Package_Props Git_Cred
begin

text \<open>
  The spec file and the build agree: every file that the spec file names as a source is produced by
  one of the states of the build's SOURCES directory, and the secrets that the download script of
  private go modules reads are those that its run mounts.
\<close>

section \<open>Files of a state\<close>

text \<open>The file that an archive, a download or a written file leaves at the top of its state.\<close>

definition provides :: "string \<Rightarrow> llb \<Rightarrow> bool" where
  "provides n st =
    (case st of
       HTTP u i \<Rightarrow> hi_Filename i = n
     | llb.Mkfile Scratch p m c ids \<Rightarrow> p = n
     | ExecMount d (ExecRoot w (RunMount src x os # opts)) opts' \<Rightarrow> st = Tar w x n
     | _ \<Rightarrow> False)"

lemma provides_Tar [simp]: "provides n (Tar w x n)"
  by (simp add: provides_def Tar_def run_mount_def Let_def)

lemma provides_file:
  "SourceIsDir src = Some False \<Longrightarrow> source_toState so k src = Some st \<Longrightarrow> provides k st"
  by (cases src) (auto simp: SourceIsDir_def toInterface_def provides_def http_toState_def inline_toState_def
      inlineFile_toState_def Let_def split: option.splits if_splits)

section \<open>Sources that generators leave alone\<close>

text \<open>A file source has no node modules and no patches of its own.\<close>

definition files_plain :: "spec \<Rightarrow> bool" where
  "files_plain sp = list_all (\<lambda>(k, src). SourceIsDir src = Some False \<longrightarrow> \<not> isNodeMod src \<and> map_of (sp_Patches sp) k = None) (sp_Sources sp)"

text \<open>Every state of a map is the state of the source of that name.\<close>

definition own_states :: "sourceOpts \<Rightarrow> spec \<Rightarrow> llb gomap \<Rightarrow> bool" where
  "own_states so sp m = (\<forall>(k, st) \<in> set m. \<exists>src. (k, src) \<in> set (sp_Sources sp) \<and> source_toState so k src = Some st)"

lemma own_states_mput:
  "own_states so sp m \<Longrightarrow> (k, src) \<in> set (sp_Sources sp) \<Longrightarrow> source_toState so k src = Some st \<Longrightarrow> own_states so sp (mput k st m)"
  by (induction m) (auto simp: own_states_def)

lemma patch_states_own:
  "own_states so sp m \<Longrightarrow> patch_states so sp m ps = Some (Inr m') \<Longrightarrow> own_states so sp m'"
proof (induction ps arbitrary: m)
  case (Cons p ps)
  then show ?case using own_states_mput [OF Cons.prems(1) map_of_SomeD] by (auto split: option.splits)
qed simp

lemma needed_states_own:
  "set srcs \<subseteq> set (sp_Sources sp) \<Longrightarrow> own_states so sp m \<Longrightarrow> needed_states so sp wanted m srcs = Some (Inr m') \<Longrightarrow> own_states so sp m'"
proof (induction srcs arbitrary: m)
  case (Cons e srcs)
  obtain k src where e: "e = (k, src)" by (cases e)
  show ?case
  proof (cases "wanted k")
    case True
    then obtain st m1 where st: "source_toState so k src = Some st"
        and m1: "patch_states so sp (mput k st m) (patches_of sp k) = Some (Inr m1)"
        and rest: "needed_states so sp wanted m1 srcs = Some (Inr m')"
      using Cons.prems(3) unfolding e by (auto simp: patches_of_def split: option.splits sum.splits)
    have "own_states so sp (mput k st m)"
      using Cons.prems(1,2) st e by (intro own_states_mput) auto
    from Cons.IH [OF _ patch_states_own [OF this m1] rest] Cons.prems(1) show ?thesis by simp
  qed (use Cons e in auto)
qed simp

lemma patch_loop_unpatched:
  "map_of (sp_Patches sp) k = None \<Longrightarrow> patch_loop w sp m ks = Some m' \<Longrightarrow> map_of m' k = map_of m k"
  by (induction ks arbitrary: m) (auto simp: update_conv split: option.splits if_splits)

lemma over_generators_none: "list_all (\<lambda>g. sel g = None) gens \<Longrightarrow> over_generators sel f gens st = st"
  unfolding over_generators_def by (induction gens) auto

lemma nodeMods_plain:
  assumes "wf_map (sp_Sources sp)" and "files_plain sp" and "(k, src) \<in> set (sp_Sources sp)" and "SourceIsDir src = Some False"
    and "NodeModDeps so worker sp = Some (Inr nm)" and "map_of nm k = Some st"
  shows "source_toState so k src = Some st"
proof -
  have plain: "\<not> isNodeMod src" "map_of (sp_Patches sp) k = None"
    using assms(2,3,4) by (auto simp: files_plain_def list_all_iff)
  have src: "map_of (sp_Sources sp) k = Some src"
    using assms(1,3) by (simp add: wf_map_def)
  have "HasNodeMods sp" using assms(5,6) by (auto simp: NodeModDeps_def split: if_splits)
  then obtain m where m: "patched_for so worker sp isNodeMod = Some (Inr m)"
    and nm: "nm = map (\<lambda>k. (k, over_generators gen_NodeMod (\<lambda>g gn. withNodeMod (so_DiffMergeOff so) g gn worker k)
        (generate_of sp k) (state_of m k))) (SortMapKeys m)"
    using assms(5) by (auto simp: NodeModDeps_def split: if_splits option.splits sum.splits)
  obtain states where states: "needed_states so sp (\<lambda>k. case map_of (sp_Sources sp) k of None \<Rightarrow> False | Some src \<Rightarrow> isNodeMod src) []
        (sp_Sources sp) = Some (Inr states)" and loop: "PatchSources worker sp states = Some m"
    using m by (auto simp: patched_for_def getPatchedSources_def map_sum_def split: option.splits sum.splits)
  have "list_all (\<lambda>g. gen_NodeMod g = None) (generate_of sp k)"
    using src plain(1) by (auto simp: generate_of_def isNodeMod_def list_ex_iff list_all_iff)
  then have k: "k \<in> fst ` set m" "st = state_of m k"
    using map_of_SomeD [OF assms(6)] by (auto simp: nm over_generators_none)
  have "map_of states k = map_of m k"
    using patch_loop_unpatched [OF plain(2) loop [unfolded PatchSources_def]] by simp
  moreover obtain st' where "map_of m k = Some st'" using k(1) by (metis map_of_eq_None_iff option.exhaust)
  moreover have "own_states so sp states"
    by (rule needed_states_own [OF subset_refl _ states]) (simp add: own_states_def)
  ultimately obtain src' where "(k, src') \<in> set (sp_Sources sp)" "source_toState so k src' = Some st'" "st = st'"
    unfolding own_states_def k(2) state_of_def by (auto dest!: map_of_SomeD)
  then show ?thesis using assms(1,3) src by (auto simp: wf_map_def)
qed


section \<open>The files of the spec\<close>

lemma Sources_llb_value:
  assumes "Sources_llb sp so = Some m" and "wf_map (sp_Sources sp)" and "(k, src) \<in> set (sp_Sources sp)"
  shows "source_toState so k src \<noteq> None \<and> map_of m k = source_toState so k src"
proof -
  have "source_toState so k src \<noteq> None \<and> map_of ys k = source_toState so k src"
    if "those (map (\<lambda>(k, src). map_option (Pair k) (source_toState so k src)) xs) = Some ys" "distinct (map fst xs)"
      "(k, src) \<in> set xs" for xs ys
    using that by (induction xs arbitrary: ys) (force split: option.splits)+
  then show ?thesis using assms by (simp add: Sources_llb_def wf_map_def)
qed

lemma those_map_hit: "those (map f xs) = Some ys \<Longrightarrow> x \<in> set xs \<Longrightarrow> \<exists>y \<in> set ys. f x = Some y"
  by (induction xs arbitrary: ys) (auto split: option.splits)

lemma source_file_provides:
  assumes "wf_map (sp_Sources sp)" and "files_plain sp" and "Sources_llb sp so = Some sources"
    and "NodeModDeps so worker sp = Some (Inr nm)" and "(k, src) \<in> set (sp_Sources sp)" and "SourceIsDir src = Some d"
    and "source_file worker sp sources nm k = Some st"
  shows "provides (source_ref k d) st"
proof (cases d)
  case True
  with assms(1,5-7) show ?thesis
    by (auto simp: source_file_def source_ref_def sourceTar_def Let_def wf_map_def)
next
  case False
  have "source_toState so k src = Some (state_of sources k)"
  proof -
    have "source_toState so k src \<noteq> None \<and> map_of sources k = source_toState so k src"
      using Sources_llb_value [OF assms(3,1,5)] .
    then show ?thesis by (auto simp: state_of_def)
  qed
  moreover have "source_toState so k src = Some st'" if "map_of nm k = Some st'" for st'
    using nodeMods_plain [OF assms(1,2,5) _ assms(4) that] assms(6) False by simp
  moreover have "st = (case map_of nm k of Some st \<Rightarrow> st | None \<Rightarrow> state_of sources k)"
    using assms(1,5-7) False by (auto simp: source_file_def Let_def wf_map_def)
  ultimately have "source_toState so k src = Some st" by (auto split: option.splits)
  with provides_file assms(6) False show ?thesis by (simp add: source_ref_def)
qed

lemma ToSourcesLLB_provides:
  assumes "wf_map (sp_Sources sp)" and "files_plain sp" and "ToSourcesLLB worker sp so = Some (Inr sts)"
  shows "(k, src) \<in> set (sp_Sources sp) \<Longrightarrow> SourceIsDir src = Some d \<Longrightarrow> \<exists>st \<in> set sts. provides (source_ref k d) st"
    and "ref \<in> set (extra_refs sp) \<Longrightarrow> \<exists>st \<in> set sts. provides ref st"
proof -
  obtain sources gomod cargo pip nm srcs where
    sources: "Sources_llb sp so = Some sources" and gomod: "GomodDeps so worker sp = Some (Inr gomod)"
    and cargo: "CargohomeDeps so worker sp = Some (Inr cargo)"
    and nm: "NodeModDeps so worker sp = Some (Inr nm)"
    and srcs: "those (map (source_file worker sp sources nm) (SortMapKeys sources)) = Some srcs"
    and sts: "sts = dep_tar worker gomodsName gomod @ dep_tar worker cargohomeName cargo
          @ dep_tar worker pipDepsName pip @ srcs @ (case buildScriptSourceState sp of None \<Rightarrow> [] | Some st \<Rightarrow> [st])"
    using assms(3) by (auto simp: ToSourcesLLB_def)
  show "\<exists>st \<in> set sts. provides (source_ref k d) st" if src: "(k, src) \<in> set (sp_Sources sp)" "SourceIsDir src = Some d"
  proof -
    have "map_of sources k \<noteq> None" using Sources_llb_value [OF sources assms(1) src(1)] by auto
    then have "k \<in> set (SortMapKeys sources)" by (simp add: map_of_eq_None_iff)
    then obtain st where "st \<in> set srcs" "source_file worker sp sources nm k = Some st"
      using those_map_hit [OF srcs] by blast
    then show ?thesis using source_file_provides [OF assms(1,2) sources nm src] by (auto simp: sts)
  qed
  have "gomod \<noteq> None \<longleftrightarrow> HasGomods sp" "cargo \<noteq> None \<longleftrightarrow> HasCargohomes sp"
    using gomod cargo by (auto simp: GomodDeps_def CargohomeDeps_def split: if_splits option.splits sum.splits)
  then show "\<exists>st \<in> set sts. provides ref st" if "ref \<in> set (extra_refs sp)"
    using that unfolding sts extra_refs_def
    by (auto simp: dep_tar_def sourceTar_def buildScriptSourceState_def buildScriptName_def provides_def [of "''build.sh''"]
        split: if_splits option.splits)
qed

lemma source_lines_named:
  assumes ls: "source_lines remote sp = Some ls" and wf: "wf_map (sp_Sources sp)" and l: "l \<in> set ls"
    and src: "\<And>k src d. (k, src) \<in> set (sp_Sources sp) \<Longrightarrow> SourceIsDir src = Some d \<Longrightarrow> P (source_ref k d)"
    and ext: "\<And>ref. ref \<in> set (extra_refs sp) \<Longrightarrow> P ref"
  shows "HasPrefix l ''# '' \<or> (\<exists>i ref. l = source_line i ref \<and> P ref)"
proof -
  let ?es = "sorted_entries (sp_Sources sp)"
  obtain lss where lss: "those (map (source_entry remote) (enumerate 0 ?es)) = Some lss"
    and eq: "ls = concat lss @ map (\<lambda>(i, ref). source_line i ref) (enumerate (length ?es) (extra_refs sp))"
    using ls by (auto simp: source_lines_def Let_def split: option.splits)
  have "HasPrefix l ''# '' \<or> (\<exists>i ref. l = source_line i ref \<and> P ref)" if mem: "bs \<in> set lss" "l \<in> set bs" for bs
  proof -
    obtain i k s where e: "(i, k, s) \<in> set (enumerate 0 ?es)" "source_entry remote (i, k, s) = Some bs"
      using those_map_mem [OF lss mem(1)] by (metis prod_cases3)
    have "(k, s) \<in> set (sp_Sources sp)" using enumerate_mem [OF e(1)] sorted_entries_set [OF wf] by simp
    then obtain d doc where "P (source_ref k d)" "bs = comment_lines doc @ [source_line i (source_ref k d)]"
      using e(2) src unfolding source_entry_Some by metis
    then show ?thesis using mem(2) by (auto simp: comment_lines_def HasPrefix_def)
  qed
  moreover have "\<exists>i ref. l = source_line i ref \<and> P ref"
    if "l \<in> set (map (\<lambda>(i, ref). source_line i ref) (enumerate (length ?es) (extra_refs sp)))"
    using that ext by (auto dest: enumerate_mem)
  ultimately show ?thesis using l unfolding eq by auto
qed

section \<open>Credentials of go modules\<close>

text \<open>What a run finds at a path: the value of the first secret that is mounted there.\<close>

fun secret_at :: "(string \<Rightarrow> string) \<Rightarrow> runOpt list \<Rightarrow> string \<Rightarrow> string option" where
  "secret_at vals [] path = None"
| "secret_at vals (RunSecret p i # os) path = (if p = path then Some (vals i) else secret_at vals os path)"
| "secret_at vals (_ # os) path = secret_at vals os path"

definition hosts_plain :: "generatorGomod \<Rightarrow> bool" where
  "hosts_plain gm = list_all (\<lambda>(host, auth). file_name host) (gm_Auth gm)"

lemma append_delim_inj: "d \<notin> set a \<Longrightarrow> d \<notin> set b \<Longrightarrow> a @ d # x = b @ d # y \<Longrightarrow> a = b \<and> x = y"
  by (induction a arbitrary: b) (auto simp: Cons_eq_append_conv)

lemma secret_at_append:
  "secret_at vals (xs @ ys) path = (case secret_at vals xs path of None \<Rightarrow> secret_at vals ys path | r \<Rightarrow> r)"
  by (induction vals xs path rule: secret_at.induct) simp_all

definition auth_secret :: "gomodGitAuth \<Rightarrow> string" where
  "auth_secret auth = (if gga_Token auth \<noteq> [] then gga_Token auth else gga_Header auth)"

lemma host_secret_at:
  assumes "file_name h" and "file_name host" and "kind \<in> {''token'', ''header''}"
  shows "secret_at vals (host_secret h auth) (secret_file host kind)
    = (if h = host \<and> gomod_kind auth = Some kind then Some (vals (auth_secret auth)) else None)"
proof -
  have "Join [''/run/secrets'', h, k] = secret_file host kind \<longleftrightarrow> h = host \<and> k = kind" if "k \<in> {''token'', ''header''}" for k
  proof -
    have "slash \<notin> set h" "slash \<notin> set host" using assms(1,2) by (auto simp: file_name_def proper_elem_def)
    then have "h @ slash # k = host @ slash # kind \<longleftrightarrow> h = host \<and> k = kind"
      by (auto dest: append_delim_inj)
    then show ?thesis
      using secret_path [of h k "''/run/secrets''"] secret_path [of host kind "''/run/secrets/''"] assms that
      by (simp add: secret_file_def secretDir_def file_name_def)
  qed
  from this [of "''token''"] this [of "''header''"] show ?thesis
    using assms(3) by (auto simp: host_secret_def gomod_kind_def auth_secret_def split: option.splits)
qed

lemma gomod_secret_at:
  assumes "wf_map auths" and "list_all (\<lambda>(host, auth). file_name host) auths"
    and "(host, auth) \<in> set auths" and "gomod_kind auth = Some kind"
  shows "secret_at vals (concat (map (\<lambda>(host, auth). host_secret host auth) auths)) (secret_file host kind) = Some (vals (auth_secret auth))"
  using assms(1-3)
proof (induction auths)
  case (Cons e auths)
  obtain h a where e: "e = (h, a)" by (cases e)
  have kind: "kind \<in> {''token'', ''header''}" using assms(4) by (auto simp: gomod_kind_def split: if_splits)
  have names: "file_name h" "file_name host" using Cons.prems e by (auto simp: list_all_iff)
  show ?case
  proof (cases "h = host")
    case True
    then have "a = auth" using Cons.prems e by (auto simp: wf_map_def image_iff)
    with True assms(4) show ?thesis by (simp add: e secret_at_append host_secret_at [OF names(2) names(2) kind])
  next
    case False
    with Cons e show ?thesis by (auto simp: secret_at_append host_secret_at [OF names kind] wf_map_def)
  qed
qed simp

end
