(* ===== verification/Build_Claims.thy ===== *)
theory Build_Claims
  imports Build_Agreement Examples
begin

text \<open>
  The properties of the package builds as build graphs, each with a witness on concrete data.
\<close>

section \<open>Concrete builds\<close>

definition demo_opts :: sourceOpts where
  "demo_opts = \<lparr>so_Forward = (\<lambda>st b. Inr st), so_GetContext = (\<lambda>n f. Inr (Some (Local n (f \<lparr>li_Includes = [], li_Excludes = [], li_FollowPaths = []\<rparr>)))),
     so_CredHelper = Inr [RunMount ''/usr/local/bin/frontend'' (Image ''frontend'') []], so_Digest = any_digest, so_DiffMergeOff = False\<rparr>"

definition packed_spec :: spec where
  "packed_spec = demo_spec\<lparr>sp_Description := ''d'', sp_License := ''MIT'', sp_Packager := ''me'',
     sp_Patches := [(''src'', [\<lparr>p_Source = ''fix.patch'', p_Strip = Some 1, p_Path = []\<rparr>])]\<rparr>"

definition private_gomod :: generatorGomod where
  "private_gomod = \<lparr>gm_Paths = None, gm_Auth = [(''a.example'', \<lparr>gga_Header = ''hdr'', gga_Token = [], gga_SSH = None\<rparr>),
     (''b.example'', \<lparr>gga_Header = [], gga_Token = ''tok'', gga_SSH = None\<rparr>)]\<rparr>"

definition filled_spec :: spec where
  "filled_spec = (case FillDefaults demo_host packed_spec of None \<Rightarrow> packed_spec | Some s \<Rightarrow> s)"

lemma packed_spec_facts:
  "spec_settled (so_Digest demo_opts) packed_spec" "Validate (so_Digest demo_opts) packed_spec = Some None"
  "FillDefaults demo_host packed_spec = Some filled_spec"
proof -
  show settled: "spec_settled (so_Digest demo_opts) packed_spec" by code_simp
  show valid: "Validate (so_Digest demo_opts) packed_spec = Some None" by code_simp
  show "FillDefaults demo_host packed_spec = Some filled_spec"
    using spec_defaults.returns [of "so_Digest demo_opts" packed_spec demo_host] valid Validate_nil [OF settled]
    by (auto simp: filled_spec_def)
qed

lemma filled_spec_facts:
  "wf_map (sp_Sources filled_spec)" "wf_map (sp_Patches filled_spec)" "sources_tidy filled_spec"
  "ValidateSpec filled_spec = None" "deb_validateSpec filled_spec = None" "so_CredHelper demo_opts = Inr (projr (so_CredHelper demo_opts))"
  "list_all (\<lambda>p. parsed demo_remote (git_urls (snd p))) (sp_Sources filled_spec)"
  by code_simp+


section \<open>The builds are described\<close>

lemma loaded_buildable:
  assumes "spec_settled (so_Digest so) s" and "Validate (so_Digest so) s = Some None" and "FillDefaults host s = Some s'" and "sources_tidy s'"
  shows "buildable so s'"
proof -
  have "spec_ok (so_Digest so) s" using assms(1,2) by (simp add: Validate_nil)
  then have "spec_ok (so_Digest so) s'" using spec_defaults.fills assms(3) by blast
  then show ?thesis using assms(4) FillDefaults_patches [OF assms(3)] by (simp add: buildable_def)
qed


lemma filled_buildable: "buildable demo_opts filled_spec"
  by (rule loaded_buildable [OF packed_spec_facts filled_spec_facts(3)])


lemma filled_source:
  obtains st where "SourcePackage ''m'' demo_opts (Image ''worker'') filled_spec ''jammy'' ''ubuntu22.04'' (AddPath [] []) = Some (Inr st)"
  using SourcePackage_total [OF filled_buildable filled_spec_facts(6), of "''m''" "Image ''worker''" "''jammy''" "''ubuntu22.04''" "AddPath [] []"]
  by (auto simp: filled_spec_facts(5))






section \<open>What the graphs contain\<close>




lemma opt_errs_gomod: "o' \<in> set (withGomodSecretsAndSockets gm) \<Longrightarrow> opt_errs o' = []"
  by (auto simp: withGomodSecretsAndSockets_def host_secret_def split: if_splits option.splits)

lemma errors_within:
  assumes "resolves so" and "state_errs worker = []" and "so_CredHelper so = Inr cred" and "concat (map opt_errs cred) = []"
    and "list_all (\<lambda>(k, src). source_clear so src) (sp_Sources sp)"
  shows "inputs_within (\<lambda>st. set (state_errs st)) (\<lambda>o'. set (opt_errs o')) {} so worker sp"
proof -
  have "state_errs st = []"
    if "(k, src) \<in> set (sp_Sources sp)" "source_toState so name (with_includes incl src) = Some st" for k src name incl st
  proof -
    have "source_clear so (with_includes incl src)"
      using assms(5) that(1) by (auto simp: source_clear_def with_includes_keeps(1) list_all_iff)
    then show ?thesis by (rule source_no_errs(1) [OF assms(1) _ that(2)])
  qed
  then show ?thesis
    using assms(2-4) opt_errs_gomod unfolding inputs_within_def by fastforce
qed




text \<open>
  C20 (rpm/buildroot.go, deb/pkg.go, source.go): a graph carries no error of its own.  If contexts resolve
  and forwarded builds succeed, and no mount of an image command lies at or below the path that is
  extracted from it, marshalling the rpm build or the Debian package reports no error, whatever the
  sources, patches and generators are.
\<close>

theorem build_no_errors:
  assumes "resolves so" and "state_errs worker = []" and "so_CredHelper so = Inr cred" and "concat (map opt_errs cred) = []"
    and "buildable so sp" and "list_all (\<lambda>(k, src). source_clear so src) (sp_Sources sp)"
  shows "(SpecToBuildrootLLB main_path remote worker sp so target = Some (Inr topDir)
      \<longrightarrow> state_errs (rpm_Build topDir worker path key caches) = [])
    \<and> (SourcePackage main_path so worker sp target ver cfg = Some (Inr src)
      \<longrightarrow> state_errs (BuildDeb (so_DiffMergeOff so) worker sp src ver) = [])"
proof -
  note in' = errors_within [OF assms(1-4,6)] and patches = buildable_patch_ok [OF assms(5)]
  show ?thesis
    using errs_query.SpecToBuildrootLLB_query [OF in'] errs_query.SourcePackage_query [OF in' patches] assms(2)
    unfolding set_empty [symmetric] errs_query.rpm_Build_query errs_query.BuildDeb_query by auto
qed

theorem build_no_errors_witness:
  "\<exists>st. SourcePackage ''m'' demo_opts (Image ''worker'') filled_spec ''jammy'' ''ubuntu22.04'' (AddPath [] []) = Some (Inr st)
    \<and> state_errs (BuildDeb (so_DiffMergeOff demo_opts) (Image ''worker'') filled_spec st ''ubuntu22.04'') = []"
proof -
  obtain st where "SourcePackage ''m'' demo_opts (Image ''worker'') filled_spec ''jammy'' ''ubuntu22.04'' (AddPath [] []) = Some (Inr st)"
    by (rule filled_source)
  moreover have "resolves demo_opts" "concat (map opt_errs (projr (so_CredHelper demo_opts))) = []"
    by (simp_all add: resolves_def demo_opts_def)
  moreover have "list_all (\<lambda>(k, src). source_clear demo_opts src) (sp_Sources filled_spec)" by code_simp
  ultimately show ?thesis
    using build_no_errors [OF _ _ filled_spec_facts(6) _ filled_buildable, of "Image ''worker''"] by auto
qed


section \<open>Patches\<close>

text \<open>
  C17 (source.go, PatchSources): for specs in which no source of a patch is patched itself, every source gets its
  own patches, in the order of the spec, on top of its unpatched state, and the patch files come from the unpatched
  states; the order in which the sources are visited does not matter.  Where the source of a patch is patched
  itself, the code uses the state it has at that moment, and nothing is claimed.
\<close>

theorem patches_applied:
  assumes "patches_plain sp" and "wf_map states" and "PatchSources worker sp states = Some states'"
  shows "map_of states' k = (if k \<in> fst ` set states
      then foldl (\<lambda>r p. case r of None \<Rightarrow> None | Some st \<Rightarrow> patch_run worker states k st p)
             (Some (state_of states k)) (patches_of sp k)
      else None)"
proof -
  have none: "foldl (\<lambda>r p. case r of None \<Rightarrow> None | Some st \<Rightarrow> patch_run worker states k st p) None ps = None" for ps
    by (induction ps) simp_all
  have "patchSource worker states k st ps
      = foldl (\<lambda>r p. case r of None \<Rightarrow> None | Some st \<Rightarrow> patch_run worker states k st p) (Some st) ps" for st ps
    by (induction ps arbitrary: st) (auto simp: none split: option.splits)
  then have run: "patched_state worker sp states k = foldl (\<lambda>r p. case r of None \<Rightarrow> None | Some st \<Rightarrow> patch_run worker states k st p)
      (Some (state_of states k)) (patches_of sp k)"
    by (simp add: patched_state_def)
  have "map_of states' k = (if k \<in> set (SortMapKeys states) then patched_state worker sp states k else map_of states k)"
    using assms(2,3) by (intro patch_loop_states [OF assms(1)]) (simp_all add: PatchSources_def dom_map_of_conv_image_fst)
  then show ?thesis unfolding run by (simp add: map_of_eq_None_iff)
qed

theorem patches_applied_witness:
  "\<exists>m. PatchSources (Image ''worker'') packed_spec [(''src'', Image ''s''), (''fix.patch'', Image ''p'')] = Some m
    \<and> map_of m ''src'' = patch_run (Image ''worker'') [(''src'', Image ''s''), (''fix.patch'', Image ''p'')] ''src'' (Image ''s'')
        \<lparr>p_Source = ''fix.patch'', p_Strip = Some 1, p_Path = []\<rparr>"
proof -
  let ?st = "[(''src'', Image ''s''), (''fix.patch'', Image ''p'')]"
  have plain: "patches_plain packed_spec"
    by (auto simp: patches_plain_def patches_of_def packed_spec_def split: if_splits)
  obtain m where m: "PatchSources (Image ''worker'') packed_spec ?st = Some m"
    unfolding PatchSources_def using patch_loop_total [of packed_spec "Image ''worker''"]
    by (fastforce simp: packed_spec_def)
  have "wf_map ?st" by code_simp
  from patches_applied [OF plain this m, of "''src''"] m show ?thesis
    by (simp add: patches_of_def packed_spec_def state_of_def split: option.splits)
qed

section \<open>The parts of a build agree\<close>

text \<open>
  C18 (rpm/template.go, Sources; rpm/sources.go, ToSourcesLLB): the build provides the files that the spec file
  names.  For a spec whose file sources have no node modules and no patches of their own, every line of the source
  section is a comment or names a file that one of the states of the SOURCES directory provides: the archive of a
  directory, a download or written file under its own name, the archives of go modules and cargo crates, and the
  build script.
\<close>

theorem rpm_sources_provided:
  assumes "wf_map (sp_Sources sp)" and "files_plain sp" and "source_lines remote sp = Some ls"
    and "ToSourcesLLB worker sp so = Some (Inr sts)" and "l \<in> set ls"
  shows "HasPrefix l ''# '' \<or> (\<exists>i ref. l = source_line i ref \<and> (\<exists>st \<in> set sts. provides ref st))"
  using source_lines_named [OF assms(3,1,5), of "\<lambda>ref. \<exists>st \<in> set sts. provides ref st"]
    ToSourcesLLB_provides [OF assms(1,2,4)] by blast

theorem rpm_sources_provided_witness:
  "\<exists>sts ls. ToSourcesLLB (Image ''worker'') filled_spec demo_opts = Some (Inr sts) \<and> source_lines demo_remote filled_spec = Some ls
    \<and> (\<exists>st \<in> set sts. provides ''fix.patch'' st) \<and> (\<forall>l \<in> set ls. HasPrefix l ''# '' \<or> (\<exists>i ref. l = source_line i ref \<and> (\<exists>st \<in> set sts. provides ref st)))"
proof -
  obtain sts where sts: "ToSourcesLLB (Image ''worker'') filled_spec demo_opts = Some (Inr sts)"
    using ToSourcesLLB_total [OF filled_buildable filled_spec_facts(6)] by blast
  have plain: "files_plain filled_spec" by code_simp
  have "list_all (\<lambda>p. source_ok any_digest (snd p)) (sp_Sources filled_spec)" by code_simp
  then obtain ls where ls: "source_lines demo_remote filled_spec = Some ls"
    using source_lines_return filled_spec_facts(1,7) by blast
  have "case find (\<lambda>(k, src). k = ''fix.patch'' \<and> SourceIsDir src = Some False) (sp_Sources filled_spec) of None \<Rightarrow> False | Some _ \<Rightarrow> True"
    by code_simp
  then obtain src where "(''fix.patch'', src) \<in> set (sp_Sources filled_spec)" "SourceIsDir src = Some False"
    by (auto simp: find_Some_iff split: option.splits) (metis nth_mem)
  then have "\<exists>st \<in> set sts. provides ''fix.patch'' st"
    using ToSourcesLLB_provides(1) [OF filled_spec_facts(1) plain sts, of "''fix.patch''" src False] by (simp add: source_ref_def)
  then show ?thesis using rpm_sources_provided [OF filled_spec_facts(1) plain ls sts] ls sts by blast
qed

text \<open>
  C19 (generator_gomod.go, withGomodSecretsAndSockets and gitconfigGeneratorScript; cmd/frontend,
  gomodMain): the credential helper that the download script configures for a host finds the secret of
  this host.  The script names the helper with the kind of the secret, the run mounts the configured
  token or header where the helper of this kind reads it, and no other host has its secret there; for
  hosts that are single path elements and do not use ssh.
\<close>

theorem credentials_served:
  assumes "wf_map (gm_Auth gm)" and "hosts_plain gm" and "(host, auth) \<in> set (gm_Auth gm)"
    and "gomod_kind auth = Some kind" and "gga_SSH auth = None"
    and "readPayload stdin = Some p" and "gp_host p = host" and "gp_protocol p \<in> {''http'', ''https''}"
  shows "credential_line host kind \<in> set (host_lines host auth)
    \<and> gomodMain (secret_at vals (withGomodSecretsAndSockets gm)) kind ''get'' stdin
      = (case generateResponse p (vals (auth_secret auth)) kind of Inl e \<Rightarrow> (1, []) | Inr resp \<Rightarrow> (0, line resp))"
proof -
  have "secret_at vals (withGomodSecretsAndSockets gm) (secret_file host kind) = Some (vals (auth_secret auth))"
    unfolding withGomodSecretsAndSockets_def using assms(2) gomod_secret_at [OF assms(1) _ assms(3,4)] by (simp add: hosts_plain_def)
  with assms show ?thesis by (auto simp: gomodMain_def host_lines_def)
qed

theorem credentials_served_witness:
  "\<exists>resp. gomodMain (secret_at rev (withGomodSecretsAndSockets private_gomod)) ''token'' ''get''
      (lines_text [''protocol=https'', ''host=b.example'']) = (0, resp)"
proof -
  let ?p = "empty_payload\<lparr>gp_protocol := ''https'', gp_host := ''b.example''\<rparr>"
  have "readPayload (lines_text [''protocol=https'', ''host=b.example'']) = Some ?p" by code_simp
  moreover have "wf_map (gm_Auth private_gomod)" "hosts_plain private_gomod" by code_simp+
  moreover have "(''b.example'', \<lparr>gga_Header = [], gga_Token = ''tok'', gga_SSH = None\<rparr>) \<in> set (gm_Auth private_gomod)"
    by (simp add: private_gomod_def)
  ultimately have "gomodMain (secret_at rev (withGomodSecretsAndSockets private_gomod)) ''token'' ''get''
      (lines_text [''protocol=https'', ''host=b.example''])
    = (case generateResponse ?p (rev (auth_secret \<lparr>gga_Header = [], gga_Token = ''tok'', gga_SSH = None\<rparr>)) ''token'' of
         Inl e \<Rightarrow> (1, []) | Inr resp \<Rightarrow> (0, line resp))"
    by (intro credentials_served [THEN conjunct2]) (auto simp: gomod_kind_def)
  then show ?thesis by (simp add: generateResponse_def)
qed

end
