(* ===== verification/Platform_Build.thy ===== *)
theory Platform_Build
  imports Load_Props Build_Mux Source_State
begin

text \<open>
  Builds per platform (frontend/build.go and the client part of frontend/gateway.go): loading the spec
  for a platform, the callback that runs a build and turns a panic into an error, base images, the
  default platform, the options that sources are resolved with, and the diff and merge switch.

  The dockerui client is seen through the record \<open>uiClient\<close>; \<open>libs\<close> holds the functions of third-party
  packages: the YAML decoder, the digest check, the URL parser, the shell lexer, \<open>platforms.Format\<close> and
  \<open>platforms.DefaultSpec\<close>.  A panic is \<^term>\<open>None\<close>.
\<close>

section \<open>Clients\<close>

record libs =
  lib_decode :: "string \<Rightarrow> goerr + spec"
  lib_digest :: "string \<Rightarrow> gores"
  lib_host :: "string \<Rightarrow> string option"
  lib_lex :: lexer
  lib_Format :: "platform \<Rightarrow> string"
  lib_DefaultSpec :: platform

text \<open>
  \<open>ui_NamedContext\<close> finds a named context, which is then loaded; \<open>ui_CurrentFrontend\<close> is the state of the
  running frontend.
\<close>

record uiClient =
  ui_Opts :: buildOpts
  ui_ReadEntrypoint :: "string \<Rightarrow> goerr + string"
  ui_BuildArgs :: "string gomap"
  ui_BuildPlatforms :: "platform list"
  ui_TargetPlatforms :: "platform list"
  ui_MainContext :: "(localInfo \<Rightarrow> localInfo) \<Rightarrow> goerr + llb option"
  ui_NamedContext :: "string \<Rightarrow> platform option \<Rightarrow> (localInfo \<Rightarrow> localInfo) \<Rightarrow> goerr + (goerr + llb option) option"
  ui_CurrentFrontend :: "goerr + llb option"

section \<open>Loading a spec for a platform\<close>

definition WithAllowArgs :: "string list \<Rightarrow> (string \<Rightarrow> bool) \<Rightarrow> string \<Rightarrow> bool" where
  "WithAllowArgs args orig key = (orig key \<or> key \<in> set args)"

definition passthroughGetters :: "(platform \<Rightarrow> string) \<Rightarrow> (platform \<Rightarrow> string) gomap" where
  "passthroughGetters fmt =
    [(''OS'', pl_OS), (''ARCH'', pl_Architecture), (''VARIANT'', pl_Variant), (''PLATFORM'', fmt)]"

definition fillPlatformArgs :: "(platform \<Rightarrow> string) \<Rightarrow> string \<Rightarrow> string gomap \<Rightarrow> platform \<Rightarrow> string gomap" where
  "fillPlatformArgs fmt pre args p =
    foldl (\<lambda>m (attr, getter). mput (pre @ attr) (getter p) m) args (passthroughGetters fmt)"

definition target_platform :: "libs \<Rightarrow> platform option \<Rightarrow> platform" where
  "target_platform lb platform = (case platform of None \<Rightarrow> lib_DefaultSpec lb | Some p \<Rightarrow> p)"

text \<open>The arguments the spec is expanded with; the first build platform is indexed without a check.\<close>

definition LoadSpec_args :: "libs \<Rightarrow> uiClient \<Rightarrow> platform option \<Rightarrow> string gomap option" where
  "LoadSpec_args lb ui platform =
    (let args = fillPlatformArgs (lib_Format lb) ''TARGET'' (ui_BuildArgs ui) (target_platform lb platform)
     in case ui_BuildPlatforms ui of
          [] \<Rightarrow> None
        | p # _ \<Rightarrow> Some (fillPlatformArgs (lib_Format lb) ''BUILD'' args p))"

definition LoadSpec :: "libs \<Rightarrow> uiClient \<Rightarrow> (string \<Rightarrow> bool) \<Rightarrow> platform option \<Rightarrow> (goerr + spec) option" where
  "LoadSpec lb ui allow platform =
    (case ui_ReadEntrypoint ui ''Dockerfile'' of
       Inl e \<Rightarrow> Some (Inl (Wrap ''could not read spec file'' e))
     | Inr src \<Rightarrow>
         (case loadSpec (lib_decode lb) (lib_digest lb) (lib_host lb) (TrimSpace src) of
            None \<Rightarrow> None
          | Some (Inl e) \<Rightarrow> Some (Inl (Wrap ''error loading spec'' e))
          | Some (Inr sp) \<Rightarrow>
              (case LoadSpec_args lb ui platform of
                 None \<Rightarrow> None
               | Some args \<Rightarrow>
                   (case SubstituteArgs (lib_lex lb) allow args sp of
                      None \<Rightarrow> None
                    | Some (sp', Some e) \<Rightarrow> Some (Inl (Wrap ''error resolving build args'' e))
                    | Some (sp', None) \<Rightarrow> Some (Inr sp')))))"

section \<open>Builds\<close>

text \<open>\<open>DockerImageSpec\<close>; a creation time is text.\<close>

record imageSpec =
  im_Platform :: platform
  im_RootFSType :: string
  im_Config :: dockerImageConfig
  im_Created :: "string option"

definition empty_config :: dockerImageConfig where
  "empty_config = \<lparr>dc_Entrypoint = None, dc_Cmd = None, dc_Env = [], dc_WorkingDir = [], dc_StopSignal = [],
     dc_User = [], dc_Volumes = [], dc_Labels = []\<rparr>"

definition no_platform :: platform where
  "no_platform = \<lparr>pl_OS = [], pl_Architecture = [], pl_Variant = [], pl_OSVersion = [], pl_OSFeatures = None\<rparr>"

definition platform_image :: "platform \<Rightarrow> imageSpec" where
  "platform_image p = \<lparr>im_Platform = p, im_RootFSType = [], im_Config = empty_config, im_Created = None\<rparr>"

text \<open>
  What a build function returns: a reference, which is named by the state that was solved, an image
  and an error.  A function also logs what it asked the client for, and may panic.
\<close>

type_synonym built = "llb option \<times> imageSpec option \<times> gores"
type_synonym 'e platformBuildFunc = "platform option \<Rightarrow> spec \<Rightarrow> string \<Rightarrow> 'e list \<times> built option"

text \<open>\<open>pv\<close> is the printed panic value, \<open>trace\<close> the printed stack.\<close>

definition recovered :: "string \<Rightarrow> string \<Rightarrow> built" where
  "recovered pv trace = (None, None, Some (Joined [Msg (''recovered from panic in build: '' @ pv), Msg trace]))"

definition platform_callback ::
  "libs \<Rightarrow> uiClient \<Rightarrow> string \<Rightarrow> string \<Rightarrow> string \<Rightarrow> 'e platformBuildFunc \<Rightarrow> platform option \<Rightarrow> 'e list \<times> built" where
  "platform_callback lb ui pv trace now f platform =
    (case LoadSpec lb ui (\<lambda>_. False) platform of
       None \<Rightarrow> ([], recovered pv trace)
     | Some (Inl e) \<Rightarrow> ([], (None, None, Some e))
     | Some (Inr sp) \<Rightarrow>
         (case f platform sp (GetTargetKey (ui_Opts ui)) of
            (es, None) \<Rightarrow> (es, recovered pv trace)
          | (es, Some (ref, cfg, err)) \<Rightarrow> (es, (ref, map_option (\<lambda>c. c\<lparr>im_Created := Some now\<rparr>) cfg, err))))"

text \<open>
  \<open>dc.Build\<close> runs the callback for every target platform and \<open>Finalize\<close> turns what it collected into the
  result; both are buildkit's.
\<close>

definition BuildWithPlatformFromUIClient ::
  "((platform option \<Rightarrow> 'e list \<times> built) \<Rightarrow> goerr + 'rb) \<Rightarrow> ('rb \<Rightarrow> goerr + 'r) \<Rightarrow>
   libs \<Rightarrow> uiClient \<Rightarrow> string \<Rightarrow> string \<Rightarrow> string \<Rightarrow> 'e platformBuildFunc \<Rightarrow> goerr + 'r" where
  "BuildWithPlatformFromUIClient build finalize lb ui pv trace now f =
    (case build (platform_callback lb ui pv trace now f) of Inl e \<Rightarrow> Inl e | Inr rb \<Rightarrow> finalize rb)"

definition BuildWithPlatform ::
  "(goerr + uiClient) \<Rightarrow> ((platform option \<Rightarrow> 'e list \<times> built) \<Rightarrow> goerr + 'rb) \<Rightarrow> ('rb \<Rightarrow> goerr + 'r) \<Rightarrow>
   libs \<Rightarrow> string \<Rightarrow> string \<Rightarrow> string \<Rightarrow> 'e platformBuildFunc \<Rightarrow> goerr + 'r" where
  "BuildWithPlatform newClient build finalize lb pv trace now f =
    (case newClient of
       Inl e \<Rightarrow> Inl e
     | Inr dc \<Rightarrow> BuildWithPlatformFromUIClient build finalize lb dc pv trace now f)"

section \<open>Base images and the default platform\<close>

definition GetBaseImage :: "sourceOpts \<Rightarrow> string \<Rightarrow> llb" where
  "GetBaseImage so ref =
    (case so_GetContext so ref id of
       Inl e \<Rightarrow> AsyncErr Scratch e
     | Inr (Some st) \<Rightarrow> st
     | Inr None \<Rightarrow> Image ref)"

text \<open>The wrapped client writes the platform into the options map, which it shares with its caller.\<close>

definition WithDefaultPlatform :: "(platform \<Rightarrow> string) \<Rightarrow> platform \<Rightarrow> 'r buildFunc \<Rightarrow> 'r buildFunc" where
  "WithDefaultPlatform fmt p build opts =
    (if opt_get opts ''platform'' \<noteq> [] then build opts
     else build (mput ''platform'' (fmt p) opts))"

section \<open>Source options\<close>

definition GetCurrentFrontend :: "uiClient \<Rightarrow> goerr + llb" where
  "GetCurrentFrontend ui =
    (case ui_CurrentFrontend ui of
       Inl e \<Rightarrow> Inl e
     | Inr None \<Rightarrow> Inl (Msg ''nil frontend state returned'')
     | Inr (Some f) \<Rightarrow> Inr f)"

definition withCredHelper :: "uiClient \<Rightarrow> goerr + runOpt list" where
  "withCredHelper ui =
    (case GetCurrentFrontend ui of
       Inl e \<Rightarrow> Inl e
     | Inr f \<Rightarrow> Inr [RunMount ''/usr/local/bin/frontend'' f [SourcePath ''/frontend'']])"

definition ui_GetContext :: "uiClient \<Rightarrow> platform option \<Rightarrow> string \<Rightarrow> (localInfo \<Rightarrow> localInfo) \<Rightarrow> goerr + llb option" where
  "ui_GetContext ui platform ref opts =
    (if ref = ''context'' then ui_MainContext ui opts
     else (case ui_NamedContext ui ref platform opts of
             Inl e \<Rightarrow> Inl e
           | Inr None \<Rightarrow> Inr None
           | Inr (Some loaded) \<Rightarrow> loaded))"

definition SourceOptFromUIClient ::
  "(llb, llb) client \<Rightarrow> libs \<Rightarrow> bool \<Rightarrow> uiClient \<Rightarrow> platform option \<Rightarrow> sourceOpts" where
  "SourceOptFromUIClient cl lb dm ui platform =
    \<lparr>so_Forward = (\<lambda>st b. ForwarderFromClient cl (ui_Opts ui) st (Some b)),
     so_GetContext = ui_GetContext ui platform,
     so_CredHelper = withCredHelper ui,
     so_Digest = lib_digest lb,
     so_DiffMergeOff = dm\<rparr>"

definition SourceOptFromClient ::
  "(llb, llb) client \<Rightarrow> libs \<Rightarrow> bool \<Rightarrow> (goerr + uiClient) \<Rightarrow> platform option \<Rightarrow> goerr + sourceOpts" where
  "SourceOptFromClient cl lb dm newClient platform =
    (case newClient of Inl e \<Rightarrow> Inl e | Inr dc \<Rightarrow> Inr (SourceOptFromUIClient cl lb dm dc platform))"

section \<open>The diff and merge switch\<close>

text \<open>
  A process-wide \<open>sync.Once\<close> and the flag it sets.  \<open>caps\<close> answers whether the client supports a
  capability.
\<close>

record mergeSwitch =
  ms_once :: bool
  ms_flag :: bool

definition checkDiffMerge :: "(string \<Rightarrow> gores) \<Rightarrow> bool" where
  "checkDiffMerge caps = (caps ''mergeop'' = None \<and> caps ''diffop'' = None)"

definition SupportsDiffMerge :: "buildOpts \<Rightarrow> (string \<Rightarrow> gores) \<Rightarrow> mergeSwitch \<Rightarrow> bool \<times> mergeSwitch" where
  "SupportsDiffMerge opts caps s =
    (let s' = (if ms_once s then s
               else s\<lparr>ms_once := True,
                      ms_flag := (if opt_get opts (build_arg ''DALEC_DISABLE_DIFF_MERGE'') = ''1'' then False
                                  else checkDiffMerge caps)\<rparr>)
     in (ms_flag s', s'))"

fun switch_calls :: "(buildOpts \<times> (string \<Rightarrow> gores)) list \<Rightarrow> mergeSwitch \<Rightarrow> bool list" where
  "switch_calls [] s = []"
| "switch_calls ((opts, caps) # cs) s =
    (case SupportsDiffMerge opts caps s of (b, s') \<Rightarrow> b # switch_calls cs s')"

section \<open>Lemmas\<close>

lemma fillPlatformArgs_lookup:
  "map_of (fillPlatformArgs fmt pre args p) k =
    (if k = pre @ ''OS'' then Some (pl_OS p)
     else if k = pre @ ''ARCH'' then Some (pl_Architecture p)
     else if k = pre @ ''VARIANT'' then Some (pl_Variant p)
     else if k = pre @ ''PLATFORM'' then Some (fmt p)
     else map_of args k)"
  by (auto simp: fillPlatformArgs_def passthroughGetters_def update_conv')

lemma fillPlatformArgs_wf: "wf_map args \<Longrightarrow> wf_map (fillPlatformArgs fmt pre args p)"
  by (simp add: fillPlatformArgs_def passthroughGetters_def wf_map_def distinct_update)

lemma LoadSpec_args_wf: "wf_map (ui_BuildArgs ui) \<Longrightarrow> LoadSpec_args lb ui pl = Some args \<Longrightarrow> wf_map args"
  by (auto simp: LoadSpec_args_def Let_def fillPlatformArgs_wf split: list.splits)

lemma LoadSpec_args_other:
  "LoadSpec_args lb ui pl = Some args \<Longrightarrow> \<not> platformArg k \<Longrightarrow> map_of args k = map_of (ui_BuildArgs ui) k"
  by (auto simp: LoadSpec_args_def Let_def fillPlatformArgs_lookup platformArg_def split: list.splits)

lemma switch_calls_once: "ms_once s \<Longrightarrow> set (switch_calls cs s) \<subseteq> {ms_flag s}"
  by (induction cs s rule: switch_calls.induct) (auto simp: SupportsDiffMerge_def Let_def)

end
