(* ===== verification/Distro.thy ===== *)
theory Distro
  imports Platform_Build Test_Runner Bkfs Writers
begin

text \<open>
  The build handlers that all Linux distributions share (targets/linux/distro_handler.go) over the
  interface \<open>DistroConfig\<close>, and the image helpers of helpers.go they use.

  A handler talks to its client: it solves graphs, evaluates results, runs tests and sends warnings.
  \<open>'a act\<close> is such a computation: the list of what it asked for, in order, and its result, which is
  \<^term>\<open>None\<close> when the code panics.  The client and the third-party functions are the fields of
  \<open>distroEnv\<close>.  A reference that a solve returns is named by the graph that was solved.
\<close>

section \<open>Computations\<close>

datatype event =
    SolveEv llb
  | EvaluateEv llb
  | WarnEv string
  | SignWarnEv signWarning
  | TestEv llb

type_synonym 'a act = "event list \<times> 'a option"

definition ret :: "'a \<Rightarrow> 'a act" where
  "ret x = ([], Some x)"

definition lift :: "'a option \<Rightarrow> 'a act" where
  "lift r = ([], r)"

definition and_then :: "'a act \<Rightarrow> ('a \<Rightarrow> 'b act) \<Rightarrow> 'b act" where
  "and_then m k =
    (case m of
       (es, None) \<Rightarrow> (es, None)
     | (es, Some x) \<Rightarrow> (case k x of (es', r) \<Rightarrow> (es @ es', r)))"

text \<open>The statement \<open>if err != nil { return err }\<close> in a function with one result and an error.\<close>

definition or_err :: "(goerr + 'a) act \<Rightarrow> ('a \<Rightarrow> (goerr + 'b) act) \<Rightarrow> (goerr + 'b) act" where
  "or_err m k = and_then m (\<lambda>r. case r of Inl e \<Rightarrow> ret (Inl e) | Inr x \<Rightarrow> k x)"

text \<open>The same in a build function, which returns \<open>ref\<close> beside the error.\<close>

definition attempt :: "llb option \<Rightarrow> (goerr + 'a) act \<Rightarrow> ('a \<Rightarrow> built act) \<Rightarrow> built act" where
  "attempt ref m k = and_then m (\<lambda>r. case r of Inl e \<Rightarrow> ret (ref, None, Some e) | Inr x \<Rightarrow> k x)"

section \<open>The environment\<close>

record distroEnv =
  de_client :: "(llb, llb) client"
  de_ui :: "goerr + uiClient"
  de_opts :: buildOpts
  de_libs :: libs
  de_DiffMergeOff :: bool
  de_remote :: "string \<Rightarrow> string option"
  de_main_path :: string
  de_reference :: "llb \<Rightarrow> reference"
  de_buffers :: "nat list"
  de_Evaluate :: "llb \<Rightarrow> gores"
  de_ToState :: "llb \<Rightarrow> gores"
  de_ImageConfig :: "string \<Rightarrow> platform option \<Rightarrow> goerr + (goerr + imageSpec)"
  de_split :: "string \<Rightarrow> goerr + string list"
  de_PathEnv :: "string \<Rightarrow> string"
  de_sysext_sh :: string
  de_EvalTest :: "llb \<Rightarrow> containerRun list \<Rightarrow> evaluated"
  de_ErrSource :: "checkOutputError \<Rightarrow> string option"
  de_finish :: "gores list \<Rightarrow> gores list"

definition env_sourceOpts :: "distroEnv \<Rightarrow> platform option \<Rightarrow> goerr + sourceOpts" where
  "env_sourceOpts env = SourceOptFromClient (de_client env) (de_libs env) (de_DiffMergeOff env) (de_ui env)"

text \<open>Marshal and solve; the result may have no single reference.  \<open>mw\<close> wraps the error of the marshalling.\<close>

definition solve_only :: "(goerr \<Rightarrow> goerr) \<Rightarrow> distroEnv \<Rightarrow> llb \<Rightarrow> (goerr + (goerr + llb)) act" where
  "solve_only mw env st =
    (case cl_marshal_state (de_client env) st of
       Inl e \<Rightarrow> ret (Inl (mw e))
     | Inr def \<Rightarrow>
         ([SolveEv st], Some (case cl_solve_def (de_client env) def of
            Inl e \<Rightarrow> Inl e | Inr (Inl e) \<Rightarrow> Inr (Inl e) | Inr (Inr readFile) \<Rightarrow> Inr (Inr st))))"

definition solve_state :: "(goerr \<Rightarrow> goerr) \<Rightarrow> distroEnv \<Rightarrow> llb \<Rightarrow> (goerr + llb) act" where
  "solve_state mw env st = or_err (solve_only mw env st) ret"

definition evaluate :: "distroEnv \<Rightarrow> llb \<Rightarrow> (goerr + unit) act" where
  "evaluate env ref = ([EvaluateEv ref], Some (case de_Evaluate env ref of Some e \<Rightarrow> Inl e | None \<Rightarrow> Inr ()))"

text \<open>
  \<open>frontend.RunTests\<close> with the container \<open>ref\<close>: \<open>withDeps\<close> adds the test dependencies, which happens only
  when tests are started.  The tests finish in the order \<open>de_finish\<close> gives.
\<close>

definition test_env :: "distroEnv \<Rightarrow> llb \<Rightarrow> llb \<Rightarrow> platform option \<Rightarrow> runEnv" where
  "test_env env ref ctr platform =
    \<lparr>re_Opts = de_opts env, re_Evaluate = de_Evaluate env ref, re_ToState = de_ToState env ref,
     re_SourceOpts = (case env_sourceOpts env platform of Inl e \<Rightarrow> Some e | Inr so \<Rightarrow> None),
     re_Frontend = (case de_ui env of Inl e \<Rightarrow> Some e
                    | Inr ui \<Rightarrow> (case GetCurrentFrontend ui of Inl e \<Rightarrow> Some e | Inr f \<Rightarrow> None)),
     re_Eval = de_EvalTest env ctr, re_Src = de_ErrSource env\<rparr>"

definition tests_skipped :: "distroEnv \<Rightarrow> bool" where
  "tests_skipped env = (ParseBool (opt_get (de_opts env) (build_arg ''DALEC_SKIP_TESTS'')) = Some True)"

definition run_tests :: "distroEnv \<Rightarrow> spec \<Rightarrow> llb \<Rightarrow> (llb \<Rightarrow> llb option) \<Rightarrow> string \<Rightarrow> platform option \<Rightarrow> gores act" where
  "run_tests env sp ref withDeps target platform =
    (let skipVar = opt_get (de_opts env) (build_arg ''DALEC_SKIP_TESTS'');
         ctr = (case withDeps ref of None \<Rightarrow> ref | Some st \<Rightarrow> st)
     in case RunTests (test_env env ref ctr platform) sp target of
          None \<Rightarrow> ([EvaluateEv ref], None)
        | Some (Finished r) \<Rightarrow>
            ((if tests_skipped env then [WarnEv (''Tests skipped due to build-arg DALEC_SKIP_TESTS='' @ skipVar)]
              else if spec_tests sp target = [] \<or> (skipVar \<noteq> [] \<and> ParseBool skipVar = None) then []
              else [EvaluateEv ref]), Some r)
        | Some (Started rs) \<Rightarrow>
            (if withDeps ref = None then ([EvaluateEv ref], None)
             else ([EvaluateEv ref, TestEv ctr], Some (join_all (de_finish env rs)))))"

section \<open>Images\<close>

definition BaseImageConfig :: "distroEnv \<Rightarrow> platform option \<Rightarrow> imageSpec" where
  "BaseImageConfig env platform =
    (let p = target_platform (de_libs env) platform
     in \<lparr>im_Platform = p, im_RootFSType = ''layers'',
         im_Config = empty_config\<lparr>dc_WorkingDir := ''/'', dc_Env := [''PATH='' @ de_PathEnv env (pl_OS p)]\<rparr>,
         im_Created = None\<rparr>)"

definition resolveConfig :: "distroEnv \<Rightarrow> spec \<Rightarrow> platform option \<Rightarrow> string \<Rightarrow> (goerr + imageSpec) option" where
  "resolveConfig env sp platform targetKey =
    (case GetSingleBase sp targetKey of
       Inl e \<Rightarrow> Some (Inl e)
     | Inr None \<Rightarrow> Some (Inr (BaseImageConfig env platform))
     | Inr (Some bi) \<Rightarrow>
         (case s_DockerImage (bi_Rootfs bi) of
            None \<Rightarrow> None
          | Some di \<Rightarrow>
              Some (case de_ImageConfig env (di_Ref di) platform of
                      Inl e \<Rightarrow> Inl (Wrap ''error resolving base image config'' e)
                    | Inr (Inl e) \<Rightarrow> Inl (Wrap ''error unmarshalling base image config'' e)
                    | Inr (Inr img) \<Rightarrow> Inr img)))"

definition linux_BuildImageConfig :: "distroEnv \<Rightarrow> spec \<Rightarrow> platform option \<Rightarrow> string \<Rightarrow> (goerr + imageSpec) option" where
  "linux_BuildImageConfig env sp platform targetKey =
    (case resolveConfig env sp platform targetKey of
       None \<Rightarrow> None
     | Some (Inl e) \<Rightarrow> Some (Inl e)
     | Some (Inr img) \<Rightarrow>
         Some (case BuildImageConfig (de_split env) sp targetKey (im_Config img) of
                 Inl e \<Rightarrow> Inl e | Inr cfg \<Rightarrow> Inr (img\<lparr>im_Config := cfg\<rparr>)))"

definition InstallPostSymlinks :: "postInstall option \<Rightarrow> llb \<Rightarrow> llb \<Rightarrow> llb" where
  "InstallPostSymlinks post worker st =
    (case symlink_script post of
       None \<Rightarrow> st
     | Some ls \<Rightarrow>
         run_mount worker
           [ShArgs ''/tmp/add_symlink.sh'',
            RunMount ''/tmp/add_symlink.sh''
              (Mkfile Scratch ''tmp.dalec.symlink.sh'' 448 (lines_text ls) None) [SourcePath ''tmp.dalec.symlink.sh''],
            RunMount ''/etc/group'' st [SourcePath ''/etc/group''],
            RunMount ''/etc/passwd'' st [SourcePath ''/etc/passwd'']]
           rootfsPath st)"

section \<open>The interface of a distribution\<close>

text \<open>
  Of the constraints that every operation is given only the platform matters here.  \<open>d_BuildPkg\<close> also
  returns the spec as the call leaves it: the Debian build adds a cache to it.
\<close>

record distroConfig =
  d_Validate :: "spec \<Rightarrow> gores"
  d_Worker :: "distroEnv \<Rightarrow> sourceOpts \<Rightarrow> platform option \<Rightarrow> goerr + llb"
  d_SysextWorker :: "distroEnv \<Rightarrow> platform option \<Rightarrow> llb \<Rightarrow> llb"
  d_BuildPkg :: "distroEnv \<Rightarrow> platform option \<Rightarrow> llb \<Rightarrow> sourceOpts \<Rightarrow> spec \<Rightarrow> string \<Rightarrow> ((goerr + llb) \<times> spec) act"
  d_ExtractPkg :: "distroEnv \<Rightarrow> platform option \<Rightarrow> llb \<Rightarrow> sourceOpts \<Rightarrow> spec \<Rightarrow> string \<Rightarrow> llb \<Rightarrow> llb option"
  d_BuildContainer :: "distroEnv \<Rightarrow> platform option \<Rightarrow> llb \<Rightarrow> sourceOpts \<Rightarrow> spec \<Rightarrow> string \<Rightarrow> llb \<Rightarrow> (goerr + llb) act"
  d_RunTests :: "distroEnv \<Rightarrow> platform option \<Rightarrow> llb \<Rightarrow> spec \<Rightarrow> sourceOpts \<Rightarrow> llb \<Rightarrow> string \<Rightarrow> (llb option \<times> gores) act"

section \<open>Handlers\<close>

definition PreBuiltPkgSuffix :: string where "PreBuiltPkgSuffix = ''-pkg''"
definition GenericPkg :: string where "GenericPkg = ''pkg''"

text \<open>A package that the request brings along, and whether there is one.\<close>

definition getPrebuiltPackage :: "sourceOpts \<Rightarrow> string \<Rightarrow> (llb \<times> bool) act" where
  "getPrebuiltPackage so targetKey =
    (let name = targetKey @ PreBuiltPkgSuffix
     in case so_GetContext so name id of
          Inl e \<Rightarrow> ret (AsyncErr ZeroState (Wrap (''error when retrieving target-specified package for '' @ targetKey) e), False)
        | Inr (Some st) \<Rightarrow> ([WarnEv (''Using target-specific package from '' @ name @ '' context'')], Some (st, True))
        | Inr None \<Rightarrow>
            (case so_GetContext so GenericPkg id of
               Inl e \<Rightarrow> ret (AsyncErr ZeroState (Wrap (''error when retrieving generic package for '' @ targetKey) e), False)
             | Inr (Some st) \<Rightarrow>
                 ([WarnEv (''Fallback to using generic package from '' @ name @ '' context'')], Some (st, True))
             | Inr None \<Rightarrow> ret (ZeroState, False)))"

text \<open>The package of a container or system extension: the prebuilt one, or else the built one.\<close>

definition package_of :: "distroConfig \<Rightarrow> distroEnv \<Rightarrow> platform option \<Rightarrow> llb \<Rightarrow> sourceOpts \<Rightarrow> spec \<Rightarrow> string \<Rightarrow> ((goerr + llb) \<times> spec) act" where
  "package_of c env pl worker so sp targetKey =
    and_then (getPrebuiltPackage so targetKey) (\<lambda>(pkg, found).
      if found then ret (Inr pkg, sp) else d_BuildPkg c env pl worker so sp targetKey)"

definition HandleContainer :: "distroConfig \<Rightarrow> distroEnv \<Rightarrow> event platformBuildFunc" where
  "HandleContainer c env platform sp0 targetKey =
    attempt None (ret (env_sourceOpts env platform)) (\<lambda>so.
    attempt None (ret (d_Worker c env so platform)) (\<lambda>worker.
    and_then (package_of c env platform worker so sp0 targetKey) (\<lambda>(pkg, sp).
    attempt None (ret pkg) (\<lambda>pkgSt.
    attempt None (lift (linux_BuildImageConfig env sp platform targetKey)) (\<lambda>img.
    attempt None (d_BuildContainer c env platform worker so sp targetKey pkgSt) (\<lambda>ctr.
    and_then (d_RunTests c env platform worker sp so ctr targetKey) (\<lambda>(ref, err).
      ret (ref, Some img, err))))))))"

text \<open>What a failed test run returns: the reference of the container, and its image if it has one.\<close>

definition tests_failed :: "distroEnv \<Rightarrow> spec \<Rightarrow> platform option \<Rightarrow> string \<Rightarrow> llb option \<Rightarrow> goerr \<Rightarrow> built act" where
  "tests_failed env sp platform targetKey ref e =
    and_then (lift (linux_BuildImageConfig env sp platform targetKey)) (\<lambda>cfg.
      ret (ref, (case cfg of Inl _ \<Rightarrow> None | Inr img \<Rightarrow> Some img), Some e))"

definition sysext_script_path :: string where "sysext_script_path = ''/tmp/dalec/internal/sysext/build.sh''"

definition sysext_image :: "distroConfig \<Rightarrow> distroEnv \<Rightarrow> platform option \<Rightarrow> llb \<Rightarrow> spec \<Rightarrow> string \<Rightarrow> platform \<Rightarrow> llb \<Rightarrow> llb" where
  "sysext_image c env platform worker sp targetKey p extracted =
    (let rev = (if sp_Revision sp = [] then ''1'' else sp_Revision sp)
     in run_mount (d_SysextWorker c env platform worker)
          [RunArgs [sysext_script_path, sp_Name sp,
             ''v'' @ sp_Version sp @ ''-'' @ rev @ ''-'' @ targetKey, pl_Architecture p],
           RunMount sysext_script_path (Mkfile Scratch ''build_sysext.sh'' 493 (de_sysext_sh env) None)
             [SourcePath ''build_sysext.sh'', Readonly],
           RunMount ''/input'' extracted [Readonly]]
          ''/output'' Scratch)"

text \<open>
  The end of \<open>HandleSysext\<close> and of \<open>HandlePackage\<close>: solve and evaluate the output, build a container with the
  package and run the tests in it.
\<close>

definition solve_and_test ::
  "distroConfig \<Rightarrow> distroEnv \<Rightarrow> llb \<Rightarrow> sourceOpts \<Rightarrow> spec \<Rightarrow> string \<Rightarrow> platform option \<Rightarrow> platform option
   \<Rightarrow> llb \<Rightarrow> llb \<Rightarrow> built act" where
  "solve_and_test c env worker so sp targetKey platform failed pkgSt output =
    attempt None (solve_state (Wrap ''error marshalling llb'') env output) (\<lambda>ref.
    attempt (Some ref) (evaluate env ref) (\<lambda>_.
    attempt (Some ref) (d_BuildContainer c env platform worker so sp targetKey pkgSt) (\<lambda>ctr.
    and_then (d_RunTests c env platform worker sp so ctr targetKey) (\<lambda>(tref, terr).
      case terr of
        Some e \<Rightarrow> tests_failed env sp failed targetKey tref e
      | None \<Rightarrow> ret (Some ref, Some (platform_image (target_platform (de_libs env) platform)), None)))))"

definition HandleSysext :: "distroConfig \<Rightarrow> distroEnv \<Rightarrow> event platformBuildFunc" where
  "HandleSysext c env platform sp0 targetKey =
    attempt None (ret (env_sourceOpts env platform)) (\<lambda>so.
    attempt None (ret (wrap_inl ''error building worker container'' (d_Worker c env so platform))) (\<lambda>worker.
    and_then (package_of c env platform worker so sp0 targetKey) (\<lambda>(pkg, sp).
    attempt None (ret pkg) (\<lambda>pkgSt.
    and_then (lift (d_ExtractPkg c env platform worker so sp targetKey pkgSt)) (\<lambda>extracted.
      (let p = target_platform (de_libs env) platform
       in solve_and_test c env worker so sp targetKey platform (Some p) pkgSt
            (sysext_image c env platform worker sp targetKey p extracted)))))))"

definition HandlePackage :: "distroConfig \<Rightarrow> distroEnv \<Rightarrow> event platformBuildFunc" where
  "HandlePackage c env platform sp0 targetKey =
    (case d_Validate c sp0 of
       Some e \<Rightarrow> ret (None, None, Some (Wrap ''rpm: invalid spec'' e))
     | None \<Rightarrow>
         attempt None (ret (env_sourceOpts env platform)) (\<lambda>so.
         attempt None (ret (wrap_inl ''error building worker container'' (d_Worker c env so platform))) (\<lambda>worker.
         and_then (d_BuildPkg c env platform worker so sp0 targetKey) (\<lambda>(pkg, sp).
         attempt None (ret pkg) (\<lambda>pkgSt.
           solve_and_test c env worker so sp targetKey platform platform pkgSt pkgSt)))))"

end
