(* ===== verification/Rpm_Distro.thy ===== *)
theory Rpm_Distro
  imports Distro Rpm_Build
begin

text \<open>
  The rpm distributions (targets/linux/rpm/distro): the install commands of dnf and tdnf, the
  dependencies, the package build, the container, the tests, the handlers of their own and the routes.
  \<open>env\<close> gives the client, \<open>pl\<close> is the platform among the constraints of a call.  A package list in
  \<open>packageDependencyList\<close> stands for the iteration order where the code ranges over the map.
\<close>

section \<open>Installing packages\<close>

definition dnfRepoPlatform :: repoPlatformConfig where
  "dnfRepoPlatform = \<lparr>rpc_ConfigRoot = ''/etc/yum.repos.d'', rpc_GPGKeyRoot = ''/etc/pki/rpm-gpg'', rpc_ConfigExt = ''.repo''\<rparr>"

record dnfInstallConfig =
  dnf_keys :: "string list"
  dnf_root :: string
  dnf_mounts :: "runOpt list"
  dnf_downloadOnly :: bool
  dnf_allDeps :: bool
  dnf_downloadDir :: string
  dnf_includeDocs :: bool

type_synonym dnfInstallOpt = "dnfInstallConfig \<Rightarrow> dnfInstallConfig"
type_synonym packageInstaller = "dnfInstallConfig \<Rightarrow> string \<Rightarrow> string list \<Rightarrow> runOpt list"

definition empty_dnf :: dnfInstallConfig where
  "empty_dnf = \<lparr>dnf_keys = [], dnf_root = [], dnf_mounts = [], dnf_downloadOnly = False, dnf_allDeps = False,
     dnf_downloadDir = [], dnf_includeDocs = False\<rparr>"

definition DnfImportKeys :: "string list \<Rightarrow> dnfInstallOpt" where
  "DnfImportKeys keys cfg = cfg\<lparr>dnf_keys := dnf_keys cfg @ keys\<rparr>"

definition DnfWithMounts :: "runOpt list \<Rightarrow> dnfInstallOpt" where
  "DnfWithMounts opts cfg = cfg\<lparr>dnf_mounts := dnf_mounts cfg @ opts\<rparr>"

definition DnfAtRoot :: "string \<Rightarrow> dnfInstallOpt" where
  "DnfAtRoot root cfg = cfg\<lparr>dnf_root := root\<rparr>"

definition DnfDownloadAllDeps :: "string \<Rightarrow> dnfInstallOpt" where
  "DnfDownloadAllDeps dest cfg = cfg\<lparr>dnf_downloadOnly := True, dnf_allDeps := True, dnf_downloadDir := dest\<rparr>"

definition IncludeDocs :: "bool \<Rightarrow> dnfInstallOpt" where
  "IncludeDocs v cfg = cfg\<lparr>dnf_includeDocs := v\<rparr>"

definition dnfInstallOptions :: "dnfInstallConfig \<Rightarrow> dnfInstallOpt list \<Rightarrow> dnfInstallConfig" where
  "dnfInstallOptions cfg opts = foldl (\<lambda>c opt. opt c) cfg opts"

definition dnfInstallFlags :: "dnfInstallConfig \<Rightarrow> string" where
  "dnfInstallFlags cfg =
    (if dnf_root cfg \<noteq> [] then '' --installroot='' @ dnf_root cfg @ '' --setopt=reposdir=/etc/yum.repos.d'' else [])
    @ (if dnf_downloadOnly cfg then '' --downloadonly'' else [])
    @ (if dnf_allDeps cfg then '' --alldeps'' else [])
    @ (if dnf_downloadDir cfg \<noteq> [] then '' --downloaddir '' @ dnf_downloadDir cfg else [])
    @ (if \<not> dnf_includeDocs cfg then '' --setopt=tsflags=nodocs'' else [])"

definition import_key_lines :: "string \<Rightarrow> string list" where
  \<open>import_key_lines keyPath =
    [[],
     ''key_path="'' @ Join [''/etc/pki/rpm-gpg'', Base keyPath] @ ''"'',
     ''gpg --import --armor "${key_path}"'',
     [],
     ''if ! head -1 "${key_path}" | grep -q '' @ sq @ ''BEGIN PGP PUBLIC KEY BLOCK'' @ sq @ ''; then'',
     tab @ ''gpg --armor --export > /tmp/key.asc'',
     tab @ ''key_path="/tmp/key.asc"'',
     ''fi'',
     ''rpm --import "${key_path}"'']\<close>

definition importGPGScript :: "string list \<Rightarrow> string" where
  "importGPGScript keyPaths =
    lines_text ([''#!/usr/bin/env sh'', ''set -eux''] @ concat (map import_key_lines keyPaths))"

definition importKeysPath :: string where "importKeysPath = ''/tmp/dalec/internal/dnf/import-keys.sh''"
definition installScriptPath :: string where "installScriptPath = ''/tmp/dalec/internal/dnf/install.sh''"

definition dnf_script :: "dnfInstallConfig \<Rightarrow> string \<Rightarrow> string \<Rightarrow> string list \<Rightarrow> string" where
  \<open>dnf_script cfg releaseVer exe dnfSubCmd =
    (let cacheDir = (if dnf_root cfg \<noteq> [] then Join [dnf_root cfg, ''/var/cache/'' @ exe] else ''/var/cache/'' @ exe);
         installFlags = dnfInstallFlags cfg @ '' -y --setopt varsdir=/etc/dnf/vars --releasever='' @ releaseVer @ '' ''
     in lines_text
          [''#!/usr/bin/env bash'',
           ''set -eux -o pipefail'',
           [],
           ''import_keys_path="'' @ importKeysPath @ ''"'',
           ''cmd="'' @ exe @ ''"'',
           ''install_flags="'' @ installFlags @ ''"'',
           ''dnf_sub_cmd="'' @ join_with '' '' dnfSubCmd @ ''"'',
           ''cache_dir="'' @ cacheDir @ ''"'',
           [],
           ''if [ -x "$import_keys_path" ]; then'',
           tab @ ''"$import_keys_path"'',
           ''fi'',
           [],
           ''$cmd $dnf_sub_cmd $install_flags "${@}"''])\<close>

definition dnfCommand :: "dnfInstallConfig \<Rightarrow> string \<Rightarrow> string \<Rightarrow> string list \<Rightarrow> string list \<Rightarrow> runOpt list" where
  "dnfCommand cfg releaseVer exe dnfSubCmd dnfArgs =
    [RunMount installScriptPath (Mkfile Scratch ''install.sh'' 448 (dnf_script cfg releaseVer exe dnfSubCmd) None)
       [SourcePath ''install.sh'', Readonly]]
    @ (if dnf_keys cfg \<noteq> [] then
         [RunMount importKeysPath (Mkfile Scratch ''/import-keys.sh'' 493 (importGPGScript (dnf_keys cfg)) None)
            [Readonly, SourcePath ''/import-keys.sh'']]
       else [])
    @ [RunArgs (installScriptPath # dnfArgs)] @ dnf_mounts cfg"

definition DnfInstall :: packageInstaller where
  "DnfInstall cfg releaseVer pkgs = dnfCommand cfg releaseVer ''dnf'' (''install'' # pkgs) []"

definition TdnfInstall :: packageInstaller where
  "TdnfInstall cfg releaseVer pkgs = dnfCommand cfg releaseVer ''tdnf'' (''install'' # pkgs) []"

section \<open>The configuration of a distribution\<close>

record rpmConfig =
  rc_FullName :: string
  rc_ImageRef :: string
  rc_ContextRef :: string
  rc_ReleaseVer :: string
  rc_BuilderPackages :: "string list"
  rc_BasePackages :: "spec list"
  rc_RepoPlatformConfig :: "repoPlatformConfig option"
  rc_DefaultOutputImage :: string
  rc_InstallFunc :: packageInstaller
  rc_CacheName :: string
  rc_CacheAddPlatform :: bool
  rc_CacheDir :: string
  rc_SysextSupported :: bool

definition PackageCacheMount :: "rpmConfig \<Rightarrow> distroEnv \<Rightarrow> platform option \<Rightarrow> string \<Rightarrow> runOpt" where
  "PackageCacheMount cfg env pl root =
    (let key = rc_CacheName cfg
           @ (if rc_CacheAddPlatform cfg
              then ''-'' @ lib_Format (de_libs env) (target_platform (de_libs env) pl) else [])
     in RunMount (Join [root, rc_CacheDir cfg]) Scratch [AsPersistentCacheDir key CacheMountLocked])"

definition rpm_Install :: "rpmConfig \<Rightarrow> distroEnv \<Rightarrow> platform option \<Rightarrow> string list \<Rightarrow> dnfInstallOpt list \<Rightarrow> runOpt list" where
  "rpm_Install c env pl pkgs opts =
    (let cfg = dnfInstallOptions empty_dnf opts
     in rc_InstallFunc c cfg (rc_ReleaseVer c) pkgs @ [PackageCacheMount c env pl (dnf_root cfg)])"

definition rpm_RepoMounts :: "rpmConfig \<Rightarrow> sourceOpts \<Rightarrow> packageRepositoryConfig list \<Rightarrow> (runOpt list \<times> string list) option" where
  "rpm_RepoMounts cfg so repos =
    (let repoConfig = (case rc_RepoPlatformConfig cfg of None \<Rightarrow> dnfRepoPlatform | Some r \<Rightarrow> r)
     in case (WithRepoConfigs so repoConfig repos, WithRepoData so repos, GetRepoKeys so repoConfig repos) of
          (Some withRepos, Some withData, Some (keyMounts, keyPaths)) \<Rightarrow>
            Some (withRepos @ withData @ keyMounts, keyPaths)
        | _ \<Rightarrow> None)"

section \<open>Dependencies\<close>

definition deps_spec :: "string \<Rightarrow> packageDependencyList \<Rightarrow> spec" where
  "deps_spec pkgName deps =
    empty_spec\<lparr>sp_Name := pkgName @ ''-dependencies'',
      sp_Description := ''Virtual Package to install dependencies for '' @ pkgName,
      sp_Version := ''1.0'', sp_License := ''Apache 2.0'', sp_Revision := ''1'',
      sp_Dependencies := Some (empty_deps\<lparr>pd_Runtime := deps\<rparr>)\<rparr>"

definition rpmMountDir :: string where "rpmMountDir = ''/tmp/internal/dalec/deps/install/rpms''"

definition WithDeps ::
  "rpmConfig \<Rightarrow> distroEnv \<Rightarrow> platform option \<Rightarrow> sourceOpts \<Rightarrow> string \<Rightarrow> string \<Rightarrow> packageDependencyList
   \<Rightarrow> packageRepositoryConfig list \<Rightarrow> llb \<Rightarrow> llb option" where
  "WithDeps cfg env pl so targetKey pkgName deps repos st =
    (if deps = [] then Some st
     else let sp = deps_spec pkgName deps
       in case ToSpecLLB (de_main_path env) (de_remote env) sp st targetKey [] of
            None \<Rightarrow> None
          | Some (Inl e) \<Rightarrow> Some (AsyncErr st e)
          | Some (Inr rpmSpec) \<Rightarrow>
              map_option (\<lambda>(repoMounts, keyPaths).
                  ExecRoot st (rpm_Install cfg env pl [Join [rpmMountDir, ''*/*.rpm'']]
                    [DnfWithMounts [RunMount rpmMountDir
                       (rpm_Build rpmSpec st (rpm_spec_path sp) targetKey (ab_Caches (sp_Build sp)))
                       [SourcePath ''/RPMS'', Readonly]],
                     DnfWithMounts repoMounts, DnfImportKeys keyPaths]))
                (rpm_RepoMounts cfg so repos))"

definition rpm_InstallBuildDeps ::
  "rpmConfig \<Rightarrow> distroEnv \<Rightarrow> platform option \<Rightarrow> spec \<Rightarrow> sourceOpts \<Rightarrow> string \<Rightarrow> llb \<Rightarrow> llb option" where
  "rpm_InstallBuildDeps cfg env pl sp so targetKey st =
    (let deps = GetBuild (GetPackageDeps sp targetKey)
     in if deps = [] then Some st
        else WithDeps cfg env pl so targetKey (sp_Name sp) deps (spec_repos sp targetKey ''build'') st)"

definition download_args :: "packageDependencyList \<Rightarrow> string list" where
  "download_args constraints =
    [''--downloaddir'', ''/output'', ''download'']
    @ concat (map (\<lambda>(name, c). if pc_Version c = [] then [name]
        else map (\<lambda>v. name @ '' '' @ FormatVersionConstraint v) (pc_Version c)) constraints)"

definition rpm_DownloadDeps ::
  "rpmConfig \<Rightarrow> distroEnv \<Rightarrow> platform option \<Rightarrow> llb \<Rightarrow> sourceOpts \<Rightarrow> spec \<Rightarrow> string \<Rightarrow> packageDependencyList option \<Rightarrow> llb option" where
  "rpm_DownloadDeps cfg env pl worker so sp targetKey constraints =
    (case constraints of
       None \<Rightarrow> Some Scratch
     | Some cs \<Rightarrow> map_option (\<lambda>(repoMounts, keyPaths).
         run_mount (ExecRoot worker (rpm_Install cfg env pl [''dnf-utils''] []))
           (dnfCommand (dnfInstallOptions empty_dnf [DnfWithMounts repoMounts, DnfImportKeys keyPaths])
              (rc_ReleaseVer cfg) ''dnf'' [] (download_args cs))
           ''/output'' Scratch)
       (rpm_RepoMounts cfg so (spec_repos sp targetKey ''install'')))"

section \<open>Packages\<close>

definition rpm_Validate :: "spec \<Rightarrow> gores" where
  "rpm_Validate sp = ValidateSpec sp"

definition goBuild_cache :: cacheConfig where
  "goBuild_cache = \<lparr>cc_Dir = None, cc_GoBuild = Some \<lparr>gbc_Scope = [], gbc_Disabled = False\<rparr>,
     cc_RustSCCache = None, cc_Bazel = None\<rparr>"

definition needsAutoGocache :: "spec \<Rightarrow> string \<Rightarrow> bool" where
  "needsAutoGocache sp targetKey =
    (\<not> list_ex (\<lambda>c. cc_GoBuild c \<noteq> None) (ab_Caches (sp_Build sp)) \<and> (HasGomods sp \<or> HasGolang sp targetKey))"

text \<open>\<open>frontend.MaybeSign\<close> with its warnings in the log.\<close>

definition sign_act :: "distroEnv \<Rightarrow> llb \<Rightarrow> spec \<Rightarrow> string \<Rightarrow> (goerr + llb) act" where
  "sign_act env st sp targetKey =
    (case MaybeSign (de_client env) (de_opts env) st sp targetKey of (ws, r) \<Rightarrow> (map SignWarnEv ws, r))"

definition rpm_state ::
  "rpmConfig \<Rightarrow> distroEnv \<Rightarrow> platform option \<Rightarrow> llb \<Rightarrow> sourceOpts \<Rightarrow> spec \<Rightarrow> string \<Rightarrow> (goerr + llb) option" where
  "rpm_state c env pl worker0 so sp targetKey =
    (case rpm_InstallBuildDeps c env pl sp so targetKey worker0 of
       None \<Rightarrow> None
     | Some worker \<Rightarrow>
         then_do (SpecToBuildrootLLB (de_main_path env) (de_remote env) worker sp so targetKey) (\<lambda>br.
           Some (Inr (rpm_Build br (SetBuildNetworkMode sp worker) (rpm_spec_path sp) targetKey
             (ab_Caches (sp_Build sp) @ (if needsAutoGocache sp targetKey then [goBuild_cache] else []))))))"

definition rpm_BuildPkg ::
  "rpmConfig \<Rightarrow> distroEnv \<Rightarrow> platform option \<Rightarrow> llb \<Rightarrow> sourceOpts \<Rightarrow> spec \<Rightarrow> string \<Rightarrow> (goerr + llb) act" where
  "rpm_BuildPkg c env pl worker so sp targetKey =
    or_err (lift (rpm_state c env pl worker so sp targetKey)) (\<lambda>st. sign_act env st sp targetKey)"

definition rpm_InstallTestDeps ::
  "rpmConfig \<Rightarrow> distroEnv \<Rightarrow> platform option \<Rightarrow> llb \<Rightarrow> sourceOpts \<Rightarrow> string \<Rightarrow> spec \<Rightarrow> llb \<Rightarrow> llb option" where
  "rpm_InstallTestDeps cfg env pl worker so targetKey sp st =
    (let deps = GetTest (GetPackageDeps sp targetKey)
     in if deps = [] then Some st
        else map_option (\<lambda>(repoMounts, keyPaths).
            run_mount worker
              (rpm_Install cfg env pl (SortMapKeys deps)
                 [DnfAtRoot rootfsPath, DnfWithMounts repoMounts, DnfImportKeys keyPaths])
              rootfsPath st)
          (rpm_RepoMounts cfg so (spec_repos sp targetKey ''test'')))"

definition rpm_RunTests ::
  "rpmConfig \<Rightarrow> distroEnv \<Rightarrow> platform option \<Rightarrow> llb \<Rightarrow> spec \<Rightarrow> sourceOpts \<Rightarrow> llb \<Rightarrow> string \<Rightarrow> (llb option \<times> gores) act" where
  "rpm_RunTests cfg env pl worker sp so ctr targetKey =
    and_then (solve_state id env ctr) (\<lambda>r. case r of
        Inl e \<Rightarrow> ret (None, Some e)
      | Inr ref \<Rightarrow>
          and_then (run_tests env sp ref (rpm_InstallTestDeps cfg env pl worker so targetKey sp) targetKey pl) (\<lambda>err.
            ret (Some ref, wrap ''TESTS FAILED'' err)))"

definition rpm_ExtractPkg ::
  "rpmConfig \<Rightarrow> distroEnv \<Rightarrow> platform option \<Rightarrow> llb \<Rightarrow> sourceOpts \<Rightarrow> spec \<Rightarrow> string \<Rightarrow> llb \<Rightarrow> llb option" where
  \<open>rpm_ExtractPkg cfg env pl worker so sp targetKey rpmDir =
    map_option (\<lambda>depRpms.
        run_mount worker
          [RunArgs [''find'', ''/input'', ''-name'', ''*.rpm'', ''-exec'', ''sh'', ''-c'',
             ''rpm2cpio "$1" | cpio -idmv -D /output'', ''-'', ''{}'', '';''],
           RunMount ''/input/build'' rpmDir [SourcePath ''/RPMS''],
           RunMount ''/input/deps'' depRpms []]
          ''/output'' Scratch)
      (rpm_DownloadDeps cfg env pl worker so sp targetKey (GetSysext (GetPackageDeps sp targetKey)))\<close>

section \<open>Containers\<close>

fun build_base_packages ::
  "rpmConfig \<Rightarrow> distroEnv \<Rightarrow> platform option \<Rightarrow> llb \<Rightarrow> sourceOpts \<Rightarrow> string \<Rightarrow> spec list \<Rightarrow> (goerr + llb list) act" where
  "build_base_packages cfg env pl worker so targetKey [] = ret (Inr [])"
| "build_base_packages cfg env pl worker so targetKey (sp # sps) =
    and_then (rpm_BuildPkg cfg env pl worker so sp targetKey) (\<lambda>r. case r of
        Inl e \<Rightarrow> ret (Inl (Wrap ''error building base runtime deps package'' e))
      | Inr pkg \<Rightarrow> or_err (build_base_packages cfg env pl worker so targetKey sps) (\<lambda>pkgs. ret (Inr (pkg # pkgs))))"

text \<open>The run that installs the package, and the virtual base packages when there is no base image.\<close>

definition install_rpms ::
  "rpmConfig \<Rightarrow> distroEnv \<Rightarrow> platform option \<Rightarrow> llb \<Rightarrow> spec \<Rightarrow> string \<Rightarrow> runOpt list \<times> string list
   \<Rightarrow> string list \<Rightarrow> llb \<Rightarrow> llb \<Rightarrow> llb \<Rightarrow> llb" where
  "install_rpms cfg env pl worker sp targetKey repos pkgs basePkgs rpmDir rootfs =
    run_mount worker
      (rpm_Install cfg env pl pkgs
         [DnfAtRoot rootfsPath, DnfWithMounts (fst repos), DnfImportKeys (snd repos),
          IncludeDocs (HasDocs (GetArtifacts sp targetKey))]
       @ [RunMount ''/tmp/rpms'' rpmDir [SourcePath ''/RPMS''],
          RunMount ''/tmp/rpms-base'' basePkgs [SourcePath ''/RPMS'']])
      rootfsPath rootfs"

definition rpm_BuildContainer ::
  "rpmConfig \<Rightarrow> distroEnv \<Rightarrow> platform option \<Rightarrow> llb \<Rightarrow> sourceOpts \<Rightarrow> spec \<Rightarrow> string \<Rightarrow> llb \<Rightarrow> (goerr + llb) act" where
  "rpm_BuildContainer cfg env pl worker so sp targetKey rpmDir =
    or_err (ret (GetSingleBase sp targetKey)) (\<lambda>bi.
    and_then (lift (baseImage_ToState so bi)) (\<lambda>rootfs.
    and_then (lift (rpm_RepoMounts cfg so (spec_repos sp targetKey ''install''))) (\<lambda>repos.
      (let empty = Mkdir Scratch ''/RPMS'' 493 False None;
           pkgs = [Join [''/tmp/rpms'', ''**/*.rpm'']];
           finish = (\<lambda>pkgs basePkgs. ret (Inr (InstallPostSymlinks (GetImagePost sp targetKey) worker
             (install_rpms cfg env pl worker sp targetKey repos pkgs basePkgs rpmDir rootfs))))
       in if bi = None \<and> rc_BasePackages cfg \<noteq> [] then
            or_err (build_base_packages cfg env pl worker so targetKey (rc_BasePackages cfg)) (\<lambda>states.
              finish (pkgs @ [Join [''/tmp/rpms-base'', ''**/*.rpm'']]) (MergeAtPath (so_DiffMergeOff so) empty states ''/''))
          else finish pkgs empty))))"

section \<open>Workers\<close>

definition rpm_Worker :: "rpmConfig \<Rightarrow> distroEnv \<Rightarrow> sourceOpts \<Rightarrow> platform option \<Rightarrow> goerr + llb" where
  "rpm_Worker cfg env so pl =
    (let base = Inr (ExecRoot (GetBaseImage so (rc_ImageRef cfg)) (rpm_Install cfg env pl (rc_BuilderPackages cfg) []))
     in if rc_ContextRef cfg = [] then base
        else (case so_GetContext so (rc_ContextRef cfg) id of
                Inl e \<Rightarrow> Inl e
              | Inr (Some st) \<Rightarrow> Inr st
              | Inr None \<Rightarrow> base))"

definition rpm_SysextWorker :: "rpmConfig \<Rightarrow> distroEnv \<Rightarrow> platform option \<Rightarrow> llb \<Rightarrow> llb" where
  "rpm_SysextWorker cfg env pl worker = ExecRoot worker (rpm_Install cfg env pl [''erofs-utils''] [])"

definition rpm_config :: "rpmConfig \<Rightarrow> distroConfig" where
  "rpm_config cfg =
    \<lparr>d_Validate = rpm_Validate, d_Worker = rpm_Worker cfg, d_SysextWorker = rpm_SysextWorker cfg,
     d_BuildPkg = (\<lambda>env pl worker so sp targetKey.
       and_then (rpm_BuildPkg cfg env pl worker so sp targetKey) (\<lambda>r. ret (r, sp))),
     d_ExtractPkg = rpm_ExtractPkg cfg, d_BuildContainer = rpm_BuildContainer cfg, d_RunTests = rpm_RunTests cfg\<rparr>"

section \<open>Handlers\<close>

text \<open>\<open>HandleWorker\<close>, which both kinds of distribution have: the image keeps the configuration of its base.\<close>

definition handle_worker :: "string \<Rightarrow> (distroEnv \<Rightarrow> sourceOpts \<Rightarrow> platform option \<Rightarrow> goerr + llb) \<Rightarrow> distroEnv \<Rightarrow> event platformBuildFunc" where
  "handle_worker imageRef worker env platform sp targetKey =
    attempt None (ret (env_sourceOpts env platform)) (\<lambda>so.
    attempt None (ret (worker env so platform)) (\<lambda>st.
    attempt None (solve_state id env st) (\<lambda>ref.
    attempt None (ret (de_ImageConfig env imageRef platform)) (\<lambda>dt.
    attempt None (ret dt) (\<lambda>img. ret (Some ref, Some img, None))))))"

definition rpm_HandleWorker :: "rpmConfig \<Rightarrow> distroEnv \<Rightarrow> event platformBuildFunc" where
  "rpm_HandleWorker cfg = handle_worker (rc_ImageRef cfg) (rpm_Worker cfg)"

definition downloaded_rpms :: "rpmConfig \<Rightarrow> distroEnv \<Rightarrow> llb \<Rightarrow> packageDependencyList \<Rightarrow> llb" where
  "downloaded_rpms cfg env worker rtDeps =
    Copy Scratch
      (ExecRoot (ExecRoot worker [ShArgs ''set -ex; mkdir -p /tmp/rpms/RPMS/$(uname -m)''])
        (rpm_Install cfg env None (SortMapKeys rtDeps) [DnfDownloadAllDeps ''/tmp/rpms/RPMS/$(uname -m)'']))
      ''/tmp/rpms'' ''/'' WithDirContentsOnly"

definition HandleDepsOnly :: "rpmConfig \<Rightarrow> distroEnv \<Rightarrow> event platformBuildFunc" where
  "HandleDepsOnly cfg env platform sp targetKey =
    (let rtDeps = GetRuntime (GetPackageDeps sp targetKey)
     in if rtDeps = [] then ret (None, None, Some (Msg (''no runtime deps found for '' @ sq @ targetKey @ sq)))
        else
          attempt None (ret (env_sourceOpts env platform)) (\<lambda>so.
          attempt None (ret (rpm_Worker cfg env so platform)) (\<lambda>worker.
          attempt None (rpm_BuildContainer cfg env platform worker so sp targetKey
              (downloaded_rpms cfg env worker rtDeps)) (\<lambda>ctr.
          attempt None (solve_only id env ctr) (\<lambda>res.
          attempt None (lift (linux_BuildImageConfig env sp platform targetKey)) (\<lambda>img.
          attempt None (ret res) (\<lambda>ref. ret (Some ref, Some img, None))))))))"

section \<open>Debug handlers\<close>

definition DebugWorker :: "rpmConfig \<Rightarrow> distroEnv \<Rightarrow> platform option \<Rightarrow> spec \<Rightarrow> string \<Rightarrow> sourceOpts \<Rightarrow> (goerr + llb) option" where
  "DebugWorker c env pl sp targetKey so =
    (case rpm_Worker c env so pl of
       Inl e \<Rightarrow> Some (Inl e)
     | Inr worker \<Rightarrow>
         if HasGomods sp \<and> \<not> HasGolang sp targetKey
         then Some (Inl (Msg ''spec contains go modules but does not have golang in build deps''))
         else if HasCargohomes sp \<and> ''rust'' \<notin> set (SortMapKeys (GetBuild (GetPackageDeps sp targetKey)))
         then Some (Inl (Msg ''spec contains cargo homes but does not have rust in build deps''))
         else if HasNodeMods sp \<and> \<not> HasNpm sp targetKey
         then Some (Inl (Msg ''spec contains node modules but does not have npm in build deps''))
         else map_option Inr (rpm_InstallBuildDeps c env None sp so targetKey worker))"

definition HandleBuildroot :: "rpmConfig \<Rightarrow> distroEnv \<Rightarrow> event platformBuildFunc" where
  "HandleBuildroot c env platform sp targetKey =
    (case ValidateSpec sp of
       Some e \<Rightarrow> ret (None, None, Some (Wrap ''rpm: invalid spec'' e))
     | None \<Rightarrow>
         attempt None (ret (env_sourceOpts env platform)) (\<lambda>so.
         attempt None (ret (wrap_inl ''error building worker container'' (rpm_Worker c env so platform))) (\<lambda>worker0.
         and_then (lift (rpm_InstallBuildDeps c env platform sp so targetKey worker0)) (\<lambda>worker.
         attempt None (lift (SpecToBuildrootLLB (de_main_path env) (de_remote env) worker sp so targetKey)) (\<lambda>br.
         attempt None (solve_state (Wrap ''error marshalling llb'') env br) (\<lambda>ref.
           ret (Some ref, Some (platform_image (target_platform (de_libs env) platform)), None)))))))"

definition HandleSources :: "rpmConfig \<Rightarrow> distroEnv \<Rightarrow> event platformBuildFunc" where
  "HandleSources c env platform sp targetKey =
    attempt None (ret (env_sourceOpts env platform)) (\<lambda>so.
    attempt None (lift (DebugWorker c env platform sp targetKey so)) (\<lambda>worker.
    attempt None (lift (ToSourcesLLB worker sp so)) (\<lambda>sources.
    attempt None (solve_state (Wrap ''error marshalling llb'') env
        (MergeAtPath (so_DiffMergeOff so) Scratch sources ''/SOURCES'')) (\<lambda>ref.
      ret (Some ref, Some (platform_image no_platform), None)))))"

text \<open>The image is returned beside the error when the result has no single reference.\<close>

definition HandleSpec :: "rpmConfig \<Rightarrow> distroEnv \<Rightarrow> event platformBuildFunc" where
  "HandleSpec c env platform sp targetKey =
    attempt None (lift (ToSpecLLB (de_main_path env) (de_remote env) sp Scratch targetKey [])) (\<lambda>st.
    attempt None (solve_only (Wrap ''error marshalling llb'') env st) (\<lambda>res.
      ret (case res of
             Inl e \<Rightarrow> (None, Some (platform_image no_platform), Some e)
           | Inr ref \<Rightarrow> (Some ref, Some (platform_image no_platform), None))))"

section \<open>Routes\<close>

text \<open>
  \<open>run\<close> turns a build function into a handler of the request router: it is \<open>frontend.BuildWithPlatform\<close>
  on the client of the request.
\<close>

type_synonym 'r runner = "(distroEnv \<Rightarrow> event platformBuildFunc) \<Rightarrow> 'r buildFunc"

definition new_mux :: "'r buildMux" where
  "new_mux = \<lparr>m_handlers = [], m_defaultH = None, m_spec = None\<rparr>"

definition route :: "string \<Rightarrow> string \<Rightarrow> bool \<Rightarrow> 'r buildFunc \<Rightarrow> 'r buildMux \<Rightarrow> 'r buildMux" where
  "route name description dflt bf m =
    Add m name bf (Some \<lparr>bt_Name = name, bt_Default = dflt, bt_Description = description\<rparr>)"

definition debug_mux :: "'r runner \<Rightarrow> rpmConfig \<Rightarrow> 'r buildMux" where
  "debug_mux run c =
    route ''spec'' ''Outputs the generated RPM spec file'' False (run (HandleSpec c))
    (route ''sources'' ''Outputs all the sources specified in the spec file in the format given to rpmbuild.'' False
       (run (HandleSources c))
    (route ''buildroot'' ''Outputs an rpm buildroot suitable for passing to rpmbuild.'' False
       (run (HandleBuildroot c)) new_mux))"

definition HandleDebug :: "'r services \<Rightarrow> 'r runner \<Rightarrow> rpmConfig \<Rightarrow> 'r buildFunc" where
  "HandleDebug sv run c = mux_func sv (debug_mux run c)"

definition rpm_mux :: "'r services \<Rightarrow> 'r runner \<Rightarrow> rpmConfig \<Rightarrow> 'r buildMux" where
  "rpm_mux sv run cfg =
    (let m1 = route ''rpm'' ''Builds an rpm and src.rpm.'' False (run (HandlePackage (rpm_config cfg))) new_mux;
         m2 = route ''rpm/debug'' ''Debug options for rpm builds.'' False (HandleDebug sv run cfg) m1;
         m3 = route ''container'' (''Builds a container image for '' @ rc_FullName cfg) True
                (run (HandleContainer (rpm_config cfg))) m2;
         m4 = route ''container/depsonly'' ''Builds a container image with only the runtime dependencies installed.'' False
                (run (HandleDepsOnly cfg)) m3;
         m5 = route ''worker'' ''Builds the base worker image responsible for building the rpm'' False
                (run (rpm_HandleWorker cfg)) m4
     in if rc_SysextSupported cfg
        then route ''testing/sysext'' ''Builds a systemd system extension image.'' False
               (run (HandleSysext (rpm_config cfg))) m5
        else m5)"

definition rpm_Handle :: "'r services \<Rightarrow> 'r runner \<Rightarrow> rpmConfig \<Rightarrow> 'r buildFunc" where
  "rpm_Handle sv run cfg = mux_func sv (rpm_mux sv run cfg)"

end
