(* ===== verification/Deb_Distro.thy ===== *)
theory Deb_Distro
  imports Rpm_Distro Deb_Build
begin

text \<open>
  The Debian distributions (targets/linux/deb/distro, and \<open>ReadDistroVersionID\<close> of
  packaging/linux/deb/debroot.go): the version of the worker image, the install scripts, the
  dependencies, the search for an alternative go, the package build, the container, the tests, the
  handlers of their own and the routes.
\<close>

section \<open>Quoted values\<close>

text \<open>
  \<open>strconv.Unquote\<close>.  As for \<^const>\<open>Quote\<close>, bytes from 0x80 on belong to valid UTF-8 text, so a character is
  its first byte with the continuation bytes after it.
\<close>

definition hex_val :: "char \<Rightarrow> nat option" where
  "hex_val c =
    (let n = of_char c :: nat
     in if 48 \<le> n \<and> n \<le> 57 then Some (n - 48)
        else if 97 \<le> n \<and> n \<le> 102 then Some (n - 87)
        else if 65 \<le> n \<and> n \<le> 70 then Some (n - 55)
        else None)"

text \<open>A number of exactly \<open>k\<close> digits in base \<open>b\<close>.\<close>

fun read_digits :: "nat \<Rightarrow> nat \<Rightarrow> nat \<Rightarrow> string \<Rightarrow> (nat \<times> string) option" where
  "read_digits b 0 acc s = Some (acc, s)"
| "read_digits b (Suc k) acc [] = None"
| "read_digits b (Suc k) acc (c # s) =
    (case hex_val c of
       None \<Rightarrow> None
     | Some d \<Rightarrow> if d < b then read_digits b k (b * acc + d) s else None)"

definition utf8 :: "nat \<Rightarrow> string" where
  "utf8 n =
    map char_of
      (if n < 0x80 then [n]
       else if n < 0x800 then [0xC0 + n div 64, 0x80 + n mod 64]
       else if n < 0x10000 then [0xE0 + n div 4096, 0x80 + n div 64 mod 64, 0x80 + n mod 64]
       else [0xF0 + n div 262144, 0x80 + n div 4096 mod 64, 0x80 + n div 64 mod 64, 0x80 + n mod 64])"

definition valid_rune :: "nat \<Rightarrow> bool" where
  "valid_rune n = (n < 0xD800 \<or> 0xDFFF < n \<and> n \<le> 0x10FFFF)"

definition escapes :: "(char \<times> char) list" where
  "escapes = [(CHR ''a'', CHR 0x07), (CHR ''b'', CHR 0x08), (CHR ''f'', CHR 0x0C), (CHR ''n'', CHR 0x0A),
     (CHR ''r'', CHR 0x0D), (CHR ''t'', CHR 0x09), (CHR ''v'', CHR 0x0B), (CHR 0x5C, CHR 0x5C)]"

definition unescape :: "char \<Rightarrow> char \<Rightarrow> string \<Rightarrow> (string \<times> string) option" where
  "unescape q e s =
    (case map_of escapes e of
       Some c \<Rightarrow> Some ([c], s)
     | None \<Rightarrow>
         if e = CHR ''x'' then map_option (\<lambda>(v, r). ([char_of v], r)) (read_digits 16 2 0 s)
         else if e = CHR ''u'' \<or> e = CHR ''U'' then
           (case read_digits 16 (if e = CHR ''u'' then 4 else 8) 0 s of
              None \<Rightarrow> None
            | Some (v, r) \<Rightarrow> if valid_rune v then Some (utf8 v, r) else None)
         else if CHR ''0'' \<le> e \<and> e \<le> CHR ''7'' then
           (case read_digits 8 3 0 (e # s) of
              None \<Rightarrow> None
            | Some (v, r) \<Rightarrow> if v \<le> 255 then Some ([char_of v], r) else None)
         else if (e = CHR 0x27 \<or> e = CHR 0x22) \<and> e = q then Some ([e], s)
         else None)"

definition continuation :: "char \<Rightarrow> bool" where
  "continuation c = (let n = of_char c :: nat in 0x80 \<le> n \<and> n < 0xC0)"

definition UnquoteChar :: "char \<Rightarrow> string \<Rightarrow> (string \<times> string) option" where
  "UnquoteChar q s =
    (case s of
       [] \<Rightarrow> None
     | c # t \<Rightarrow>
         if c = q then None
         else if (0x80 :: nat) \<le> of_char c then Some (c # takeWhile continuation t, dropWhile continuation t)
         else if c \<noteq> CHR 0x5C then Some ([c], t)
         else (case t of [] \<Rightarrow> None | e # r \<Rightarrow> unescape q e r))"

lemma read_digits_shorter: "read_digits b k acc s = Some (v, r) \<Longrightarrow> length r \<le> length s"
  by (induction b k acc s rule: read_digits.induct) (auto split: option.splits if_splits)

lemma unescape_shorter: "unescape q e s = Some (out, r) \<Longrightarrow> length r < Suc (Suc (length s))"
  by (auto simp: unescape_def split: option.splits if_splits dest!: read_digits_shorter)

lemma UnquoteChar_shorter: "UnquoteChar q s = Some (out, r) \<Longrightarrow> length r < length s"
  by (auto simp: UnquoteChar_def less_Suc_eq_le length_dropWhile_le le_SucI split: list.splits if_splits
      dest!: unescape_shorter)

function unquote_body :: "char \<Rightarrow> string \<Rightarrow> string option" where
  "unquote_body q s =
    (case s of
       [] \<Rightarrow> None
     | c # t \<Rightarrow>
         if c = q then (if t = [] then Some [] else None)
         else if c = CHR 0x0A then None
         else (case UnquoteChar q s of None \<Rightarrow> None | Some (out, r) \<Rightarrow> map_option ((@) out) (unquote_body q r)))"
  by pat_completeness auto
termination
  by (relation "measure (length \<circ> snd)") (auto dest: UnquoteChar_shorter)

declare unquote_body.simps [simp del]

definition Unquote :: "string \<Rightarrow> string option" where
  "Unquote s =
    (case s of
       [] \<Rightarrow> None
     | q # t \<Rightarrow>
         if q = CHR 0x60 then
           (if dropWhile (\<lambda>c. c \<noteq> q) t = [q] then Some (filter (\<lambda>c. c \<noteq> CHR 0x0D) (takeWhile (\<lambda>c. c \<noteq> q) t)) else None)
         else if q = CHR 0x22 then unquote_body q t
         else if q = CHR 0x27 then
           (if t = [q] then Some []
            else if t \<noteq> [] \<and> hd t = CHR 0x0A then None
            else (case UnquoteChar q t of None \<Rightarrow> None | Some (out, r) \<Rightarrow> if r = [q] then Some out else None))
         else None)"

definition unquote :: "string \<Rightarrow> string" where
  "unquote v = (case Unquote v of Some u \<Rightarrow> u | None \<Rightarrow> v)"

section \<open>The version of a distribution\<close>

text \<open>One line of the file; the scan stops when both values are known.\<close>

definition os_release_line :: "string \<times> string \<Rightarrow> string \<Rightarrow> string \<times> string" where
  "os_release_line acc l =
    (case Cut l ''='' of (k, v, ok) \<Rightarrow>
       if \<not> ok then acc
       else if k = ''ID'' then (unquote v, snd acc)
       else if k = ''VERSION_ID'' then (fst acc, unquote v)
       else acc)"

definition both_known :: "string \<times> string \<Rightarrow> bool" where
  "both_known acc = (fst acc \<noteq> [] \<and> snd acc \<noteq> [])"

text \<open>A line without \<open>=\<close> is skipped before the check.\<close>

fun scan_os_release :: "string list \<Rightarrow> string \<times> string \<Rightarrow> string \<times> string" where
  "scan_os_release [] acc = acc"
| "scan_os_release (l # ls) acc =
    (let acc' = os_release_line acc l
     in if both_known acc' then acc' else scan_os_release ls acc')"

text \<open>
  The scanner delivers the complete lines first; an error of the reader shows when the next line is
  asked for, after what is left of the text was delivered as a line.  A line that does not fit into the
  buffer of the scanner is an error as well.  With such an error the code returns the error of an earlier
  call, which is nil.
\<close>

definition MaxScanTokenSize :: nat where "MaxScanTokenSize = 65536"

definition scannable :: "string list \<Rightarrow> string list" where
  "scannable ls = takeWhile (\<lambda>l. length l < MaxScanTokenSize) ls"

definition read_os_release :: "string \<Rightarrow> ioErr option \<Rightarrow> goerr + string" where
  "read_os_release txt err =
    (let ls = split_on (CHR 0x0A) txt;
         acc = scan_os_release (map drop_cr (scannable (butlast ls))) ([], [])
     in if both_known acc then Inr (fst acc @ snd acc)
        else if scannable ls \<noteq> ls then Inr []
        else let acc' = (if last ls = [] then acc else scan_os_release [drop_cr (last ls)] acc)
             in case err of
                  Some (IOError e) \<Rightarrow> Inr []
                | _ \<Rightarrow> if both_known acc' then Inr (fst acc' @ snd acc')
                       else Inl (Msg ''could not determine distro or version ID''))"

definition path_error_text :: "pathErr \<Rightarrow> string" where
  "path_error_text e =
    (case e of
       ErrInvalid \<Rightarrow> ''invalid argument''
     | ErrNotExist t \<Rightarrow> ''file does not exist: '' @ t
     | PathOther t \<Rightarrow> t
     | DirError _ \<Rightarrow> [])"

definition path_goerr :: "pathError \<Rightarrow> goerr" where
  "path_goerr pe = Msg (pe_Op pe @ '' '' @ pe_Path pe @ '': '' @ path_error_text (pe_Err pe))"

definition FromState :: "distroEnv \<Rightarrow> llb \<Rightarrow> (goerr + reference) act" where
  "FromState env st = or_err (solve_state id env st) (\<lambda>ref. ret (Inr (de_reference env ref)))"

definition ReadDistroVersionID :: "distroEnv \<Rightarrow> llb \<Rightarrow> (goerr + string) act" where
  "ReadDistroVersionID env st =
    or_err (FromState env st) (\<lambda>ref.
      ret (case Open ref ''etc/os-release'' of
             Inl pe \<Rightarrow> Inl (path_goerr pe)
           | Inr f \<Rightarrow> (case ReadAll (Read ref) (de_buffers env) f of ((txt, err), _) \<Rightarrow> read_os_release txt err)))"

section \<open>Installing packages\<close>

definition purge_lines :: "string list" where
  "purge_lines =
    [''# Make sure any cached data from local repos is purged since this should not'',
     ''# be shared between builds.'',
     ''rm -f /var/lib/apt/lists/_*'',
     ''apt autoclean -y'']"

definition partial_lines :: "string list" where
  "partial_lines =
    [[], ''# Remove any previously failed attempts to get repo data'', ''rm -rf /var/lib/apt/lists/partial/*'']"

definition apt_script :: string where
  \<open>apt_script = lines_text
    ([''#!/usr/bin/env sh'', ''set -ex'', []] @ purge_lines @ partial_lines
     @ [[], ''apt update'', ''apt install -y "$@"''])\<close>

definition AptInstall :: "string list \<Rightarrow> runOpt list" where
  "AptInstall packages =
    (let p = ''/tmp/dalec/internal/deb/install.sh''
     in [RunMount p (llb.Mkfile Scratch ''install.sh'' 493 apt_script None) [SourcePath ''install.sh''],
         RunEnv ''DEBIAN_FRONTEND'' ''noninteractive'',
         RunArgs (p # packages)])"

definition local_script :: string where
  \<open>local_script = lines_text
    ([''#!/usr/bin/env sh'', ''set -ex'', []] @ purge_lines @ partial_lines
     @ [''apt update'',
        [],
        ''if [ "${DALEC_UPGRADE}" = "true" ]; then'',
        tab @ ''apt dist-upgrade -y'',
        ''fi'',
        [],
        ''if apt install -y ${1}; then'',
        tab @ ''exit 0'',
        ''fi'',
        [],
        ''if ! command -v aptitude > /dev/null; then'',
        tab @ ''needs_cleanup=1'',
        tab @ ''apt install -y aptitude'',
        ''fi'',
        [],
        ''cleanup() {'',
        tab @ ''exit_code=$?'',
        tab @ ''if [ "${needs_cleanup}" = "1" ]; then'',
        tab @ tab @ ''apt remove -y aptitude'',
        tab @ ''fi'',
        tab @ ''exit $exit_code'',
        ''}'',
        [],
        ''trap cleanup EXIT'',
        [],
        ''dpkg -i --force-depends ${1}'',
        [],
        ''pkg_name="$(dpkg-deb -f ${1} | grep '' @ sq @ ''Package:'' @ sq @ '' | awk -F'' @ sq @ '': '' @ sq @ '' ''
          @ sq @ ''{ print $2 }'' @ sq @ '')"'',
        ''aptitude install -y -f -o "Aptitude::ProblemResolver::Hints::=reject ${pkg_name} :UNINST"''])\<close>

definition InstallLocalPkg :: "llb \<Rightarrow> bool \<Rightarrow> runOpt list" where
  "InstallLocalPkg pkg upgrade =
    (let p = ''/tmp/dalec/internal/deb/install-with-constraints.sh'';
         debPath = ''/tmp/dalec/internal/debs''
     in [RunMount p (llb.Mkfile Scratch ''install.sh'' 493 local_script None) [SourcePath ''install.sh''],
         RunMount debPath pkg [Readonly],
         RunEnv ''DEBIAN_FRONTEND'' ''noninteractive'',
         RunEnv ''DALEC_UPGRADE'' (if upgrade then ''true'' else ''false''),
         RunArgs [p, Join [debPath, ''*.deb'']]])"

section \<open>The configuration of a distribution\<close>

definition deb_defaultRepoConfig :: repoPlatformConfig where
  "deb_defaultRepoConfig = \<lparr>rpc_ConfigRoot = ''/etc/apt/sources.list.d'', rpc_GPGKeyRoot = ''/usr/share/keyrings'',
     rpc_ConfigExt = ''.list''\<rparr>"

record debConfig =
  dbc_ImageRef :: string
  dbc_ContextRef :: string
  dbc_VersionID :: string
  dbc_AptCachePrefix :: string
  dbc_BuilderPackages :: "string list"
  dbc_BasePackages :: "string list"
  dbc_RepoPlatformConfig :: "repoPlatformConfig option"
  dbc_DefaultOutputImage :: string
  dbc_ExtraRepos :: "packageRepositoryConfig list"
  dbc_SysextSupported :: bool

definition deb_RepoMounts :: "debConfig \<Rightarrow> sourceOpts \<Rightarrow> packageRepositoryConfig list \<Rightarrow> runOpt list option" where
  "deb_RepoMounts cfg so repos =
    (let repoConfig = (case dbc_RepoPlatformConfig cfg of None \<Rightarrow> deb_defaultRepoConfig | Some r \<Rightarrow> r)
     in case (WithRepoConfigs so repoConfig repos, WithRepoData so repos, GetRepoKeys so repoConfig repos) of
          (Some withRepos, Some withData, Some (keyMounts, _)) \<Rightarrow> Some (withRepos @ withData @ keyMounts)
        | _ \<Rightarrow> None)"

definition deb_repos :: "debConfig \<Rightarrow> spec \<Rightarrow> string \<Rightarrow> string \<Rightarrow> packageRepositoryConfig list" where
  "deb_repos d sp targetKey env = GetExtraRepos (dbc_ExtraRepos d) env @ spec_repos sp targetKey env"

section \<open>Dependencies\<close>

definition build_deps_spec :: "spec \<Rightarrow> packageDependencyList \<Rightarrow> spec" where
  "build_deps_spec sp deps =
    empty_spec\<lparr>sp_Name := sp_Name sp @ ''-build-deps'', sp_Packager := ''Dalec'', sp_Version := sp_Version sp,
      sp_Revision := sp_Revision sp, sp_Dependencies := Some (empty_deps\<lparr>pd_Runtime := deps\<rparr>),
      sp_Description := ''Build dependencies for '' @ sp_Name sp\<rparr>"

definition deb_InstallBuildDeps :: "debConfig \<Rightarrow> distroEnv \<Rightarrow> sourceOpts \<Rightarrow> spec \<Rightarrow> string \<Rightarrow> llb \<Rightarrow> llb option" where
  "deb_InstallBuildDeps d env so sp targetKey st =
    (let deps = GetBuild (GetPackageDeps sp targetKey);
         depsSpec = build_deps_spec sp deps
     in if deps = [] then Some st
        else case (Debroot_llb so (de_main_path env) st depsSpec targetKey [] (dbc_VersionID d) (AddPath [] []),
                   deb_RepoMounts d so (deb_repos d sp targetKey ''build'')) of
               (Some debRoot, Some customRepos) \<Rightarrow>
                 Some (ExecRoot st (customRepos @ InstallLocalPkg (BuildDebBinaryOnly st depsSpec debRoot) False
                   @ WithMountedAptCache (dbc_AptCachePrefix d)))
             | _ \<Rightarrow> None)"

definition deb_InstallTestDeps :: "debConfig \<Rightarrow> sourceOpts \<Rightarrow> string \<Rightarrow> spec \<Rightarrow> llb \<Rightarrow> llb option" where
  "deb_InstallTestDeps d so targetKey sp st =
    (let deps = GetTest (GetPackageDeps sp targetKey)
     in if deps = [] then Some st
        else map_option (\<lambda>withRepos. ExecRoot st (AptInstall (SortMapKeys deps) @ withRepos
            @ WithMountedAptCache (dbc_AptCachePrefix d)))
          (deb_RepoMounts d so (deb_repos d sp targetKey ''test'')))"

definition download_script :: string where
  \<open>download_script = lines_text
    ([''#!/usr/bin/env bash'', ''set -euxo pipefail'', ''cd /output'', []] @ purge_lines
     @ [''apt update'',
        [],
        ''# Use APT to resolve the constraints and download just the requested packages'',
        ''# without the sub-dependencies. Ideally, we would resolve all the constraints'',
        ''# together and match the packages by name, but the resolved name is often'',
        ''# different. We therefore have to resolve each constraint in turn and assume'',
        ''# that the last Inst line corresponds to the requested package. This should be'',
        ''# the case when recommends and suggests are omitted.'',
        ''for CONSTRAINT; do'',
        tab @ ''apt satisfy -y -s --no-install-recommends --no-install-suggests "${CONSTRAINT}" |'',
        tab @ tab @ ''tac |'',
        tab @ tab @ ''sed -n -r '' @ sq @ ''s/^Inst ([^ ]+) '' @ bslash @ ''(([^ ]+).*/'' @ bslash @ ''1='' @ bslash
          @ ''2/p;T;q'' @ sq @ '' |'',
        tab @ tab @ ''xargs -t apt download'',
        ''done''])\<close>

definition deb_DownloadDeps :: "debConfig \<Rightarrow> llb \<Rightarrow> packageDependencyList option \<Rightarrow> llb" where
  "deb_DownloadDeps d worker constraints =
    (let scriptPath = ''/tmp/dalec/internal/deb/download.sh''
     in case constraints of
          None \<Rightarrow> Scratch
        | Some cs \<Rightarrow> run_mount worker
          ([RunArgs (scriptPath # AppendConstraints cs),
            RunMount scriptPath (llb.Mkfile Scratch ''download.sh'' 493 download_script None) [SourcePath ''download.sh'', Readonly],
            RunMount ''/var/lib/dpkg'' Scratch [Tmpfs],
            RunEnv ''DEBIAN_FRONTEND'' ''noninteractive'']
           @ WithMountedAptCache (dbc_AptCachePrefix d))
          ''/output'' Scratch)"

section \<open>Go\<close>

text \<open>The candidates come in the iteration order of the map.\<close>

definition candidate_path :: "string \<Rightarrow> string \<Rightarrow> string \<Rightarrow> string" where
  "candidate_path basePath sfx dep =
    (case Cut dep ''-'' of (_, ver, _) \<Rightarrow> (case Cut ver ''-'' of (ver', _, _) \<Rightarrow> basePath @ ''-'' @ ver' @ sfx))"

definition buildCandidatePaths :: "packageDependencyList \<Rightarrow> string \<Rightarrow> string \<Rightarrow> string \<Rightarrow> string list" where
  "buildCandidatePaths deps pre basePath sfx =
    map (candidate_path basePath sfx) (filter (\<lambda>dep. HasPrefix dep (pre @ ''-'')) (map fst deps))"

text \<open>\<open>fs.Stat\<close> opens the file.\<close>

fun first_candidate :: "reference \<Rightarrow> string \<Rightarrow> string list \<Rightarrow> string" where
  "first_candidate ref binaryName [] = []"
| "first_candidate ref binaryName (p # ps) =
    (case Open ref (Join [p, binaryName]) of
       Inr f \<Rightarrow> ''/'' @ p
     | Inl pe \<Rightarrow> first_candidate ref binaryName ps)"

definition findBinaryInCandidates :: "distroEnv \<Rightarrow> llb \<Rightarrow> string list \<Rightarrow> string \<Rightarrow> (goerr + string) act" where
  "findBinaryInCandidates env st candidates binaryName =
    (if candidates = [] then ret (Inr [])
     else or_err (FromState env st) (\<lambda>ref. ret (Inr (first_candidate ref binaryName candidates))))"

definition searchForAltGolang :: "distroEnv \<Rightarrow> spec \<Rightarrow> string \<Rightarrow> llb \<Rightarrow> (goerr + string) act" where
  "searchForAltGolang env sp targetKey st =
    (let deps = GetBuild (GetPackageDeps sp targetKey)
     in if \<not> HasGomods sp then ret (Inr [])
        else if map_of deps ''golang'' \<noteq> None then ret (Inr [])
        else findBinaryInCandidates env st (buildCandidatePaths deps ''golang'' ''usr/lib/go'' ''/bin'') ''go'')"

definition addPaths :: "string list \<Rightarrow> llb \<Rightarrow> llb" where
  "addPaths paths st = (if paths = [] then st else PrependPath st paths)"

definition with_go_cache :: "spec \<Rightarrow> spec" where
  "with_go_cache sp =
    (if list_ex (\<lambda>c. cc_GoBuild c \<noteq> None) (ab_Caches (sp_Build sp)) then sp
     else sp\<lparr>sp_Build := (sp_Build sp)\<lparr>ab_Caches := ab_Caches (sp_Build sp) @ [goBuild_cache]\<rparr>\<rparr>)"

text \<open>The paths to put in front of \<open>PATH\<close>, and the spec with its go build cache.\<close>

definition prepareGo :: "distroEnv \<Rightarrow> llb \<Rightarrow> spec \<Rightarrow> string \<Rightarrow> ((goerr + string list) \<times> spec) act" where
  "prepareGo env worker sp targetKey =
    (if \<not> HasGolang sp targetKey \<and> \<not> HasGomods sp then ret (Inr [], sp)
     else let sp' = with_go_cache sp
       in and_then (searchForAltGolang env sp' targetKey worker) (\<lambda>r.
            ret (case r of
                   Inl e \<Rightarrow> Inl (Wrap ''error while looking for alternate go bin path'' e)
                 | Inr goBin \<Rightarrow> Inr (if goBin = [] then [] else [goBin]), sp')))"

section \<open>Packages\<close>

definition deb_Validate :: "spec \<Rightarrow> gores" where
  "deb_Validate sp = None"

definition deb_source_package ::
  "distroEnv \<Rightarrow> sourceOpts \<Rightarrow> llb \<Rightarrow> spec \<Rightarrow> string \<Rightarrow> string \<Rightarrow> string list \<Rightarrow> (goerr + llb) option" where
  "deb_source_package env so worker sp targetKey versionID paths =
    SourcePackage (de_main_path env) so (addPaths paths worker) sp targetKey versionID (AddPath paths [])"

definition only_debs :: "llb \<Rightarrow> llb" where
  "only_debs st = Copy Scratch st ''/'' ''/'' (no_copyInfo\<lparr>cp_Includes := [''**/*.deb'']\<rparr>)"

definition deb_packages ::
  "distroEnv \<Rightarrow> sourceOpts \<Rightarrow> llb \<Rightarrow> spec \<Rightarrow> string \<Rightarrow> string \<Rightarrow> string list \<Rightarrow> (goerr + llb) act" where
  "deb_packages env so worker sp targetKey versionID paths =
    or_err (lift (deb_source_package env so worker sp targetKey versionID paths)) (\<lambda>srcPkg.
      (let st = BuildDeb (so_DiffMergeOff so) (SetBuildNetworkMode sp worker) sp srcPkg versionID
       in or_err (sign_act env (only_debs st) sp targetKey) (\<lambda>signed.
            ret (Inr (Copy st signed ''/'' ''/'' no_copyInfo)))))"

definition deb_BuildPkg ::
  "debConfig \<Rightarrow> distroEnv \<Rightarrow> platform option \<Rightarrow> llb \<Rightarrow> sourceOpts \<Rightarrow> spec \<Rightarrow> string \<Rightarrow> ((goerr + llb) \<times> spec) act" where
  "deb_BuildPkg d env pl worker0 so sp0 targetKey =
    and_then (if dbc_VersionID d = [] then ReadDistroVersionID env worker0 else ret (Inr (dbc_VersionID d))) (\<lambda>v.
      case v of
        Inl e \<Rightarrow> ret (Inl e, sp0)
      | Inr versionID \<Rightarrow>
          and_then (lift (deb_InstallBuildDeps d env so sp0 targetKey worker0)) (\<lambda>worker.
          and_then (prepareGo env worker sp0 targetKey) (\<lambda>(r, sp).
            case r of
              Inl e \<Rightarrow> ret (Inl e, sp)
            | Inr paths \<Rightarrow>
                and_then (deb_packages env so worker sp targetKey versionID paths) (\<lambda>pkg. ret (pkg, sp)))))"

definition deb_RunTests ::
  "debConfig \<Rightarrow> distroEnv \<Rightarrow> platform option \<Rightarrow> llb \<Rightarrow> spec \<Rightarrow> sourceOpts \<Rightarrow> llb \<Rightarrow> string \<Rightarrow> (llb option \<times> gores) act" where
  "deb_RunTests cfg env pl worker sp so ctr targetKey =
    and_then (solve_state id env ctr) (\<lambda>r. case r of
        Inl e \<Rightarrow> ret (None, Some e)
      | Inr ref \<Rightarrow>
          and_then (run_tests env sp ref (deb_InstallTestDeps cfg so targetKey sp) targetKey pl) (\<lambda>err.
            ret (Some ref, err)))"

definition deb_ExtractPkg ::
  "debConfig \<Rightarrow> distroEnv \<Rightarrow> platform option \<Rightarrow> llb \<Rightarrow> sourceOpts \<Rightarrow> spec \<Rightarrow> string \<Rightarrow> llb \<Rightarrow> llb option" where
  "deb_ExtractPkg c env pl worker so sp targetKey debSt =
    (let deps = GetSysext (GetPackageDeps sp targetKey);
         depDebs = (if deps = None \<or> deps = Some [] then Scratch else deb_DownloadDeps c worker deps)
     in Some (run_mount worker
      [RunArgs [''find'', ''/input'', ''-name'', ''*.deb'', ''-exec'', ''dpkg-deb'', ''--verbose'', ''--extract'',
         ''{}'', ''/output'', '';''],
       RunMount ''/input/build'' debSt [],
       RunMount ''/input/deps'' depDebs []]
      ''/output'' Scratch))"

section \<open>Containers\<close>

definition base_packages_spec :: "string list \<Rightarrow> spec" where
  "base_packages_spec pkgs =
    empty_spec\<lparr>sp_Name := ''dalec-deb-base-packages'', sp_Packager := ''dalec'',
      sp_Description := ''Base Packages for Debian-based Distros'', sp_Version := ''0.1'', sp_Revision := ''1'',
      sp_Dependencies := Some (empty_deps\<lparr>pd_Runtime :=
        foldl (\<lambda>m name. mput name \<lparr>pc_Version = [], pc_Arch = []\<rparr> m) [] pkgs\<rparr>)\<rparr>"

definition deb_baseImg :: "debConfig \<Rightarrow> sourceOpts \<Rightarrow> baseImage option \<Rightarrow> (goerr + llb) option" where
  "deb_baseImg c so bi =
    (case bi of
       Some b \<Rightarrow> map_option Inr (baseImage_ToState so bi)
     | None \<Rightarrow>
         if dbc_DefaultOutputImage c = []
         then Some (Inl (Msg ''no output image ref specified, cannot build from scratch''))
         else Some (Inr (Image (dbc_DefaultOutputImage c))))"

definition with_base_packages ::
  "debConfig \<Rightarrow> distroEnv \<Rightarrow> platform option \<Rightarrow> llb \<Rightarrow> sourceOpts \<Rightarrow> string \<Rightarrow> llb \<Rightarrow> (goerr + llb) act" where
  "with_base_packages c env pl worker so targetKey baseImg =
    (if dbc_BasePackages c = [] then ret (Inr baseImg)
     else and_then (deb_BuildPkg c env pl worker so (base_packages_spec (dbc_BasePackages c)) targetKey) (\<lambda>(r, _).
       ret (case r of
              Inl e \<Rightarrow> Inl e
            | Inr basePkg \<Rightarrow>
                Inr (ExecRoot baseImg ([RunEnv ''DEBIAN_FRONTEND'' ''noninteractive'']
                  @ WithMountedAptCache (dbc_AptCachePrefix c) @ InstallLocalPkg basePkg True
                  @ WithMountedAptCache (dbc_AptCachePrefix c))))))"

definition install_deb :: "debConfig \<Rightarrow> spec \<Rightarrow> string \<Rightarrow> runOpt list \<Rightarrow> llb \<Rightarrow> llb \<Rightarrow> llb" where
  "install_deb c sp targetKey withRepos debSt baseImg =
    ExecRoot baseImg (withRepos @ [RunEnv ''DEBIAN_FRONTEND'' ''noninteractive'']
      @ WithMountedAptCache (dbc_AptCachePrefix c)
      @ [RunMount ''/etc/dpkg/dpkg.cfg.d/99-dalec-debug'' (llb.Mkfile Scratch ''debug'' 420 ''debug=2'' None)
           [SourcePath ''debug'', Readonly]]
      @ (if HasDocs (GetArtifacts sp targetKey)
         then [RunMount ''/etc/dpkg/dpkg.cfg.d/excludes'' (llb.Mkfile Scratch ''tmp'' 420 [] None) [SourcePath ''tmp'']]
         else [])
      @ InstallLocalPkg debSt True)"

definition deb_BuildContainer ::
  "debConfig \<Rightarrow> distroEnv \<Rightarrow> platform option \<Rightarrow> llb \<Rightarrow> sourceOpts \<Rightarrow> spec \<Rightarrow> string \<Rightarrow> llb \<Rightarrow> (goerr + llb) act" where
  "deb_BuildContainer c env pl worker so sp targetKey debSt =
    or_err (ret (GetSingleBase sp targetKey)) (\<lambda>bi.
    or_err (lift (deb_baseImg c so bi)) (\<lambda>baseImg0.
    and_then (lift (deb_RepoMounts c so (deb_repos c sp targetKey ''install''))) (\<lambda>withRepos.
    or_err (with_base_packages c env pl worker so targetKey baseImg0) (\<lambda>baseImg.
      ret (Inr (InstallPostSymlinks (GetImagePost sp targetKey) worker
        (install_deb c sp targetKey withRepos debSt baseImg)))))))"

section \<open>Workers\<close>

definition deb_Worker :: "debConfig \<Rightarrow> distroEnv \<Rightarrow> sourceOpts \<Rightarrow> platform option \<Rightarrow> goerr + llb" where
  "deb_Worker cfg env so pl =
    (let base = Inr (ExecRoot (GetBaseImage so (dbc_ImageRef cfg))
           (AptInstall (dbc_BuilderPackages cfg) @ WithMountedAptCache (dbc_AptCachePrefix cfg)))
     in if dbc_ContextRef cfg = [] then base
        else (case so_GetContext so (dbc_ContextRef cfg) id of
                Inl e \<Rightarrow> Inl e
              | Inr (Some st) \<Rightarrow> Inr st
              | Inr None \<Rightarrow> base))"

definition deb_SysextWorker :: "debConfig \<Rightarrow> distroEnv \<Rightarrow> platform option \<Rightarrow> llb \<Rightarrow> llb" where
  "deb_SysextWorker cfg env pl worker =
    ExecRoot worker (AptInstall [''erofs-utils''] @ WithMountedAptCache (dbc_AptCachePrefix cfg))"

definition deb_config :: "debConfig \<Rightarrow> distroConfig" where
  "deb_config cfg =
    \<lparr>d_Validate = deb_Validate, d_Worker = deb_Worker cfg, d_SysextWorker = deb_SysextWorker cfg,
     d_BuildPkg = deb_BuildPkg cfg, d_ExtractPkg = deb_ExtractPkg cfg, d_BuildContainer = deb_BuildContainer cfg,
     d_RunTests = deb_RunTests cfg\<rparr>"

section \<open>Handlers and routes\<close>

definition deb_HandleWorker :: "debConfig \<Rightarrow> distroEnv \<Rightarrow> event platformBuildFunc" where
  "deb_HandleWorker cfg = handle_worker (dbc_ImageRef cfg) (deb_Worker cfg)"

definition HandleSourcePkg :: "debConfig \<Rightarrow> distroEnv \<Rightarrow> event platformBuildFunc" where
  "HandleSourcePkg cfg env platform sp0 targetKey =
    attempt None (ret (env_sourceOpts env platform)) (\<lambda>so.
    attempt None (ret (deb_Worker cfg env so platform)) (\<lambda>worker0.
    attempt None (ReadDistroVersionID env worker0) (\<lambda>versionID.
    and_then (lift (deb_InstallBuildDeps cfg env so sp0 targetKey worker0)) (\<lambda>worker.
    and_then (prepareGo env worker sp0 targetKey) (\<lambda>(r, sp).
    attempt None (ret r) (\<lambda>paths.
    attempt None (lift (wrap_dep ''error building source package''
        (deb_source_package env so worker sp targetKey versionID paths))) (\<lambda>st.
    attempt None (solve_state (Wrap ''error marshalling source package state'') env st) (\<lambda>ref.
      ret (Some ref, None, None)))))))))"

definition deb_mux :: "'r runner \<Rightarrow> debConfig \<Rightarrow> 'r buildMux" where
  "deb_mux run cfg =
    (let m1 = route ''deb'' ''Builds a deb package.'' True (run (HandlePackage (deb_config cfg))) new_mux;
         m2 = route ''testing/container'' ''Builds a container image for testing purposes only.'' False
                (run (HandleContainer (deb_config cfg))) m1;
         m3 = route ''dsc'' ''Builds a Debian source package.'' False (run (HandleSourcePkg cfg)) m2;
         m4 = route ''worker'' ''Builds the worker image.'' False (run (deb_HandleWorker cfg)) m3
     in if dbc_SysextSupported cfg
        then route ''testing/sysext'' ''Builds a systemd system extension image.'' False
               (run (HandleSysext (deb_config cfg))) m4
        else m4)"

definition deb_Handle :: "'r services \<Rightarrow> 'r runner \<Rightarrow> debConfig \<Rightarrow> 'r buildFunc" where
  "deb_Handle sv run cfg = mux_func sv (deb_mux run cfg)"

text \<open>The methods of the Debian configuration that repeat those of the handlers (distro.go).\<close>

definition deb_resolveConfig :: "distroEnv \<Rightarrow> spec \<Rightarrow> platform option \<Rightarrow> string \<Rightarrow> (goerr + imageSpec) option" where
  "deb_resolveConfig env sp platform targetKey =
    (case GetSingleBase sp targetKey of
       Inl e \<Rightarrow> Some (Inl e)
     | Inr bi \<Rightarrow>
         if bi = None then Some (Inr (BaseImageConfig env platform))
         else (case s_DockerImage (bi_Rootfs (the bi)) of
                 None \<Rightarrow> None
               | Some di \<Rightarrow>
                   Some (case wrap_inl ''error resolving base image config'' (de_ImageConfig env (di_Ref di) platform) of
                           Inl e \<Rightarrow> Inl e
                         | Inr dt \<Rightarrow> wrap_inl ''error unmarshalling base image config'' dt)))"

definition deb_BuildImageConfig :: "distroEnv \<Rightarrow> spec \<Rightarrow> platform option \<Rightarrow> string \<Rightarrow> (goerr + imageSpec) option" where
  "deb_BuildImageConfig env sp platform targetKey =
    then_do (deb_resolveConfig env sp platform targetKey) (\<lambda>img.
      Some (case BuildImageConfig (de_split env) sp targetKey (im_Config img) of
              Inl e \<Rightarrow> Inl e | Inr cfg \<Rightarrow> Inr (img\<lparr>im_Config := cfg\<rparr>)))"

end
