(* ===== verification/Windows.thy ===== *)
theory Windows
  imports Deb_Distro
begin

text \<open>
  The Windows target (targets/windows): binaries are cross-built in a Debian based worker, and either
  zipped or copied into one or more Windows base images.
\<close>

section \<open>The worker\<close>

definition outputDir :: string where "outputDir = ''/tmp/output''"
definition win_buildScriptName :: string where "win_buildScriptName = ''_build.sh''"
definition aptCachePrefix :: string where "aptCachePrefix = ''jammy-windowscross''"
definition JammyVersionID :: string where "JammyVersionID = ''ubuntu22.04''"
definition workerImgRef :: string where "workerImgRef = ''docker.io/library/ubuntu:jammy''"
definition WindowscrossWorkerContextName :: string where "WindowscrossWorkerContextName = ''dalec-windowscross-worker''"

definition win_distroConfig :: debConfig where
  "win_distroConfig =
    \<lparr>dbc_ImageRef = workerImgRef, dbc_ContextRef = WindowscrossWorkerContextName, dbc_VersionID = ''ubuntu22.04'',
     dbc_AptCachePrefix = aptCachePrefix,
     dbc_BuilderPackages = [''aptitude'', ''build-essential'', ''binutils-mingw-w64'', ''g++-mingw-w64-x86-64'', ''gcc'',
       ''git'', ''make'', ''pkg-config'', ''zip'', ''aptitude'', ''dpkg-dev'', ''debhelper''],
     dbc_BasePackages = [], dbc_RepoPlatformConfig = None, dbc_DefaultOutputImage = [], dbc_ExtraRepos = [],
     dbc_SysextSupported = False\<rparr>"

section \<open>Sources\<close>

definition put_some :: "string \<Rightarrow> 'v option \<Rightarrow> 'v gomap \<Rightarrow> 'v gomap" where
  "put_some k v m = (case v of None \<Rightarrow> m | Some x \<Rightarrow> mput k x m)"

definition specToSourcesLLB :: "llb \<Rightarrow> spec \<Rightarrow> sourceOpts \<Rightarrow> (goerr + llb gomap) option" where
  "specToSourcesLLB worker sp so =
    then_do (map_option Inr (Sources_llb sp so)) (\<lambda>out.
    then_do (wrap_dep ''error adding gomod sources'' (GomodDeps so worker sp)) (\<lambda>gomodSt.
    then_do (wrap_dep ''error adding cargohome sources'' (CargohomeDeps so worker sp)) (\<lambda>cargohomeSt.
    then_do (wrap_dep ''error preparing node deps'' (NodeModDeps so worker sp)) (\<lambda>nodeMods.
    then_do (wrap_dep ''error adding pip sources'' (PipDeps so worker sp)) (\<lambda>pipDepsSt.
      Some (Inr (put_some pipDepsName pipDepsSt (put_some cargohomeName cargohomeSt (put_some gomodsName gomodSt
        (foldl (\<lambda>m k. mput k (state_of nodeMods k) m) out (SortMapKeys nodeMods)))))))))))"

text \<open>
  A directory is mounted on its own, generated states from their root; the files are merged into one
  mount.  \<^term>\<open>None\<close> when the kind of a source cannot be told.
\<close>

datatype mounted = FileState llb | DirMount runOpt

definition mounted_source :: "string \<Rightarrow> llb gomap \<Rightarrow> source gomap \<Rightarrow> string \<Rightarrow> mounted option" where
  "mounted_source dst states sources k =
    (case map_of sources k of
       None \<Rightarrow> Some (DirMount (RunMount (Join [dst, k]) (state_of states k) [SourcePath ''/'']))
     | Some src \<Rightarrow>
         map_option (\<lambda>isDir. if isDir then DirMount (RunMount (Join [dst, k]) (state_of states k) [SourcePath k])
             else FileState (state_of states k)) (SourceIsDir src))"

definition withSourcesMounted :: "bool \<Rightarrow> string \<Rightarrow> llb gomap \<Rightarrow> source gomap \<Rightarrow> runOpt list option" where
  "withSourcesMounted dm dst states sources =
    map_option (\<lambda>ms.
        concat (map (\<lambda>m. case m of DirMount opt \<Rightarrow> [opt] | FileState _ \<Rightarrow> []) ms)
        @ [RunMount dst (MergeAtPath dm Scratch
             (concat (map (\<lambda>m. case m of FileState st \<Rightarrow> [st] | DirMount _ \<Rightarrow> []) ms)) ''/'') []])
      (those (map (mounted_source dst states sources) (SortMapKeys states)))"

section \<open>Scripts\<close>

definition win_addGoCache :: "spec \<Rightarrow> string \<Rightarrow> spec" where
  "win_addGoCache sp targetKey =
    (if \<not> HasGomods sp \<and> \<not> HasGolang sp targetKey then sp else with_go_cache sp)"

definition move_binary :: "string \<Rightarrow> artifactConfig \<Rightarrow> string list" where
  "move_binary bin config =
    (''mv '' @ sq @ bin @ sq @ '' '' @ sq @ outputDir @ sq)
    # (if FileMode_Perm (ac_Permissions config) \<noteq> 0
       then [''chmod '' @ octal (FileMode_Perm (ac_Permissions config)) @ '' '' @ sq @ outputDir @ ''/'' @ bin @ sq] else [])"

definition generateInvocationScript :: "artifactConfig gomap \<Rightarrow> string" where
  "generateInvocationScript binaries =
    lines_text ([''#!/usr/bin/env sh'', ''set -ex'', ''/tmp/scripts/'' @ win_buildScriptName]
      @ for_sorted move_binary binaries)"

text \<open>One build step; the exports are written without a line end.\<close>

definition win_step :: "bool \<Rightarrow> buildStep \<Rightarrow> string" where
  "win_step isLast step =
    line ''('' @ concat (map (\<lambda>(k, v). ''export '' @ k @ ''='' @ dq @ v @ dq) (step_Env step))
    @ line (step_Command step) @ '')'' @ (if isLast then nl else line ('' && '' @ bslash))"

fun win_steps :: "buildStep list \<Rightarrow> string" where
  "win_steps [] = []"
| "win_steps (st # sts) = win_step (sts = []) st @ win_steps sts"

definition win_build_text :: "spec \<Rightarrow> string" where
  \<open>win_build_text sp =
    lines_text ([''#!/usr/bin/env sh'', ''set -x'']
      @ (if HasGomods sp then [''export GOMODCACHE="$(pwd)/'' @ gomodsName @ ''"''] else [])
      @ (if HasCargohomes sp then [''export CARGO_HOME="$(pwd)/'' @ cargohomeName @ ''"''] else [])
      @ (if HasPips sp then pip_setup pipDepsName else []))
    @ win_steps (ab_Steps (sp_Build sp))\<close>

definition win_createBuildScript :: "spec \<Rightarrow> llb" where
  "win_createBuildScript sp = llb.Mkfile Scratch win_buildScriptName 504 (win_build_text sp) None"

section \<open>Binaries\<close>

definition win_run_opts :: "spec \<Rightarrow> string \<Rightarrow> runOpt list \<Rightarrow> runOpt list" where
  "win_run_opts sp targetKey mounts =
    [ShArgs (generateInvocationScript (a_Binaries (GetArtifacts sp targetKey))), RunDir ''/build''] @ mounts
    @ [RunMount ''/tmp/scripts'' (win_createBuildScript sp) [], RunEnv ''GOOS'' ''windows'']
    @ map (\<lambda>c. RunCache c (Join [JammyVersionID, targetKey])) (ab_Caches (sp_Build sp))
    @ map (\<lambda>(k, v). RunStateEnv k v) (ab_Env (sp_Build sp))"

definition win_binaries :: "distroEnv \<Rightarrow> spec \<Rightarrow> llb \<Rightarrow> sourceOpts \<Rightarrow> string \<Rightarrow> (goerr + llb) option" where
  "win_binaries env sp0 worker0 so targetKey =
    (case deb_InstallBuildDeps win_distroConfig env so sp0 targetKey worker0 of
       None \<Rightarrow> None
     | Some worker \<Rightarrow>
         then_do (wrap_dep ''could not generate sources'' (specToSourcesLLB worker sp0 so)) (\<lambda>sources.
           (let sp = win_addGoCache sp0 targetKey
            in case PatchSources worker sp sources of
                 None \<Rightarrow> None
               | Some patched \<Rightarrow>
                   map_option (\<lambda>mounts. Inr (run_mount (SetBuildNetworkMode sp worker)
                       (win_run_opts sp targetKey mounts) outputDir Scratch))
                     (withSourcesMounted (so_DiffMergeOff so) ''/build'' patched (sp_Sources sp)))))"

definition buildBinaries :: "distroEnv \<Rightarrow> spec \<Rightarrow> llb \<Rightarrow> sourceOpts \<Rightarrow> string \<Rightarrow> (goerr + llb) act" where
  "buildBinaries env sp worker so targetKey =
    or_err (lift (win_binaries env sp worker so targetKey)) (\<lambda>st.
      sign_act env st (win_addGoCache sp targetKey) targetKey)"

definition wrap_act :: "string \<Rightarrow> (goerr + 'a) act \<Rightarrow> (goerr + 'a) act" where
  "wrap_act msg m = and_then m (\<lambda>r. ret (wrap_inl msg r))"

section \<open>Zip files\<close>

definition getZipLLB :: "llb \<Rightarrow> platform \<Rightarrow> spec \<Rightarrow> llb \<Rightarrow> llb" where
  "getZipLLB worker p sp artifacts =
    (let fileName = sp_Name sp @ ''_'' @ sp_Version sp @ ''-'' @ sp_Revision sp @ ''_'' @ pl_Architecture p @ ''.zip''
     in run_mount worker
          [ShArgs (''zip '' @ Join [outputDir, fileName] @ '' *''), RunDir ''/tmp/artifacts'',
           RunMount ''/tmp/artifacts'' artifacts []]
          outputDir Scratch)"

text \<open>The platform is dereferenced without a check.\<close>

definition handleZip :: "distroEnv \<Rightarrow> event platformBuildFunc" where
  "handleZip env platform sp targetKey =
    attempt None (ret (env_sourceOpts env None)) (\<lambda>so.
    attempt None (ret (deb_Worker win_distroConfig env so None)) (\<lambda>worker.
    attempt None (wrap_act ''unable to build binaries'' (buildBinaries env sp worker so targetKey)) (\<lambda>bin.
    and_then (lift platform) (\<lambda>p.
    attempt None (solve_only (Wrap ''error marshalling llb'') env (getZipLLB worker p sp bin)) (\<lambda>res.
      ret (case res of
             Inl e \<Rightarrow> (None, Some (platform_image no_platform), Some e)
           | Inr ref \<Rightarrow> (Some ref, Some (platform_image no_platform), None)))))))"

section \<open>Containers\<close>

definition defaultBaseImage :: string where "defaultBaseImage = ''mcr.microsoft.com/windows/nanoserver:1809''"
definition windowsSystemDir :: string where "windowsSystemDir = ''/Windows/System32/''"

definition validateRuntimeDeps :: "spec \<Rightarrow> string \<Rightarrow> gores" where
  "validateRuntimeDeps sp targetKey =
    (if GetRuntime (GetPackageDeps sp targetKey) \<noteq> []
     then Some (Msg ''targets with windows output images cannot have runtime dependencies'') else None)"

definition win_bases :: "spec \<Rightarrow> string \<Rightarrow> baseImage list" where
  "win_bases sp targetKey =
    (case GetImageBases sp targetKey of
       Some (b # bs) \<Rightarrow> b # bs
     | _ \<Rightarrow> [image_of_ref defaultBaseImage])"

definition copy_symlink :: "string \<Rightarrow> llb \<Rightarrow> string \<Rightarrow> llb" where
  "copy_symlink oldpath st newpath =
    (let made = llb.Mkdir st (Dir newpath) 493 True None in Copy made made oldpath newpath no_copyInfo)"

definition copySymlinks :: "postInstall option \<Rightarrow> llb \<Rightarrow> llb" where
  "copySymlinks post st =
    (case post of
       None \<Rightarrow> st
     | Some p \<Rightarrow>
         foldl (\<lambda>s oldpath. foldl (copy_symlink oldpath) s
             (case map_of (pi_Symlinks p) oldpath of None \<Rightarrow> [] | Some cfg \<Rightarrow> sort (sl_Paths cfg)))
           st (SortMapKeys (pi_Symlinks p)))"

text \<open>
  The configurations of the base images are resolved concurrently; \<open>pick\<close> is the error that is reported
  first.  A base image without an image source panics.
\<close>

definition base_config :: "distroEnv \<Rightarrow> platform \<Rightarrow> nat \<times> baseImage \<Rightarrow> (goerr + imageSpec) option" where
  "base_config env basePlatform ib =
    map_option (\<lambda>di. case de_ImageConfig env (di_Ref di) (Some basePlatform) of
          Inl e \<Rightarrow> Inl e
        | Inr dt \<Rightarrow>
            wrap_inl (''error unmarshalling base image config for base image at index '' @ nat_str (fst ib)) dt)
      (s_DockerImage (bi_Rootfs (snd ib)))"

fun lefts :: "('a + 'b) list \<Rightarrow> 'a list" where
  "lefts [] = []"
| "lefts (Inl e # rs) = e # lefts rs"
| "lefts (Inr x # rs) = lefts rs"

fun rights :: "('a + 'b) list \<Rightarrow> 'b list" where
  "rights [] = []"
| "rights (Inl e # rs) = rights rs"
| "rights (Inr x # rs) = x # rights rs"

definition base_configs :: "distroEnv \<Rightarrow> (goerr list \<Rightarrow> goerr) \<Rightarrow> platform \<Rightarrow> baseImage list \<Rightarrow> (goerr + imageSpec list) option" where
  "base_configs env pick basePlatform bases =
    map_option (\<lambda>rs. if lefts rs \<noteq> [] then Inl (pick (lefts rs)) else Inr (rights rs))
      (those (map (base_config env basePlatform) (enumerate 0 bases)))"

text \<open>Every base image must have a platform of its own; \<open>fmtAll\<close> is \<open>platforms.FormatAll\<close>.\<close>

definition distinct_platforms :: "(platform \<Rightarrow> string) \<Rightarrow> imageSpec list \<Rightarrow> bool" where
  "distinct_platforms fmtAll cfgs = distinct (map (\<lambda>c. fmtAll (im_Platform c)) cfgs)"

type_synonym win_built = "llb option \<times> imageSpec option \<times> imageSpec option \<times> gores"

definition win_out :: "baseImage \<Rightarrow> sourceOpts \<Rightarrow> llb \<Rightarrow> postInstall option \<Rightarrow> llb option" where
  "win_out bi so bin post =
    map_option (\<lambda>baseImage. copySymlinks post (Copy baseImage bin ''/'' windowsSystemDir no_copyInfo))
      (baseImage_ToState so (Some bi))"

text \<open>The callback for one base image.  A configuration that was decoded before decodes again.\<close>

definition win_container ::
  "distroEnv \<Rightarrow> uiClient \<Rightarrow> sourceOpts \<Rightarrow> string \<Rightarrow> baseImage list \<Rightarrow> imageSpec list \<Rightarrow> platform option \<Rightarrow> nat
   \<Rightarrow> (goerr + ((goerr + llb) \<times> imageSpec \<times> imageSpec)) act" where
  "win_container env ui so targetKey bases cfgs platform idx =
    or_err (lift (LoadSpec (de_libs env) ui (\<lambda>_. False) platform)) (\<lambda>sp.
    or_err (ret (case validateRuntimeDeps sp targetKey of
                   Some e \<Rightarrow> Inl (Wrap ''error validating windows spec'' e) | None \<Rightarrow> Inr ())) (\<lambda>_.
    or_err (ret (deb_Worker win_distroConfig env so None)) (\<lambda>worker.
    or_err (wrap_act ''unable to build binary'' (buildBinaries env sp worker so targetKey)) (\<lambda>bin.
    and_then (lift (if idx < length bases \<and> idx < length cfgs then Some () else None)) (\<lambda>_.
    and_then (lift (win_out (bases ! idx) so bin (GetImagePost sp targetKey))) (\<lambda>out.
    or_err (solve_only id env out) (\<lambda>res.
      ret (case BuildImageConfig (de_split env) sp targetKey (im_Config (cfgs ! idx)) of
             Inl e \<Rightarrow> Inl (Wrap ''error creating image config'' e)
           | Inr cfg \<Rightarrow> Inr (res, (cfgs ! idx)\<lparr>im_Config := cfg\<rparr>, cfgs ! idx)))))))))"

definition win_returned :: "goerr + ((goerr + llb) \<times> imageSpec \<times> imageSpec) \<Rightarrow> win_built" where
  "win_returned r =
    (case r of
       Inl e \<Rightarrow> (None, None, None, Some e)
     | Inr (Inl e, img, base) \<Rightarrow> (None, Some img, Some base, Some e)
     | Inr (Inr ref, img, base) \<Rightarrow> (Some ref, Some img, Some base, None))"

definition win_callback ::
  "distroEnv \<Rightarrow> uiClient \<Rightarrow> sourceOpts \<Rightarrow> string \<Rightarrow> baseImage list \<Rightarrow> imageSpec list \<Rightarrow> platform option \<Rightarrow> nat \<Rightarrow> win_built act" where
  "win_callback env ui so targetKey bases cfgs platform idx =
    and_then (win_container env ui so targetKey bases cfgs platform idx) (\<lambda>r. ret (win_returned r))"

text \<open>
  What is checked before the build: the target platforms, the spec, the base images.  The result holds
  the base images with their configurations.
\<close>

definition win_prepare ::
  "distroEnv \<Rightarrow> (goerr list \<Rightarrow> goerr) \<Rightarrow> (platform \<Rightarrow> string) \<Rightarrow> string \<Rightarrow> (goerr + (uiClient \<times> baseImage list \<times> imageSpec list)) option" where
  "win_prepare env pick fmtAll goarch =
    then_do (Some (de_ui env)) (\<lambda>ui.
      if 1 < length (ui_TargetPlatforms ui) then Some (Inl (Msg ''multi-platform output is not supported''))
      else then_do (LoadSpec (de_libs env) ui (\<lambda>_. False) None) (\<lambda>sp.
        (let bases = win_bases sp (GetTargetKey (de_opts env));
             basePlatform = (case ui_TargetPlatforms ui of
               p # _ \<Rightarrow> p | [] \<Rightarrow> no_platform\<lparr>pl_OS := ''windows'', pl_Architecture := goarch\<rparr>)
         in then_do (base_configs env pick basePlatform bases) (\<lambda>cfgs.
              if \<not> distinct_platforms fmtAll cfgs
              then Some (Inl (Msg ''multiple base images provided with the same platform value''))
              else Some (Inr (ui\<lparr>ui_TargetPlatforms := map im_Platform cfgs\<rparr>, bases, cfgs))))))"

text \<open>\<open>build\<close> is \<open>dc.Build\<close>, which calls back for every target platform of the client.\<close>

definition handleContainer ::
  "(uiClient \<Rightarrow> (platform option \<Rightarrow> nat \<Rightarrow> win_built act) \<Rightarrow> goerr + 'rb) \<Rightarrow> ('rb \<Rightarrow> goerr + 'r) \<Rightarrow>
   distroEnv \<Rightarrow> (goerr list \<Rightarrow> goerr) \<Rightarrow> (platform \<Rightarrow> string) \<Rightarrow> string \<Rightarrow> (goerr + 'r) option" where
  "handleContainer build finalize env pick fmtAll goarch =
    then_do (win_prepare env pick fmtAll goarch) (\<lambda>(ui, bases, cfgs).
      Some (case build ui (win_callback env ui
              (SourceOptFromUIClient (de_client env) (de_libs env) (de_DiffMergeOff env) ui None)
              (GetTargetKey (de_opts env)) bases cfgs) of
              Inl e \<Rightarrow> Inl e | Inr rb \<Rightarrow> finalize rb))"

section \<open>Routes\<close>

definition win_handleWorker :: "distroEnv \<Rightarrow> event platformBuildFunc" where
  "win_handleWorker env platform sp targetKey =
    attempt None (ret (env_sourceOpts env None)) (\<lambda>so.
    attempt None (ret (deb_Worker win_distroConfig env so None)) (\<lambda>st.
    attempt None (solve_only id env st) (\<lambda>res.
    attempt None (ret (de_ImageConfig env workerImgRef None)) (\<lambda>dt.
    attempt None (ret dt) (\<lambda>img.
    attempt None (ret res) (\<lambda>ref. ret (Some ref, Some img, None)))))))"

definition win_mux :: "'r runner \<Rightarrow> 'r buildFunc \<Rightarrow> libs \<Rightarrow> 'r buildMux" where
  "win_mux run container lb =
    (let defaultPlatform = (lib_DefaultSpec lb)\<lparr>pl_OS := ''windows''\<rparr>;
         m1 = route ''zip'' ''Builds binaries combined into a zip file'' False
                (WithDefaultPlatform (lib_Format lb) defaultPlatform (run handleZip)) new_mux;
         m2 = route ''container'' ''Builds binaries and installs them into a Windows base image'' True
                (WithDefaultPlatform (lib_Format lb) defaultPlatform container) m1
     in route ''worker'' ''Builds the base worker image responsible for building the package'' False
          (run win_handleWorker) m2)"

definition win_Handle :: "'r services \<Rightarrow> 'r runner \<Rightarrow> 'r buildFunc \<Rightarrow> libs \<Rightarrow> 'r buildFunc" where
  "win_Handle sv run container lb = mux_func sv (win_mux run container lb)"

end
