(* ===== verification/Targets.thy ===== *)
theory Targets
  imports Windows
begin

text \<open>
  The distributions the program ships (targets/linux/rpm/azlinux, almalinux, rockylinux and
  targets/linux/deb/debian, ubuntu) and their registration as build targets (targets/plugin/init.go).
\<close>

section \<open>Rpm distributions\<close>

definition rpm_repo_platform :: repoPlatformConfig where
  "rpm_repo_platform = \<lparr>rpc_ConfigRoot = ''/etc/yum.repos.d'', rpc_GPGKeyRoot = ''/etc/pki/rpm-gpg'', rpc_ConfigExt = ''.repo''\<rparr>"

text \<open>The virtual package that pulls in the base packages of a distribution.\<close>

definition base_spec :: "string \<Rightarrow> packageDependencyList \<Rightarrow> packageDependencyList \<Rightarrow> spec" where
  "base_spec name rt recs =
    empty_spec\<lparr>sp_Name := ''dalec-base-'' @ name, sp_Version := ''0.0.1'', sp_Revision := ''1'', sp_License := ''Apache-2.0'',
      sp_Description := ''DALEC base packages for '' @ name,
      sp_Dependencies := Some (empty_deps\<lparr>pd_Runtime := rt, pd_Recommends := recs\<rparr>)\<rparr>"

definition any_version :: packageConstraints where
  "any_version = \<lparr>pc_Version = [], pc_Arch = []\<rparr>"

definition azlinux_builderPackages :: "string list" where
  "azlinux_builderPackages = [''rpm-build'', ''mariner-rpm-macros'', ''build-essential'', ''ca-certificates'']"

definition azlinux_basePackages :: "string \<Rightarrow> spec list" where
  "azlinux_basePackages name =
    [base_spec name [(''distroless-packages-minimal'', any_version)] [(''prebuilt-ca-certificates'', any_version)]]"

definition almalinux_builderPackages :: "string list" where
  "almalinux_builderPackages = [''binutils'', ''rpm-build'', ''ca-certificates'']"

definition almalinux_basePackages :: "string \<Rightarrow> spec list" where
  "almalinux_basePackages name =
    [base_spec name [(''almalinux-release'', any_version), (''tzdata'', any_version)] []]"

definition rockylinux_builderPackages :: "string list" where
  "rockylinux_builderPackages = [''rpm-build'', ''ca-certificates'']"

definition rockylinux_basePackages :: "string \<Rightarrow> spec list" where
  "rockylinux_basePackages name =
    [base_spec name [(''rocky-release'', any_version), (''tzdata'', any_version)] []]"

definition Azlinux3Config :: rpmConfig where
  "Azlinux3Config =
    \<lparr>rc_FullName = [], rc_ImageRef = ''mcr.microsoft.com/azurelinux/base/core:3.0'', rc_ContextRef = ''dalec-azlinux3-worker'',
     rc_ReleaseVer = ''3.0'', rc_BuilderPackages = azlinux_builderPackages, rc_BasePackages = azlinux_basePackages ''azlinux3'',
     rc_RepoPlatformConfig = Some rpm_repo_platform, rc_DefaultOutputImage = [], rc_InstallFunc = TdnfInstall,
     rc_CacheName = ''azlinux3-tdnf-cache'', rc_CacheAddPlatform = False, rc_CacheDir = ''/var/cache/tdnf'',
     rc_SysextSupported = True\<rparr>"

definition Mariner2Config :: rpmConfig where
  "Mariner2Config =
    \<lparr>rc_FullName = [], rc_ImageRef = ''mcr.microsoft.com/cbl-mariner/base/core:2.0'', rc_ContextRef = ''dalec-mariner2-worker'',
     rc_ReleaseVer = ''2.0'', rc_BuilderPackages = azlinux_builderPackages, rc_BasePackages = azlinux_basePackages ''mariner2'',
     rc_RepoPlatformConfig = Some rpm_repo_platform, rc_DefaultOutputImage = [], rc_InstallFunc = TdnfInstall,
     rc_CacheName = ''mariner2-tdnf-cache'', rc_CacheAddPlatform = False, rc_CacheDir = ''/var/cache/tdnf'',
     rc_SysextSupported = False\<rparr>"

definition almalinux_ConfigV8 :: rpmConfig where
  "almalinux_ConfigV8 =
    \<lparr>rc_FullName = [], rc_ImageRef = ''docker.io/library/almalinux:8'', rc_ContextRef = ''dalec-almalinux8-worker'',
     rc_ReleaseVer = ''8'', rc_BuilderPackages = almalinux_builderPackages, rc_BasePackages = almalinux_basePackages ''almalinux8'',
     rc_RepoPlatformConfig = Some rpm_repo_platform, rc_DefaultOutputImage = [], rc_InstallFunc = DnfInstall,
     rc_CacheName = ''almalinux8-dnf-cache'', rc_CacheAddPlatform = True, rc_CacheDir = ''/var/cache/dnf'',
     rc_SysextSupported = False\<rparr>"

definition almalinux_ConfigV9 :: rpmConfig where
  "almalinux_ConfigV9 =
    \<lparr>rc_FullName = [], rc_ImageRef = ''docker.io/library/almalinux:9'', rc_ContextRef = ''dalec-almalinux9-worker'',
     rc_ReleaseVer = ''9'', rc_BuilderPackages = almalinux_builderPackages, rc_BasePackages = almalinux_basePackages ''almalinux9'',
     rc_RepoPlatformConfig = Some rpm_repo_platform, rc_DefaultOutputImage = [], rc_InstallFunc = DnfInstall,
     rc_CacheName = ''almalinux9-dnf-cache'', rc_CacheAddPlatform = True, rc_CacheDir = ''/var/cache/dnf'',
     rc_SysextSupported = False\<rparr>"

definition rockylinux_ConfigV8 :: rpmConfig where
  "rockylinux_ConfigV8 =
    \<lparr>rc_FullName = [], rc_ImageRef = ''docker.io/library/rockylinux:8'', rc_ContextRef = ''dalec-rockylinux8-worker'',
     rc_ReleaseVer = ''8'', rc_BuilderPackages = rockylinux_builderPackages, rc_BasePackages = rockylinux_basePackages ''rockylinux8'',
     rc_RepoPlatformConfig = Some rpm_repo_platform, rc_DefaultOutputImage = [], rc_InstallFunc = DnfInstall,
     rc_CacheName = ''rockylinux8-dnf-cache'', rc_CacheAddPlatform = False, rc_CacheDir = ''/var/cache/dnf'',
     rc_SysextSupported = False\<rparr>"

definition rockylinux_ConfigV9 :: rpmConfig where
  "rockylinux_ConfigV9 =
    \<lparr>rc_FullName = [], rc_ImageRef = ''docker.io/library/rockylinux:9'', rc_ContextRef = ''dalec-rockylinux9-worker'',
     rc_ReleaseVer = ''9'', rc_BuilderPackages = rockylinux_builderPackages @ [''systemd-rpm-macros''], rc_BasePackages = rockylinux_basePackages ''rockylinux9'',
     rc_RepoPlatformConfig = Some rpm_repo_platform, rc_DefaultOutputImage = [], rc_InstallFunc = DnfInstall,
     rc_CacheName = ''rockylinux9-dnf-cache'', rc_CacheAddPlatform = False, rc_CacheDir = ''/var/cache/dnf'',
     rc_SysextSupported = False\<rparr>"

section \<open>Debian distributions\<close>

definition deb_builderPackages :: "string list" where
  "deb_builderPackages = [''aptitude'', ''dpkg-dev'', ''devscripts'', ''equivs'', ''fakeroot'', ''dh-make'', ''build-essential'',
     ''dh-apparmor'', ''dh-make'', ''dh-exec'']"

definition deb_basePackages :: "string list" where
  "deb_basePackages = [''ca-certificates'']"

definition backports :: packageRepositoryConfig where
  "backports =
    \<lparr>repo_Keys = [],
     repo_Config = [(''backports.list'', Source None None None None None
       (Some \<lparr>inl_File = Some \<lparr>if_Contents = ''deb http://archive.debian.org/debian bullseye-backports main'',
          if_Permissions = 0, if_UID = 0, if_GID = 0\<rparr>, inl_Dir = None\<rparr>) [] None None [])],
     repo_Data = [], repo_Envs = [''build'', ''test'', ''install'']\<rparr>"

definition deb_distro :: "string \<Rightarrow> string \<Rightarrow> string \<Rightarrow> packageRepositoryConfig list \<Rightarrow> bool \<Rightarrow> debConfig" where
  "deb_distro ref name versionID repos sysext =
    \<lparr>dbc_ImageRef = ref, dbc_ContextRef = ''dalec-'' @ name @ ''-worker'', dbc_VersionID = versionID,
     dbc_AptCachePrefix = name, dbc_BuilderPackages = deb_builderPackages, dbc_BasePackages = deb_basePackages,
     dbc_RepoPlatformConfig = None, dbc_DefaultOutputImage = ref, dbc_ExtraRepos = repos, dbc_SysextSupported = sysext\<rparr>"

definition BookwormConfig :: debConfig where
  "BookwormConfig = deb_distro ''docker.io/library/debian:bookworm'' ''bookworm'' ''debian12'' [] False"

definition BullseyeConfig :: debConfig where
  "BullseyeConfig = deb_distro ''docker.io/library/debian:bullseye'' ''bullseye'' ''debian11'' [backports] False"

definition BionicConfig :: debConfig where
  "BionicConfig = deb_distro ''docker.io/library/ubuntu:bionic'' ''bionic'' ''ubuntu18.04'' [] False"

definition FocalConfig :: debConfig where
  "FocalConfig = deb_distro ''docker.io/library/ubuntu:focal'' ''focal'' ''ubuntu20.04'' [] False"

definition JammyConfig :: debConfig where
  "JammyConfig = deb_distro ''docker.io/library/ubuntu:jammy'' ''jammy'' JammyVersionID [] False"

definition NobleConfig :: debConfig where
  "NobleConfig = deb_distro ''docker.io/library/ubuntu:noble'' ''noble'' ''ubuntu24.04'' [] True"

section \<open>Registration\<close>

text \<open>The targets that are registered when the program starts; \<open>container\<close> is the Windows container build.\<close>

definition builtin_targets :: "'r services \<Rightarrow> 'r runner \<Rightarrow> 'r buildFunc \<Rightarrow> libs \<Rightarrow> 'r buildFunc gomap" where
  "builtin_targets sv run container lb =
    [(''bookworm'', deb_Handle sv run BookwormConfig),
     (''bullseye'', deb_Handle sv run BullseyeConfig),
     (''bionic'', deb_Handle sv run BionicConfig),
     (''focal'', deb_Handle sv run FocalConfig),
     (''jammy'', deb_Handle sv run JammyConfig),
     (''noble'', deb_Handle sv run NobleConfig),
     (''almalinux8'', rpm_Handle sv run almalinux_ConfigV8),
     (''almalinux9'', rpm_Handle sv run almalinux_ConfigV9),
     (''rockylinux8'', rpm_Handle sv run rockylinux_ConfigV8),
     (''rockylinux9'', rpm_Handle sv run rockylinux_ConfigV9),
     (''mariner2'', rpm_Handle sv run Mariner2Config),
     (''azlinux3'', rpm_Handle sv run Azlinux3Config),
     (''windowscross'', win_Handle sv run container lb)]"

text \<open>The mux options that add the targets of one family of distributions.\<close>

definition debian_Handlers :: "'r services \<Rightarrow> 'r runner \<Rightarrow> buildOpts \<Rightarrow> 'r buildMux \<Rightarrow> muxerr option \<times> 'r buildMux" where
  "debian_Handlers sv run =
    LoadBuiltinTargets sv [(''bookworm'', deb_Handle sv run BookwormConfig), (''bullseye'', deb_Handle sv run BullseyeConfig)]"

definition ubuntu_Handlers :: "'r services \<Rightarrow> 'r runner \<Rightarrow> buildOpts \<Rightarrow> 'r buildMux \<Rightarrow> muxerr option \<times> 'r buildMux" where
  "ubuntu_Handlers sv run =
    LoadBuiltinTargets sv [(''bionic'', deb_Handle sv run BionicConfig), (''focal'', deb_Handle sv run FocalConfig),
      (''jammy'', deb_Handle sv run JammyConfig), (''noble'', deb_Handle sv run NobleConfig)]"

definition almalinux_Handlers :: "'r services \<Rightarrow> 'r runner \<Rightarrow> buildOpts \<Rightarrow> 'r buildMux \<Rightarrow> muxerr option \<times> 'r buildMux" where
  "almalinux_Handlers sv run =
    LoadBuiltinTargets sv [(''almalinux8'', rpm_Handle sv run almalinux_ConfigV8), (''almalinux9'', rpm_Handle sv run almalinux_ConfigV9)]"

definition rockylinux_Handlers :: "'r services \<Rightarrow> 'r runner \<Rightarrow> buildOpts \<Rightarrow> 'r buildMux \<Rightarrow> muxerr option \<times> 'r buildMux" where
  "rockylinux_Handlers sv run =
    LoadBuiltinTargets sv [(''rockylinux8'', rpm_Handle sv run rockylinux_ConfigV8), (''rockylinux9'', rpm_Handle sv run rockylinux_ConfigV9)]"

definition azlinux_Handlers :: "'r services \<Rightarrow> 'r runner \<Rightarrow> buildOpts \<Rightarrow> 'r buildMux \<Rightarrow> muxerr option \<times> 'r buildMux" where
  "azlinux_Handlers sv run =
    LoadBuiltinTargets sv [(''mariner2'', rpm_Handle sv run Mariner2Config), (''azlinux3'', rpm_Handle sv run Azlinux3Config)]"

definition rpm_distros :: "rpmConfig list" where
  "rpm_distros = [Azlinux3Config, Mariner2Config, almalinux_ConfigV8, almalinux_ConfigV9, rockylinux_ConfigV8, rockylinux_ConfigV9]"

definition deb_distros :: "debConfig list" where
  "deb_distros = [BookwormConfig, BullseyeConfig, BionicConfig, FocalConfig, JammyConfig, NobleConfig]"

end
