(* ===== verification/Distro_Props.thy ===== *)
theory Distro_Props
  imports Targets Package_Props
begin

text \<open>
  Properties of the handlers of the Linux distributions: the contract of a \<open>DistroConfig\<close> as a locale,
  what the shared handlers promise under it, and its interpretation for the rpm and the Debian
  distributions.
\<close>

section \<open>The graphs below a state\<close>

fun subgraphs :: "llb \<Rightarrow> llb list"
and opt_subgraphs :: "runOpt \<Rightarrow> llb list" where
  "subgraphs (Copy b s f t i) = Copy b s f t i # subgraphs b @ subgraphs s"
| "subgraphs (llb.Mkfile b p m c ids) = llb.Mkfile b p m c ids # subgraphs b"
| "subgraphs (llb.Mkdir b p m w ids) = llb.Mkdir b p m w ids # subgraphs b"
| "subgraphs (ExecRoot b opts) = ExecRoot b opts # subgraphs b @ concat (map opt_subgraphs opts)"
| "subgraphs (ExecMount d b opts) = ExecMount d b opts # subgraphs b @ concat (map opt_subgraphs opts)"
| "subgraphs (Merge sts) = Merge sts # concat (map subgraphs sts)"
| "subgraphs (Diff a b) = Diff a b # subgraphs a @ subgraphs b"
| "subgraphs (WithEnv b k v) = WithEnv b k v # subgraphs b"
| "subgraphs (WithDir b d) = WithDir b d # subgraphs b"
| "subgraphs (WithNetwork b m) = WithNetwork b m # subgraphs b"
| "subgraphs (PrependPath b ps) = PrependPath b ps # subgraphs b"
| "subgraphs (AddExtraHost b h ip) = AddExtraHost b h ip # subgraphs b"
| "subgraphs (AsyncErr b e) = AsyncErr b e # subgraphs b"
| "subgraphs st = [st]"
| "opt_subgraphs (RunMount d st os) = subgraphs st"
| "opt_subgraphs opt = []"

definition input_of :: "llb \<Rightarrow> llb \<Rightarrow> bool" where
  "input_of s g = (s \<in> set (subgraphs g))"

lemma subgraphs_self [simp]: "st \<in> set (subgraphs st)"
  by (cases st) auto

lemma input_of_self [simp]: "input_of st st"
  by (simp add: input_of_def)

lemma subgraphs_below:
  "t \<in> set (subgraphs g) \<Longrightarrow> set (subgraphs t) \<subseteq> set (subgraphs g)"
  "t \<in> set (opt_subgraphs opt) \<Longrightarrow> set (subgraphs t) \<subseteq> set (opt_subgraphs opt)"
  by (induction g and opt rule: subgraphs_opt_subgraphs.induct) fastforce+

lemma input_of_trans: "input_of s t \<Longrightarrow> input_of t g \<Longrightarrow> input_of s g"
  unfolding input_of_def using subgraphs_below(1) by blast

text \<open>An error of an input is an error of the graph.\<close>

lemma input_errs:
  "s \<in> set (subgraphs g) \<Longrightarrow> set (state_errs s) \<subseteq> set (state_errs g)"
  "s \<in> set (opt_subgraphs opt) \<Longrightarrow> set (state_errs s) \<subseteq> set (opt_errs opt)"
  by (induction g and opt rule: subgraphs_opt_subgraphs.induct) fastforce+

lemma input_of_ExecRoot: "input_of s b \<Longrightarrow> input_of s (ExecRoot b opts)"
  "RunMount d st os \<in> set opts \<Longrightarrow> input_of s st \<Longrightarrow> input_of s (ExecRoot b opts)"
  by (force simp: input_of_def)+

lemma input_of_run_mount: "input_of s st \<Longrightarrow> input_of s (run_mount w opts d st)"
  "RunMount e st' os \<in> set opts \<Longrightarrow> input_of s st' \<Longrightarrow> input_of s (run_mount w opts d st)"
  "input_of s w \<Longrightarrow> input_of s (run_mount w opts d st)"
  by (force simp: input_of_def run_mount_def)+

lemma InstallPostSymlinks_input: "input_of s st \<Longrightarrow> input_of s (InstallPostSymlinks post worker st)"
  by (auto simp: InstallPostSymlinks_def input_of_run_mount split: option.splits)

section \<open>Computations\<close>

lemma ret_simps [simp]: "ret x = (es, r) \<longleftrightarrow> es = [] \<and> Some x = r" "lift z = (es, r) \<longleftrightarrow> es = [] \<and> z = r"
  by (auto simp: ret_def lift_def)

lemma and_then_Some:
  "and_then m k = (es, Some y) \<longleftrightarrow> (\<exists>es1 x es2. m = (es1, Some x) \<and> k x = (es2, Some y) \<and> es = es1 @ es2)"
  by (auto simp: and_then_def split: prod.splits option.splits)

lemma or_err_Inr:
  "or_err m k = (es, Some (Inr y)) \<longleftrightarrow>
    (\<exists>es1 x es2. m = (es1, Some (Inr x)) \<and> k x = (es2, Some (Inr y)) \<and> es = es1 @ es2)"
  by (auto simp: or_err_def and_then_def split: prod.splits option.splits sum.splits)

lemma attempt_ok:
  "attempt r m k = (es, Some (ref, img, None)) \<longleftrightarrow>
    (\<exists>es1 x es2. m = (es1, Some (Inr x)) \<and> k x = (es2, Some (ref, img, None)) \<and> es = es1 @ es2)"
  by (auto simp: attempt_def and_then_def split: prod.splits option.splits sum.splits)

lemma ret_then [simp]: "and_then (ret x) k = k x" "or_err (ret (Inr x)) k2 = k2 x" "attempt r (ret (Inr x)) k3 = k3 x"
  by (simp_all add: and_then_def or_err_def attempt_def ret_def split: prod.splits)

lemma solve_only_ok: "solve_only mw env st = (es, Some (Inr (Inr ref))) \<Longrightarrow> ref = st \<and> es = [SolveEv st]"
  by (auto simp: solve_only_def split: sum.splits)

lemma solve_state_ok: "solve_state mw env st = (es, Some (Inr ref)) \<Longrightarrow> ref = st \<and> es = [SolveEv st]"
  by (auto simp: solve_state_def or_err_Inr dest!: solve_only_ok)

lemma evaluate_ok: "evaluate env ref = (es, Some (Inr u)) \<longleftrightarrow> de_Evaluate env ref = None \<and> es = [EvaluateEv ref]"
  by (auto simp: evaluate_def split: option.splits)

section \<open>Tests\<close>

text \<open>Every started test finishes, in some order.\<close>

definition all_finish :: "distroEnv \<Rightarrow> bool" where
  "all_finish env = (\<forall>rs. mset (de_finish env rs) = mset rs)"

text \<open>
  What a test run without an error says.  The results of steps name the stream that was checked, which the step
  command sets to \<open>stdout\<close> or \<open>stderr\<close>; a failed check of such a stream is dropped by the runner, so that a result
  of this kind says nothing.
\<close>

definition streams_named :: "decoded list \<Rightarrow> bool" where
  "streams_named ds = list_all (\<lambda>d. case d of BadJson e \<Rightarrow> True
     | Batch rs \<Rightarrow> list_all (\<lambda>r. fr_StepIndex r = None \<or> fr_Filename r \<in> {''stdout'', ''stderr''}) rs) ds"

definition files_fine :: "testSpec \<Rightarrow> decoded \<Rightarrow> bool" where
  "files_fine t d = (case d of BadJson e \<Rightarrow> False
     | Batch rs \<Rightarrow> list_all (\<lambda>r. fr_StepIndex r = None \<and> map_of (t_Files t) (fr_Filename r) \<noteq> None \<longrightarrow> fr_Checks r = []) rs)"

text \<open>
  The runs of the test completed, and its results, if there are any, can be decoded and report no failed check of
  a file of the test.
\<close>

definition test_clean :: "(containerRun list \<Rightarrow> evaluated) \<Rightarrow> testSpec \<Rightarrow> bool" where
  "test_clean eval t =
    (case eval (test_runs t) of
       NoResults \<Rightarrow> True
     | Results ds \<Rightarrow> streams_named ds \<longrightarrow> list_all (files_fine t) ds
     | _ \<Rightarrow> False)"

lemma check_loop_clean:
  assumes "check_loop src test xs err errs = Inr errs'" and "errs' = []"
  shows "errs = [] \<and> (\<forall>(r, ce) \<in> set xs. fr_StepIndex r \<noteq> None \<or> map_of (t_Files test) (fr_Filename r) = None)"
  using assms
proof (induction xs arbitrary: err errs)
  case (Cons x xs)
  obtain r ce where x: "x = (r, ce)" by (cases x)
  obtain err' e where step: "check_step src test r err ce = Append err' e"
    "check_loop src test xs err' (errs @ errs_of e) = Inr errs'"
    using Cons.prems(1) by (auto simp: x split: checkStep.splits)
  from Cons.IH [OF this(2) Cons.prems(2)] step(1) show ?case
    by (auto simp: x check_step_def Let_def errs_of_def split: option.splits if_splits)
qed simp

lemma check_loop_no_return:
  assumes "\<forall>(r, ce) \<in> set xs. fr_StepIndex r = None \<or> fr_Filename r \<in> {''stdout'', ''stderr''}"
  shows "check_loop src test xs err errs \<noteq> Inl (Return e)"
  using assms
proof (induction xs arbitrary: err errs)
  case (Cons x xs)
  obtain r ce where x: "x = (r, ce)" by (cases x)
  then have "check_step src test r err ce \<noteq> Return e'" for e'
    using Cons.prems by (auto simp: check_step_def Let_def split: option.splits)
  with Cons show ?case by (auto simp: x split: checkStep.splits)
qed simp

lemma collect_clean:
  assumes "collect src test ds errs = None" and "streams_named ds"
  shows "errs = [] \<and> list_all (files_fine test) ds"
  using assms
proof (induction src test ds errs rule: collect.induct)
  case (3 src test rs ds errs)
  have named: "\<forall>(r, ce) \<in> set (flat_checks rs). fr_StepIndex r = None \<or> fr_Filename r \<in> {''stdout'', ''stderr''}"
    using "3.prems"(2) by (auto simp: streams_named_def flat_checks_def list_all_iff)
  then obtain errs' where loop: "check_loop src test (flat_checks rs) None errs = Inr errs'"
    using "3.prems"(1) check_loop_no_return [OF named]
    by (auto simp: test_panic_def split: sum.splits checkStep.splits)
  with 3 have rest: "errs' = []" "list_all (files_fine test) ds" by (auto simp: streams_named_def)
  from check_loop_clean [OF loop rest(1)] rest(2) show ?case
    by (fastforce simp: files_fine_def flat_checks_def list_all_iff)
qed (auto simp: streams_named_def join_errs_def split: list.splits if_splits)

lemma run_test_clean: "run_test src eval t = None \<Longrightarrow> test_clean eval t"
  by (auto simp: run_test_def test_clean_def dest: collect_clean split: evaluated.splits)

text \<open>The tests of a target were run on a container and are clean.\<close>

definition tests_clean :: "distroEnv \<Rightarrow> spec \<Rightarrow> string \<Rightarrow> llb \<Rightarrow> event list \<Rightarrow> bool" where
  "tests_clean env sp targetKey ctr es =
    (\<exists>withDeps. input_of ctr withDeps \<and> TestEv withDeps \<in> set es
       \<and> (\<forall>t \<in> set (spec_tests sp targetKey). test_clean (de_EvalTest env withDeps) t))"

text \<open>The tests are done with: they were skipped on request, there are none, or they were run and are clean.\<close>

definition tests_done :: "distroEnv \<Rightarrow> spec \<Rightarrow> string \<Rightarrow> llb \<Rightarrow> event list \<Rightarrow> bool" where
  "tests_done env sp targetKey ctr es =
    (tests_skipped env \<or> spec_tests sp targetKey = [] \<or> tests_clean env sp targetKey ctr es)"

lemma run_tests_done:
  assumes "all_finish env" and "run_tests env sp ref withDeps target pl = (es, Some None)"
    and "\<And>st. withDeps ref = Some st \<Longrightarrow> input_of ref st"
  shows "tests_done env sp target ref es"
proof (cases "tests_skipped env \<or> spec_tests sp target = []")
  case False
  then obtain rs st where r: "RunTests (test_env env ref st pl) sp target = Some (Started rs)"
    and st: "withDeps ref = Some st" and es: "TestEv st \<in> set es" and none: "join_all (de_finish env rs) = None"
    using assms(2)
    by (auto simp: run_tests_def Let_def RunTests_def tests_skipped_def test_env_def
        split: option.splits runStart.splits if_splits)
  have "set (de_finish env rs) = set rs" using assms(1) unfolding all_finish_def by (metis mset_eq_setD)
  then have "\<forall>r \<in> set rs. r = None" using none by (simp add: join_all_None)
  moreover have "rs = map (run_test (de_ErrSource env) (de_EvalTest env st)) (spec_tests sp target)"
    using r by (auto simp: RunTests_def Let_def test_env_def split: if_splits)
  ultimately have "\<forall>t \<in> set (spec_tests sp target). test_clean (de_EvalTest env st) t"
    using run_test_clean by auto
  with es assms(3) [OF st] show ?thesis unfolding tests_done_def tests_clean_def by blast
qed (auto simp: tests_done_def)

lemma tests_done_mono: "tests_done env sp key ctr es \<Longrightarrow> set es \<subseteq> set es' \<Longrightarrow> tests_done env sp key ctr es'"
  unfolding tests_done_def tests_clean_def by blast

section \<open>The contract of a distribution\<close>

text \<open>
  What the shared handlers rely on: a container and an extracted tree are built from the package, and
  a test run that reports no error solved the container, and the tests are skipped, absent or clean on it.
\<close>

locale distro_contract =
  fixes c :: distroConfig
  assumes container_input: "d_BuildContainer c env pl w so sp key pkg = (es, Some (Inr ctr)) \<Longrightarrow> input_of pkg ctr"
    and extract_input: "d_ExtractPkg c env pl w so sp key pkg = Some st \<Longrightarrow> input_of pkg st"
    and tests_gate: "all_finish env \<Longrightarrow> d_RunTests c env pl w sp so ctr key = (es, Some (ref, None)) \<Longrightarrow>
      ref = Some ctr \<and> SolveEv ctr \<in> set es \<and> tests_done env sp key ctr es"
begin

lemma solve_and_test_ok:
  assumes "all_finish env"
    and "solve_and_test c env w so sp key pl failed pkg out = (es, Some (ref, img, None))"
  shows "ref = Some out \<and> img = Some (platform_image (target_platform (de_libs env) pl)) \<and> de_Evaluate env out = None
    \<and> (\<exists>rest. es = [SolveEv out, EvaluateEv out] @ rest
         \<and> (\<exists>ctr. input_of pkg ctr \<and> SolveEv ctr \<in> set rest \<and> tests_done env sp key ctr rest))"
proof -
  obtain es1 r1 es2 u es3 ctr es4 tref terr es5 where
    s: "solve_state (Wrap ''error marshalling llb'') env out = (es1, Some (Inr r1))"
    and e: "evaluate env r1 = (es2, Some (Inr u))"
    and b: "d_BuildContainer c env pl w so sp key pkg = (es3, Some (Inr ctr))"
    and t: "d_RunTests c env pl w sp so ctr key = (es4, Some (tref, terr))"
    and k: "(case terr of Some e \<Rightarrow> tests_failed env sp failed key tref e
        | None \<Rightarrow> ret (Some r1, Some (platform_image (target_platform (de_libs env) pl)), None)) = (es5, Some (ref, img, None))"
    and es: "es = es1 @ es2 @ es3 @ es4 @ es5"
    using assms(2) by (auto simp: solve_and_test_def attempt_ok and_then_Some)
  have terr: "terr = None" using k by (auto simp: tests_failed_def and_then_Some split: option.splits)
  with k have fin: "ref = Some r1" "img = Some (platform_image (target_platform (de_libs env) pl))" "es5 = []" by auto
  note g = tests_gate [OF assms(1) t [unfolded terr]]
  have "tests_done env sp key ctr (es3 @ es4)" using g tests_done_mono by fastforce
  moreover have "SolveEv ctr \<in> set (es3 @ es4)" using g by simp
  ultimately show ?thesis
    using solve_state_ok [OF s] e es fin container_input [OF b] by (auto simp: evaluate_ok)
qed

lemma package_ok:
  assumes "all_finish env" and "HandlePackage c env pl sp0 key = (es, Some (ref, img, None))"
  shows "\<exists>so w pkg sp es1 rest ctr. env_sourceOpts env pl = Inr so \<and> d_Worker c env so pl = Inr w
    \<and> d_BuildPkg c env pl w so sp0 key = (es1, Some (Inr pkg, sp)) \<and> ref = Some pkg
    \<and> es = es1 @ [SolveEv pkg, EvaluateEv pkg] @ rest \<and> de_Evaluate env pkg = None
    \<and> input_of pkg ctr \<and> SolveEv ctr \<in> set rest \<and> tests_done env sp key ctr rest"
proof -
  obtain so w es1 pkg sp es2 where h: "env_sourceOpts env pl = Inr so"
    "wrap_inl ''error building worker container'' (d_Worker c env so pl) = Inr w"
    "d_BuildPkg c env pl w so sp0 key = (es1, Some (Inr pkg, sp))"
    "solve_and_test c env w so sp key pl pl pkg pkg = (es2, Some (ref, img, None))" "es = es1 @ es2"
    using assms(2) by (auto simp: HandlePackage_def attempt_ok and_then_Some split: option.splits)
  moreover have "d_Worker c env so pl = Inr w" using h(2) by (auto simp: wrap_inl_def split: sum.splits)
  ultimately show ?thesis using solve_and_test_ok [OF assms(1) h(4)] by auto
qed

lemma container_ok:
  assumes "all_finish env" and "HandleContainer c env pl sp0 key = (es, Some (ref, img, None))"
  shows "\<exists>so w pkg sp es1 rest ctr i. env_sourceOpts env pl = Inr so \<and> d_Worker c env so pl = Inr w
    \<and> package_of c env pl w so sp0 key = (es1, Some (Inr pkg, sp)) \<and> es = es1 @ rest
    \<and> ref = Some ctr \<and> input_of pkg ctr \<and> SolveEv ctr \<in> set rest \<and> tests_done env sp key ctr rest
    \<and> img = Some i \<and> linux_BuildImageConfig env sp pl key = Some (Inr i)"
proof -
  obtain so w es1 pkg sp i es2 ctr es3 where h: "env_sourceOpts env pl = Inr so" "d_Worker c env so pl = Inr w"
    "package_of c env pl w so sp0 key = (es1, Some (Inr pkg, sp))"
    "linux_BuildImageConfig env sp pl key = Some (Inr i)"
    "d_BuildContainer c env pl w so sp key pkg = (es2, Some (Inr ctr))"
    "d_RunTests c env pl w sp so ctr key = (es3, Some (ref, None))" "img = Some i" "es = es1 @ es2 @ es3"
    using assms(2) by (auto simp: HandleContainer_def attempt_ok and_then_Some)
  note g = tests_gate [OF assms(1) h(6)]
  have "tests_done env sp key ctr (es2 @ es3)" using g tests_done_mono by fastforce
  moreover have "SolveEv ctr \<in> set (es2 @ es3)" using g by simp
  ultimately show ?thesis using h g container_input [OF h(5)] by blast
qed

lemma sysext_ok:
  assumes "all_finish env" and "HandleSysext c env pl sp0 key = (es, Some (ref, img, None))"
  shows "\<exists>so w pkg sp es1 rest ctr out. package_of c env pl w so sp0 key = (es1, Some (Inr pkg, sp))
    \<and> es = es1 @ [SolveEv out, EvaluateEv out] @ rest \<and> ref = Some out \<and> input_of pkg out
    \<and> input_of pkg ctr \<and> SolveEv ctr \<in> set rest \<and> tests_done env sp key ctr rest"
proof -
  let ?p = "target_platform (de_libs env) pl"
  obtain so w es1 pkg sp ext es2 where h: "package_of c env pl w so sp0 key = (es1, Some (Inr pkg, sp))"
    "d_ExtractPkg c env pl w so sp key pkg = Some ext" "es = es1 @ es2"
    "solve_and_test c env w so sp key pl (Some ?p) pkg (sysext_image c env pl w sp key ?p ext) = (es2, Some (ref, img, None))"
    using assms(2) by (auto simp: HandleSysext_def attempt_ok and_then_Some Let_def)
  have "input_of pkg (sysext_image c env pl w sp key ?p ext)"
    unfolding sysext_image_def Let_def by (rule input_of_run_mount(2) [of "''/input''" ext "[Readonly]"]) (simp_all add: extract_input [OF h(2)])
  moreover obtain rest ctr where "ref = Some (sysext_image c env pl w sp key ?p ext)"
    "es2 = [SolveEv (sysext_image c env pl w sp key ?p ext), EvaluateEv (sysext_image c env pl w sp key ?p ext)] @ rest"
    "input_of pkg ctr" "SolveEv ctr \<in> set rest" "tests_done env sp key ctr rest"
    using solve_and_test_ok [OF assms(1) h(4)] by blast
  ultimately show ?thesis using h(1,3) by blast
qed

end

section \<open>The distributions keep the contract\<close>

lemma run_tests_gate:
  assumes "all_finish env" and "\<And>st. deps ctr = Some st \<Longrightarrow> input_of ctr st"
    and "and_then (solve_state id env ctr) (\<lambda>r. case r of
        Inl e \<Rightarrow> ret (None, Some e)
      | Inr ref \<Rightarrow> and_then (run_tests env sp ref deps key pl) (\<lambda>err. ret (Some ref, f err))) = (es, Some (ref, None))"
    and "\<And>err. f err = None \<Longrightarrow> err = None"
  shows "ref = Some ctr \<and> SolveEv ctr \<in> set es \<and> tests_done env sp key ctr es"
proof -
  obtain es1 x es2 where x: "solve_state id env ctr = (es1, Some x)" "es = es1 @ es2"
    "(case x of Inl e \<Rightarrow> ret (None, Some e)
      | Inr ref \<Rightarrow> and_then (run_tests env sp ref deps key pl) (\<lambda>err. ret (Some ref, f err))) = (es2, Some (ref, None))"
    using assms(3) unfolding and_then_Some by blast
  then obtain r where "x = Inr r" by (cases x) auto
  with x(1) have r: "x = Inr ctr" using solve_state_ok by blast
  then obtain err where h: "solve_state id env ctr = (es1, Some (Inr ctr))" "run_tests env sp ctr deps key pl = (es2, Some err)"
    "f err = None" "ref = Some ctr" "es = es1 @ es2"
    using x by (auto simp: and_then_Some)
  have "tests_done env sp key ctr es2"
    using run_tests_done [OF assms(1) _ assms(2)] h assms(4) by blast
  with tests_done_mono [of env sp key ctr es2 es] h solve_state_ok [OF h(1)] show ?thesis by auto
qed

lemma rpm_test_deps_input: "rpm_InstallTestDeps cfg env pl w so key sp ctr = Some st \<Longrightarrow> input_of ctr st"
  by (auto simp: rpm_InstallTestDeps_def Let_def input_of_run_mount split: if_splits)

lemma deb_test_deps_input: "deb_InstallTestDeps cfg so key sp ctr = Some st \<Longrightarrow> input_of ctr st"
  by (auto simp: deb_InstallTestDeps_def Let_def input_of_ExecRoot split: if_splits)

lemma rpm_container_input:
  assumes "rpm_BuildContainer cfg env pl w so sp key pkg = (es, Some (Inr ctr))"
  shows "input_of pkg ctr"
proof -
  obtain repos pkgs base rootfs where
    "ctr = InstallPostSymlinks (GetImagePost sp key) w (install_rpms cfg env pl w sp key repos pkgs base pkg rootfs)"
    using assms by (auto simp: rpm_BuildContainer_def or_err_Inr and_then_Some Let_def split: if_splits)
  moreover have "input_of pkg (install_rpms cfg env pl w sp key repos pkgs base pkg rootfs)"
    unfolding install_rpms_def
    by (rule input_of_run_mount(2) [of "''/tmp/rpms''" pkg "[SourcePath ''/RPMS'']"]) simp_all
  ultimately show ?thesis by (simp add: InstallPostSymlinks_input)
qed

lemma InstallLocalPkg_mount: "\<exists>d os. RunMount d pkg os \<in> set (InstallLocalPkg pkg up)"
  by (force simp: InstallLocalPkg_def Let_def)

lemma deb_container_input:
  assumes "deb_BuildContainer cfg env pl w so sp key pkg = (es, Some (Inr ctr))"
  shows "input_of pkg ctr"
proof -
  obtain repos base where
    "ctr = InstallPostSymlinks (GetImagePost sp key) w (install_deb cfg sp key repos pkg base)"
    using assms by (auto simp: deb_BuildContainer_def or_err_Inr and_then_Some)
  moreover obtain d os where "RunMount d pkg os \<in> set (InstallLocalPkg pkg True)" using InstallLocalPkg_mount by blast
  then have "input_of pkg (install_deb cfg sp key repos pkg base)"
    unfolding install_deb_def by (intro input_of_ExecRoot(2) [of d pkg os]) (simp_all only: set_append Un_iff input_of_self simp_thms)
  ultimately show ?thesis by (simp add: InstallPostSymlinks_input)
qed

interpretation rpm_distro: distro_contract "rpm_config cfg" for cfg
proof
  show "input_of pkg ctr" if "d_BuildContainer (rpm_config cfg) env pl w so sp key pkg = (es, Some (Inr ctr))"
    for env pl w so sp key pkg es ctr
    using that by (simp add: rpm_config_def rpm_container_input)
  show "input_of pkg st" if "d_ExtractPkg (rpm_config cfg) env pl w so sp key pkg = Some st" for env pl w so sp key pkg st
    using that by (auto simp: rpm_config_def rpm_ExtractPkg_def intro: input_of_run_mount(2) [OF _ input_of_self])
  show "ref = Some ctr \<and> SolveEv ctr \<in> set es \<and> tests_done env sp key ctr es"
    if "all_finish env" "d_RunTests (rpm_config cfg) env pl w sp so ctr key = (es, Some (ref, None))"
    for env pl w sp so ctr key es ref
    using that rpm_test_deps_input
    by (intro run_tests_gate [of env "rpm_InstallTestDeps cfg env pl w so key sp" ctr sp key pl "wrap ''TESTS FAILED''"])
      (auto simp: rpm_config_def rpm_RunTests_def wrap_def)
qed

interpretation deb_distro: distro_contract "deb_config cfg" for cfg
proof
  show "input_of pkg ctr" if "d_BuildContainer (deb_config cfg) env pl w so sp key pkg = (es, Some (Inr ctr))"
    for env pl w so sp key pkg es ctr
    using that by (simp add: deb_config_def deb_container_input)
  show "input_of pkg st" if "d_ExtractPkg (deb_config cfg) env pl w so sp key pkg = Some st" for env pl w so sp key pkg st
    using that by (auto simp: deb_config_def deb_ExtractPkg_def Let_def intro: input_of_run_mount(2) [OF _ input_of_self])
  show "ref = Some ctr \<and> SolveEv ctr \<in> set es \<and> tests_done env sp key ctr es"
    if "all_finish env" "d_RunTests (deb_config cfg) env pl w sp so ctr key = (es, Some (ref, None))"
    for env pl w sp so ctr key es ref
    using that deb_test_deps_input
    by (intro run_tests_gate [of env "deb_InstallTestDeps cfg so key sp" ctr sp key pl "\<lambda>e. e"])
      (auto simp: deb_config_def deb_RunTests_def)
qed

end
