(* ===== verification/Distro_Total.thy ===== *)
theory Distro_Total
  imports Distro_Props
begin

text \<open>
  The handlers of the Linux distributions return: for a spec that loading accepted, with usable names in
  its sources, repositories and base images, no step of a package, container or system extension build
  panics.
\<close>

section \<open>Usable specs\<close>

definition repo_tidy :: "packageRepositoryConfig \<Rightarrow> bool" where
  "repo_tidy r = (list_all (\<lambda>p. source_tidy (snd p)) (repo_Keys r) \<and> list_all (\<lambda>p. source_tidy (snd p)) (repo_Config r)
     \<and> list_all mount_tidy (repo_Data r))"

definition deps_tidy :: "packageDependencies option \<Rightarrow> bool" where
  "deps_tidy d = opt_all (\<lambda>d. list_all repo_tidy (pd_ExtraRepos d)) d"

definition repos_tidy :: "spec \<Rightarrow> bool" where
  "repos_tidy sp = (deps_tidy (sp_Dependencies sp) \<and> list_all (\<lambda>(k, t). deps_tidy (tg_Dependencies t)) (sp_Targets sp))"

definition image_bases_tidy :: "imageConfig option \<Rightarrow> bool" where
  "image_bases_tidy i = opt_all (\<lambda>i. list_all (\<lambda>b. source_tidy (bi_Rootfs b)) (bases_of i)) i"

definition bases_tidy :: "spec \<Rightarrow> bool" where
  "bases_tidy sp = (image_bases_tidy (sp_Image sp) \<and> list_all (\<lambda>(k, t). image_bases_tidy (tg_Image t)) (sp_Targets sp))"

definition repos_usable :: "sourceOpts \<Rightarrow> packageRepositoryConfig list \<Rightarrow> bool" where
  "repos_usable so repos = list_all (\<lambda>r. repo_ok (so_Digest so) r \<and> repo_tidy r) repos"

definition package_usable :: "distroEnv \<Rightarrow> sourceOpts \<Rightarrow> spec \<Rightarrow> bool" where
  "package_usable env so sp =
    (buildable so sp \<and> repos_tidy sp \<and> wf_map (sp_Sources sp) \<and> wf_map (sp_Patches sp)
     \<and> list_all (\<lambda>p. parsed (de_remote env) (git_urls (snd p))) (sp_Sources sp) \<and> signers_set sp)"

text \<open>The frontend is known to its client, and no signing configuration without a signer is asked for.\<close>

definition client_ready :: "distroEnv \<Rightarrow> sourceOpts \<Rightarrow> bool" where
  "client_ready env so =
    ((\<exists>cred. so_CredHelper so = Inr cred) \<and> (\<exists>ui f. de_ui env = Inr ui \<and> GetCurrentFrontend ui = Inr f)
     \<and> (signingDisabled (de_opts env) \<or> getUserSignConfigPath (de_opts env) = []))"

definition rpm_usable :: "rpmConfig \<Rightarrow> distroEnv \<Rightarrow> sourceOpts \<Rightarrow> spec \<Rightarrow> string \<Rightarrow> bool" where
  "rpm_usable cfg env so sp key =
    (client_ready env so \<and> package_usable env so sp \<and> bases_tidy sp
     \<and> list_all (package_usable env so) (rc_BasePackages cfg))"

definition deb_usable :: "debConfig \<Rightarrow> distroEnv \<Rightarrow> sourceOpts \<Rightarrow> spec \<Rightarrow> string \<Rightarrow> bool" where
  "deb_usable cfg env so sp key =
    (client_ready env so \<and> package_usable env so sp \<and> bases_tidy sp \<and> repos_usable so (dbc_ExtraRepos cfg)
     \<and> (HasGolang sp key \<or> HasGomods sp \<longrightarrow> ab_Steps (sp_Build sp) \<noteq> []))"

section \<open>Repositories\<close>

lemma mounts_total:
  assumes "\<And>x. x \<in> set xs \<Longrightarrow> f x \<noteq> None"
  shows "map_option concat (those (map f xs)) \<noteq> None"
  using those_total [of xs f] assms by force

lemma repo_source_mount: "source_ok (so_Digest so) src \<Longrightarrow> source_tidy src \<Longrightarrow> mount_at so dest src \<noteq> None"
  using source_total(1) [of src so] by (simp add: mount_at_def)

lemma repo_mounts_total:
  assumes "repos_usable so repos"
  shows "WithRepoConfigs so cfg repos \<noteq> None" and "WithRepoData so repos \<noteq> None" and "GetRepoKeys so cfg repos \<noteq> None"
proof -
  have ok: "source_ok (so_Digest so) src \<and> source_tidy src" if "r \<in> set repos" "(n, src) \<in> set (repo_Config r) \<union> set (repo_Keys r)"
    for r n src using assms that by (fastforce simp: repos_usable_def repo_ok_def repo_tidy_def list_all_iff)
  have "repoConfigAsMount so cfg r \<noteq> None" if r: "r \<in> set repos" for r
  proof -
    have "(case map_of (repo_Config r) name of None \<Rightarrow> None | Some src \<Rightarrow> mount_at so (config_file cfg name) src) \<noteq> None"
      if "name \<in> set (SortMapKeys (repo_Config r))" for name
    proof -
      have "name \<in> fst ` set (repo_Config r)" using that by (simp add: SortMapKeys_def)
      then obtain src where src: "map_of (repo_Config r) name = Some src"
        by (metis map_of_eq_None_iff not_None_eq)
      then have "mount_at so (config_file cfg name) src \<noteq> None"
        using ok [OF r] map_of_SomeD [OF src] by (intro repo_source_mount) blast+
      with src show ?thesis by simp
    qed
    then show ?thesis unfolding repoConfigAsMount_def by (subst those_map_None) blast
  qed
  then show "WithRepoConfigs so cfg repos \<noteq> None" unfolding WithRepoConfigs_def by (rule mounts_total)
  have "mount_ToRunOption so m \<noteq> None" if "r \<in> set repos" "m \<in> set (repo_Data r)" for r m
    using assms that source_total(5) by (auto simp: repos_usable_def repo_ok_def repo_tidy_def list_all_iff)
  then have "repo_data_mounts so r \<noteq> None" if "r \<in> set repos" for r
    unfolding repo_data_mounts_def using that by (subst those_map_None) blast
  then show "WithRepoData so repos \<noteq> None" unfolding WithRepoData_def by (rule mounts_total)
  have "(\<lambda>(name, src). mount_at so (Join [rpc_GPGKeyRoot cfg, name]) src) p \<noteq> None"
    if mem: "p \<in> set (concat (map repo_Keys repos))" for p
  proof -
    obtain name src where q: "p = (name, src)" by (cases p)
    obtain r where "r \<in> set repos" "p \<in> set (repo_Keys r)" using mem by auto
    with q have p: "p = (name, src)" "r \<in> set repos" "(name, src) \<in> set (repo_Keys r)" by auto
    then have "mount_at so (Join [rpc_GPGKeyRoot cfg, name]) src \<noteq> None"
      using ok by (intro repo_source_mount) blast+
    with p show ?thesis by simp
  qed
  then have "those (map (\<lambda>(name, src). mount_at so (Join [rpc_GPGKeyRoot cfg, name]) src) (concat (map repo_Keys repos))) \<noteq> None"
    by (subst those_map_None) blast
  then show "GetRepoKeys so cfg repos \<noteq> None" by (simp add: GetRepoKeys_def Let_def)
qed

lemma spec_repos_usable:
  assumes "buildable so sp" and "repos_tidy sp"
  shows "repos_usable so (spec_repos sp key what)"
proof -
  have spec: "deps_ok (so_Digest so) (sp_Dependencies sp)" "deps_tidy (sp_Dependencies sp)"
    using assms by (auto simp: buildable_def spec_ok_def repos_tidy_def)
  have tgt: "deps_ok (so_Digest so) (tg_Dependencies t)" "deps_tidy (tg_Dependencies t)"
    if "map_of (sp_Targets sp) key = Some t" for t
    using assms map_of_SomeD [OF that] by (auto simp: buildable_def spec_ok_def target_ok_def repos_tidy_def list_all_iff)
  have "deps_ok (so_Digest so) (GetPackageDeps sp key) \<and> deps_tidy (GetPackageDeps sp key)"
  proof (cases "map_of (sp_Targets sp) key")
    case None
    then show ?thesis using spec by (auto simp: GetPackageDeps_def deps_ok_def deps_tidy_def empty_deps_def split: option.splits)
  next
    case (Some t)
    have "deps_ok (so_Digest so) (MergeDependencies a b) \<and> deps_tidy (MergeDependencies a b)"
      if "deps_ok (so_Digest so) a" "deps_tidy a" "deps_ok (so_Digest so) b" "deps_tidy b" for a b
      using that by (cases a; cases b) (auto simp: MergeDependencies_def deps_ok_def deps_tidy_def if_any_def)
    with spec tgt [OF Some] Some show ?thesis by (simp add: GetPackageDeps_def)
  qed
  then show ?thesis
    by (cases "GetPackageDeps sp key") (auto simp: spec_repos_def deps_ok_def deps_tidy_def repos_usable_def GetExtraRepos_def list_all_iff)
qed

lemma rpm_RepoMounts_total:
  assumes "repos_usable so repos"
  shows "rpm_RepoMounts cfg so repos \<noteq> None"
proof -
  let ?c = "case rc_RepoPlatformConfig cfg of None \<Rightarrow> dnfRepoPlatform | Some r \<Rightarrow> r"
  obtain a b x y where "WithRepoConfigs so ?c repos = Some a" "WithRepoData so repos = Some b" "GetRepoKeys so ?c repos = Some (x, y)"
    using repo_mounts_total [OF assms] by (metis not_None_eq surj_pair)
  then show ?thesis by (simp add: rpm_RepoMounts_def)
qed

lemma deb_RepoMounts_total:
  assumes "repos_usable so repos"
  shows "deb_RepoMounts cfg so repos \<noteq> None"
proof -
  let ?c = "case dbc_RepoPlatformConfig cfg of None \<Rightarrow> deb_defaultRepoConfig | Some r \<Rightarrow> r"
  obtain a b x y where "WithRepoConfigs so ?c repos = Some a" "WithRepoData so repos = Some b" "GetRepoKeys so ?c repos = Some (x, y)"
    using repo_mounts_total [OF assms] by (metis not_None_eq surj_pair)
  then show ?thesis by (simp add: deb_RepoMounts_def)
qed

lemma deb_repos_usable:
  assumes "repos_usable so (dbc_ExtraRepos cfg)" and "buildable so sp" and "repos_tidy sp"
  shows "repos_usable so (deb_repos cfg sp key what)"
  using spec_repos_usable [OF assms(2,3), of key what] assms(1)
  by (auto simp: deb_repos_def repos_usable_def GetExtraRepos_def list_all_iff)

section \<open>Computations that return\<close>

definition returns :: "'a act \<Rightarrow> bool" where
  "returns m = (snd m \<noteq> None)"

lemma returns_ret [simp]: "returns (ret x)" "returns (lift r) \<longleftrightarrow> r \<noteq> None" "returns (es, Some x)"
  by (simp_all add: returns_def ret_def lift_def)

lemma returns_and_then:
  "returns m \<Longrightarrow> (\<And>es x. m = (es, Some x) \<Longrightarrow> returns (k x)) \<Longrightarrow> returns (and_then m k)"
  by (cases m) (auto simp: returns_def and_then_def split: prod.splits option.splits)

lemma returns_or_err:
  "returns m \<Longrightarrow> (\<And>es x. m = (es, Some (Inr x)) \<Longrightarrow> returns (k x)) \<Longrightarrow> returns (or_err m k)"
  unfolding or_err_def by (rule returns_and_then) (auto split: sum.splits)

lemma returns_attempt:
  "returns m \<Longrightarrow> (\<And>es x. m = (es, Some (Inr x)) \<Longrightarrow> returns (k x)) \<Longrightarrow> returns (attempt r m k)"
  unfolding attempt_def by (rule returns_and_then) (auto split: sum.splits)

lemmas returns_intros = returns_and_then returns_or_err returns_attempt

lemma returns_solve [simp]: "returns (solve_only mw env st)" "returns (solve_state mw env st)" "returns (evaluate env st)"
    "returns (getPrebuiltPackage so key)"
  by (auto simp: solve_state_def solve_only_def evaluate_def getPrebuiltPackage_def Let_def intro!: returns_or_err
      split: sum.splits option.splits)

lemma sign_returns: "client_ready env so \<Longrightarrow> signers_set sp \<Longrightarrow> returns (sign_act env st sp key)"
  using GetSigner_total [of sp key]
  by (auto simp: returns_def sign_act_def client_ready_def MaybeSign_def Let_def forwardToSigner_def
      split: prod.splits option.splits sum.splits)

lemma run_tests_returns:
  assumes "client_ready env so" and "withDeps ref \<noteq> None"
  shows "returns (run_tests env sp ref withDeps key pl)"
  using assms
  by (auto simp: returns_def run_tests_def Let_def RunTests_def test_env_def client_ready_def
      split: option.splits runStart.splits)

lemma base_image_total:
  assumes "spec_ok (so_Digest so) sp" and "bases_tidy sp" and "GetSingleBase sp key = Inr bi"
  shows "baseImage_ToState so bi \<noteq> None" and "bi = Some b \<Longrightarrow> s_DockerImage (bi_Rootfs b) \<noteq> None"
proof -
  have base: "base_ok (so_Digest so) b \<and> source_tidy (bi_Rootfs b)" if bi: "bi = Some b" for b
  proof -
    obtain bs where bs: "GetImageBases sp key = Some (b # bs)"
      using assms(3) bi by (auto simp: GetSingleBase_def split: option.splits if_splits list.splits)
    have "\<exists>i. ic_Bases i = Some (b # bs) \<and> (sp_Image sp = Some i \<or> target_image sp key = Some i)"
      using bs by (auto simp: GetImageBases_def split: option.splits)
    then obtain i where i: "ic_Bases i = Some (b # bs)" "sp_Image sp = Some i \<or> target_image sp key = Some i" by blast
    have "imageConfig_ok (so_Digest so) i \<and> image_bases_tidy (Some i)"
      using i(2) assms(1,2)
      by (auto simp: spec_ok_def target_ok_def bases_tidy_def target_image_def list_all_iff
          split: option.splits dest!: map_of_SomeD)
    with i(1) show ?thesis by (auto simp: imageConfig_ok_def image_bases_tidy_def bases_of_def)
  qed
  show "s_DockerImage (bi_Rootfs b) \<noteq> None" if "bi = Some b" for b
    using base [OF that] by (auto simp: base_ok_def base_settled_def split: option.splits)
  show "baseImage_ToState so bi \<noteq> None"
  proof (cases bi)
    case (Some b)
    have "base_settled (so_Digest so) b" using base [OF Some] by (simp add: base_ok_def)
    then obtain ref cmd path incl excl gens where
      r: "bi_Rootfs b = Source (Some (SourceDockerImage ref cmd)) None None None None None path incl excl gens"
      "opt_all (command_ok (so_Digest so)) cmd" by (rule base_settledE)
    have "image_base so path (SourceDockerImage ref cmd) \<noteq> None"
      using r base [OF Some] source_total(3) by (cases cmd) auto
    with r Some show ?thesis by (simp add: baseImage_ToState_def Let_def)
  qed (simp add: baseImage_ToState_def)
qed

lemma image_config_total:
  assumes "spec_ok (so_Digest (so :: sourceOpts)) sp" and "bases_tidy sp"
  shows "linux_BuildImageConfig env sp pl key \<noteq> None"
proof -
  have "resolveConfig env sp pl key \<noteq> None"
    using base_image_total(2) [of so sp key] assms
    by (auto simp: resolveConfig_def split: option.splits sum.splits)
  then show ?thesis by (auto simp: linux_BuildImageConfig_def split: option.splits sum.splits)
qed

section \<open>The contract of a distribution that returns\<close>

locale distro_total =
  fixes c :: distroConfig
    and usable :: "distroEnv \<Rightarrow> sourceOpts \<Rightarrow> spec \<Rightarrow> string \<Rightarrow> bool"
  assumes build_returns: "usable env so sp key \<Longrightarrow> returns (d_BuildPkg c env pl w so sp key)"
    and build_usable: "usable env so sp key \<Longrightarrow> d_BuildPkg c env pl w so sp key = (es, Some (r, sp')) \<Longrightarrow> usable env so sp' key"
    and extract_returns: "usable env so sp key \<Longrightarrow> d_ExtractPkg c env pl w so sp key pkg \<noteq> None"
    and container_returns: "usable env so sp key \<Longrightarrow> returns (d_BuildContainer c env pl w so sp key pkg)"
    and tests_return: "usable env so sp key \<Longrightarrow> returns (d_RunTests c env pl w sp so ctr key)"
    and config_returns: "usable env so sp key \<Longrightarrow> linux_BuildImageConfig env sp pl key \<noteq> None"
begin

lemma solve_and_test_returns:
  assumes "usable env so sp key"
  shows "returns (solve_and_test c env w so sp key pl failed pkg out)"
  unfolding solve_and_test_def tests_failed_def
  using container_returns [OF assms] tests_return [OF assms] config_returns [OF assms]
  by (intro returns_intros) (auto intro!: returns_and_then split: option.split)

lemma package_of_returns:
  assumes "usable env so sp key"
  shows "returns (package_of c env pl w so sp key)"
    and "package_of c env pl w so sp key = (es, Some (r, sp')) \<Longrightarrow> usable env so sp' key"
proof -
  show "returns (package_of c env pl w so sp key)"
    unfolding package_of_def using build_returns [OF assms] by (intro returns_and_then) auto
  show "usable env so sp' key" if "package_of c env pl w so sp key = (es, Some (r, sp'))"
    using that assms build_usable [OF assms] by (auto simp: package_of_def and_then_Some split: if_splits)
qed

lemma handlers_return:
  assumes "\<And>so. env_sourceOpts env pl = Inr so \<Longrightarrow> usable env so sp key"
  shows "returns (HandlePackage c env pl sp key)" and "returns (HandleContainer c env pl sp key)"
    and "returns (HandleSysext c env pl sp key)"
proof -
  show "returns (HandlePackage c env pl sp key)"
    unfolding HandlePackage_def
    using assms build_returns build_usable solve_and_test_returns
    by (auto split: option.split prod.split intro!: returns_intros)
  have config: "\<exists>i. linux_BuildImageConfig env sp' pl key = Some i"
    if "usable env so sp key" "package_of c env pl w so sp key = (es, Some (r, sp'))" for so w es r sp'
    using config_returns [OF package_of_returns(2) [OF that]] by blast
  show "returns (HandleContainer c env pl sp key)"
    unfolding HandleContainer_def
    using assms package_of_returns container_returns tests_return
    by (auto split: prod.split intro!: returns_intros intro: config)
  show "returns (HandleSysext c env pl sp key)"
    unfolding HandleSysext_def Let_def
    using assms package_of_returns extract_returns solve_and_test_returns
    by (auto split: prod.split intro!: returns_intros)
qed

end

section \<open>Rpm distributions return\<close>

lemma WriteSpec_usable:
  assumes "package_usable env so sp"
  shows "WriteSpec (de_remote env) sp key \<noteq> None"
proof -
  have "list_all (\<lambda>p. source_ok (so_Digest so) (snd p)) (sp_Sources sp)"
    using assms by (auto simp: package_usable_def buildable_def spec_ok_def list_all_iff)
  then show ?thesis using assms by (intro WriteSpec_returns) (auto simp: package_usable_def buildable_def)
qed

lemma deps_spec_total: "ToSpecLLB main_path remote (deps_spec name deps) st key [] \<noteq> None"
proof -
  have "WriteSpec remote (deps_spec name deps) key \<noteq> None"
    by (rule WriteSpec_returns [of "\<lambda>_. None"]) (simp_all add: deps_spec_def empty_spec_def wf_map_def)
  then show ?thesis by (auto simp: ToSpecLLB_def Let_def split: option.splits)
qed

lemma rpm_InstallBuildDeps_total:
  assumes "package_usable env so sp"
  shows "rpm_InstallBuildDeps cfg env pl sp so key st \<noteq> None"
proof -
  let ?deps = "GetBuild (GetPackageDeps sp key)"
  obtain r where "ToSpecLLB (de_main_path env) (de_remote env) (deps_spec (sp_Name sp) ?deps) st key [] = Some r"
    using deps_spec_total by blast
  moreover have "rpm_RepoMounts cfg so (spec_repos sp key ''build'') \<noteq> None"
    using assms by (intro rpm_RepoMounts_total spec_repos_usable) (auto simp: package_usable_def)
  ultimately show ?thesis
    by (cases r) (auto simp: rpm_InstallBuildDeps_def WithDeps_def Let_def)
qed

lemma rpm_state_total:
  assumes "package_usable env so sp" and "so_CredHelper so = Inr cred"
  shows "rpm_state cfg env pl w so sp key \<noteq> None"
proof -
  obtain w' where w': "rpm_InstallBuildDeps cfg env pl sp so key w = Some w'"
    using rpm_InstallBuildDeps_total [OF assms(1)] by blast
  have "SpecToBuildrootLLB (de_main_path env) (de_remote env) w' sp so key \<noteq> None"
    using SpecToBuildrootLLB_total [OF _ assms(2) WriteSpec_usable [OF assms(1)]] assms(1)
    unfolding package_usable_def by (metis option.distinct(1))
  then obtain r where "SpecToBuildrootLLB (de_main_path env) (de_remote env) w' sp so key = Some r" by blast
  then show ?thesis using w' by (cases r) (simp_all add: rpm_state_def)
qed

lemma rpm_BuildPkg_returns:
  assumes "client_ready env so" and "package_usable env so sp"
  shows "returns (rpm_BuildPkg cfg env pl w so sp key)"
proof -
  obtain cred where "so_CredHelper so = Inr cred" using assms(1) by (auto simp: client_ready_def)
  moreover have "signers_set sp" using assms(2) by (simp add: package_usable_def)
  ultimately show ?thesis
    using rpm_state_total [OF assms(2)] sign_returns [OF assms(1)] unfolding rpm_BuildPkg_def by (intro returns_or_err) auto
qed

lemma build_base_packages_returns:
  assumes "client_ready env so"
  shows "list_all (package_usable env so) sps \<Longrightarrow> returns (build_base_packages cfg env pl w so key sps)"
  by (induction sps)
    (auto intro!: returns_and_then returns_or_err rpm_BuildPkg_returns [OF assms] split: sum.split)

interpretation rpm_total: distro_total "rpm_config cfg" "rpm_usable cfg" for cfg
proof
  fix env :: distroEnv and so :: sourceOpts and sp sp' :: spec and key :: string and pl :: "platform option"
    and w pkg ctr :: llb and es :: "event list" and r
  assume u: "rpm_usable cfg env so sp key"
  have ready: "client_ready env so" and pu: "package_usable env so sp" and bt: "bases_tidy sp"
    and base: "list_all (package_usable env so) (rc_BasePackages cfg)"
    using u by (auto simp: rpm_usable_def)
  have ok: "spec_ok (so_Digest so) sp" and repos: "repos_usable so (spec_repos sp key what)" for what
    using pu spec_repos_usable by (auto simp: package_usable_def buildable_def)
  have mounts: "rpm_RepoMounts cfg so (spec_repos sp key what) \<noteq> None" for what
    by (rule rpm_RepoMounts_total [OF repos])
  show "returns (d_BuildPkg (rpm_config cfg) env pl w so sp key)"
    using rpm_BuildPkg_returns [OF ready pu] by (auto simp: rpm_config_def intro!: returns_and_then)
  show "rpm_usable cfg env so sp' key" if "d_BuildPkg (rpm_config cfg) env pl w so sp key = (es, Some (r, sp'))"
    using that u by (auto simp: rpm_config_def and_then_Some)
  show "d_ExtractPkg (rpm_config cfg) env pl w so sp key pkg \<noteq> None"
    using mounts [of "''install''"] by (auto simp: rpm_config_def rpm_ExtractPkg_def rpm_DownloadDeps_def split: option.split)
  show "returns (d_BuildContainer (rpm_config cfg) env pl w so sp key pkg)"
    using mounts base_image_total(1) [OF ok bt] build_base_packages_returns [OF ready base]
    by (auto simp: rpm_config_def rpm_BuildContainer_def Let_def intro!: returns_intros)
  show "returns (d_RunTests (rpm_config cfg) env pl w sp so ctr key)"
    using mounts
    by (auto simp: rpm_config_def rpm_RunTests_def rpm_InstallTestDeps_def Let_def split: sum.split
        intro!: returns_and_then run_tests_returns [OF ready])
  show "linux_BuildImageConfig env sp pl key \<noteq> None" by (rule image_config_total [OF ok bt])
qed

section \<open>Debian distributions return\<close>

lemma returns_FromState [simp]: "returns (FromState env st)" "returns (ReadDistroVersionID env st)"
  by (auto simp: FromState_def ReadDistroVersionID_def intro!: returns_or_err)

lemma returns_search: "returns (searchForAltGolang env sp key st)"
  by (auto simp: searchForAltGolang_def findBinaryInCandidates_def Let_def intro!: returns_or_err)

lemma plain_spec_buildable:
  assumes "sp_Sources sp = []" "sp_Patches sp = []" "sp_Tests sp = []" "sp_Image sp = None" "sp_Targets sp = []"
    "sp_Build sp = empty_build" "sp_PackageConfig sp = None" "opt_all (\<lambda>d. pd_ExtraRepos d = []) (sp_Dependencies sp)"
  shows "buildable so sp" and "repos_tidy sp" and "bases_tidy sp" and "package_usable env so sp" and "\<not> HasGomods sp"
  using assms
  by (auto simp: buildable_def spec_ok_def sources_tidy_def build_block_ok_def empty_build_def deps_ok_def opt_all_def
      repos_tidy_def deps_tidy_def bases_tidy_def image_bases_tidy_def package_usable_def wf_map_def HasGomods_def
      signers_set_def signer_set_def signer_of_def split: option.splits)

lemma build_deps_spec_buildable: "buildable so (build_deps_spec sp deps)"
  by (rule plain_spec_buildable(1)) (simp_all add: build_deps_spec_def empty_spec_def empty_deps_def)

lemma deb_InstallBuildDeps_total:
  assumes "package_usable env so sp" and "repos_usable so (dbc_ExtraRepos cfg)"
  shows "deb_InstallBuildDeps cfg env so sp key st \<noteq> None"
proof -
  let ?sp = "build_deps_spec sp (GetBuild (GetPackageDeps sp key))"
  obtain dr where "Debroot_llb so (de_main_path env) st ?sp key [] (dbc_VersionID cfg) (AddPath [] []) = Some dr"
    using Debroot_llb_total [OF build_deps_spec_buildable] by blast
  moreover obtain m where "deb_RepoMounts cfg so (deb_repos cfg sp key ''build'') = Some m"
    using deb_RepoMounts_total [OF deb_repos_usable [OF assms(2)]] assms(1) unfolding package_usable_def by blast
  ultimately show ?thesis by (simp add: deb_InstallBuildDeps_def Let_def)
qed

text \<open>A go build cache keeps a spec with build steps valid.\<close>

lemma goBuild_cache_ok: "cacheConfig_ok goBuild_cache"
  by (simp add: goBuild_cache_def cacheConfig_ok_def is_set_def)

lemma with_go_cache_ok:
  assumes "spec_ok dg sp" and "ab_Steps (sp_Build sp) \<noteq> []"
  shows "spec_ok dg (with_go_cache sp)"
proof (cases "list_ex (\<lambda>c. cc_GoBuild c \<noteq> None) (ab_Caches (sp_Build sp))")
  case False
  then have "filter (\<lambda>c. \<exists>y. cc_GoBuild c = Some y) (ab_Caches (sp_Build sp)) = []"
    by (auto simp: list_ex_iff filter_empty_conv)
  with False assms goBuild_cache_ok show ?thesis
    by (auto simp: with_go_cache_def spec_ok_def build_block_ok_def)
qed (use assms in \<open>simp add: with_go_cache_def\<close>)

lemma with_go_cache_same:
  "sp_Sources (with_go_cache sp) = sp_Sources sp" "sp_Patches (with_go_cache sp) = sp_Patches sp"
  "sp_Targets (with_go_cache sp) = sp_Targets sp" "sp_Dependencies (with_go_cache sp) = sp_Dependencies sp"
  "sp_Image (with_go_cache sp) = sp_Image sp" "ab_Steps (sp_Build (with_go_cache sp)) = ab_Steps (sp_Build sp)"
  "sp_Tests (with_go_cache sp) = sp_Tests sp" "sp_PackageConfig (with_go_cache sp) = sp_PackageConfig sp"
  by (simp_all add: with_go_cache_def)

lemma with_go_cache_has:
  "HasGolang (with_go_cache sp) key = HasGolang sp key" "HasGomods (with_go_cache sp) = HasGomods sp"
proof -
  have "GetPackageDeps (with_go_cache sp) key = GetPackageDeps sp key"
    unfolding GetPackageDeps_def with_go_cache_same ..
  then show "HasGolang (with_go_cache sp) key = HasGolang sp key" "HasGomods (with_go_cache sp) = HasGomods sp"
    by (simp_all add: HasGolang_def HasGomods_def with_go_cache_same)
qed

lemma with_go_cache_usable:
  assumes "package_usable env so sp" and "ab_Steps (sp_Build sp) \<noteq> []"
  shows "package_usable env so (with_go_cache sp)"
  using assms with_go_cache_ok [of "so_Digest so" sp]
  by (auto simp: package_usable_def buildable_def sources_tidy_def repos_tidy_def signers_set_def with_go_cache_same)

lemma prepareGo_returns: "returns (prepareGo env w sp key)"
  unfolding prepareGo_def Let_def by (auto intro!: returns_and_then returns_search)

lemma prepareGo_spec:
  assumes "prepareGo env w sp key = (es, Some (r, sp'))"
  shows "sp' = (if HasGolang sp key \<or> HasGomods sp then with_go_cache sp else sp)"
  using assms by (auto simp: prepareGo_def Let_def and_then_Some split: if_splits)

lemma deb_usable_go:
  assumes "deb_usable cfg env so sp key"
  shows "deb_usable cfg env so (if HasGolang sp key \<or> HasGomods sp then with_go_cache sp else sp) key"
  using assms with_go_cache_usable [of env so sp]
  by (auto simp: deb_usable_def with_go_cache_has with_go_cache_same bases_tidy_def)

lemma deb_BuildPkg_spec:
  assumes "deb_BuildPkg cfg env pl w so sp key = (es, Some (r, sp'))"
  shows "sp' = sp \<and> (\<exists>e. r = Inl e) \<or> sp' = (if HasGolang sp key \<or> HasGomods sp then with_go_cache sp else sp)"
proof -
  let ?v = "if dbc_VersionID cfg = [] then ReadDistroVersionID env w else ret (Inr (dbc_VersionID cfg))"
  obtain es1 v es2 where v: "?v = (es1, Some v)"
    and k: "(case v of
        Inl e \<Rightarrow> ret (Inl e, sp)
      | Inr versionID \<Rightarrow>
          and_then (lift (deb_InstallBuildDeps cfg env so sp key w)) (\<lambda>worker.
          and_then (prepareGo env worker sp key) (\<lambda>(r, sp).
            case r of
              Inl e \<Rightarrow> ret (Inl e, sp)
            | Inr paths \<Rightarrow>
                and_then (deb_packages env so worker sp key versionID paths) (\<lambda>pkg. ret (pkg, sp)))))
      = (es2, Some (r, sp'))"
    using assms unfolding deb_BuildPkg_def and_then_Some by blast
  show ?thesis
  proof (cases v)
    case (Inr versionID)
    obtain es3 worker r0 s where p: "prepareGo env worker sp key = (es3, Some (r0, s))"
      and "\<exists>es4. (case r0 of Inl e \<Rightarrow> ret (Inl e, s)
            | Inr paths \<Rightarrow> and_then (deb_packages env so worker s key versionID paths) (\<lambda>pkg. ret (pkg, s)))
          = (es4, Some (r, sp'))"
      using k Inr by (force simp: and_then_Some)
    then have "sp' = s" by (cases r0) (auto simp: and_then_Some)
    with prepareGo_spec [OF p] show ?thesis by blast
  qed (use k in auto)
qed

lemma deb_BuildPkg_returns:
  assumes "deb_usable cfg env so sp key"
  shows "returns (deb_BuildPkg cfg env pl w so sp key)"
    and "deb_BuildPkg cfg env pl w so sp key = (es, Some (r, sp')) \<Longrightarrow> deb_usable cfg env so sp' key"
proof -
  have ready: "client_ready env so" and pu: "package_usable env so sp" and ex: "repos_usable so (dbc_ExtraRepos cfg)"
    using assms by (auto simp: deb_usable_def)
  have pkgs: "returns (deb_packages env so w' s key ver paths)" if u: "deb_usable cfg env so s key" for w' s ver paths
  proof -
    obtain cred where "so_CredHelper so = Inr cred" using ready by (auto simp: client_ready_def)
    then have "deb_source_package env so w' s key ver paths \<noteq> None"
      using SourcePackage_total [of so s cred] u
      unfolding deb_source_package_def deb_usable_def package_usable_def by (metis option.distinct(1))
    moreover have "signers_set s" using u by (simp add: deb_usable_def package_usable_def)
    ultimately show ?thesis
      unfolding deb_packages_def Let_def by (auto intro!: returns_or_err sign_returns [OF ready])
  qed
  show "returns (deb_BuildPkg cfg env pl w so sp key)"
    unfolding deb_BuildPkg_def
    using deb_InstallBuildDeps_total [OF pu ex] deb_usable_go [OF assms] pkgs prepareGo_returns
    by (auto intro!: returns_and_then split: sum.split dest!: prepareGo_spec)
  show "deb_usable cfg env so sp' key" if "deb_BuildPkg cfg env pl w so sp key = (es, Some (r, sp'))"
    using deb_BuildPkg_spec [OF that] assms deb_usable_go [OF assms] by auto
qed

lemma base_packages_usable:
  assumes "client_ready env so" and "repos_usable so (dbc_ExtraRepos cfg)"
  shows "deb_usable cfg env so (base_packages_spec pkgs) key"
proof -
  let ?s = "base_packages_spec pkgs"
  have "package_usable env so ?s" "bases_tidy ?s" "\<not> HasGomods ?s"
    by (rule plain_spec_buildable; simp add: base_packages_spec_def empty_spec_def empty_deps_def)+
  moreover have "\<not> HasGolang ?s key"
    by (simp add: HasGolang_def GetPackageDeps_def GetDep_def base_packages_spec_def empty_spec_def empty_deps_def)
  ultimately show ?thesis using assms by (simp add: deb_usable_def)
qed

interpretation deb_total: distro_total "deb_config cfg" "deb_usable cfg" for cfg
proof
  fix env :: distroEnv and so :: sourceOpts and sp sp' :: spec and key :: string and pl :: "platform option"
    and w pkg ctr :: llb and es :: "event list" and r
  assume u: "deb_usable cfg env so sp key"
  have ready: "client_ready env so" and pu: "package_usable env so sp" and bt: "bases_tidy sp"
    and ex: "repos_usable so (dbc_ExtraRepos cfg)"
    using u by (auto simp: deb_usable_def)
  have ok: "spec_ok (so_Digest so) sp" and repos: "repos_usable so (deb_repos cfg sp key what)" for what
    using pu deb_repos_usable [OF ex] by (auto simp: package_usable_def buildable_def)
  have mounts: "deb_RepoMounts cfg so (deb_repos cfg sp key what) \<noteq> None" for what
    by (rule deb_RepoMounts_total [OF repos])
  show "returns (d_BuildPkg (deb_config cfg) env pl w so sp key)"
    using deb_BuildPkg_returns(1) [OF u] by (simp add: deb_config_def)
  show "deb_usable cfg env so sp' key" if "d_BuildPkg (deb_config cfg) env pl w so sp key = (es, Some (r, sp'))"
    using that deb_BuildPkg_returns(2) [OF u] by (simp add: deb_config_def)
  show "d_ExtractPkg (deb_config cfg) env pl w so sp key pkg \<noteq> None"
    by (simp add: deb_config_def deb_ExtractPkg_def Let_def)
  have "returns (with_base_packages cfg env pl w so key img)" for img
    using deb_BuildPkg_returns(1) [OF base_packages_usable [OF ready ex]]
    by (auto simp: with_base_packages_def intro!: returns_and_then)
  moreover have "deb_baseImg cfg so bi \<noteq> None" if "GetSingleBase sp key = Inr bi" for bi
    using base_image_total(1) [OF ok bt that] by (auto simp: deb_baseImg_def split: option.splits)
  ultimately show "returns (d_BuildContainer (deb_config cfg) env pl w so sp key pkg)"
    using mounts by (auto simp: deb_config_def deb_BuildContainer_def intro!: returns_intros)
  show "returns (d_RunTests (deb_config cfg) env pl w sp so ctr key)"
    using mounts
    by (auto simp: deb_config_def deb_RunTests_def deb_InstallTestDeps_def Let_def split: sum.split
        intro!: returns_and_then run_tests_returns [OF ready])
  show "linux_BuildImageConfig env sp pl key \<noteq> None" by (rule image_config_total [OF ok bt])
qed

end
