(* ===== verification/Debug_Handlers.thy ===== *)
theory Debug_Handlers
  imports Rpm_Distro
begin

text \<open>
  The debug target that does not depend on a distribution (frontend/debug): the resolved spec, the
  sources, the patched sources and the dependencies that the generators fetch.

  The inputs of the client and the YAML encoder are parameters.  \<open>st.Marshal\<close> on a nil \<open>*llb.State\<close>
  panics, which is \<^term>\<open>None\<close>.
\<close>

section \<open>Workers\<close>

definition input_or :: "string \<Rightarrow> llb gomap \<Rightarrow> llb \<Rightarrow> llb" where
  "input_or key inputs dflt = (case map_of inputs key of None \<Rightarrow> dflt | Some st \<Rightarrow> st)"

definition keyCargohomeWorker :: string where "keyCargohomeWorker = ''context:cargohome-worker''"
definition keyGomodWorker :: string where "keyGomodWorker = ''gomod-worker''"
definition keyPipWorker :: string where "keyPipWorker = ''context:pip-worker''"
definition keyPatchedSourcesWorker :: string where "keyPatchedSourcesWorker = ''context:patched-sources-worker''"

definition cargohome_worker :: llb where
  "cargohome_worker = ExecRoot (Image ''rust:latest'') [RunShlex ''cargo --version'']"

definition gomod_worker :: llb where
  "gomod_worker = ExecRoot (Image ''alpine:latest'') [RunShlex ''apk add --no-cache go git ca-certificates patch openssh'']"

definition pip_worker :: llb where
  "pip_worker =
    ExecRoot (ExecRoot (ExecRoot (ExecRoot (ExecRoot (Image ''python:latest'')
      [ShArgs ''DEBIAN_FRONTEND=noninteractive apt-get update && apt-get install -y build-essential''])
      [ShArgs ''rm -rf /var/lib/apt/lists/*''])
      [RunShlex ''python3 --version''])
      [ShArgs ''python3 -m venv /opt/venv && /opt/venv/bin/pip install --upgrade pip''])
      [RunShlex ''python3 -m pip --version'']"

definition patched_sources_worker :: llb where
  "patched_sources_worker = ExecRoot (Image ''alpine:latest'') [RunShlex ''apk add --no-cache go git ca-certificates patch'']"

definition addedHosts :: "buildOpts \<Rightarrow> llb \<Rightarrow> llb" where
  "addedHosts bopts s =
    (case map_of bopts ''add-hosts'' of
       None \<Rightarrow> s
     | Some v \<Rightarrow>
         foldl (\<lambda>st pair. case Cut pair ''='' of (key, val, _) \<Rightarrow> AddExtraHost st key val) s (split_on CHR '','' v))"

section \<open>Handlers\<close>

text \<open>The end of every handler: marshal, solve, and an empty image.\<close>

definition solved :: "(goerr \<Rightarrow> goerr) \<Rightarrow> distroEnv \<Rightarrow> llb \<Rightarrow> built act" where
  "solved mw env st =
    attempt None (solve_state mw env st) (\<lambda>ref. ret (Some ref, Some (platform_image no_platform), None))"

definition Cargohome :: "(goerr + llb gomap) \<Rightarrow> distroEnv \<Rightarrow> event platformBuildFunc" where
  "Cargohome inputs env platform sp targetKey =
    attempt None (ret (env_sourceOpts env platform)) (\<lambda>so.
    attempt None (ret inputs) (\<lambda>ins.
    attempt None (lift (CargohomeDeps so (input_or keyCargohomeWorker ins cargohome_worker) sp)) (\<lambda>st.
    and_then (lift st) (solved id env))))"

definition Gomods :: "(goerr + llb gomap) \<Rightarrow> distroEnv \<Rightarrow> event platformBuildFunc" where
  "Gomods inputs env platform sp targetKey =
    attempt None (ret (env_sourceOpts env platform)) (\<lambda>so.
    attempt None (ret inputs) (\<lambda>ins.
    attempt None (lift (GomodDeps so (addedHosts (de_opts env) (input_or keyGomodWorker ins gomod_worker)) sp)) (\<lambda>st.
    and_then (lift st) (solved id env))))"

definition Pip :: "(goerr + llb gomap) \<Rightarrow> distroEnv \<Rightarrow> event platformBuildFunc" where
  "Pip inputs env platform sp targetKey =
    attempt None (ret (env_sourceOpts env platform)) (\<lambda>so.
    attempt None (ret inputs) (\<lambda>ins.
    attempt None (lift (PipDeps so (input_or keyPipWorker ins pip_worker) sp)) (\<lambda>pipDeps.
      solved id env (case pipDeps of None \<Rightarrow> Scratch | Some st \<Rightarrow> st))))"

definition Resolve :: "(spec \<Rightarrow> goerr + string) \<Rightarrow> distroEnv \<Rightarrow> event platformBuildFunc" where
  "Resolve marshal env platform sp targetKey =
    attempt None (ret (wrap_inl ''error marshalling spec'' (marshal sp))) (\<lambda>dt.
      solved (Wrap ''error marshalling llb'') env (llb.Mkfile Scratch ''spec.yml'' 416 dt None))"

definition SortedMapValues :: "llb gomap \<Rightarrow> llb list" where
  "SortedMapValues m = map (state_of m) (SortMapKeys m)"

definition debug_Sources :: "distroEnv \<Rightarrow> event platformBuildFunc" where
  "debug_Sources env platform sp targetKey =
    attempt None (ret (env_sourceOpts env platform)) (\<lambda>so.
    and_then (lift (Sources_llb sp so)) (\<lambda>sources.
      solved id env (MergeAtPath (so_DiffMergeOff so) Scratch (SortedMapValues sources) ''/'')))"

definition PatchedSources :: "(goerr + llb gomap) \<Rightarrow> distroEnv \<Rightarrow> event platformBuildFunc" where
  "PatchedSources inputs env platform sp targetKey =
    attempt None (ret (env_sourceOpts env platform)) (\<lambda>so.
    attempt None (ret inputs) (\<lambda>ins.
    (let worker = input_or keyPatchedSourcesWorker ins patched_sources_worker
     in and_then (lift (Sources_llb sp so)) (\<lambda>sources.
        and_then (lift (PatchSources worker sp sources)) (\<lambda>patched.
          solved id env (MergeAtPath (so_DiffMergeOff so) Scratch (SortedMapValues patched) ''/''))))))"

section \<open>Routes\<close>

definition DebugRoute :: string where "DebugRoute = ''debug''"

definition frontend_debug_mux :: "'r runner \<Rightarrow> (goerr + llb gomap) \<Rightarrow> (spec \<Rightarrow> goerr + string) \<Rightarrow> 'r buildMux" where
  "frontend_debug_mux run inputs marshal =
    route ''pip'' ''Outputs all the pip dependencies for the spec'' False (run (Pip inputs))
    (route ''cargohome'' ''Outputs all the Cargo dependencies for the spec'' False (run (Cargohome inputs))
    (route ''gomods'' ''Outputs all the gomodule dependencies for the spec'' False (run (Gomods inputs))
    (route ''patched-sources'' ''Outputs all patched sources from a dalec spec file.'' False (run (PatchedSources inputs))
    (route ''sources'' ''Outputs all sources from a dalec spec file.'' False (run debug_Sources)
    (route ''resolve'' ''Outputs the resolved dalec spec file with build args applied.'' False (run (Resolve marshal))
       new_mux)))))"

definition debug_Handle :: "'r services \<Rightarrow> 'r runner \<Rightarrow> (goerr + llb gomap) \<Rightarrow> (spec \<Rightarrow> goerr + string) \<Rightarrow> 'r buildFunc" where
  "debug_Handle sv run inputs marshal = mux_func sv (frontend_debug_mux run inputs marshal)"

end
