(* ===== verification/Frontend_Main.thy ===== *)
theory Frontend_Main
  imports Targets Debug_Handlers
begin

text \<open>
  The frontend process (cmd/frontend/main.go and plugin.go, targets/register.go): the choice of the
  subcommand, the registration of the built-in targets as plugins and the router that serves a build.

  The plugin registry is third-party code.  \<open>graph\<close> returns the registrations that its filter does not
  disable, \<open>set_add\<close> adds an initialised plugin to the set of those before it, and \<open>is_skip\<close> recognises
  the error of a plugin that wants to be skipped.
\<close>

section \<open>Subcommands\<close>

text \<open>
  \<open>flag.Parse\<close> without any defined flag: arguments up to the first that is no flag, and the rest; a flag ends
  the process, which is \<^term>\<open>None\<close>.
\<close>

fun parse_flags :: "string list \<Rightarrow> string list option" where
  "parse_flags [] = Some []"
| "parse_flags (s # args) =
    (if length s < 2 \<or> hd s \<noteq> CHR ''-'' then Some (s # args)
     else if s = ''--'' then Some args
     else None)"

datatype frontendCmd =
    CredHelperCmd "string list"
  | StepRunnerCmd "string list"
  | FileCheckerCmd "string list"
  | DalecMain

definition credHelperSubcmd :: string where "credHelperSubcmd = ''credential-helper''"
definition StepRunnerCmdName :: string where "StepRunnerCmdName = ''test-steprunner''"
definition CheckFilesCmdName :: string where "CheckFilesCmdName = ''test-checkfiles''"

definition frontend_main :: "string list \<Rightarrow> frontendCmd option" where
  "frontend_main os_args =
    (case parse_flags os_args of
       None \<Rightarrow> None
     | Some args \<Rightarrow>
         (let subCmd = (if 1 < length args then args ! 1 else [])
          in Some (if subCmd = credHelperSubcmd then CredHelperCmd (drop 2 args)
                   else if subCmd = StepRunnerCmdName then StepRunnerCmd (drop 2 args)
                   else if subCmd = CheckFilesCmdName then FileCheckerCmd (drop 2 args)
                   else DalecMain)))"

section \<open>Plugins\<close>

definition TypeBuildTarget :: string where "TypeBuildTarget = ''build-target''"

record 'r registration =
  reg_ID :: string
  reg_Type :: string
  reg_Init :: "goerr + 'r buildFunc"

definition RegisterBuildTarget :: "string \<Rightarrow> 'r buildFunc \<Rightarrow> 'r registration" where
  "RegisterBuildTarget name build = \<lparr>reg_ID = name, reg_Type = TypeBuildTarget, reg_Init = Inr build\<rparr>"

text \<open>A skipped plugin has no instance, and the conversion of the missing instance panics.\<close>

fun load_plugins ::
  "('r registration list \<Rightarrow> 'r registration \<Rightarrow> gores) \<Rightarrow> (goerr \<Rightarrow> bool) \<Rightarrow> 'r registration list
   \<Rightarrow> 'r registration list \<Rightarrow> 'r buildMux \<Rightarrow> (gores \<times> 'r buildMux) option" where
  "load_plugins set_add is_skip added [] mux = Some (None, mux)"
| "load_plugins set_add is_skip added (r # rs) mux =
    (case set_add added r of
       Some e \<Rightarrow> Some (Some e, mux)
     | None \<Rightarrow>
         (case reg_Init r of
            Inl e \<Rightarrow> (if is_skip e then None else Some (Some e, mux))
          | Inr bf \<Rightarrow> load_plugins set_add is_skip (added @ [r]) rs (Add mux (reg_ID r) bf None)))"

definition loadPlugins ::
  "(('r registration \<Rightarrow> bool) \<Rightarrow> 'r registration list) \<Rightarrow> ('r registration list \<Rightarrow> 'r registration \<Rightarrow> gores)
   \<Rightarrow> (goerr \<Rightarrow> bool) \<Rightarrow> 'r buildMux \<Rightarrow> (gores \<times> 'r buildMux) option" where
  "loadPlugins graph set_add is_skip = load_plugins set_add is_skip [] (graph (\<lambda>r. reg_Type r \<noteq> TypeBuildTarget))"

section \<open>The frontend\<close>

text \<open>The handler that \<open>dalecMain\<close> serves; an error or a panic while the plugins are loaded ends the process.\<close>

definition dalecMain ::
  "'r services \<Rightarrow> (spec \<Rightarrow> frontend \<Rightarrow> 'r buildFunc) \<Rightarrow> 'r buildFunc
   \<Rightarrow> (('r registration \<Rightarrow> bool) \<Rightarrow> 'r registration list) \<Rightarrow> ('r registration list \<Rightarrow> 'r registration \<Rightarrow> gores)
   \<Rightarrow> (goerr \<Rightarrow> bool) \<Rightarrow> 'r buildFunc option" where
  "dalecMain sv fwd debug graph set_add is_skip =
    (case loadPlugins graph set_add is_skip (Add new_mux DebugRoute debug None) of
       None \<Rightarrow> None
     | Some (Some e, _) \<Rightarrow> None
     | Some (None, mux) \<Rightarrow> Some (\<lambda>opts. fst (Handler sv [WithTargetForwardingHandler sv fwd] mux opts)))"

definition builtin_registrations :: "'r buildFunc gomap \<Rightarrow> 'r registration list" where
  "builtin_registrations targets = map (\<lambda>(k, bf). RegisterBuildTarget k bf) targets"

text \<open>
  What the registry documents: it returns every registration that is not disabled once, in some order,
  and the set accepts a plugin unless one of the same type and name is in it.
\<close>

definition set_accepts :: "('r registration list \<Rightarrow> 'r registration \<Rightarrow> gores) \<Rightarrow> bool" where
  "set_accepts set_add =
    (\<forall>added r. (reg_Type r, reg_ID r) \<notin> (\<lambda>r. (reg_Type r, reg_ID r)) ` set added \<longrightarrow> set_add added r = None)"

definition registry_ok ::
  "'r registration list \<Rightarrow> (('r registration \<Rightarrow> bool) \<Rightarrow> 'r registration list) \<Rightarrow> ('r registration list \<Rightarrow> 'r registration \<Rightarrow> gores)
   \<Rightarrow> bool" where
  "registry_ok registered graph set_add =
    ((\<forall>f. distinct (map reg_ID registered) \<longrightarrow> distinct (map reg_ID (graph f)) \<and> set (graph f) = {r \<in> set registered. \<not> f r})
     \<and> set_accepts set_add)"

section \<open>Lemmas\<close>

lemma load_plugins_lookup:
  assumes "\<And>r. r \<in> set rs \<Longrightarrow> reg_Init r = Inr (f (reg_ID r))" and "distinct (map reg_ID (added @ rs))"
    and "set_accepts set_add"
  shows "\<exists>m. load_plugins set_add is_skip added rs mux = Some (None, m) \<and> m_spec m = m_spec mux
    \<and> (\<forall>k. map_of (m_handlers m) k =
         (if k \<in> reg_ID ` set rs then Some \<lparr>h_f = f k, h_t = None\<rparr> else map_of (m_handlers mux) k))"
  using assms(1,2)
proof (induction rs arbitrary: added mux)
  case (Cons r rs)
  let ?m = "Add mux (reg_ID r) (f (reg_ID r)) None"
  have fresh: "set_add added r = None" using Cons.prems(2) assms(3) by (auto simp: set_accepts_def)
  have init: "reg_Init r = Inr (f (reg_ID r))" using Cons.prems(1) by simp
  have "distinct (map reg_ID ((added @ [r]) @ rs))" using Cons.prems(2) by simp
  then obtain m where m: "load_plugins set_add is_skip (added @ [r]) rs ?m = Some (None, m)"
    "m_spec m = m_spec ?m"
    "\<forall>k. map_of (m_handlers m) k = (if k \<in> reg_ID ` set rs then Some \<lparr>h_f = f k, h_t = None\<rparr> else map_of (m_handlers ?m) k)"
    using Cons.IH [of "added @ [r]" ?m] Cons.prems(1) by auto
  moreover have "load_plugins set_add is_skip added (r # rs) mux = Some (None, m)" using fresh init m(1) by simp
  moreover have "map_of (m_handlers m) k =
      (if k \<in> reg_ID ` set (r # rs) then Some \<lparr>h_f = f k, h_t = None\<rparr> else map_of (m_handlers mux) k)" for k
    by (simp add: m(3) update_conv')
  ultimately show ?case by simp
qed simp

text \<open>Among names without a slash, the part of a target before its first slash is the only match.\<close>

lemma lookup_first_element:
  assumes "map_of (m_handlers m) k = Some h" and "\<forall>k' \<in> fst ` set (m_handlers m). slash \<notin> set k'"
  shows "lookupTarget m (k @ ''/'' @ r) = Inr (k, h)"
proof -
  let ?t = "k @ ''/'' @ r"
  have k: "k \<in> fst ` set (m_handlers m)" using assms(1) by (force dest: map_of_SomeD)
  have none: "map_of (m_handlers m) ?t = None" using assms(2) by (force simp: map_of_eq_None_iff)
  have only: "k' = k" if k': "k' \<in> fst ` set (m_handlers m)" "slash_match k' ?t" for k'
  proof -
    obtain rest where "k @ slash # r = k' @ slash # rest"
      using k'(2) by (auto simp: slash_match_def HasPrefix_iff_prefix prefix_def)
    then have "takeWhile (\<lambda>c. c \<noteq> slash) (k @ slash # r) = takeWhile (\<lambda>c. c \<noteq> slash) (k' @ slash # rest)" by simp
    moreover have "\<forall>c \<in> set k. c \<noteq> slash" "\<forall>c \<in> set k'. c \<noteq> slash" using assms(2) k k'(1) by auto
    ultimately show ?thesis by (simp add: takeWhile_append2)
  qed
  let ?c = "filter (\<lambda>k. slash_match k ?t) (map fst (m_handlers m))"
  have "k \<in> set ?c" using k by (auto simp: slash_match_def HasPrefix_iff_prefix)
  then have ne: "?c \<noteq> []" by (metis empty_iff list.set(1))
  then have "sort ?c \<noteq> []" by (metis length_0_conv length_sort)
  then have "last (sort ?c) \<in> set ?c" using last_in_set set_sort by metis
  then have c: "?c \<noteq> []" "last (sort ?c) = k" using only ne by simp_all
  show ?thesis using none c assms(1) by (simp add: lookupTarget_def Let_def)
qed

lemma no_forward:
  assumes "list_all (\<lambda>p. tg_Frontend (snd p) = None) (sp_Targets sp)"
  shows "forward_targets fwd sp m = m"
proof -
  have "list_all (\<lambda>p. tg_Frontend (snd p) = None) ts \<Longrightarrow> foldl (add_forward fwd sp) m ts = m" for ts m
    by (induction ts) (simp_all add: add_forward_def)
  with assms show ?thesis by (simp add: forward_targets_def)
qed

text \<open>What the process serves once the plugins of the registered targets are loaded.\<close>

lemma loadPlugins_targets:
  assumes "registry_ok (builtin_registrations targets) graph set_add" and "wf_map targets"
  shows "\<exists>m. loadPlugins graph set_add is_skip mux = Some (None, m) \<and> m_spec m = m_spec mux
    \<and> (\<forall>k. map_of (m_handlers m) k =
         (case map_of targets k of Some bf \<Rightarrow> Some \<lparr>h_f = bf, h_t = None\<rparr> | None \<Rightarrow> map_of (m_handlers mux) k))"
proof -
  let ?g = "graph (\<lambda>r. reg_Type r \<noteq> TypeBuildTarget)"
  let ?f = "\<lambda>k. the (map_of targets k)"
  have ids: "map reg_ID (builtin_registrations targets) = map fst targets"
    by (simp add: builtin_registrations_def RegisterBuildTarget_def case_prod_unfold)
  then have g: "distinct (map reg_ID ?g)" "set ?g = {r \<in> set (builtin_registrations targets). \<not> reg_Type r \<noteq> TypeBuildTarget}"
    using assms unfolding registry_ok_def wf_map_def by simp_all
  then have all: "set ?g = set (builtin_registrations targets)"
    by (auto simp: builtin_registrations_def RegisterBuildTarget_def)
  have "reg_Init r = Inr (?f (reg_ID r))" if "r \<in> set ?g" for r
    using that assms(2) unfolding all
    by (auto simp: builtin_registrations_def RegisterBuildTarget_def wf_map_def)
  with load_plugins_lookup [of ?g ?f "[]" set_add is_skip mux] g(1) assms(1)
  obtain m where m: "loadPlugins graph set_add is_skip mux = Some (None, m)" "m_spec m = m_spec mux"
    "\<forall>k. map_of (m_handlers m) k = (if k \<in> reg_ID ` set ?g then Some \<lparr>h_f = ?f k, h_t = None\<rparr> else map_of (m_handlers mux) k)"
    by (auto simp: loadPlugins_def registry_ok_def)
  have "reg_ID ` set ?g = fst ` set targets" unfolding all using ids by (metis set_map)
  then have "map_of (m_handlers m) k =
      (case map_of targets k of Some bf \<Rightarrow> Some \<lparr>h_f = bf, h_t = None\<rparr> | None \<Rightarrow> map_of (m_handlers mux) k)" for k
    using m(3) map_of_eq_None_iff [of targets k] by (cases "map_of targets k") auto
  with m(1,2) show ?thesis by blast
qed

lemma builtin_names:
  "wf_map (builtin_targets sv run container lb)" "\<forall>k \<in> fst ` set (builtin_targets sv run container lb). slash \<notin> set k"
  by (simp_all add: builtin_targets_def wf_map_def)

end
