(* ===== verification/Os_Release.thy ===== *)
theory Os_Release
  imports Deb_Distro
begin

text \<open>
  What the file \<open>/etc/os-release\<close> says, as a map of assignments, and that the scan of
  \<open>ReadDistroVersionID\<close> finds it, however the file is delivered.
\<close>

section \<open>The reference\<close>

definition assignments :: "string list \<Rightarrow> string gomap" where
  "assignments ls = concat (map (\<lambda>l. case Cut l ''='' of (k, v, ok) \<Rightarrow> if ok then [(k, v)] else []) ls)"

definition file_lines :: "string \<Rightarrow> string list" where
  "file_lines content = map drop_cr (split_on (CHR 0x0A) content)"

definition known_value :: "string gomap \<Rightarrow> string \<Rightarrow> string" where
  "known_value m k = (case map_of m k of None \<Rightarrow> [] | Some v \<Rightarrow> unquote v)"

definition distro_version :: "string gomap \<Rightarrow> goerr + string" where
  "distro_version m =
    (if known_value m ''ID'' \<noteq> [] \<and> known_value m ''VERSION_ID'' \<noteq> []
     then Inr (known_value m ''ID'' @ known_value m ''VERSION_ID'')
     else Inl (Msg ''could not determine distro or version ID''))"

section \<open>The scan\<close>

definition ahead :: "string \<Rightarrow> string gomap \<Rightarrow> string \<Rightarrow> string" where
  "ahead k m dflt = (case map_of m k of None \<Rightarrow> dflt | Some v \<Rightarrow> unquote v)"

lemma assignments_simps [simp]:
  "assignments [] = []"
  "assignments (l # ls) = (case Cut l ''='' of (k, v, ok) \<Rightarrow> if ok then [(k, v)] else []) @ assignments ls"
  by (simp_all add: assignments_def)

lemma scan_append:
  "\<not> both_known acc \<Longrightarrow> scan_os_release (xs @ ys) acc =
    (let a = scan_os_release xs acc in if both_known a then a else scan_os_release ys a)"
  by (induction xs arbitrary: acc) (auto simp: Let_def)

text \<open>With unassigned values so far empty, the scan knows both exactly when the rest of the file does.\<close>

lemma scan_known:
  assumes "distinct (map fst (assignments ls))" and "\<not> both_known (a, b)"
    and "map_of (assignments ls) ''ID'' \<noteq> None \<Longrightarrow> a = []" and "map_of (assignments ls) ''VERSION_ID'' \<noteq> None \<Longrightarrow> b = []"
  shows "scan_os_release ls (a, b) = (ahead ''ID'' (assignments ls) a, ahead ''VERSION_ID'' (assignments ls) b)"
  using assms
proof (induction ls arbitrary: a b)
  case (Cons l ls)
  obtain k v ok where cut: "Cut l ''='' = (k, v, ok)" by (metis surj_pair)
  have fresh: "ok \<Longrightarrow> map_of (assignments ls) k = None" using Cons.prems(1) by (simp add: cut map_of_eq_None_iff)
  have dist: "distinct (map fst (assignments ls))" using Cons.prems(1) by simp
  obtain a' b' where acc: "os_release_line (a, b) l = (a', b')" by (metis surj_pair)
  have hyps: "map_of (assignments ls) ''ID'' \<noteq> None \<Longrightarrow> a' = []" "map_of (assignments ls) ''VERSION_ID'' \<noteq> None \<Longrightarrow> b' = []"
    and step: "ahead ''ID'' (assignments (l # ls)) a = ahead ''ID'' (assignments ls) a'"
      "ahead ''VERSION_ID'' (assignments (l # ls)) b = ahead ''VERSION_ID'' (assignments ls) b'"
    using acc Cons.prems(3,4) fresh by (auto simp: os_release_line_def cut ahead_def split: if_splits)
  show ?case
  proof (cases "both_known (a', b')")
    case True
    then have "map_of (assignments ls) ''ID'' = None" "map_of (assignments ls) ''VERSION_ID'' = None"
      using hyps unfolding both_known_def by fastforce+
    then show ?thesis using True step by (simp add: acc ahead_def)
  next
    case False
    from Cons.IH [OF dist False hyps] False step show ?thesis by (simp add: acc)
  qed
qed (simp add: ahead_def)

lemma drop_cr_Nil [simp]: "drop_cr [] = []"
  by (simp add: drop_cr_def TrimSuffix_def HasSuffix_def)

text \<open>The complete lines and what is left after the last of them are scanned like the whole file.\<close>

lemma scannable_all: "list_all (\<lambda>l. length l < MaxScanTokenSize) ls \<Longrightarrow> scannable ls = ls"
  by (simp add: scannable_def list_all_iff)

lemma read_os_release_scan:
  assumes "list_all (\<lambda>l. length l < MaxScanTokenSize) (split_on (CHR 0x0A) content)"
  shows "read_os_release content (Some EOF) =
    (let acc = scan_os_release (file_lines content) ([], [])
     in if both_known acc then Inr (fst acc @ snd acc) else Inl (Msg ''could not determine distro or version ID''))"
proof -
  let ?ls = "split_on (CHR 0x0A) content"
  have lines: "file_lines content = map drop_cr (butlast ?ls) @ [drop_cr (last ?ls)]"
    unfolding file_lines_def by (metis append_butlast_last_id list.simps(8) list.simps(9) map_append split_on_not_Nil)
  have empty: "scan_os_release [drop_cr []] acc = acc" for acc
    by (simp add: os_release_line_def Let_def)
  have "scannable (butlast ?ls) = butlast ?ls"
    using assms in_set_butlastD by (intro scannable_all) (fastforce simp: list_all_iff)
  note whole = this scannable_all [OF assms]
  have "\<not> both_known ([], [])" by (simp add: both_known_def)
  from scan_append [OF this, of "map drop_cr (butlast ?ls)" "[drop_cr (last ?ls)]"] show ?thesis
    unfolding lines read_os_release_def Let_def using empty whole by (cases "last ?ls = []") auto
qed

lemma read_os_release_distro:
  assumes "wf_map (assignments (file_lines content))"
    and "list_all (\<lambda>l. length l < MaxScanTokenSize) (split_on (CHR 0x0A) content)"
  shows "read_os_release content (Some EOF) = distro_version (assignments (file_lines content))"
proof -
  let ?m = "assignments (file_lines content)"
  have "scan_os_release (file_lines content) ([], []) = (known_value ?m ''ID'', known_value ?m ''VERSION_ID'')"
    using scan_known [of "file_lines content" "[]" "[]"] assms(1)
    by (simp add: wf_map_def both_known_def ahead_def known_value_def)
  then show ?thesis by (simp add: read_os_release_scan [OF assms(2)] distro_version_def both_known_def)
qed

section \<open>Reading the file of a state\<close>

lemma ReadDistroVersionID_reads:
  assumes "solve_state id env st = ([SolveEv st], Some (Inr st))" and "serves (de_reference env st) ''etc/os-release'' content"
    and "\<forall>n \<in> set (de_buffers env). 0 < n" and "length content < length (de_buffers env)"
  shows "ReadDistroVersionID env st = ([SolveEv st], Some (read_os_release content (Some EOF)))"
proof -
  let ?ref = "de_reference env st"
  obtain f where f: "Open ?ref ''etc/os-release'' = Inr f"
    using assms(2) by (simp add: Open_def serves_def ValidPath_def)
  have "file_inv ''etc/os-release'' content f" "file_rest content f = content"
    using Open_inv [OF assms(2) f] by auto
  then obtain f' where "ReadAll (Read ?ref) (de_buffers env) f = ((content, Some EOF), f')"
    using bkfs_reader.ReadAll_complete [of ?ref "''etc/os-release''" content f "de_buffers env"] assms(2-4) by auto
  with f assms(1) show ?thesis
    by (simp add: ReadDistroVersionID_def FromState_def or_err_def and_then_def ret_def)
qed

end
