(* ===== verification/Distro_Claims.thy ===== *)
theory Distro_Claims
  imports Distro_Total Frontend_Main Build_Claims Os_Release
begin

text \<open>
  The properties of the target distributions, of the builds per platform, of the Windows target and of
  the frontend as a whole, each with a witness on concrete data.
\<close>

section \<open>A concrete client\<close>

definition demo_client :: "(llb, llb) client" where
  "demo_client = \<lparr>cl_inputs = Inr [], cl_marshal_file = (\<lambda>n c. Inr (llb.Mkfile Scratch n 420 c None)), cl_marshal_state = Inr,
     cl_marshal_spec = (\<lambda>sp. Inr (sp_Name sp)), cl_DetectSyntax = (\<lambda>_. None), cl_solve_def = (\<lambda>st. Inr (Inr (\<lambda>f. Inr []))),
     cl_solve = (\<lambda>r. Inr Scratch), cl_signing_config = (\<lambda>n p. Inl (Msg ''none''))\<rparr>"

definition demo_platform :: platform where
  "demo_platform = no_platform\<lparr>pl_OS := ''linux'', pl_Architecture := ''arm64''\<rparr>"

definition demo_libs :: libs where
  "demo_libs = \<lparr>lib_decode = (\<lambda>_. Inr packed_spec), lib_digest = any_digest, lib_host = demo_host, lib_lex = dollar_lex,
     lib_Format = (\<lambda>p. pl_OS p @ ''/'' @ pl_Architecture p), lib_DefaultSpec = no_platform\<lparr>pl_OS := ''linux'', pl_Architecture := ''amd64''\<rparr>\<rparr>"

text \<open>A client without named contexts but those it is given.\<close>

definition demo_ui :: "llb gomap \<Rightarrow> uiClient" where
  "demo_ui contexts =
    \<lparr>ui_Opts = [], ui_ReadEntrypoint = (\<lambda>_. Inr ''name: foo''), ui_BuildArgs = [(''COMMIT'', ''def''), (''TARGETARCH'', ''x'')],
     ui_BuildPlatforms = [lib_DefaultSpec demo_libs], ui_TargetPlatforms = [],
     ui_MainContext = (\<lambda>f. Inr (Some (Local ''context'' (f \<lparr>li_Includes = [], li_Excludes = [], li_FollowPaths = []\<rparr>)))),
     ui_NamedContext = (\<lambda>n p f. Inr (map_option (\<lambda>st. Inr (Some st)) (map_of contexts n))),
     ui_CurrentFrontend = Inr (Some (Image ''frontend''))\<rparr>"

definition os_release :: string where
  "os_release = lines_text [''NAME=Debian'', ''ID=debian'', ''VERSION_ID='' @ dq @ ''12'' @ dq]"

definition demo_env :: "llb gomap \<Rightarrow> distroEnv" where
  "demo_env contexts =
    \<lparr>de_client = demo_client, de_ui = Inr (demo_ui contexts), de_opts = [], de_libs = demo_libs, de_DiffMergeOff = False,
     de_remote = demo_remote, de_main_path = ''/x'',
     de_reference = (\<lambda>st. \<lparr>ref_Stat = (\<lambda>f. Inr (int (length os_release))),
        ref_ReadFile = (\<lambda>f off len. Inr (take len (drop (nat off) os_release))), ref_ReadDir = (\<lambda>_. Inr [])\<rparr>),
     de_buffers = replicate 60 16, de_Evaluate = (\<lambda>_. None), de_ToState = (\<lambda>_. None),
     de_ImageConfig = (\<lambda>r p. Inr (Inr (platform_image demo_platform))), de_split = (\<lambda>s. Inr [s]),
     de_PathEnv = (\<lambda>os. ''/bin''), de_sysext_sh = [], de_EvalTest = (\<lambda>st runs. NoResults), de_ErrSource = (\<lambda>_. None),
     de_finish = rev\<rparr>"

text \<open>A meta package with a test.\<close>

definition tested_spec :: spec where
  "tested_spec = empty_spec\<lparr>sp_Name := ''m'', sp_Version := ''1'', sp_Revision := ''1'', sp_Description := ''d'', sp_License := ''l'',
     sp_Packager := ''p'',
     sp_Tests := [\<lparr>t_Name = ''works'', t_Dir = [], t_Mounts = [], t_Env = [], t_Steps = [], t_Files = []\<rparr>]\<rparr>"

definition succeeds :: "built act \<Rightarrow> bool" where
  "succeeds m = (case snd m of Some (ref, img, None) \<Rightarrow> True | _ \<Rightarrow> False)"

lemma succeeds_iff: "succeeds m \<longleftrightarrow> (\<exists>es ref img. m = (es, Some (ref, img, None)))"
  by (cases m) (auto simp: succeeds_def split: option.splits)

lemma demo_package_succeeds:
  "succeeds (HandlePackage (rpm_config Azlinux3Config) (demo_env []) None (tested_spec\<lparr>sp_Image := Some demo_image\<rparr>) ''azlinux3'')"
  by code_simp

lemma demo_container_succeeds:
  "succeeds (HandleContainer (rpm_config almalinux_ConfigV9) (demo_env [(''pkg'', Image ''prebuilt'')]) None
     (tested_spec\<lparr>sp_Image := Some demo_image\<rparr>) ''almalinux9'')"
  by code_simp

lemma demo_tests_run:
  "\<not> tests_skipped (demo_env [])" "spec_tests (tested_spec\<lparr>sp_Image := Some demo_image\<rparr>) ''azlinux3'' \<noteq> []"
  by code_simp+

lemma demo_finish: "all_finish (demo_env contexts)"
  by (simp add: all_finish_def demo_env_def)

section \<open>Linux distributions\<close>

definition linux_config :: "distroConfig \<Rightarrow> bool" where
  "linux_config c = ((\<exists>cfg. c = rpm_config cfg) \<or> (\<exists>cfg. c = deb_config cfg))"

lemma linux_contract: "linux_config c \<Longrightarrow> distro_contract c"
  using rpm_distro.distro_contract_axioms deb_distro.distro_contract_axioms unfolding linux_config_def by blast

lemma linux_rpm: "linux_config (rpm_config cfg)"
  unfolding linux_config_def by blast

text \<open>
  C3 (targets/linux/distro_handler.go, HandlePackage; frontend/test_runner.go, RunTests): a package is delivered
  only after its container was built and tested.  If the package handler of an rpm or Debian distribution reports
  no error and every started test finishes, what it returns is the package that was built for the target; that
  package was solved and evaluated before anything else was asked for, and afterwards a container that is built
  from this very package was solved.  Then either the request skips tests (\<open>DALEC_SKIP_TESTS\<close>), or the spec and
  the target have none, or every test was run on that container, its commands completed, and its results, as far
  as the step command names its streams, can be decoded and report no failed check of a file of the test.
  Checks on the output of a step are not covered: the runner drops their failures (test_runner.go, line 159).
\<close>

theorem package_tested:
  assumes "linux_config c" and "all_finish env" and "HandlePackage c env pl sp0 key = (es, Some (ref, img, None))"
  shows "\<exists>so w pkg sp es1 rest ctr. env_sourceOpts env pl = Inr so \<and> d_Worker c env so pl = Inr w
    \<and> d_BuildPkg c env pl w so sp0 key = (es1, Some (Inr pkg, sp)) \<and> ref = Some pkg
    \<and> es = es1 @ [SolveEv pkg, EvaluateEv pkg] @ rest \<and> de_Evaluate env pkg = None
    \<and> input_of pkg ctr \<and> SolveEv ctr \<in> set rest
    \<and> (tests_skipped env \<or> spec_tests sp key = [] \<or> tests_clean env sp key ctr rest)"
  by (rule distro_contract.package_ok [OF linux_contract [OF assms(1)] assms(2,3), unfolded tests_done_def])

theorem package_tested_witness:
  "\<exists>pkg ctr rest. input_of pkg ctr
    \<and> tests_clean (demo_env []) (tested_spec\<lparr>sp_Image := Some demo_image\<rparr>) ''azlinux3'' ctr rest"
proof -
  obtain es ref img where "HandlePackage (rpm_config Azlinux3Config) (demo_env []) None
      (tested_spec\<lparr>sp_Image := Some demo_image\<rparr>) ''azlinux3'' = (es, Some (ref, img, None))"
    using demo_package_succeeds unfolding succeeds_iff by blast
  from package_tested [OF linux_rpm demo_finish this] obtain so w pkg sp es1 rest ctr where
    "d_BuildPkg (rpm_config Azlinux3Config) (demo_env []) None w so (tested_spec\<lparr>sp_Image := Some demo_image\<rparr>) ''azlinux3''
       = (es1, Some (Inr pkg, sp))"
    "input_of pkg ctr" "tests_skipped (demo_env []) \<or> spec_tests sp ''azlinux3'' = [] \<or> tests_clean (demo_env []) sp ''azlinux3'' ctr rest"
    by blast
  moreover from this(1) have "sp = tested_spec\<lparr>sp_Image := Some demo_image\<rparr>" by (auto simp: rpm_config_def and_then_Some)
  ultimately show ?thesis using demo_tests_run by blast
qed

text \<open>
  C6 (targets/linux/distro_handler.go, HandleContainer): a container holds the package.  If the container
  handler of an rpm or Debian distribution reports no error and every started test finishes, the container that it
  returns is built from the prebuilt or built package, it was solved, and the image configuration is the one of the
  spec for this target.  Moreover the request skips tests, or there are none, or every test was run on the
  container, its commands completed and its results report no failed check of a file, as for packages; checks on
  the output of a step are not covered, because the runner drops their failures.
\<close>

theorem container_from_package:
  assumes "linux_config c" and "all_finish env" and "HandleContainer c env pl sp0 key = (es, Some (ref, img, None))"
  shows "\<exists>so w pkg sp es1 rest ctr i. env_sourceOpts env pl = Inr so \<and> d_Worker c env so pl = Inr w
    \<and> package_of c env pl w so sp0 key = (es1, Some (Inr pkg, sp)) \<and> es = es1 @ rest
    \<and> ref = Some ctr \<and> input_of pkg ctr \<and> SolveEv ctr \<in> set rest
    \<and> (tests_skipped env \<or> spec_tests sp key = [] \<or> tests_clean env sp key ctr rest)
    \<and> img = Some i \<and> linux_BuildImageConfig env sp pl key = Some (Inr i)"
  by (rule distro_contract.container_ok [OF linux_contract [OF assms(1)] assms(2,3), unfolded tests_done_def])

theorem container_from_package_witness:
  "\<exists>pkg ctr rest sp i. input_of pkg ctr \<and> SolveEv ctr \<in> set rest
    \<and> linux_BuildImageConfig (demo_env [(''pkg'', Image ''prebuilt'')]) sp None ''almalinux9'' = Some (Inr i)"
proof -
  obtain es ref img where "HandleContainer (rpm_config almalinux_ConfigV9) (demo_env [(''pkg'', Image ''prebuilt'')]) None
      (tested_spec\<lparr>sp_Image := Some demo_image\<rparr>) ''almalinux9'' = (es, Some (ref, img, None))"
    using demo_container_succeeds unfolding succeeds_iff by blast
  from container_from_package [OF linux_rpm demo_finish this] show ?thesis by blast
qed

text \<open>
  C33 (targets/linux/distro_handler.go, getPrebuiltPackage): a package that the request brings along is
  used.  If the context named after the target, or else the generic one, holds a package, the container
  handler does the same whatever the package build would do, and a container that it returns without
  error is built from that package.
\<close>

theorem prebuilt_package_used:
  assumes "linux_config c" and "env_sourceOpts env pl = Inr so"
    and "so_GetContext so (key @ PreBuiltPkgSuffix) id = Inr (Some st)
      \<or> so_GetContext so (key @ PreBuiltPkgSuffix) id = Inr None \<and> so_GetContext so GenericPkg id = Inr (Some st)"
  shows "HandleContainer (c\<lparr>d_BuildPkg := b\<rparr>) env pl sp key = HandleContainer c env pl sp key
    \<and> (\<forall>es ctr img. all_finish env \<longrightarrow> HandleContainer c env pl sp key = (es, Some (Some ctr, img, None)) \<longrightarrow> input_of st ctr)"
proof -
  have pkg: "\<exists>ws. package_of c' env pl w so sp key = (ws, Some (Inr st, sp))" for c' w
    using assms(3) by (auto simp: package_of_def getPrebuiltPackage_def Let_def and_then_def ret_def)
  have same: "package_of (c\<lparr>d_BuildPkg := b\<rparr>) env pl w so sp key = package_of c env pl w so sp key" for w
    using assms(3) by (auto simp: package_of_def getPrebuiltPackage_def Let_def and_then_def ret_def)
  have "HandleContainer (c\<lparr>d_BuildPkg := b\<rparr>) env pl sp key = HandleContainer c env pl sp key"
    by (simp add: HandleContainer_def assms(2) same)
  moreover have "input_of st ctr" if fin: "all_finish env" and run: "HandleContainer c env pl sp key = (es, Some (Some ctr, img, None))"
    for es ctr img
  proof -
    obtain w pkg sp' es1 where "package_of c env pl w so sp key = (es1, Some (Inr pkg, sp'))" "input_of pkg ctr"
      using distro_contract.container_ok [OF linux_contract [OF assms(1)] fin run] assms(2) by auto
    with pkg [of c w] show ?thesis by auto
  qed
  ultimately show ?thesis by blast
qed

theorem prebuilt_package_used_witness:
  "HandleContainer ((rpm_config almalinux_ConfigV9)\<lparr>d_BuildPkg := (\<lambda>env pl w so sp key. ret (Inl (Msg ''failed''), sp))\<rparr>)
      (demo_env [(''pkg'', Image ''prebuilt'')]) None tested_spec ''almalinux9''
    = HandleContainer (rpm_config almalinux_ConfigV9) (demo_env [(''pkg'', Image ''prebuilt'')]) None tested_spec ''almalinux9''"
  by (rule prebuilt_package_used [of _ _ _ "projr (env_sourceOpts (demo_env [(''pkg'', Image ''prebuilt'')]) None)" _ "Image ''prebuilt''",
      THEN conjunct1])
    (simp_all add: linux_rpm env_sourceOpts_def SourceOptFromClient_def SourceOptFromUIClient_def demo_env_def
      demo_ui_def ui_GetContext_def PreBuiltPkgSuffix_def GenericPkg_def)

text \<open>
  Note (targets/linux/distro_handler.go, getPrebuiltPackage): a lookup that fails looks like no prebuilt
  package.  When the context of the target cannot be resolved, the error is put into a state that no one
  uses, and the package is built from its sources.
\<close>

theorem prebuilt_error_dropped:
  assumes "so_GetContext so (key @ PreBuiltPkgSuffix) id = Inl e"
  shows "package_of c env pl w so sp key = d_BuildPkg c env pl w so sp key"
  using assms by (simp add: package_of_def getPrebuiltPackage_def Let_def)

theorem prebuilt_error_dropped_witness:
  "package_of (rpm_config Azlinux3Config) (demo_env []) None Scratch (demo_opts\<lparr>so_GetContext := (\<lambda>n f. Inl (Msg ''timeout''))\<rparr>)
      tested_spec ''azlinux3''
    = d_BuildPkg (rpm_config Azlinux3Config) (demo_env []) None Scratch (demo_opts\<lparr>so_GetContext := (\<lambda>n f. Inl (Msg ''timeout''))\<rparr>)
      tested_spec ''azlinux3''"
  by (rule prebuilt_error_dropped) simp

section \<open>Shipped distributions\<close>



lemma backports_usable: "repos_usable so [backports]"
  by (simp add: repos_usable_def backports_def repo_ok_def repo_tidy_def variant_count_def inline_ok_def inline_tidy_def inlineFile_ok_def)

lemma deb_distros_usable:
  assumes "cfg \<in> set deb_distros"
  shows "repos_usable so (dbc_ExtraRepos cfg)"
proof -
  have "dbc_ExtraRepos cfg = [] \<or> dbc_ExtraRepos cfg = [backports]"
    using assms
    by (auto simp: deb_distros_def BookwormConfig_def BullseyeConfig_def BionicConfig_def FocalConfig_def JammyConfig_def
        NobleConfig_def deb_distro_def)
  then show ?thesis using backports_usable by (auto simp: repos_usable_def)
qed


lemma demo_ready:
  "env_sourceOpts (demo_env contexts) pl = Inr so \<Longrightarrow> client_ready (demo_env contexts) so \<and> so_Digest so = any_digest"
  by (auto simp: env_sourceOpts_def SourceOptFromClient_def SourceOptFromUIClient_def demo_env_def demo_ui_def client_ready_def
      withCredHelper_def GetCurrentFrontend_def getUserSignConfigPath_def opt_get_def demo_libs_def)

lemma filled_spec_usable:
  assumes "env_sourceOpts (demo_env contexts) pl = Inr so"
  shows "client_ready (demo_env contexts) so \<and> package_usable (demo_env contexts) so filled_spec"
proof -
  have ready: "client_ready (demo_env contexts) so" "so_Digest so = any_digest" using demo_ready [OF assms] by auto
  then have "buildable so filled_spec"
    using loaded_buildable [OF packed_spec_facts filled_spec_facts(3)] by (simp add: buildable_def demo_opts_def)
  moreover have "repos_tidy filled_spec" "signers_set filled_spec" by code_simp+
  ultimately show ?thesis using filled_spec_facts ready by (simp add: package_usable_def demo_env_def)
qed


text \<open>
  C36 (targets/linux/deb/distro/pkg.go, BuildPkg and prepareGo): the Debian package build extends the spec by one
  go build cache, and by nothing else.  For a valid spec, which has build steps if it uses go, the spec that the
  build leaves is either the given one, or, when the spec uses go and no cache is a go build cache, the given one
  with a go build cache after the caches it had; the spec is still valid, with at most one go build cache, and
  with exactly one when it uses go and the package was built.
\<close>

theorem deb_build_keeps_spec:
  assumes "spec_ok dg sp" and "HasGolang sp key \<or> HasGomods sp \<longrightarrow> ab_Steps (sp_Build sp) \<noteq> []"
    and "deb_BuildPkg cfg env pl w so sp key = (es, Some (r, sp'))"
  shows "spec_ok dg sp'
    \<and> (sp' = sp
       \<or> (HasGolang sp key \<or> HasGomods sp) \<and> (\<forall>c \<in> set (ab_Caches (sp_Build sp)). cc_GoBuild c = None)
         \<and> sp' = sp\<lparr>sp_Build := (sp_Build sp)\<lparr>ab_Caches := ab_Caches (sp_Build sp) @ [goBuild_cache]\<rparr>\<rparr>)
    \<and> length (filter (\<lambda>c. cc_GoBuild c \<noteq> None) (ab_Caches (sp_Build sp'))) \<le> 1
    \<and> (\<forall>pkg. r = Inr pkg \<longrightarrow> HasGolang sp key \<or> HasGomods sp
         \<longrightarrow> length (filter (\<lambda>c. cc_GoBuild c \<noteq> None) (ab_Caches (sp_Build sp'))) = 1)"
proof -
  let ?go = "\<lambda>s. filter (\<lambda>c. cc_GoBuild c \<noteq> None) (ab_Caches (sp_Build s))"
  have ok: "spec_ok dg sp'"
    using deb_BuildPkg_spec [OF assms(3)] assms(1,2) with_go_cache_ok [OF assms(1)] by (auto split: if_splits)
  then have most: "length (?go sp') \<le> 1" by (simp add: spec_ok_def build_block_ok_def)
  have "?go (with_go_cache sp) \<noteq> []"
    by (auto simp: with_go_cache_def list_ex_iff filter_empty_conv goBuild_cache_def)
  then have some: "?go sp' \<noteq> []" if "r = Inr pkg" "HasGolang sp key \<or> HasGomods sp" for pkg
    using deb_BuildPkg_spec [OF assms(3)] that by auto
  have "length (?go sp') = 1" if "r = Inr pkg" "HasGolang sp key \<or> HasGomods sp" for pkg
    using some [OF that] most by (cases "?go sp'") auto
  moreover have "sp' = sp \<or> (HasGolang sp key \<or> HasGomods sp) \<and> (\<forall>c \<in> set (ab_Caches (sp_Build sp)). cc_GoBuild c = None)
      \<and> sp' = sp\<lparr>sp_Build := (sp_Build sp)\<lparr>ab_Caches := ab_Caches (sp_Build sp) @ [goBuild_cache]\<rparr>\<rparr>"
    using deb_BuildPkg_spec [OF assms(3)] by (auto simp: with_go_cache_def list_ex_iff split: if_splits)
  ultimately show ?thesis using ok most by blast
qed

theorem deb_build_keeps_spec_witness:
  "\<exists>so es r sp'. deb_BuildPkg NobleConfig (demo_env []) None Scratch so filled_spec ''noble'' = (es, Some (r, sp'))
    \<and> spec_ok any_digest sp' \<and> length (filter (\<lambda>c. cc_GoBuild c \<noteq> None) (ab_Caches (sp_Build sp'))) \<le> 1"
proof -
  obtain so where so: "env_sourceOpts (demo_env []) None = Inr so"
    by (simp add: env_sourceOpts_def SourceOptFromClient_def demo_env_def)
  have steps: "ab_Steps (sp_Build filled_spec) \<noteq> []" and "bases_tidy filled_spec" by code_simp+
  moreover have "repos_usable so (dbc_ExtraRepos NobleConfig)" by (rule deb_distros_usable) (simp add: deb_distros_def)
  ultimately have u: "deb_usable NobleConfig (demo_env []) so filled_spec ''noble''"
    using filled_spec_usable [OF so] by (simp add: deb_usable_def)
  then have ok: "spec_ok any_digest filled_spec"
    using demo_ready [OF so] by (simp add: deb_usable_def package_usable_def buildable_def)
  obtain es r sp' where run: "deb_BuildPkg NobleConfig (demo_env []) None Scratch so filled_spec ''noble'' = (es, Some (r, sp'))"
    using deb_BuildPkg_returns(1) [OF u, of None Scratch] unfolding returns_def by (metis not_None_eq prod.collapse)
  with deb_build_keeps_spec [OF ok _ run] steps show ?thesis by blast
qed




text \<open>
  C35 (packaging/linux/deb/debroot.go, ReadDistroVersionID): the version of the worker image is what its
  \<open>/etc/os-release\<close> assigns.  If the image can be solved and the file is served, the version is read
  completely with any buffers, and for a file that assigns no variable twice and
  whose lines fit into the buffer of the scanner it is the unquoted value of
  \<open>ID\<close> followed by that of \<open>VERSION_ID\<close>, or an error if one of them is missing or empty.
\<close>

theorem version_of_os_release:
  assumes "solve_state id env st = ([SolveEv st], Some (Inr st))" and "serves (de_reference env st) ''etc/os-release'' content"
    and "\<forall>n \<in> set (de_buffers env). 0 < n" and "length content < length (de_buffers env)"
    and "wf_map (assignments (file_lines content))"
    and "list_all (\<lambda>l. length l < MaxScanTokenSize) (split_on (CHR 0x0A) content)"
  shows "ReadDistroVersionID env st = ([SolveEv st], Some (distro_version (assignments (file_lines content))))"
  using ReadDistroVersionID_reads [OF assms(1-4)] read_os_release_distro [OF assms(5,6)] by simp

theorem version_of_os_release_witness:
  "ReadDistroVersionID (demo_env []) Scratch = ([SolveEv Scratch], Some (Inr ''debian12''))"
proof -
  have "distro_version (assignments (file_lines os_release)) = Inr ''debian12''" "wf_map (assignments (file_lines os_release))"
    "length os_release < 60" by code_simp+
  moreover have "list_all (\<lambda>l. length l < 60) (split_on (CHR 0x0A) os_release)" by code_simp
  then have "list_all (\<lambda>l. length l < MaxScanTokenSize) (split_on (CHR 0x0A) os_release)"
    by (rule list.pred_mono_strong) (simp add: MaxScanTokenSize_def)
  ultimately show ?thesis
    using version_of_os_release [of "demo_env []" Scratch os_release]
    by (simp add: demo_env_def demo_client_def solve_state_def solve_only_def or_err_def and_then_def ret_def serves_def)
qed

end
