(* ===== verification/Platform_Claims.thy ===== *)
theory Platform_Claims
  imports Distro_Claims Frontend_Claims
begin

text \<open>
  The properties of the builds per platform, of the Windows target, of the debug target and of the
  frontend process, each with a witness on concrete data.
\<close>

section \<open>Arguments of a platform\<close>

text \<open>The values of the arguments that describe the platforms of a build.\<close>

definition platform_values :: "(platform \<Rightarrow> string) \<Rightarrow> string \<Rightarrow> platform \<Rightarrow> string gomap" where
  "platform_values fmt pre p =
    [(pre @ ''OS'', pl_OS p), (pre @ ''ARCH'', pl_Architecture p), (pre @ ''VARIANT'', pl_Variant p), (pre @ ''PLATFORM'', fmt p)]"

definition platform_value :: "libs \<Rightarrow> uiClient \<Rightarrow> platform option \<Rightarrow> string \<Rightarrow> string option" where
  "platform_value lb ui pl k =
    map_of (platform_values (lib_Format lb) ''BUILD'' (hd (ui_BuildPlatforms ui))
      @ platform_values (lib_Format lb) ''TARGET'' (target_platform lb pl)) k"

lemma LoadSpec_args_lookup:
  assumes "LoadSpec_args lb ui pl = Some args"
  shows "map_of args k = (case platform_value lb ui pl k of Some v \<Rightarrow> Some v | None \<Rightarrow> map_of (ui_BuildArgs ui) k)"
proof -
  obtain p ps where p: "ui_BuildPlatforms ui = p # ps"
    using assms by (cases "ui_BuildPlatforms ui") (simp_all add: LoadSpec_args_def)
  then have args: "args = fillPlatformArgs (lib_Format lb) ''BUILD''
      (fillPlatformArgs (lib_Format lb) ''TARGET'' (ui_BuildArgs ui) (target_platform lb pl)) p"
    using assms by (simp add: LoadSpec_args_def)
  show ?thesis
    unfolding args fillPlatformArgs_lookup platform_value_def platform_values_def p by (simp split del: if_split) (simp split: if_split)
qed

lemma platform_value_known: "platform_value lb ui pl k \<noteq> None \<Longrightarrow> platformArg k"
  unfolding platform_value_def map_of_eq_None_iff by (auto simp: platform_values_def platformArg_def)

text \<open>
  C32 (frontend/build.go, LoadSpec and fillPlatformArgs; load.go, SubstituteArgs): the platform of a build
  decides its platform arguments.  A platform argument that the spec declares has the value of the target
  or build platform, whatever the request passes for it; every other argument has the requested value if it
  is declared (or is \<open>SOURCE_DATE_EPOCH\<close>) and else its default; and only arguments of the request itself can
  be reported as unknown.
\<close>

theorem platform_args:
  assumes "LoadSpec_args lb ui pl = Some args" and "wf_map (ui_BuildArgs ui)"
  shows "map_of (fst (merge_args allow args dflts)) k =
      (case platform_value lb ui pl k of
         Some v \<Rightarrow> if k = SDE \<or> map_of dflts k \<noteq> None then Some v else None
       | None \<Rightarrow> (case map_of (ui_BuildArgs ui) k of
             Some v \<Rightarrow> if k = SDE \<or> map_of dflts k \<noteq> None then Some v else None
           | None \<Rightarrow> map_of dflts k))
    \<and> (snd (merge_args allow args dflts) = [] \<longleftrightarrow>
        list_all (\<lambda>(k, v). k = SDE \<or> map_of dflts k \<noteq> None \<or> knownArg k \<or> allow k) (ui_BuildArgs ui))"
proof
  note wf = LoadSpec_args_wf [OF assms(2,1)]
  note look = LoadSpec_args_lookup [OF assms(1)]
  show "map_of (fst (merge_args allow args dflts)) k =
      (case platform_value lb ui pl k of
         Some v \<Rightarrow> if k = SDE \<or> map_of dflts k \<noteq> None then Some v else None
       | None \<Rightarrow> (case map_of (ui_BuildArgs ui) k of
             Some v \<Rightarrow> if k = SDE \<or> map_of dflts k \<noteq> None then Some v else None
           | None \<Rightarrow> map_of dflts k))"
    unfolding merge_args_lookup [OF wf] look by (cases "platform_value lb ui pl k") simp_all
  have "map_of args k \<noteq> None \<longleftrightarrow> platform_value lb ui pl k \<noteq> None \<or> map_of (ui_BuildArgs ui) k \<noteq> None" for k
    unfolding look by (cases "platform_value lb ui pl k") simp_all
  then have keys: "k \<in> fst ` set args \<longleftrightarrow> platform_value lb ui pl k \<noteq> None \<or> k \<in> fst ` set (ui_BuildArgs ui)" for k
    unfolding map_of_eq_None_iff by simp
  let ?fine = "\<lambda>k. k = SDE \<or> map_of dflts k \<noteq> None \<or> knownArg k \<or> allow k"
  have "knownArg k" if "platform_value lb ui pl k \<noteq> None" for k
    using platform_value_known [OF that] by (rule platform_known)
  then have "(\<forall>k. k \<in> fst ` set args \<longrightarrow> ?fine k) \<longleftrightarrow> (\<forall>k. k \<in> fst ` set (ui_BuildArgs ui) \<longrightarrow> ?fine k)"
    unfolding keys by metis
  then show "snd (merge_args allow args dflts) = [] \<longleftrightarrow>
        list_all (\<lambda>(k, v). k = SDE \<or> map_of dflts k \<noteq> None \<or> knownArg k \<or> allow k) (ui_BuildArgs ui)"
    unfolding merge_args_errors [OF wf] Ball_def by (simp add: list_all_iff case_prod_unfold Ball_def [symmetric])
qed

theorem platform_args_witness:
  "map_of (fst (merge_args (\<lambda>_. False) (the (LoadSpec_args demo_libs (demo_ui []) (Some demo_platform)))
      [(''TARGETARCH'', []), (''COMMIT'', ''abc'')])) ''TARGETARCH'' = Some ''arm64''"
proof -
  have "LoadSpec_args demo_libs (demo_ui []) (Some demo_platform)
      = Some (the (LoadSpec_args demo_libs (demo_ui []) (Some demo_platform)))" by code_simp
  from platform_args [OF this, of "\<lambda>_. False" "[(''TARGETARCH'', []), (''COMMIT'', ''abc'')]" "''TARGETARCH''"]
  show ?thesis by (simp add: demo_ui_def wf_map_def platform_value_def platform_values_def target_platform_def demo_platform_def no_platform_def)
qed

section \<open>The diff and merge switch\<close>

text \<open>
  Note (frontend/gateway.go, SupportsDiffMerge): the first request decides.  All requests that one process
  serves get the answer that was computed for the first of them, also those that disable diff and merge.
\<close>

theorem diff_merge_decided_once:
  "set (switch_calls ((opts, caps) # cs) s) = {fst (SupportsDiffMerge opts caps s)}"
  using switch_calls_once [of "snd (SupportsDiffMerge opts caps s)" cs]
  by (auto simp: SupportsDiffMerge_def Let_def split: if_splits)

section \<open>Windows containers\<close>

lemma rights_all: "lefts rs = [] \<Longrightarrow> rs = map Inr (rights rs)"
  by (induction rs rule: lefts.induct) auto

lemma base_configs_nth:
  assumes "base_configs env pick p bases = Some (Inr cfgs)"
  shows "length cfgs = length bases" and "i < length bases \<Longrightarrow> base_config env p (i, bases ! i) = Some (Inr (cfgs ! i))"
proof -
  obtain rs where rs: "those (map (base_config env p) (enumerate 0 bases)) = Some rs" "lefts rs = []" "cfgs = rights rs"
    using assms by (auto simp: base_configs_def split: if_splits)
  have rs': "rs = map Inr cfgs" using rights_all [OF rs(2)] rs(3) by simp
  note pairs = rs(1) [unfolded those_map_Some rs']
  show len: "length cfgs = length bases" using list_all2_lengthD [OF pairs] by simp
  show "base_config env p (i, bases ! i) = Some (Inr (cfgs ! i))" if "i < length bases"
    using list_all2_nthD [OF pairs, of i] that len by (simp add: nth_enumerate_eq)
qed

text \<open>
  C37 (targets/windows/handle_container.go, handleContainer): the callback stays within its lists.  After
  the preparation there is one target platform per base image, so that every index at which the callback
  runs selects a base image and the configuration of this very image, its platform is the platform of that
  configuration, and no two of them are equal.
\<close>

theorem win_images_indexed:
  assumes "win_prepare env pick fmtAll goarch = Some (Inr (ui, bases, cfgs))" and "idx < length (ui_TargetPlatforms ui)"
  shows "idx < length bases \<and> idx < length cfgs \<and> ui_TargetPlatforms ui ! idx = im_Platform (cfgs ! idx)
    \<and> (\<exists>p. base_config env p (idx, bases ! idx) = Some (Inr (cfgs ! idx)))
    \<and> distinct (map fmtAll (ui_TargetPlatforms ui)) \<and> length bases = length (ui_TargetPlatforms ui)"
proof -
  obtain p where c: "base_configs env pick p bases = Some (Inr cfgs)" and d: "distinct_platforms fmtAll cfgs"
    and ui: "ui_TargetPlatforms ui = map im_Platform cfgs"
    using assms(1) by (auto simp: win_prepare_def Let_def split: if_splits)
  note n = base_configs_nth [OF c]
  have "idx < length cfgs" using assms(2) ui by simp
  with n ui d show ?thesis by (auto simp: distinct_platforms_def comp_def)
qed

lemma demo_win_prepared: "case win_prepare (demo_env []) hd pl_OS ''amd64'' of Some (Inr (ui, bases, cfgs)) \<Rightarrow> length (ui_TargetPlatforms ui) = 1 | _ \<Rightarrow> False"
  by code_simp

theorem win_images_indexed_witness:
  "\<exists>ui bases cfgs. win_prepare (demo_env []) hd pl_OS ''amd64'' = Some (Inr (ui, bases, cfgs))
    \<and> ui_TargetPlatforms ui ! 0 = im_Platform (cfgs ! 0) \<and> length bases = 1"
proof -
  obtain ui bases cfgs where p: "win_prepare (demo_env []) hd pl_OS ''amd64'' = Some (Inr (ui, bases, cfgs))"
    and n: "length (ui_TargetPlatforms ui) = 1"
    using demo_win_prepared by (auto split: option.splits sum.splits prod.splits)
  with win_images_indexed [OF p, of 0] show ?thesis by auto
qed

lemma copies_input:
  "input_of s b \<or> s \<in> set sts \<Longrightarrow> input_of s (foldl (\<lambda>out st. Copy out st ''/'' dest WithCreateDestPath) b sts)"
  by (induction sts arbitrary: b) (auto simp: input_of_def)

lemma MergeAtPath_input: "s \<in> set sts \<Longrightarrow> input_of s (MergeAtPath dm b sts ''/'')"
  using copies_input [of s b sts "''/''"] subgraphs_self [of s]
  by (auto simp: MergeAtPath_def input_of_def simp del: subgraphs_self)

text \<open>
  Note (targets/windows/handle_zip.go, withSourcesMounted): nothing is lost.  Every source and every
  generated dependency is in the build directory: mounted under its name if it is a directory, and else
  part of the merged files.
\<close>

theorem win_sources_mounted:
  assumes "withSourcesMounted dm dst states sources = Some opts" and "k \<in> fst ` set states"
  shows "(\<exists>os. RunMount (Join [dst, k]) (state_of states k) os \<in> set opts)
    \<or> (\<exists>files. RunMount dst files [] \<in> set opts \<and> input_of (state_of states k) files)"
proof -
  obtain ms where ms: "those (map (mounted_source dst states sources) (SortMapKeys states)) = Some ms"
    and opts: "opts = concat (map (\<lambda>m. case m of DirMount opt \<Rightarrow> [opt] | FileState _ \<Rightarrow> []) ms)
        @ [RunMount dst (MergeAtPath dm Scratch
             (concat (map (\<lambda>m. case m of FileState st \<Rightarrow> [st] | DirMount _ \<Rightarrow> []) ms)) ''/'') []]"
    using assms(1) by (auto simp: withSourcesMounted_def)
  have "k \<in> set (SortMapKeys states)" using assms(2) by (simp add: SortMapKeys_def)
  from those_map_hit [OF ms this] obtain m where m: "m \<in> set ms" "mounted_source dst states sources k = Some m" by blast
  show ?thesis
  proof (cases m)
    case (FileState st)
    then have st: "st = state_of states k"
      using m(2) by (auto simp: mounted_source_def split: option.splits if_splits)
    have "st \<in> set (concat (map (\<lambda>m. case m of FileState st \<Rightarrow> [st] | DirMount _ \<Rightarrow> []) ms))"
      using m(1) FileState by (force intro: bexI [of _ m])
    from MergeAtPath_input [OF this] show ?thesis unfolding opts st [symmetric] by (intro disjI2) auto
  next
    case (DirMount opt)
    then obtain os where "opt = RunMount (Join [dst, k]) (state_of states k) os"
      using m(2) by (auto simp: mounted_source_def split: option.splits if_splits)
    with m(1) DirMount show ?thesis unfolding opts by (force intro: bexI [of _ m])
  qed
qed

theorem win_sources_mounted_witness:
  "\<exists>opts. withSourcesMounted False ''/build'' [(''a'', Scratch)] [(''a'', inline_source)] = Some opts
    \<and> (\<exists>files. RunMount ''/build'' files [] \<in> set opts \<and> input_of Scratch files)"
proof -
  obtain opts where o: "withSourcesMounted False ''/build'' [(''a'', Scratch)] [(''a'', inline_source)] = Some opts"
    and f: "list_all (\<lambda>opt. case opt of RunMount d st os \<Rightarrow> d = ''/build'' \<and> os = [] | _ \<Rightarrow> False) opts"
  proof -
    have "case withSourcesMounted False ''/build'' [(''a'', Scratch)] [(''a'', inline_source)] of
        None \<Rightarrow> False | Some opts \<Rightarrow> list_all (\<lambda>opt. case opt of RunMount d st os \<Rightarrow> d = ''/build'' \<and> os = [] | _ \<Rightarrow> False) opts"
      by code_simp
    then show ?thesis using that by (auto split: option.splits)
  qed
  have "Join [''/build'', ''a''] \<noteq> ''/build''" by code_simp
  then have "\<nexists>os. RunMount (Join [''/build'', ''a'']) (state_of [(''a'', Scratch)] ''a'') os \<in> set opts"
    using f by (auto simp: list_all_iff)
  moreover have "state_of [(''a'', Scratch)] ''a'' = Scratch" by (simp add: state_of_def)
  ultimately show ?thesis using win_sources_mounted [OF o, of "''a''"] o by auto
qed

text \<open>
  Note (targets/windows/handle_zip.go, createBuildScript): the variables of a step.  The export of a
  variable is not ended by a line break, so the command of the step is glued to the value and is not run.
\<close>

theorem win_step_env_glued:
  "win_step isLast (BuildStep cmd [(k, v)] caches) =
    line ''('' @ ''export '' @ k @ ''='' @ dq @ v @ dq @ cmd @ nl @ '')'' @ (if isLast then nl else line ('' && '' @ bslash))"
  by (simp add: win_step_def line_def)

text \<open>
  Note (targets/windows/handle_zip.go, generateInvocationScript): the permissions of a binary.  The binary
  is moved into the output directory under its last element, but the permissions are changed under its
  whole path, so for a binary in a directory the script fails.
\<close>

theorem win_chmod_path:
  "move_binary ''out/app.exe'' \<lparr>ac_SubPath = [], ac_Name = [], ac_Permissions = 493, ac_User = [], ac_Group = []\<rparr> =
    [''mv '' @ sq @ ''out/app.exe'' @ sq @ '' '' @ sq @ ''/tmp/output'' @ sq,
     ''chmod 755 '' @ sq @ ''/tmp/output/out/app.exe'' @ sq]"
  by code_simp

section \<open>The debug target\<close>

text \<open>
  Note (frontend/debug/handle_gomod.go, handle_cargohome.go, handle_pip.go; frontend/build.go): debug builds of
  dependencies that do not exist.  If the spec loads, source options are available, and the spec has no go modules,
  no cargo homes and no pip sources, the targets \<open>debug/gomods\<close> and \<open>debug/cargohome\<close> dereference the missing state,
  and the request ends with the error of a recovered panic; \<open>debug/pip\<close> handles the case and solves an empty state.
\<close>

theorem debug_missing_deps:
  assumes "LoadSpec lb ui (\<lambda>_. False) pl = Some (Inr sp)" and "env_sourceOpts env pl = Inr so"
    and "\<not> HasGomods sp" and "\<not> HasCargohomes sp" and "\<not> HasPips sp"
  shows "platform_callback lb ui pv trace now (Gomods (Inr ins) env) pl = ([], recovered pv trace)
    \<and> platform_callback lb ui pv trace now (Cargohome (Inr ins) env) pl = ([], recovered pv trace)
    \<and> Pip (Inr ins) env pl sp key = solved id env Scratch"
  using assms
  by (simp add: platform_callback_def Gomods_def Cargohome_def Pip_def GomodDeps_def CargohomeDeps_def PipDeps_def
      attempt_def and_then_def ret_def lift_def)

lemma tested_spec_loaded:
  "LoadSpec (demo_libs\<lparr>lib_decode := (\<lambda>_. Inr tested_spec)\<rparr>) ((demo_ui [])\<lparr>ui_BuildArgs := []\<rparr>) (\<lambda>_. False) None = Some (Inr tested_spec)"
  by code_simp

theorem debug_missing_deps_witness:
  "platform_callback (demo_libs\<lparr>lib_decode := (\<lambda>_. Inr tested_spec)\<rparr>) ((demo_ui [])\<lparr>ui_BuildArgs := []\<rparr>) ''nil pointer'' [] ''now''
      (Gomods (Inr []) (demo_env [])) None = ([], recovered ''nil pointer'' [])"
proof -
  obtain so where "env_sourceOpts (demo_env []) None = Inr so"
    by (simp add: env_sourceOpts_def SourceOptFromClient_def demo_env_def)
  moreover have "\<not> HasGomods tested_spec" "\<not> HasCargohomes tested_spec" "\<not> HasPips tested_spec" by code_simp+
  ultimately show ?thesis using debug_missing_deps [OF tested_spec_loaded] by blast
qed

section \<open>The frontend\<close>

lemma dalecMain_serves:
  assumes "registry_ok (builtin_registrations (builtin_targets sv run container lb)) graph set_add"
    and "sv_loadSpec sv opts = Inr sp" and "list_all (\<lambda>p. tg_Frontend (snd p) = None) (sp_Targets sp)" and "GetTargetKey opts = []"
  shows "\<exists>m serve. dalecMain sv fwd debug graph set_add is_skip = Some serve \<and> serve opts = fst (Handle sv m opts)
    \<and> (\<forall>k' \<in> fst ` set (m_handlers m). slash \<notin> set k')
    \<and> (\<forall>k bf. map_of (builtin_targets sv run container lb) k = Some bf \<longrightarrow>
         map_of (m_handlers m) k = Some \<lparr>h_f = bf, h_t = None\<rparr>)"
proof -
  let ?targets = "builtin_targets sv run container lb"
  obtain m where m: "loadPlugins graph set_add is_skip (Add new_mux DebugRoute debug None) = Some (None, m)"
    "m_spec m = None"
    "\<forall>k. map_of (m_handlers m) k = (case map_of ?targets k of Some bf \<Rightarrow> Some \<lparr>h_f = bf, h_t = None\<rparr>
        | None \<Rightarrow> map_of (m_handlers (Add new_mux DebugRoute debug None)) k)"
    using loadPlugins_targets [OF assms(1) builtin_names(1), of is_skip "Add new_mux DebugRoute debug None"]
    by (auto simp: new_mux_def)
  let ?m = "m\<lparr>m_spec := Some sp\<rparr>"
  have "Handler sv [WithTargetForwardingHandler sv fwd] m opts = Handle sv ?m opts"
    using assms(2,4) m(2) no_forward [OF assms(3), of fwd ?m] by (simp add: Handler_def WithTargetForwardingHandler_def mux_loadSpec_def)
  moreover have "slash \<notin> set k'" if "k' \<in> fst ` set (m_handlers ?m)" for k'
  proof -
    have "map_of (m_handlers m) k' \<noteq> None" using that by (simp add: map_of_eq_None_iff)
    then have "map_of ?targets k' \<noteq> None \<or> k' = ''debug''"
      using m(3) by (auto simp: new_mux_def DebugRoute_def split: option.splits if_splits)
    moreover have "slash \<notin> set k'" if "map_of ?targets k' \<noteq> None"
      using that builtin_names(2) by (metis map_of_eq_None_iff)
    ultimately show ?thesis by auto
  qed
  ultimately show ?thesis
    using m(1,3) by (intro exI [of _ ?m] exI [of _ "\<lambda>opts. fst (Handler sv [WithTargetForwardingHandler sv fwd] m opts)"])
      (simp add: dalecMain_def)
qed

text \<open>
  C8 (cmd/frontend/main.go, dalecMain; plugin.go, loadPlugins; targets/plugin/init.go; mux.go): a request
  for a route of a shipped target is served by that route.  Whatever the order in which the registry returns the
  plugins, the process starts.  Suppose that the spec of the request loads and none of its targets has a custom
  frontend, that the request is not a subrequest and \<open>dalec.target\<close> is not set yet, and that the handler which the
  router of the target registered for the route succeeds and leaves the request id unset.  Then a request for
  \<open><target>/<route>\<close> calls this handler, with \<open>dalec.target\<close> naming the target, and returns its result.
\<close>

theorem builtin_route_served:
  assumes "registry_ok (builtin_registrations (builtin_targets sv run container lb)) graph set_add"
    and "sv_loadSpec sv opts = Inr sp" and "list_all (\<lambda>p. tg_Frontend (snd p) = None) (sp_Targets sp)"
    and "opt_get opts requestIDKey = []" and "GetTargetKey opts = []"
    and "(k, mux_func sv m2) \<in> set (builtin_targets sv run container lb)" and "map_of (m_handlers m2) r = Some h"
    and "opt_get opts keyTarget = k @ ''/'' @ r"
    and "h_f h (handler_opts (handler_opts opts k) r) = (Inr res, opts')" and "opt_get opts' requestIDKey = []"
  shows "\<exists>serve. dalecMain sv fwd debug graph set_add is_skip = Some serve \<and> serve opts = (Inr res, opts')
    \<and> GetTargetKey (handler_opts (handler_opts opts k) r) = k"
proof -
  let ?targets = "builtin_targets sv run container lb"
  obtain m serve where m: "dalecMain sv fwd debug graph set_add is_skip = Some serve" "serve opts = fst (Handle sv m opts)"
    "\<forall>k' \<in> fst ` set (m_handlers m). slash \<notin> set k'"
    "\<forall>k bf. map_of ?targets k = Some bf \<longrightarrow> map_of (m_handlers m) k = Some \<lparr>h_f = bf, h_t = None\<rparr>"
    using dalecMain_serves [OF assms(1,2,3,5)] by blast
  have "map_of ?targets k = Some (mux_func sv m2)"
    using assms(6) builtin_names(1) [of sv run container lb] by (simp add: wf_map_def)
  with m(4) have k: "map_of (m_handlers m) k = Some \<lparr>h_f = mux_func sv m2, h_t = None\<rparr>" by blast
  have "k \<noteq> []" using assms(6) by (auto simp: builtin_targets_def)
  have outer: "lookupTarget m (opt_get opts keyTarget) = Inr (k, \<lparr>h_f = mux_func sv m2, h_t = None\<rparr>)"
    unfolding assms(8) by (rule lookup_first_element [OF k m(3)])
  have rest: "opt_get (handler_opts opts k) keyTarget = r" using assms(8) by simp
  have inner: "lookupTarget m2 r = Inr (r, h)" using assms(7) by (simp add: lookupTarget_def)
  have "Handle sv m opts = ((Inr res, opts'), m)"
    using assms(4,9,10) outer inner rest by (intro nested_Handle [of _ _ k _ m2 None r h]) simp_all
  with m(1,2) assms(5) \<open>k \<noteq> []\<close> show ?thesis by (simp add: GetTargetKey_def)
qed

definition demo_runner :: "string runner" where
  "demo_runner f opts = (Inr \<lparr>res_Metadata = [], res_Ref = opt_get opts keyTopLevelTarget\<rparr>, opts)"

theorem builtin_route_served_witness:
  "\<exists>serve. dalecMain demo_services (\<lambda>sp fe. leaf []) (leaf ''dbg'')
      (\<lambda>f. filter (\<lambda>r. \<not> f r) (rev (builtin_registrations (builtin_targets demo_services demo_runner (leaf ''win'') demo_libs))))
      (\<lambda>added r. None) (\<lambda>e. False) = Some serve
    \<and> fst (serve [(''target'', ''azlinux3/container'')]) = Inr \<lparr>res_Metadata = [], res_Ref = ''azlinux3''\<rparr>"
proof -
  let ?targets = "builtin_targets demo_services demo_runner (leaf ''win'') demo_libs"
  let ?graph = "\<lambda>f. filter (\<lambda>r. \<not> f r) (rev (builtin_registrations ?targets))"
  let ?m2 = "rpm_mux demo_services demo_runner Azlinux3Config"
  let ?opts = "[(''target'', ''azlinux3/container'')]"
  have "distinct (map reg_ID (?graph f))" if "distinct (map reg_ID (builtin_registrations ?targets))" for f
    using that by (simp add: rev_map [symmetric] distinct_map_filter)
  then have reg: "registry_ok (builtin_registrations ?targets) ?graph (\<lambda>added r. None)"
    by (auto simp: registry_ok_def set_accepts_def)
  have "(''azlinux3'', mux_func demo_services ?m2) \<in> set ?targets" by (simp add: builtin_targets_def rpm_Handle_def)
  moreover obtain i where "map_of (m_handlers ?m2) ''container'' = Some \<lparr>h_f = demo_runner (HandleContainer (rpm_config Azlinux3Config)), h_t = i\<rparr>"
    by (simp add: rpm_mux_def Azlinux3Config_def route_def Let_def new_mux_def update_conv')
  moreover have "list_all (\<lambda>p. tg_Frontend (snd p) = None) (sp_Targets demo_spec)" by code_simp
  moreover have "opt_get (handler_opts (handler_opts ?opts ''azlinux3'') ''container'') keyTopLevelTarget = ''azlinux3''"
    "opt_get (handler_opts (handler_opts ?opts ''azlinux3'') ''container'') requestIDKey = []" by code_simp+
  ultimately show ?thesis
    using builtin_route_served [OF reg, of ?opts demo_spec "''azlinux3''" ?m2 "''container''"
        "\<lparr>h_f = demo_runner (HandleContainer (rpm_config Azlinux3Config)), h_t = i\<rparr>"
        "\<lparr>res_Metadata = [], res_Ref = ''azlinux3''\<rparr>" "handler_opts (handler_opts ?opts ''azlinux3'') ''container''"
        "\<lambda>sp fe. leaf []" "leaf ''dbg''" "\<lambda>e. False"]
    by (auto simp: demo_services_def demo_runner_def opt_get_def requestIDKey_def GetTargetKey_def keyTopLevelTarget_def keyTarget_def)
qed

text \<open>
  Note (cmd/frontend/plugin.go, loadPlugins): a plugin that asks to be skipped.  Its error is accepted, but
  the missing instance is converted afterwards, and the process panics.
\<close>

theorem skipped_plugin_panics:
  "load_plugins (\<lambda>added r. None) is_skip added (r # rs) mux =
    (case reg_Init r of
       Inl e \<Rightarrow> if is_skip e then None else Some (Some e, mux)
     | Inr bf \<Rightarrow> load_plugins (\<lambda>added r. None) is_skip (added @ [r]) rs (Add mux (reg_ID r) bf None))"
  by simp

text \<open>
  Note (targets/linux/deb/distro/distro.go, BuildImageConfig): the copy in the Debian package does what the
  shared handler does.
\<close>

theorem deb_image_config_same: "deb_BuildImageConfig env sp pl key = linux_BuildImageConfig env sp pl key"
  by (auto simp: deb_BuildImageConfig_def linux_BuildImageConfig_def deb_resolveConfig_def resolveConfig_def wrap_inl_def
      split: option.splits sum.splits)

end
