(* ===== verification/Pipe.thy ===== *)
theory Pipe
  imports Go_Prelude
begin

text \<open>
  The in-memory listener of the socket provider (sessionutil/socketprovider/pipe.go).

  The calls of \<open>Accept\<close>, \<open>Dialer\<close> and \<open>Close\<close> run concurrently.  Every section under the mutex is one
  atomic step, because no call blocks while it holds the lock; the channel operations between the
  sections are steps of their own, a send on the unbuffered channel together with the receive that takes
  the value.  A call is the value of its program counter, and the calls of a run are a list.  A pipe made
  by \<open>net.Pipe\<close> is a number; both ends of it have that number.
\<close>

section \<open>States\<close>

datatype chan = NilChan | OpenChan | ClosedChan

datatype dialErr = DialClosed | DialCtx

datatype call =
    AcceptStart
  | AcceptWait
  | AcceptGot "nat option"
  | AcceptRet "nat option"
  | DialStart
  | DialSend nat
  | DialRet "dialErr + nat"
  | CloseStart
  | CloseRet

text \<open>
  \<open>pl_shut\<close> holds the listener's ends on which \<open>Close\<close> was called, \<open>pl_fresh\<close> is the next pipe, and
  \<open>pl_panic\<close> says that a goroutine panicked, which ends the process.
\<close>

record pipeListener =
  pl_closed :: bool
  pl_conns :: "nat list"
  pl_chConn :: chan
  pl_closedCh :: chan
  pl_shut :: "nat list"
  pl_fresh :: nat
  pl_panic :: bool
  pl_calls :: "call list"

text \<open>The zero value of the struct, before any call.\<close>

definition zero_listener :: pipeListener where
  "zero_listener = \<lparr>pl_closed = False, pl_conns = [], pl_chConn = NilChan, pl_closedCh = NilChan,
    pl_shut = [], pl_fresh = 0, pl_panic = False, pl_calls = []\<rparr>"

definition make_chan :: "chan \<Rightarrow> chan" where
  "make_chan c = (if c = NilChan then OpenChan else c)"

section \<open>The sections of the calls\<close>

text \<open>\<open>Accept\<close> up to its select.\<close>

definition accept_prepare :: "pipeListener \<Rightarrow> call \<times> pipeListener" where
  "accept_prepare pl =
    (AcceptWait, pl\<lparr>pl_chConn := make_chan (pl_chConn pl), pl_closedCh := make_chan (pl_closedCh pl)\<rparr>)"

text \<open>\<open>Accept\<close> after its select: \<open>None\<close> is the nil connection that a closed channel delivers.\<close>

definition accept_finish :: "nat option \<Rightarrow> pipeListener \<Rightarrow> call \<times> pipeListener" where
  "accept_finish conn pl =
    (case conn of
       None \<Rightarrow> (AcceptRet None, pl)
     | Some c \<Rightarrow>
         (if pl_closed pl then (AcceptRet None, pl\<lparr>pl_shut := pl_shut pl @ [c]\<rparr>)
          else (AcceptRet (Some c), pl\<lparr>pl_conns := pl_conns pl @ [c]\<rparr>)))"

text \<open>\<open>Dialer\<close> up to its select.\<close>

definition dial_prepare :: "pipeListener \<Rightarrow> call \<times> pipeListener" where
  "dial_prepare pl =
    (if pl_closed pl then (DialRet (Inl DialClosed), pl)
     else (DialSend (pl_fresh pl),
           pl\<lparr>pl_chConn := make_chan (pl_chConn pl), pl_fresh := Suc (pl_fresh pl)\<rparr>))"

definition Close :: "pipeListener \<Rightarrow> call \<times> pipeListener" where
  "Close pl =
    (CloseRet,
     if pl_closed pl then pl
     else pl\<lparr>pl_closed := True,
             pl_chConn := (if pl_chConn pl = NilChan then NilChan else ClosedChan),
             pl_shut := pl_shut pl @ pl_conns pl,
             pl_conns := []\<rparr>)"

definition set_call :: "nat \<Rightarrow> call \<times> pipeListener \<Rightarrow> pipeListener" where
  "set_call i p = (snd p)\<lparr>pl_calls := (pl_calls (snd p))[i := fst p]\<rparr>"

definition call_at :: "pipeListener \<Rightarrow> nat \<Rightarrow> call option" where
  "call_at pl i = (if i < length (pl_calls pl) then Some (pl_calls pl ! i) else None)"

section \<open>Steps\<close>

text \<open>
  One step of one call.  In the select of \<open>Accept\<close> the receive from \<open>closedCh\<close> succeeds when that channel
  is closed; the select of \<open>Dialer\<close> can take the end of its context at any time, and a send on a closed
  channel panics.
\<close>

inductive pl_step :: "pipeListener \<Rightarrow> pipeListener \<Rightarrow> bool" where
  Invoke: "\<not> pl_panic pl \<Longrightarrow> c \<in> {AcceptStart, DialStart, CloseStart} \<Longrightarrow>
    pl_step pl (pl\<lparr>pl_calls := pl_calls pl @ [c]\<rparr>)"
| Accept_prepare: "\<not> pl_panic pl \<Longrightarrow> call_at pl i = Some AcceptStart \<Longrightarrow> pl_step pl (set_call i (accept_prepare pl))"
| Accept_closedCh: "\<not> pl_panic pl \<Longrightarrow> call_at pl i = Some AcceptWait \<Longrightarrow> pl_closedCh pl = ClosedChan \<Longrightarrow>
    pl_step pl (set_call i (AcceptRet None, pl))"
| Accept_nil: "\<not> pl_panic pl \<Longrightarrow> call_at pl i = Some AcceptWait \<Longrightarrow> pl_chConn pl = ClosedChan \<Longrightarrow>
    pl_step pl (set_call i (AcceptGot None, pl))"
| Rendezvous: "\<not> pl_panic pl \<Longrightarrow> call_at pl i = Some AcceptWait \<Longrightarrow> call_at pl j = Some (DialSend c) \<Longrightarrow> pl_chConn pl = OpenChan \<Longrightarrow>
    pl_step pl (set_call j (DialRet (Inr c), set_call i (AcceptGot (Some c), pl)))"
| Accept_finish: "\<not> pl_panic pl \<Longrightarrow> call_at pl i = Some (AcceptGot conn) \<Longrightarrow> pl_step pl (set_call i (accept_finish conn pl))"
| Dial_prepare: "\<not> pl_panic pl \<Longrightarrow> call_at pl i = Some DialStart \<Longrightarrow> pl_step pl (set_call i (dial_prepare pl))"
| Dial_ctx: "\<not> pl_panic pl \<Longrightarrow> call_at pl i = Some (DialSend c) \<Longrightarrow> pl_step pl (set_call i (DialRet (Inl DialCtx), pl))"
| Dial_panic: "\<not> pl_panic pl \<Longrightarrow> call_at pl i = Some (DialSend c) \<Longrightarrow> pl_chConn pl = ClosedChan \<Longrightarrow>
    pl_step pl (pl\<lparr>pl_panic := True\<rparr>)"
| Do_close: "\<not> pl_panic pl \<Longrightarrow> call_at pl i = Some CloseStart \<Longrightarrow> pl_step pl (set_call i (Close pl))"

inductive pl_reaches :: "pipeListener \<Rightarrow> pipeListener \<Rightarrow> bool" where
  Here: "pl_reaches pl pl"
| Then: "pl_reaches pl pl' \<Longrightarrow> pl_step pl' pl'' \<Longrightarrow> pl_reaches pl pl''"

inductive_cases pl_stepE: "pl_step pl pl'"

section \<open>Invariant\<close>

fun accept_end :: "call \<Rightarrow> nat option" where
  "accept_end (AcceptGot c) = c"
| "accept_end (AcceptRet c) = c"
| "accept_end c = None"

fun dial_end :: "call \<Rightarrow> nat option" where
  "dial_end (DialSend c) = Some c"
| "dial_end (DialRet (Inr c)) = Some c"
| "dial_end c = None"

fun dial_ret :: "call \<Rightarrow> nat option" where
  "dial_ret (DialRet (Inr c)) = Some c"
| "dial_ret c = None"

definition accept_of :: "pipeListener \<Rightarrow> nat \<Rightarrow> nat option" where
  "accept_of pl i = Option.bind (call_at pl i) accept_end"

definition dial_of :: "pipeListener \<Rightarrow> nat \<Rightarrow> nat option" where
  "dial_of pl i = Option.bind (call_at pl i) dial_end"

text \<open>
  Every pipe has one dialing call and at most one accepting call; a pipe is on the accepting side only
  when its dialer has returned it; what a dialer returned is held by an accepting call or was closed; and
  what \<open>Accept\<close> returned is recorded in \<open>conns\<close> until the listener closes it.
\<close>

definition dials_inv :: "pipeListener \<Rightarrow> bool" where
  "dials_inv pl \<longleftrightarrow>
    (\<forall>i c. dial_of pl i = Some c \<longrightarrow> c < pl_fresh pl \<and> (\<forall>j. dial_of pl j = Some c \<longrightarrow> j = i))"

definition returned_by :: "pipeListener \<Rightarrow> nat \<Rightarrow> nat option" where
  "returned_by pl i = Option.bind (call_at pl i) dial_ret"

definition returned :: "pipeListener \<Rightarrow> nat set" where
  "returned pl = ran (returned_by pl)"

definition pairs_inv :: "pipeListener \<Rightarrow> bool" where
  "pairs_inv pl \<longleftrightarrow>
    inj_on (accept_of pl) (dom (accept_of pl)) \<and> ran (accept_of pl) \<subseteq> returned pl
    \<and> returned pl \<subseteq> ran (accept_of pl) \<union> set (pl_shut pl)"

definition conns_inv :: "pipeListener \<Rightarrow> bool" where
  "conns_inv pl \<longleftrightarrow>
    (\<forall>i c. call_at pl i = Some (AcceptRet (Some c)) \<longrightarrow>
       c \<in> set (if pl_closed pl then pl_shut pl else pl_conns pl))"

section \<open>Lemmas on steps\<close>

lemma call_at_invoke [simp]:
  "call_at (pl\<lparr>pl_calls := pl_calls pl @ [c]\<rparr>) i = (if i = length (pl_calls pl) then Some c else call_at pl i)"
  by (auto simp: call_at_def nth_append)

lemma call_at_set_call [simp]:
  "call_at (set_call i p) j = (if j = i \<and> call_at (snd p) i \<noteq> None then Some (fst p) else call_at (snd p) j)"
  by (auto simp: call_at_def set_call_def)

lemma set_call_fields [simp]:
  "pl_closed (set_call i p) = pl_closed (snd p)" "pl_conns (set_call i p) = pl_conns (snd p)"
  "pl_chConn (set_call i p) = pl_chConn (snd p)" "pl_closedCh (set_call i p) = pl_closedCh (snd p)"
  "pl_shut (set_call i p) = pl_shut (snd p)" "pl_fresh (set_call i p) = pl_fresh (snd p)"
  "pl_panic (set_call i p) = pl_panic (snd p)"
  by (simp_all add: set_call_def)

lemma call_at_updates [simp]:
  "call_at (pl\<lparr>pl_closed := a\<rparr>) = call_at pl" "call_at (pl\<lparr>pl_conns := b\<rparr>) = call_at pl"
  "call_at (pl\<lparr>pl_chConn := k\<rparr>) = call_at pl" "call_at (pl\<lparr>pl_closedCh := k\<rparr>) = call_at pl"
  "call_at (pl\<lparr>pl_shut := b\<rparr>) = call_at pl" "call_at (pl\<lparr>pl_fresh := n\<rparr>) = call_at pl"
  "call_at (pl\<lparr>pl_panic := a\<rparr>) = call_at pl"
  by (auto simp: call_at_def)

lemma call_at_end [simp]: "call_at pl (length (pl_calls pl)) = None"
  by (simp add: call_at_def)

lemmas section_defs = accept_prepare_def accept_finish_def dial_prepare_def Close_def
lemmas end_defs = accept_of_def dial_of_def

lemma dials_inv_step: "pl_step pl pl' \<Longrightarrow> dials_inv pl \<Longrightarrow> dials_inv pl'"
proof (induction rule: pl_step.induct)
  case (Rendezvous pl i j c)
  then have "i \<noteq> j" by auto
  with Rendezvous have "dial_of (set_call j (DialRet (Inr c), set_call i (AcceptGot (Some c), pl))) = dial_of pl"
    by (auto simp: end_defs fun_eq_iff)
  with Rendezvous show ?case by (simp add: dials_inv_def)
qed (auto simp: dials_inv_def end_defs section_defs split: option.splits if_splits dest: less_SucI)

text \<open>A pipe that is still being sent has no accepting call.\<close>

lemma sending_unaccepted:
  assumes "dials_inv pl" "pairs_inv pl" "call_at pl j = Some (DialSend c)"
  shows "c \<notin> ran (accept_of pl)"
proof
  assume "c \<in> ran (accept_of pl)"
  then obtain k where "returned_by pl k = Some c"
    using assms(2) by (auto simp: pairs_inv_def returned_def ran_def)
  then have k: "call_at pl k = Some (DialRet (Inr c))"
    by (auto simp: returned_by_def elim!: dial_ret.elims split: bind_splits)
  with assms(1,3) have "k = j" by (auto simp: dials_inv_def dial_of_def)
  with k assms(3) show False by simp
qed

text \<open>Calls whose ends do not change leave both sides as they are.\<close>

lemma same_sides:
  assumes "call_at pl i = Some c" "accept_end (fst p) = accept_end c" "call_at (snd p) = call_at pl"
    and "dial_ret (fst p) = dial_ret c"
  shows "accept_of (set_call i p) = accept_of pl" "returned (set_call i p) = returned pl"
proof -
  show "accept_of (set_call i p) = accept_of pl" using assms by (auto simp: accept_of_def fun_eq_iff)
  have "returned_by (set_call i p) = returned_by pl" using assms by (auto simp: returned_by_def fun_eq_iff)
  then show "returned (set_call i p) = returned pl" by (simp add: returned_def)
qed

lemma invoke_sides:
  assumes "c \<in> {AcceptStart, DialStart, CloseStart}"
  shows "accept_of (pl\<lparr>pl_calls := pl_calls pl @ [c]\<rparr>) = accept_of pl"
    "returned (pl\<lparr>pl_calls := pl_calls pl @ [c]\<rparr>) = returned pl"
proof -
  show "accept_of (pl\<lparr>pl_calls := pl_calls pl @ [c]\<rparr>) = accept_of pl"
    using assms by (auto simp: accept_of_def fun_eq_iff)
  have "returned_by (pl\<lparr>pl_calls := pl_calls pl @ [c]\<rparr>) = returned_by pl"
    using assms by (auto simp: returned_by_def fun_eq_iff)
  then show "returned (pl\<lparr>pl_calls := pl_calls pl @ [c]\<rparr>) = returned pl" by (simp add: returned_def)
qed

lemma handed_sides:
  assumes "call_at pl i = Some AcceptWait" "call_at pl j = Some (DialSend c)"
    and "pl' = set_call j (DialRet (Inr c), set_call i (AcceptGot (Some c), pl))"
  shows "accept_of pl' = (accept_of pl)(i \<mapsto> c)" "returned pl' = insert c (returned pl)"
proof -
  have "returned_by pl' = (returned_by pl)(j \<mapsto> c)" "returned_by pl j = None"
    using assms by (auto simp: fun_eq_iff returned_by_def)
  then show "returned pl' = insert c (returned pl)" by (simp add: returned_def)
qed (use assms in \<open>auto simp: accept_of_def fun_eq_iff\<close>)

lemma late_sides:
  assumes "call_at pl i = Some (AcceptGot (Some c))" "pl_closed pl" and "pl' = set_call i (accept_finish (Some c) pl)"
  shows "accept_of pl' = (accept_of pl)(i := None)" "returned pl' = returned pl" "pl_shut pl' = pl_shut pl @ [c]"
proof -
  have "returned_by pl' = returned_by pl" using assms by (auto simp: fun_eq_iff returned_by_def accept_finish_def)
  then show "returned pl' = returned pl" by (simp add: returned_def)
qed (use assms in \<open>auto simp: accept_of_def fun_eq_iff accept_finish_def\<close>)

text \<open>What a step does to the two sides of the pipes: nothing, a hand-over, or a late close.\<close>

lemma step_sides:
  assumes "pl_step pl pl'"
  obtains (same) "accept_of pl' = accept_of pl" "returned pl' = returned pl" "set (pl_shut pl) \<subseteq> set (pl_shut pl')"
  | (handed) i j c where "accept_of pl i = None" "call_at pl j = Some (DialSend c)"
      "accept_of pl' = (accept_of pl)(i \<mapsto> c)" "returned pl' = insert c (returned pl)" "pl_shut pl' = pl_shut pl"
  | (late) i c where "accept_of pl i = Some c" "accept_of pl' = (accept_of pl)(i := None)"
      "returned pl' = returned pl" "pl_shut pl' = pl_shut pl @ [c]"
  using assms
proof (cases rule: pl_step.cases)
  case (Invoke c)
  then show ?thesis using invoke_sides same by simp
next
  case (Accept_prepare i)
  then show ?thesis using same_sides [of pl i _ "accept_prepare pl"] by (intro same) (simp_all add: section_defs)
next
  case (Accept_closedCh i)
  then show ?thesis using same_sides [of pl i _ "(AcceptRet None, pl)"] by (intro same) simp_all
next
  case (Accept_nil i)
  then show ?thesis using same_sides [of pl i _ "(AcceptGot None, pl)"] by (intro same) simp_all
next
  case (Rendezvous i j c)
  then show ?thesis using handed_sides [of pl i j c pl'] by (intro handed [of i j c]) (simp_all add: accept_of_def)
next
  case (Accept_finish i conn)
  show ?thesis
  proof (cases "conn = None \<or> \<not> pl_closed pl")
    case True
    then show ?thesis using Accept_finish same_sides [of pl i _ "accept_finish conn pl"]
      by (intro same) (auto simp: accept_finish_def split: option.splits)
  next
    case False
    then obtain c where "conn = Some c" "pl_closed pl" by auto
    with Accept_finish show ?thesis
      using late_sides [of pl i c pl'] by (intro late [of i c]) (simp_all add: accept_of_def)
  qed
next
  case (Dial_prepare i)
  then show ?thesis using same_sides [of pl i _ "dial_prepare pl"] by (intro same) (simp_all add: dial_prepare_def)
next
  case (Dial_ctx i c)
  then show ?thesis using same_sides [of pl i _ "(DialRet (Inl DialCtx), pl)"] by (intro same) simp_all
next
  case (Dial_panic i c)
  then show ?thesis by (intro same) (simp_all add: accept_of_def returned_def returned_by_def [abs_def] fun_eq_iff)
next
  case (Do_close i)
  then show ?thesis using same_sides [of pl i _ "Close pl"] by (intro same) (auto simp: Close_def)
qed

lemma ran_drop: "(m :: 'a \<rightharpoonup> 'b) i = Some c \<Longrightarrow> ran m \<subseteq> insert c (ran (m(i := None)))" "ran (m(i := None)) \<subseteq> ran m"
  by (auto simp: ran_def split: if_splits) (metis option.inject)

lemma pairs_inv_step:
  assumes "pl_step pl pl'" "dials_inv pl" "pairs_inv pl"
  shows "pairs_inv pl'"
  using assms(1)
proof (cases rule: step_sides)
  case same
  with assms(3) show ?thesis by (auto simp: pairs_inv_def)
next
  case (handed i j c)
  with sending_unaccepted [OF assms(2,3)] have "c \<notin> ran (accept_of pl)" by blast
  then have "inj_on (accept_of pl') (dom (accept_of pl'))"
    using assms(3) handed by (auto simp: pairs_inv_def inj_on_def ran_def)
  with handed assms(3) show ?thesis by (auto simp: pairs_inv_def)
next
  case (late i c)
  have "inj_on (accept_of pl') (dom (accept_of pl'))"
    using assms(3) late by (auto simp: pairs_inv_def inj_on_def)
  moreover have "ran (accept_of pl) \<subseteq> insert c (ran (accept_of pl'))" "ran (accept_of pl') \<subseteq> ran (accept_of pl)"
    using late ran_drop [where m = "accept_of pl" and i = i] by simp_all
  ultimately show ?thesis using late assms(3) by (auto simp: pairs_inv_def)
qed

lemma conns_inv_step: "pl_step pl pl' \<Longrightarrow> conns_inv pl \<Longrightarrow> conns_inv pl'"
  by (induction rule: pl_step.induct)
    (auto simp: conns_inv_def section_defs split: option.splits if_splits)

definition pl_inv :: "pipeListener \<Rightarrow> bool" where
  "pl_inv pl \<longleftrightarrow> dials_inv pl \<and> pairs_inv pl \<and> conns_inv pl"

lemma pl_inv_zero: "pl_inv zero_listener"
proof -
  have "call_at zero_listener = (\<lambda>i. None)" by (simp add: call_at_def zero_listener_def fun_eq_iff)
  then have "accept_of zero_listener = Map.empty" "dial_of zero_listener = Map.empty" "returned zero_listener = {}"
    by (simp_all add: end_defs returned_def returned_by_def fun_eq_iff ran_def)
  then show ?thesis by (simp add: pl_inv_def dials_inv_def pairs_inv_def conns_inv_def call_at_def zero_listener_def)
qed

lemma pl_inv_reaches: "pl_reaches pl pl' \<Longrightarrow> pl_inv pl \<Longrightarrow> pl_inv pl'"
  by (induction rule: pl_reaches.induct) (auto simp: pl_inv_def intro: dials_inv_step pairs_inv_step conns_inv_step)

lemma reached_inv: "pl_reaches zero_listener pl \<Longrightarrow> pl_inv pl"
  using pl_inv_reaches pl_inv_zero by blast

section \<open>A listener that is closed before it is used\<close>

text \<open>
  Nothing closes \<open>closedCh\<close>, and \<open>Close\<close> only closes \<open>chConn\<close> when it has been made.  After a close of the
  zero value an \<open>Accept\<close> makes a channel that no \<open>Dialer\<close> sends on.
\<close>

definition closed_unused :: "pipeListener \<Rightarrow> bool" where
  "closed_unused pl \<longleftrightarrow>
    pl_closed pl \<and> pl_chConn pl \<noteq> ClosedChan \<and> pl_closedCh pl \<noteq> ClosedChan
    \<and> (\<forall>i c. call_at pl i \<noteq> Some (DialSend c)) \<and> (\<forall>i c. call_at pl i \<noteq> Some (AcceptGot c))"

lemma closed_unused_step: "pl_step pl pl' \<Longrightarrow> closed_unused pl \<Longrightarrow> closed_unused pl'"
  by (induction rule: pl_step.induct)
    (auto simp: closed_unused_def section_defs make_chan_def split: option.splits if_splits)

text \<open>In such a state no step finishes an \<open>Accept\<close>.\<close>

lemma closed_unused_accept:
  "pl_step pl pl' \<Longrightarrow> closed_unused pl \<Longrightarrow> call_at pl i \<in> {Some AcceptStart, Some AcceptWait} \<Longrightarrow>
    call_at pl' i \<in> {Some AcceptStart, Some AcceptWait}"
  by (induction rule: pl_step.induct)
    (auto simp: closed_unused_def section_defs split: option.splits if_splits)

lemma closed_unused_reaches:
  "pl_reaches pl pl' \<Longrightarrow> closed_unused pl \<Longrightarrow> closed_unused pl'"
  by (induction rule: pl_reaches.induct) (auto intro: closed_unused_step)

lemma closed_unused_blocks:
  "pl_reaches pl pl' \<Longrightarrow> closed_unused pl \<Longrightarrow> call_at pl i \<in> {Some AcceptStart, Some AcceptWait} \<Longrightarrow>
    call_at pl' i \<in> {Some AcceptStart, Some AcceptWait}"
  by (induction rule: pl_reaches.induct) (auto dest: closed_unused_reaches closed_unused_accept)

section \<open>Progress of a used listener\<close>

text \<open>
  Once the channel has been closed, a waiting \<open>Accept\<close> can take the nil connection and returns in two
  steps of its own.
\<close>

lemma closed_accept_returns:
  assumes "\<not> pl_panic pl" "pl_chConn pl = ClosedChan" "call_at pl i = Some AcceptWait"
  shows "\<exists>pl' pl''. pl_step pl pl' \<and> pl_step pl' pl'' \<and> call_at pl'' i = Some (AcceptRet None)"
proof -
  let ?pl1 = "set_call i (AcceptGot None, pl)"
  have "pl_step pl ?pl1" using assms by (intro Accept_nil) auto
  moreover have "pl_step ?pl1 (set_call i (accept_finish None ?pl1))" using assms by (intro Accept_finish) auto
  moreover have "call_at (set_call i (accept_finish None ?pl1)) i = Some (AcceptRet None)"
    using assms by (simp add: accept_finish_def)
  ultimately show ?thesis by blast
qed

end
