(* ===== verification/Proxy.thy ===== *)
theory Proxy
  imports Socket_Mux Pipe
begin

text \<open>
  The proxy of the socket provider (sessionutil/socketprovider/proxy.go): a server that forwards a stream to
  a connection which it dials.  A dialer is any value; \<open>dial\<close> is what calling it returns and \<open>copy\<close> the
  result of copying between the stream and a connection.  The default socket id is a constant of buildkit
  and enters as an argument.
\<close>

record 'd proxyConfig =
  pc_ID :: string
  pc_Dialer :: "'d option"

definition proxy_id :: "string \<Rightarrow> string \<Rightarrow> string" where
  "proxy_id defaultID i = (if i = [] then defaultID else i)"

fun proxy_loop :: "string \<Rightarrow> 'd proxyConfig list \<Rightarrow> 'd gomap \<Rightarrow> goerr + 'd gomap" where
  "proxy_loop defaultID [] m = Inr m"
| "proxy_loop defaultID (config # configs) m =
    (let i = proxy_id defaultID (pc_ID config)
     in if map_of m i \<noteq> None then Inl (Msg (''duplicate socket proxy ID '' @ i))
        else (case pc_Dialer config of
                None \<Rightarrow> Inl (Msg (''empty socket proxy path for ID '' @ i))
              | Some d \<Rightarrow> proxy_loop defaultID configs (mput i d m)))"

definition NewProxyHandler :: "string \<Rightarrow> 'd proxyConfig list \<Rightarrow> goerr + 'd gomap" where
  "NewProxyHandler defaultID configs = proxy_loop defaultID configs []"

definition proxy_CheckAgent :: "string \<Rightarrow> 'd gomap \<Rightarrow> string \<Rightarrow> gores" where
  "proxy_CheckAgent defaultID h reqID =
    (if map_of h (proxy_id defaultID reqID) \<noteq> None then None
     else Some (Msg (''no connection found for ID '' @ reqID)))"

text \<open>The id in the metadata of the stream.\<close>

definition stream_id :: "string \<Rightarrow> string list option \<Rightarrow> string" where
  "stream_id defaultID v = (case v of Some (x # _) \<Rightarrow> proxy_id defaultID x | _ \<Rightarrow> defaultID)"

text \<open>The result of the call and the connections that it closed.\<close>

definition proxy_ForwardAgent ::
  "string \<Rightarrow> ('d \<Rightarrow> goerr + 'c) \<Rightarrow> ('c \<Rightarrow> gores) \<Rightarrow> 'd gomap \<Rightarrow> string list option \<Rightarrow> gores \<times> 'c list" where
  "proxy_ForwardAgent defaultID dial copy h v =
    (let i = stream_id defaultID v
     in case map_of h i of
          None \<Rightarrow> (Some (Msg (''unset ssh forward key '' @ i)), [])
        | Some d \<Rightarrow>
            (case dial d of
               Inl e \<Rightarrow> (Some (Wrap (''failed to connect to '' @ i) e), [])
             | Inr conn \<Rightarrow> (copy conn, [conn])))"

section \<open>Lemmas\<close>

abbreviation ids :: "string \<Rightarrow> 'd proxyConfig list \<Rightarrow> string list" where
  "ids defaultID configs \<equiv> map (\<lambda>c. proxy_id defaultID (pc_ID c)) configs"

lemma unset_after_put:
  "(\<forall>i \<in> S. map_of (mput k d m) i = None) \<longleftrightarrow> k \<notin> S \<and> (\<forall>i \<in> S. map_of m i = None)"
  by (auto simp: update_conv')

lemma proxy_loop_ok:
  "(\<exists>h. proxy_loop defaultID configs m = Inr h) \<longleftrightarrow>
    distinct (ids defaultID configs) \<and> (\<forall>i \<in> set (ids defaultID configs). map_of m i = None)
    \<and> list_all (\<lambda>c. pc_Dialer c \<noteq> None) configs"
proof (induction configs arbitrary: m)
  case (Cons c configs)
  show ?case
  proof (cases "map_of m (proxy_id defaultID (pc_ID c)) = None \<and> pc_Dialer c \<noteq> None")
    case True
    then obtain d where "pc_Dialer c = Some d" by auto
    with True Cons.IH [of "mput (proxy_id defaultID (pc_ID c)) d m", unfolded unset_after_put] show ?thesis
      by (simp add: Let_def) blast
  qed (auto simp: Let_def)
qed simp

lemma proxy_loop_lookup:
  assumes "proxy_loop defaultID configs m = Inr h"
  shows "map_of h i =
    (case find (\<lambda>c. proxy_id defaultID (pc_ID c) = i) configs of Some c \<Rightarrow> pc_Dialer c | None \<Rightarrow> map_of m i)"
  using assms
proof (induction configs arbitrary: m)
  case (Cons c configs)
  let ?i = "proxy_id defaultID (pc_ID c)"
  from Cons.prems obtain d where d: "pc_Dialer c = Some d" "map_of m ?i = None"
    "proxy_loop defaultID configs (mput ?i d m) = Inr h"
    by (auto simp: Let_def split: if_splits option.splits)
  then have "\<forall>j \<in> set (ids defaultID configs). map_of (mput ?i d m) j = None"
    using proxy_loop_ok [of defaultID configs "mput ?i d m"] by blast
  then have "find (\<lambda>c. proxy_id defaultID (pc_ID c) = ?i) configs = None"
    by (force simp: find_None_iff update_conv')
  with Cons.IH [OF d(3)] d(1) show ?case by (auto simp: update_conv' split: option.splits)
qed simp

text \<open>A configured socket is found under its id.\<close>

lemma NewProxyHandler_finds:
  assumes "NewProxyHandler defaultID configs = Inr h" and "c \<in> set configs"
  shows "map_of h (proxy_id defaultID (pc_ID c)) = pc_Dialer c \<and> pc_Dialer c \<noteq> None"
proof -
  have ok: "distinct (ids defaultID configs)" "list_all (\<lambda>c. pc_Dialer c \<noteq> None) configs"
    using proxy_loop_ok [of defaultID configs "[]"] assms(1) by (auto simp: NewProxyHandler_def)
  then have "find (\<lambda>d. proxy_id defaultID (pc_ID d) = proxy_id defaultID (pc_ID c)) configs = Some c"
    using assms(2) by (induction configs) (auto simp: image_iff)
  with proxy_loop_lookup [OF assms(1) [unfolded NewProxyHandler_def]] ok assms(2)
  show ?thesis by (simp add: list_all_iff)
qed

text \<open>The check of an agent succeeds exactly for the ids that can be forwarded.\<close>

lemma check_iff_forward:
  "proxy_CheckAgent defaultID h i = None \<longleftrightarrow>
    (\<exists>d. map_of h (stream_id defaultID (Some [i])) = Some d)"
  by (simp add: proxy_CheckAgent_def stream_id_def)

end
