(* ===== verification/Socket_Claims.thy ===== *)
theory Socket_Claims
  imports Proxy
begin

text \<open>
  The properties of the in-memory listener and of the socket proxy (sessionutil/socketprovider), each with a
  witness on concrete data.
\<close>

section \<open>A run of the listener\<close>

definition demo_invoked :: pipeListener where
  "demo_invoked = zero_listener\<lparr>pl_calls := [DialStart, AcceptStart, CloseStart]\<rparr>"

definition demo_waiting :: pipeListener where
  "demo_waiting = set_call 1 (accept_prepare (set_call 0 (dial_prepare demo_invoked)))"

definition demo_accepted :: pipeListener where
  "demo_accepted =
    set_call 1 (accept_finish (Some 0) (set_call 0 (DialRet (Inr 0), set_call 1 (AcceptGot (Some 0), demo_waiting))))"

definition demo_closed :: pipeListener where
  "demo_closed = set_call 2 (Close demo_accepted)"

lemmas demo_defs = demo_invoked_def demo_waiting_def demo_accepted_def demo_closed_def zero_listener_def
  set_call_def section_defs make_chan_def call_at_def

lemma demo_reached:
  "pl_reaches zero_listener demo_invoked" "pl_reaches zero_listener demo_waiting" "pl_reaches zero_listener demo_accepted"
  "pl_reaches zero_listener demo_closed"
proof -
  have "pl_step zero_listener (zero_listener\<lparr>pl_calls := [DialStart]\<rparr>)"
    using Invoke [of zero_listener DialStart] by (simp add: zero_listener_def)
  moreover have "pl_step (zero_listener\<lparr>pl_calls := [DialStart]\<rparr>) (zero_listener\<lparr>pl_calls := [DialStart, AcceptStart]\<rparr>)"
    using Invoke [of "zero_listener\<lparr>pl_calls := [DialStart]\<rparr>" AcceptStart] by (simp add: zero_listener_def)
  moreover have "pl_step (zero_listener\<lparr>pl_calls := [DialStart, AcceptStart]\<rparr>) demo_invoked"
    using Invoke [of "zero_listener\<lparr>pl_calls := [DialStart, AcceptStart]\<rparr>" CloseStart]
    by (simp add: demo_invoked_def zero_listener_def)
  ultimately show 1: "pl_reaches zero_listener demo_invoked" by (meson Here Then)
  have "pl_step demo_invoked (set_call 0 (dial_prepare demo_invoked))"
    by (rule Dial_prepare) (simp_all add: demo_defs)
  moreover have "pl_step (set_call 0 (dial_prepare demo_invoked)) demo_waiting"
    unfolding demo_waiting_def by (rule Accept_prepare) (simp_all add: demo_defs)
  ultimately show 2: "pl_reaches zero_listener demo_waiting" using 1 by (meson Then)
  have "pl_step demo_waiting (set_call 0 (DialRet (Inr 0), set_call 1 (AcceptGot (Some 0), demo_waiting)))"
    by (rule Rendezvous) (simp_all add: demo_defs)
  moreover have "pl_step (set_call 0 (DialRet (Inr 0), set_call 1 (AcceptGot (Some 0), demo_waiting))) demo_accepted"
    unfolding demo_accepted_def by (rule Accept_finish) (simp_all add: demo_defs)
  ultimately show 3: "pl_reaches zero_listener demo_accepted" using 2 by (meson Then)
  have "pl_step demo_accepted demo_closed"
    unfolding demo_closed_def by (rule Do_close) (simp_all add: demo_defs)
  with 3 show "pl_reaches zero_listener demo_closed" by (meson Then)
qed

section \<open>Connections\<close>

text \<open>
  C26 (sessionutil/socketprovider/pipe.go, Accept, Dialer and Close): in every interleaving of calls, a
  connection that an \<open>Accept\<close> returned is the other end of the pipe of exactly one returned \<open>Dialer\<close> call,
  no second \<open>Accept\<close> returned it, and once the listener is closed the connection is closed.
\<close>

theorem pipe_accepts_dialed:
  assumes "pl_reaches zero_listener pl" and "call_at pl i = Some (AcceptRet (Some c))"
  shows "(\<exists>!j. call_at pl j = Some (DialRet (Inr c)))
    \<and> (\<forall>k. call_at pl k = Some (AcceptRet (Some c)) \<longrightarrow> k = i) \<and> (pl_closed pl \<longrightarrow> c \<in> set (pl_shut pl))"
proof -
  have inv: "dials_inv pl" "pairs_inv pl" "conns_inv pl" using reached_inv [OF assms(1)] by (simp_all add: pl_inv_def)
  have acc: "accept_of pl i = Some c" using assms(2) by (simp add: accept_of_def)
  then have "c \<in> returned pl" using inv(2) by (auto simp: pairs_inv_def ran_def)
  then obtain j where j: "call_at pl j = Some (DialRet (Inr c))"
    by (auto simp: returned_def ran_def returned_by_def elim!: dial_ret.elims split: bind_splits)
  moreover have "k = j" if "call_at pl k = Some (DialRet (Inr c))" for k
    using inv(1) j that by (auto simp: dials_inv_def dial_of_def)
  moreover have "k = i" if "call_at pl k = Some (AcceptRet (Some c))" for k
  proof -
    have "accept_of pl k = Some c" using that by (simp add: accept_of_def)
    with acc inv(2) show ?thesis by (auto simp: pairs_inv_def inj_on_def dom_def)
  qed
  moreover have "pl_closed pl \<longrightarrow> c \<in> set (pl_shut pl)" using inv(3) assms(2) by (auto simp: conns_inv_def split: if_splits)
  ultimately show ?thesis by blast
qed

theorem pipe_accepts_dialed_witness:
  "(\<exists>!j. call_at demo_closed j = Some (DialRet (Inr 0))) \<and> 0 \<in> set (pl_shut demo_closed)"
proof -
  have "call_at demo_closed 1 = Some (AcceptRet (Some 0))" by (simp add: demo_defs)
  from pipe_accepts_dialed [OF demo_reached(4) this] show ?thesis by (simp add: demo_defs)
qed

text \<open>
  Note (pipe.go, Dialer): a connection that a \<open>Dialer\<close> call returned has been taken by an \<open>Accept\<close> call, or
  the listener has closed its end of it.
\<close>

theorem dialed_taken:
  assumes "pl_reaches zero_listener pl" and "call_at pl j = Some (DialRet (Inr c))"
  shows "(\<exists>i. call_at pl i = Some (AcceptGot (Some c)) \<or> call_at pl i = Some (AcceptRet (Some c))) \<or> c \<in> set (pl_shut pl)"
proof -
  have "pairs_inv pl" using reached_inv [OF assms(1)] by (simp add: pl_inv_def)
  moreover have "returned_by pl j = Some c" using assms(2) by (simp add: returned_by_def)
  then have "c \<in> returned pl" by (auto simp: returned_def ran_def)
  ultimately have "c \<in> ran (accept_of pl) \<union> set (pl_shut pl)" by (auto simp: pairs_inv_def)
  then show ?thesis by (auto simp: ran_def accept_of_def elim!: accept_end.elims split: bind_splits)
qed

theorem dialed_taken_witness:
  "(\<exists>i. call_at demo_accepted i = Some (AcceptGot (Some 0)) \<or> call_at demo_accepted i = Some (AcceptRet (Some 0)))
    \<or> 0 \<in> set (pl_shut demo_accepted)"
  by (rule dialed_taken [OF demo_reached(3), of 0 0]) (simp add: demo_defs)

text \<open>
  Note (pipe.go, Close and Accept): when the zero value is closed before its first \<open>Accept\<close> or \<open>Dialer\<close>, a
  later \<open>Accept\<close> never returns: \<open>Close\<close> has no channel to close, and nothing closes \<open>closedCh\<close>.
\<close>

theorem accept_after_close_blocks:
  "\<exists>pl. pl_reaches zero_listener pl \<and> pl_closed pl \<and> call_at pl 1 = Some AcceptWait
    \<and> (\<forall>pl' r. pl_reaches pl pl' \<longrightarrow> call_at pl' 1 \<noteq> Some (AcceptRet r))"
proof -
  let ?a = "zero_listener\<lparr>pl_calls := [CloseStart]\<rparr>"
  let ?b = "set_call 0 (Close ?a)"
  let ?c = "?b\<lparr>pl_calls := pl_calls ?b @ [AcceptStart]\<rparr>"
  let ?d = "set_call 1 (accept_prepare ?c)"
  have "pl_step zero_listener ?a" using Invoke [of zero_listener CloseStart] by (simp add: zero_listener_def)
  moreover have "pl_step ?a ?b" by (rule Do_close) (simp_all add: zero_listener_def call_at_def)
  moreover have "pl_step ?b ?c" by (rule Invoke) (simp_all add: demo_defs)
  moreover have "pl_step ?c ?d" by (rule Accept_prepare) (simp_all add: demo_defs)
  ultimately have reach: "pl_reaches zero_listener ?d" by (meson Here Then)
  have calls: "pl_calls ?d = [CloseRet, AcceptWait]" by (simp add: demo_defs)
  have at: "call_at ?d i = (if i = 0 then Some CloseRet else if i = 1 then Some AcceptWait else None)" for i
    unfolding call_at_def calls by (auto simp: nth_Cons split: nat.splits)
  have unused: "closed_unused ?d" unfolding closed_unused_def at by (simp add: demo_defs)
  have "call_at pl' 1 \<noteq> Some (AcceptRet r)" if "pl_reaches ?d pl'" for pl' r
    using closed_unused_blocks [OF that unused, of 1] at [of 1] by auto
  moreover have "pl_closed ?d" by (simp add: demo_defs)
  ultimately show ?thesis using reach at [of 1] by (intro exI [of _ ?d]) auto
qed

text \<open>
  Note (pipe.go, Close and Dialer): a \<open>Close\<close> while a \<open>Dialer\<close> call waits for an \<open>Accept\<close> closes the channel
  that the call sends on, which makes the call panic.
\<close>

theorem close_panics_dialer:
  "\<exists>pl pl'. pl_reaches zero_listener pl \<and> call_at pl 0 = Some (DialSend 0)
    \<and> pl_reaches (set_call 2 (Close pl)) pl' \<and> pl_panic pl'"
proof -
  let ?pl = "set_call 2 (Close demo_waiting)"
  have "pl_step ?pl (?pl\<lparr>pl_panic := True\<rparr>)"
    by (rule Dial_panic [where i = 0 and c = 0]) (simp_all add: demo_defs)
  then have "pl_reaches ?pl (?pl\<lparr>pl_panic := True\<rparr>)" by (meson Here Then)
  moreover have "call_at demo_waiting 0 = Some (DialSend 0)" by (simp add: demo_defs)
  ultimately show ?thesis using demo_reached(2)
    by (intro exI [of _ demo_waiting] exI [of _ "?pl\<lparr>pl_panic := True\<rparr>"]) simp
qed

section \<open>The proxy behind the router\<close>

text \<open>
  C28 (sessionutil/socketprovider/mux.go and proxy.go): behind a router that sends a prefix to a handler of
  proxies, a request for the id of a configured proxy dials that proxy's connection, returns what copying
  to it returns and closes the connection; the check of the agent for this id succeeds.
\<close>

theorem proxied_socket:
  assumes "NewProxyHandler defaultID configs = Inr h" and "c \<in> set configs" and "pc_ID c \<noteq> []"
    and "HasPrefix (pc_ID c) pre" and "pc_Dialer c = Some d" and "dial d = Inr conn"
  shows "ForwardAgent (\<lambda>srv. fst (proxy_ForwardAgent defaultID dial copy srv (Some [pc_ID c])))
      (NewMux [WithMuxRoute pre h]) (Some [pc_ID c]) = Some (copy conn)
    \<and> proxy_ForwardAgent defaultID dial copy h (Some [pc_ID c]) = (copy conn, [conn])
    \<and> CheckAgent (\<lambda>srv. proxy_CheckAgent defaultID srv (pc_ID c)) (NewMux [WithMuxRoute pre h]) (pc_ID c) = Some None"
proof -
  have found: "map_of h (pc_ID c) = Some d"
    using NewProxyHandler_finds [OF assms(1,2)] assms(3,5) by (simp add: proxy_id_def)
  have route: "getHandler (NewMux [WithMuxRoute pre h]) (pc_ID c) = Some (Registered h)"
    using assms(4) by (simp add: getHandler_def NewMux_def plain_match_def)
  show ?thesis
    using found assms(3,6)
    by (simp add: ForwardAgent_def CheckAgent_def route forward_id_def server_call_def proxy_ForwardAgent_def
        proxy_CheckAgent_def stream_id_def proxy_id_def)
qed

theorem proxied_socket_witness:
  "ForwardAgent (\<lambda>srv. fst (proxy_ForwardAgent ''default'' Inr (\<lambda>n::nat. Some (Msg ''closed'')) srv (Some [''bazel/one''])))
      (NewMux [WithMuxRoute ''bazel/'' [(''bazel/two'', 2), (''bazel/one'', 1)]]) (Some [''bazel/one'']) = Some (Some (Msg ''closed''))"
  using proxied_socket [of "''default''" "[\<lparr>pc_ID = ''bazel/two'', pc_Dialer = Some 2\<rparr>, \<lparr>pc_ID = ''bazel/one'', pc_Dialer = Some 1\<rparr>]"
      "[(''bazel/two'', 2), (''bazel/one'', 1)]" "\<lparr>pc_ID = ''bazel/one'', pc_Dialer = Some 1\<rparr>" "''bazel/''" 1 Inr 1
      "\<lambda>n::nat. Some (Msg ''closed'')"]
  by (simp add: NewProxyHandler_def proxy_id_def Let_def HasPrefix_def)

end
