(* ===== verification/Source_Map.thy ===== *)
theory Source_Map
  imports Tests Cache
begin

text \<open>
  Source positions (sourcemap.go) and how they are attached: the range of a YAML node, the constraints that
  carry positions to buildkit, the decoding of checks with the positions of their fields (tests.go), and the
  position of a failed check.

  The YAML library is not modelled: a node is given by the list of the nodes that \<open>ast.Walk\<close> visits, itself
  first, and decoding a node into a Go value is an argument.  A \<open>ConstraintsOpt\<close> is a function on the part
  of \<open>llb.Constraints\<close> that the code reads or sets.
\<close>

section \<open>Ranges of nodes\<close>

record pbPosition =
  pos_Line :: int
  pos_Character :: int

record pbRange =
  rg_Start :: pbPosition
  rg_End :: pbPosition

text \<open>
  \<open>an_String\<close> is the result of the method \<open>String\<close>, \<^term>\<open>None\<close> when it panics; \<open>an_Value\<close> is the field of a
  string node.
\<close>

record astNode =
  an_isComment :: bool
  an_isString :: bool
  an_Line :: int
  an_Column :: int
  an_String :: "string option"
  an_Value :: string

definition int32 :: "int \<Rightarrow> int" where
  "int32 n = signed_take_bit 31 n"

abbreviation newline_char :: char where "newline_char \<equiv> CHR 0x0A"

definition count_newlines :: "string \<Rightarrow> int" where
  "count_newlines s = int (length (filter (\<lambda>c. c = newline_char) s))"

definition last_newline :: "string \<Rightarrow> int" where
  "last_newline s =
    (if newline_char \<in> set s then int (length s) - 1 - int (length (takeWhile (\<lambda>c. c \<noteq> newline_char) (rev s))) else - 1)"

record endPosVisitor =
  ev_endLine :: int
  ev_endChar :: int

definition setEndChar :: "int \<Rightarrow> string \<Rightarrow> endPosVisitor \<Rightarrow> endPosVisitor" where
  "setEndChar column ns v =
    (let newlines = count_newlines ns;
         v' = v\<lparr>ev_endLine := ev_endLine v + (newlines - 1)\<rparr>
     in if newlines = 0 then v'\<lparr>ev_endChar := column + int (length ns)\<rparr>
        else if last_newline ns \<noteq> - 1 then v'\<lparr>ev_endChar := int (length ns) - last_newline ns\<rparr>
        else v')"

text \<open>The deferred call of \<open>setEndChar\<close> runs whether \<open>String\<close> panics or not.\<close>

definition Visit :: "endPosVisitor \<Rightarrow> astNode \<Rightarrow> endPosVisitor" where
  "Visit v n =
    (if an_isComment n then v
     else if an_Line n < ev_endLine v then v
     else
       let v1 = v\<lparr>ev_endLine := an_Line n, ev_endChar := an_Column n\<rparr>
       in if \<not> an_isString n then v1
          else setEndChar (an_Column n) (an_Value n)
                 (case an_String n of None \<Rightarrow> v1 | Some s \<Rightarrow> setEndChar (an_Column n) s v1))"

definition end_Position :: "endPosVisitor \<Rightarrow> pbPosition" where
  "end_Position v = \<lparr>pos_Line = int32 (ev_endLine v), pos_Character = int32 (ev_endChar v)\<rparr>"

definition walk_nodes :: "astNode list \<Rightarrow> endPosVisitor" where
  "walk_nodes ns = foldl Visit \<lparr>ev_endLine = 0, ev_endChar = 0\<rparr> ns"

text \<open>A node and the nodes that are visited below it.\<close>

type_synonym yamlNode = "astNode \<times> astNode list"

definition nodeToRange :: "yamlNode \<Rightarrow> pbRange" where
  "nodeToRange node =
    \<lparr>rg_Start = \<lparr>pos_Line = int32 (an_Line (fst node)), pos_Character = int32 (an_Column (fst node))\<rparr>,
     rg_End = end_Position (walk_nodes (fst node # snd node))\<rparr>"

section \<open>Source maps\<close>

record sourceMap =
  srcm_filename :: string
  srcm_language :: string
  srcm_data :: string
  srcm_pos :: pbRange

record sourceMapContext =
  smc_fileName :: string
  smc_data :: string
  smc_language :: string

text \<open>The value in the context, if there is one.\<close>

definition sourceMapInfo :: "sourceMapContext option \<Rightarrow> sourceMapContext" where
  "sourceMapInfo ctx =
    (case ctx of None \<Rightarrow> \<lparr>smc_fileName = [], smc_data = [], smc_language = []\<rparr> | Some v \<Rightarrow> v)"

definition newSourceMap :: "sourceMapContext option \<Rightarrow> yamlNode \<Rightarrow> sourceMap" where
  "newSourceMap ctx node =
    (let smCtx = sourceMapInfo ctx
     in \<lparr>srcm_filename = smc_fileName smCtx, srcm_language = smc_language smCtx, srcm_data = smc_data smCtx,
         srcm_pos = nodeToRange node\<rparr>)"

text \<open>The context of \<open>LoadSpecWithSourceMap\<close>.\<close>

definition source_map_ctx :: "string \<Rightarrow> string \<Rightarrow> sourceMapContext option" where
  "source_map_ctx filename dt = Some \<lparr>smc_fileName = filename, smc_data = dt, smc_language = ''yaml''\<rparr>"

record errdefsSource =
  es_Filename :: string
  es_Data :: string
  es_Language :: string
  es_Ranges :: "pbRange list"

definition GetErrdefsSource :: "sourceMap option \<Rightarrow> errdefsSource option" where
  "GetErrdefsSource sm =
    (case sm of
       None \<Rightarrow> None
     | Some m \<Rightarrow> Some \<lparr>es_Filename = srcm_filename m, es_Data = srcm_data m, es_Language = srcm_language m,
         es_Ranges = [srcm_pos m]\<rparr>)"

section \<open>Constraints\<close>

text \<open>
  A location names the state it belongs to (\<open>'s\<close>, absent for root locations), the file and the ranges.  A
  progress group has an id and a name.
\<close>

record 's sourceLocation =
  loc_State :: "'s option"
  loc_Filename :: string
  loc_Ranges :: "pbRange list"

record 's constraints =
  con_Platform :: "platform option"
  con_ProgressGroup :: "(string \<times> string) option"
  con_SourceLocations :: "'s sourceLocation list"

type_synonym 's constraintsOpt = "'s constraints \<Rightarrow> 's constraints"

definition empty_constraints :: "'s constraints" where
  "empty_constraints = \<lparr>con_Platform = None, con_ProgressGroup = None, con_SourceLocations = []\<rparr>"

definition WithConstraints :: "'s constraintsOpt list \<Rightarrow> 's constraintsOpt" where
  "WithConstraints ls c = foldl (\<lambda>c opt. opt c) c ls"

definition WithConstraint :: "'s constraints option \<Rightarrow> 's constraintsOpt" where
  "WithConstraint inp c = (case inp of None \<Rightarrow> c | Some i \<Rightarrow> i)"

definition Platform_opt :: "platform option \<Rightarrow> 's constraintsOpt" where
  "Platform_opt platform c = (case platform of None \<Rightarrow> c | Some p \<Rightarrow> c\<lparr>con_Platform := Some p\<rparr>)"

text \<open>\<open>newID\<close> is what \<open>identity.NewID\<close> returns.\<close>

definition ProgressGroup :: "string \<Rightarrow> string \<Rightarrow> 's constraintsOpt" where
  "ProgressGroup newID name c =
    (case con_ProgressGroup c of
       Some (i, _) \<Rightarrow> c\<lparr>con_ProgressGroup := Some (i, name)\<rparr>
     | None \<Rightarrow> c\<lparr>con_ProgressGroup := Some (newID, name)\<rparr>)"

definition getLocation :: "'s option \<Rightarrow> sourceMap option \<Rightarrow> 's constraintsOpt" where
  "getLocation st sm c =
    (case sm of
       None \<Rightarrow> c
     | Some m \<Rightarrow> c\<lparr>con_SourceLocations := con_SourceLocations c
         @ [\<lparr>loc_State = st, loc_Filename = srcm_filename m, loc_Ranges = [srcm_pos m]\<rparr>]\<rparr>)"

definition GetLocation :: "sourceMap option \<Rightarrow> 's \<Rightarrow> 's constraintsOpt" where
  "GetLocation sm st = getLocation (Some st) sm"

definition GetRootLocation :: "sourceMap option \<Rightarrow> 's constraintsOpt" where
  "GetRootLocation sm = getLocation None sm"

definition merge_location :: "'s sourceLocation gomap \<Rightarrow> 's sourceLocation \<Rightarrow> 's sourceLocation gomap" where
  "merge_location fileIdx loc =
    (case map_of fileIdx (loc_Filename loc) of
       None \<Rightarrow> mput (loc_Filename loc) loc fileIdx
     | Some v \<Rightarrow> mput (loc_Filename loc) (v\<lparr>loc_Ranges := loc_Ranges v @ loc_Ranges loc\<rparr>) fileIdx)"

definition MergeSourceLocations :: "'s constraintsOpt list \<Rightarrow> 's constraintsOpt" where
  "MergeSourceLocations opts c =
    (if length opts = 0 then c
     else
       let c2 = foldl (\<lambda>c opt. opt c) empty_constraints opts;
           fileIdx = foldl merge_location [] (con_SourceLocations c2)
       in c\<lparr>con_SourceLocations := con_SourceLocations c @ map snd fileIdx\<rparr>)"

text \<open>The locations of a list of build steps and of a list of dependencies.\<close>

definition BuildStepList_GetSourceLocation :: "sourceMap option list \<Rightarrow> 's \<Rightarrow> 's constraintsOpt" where
  "BuildStepList_GetSourceLocation ls st =
    (if length ls = 0 then (\<lambda>c. c) else MergeSourceLocations (map (\<lambda>sm. GetLocation sm st) ls))"

definition DependencyList_GetSourceLocation :: "sourceMap option gomap \<Rightarrow> 's \<Rightarrow> 's constraintsOpt" where
  "DependencyList_GetSourceLocation l st = MergeSourceLocations (map (\<lambda>(k, sm). GetLocation sm st) l)"

section \<open>Decoding with positions\<close>

record 't mappedValue =
  mv_Value :: 't
  mv_sourceMap :: "sourceMap option"

definition mappedValue_UnmarshalYAML ::
  "sourceMapContext option \<Rightarrow> (yamlNode \<Rightarrow> goerr + 't) \<Rightarrow> yamlNode \<Rightarrow> goerr + 't mappedValue" where
  "mappedValue_UnmarshalYAML ctx decode node =
    (case decode node of
       Inl e \<Rightarrow> Inl e
     | Inr x \<Rightarrow> Inr \<lparr>mv_Value = x, mv_sourceMap = Some (newSourceMap ctx node)\<rparr>)"

text \<open>What the decoder fills for a \<open>CheckOutput\<close>, and the check with the positions of its fields.\<close>

record checkFields =
  cf_Equals :: "string mappedValue"
  cf_Contains :: "string mappedValue list"
  cf_Matches :: "string mappedValue list"
  cf_StartsWith :: "string mappedValue"
  cf_EndsWith :: "string mappedValue"
  cf_Empty :: "bool mappedValue"

record checkMaps =
  cm_equals :: "sourceMap option"
  cm_startsWith :: "sourceMap option"
  cm_endsWith :: "sourceMap option"
  cm_empty :: "sourceMap option"
  cm_contains :: "sourceMap option list"
  cm_matches :: "sourceMap option list"

definition checkOutput_UnmarshalYAML :: "goerr + checkFields \<Rightarrow> goerr + (checkOutput \<times> checkMaps)" where
  "checkOutput_UnmarshalYAML decoded =
    (case decoded of
       Inl e \<Rightarrow> Inl (Wrap ''error unmarshalling check output'' e)
     | Inr i \<Rightarrow>
         Inr (\<lparr>co_Equals = mv_Value (cf_Equals i), co_Contains = map mv_Value (cf_Contains i),
               co_Matches = map mv_Value (cf_Matches i), co_StartsWith = mv_Value (cf_StartsWith i),
               co_EndsWith = mv_Value (cf_EndsWith i), co_Empty = mv_Value (cf_Empty i)\<rparr>,
              \<lparr>cm_equals = mv_sourceMap (cf_Equals i), cm_startsWith = mv_sourceMap (cf_StartsWith i),
               cm_endsWith = mv_sourceMap (cf_EndsWith i), cm_empty = mv_sourceMap (cf_Empty i),
               cm_contains = map mv_sourceMap (cf_Contains i), cm_matches = map mv_sourceMap (cf_Matches i)\<rparr>))"

text \<open>
  A file check is decoded from a mapping: the fields of the file from the whole node, the fields of the
  output from the remaining entries.  A key is a string or something else, for example a merge key.
\<close>

datatype yamlKey = StringKey string | OtherKey

datatype fileCheckNode = NullNode | MappingNode "(yamlKey \<times> yamlNode) list" | OtherNode

record fileFields =
  ff_Permissions :: "fileMode mappedValue"
  ff_IsDir :: "bool mappedValue"
  ff_NotExist :: "bool mappedValue"

record fileMaps =
  fm_permissions :: "sourceMap option"
  fm_isDir :: "sourceMap option"
  fm_notExist :: "sourceMap option"

definition no_check :: checkOutput where
  "no_check = \<lparr>co_Equals = [], co_Contains = [], co_Matches = [], co_StartsWith = [], co_EndsWith = [], co_Empty = False\<rparr>"

definition no_checkMaps :: checkMaps where
  "no_checkMaps = \<lparr>cm_equals = None, cm_startsWith = None, cm_endsWith = None, cm_empty = None, cm_contains = [], cm_matches = []\<rparr>"

fun output_entries :: "(yamlKey \<times> yamlNode) list \<Rightarrow> (yamlKey \<times> yamlNode) list option" where
  "output_entries [] = Some []"
| "output_entries ((OtherKey, n) # vs) = None"
| "output_entries ((StringKey k, n) # vs) =
    map_option (\<lambda>rest. if k \<in> {''permissions'', ''is_dir'', ''not_exist''} then rest else (StringKey k, n) # rest)
      (output_entries vs)"

text \<open>
  The outer \<^term>\<open>None\<close> is a panic: the node must be a mapping and its keys strings.  \<open>self\<close> is the node, for
  its position.
\<close>

definition fileCheck_UnmarshalYAML ::
  "sourceMapContext option \<Rightarrow> (fileCheckNode \<Rightarrow> goerr + fileFields) \<Rightarrow> ((yamlKey \<times> yamlNode) list \<Rightarrow> goerr + checkFields)
    \<Rightarrow> yamlNode \<Rightarrow> fileCheckNode \<Rightarrow> (goerr + fileCheckOutput \<times> checkMaps \<times> fileMaps) option" where
  "fileCheck_UnmarshalYAML ctx decFile decCheck self node =
    (if node = NullNode then
       Some (Inr (\<lparr>fc_CheckOutput = no_check, fc_Permissions = 0, fc_IsDir = False, fc_NotExist = False\<rparr>, no_checkMaps,
         \<lparr>fm_permissions = None, fm_isDir = None, fm_notExist = None\<rparr>))
     else
       (case decFile node of
          Inl e \<Rightarrow> Some (Inl (Wrap ''error unmarshalling file check output'' e))
        | Inr i \<Rightarrow>
            (case (case node of MappingNode vs \<Rightarrow> output_entries vs | _ \<Rightarrow> None) of
               None \<Rightarrow> None
             | Some values \<Rightarrow>
                 (case checkOutput_UnmarshalYAML (decCheck values) of
                    Inl e \<Rightarrow> Some (Inl e)
                  | Inr (i2, maps) \<Rightarrow>
                      Some (Inr (\<lparr>fc_CheckOutput = i2, fc_Permissions = mv_Value (ff_Permissions i),
                          fc_IsDir = mv_Value (ff_IsDir i), fc_NotExist = mv_Value (ff_NotExist i)\<rparr>, maps,
                        \<lparr>fm_permissions = mv_sourceMap (ff_Permissions i), fm_isDir = mv_sourceMap (ff_IsDir i),
                         fm_notExist = (case mv_sourceMap (ff_NotExist i) of None \<Rightarrow> Some (newSourceMap ctx self)
                                        | Some m \<Rightarrow> Some m)\<rparr>))))))"

section \<open>The position of a failed check\<close>

text \<open>The first entry of a list with the expected text whose position is known.\<close>

definition entry_source :: "string list \<Rightarrow> sourceMap option list \<Rightarrow> string \<Rightarrow> errdefsSource option" where
  "entry_source vs maps expected =
    (case find (\<lambda>p. fst p = expected \<and> snd p \<noteq> None) (zip vs maps) of
       None \<Rightarrow> None
     | Some p \<Rightarrow> GetErrdefsSource (snd p))"

definition checkOutput_GetErrSource :: "checkOutput \<Rightarrow> checkMaps \<Rightarrow> checkOutputError \<Rightarrow> errdefsSource option" where
  "checkOutput_GetErrSource c m err =
    (case ce_Kind err of
       ContainsKind \<Rightarrow> entry_source (co_Contains c) (cm_contains m) (ce_Expected err)
     | MatchesKind \<Rightarrow> entry_source (co_Matches c) (cm_matches m) (ce_Expected err)
     | StartsWithKind \<Rightarrow> GetErrdefsSource (cm_startsWith m)
     | EndsWithKind \<Rightarrow> GetErrdefsSource (cm_endsWith m)
     | EmptyKind \<Rightarrow> GetErrdefsSource (cm_empty m)
     | EqualsKind \<Rightarrow> GetErrdefsSource (cm_equals m)
     | _ \<Rightarrow> None)"

definition fileCheck_GetErrSource ::
  "fileCheckOutput \<Rightarrow> checkMaps \<Rightarrow> fileMaps \<Rightarrow> checkOutputError \<Rightarrow> errdefsSource option" where
  "fileCheck_GetErrSource c m fm err =
    (case ce_Kind err of
       PermissionsKind \<Rightarrow> GetErrdefsSource (fm_permissions fm)
     | IsDirKind \<Rightarrow> GetErrdefsSource (fm_isDir fm)
     | NotExistKind \<Rightarrow> GetErrdefsSource (fm_notExist fm)
     | _ \<Rightarrow> checkOutput_GetErrSource (fc_CheckOutput c) m err)"

end
