(* ===== verification/Position_Claims.thy ===== *)
theory Position_Claims
  imports Source_Map
begin

text \<open>
  The properties of source positions (sourcemap.go and the decoders of tests.go), each with a witness on
  concrete data.
\<close>

section \<open>Merging locations\<close>

definition of_file :: "string \<Rightarrow> 's sourceLocation list \<Rightarrow> 's sourceLocation list" where
  "of_file f locs = filter (\<lambda>l. loc_Filename l = f) locs"

lemma of_file_snoc [simp]: "of_file f (locs @ [l]) = of_file f locs @ (if loc_Filename l = f then [l] else [])"
  by (simp add: of_file_def)

lemma merged_lookup:
  "map_of (foldl merge_location [] locs) f =
    (case of_file f locs of [] \<Rightarrow> None | l # ls \<Rightarrow> Some (l\<lparr>loc_Ranges := concat (map loc_Ranges (l # ls))\<rparr>))"
proof (induction locs rule: rev_induct)
  case Nil
  then show ?case by (simp add: of_file_def)
next
  case (snoc x locs)
  show ?case
  proof (cases "loc_Filename x = f")
    case True
    with snoc show ?thesis
      by (cases "of_file f locs") (simp_all add: merge_location_def update_conv')
  next
    case False
    then have "map_of (merge_location m x) f = map_of m f" for m
      by (simp add: merge_location_def update_conv' split: option.splits)
    with snoc False show ?thesis by simp
  qed
qed

lemma merged_wf: "wf_map (foldl merge_location [] locs)"
  by (induction locs rule: rev_induct)
    (simp_all add: merge_location_def wf_map_def distinct_update split: option.splits)

lemma merged_keys:
  assumes "(f, l) \<in> set (foldl merge_location [] locs)"
  shows "loc_Filename l = f"
proof -
  from assms have "map_of (foldl merge_location [] locs) f = Some l"
    using merged_wf [of locs] by (simp add: wf_map_def)
  then obtain x xs where x: "of_file f locs = x # xs" "loc_Filename l = loc_Filename x"
    by (auto simp: merged_lookup split: list.splits)
  then have "x \<in> set (of_file f locs)" by simp
  with x(2) show ?thesis by (simp add: of_file_def)
qed

text \<open>In an index by file name, every file has at most one location.\<close>

lemma indexed_locations:
  assumes "\<forall>(k, l) \<in> set m. loc_Filename l = k" and "distinct (map fst m)"
  shows "map loc_Filename (map snd m) = map fst m"
    and "of_file f (map snd m) = (case map_of m f of None \<Rightarrow> [] | Some l \<Rightarrow> [l])"
proof -
  show "map loc_Filename (map snd m) = map fst m" using assms(1) by (induction m) auto
  show "of_file f (map snd m) = (case map_of m f of None \<Rightarrow> [] | Some l \<Rightarrow> [l])" using assms
  proof (induction m)
    case (Cons a m)
    then have "of_file f (map snd m) = (case map_of m f of None \<Rightarrow> [] | Some l \<Rightarrow> [l])" by simp
    with Cons.prems show ?case by (cases a) (auto simp: of_file_def map_of_eq_None_iff [symmetric] split: option.splits)
  qed (simp add: of_file_def)
qed

lemma locations_of_options:
  "con_SourceLocations (foldl (\<lambda>c opt. opt c) c (map (\<lambda>sm. getLocation st sm) sms)) =
    con_SourceLocations c @ map (\<lambda>m. \<lparr>loc_State = st, loc_Filename = srcm_filename m, loc_Ranges = [srcm_pos m]\<rparr>) (concat (map (\<lambda>sm. case sm of None \<Rightarrow> [] | Some m \<Rightarrow> [m]) sms))"
  by (induction sms arbitrary: c) (simp_all add: getLocation_def split: option.splits)

text \<open>
  C29 (sourcemap.go, MergeSourceLocations; spec.go, BuildStepList.GetSourceLocation): the steps of a build give
  one location per file, and the ranges of that location are the ranges of all steps from this file, in the
  order of the steps; the locations that the constraints had before are kept.
\<close>

theorem steps_located:
  assumes "con_SourceLocations (BuildStepList_GetSourceLocation sms st c) = con_SourceLocations c @ added"
  shows "distinct (map loc_Filename added)
    \<and> (\<forall>f. concat (map loc_Ranges (of_file f added)) = [srcm_pos m. Some m \<leftarrow> sms, srcm_filename m = f])"
proof -
  let ?ms = "concat (map (\<lambda>sm. case sm of None \<Rightarrow> [] | Some m \<Rightarrow> [m]) sms)"
  let ?locs = "map (\<lambda>m. \<lparr>loc_State = Some st, loc_Filename = srcm_filename m, loc_Ranges = [srcm_pos m]\<rparr>) ?ms"
  have added: "added = map snd (foldl merge_location [] ?locs)"
  proof (cases "sms = []")
    case False
    then show ?thesis
      using assms locations_of_options [of empty_constraints "Some st" sms]
      by (simp add: BuildStepList_GetSourceLocation_def MergeSourceLocations_def GetLocation_def empty_constraints_def Let_def)
  qed (use assms in \<open>simp add: BuildStepList_GetSourceLocation_def\<close>)
  let ?m = "foldl merge_location [] ?locs"
  have idx: "\<forall>(k, l) \<in> set ?m. loc_Filename l = k" "distinct (map fst ?m)"
    using merged_keys merged_wf by (fastforce, simp add: wf_map_def)
  have "concat (map loc_Ranges (of_file f added)) = [srcm_pos m. Some m \<leftarrow> sms, srcm_filename m = f]" for f
  proof -
    have "concat (map loc_Ranges (of_file f added)) = concat (map loc_Ranges (of_file f ?locs))"
      unfolding added indexed_locations(2) [OF idx] merged_lookup by (simp split: list.splits)
    also have "\<dots> = [srcm_pos m. Some m \<leftarrow> sms, srcm_filename m = f]"
      by (induction sms) (auto simp: of_file_def split: option.splits)
    finally show ?thesis .
  qed
  moreover have "distinct (map loc_Filename added)" unfolding added indexed_locations(1) [OF idx] by (rule idx(2))
  ultimately show ?thesis by blast
qed

definition demo_range :: "int \<Rightarrow> pbRange" where
  "demo_range l = \<lparr>rg_Start = \<lparr>pos_Line = l, pos_Character = 3\<rparr>, rg_End = \<lparr>pos_Line = l, pos_Character = 9\<rparr>\<rparr>"

definition demo_map :: "int \<Rightarrow> sourceMap" where
  "demo_map l = \<lparr>srcm_filename = ''spec.yml'', srcm_language = ''yaml'', srcm_data = [], srcm_pos = demo_range l\<rparr>"

theorem steps_located_witness:
  "concat (map loc_Ranges (of_file ''spec.yml'' [\<lparr>loc_State = Some (0::nat), loc_Filename = ''spec.yml'',
     loc_Ranges = [demo_range 4, demo_range 7]\<rparr>])) = [demo_range 4, demo_range 7]"
  using steps_located [of "[Some (demo_map 4), None, Some (demo_map 7)]" "0::nat" empty_constraints
      "[\<lparr>loc_State = Some 0, loc_Filename = ''spec.yml'', loc_Ranges = [demo_range 4, demo_range 7]\<rparr>]"]
  by (simp add: BuildStepList_GetSourceLocation_def MergeSourceLocations_def GetLocation_def getLocation_def empty_constraints_def
      merge_location_def demo_map_def)

section \<open>Ranges\<close>

lemma int32_id [simp]: "- (2 ^ 31) \<le> n \<Longrightarrow> n < 2 ^ 31 \<Longrightarrow> int32 n = n"
  unfolding int32_def by (simp add: signed_take_bit_int_eq_self)

definition plain_node :: "astNode \<Rightarrow> bool" where
  "plain_node n = (\<not> an_isComment n \<and> \<not> an_isString n)"

lemma walk_plain:
  assumes "list_all plain_node ns" and "sorted (map an_Line ns)" and "ev_endLine v \<le> an_Line (hd ns)" and "ns \<noteq> []"
  shows "foldl Visit v ns = \<lparr>ev_endLine = an_Line (last ns), ev_endChar = an_Column (last ns)\<rparr>"
  using assms
proof (induction ns arbitrary: v)
  case (Cons n ns)
  then have "Visit v n = \<lparr>ev_endLine = an_Line n, ev_endChar = an_Column n\<rparr>"
    by (simp add: Visit_def plain_node_def)
  with Cons show ?case by (cases ns) auto
qed simp

text \<open>
  Note (sourcemap.go, nodeToRange and endPosVisitor): a node without string scalars whose parts are visited in
  the order of their lines ranges from its own position to the position of the last part.
\<close>

theorem plain_range:
  assumes "list_all plain_node (n # ns)" and "sorted (map an_Line (n # ns))" and "0 \<le> an_Line n"
    and "\<forall>m \<in> set (n # ns). an_Line m < 2 ^ 31 \<and> 0 \<le> an_Column m \<and> an_Column m < 2 ^ 31"
  shows "nodeToRange (n, ns) =
    \<lparr>rg_Start = \<lparr>pos_Line = an_Line n, pos_Character = an_Column n\<rparr>,
     rg_End = \<lparr>pos_Line = an_Line (last (n # ns)), pos_Character = an_Column (last (n # ns))\<rparr>\<rparr>"
proof -
  have walk: "walk_nodes (n # ns) = \<lparr>ev_endLine = an_Line (last (n # ns)), ev_endChar = an_Column (last (n # ns))\<rparr>"
    unfolding walk_nodes_def by (rule walk_plain) (use assms in simp_all)
  have "last (n # ns) \<in> set (n # ns)" by (rule last_in_set) simp
  then have "an_Line (last (n # ns)) < 2 ^ 31 \<and> 0 \<le> an_Column (last (n # ns)) \<and> an_Column (last (n # ns)) < 2 ^ 31"
    "an_Line n \<le> an_Line (last (n # ns))"
    using assms(2,4) by (blast, auto simp: last_in_set)
  with assms(3,4) walk show ?thesis
    by (simp add: nodeToRange_def end_Position_def del: last.simps)
qed

definition demo_node :: "int \<Rightarrow> int \<Rightarrow> astNode" where
  "demo_node l c = \<lparr>an_isComment = False, an_isString = False, an_Line = l, an_Column = c, an_String = None, an_Value = []\<rparr>"

theorem plain_range_witness:
  "nodeToRange (demo_node 3 5, [demo_node 3 9, demo_node 4 7]) =
    \<lparr>rg_Start = \<lparr>pos_Line = 3, pos_Character = 5\<rparr>, rg_End = \<lparr>pos_Line = 4, pos_Character = 7\<rparr>\<rparr>"
  using plain_range [of "demo_node 3 5" "[demo_node 3 9, demo_node 4 7]"] by (simp add: demo_node_def plain_node_def)

lemma no_newline_count: "newline_char \<notin> set s \<Longrightarrow> count_newlines s = 0"
  by (induction s) (auto simp: count_newlines_def)

text \<open>
  Note (sourcemap.go, endPosVisitor.Visit): for a string scalar on one line the range ends two lines before
  it starts: \<open>setEndChar\<close> takes one line off a text without line breaks, and it runs twice because the
  deferred call is not limited to a panic of \<open>String\<close>.
\<close>

theorem string_range_reversed:
  assumes "\<not> an_isComment n" and "an_isString n" and "an_String n = Some txt"
    and "newline_char \<notin> set txt" and "newline_char \<notin> set (an_Value n)" and "0 < an_Line n" and "an_Line n < 2 ^ 31"
  shows "pos_Line (rg_End (nodeToRange (n, []))) = pos_Line (rg_Start (nodeToRange (n, []))) - 2"
  using assms
  by (simp add: nodeToRange_def end_Position_def walk_nodes_def Visit_def setEndChar_def no_newline_count Let_def)

theorem string_range_reversed_witness:
  "pos_Line (rg_End (nodeToRange (\<lparr>an_isComment = False, an_isString = True, an_Line = 7, an_Column = 3,
      an_String = Some ''curl'', an_Value = ''curl''\<rparr>, []))) = 5"
  using string_range_reversed [of "\<lparr>an_isComment = False, an_isString = True, an_Line = 7, an_Column = 3,
      an_String = Some ''curl'', an_Value = ''curl''\<rparr>" "''curl''"]
  by (simp add: nodeToRange_def)

section \<open>Positions of failed checks\<close>

text \<open>
  What the YAML decoder promises about the fields: a field that is not in the document keeps its zero value,
  and the elements of a list come from the document.
\<close>

definition known :: "('t \<Rightarrow> bool) \<Rightarrow> 't mappedValue \<Rightarrow> bool" where
  "known set_p v = (set_p (mv_Value v) \<longrightarrow> mv_sourceMap v \<noteq> None)"

definition fields_decoded :: "checkFields \<Rightarrow> fileFields \<Rightarrow> bool" where
  "fields_decoded i f =
    (known (\<lambda>s. s \<noteq> []) (cf_Equals i) \<and> known (\<lambda>s. s \<noteq> []) (cf_StartsWith i) \<and> known (\<lambda>s. s \<noteq> []) (cf_EndsWith i)
     \<and> known (\<lambda>b. b) (cf_Empty i) \<and> list_all (known (\<lambda>s. True)) (cf_Contains i) \<and> list_all (known (\<lambda>s. True)) (cf_Matches i)
     \<and> known (\<lambda>p. p \<noteq> 0) (ff_Permissions f))"

text \<open>The field, or the element of a list field, that an error is about.\<close>

definition field_of :: "checkFields \<Rightarrow> fileFields \<Rightarrow> checkOutputError \<Rightarrow> sourceMap option \<Rightarrow> bool" where
  "field_of i f e sm =
    (case ce_Kind e of
       ContainsKind \<Rightarrow> \<lparr>mv_Value = ce_Expected e, mv_sourceMap = sm\<rparr> \<in> set (cf_Contains i)
     | MatchesKind \<Rightarrow> \<lparr>mv_Value = ce_Expected e, mv_sourceMap = sm\<rparr> \<in> set (cf_Matches i)
     | StartsWithKind \<Rightarrow> mv_sourceMap (cf_StartsWith i) = sm
     | EndsWithKind \<Rightarrow> mv_sourceMap (cf_EndsWith i) = sm
     | EmptyKind \<Rightarrow> mv_sourceMap (cf_Empty i) = sm
     | EqualsKind \<Rightarrow> mv_sourceMap (cf_Equals i) = sm
     | PermissionsKind \<Rightarrow> mv_sourceMap (ff_Permissions f) = sm
     | _ \<Rightarrow> False)"

lemma entry_source_found:
  assumes "v \<in> set vs" and "list_all (known (\<lambda>s. True)) vs"
  shows "\<exists>sm. \<lparr>mv_Value = mv_Value v, mv_sourceMap = Some sm\<rparr> \<in> set vs
    \<and> entry_source (map mv_Value vs) (map mv_sourceMap vs) (mv_Value v) = GetErrdefsSource (Some sm)"
  using assms
proof (induction vs)
  case (Cons w vs)
  obtain sm where sm: "mv_sourceMap w = Some sm" using Cons.prems(2) by (auto simp: known_def)
  show ?case
  proof (cases "mv_Value w = mv_Value v")
    case True
    then have "w = \<lparr>mv_Value = mv_Value v, mv_sourceMap = Some sm\<rparr>" using sm by (cases w) simp
    with True sm show ?thesis by (intro exI [of _ sm]) (auto simp: entry_source_def)
  next
    case False
    then have "v \<in> set vs" using Cons.prems(1) by auto
    with Cons.IH Cons.prems(2) False show ?thesis by (auto simp: entry_source_def)
  qed
qed simp


lemma match_check_error: "e \<in> set (match_check rx dt p m) \<Longrightarrow> ce_Kind e = MatchesKind \<and> ce_Expected e = m"
  by (cases "rx m") (auto simp: match_check_def checkErr_def split: if_splits)

lemma output_kinds:
  "e \<in> set (checkOutput_Check rx c dt p) \<Longrightarrow> ce_Kind e \<notin> {PermissionsKind, NotExistKind, IsDirKind}"
  by (auto simp: checkOutput_Check_def checkErr_def split: if_splits dest: match_check_error)

lemma checkOutput_located:
  assumes "e \<in> set (checkOutput_Check rx c dt p)" and "checkOutput_UnmarshalYAML (Inr i) = Inr (c, m)"
    and "fields_decoded i f"
  shows "\<exists>sm. field_of i f e (Some sm) \<and> checkOutput_GetErrSource c m e = GetErrdefsSource (Some sm)"
proof -
  have c: "c = \<lparr>co_Equals = mv_Value (cf_Equals i), co_Contains = map mv_Value (cf_Contains i),
      co_Matches = map mv_Value (cf_Matches i), co_StartsWith = mv_Value (cf_StartsWith i),
      co_EndsWith = mv_Value (cf_EndsWith i), co_Empty = mv_Value (cf_Empty i)\<rparr>"
    and m: "m = \<lparr>cm_equals = mv_sourceMap (cf_Equals i), cm_startsWith = mv_sourceMap (cf_StartsWith i),
      cm_endsWith = mv_sourceMap (cf_EndsWith i), cm_empty = mv_sourceMap (cf_Empty i),
      cm_contains = map mv_sourceMap (cf_Contains i), cm_matches = map mv_sourceMap (cf_Matches i)\<rparr>"
    using assms(2) by (auto simp: checkOutput_UnmarshalYAML_def)
  have lists: "list_all (known (\<lambda>s. True)) (cf_Contains i)" "list_all (known (\<lambda>s. True)) (cf_Matches i)"
    using assms(3) by (simp_all add: fields_decoded_def)
  consider (empty) "mv_Value (cf_Empty i)" "ce_Kind e = EmptyKind"
    | (equals) "mv_Value (cf_Equals i) \<noteq> []" "ce_Kind e = EqualsKind"
    | (contains) v where "v \<in> set (cf_Contains i)" "ce_Kind e = ContainsKind" "ce_Expected e = mv_Value v"
    | (matches) v where "v \<in> set (cf_Matches i)" "ce_Kind e = MatchesKind" "ce_Expected e = mv_Value v"
    | (starts) "mv_Value (cf_StartsWith i) \<noteq> []" "ce_Kind e = StartsWithKind"
    | (ends) "mv_Value (cf_EndsWith i) \<noteq> []" "ce_Kind e = EndsWithKind"
    using assms(1) unfolding checkOutput_Check_def c
    by (auto simp: checkErr_def split: if_splits dest: match_check_error)
  then show ?thesis
  proof cases
    case (contains v)
    from entry_source_found [OF this(1) lists(1)] contains m c show ?thesis
      by (auto simp: field_of_def checkOutput_GetErrSource_def)
  next
    case (matches v)
    from entry_source_found [OF this(1) lists(2)] matches m c show ?thesis
      by (auto simp: field_of_def checkOutput_GetErrSource_def)
  qed (use assms(3) m in \<open>auto simp: field_of_def checkOutput_GetErrSource_def fields_decoded_def known_def\<close>)
qed

text \<open>
  C27 (tests.go, CheckOutput.UnmarshalYAML, FileCheckOutput.UnmarshalYAML, Check and GetErrSource): when a file
  check is decoded, every error that the check reports later, unless it is about the kind of the file, is
  attributed to the position of the field, or of the list element, whose expectation failed.
\<close>

theorem check_errors_located:
  assumes "fileCheck_UnmarshalYAML ctx decFile decCheck self (MappingNode vs) = Some (Inr (c, m, fm))"
    and "output_entries vs = Some entries" and "decFile (MappingNode vs) = Inr f" and "decCheck entries = Inr i"
    and "fields_decoded i f"
    and "e \<in> set (fileCheck_Check rx c dt mode isDir p)" and "ce_Kind e \<noteq> IsDirKind"
  shows "\<exists>sm. field_of i f e (Some sm) \<and> fileCheck_GetErrSource c m fm e = GetErrdefsSource (Some sm)"
proof -
  from assms(1-4) have parts: "checkOutput_UnmarshalYAML (Inr i) = Inr (fc_CheckOutput c, m)"
    "fc_Permissions c = mv_Value (ff_Permissions f)" "fm_permissions fm = mv_sourceMap (ff_Permissions f)"
    by (auto simp: fileCheck_UnmarshalYAML_def split: sum.splits prod.splits)
  show ?thesis
  proof (cases "e \<in> set (checkOutput_Check rx (fc_CheckOutput c) dt p)")
    case True
    from checkOutput_located [OF this parts(1) assms(5)] obtain sm where
      sm: "field_of i f e (Some sm)" "checkOutput_GetErrSource (fc_CheckOutput c) m e = GetErrdefsSource (Some sm)" by blast
    from output_kinds [OF True] sm have "fileCheck_GetErrSource c m fm e = GetErrdefsSource (Some sm)"
      by (cases "ce_Kind e") (simp_all add: fileCheck_GetErrSource_def)
    with sm(1) show ?thesis by blast
  next
    case False
    with assms(6,7) have "ce_Kind e = PermissionsKind" "fc_Permissions c \<noteq> 0"
      by (auto simp: fileCheck_Check_def checkErr_def split: if_splits)
    with parts assms(5) show ?thesis
      by (auto simp: fields_decoded_def known_def field_of_def fileCheck_GetErrSource_def)
  qed
qed

definition demo_field :: "'t \<Rightarrow> int \<Rightarrow> 't mappedValue" where
  "demo_field x l = \<lparr>mv_Value = x, mv_sourceMap = Some (demo_map l)\<rparr>"

definition demo_absent :: "'t \<Rightarrow> 't mappedValue" where
  "demo_absent x = \<lparr>mv_Value = x, mv_sourceMap = None\<rparr>"

definition demo_fields :: checkFields where
  "demo_fields = \<lparr>cf_Equals = demo_absent [], cf_Contains = [demo_field ''a'' 12, demo_field ''b'' 13], cf_Matches = [],
     cf_StartsWith = demo_absent [], cf_EndsWith = demo_absent [], cf_Empty = demo_absent False\<rparr>"

definition demo_file_fields :: fileFields where
  "demo_file_fields = \<lparr>ff_Permissions = demo_field 420 10, ff_IsDir = demo_absent False, ff_NotExist = demo_absent False\<rparr>"

definition demo_entries :: "(yamlKey \<times> yamlNode) list" where
  "demo_entries = [(StringKey ''permissions'', (demo_node 10 5, [])), (StringKey ''contains'', (demo_node 12 5, []))]"

theorem check_errors_located_witness:
  "\<exists>sm. field_of demo_fields demo_file_fields (checkErr ContainsKind ''b'' ''a'' ''/f'') (Some sm)
    \<and> fileCheck_GetErrSource
        \<lparr>fc_CheckOutput = \<lparr>co_Equals = [], co_Contains = [''a'', ''b''], co_Matches = [], co_StartsWith = [], co_EndsWith = [],
           co_Empty = False\<rparr>, fc_Permissions = 420, fc_IsDir = False, fc_NotExist = False\<rparr>
        (\<lparr>cm_equals = None, cm_startsWith = None, cm_endsWith = None, cm_empty = None,
          cm_contains = [Some (demo_map 12), Some (demo_map 13)], cm_matches = []\<rparr>)
        \<lparr>fm_permissions = Some (demo_map 10), fm_isDir = None, fm_notExist = Some (newSourceMap None (demo_node 9 1, []))\<rparr>
        (checkErr ContainsKind ''b'' ''a'' ''/f'') = GetErrdefsSource (Some sm)"
proof (rule check_errors_located [where ctx = None and decFile = "\<lambda>n. Inr demo_file_fields" and decCheck = "\<lambda>vs. Inr demo_fields"
      and self = "(demo_node 9 1, [])" and vs = demo_entries and entries = "tl demo_entries" and rx = "\<lambda>m. Inl ''no''" and dt = "''a''"
      and mode = 420 and isDir = False and p = "''/f''"])
  show "fields_decoded demo_fields demo_file_fields"
    by (simp add: fields_decoded_def known_def demo_fields_def demo_file_fields_def demo_field_def demo_absent_def)
  show "output_entries demo_entries = Some (tl demo_entries)" by (simp add: demo_entries_def)
  then show "fileCheck_UnmarshalYAML None (\<lambda>n. Inr demo_file_fields) (\<lambda>vs. Inr demo_fields) (demo_node 9 1, []) (MappingNode demo_entries) =
    Some (Inr (\<lparr>fc_CheckOutput = \<lparr>co_Equals = [], co_Contains = [''a'', ''b''], co_Matches = [], co_StartsWith = [], co_EndsWith = [],
           co_Empty = False\<rparr>, fc_Permissions = 420, fc_IsDir = False, fc_NotExist = False\<rparr>,
        \<lparr>cm_equals = None, cm_startsWith = None, cm_endsWith = None, cm_empty = None,
          cm_contains = [Some (demo_map 12), Some (demo_map 13)], cm_matches = []\<rparr>,
        \<lparr>fm_permissions = Some (demo_map 10), fm_isDir = None, fm_notExist = Some (newSourceMap None (demo_node 9 1, []))\<rparr>))"
    by (simp add: fileCheck_UnmarshalYAML_def checkOutput_UnmarshalYAML_def demo_fields_def demo_file_fields_def demo_field_def demo_absent_def)
qed (simp_all add: fileCheck_Check_def checkOutput_Check_def checkErr_def HasPrefix_def FileMode_Perm_def)

text \<open>
  Note (tests.go, FileCheckOutput.UnmarshalYAML): a file check with a key that is not a string, for example a
  YAML merge key, makes the decoder panic, because the keys are converted without a check.
\<close>

theorem merge_key_panics:
  "fileCheck_UnmarshalYAML ctx (\<lambda>n. Inr f) decCheck self (MappingNode (vs @ (OtherKey, n) # rest)) = None"
proof -
  have "output_entries (vs @ (OtherKey, n) # rest) = None"
    by (induction vs rule: output_entries.induct) simp_all
  then show ?thesis by (simp add: fileCheck_UnmarshalYAML_def)
qed

end
