(* ===== verification/Extensions.thy ===== *)
theory Extensions
  imports Load
begin

text \<open>
  The extension fields of a spec (load.go and spec.go): the entries of the document whose names start with
  \<open>x-\<close> or \<open>X-\<close> are kept as they are, can be read and set, and are written back with the spec.

  The YAML library is a record of functions; a value of a document is any \<open>'n\<close>, a spec any \<open>'s\<close>.
\<close>

section \<open>Documents\<close>

datatype 'n docNode = DocNull | DocMapping "(string \<times> 'n) list" | DocOther string

type_synonym 'n extensionFields = "'n gomap option"

record ('s, 'n) yamlLib =
  yl_Decode :: "'n docNode \<Rightarrow> goerr + 's"
  yl_EncodeSpec :: "'s \<Rightarrow> goerr + string"
  yl_EncodeExt :: "'n extensionFields \<Rightarrow> goerr + string"
  yl_Parse :: "string \<Rightarrow> goerr + 'n docNode"
  yl_Merge :: "'n docNode \<Rightarrow> 'n docNode \<Rightarrow> goerr + 'n docNode"
  yl_Print :: "'n docNode \<Rightarrow> string"

definition is_ext_key :: "string \<Rightarrow> bool" where
  "is_ext_key key = (HasPrefix key ''x-'' \<or> HasPrefix key ''X-'')"

fun ext_loop :: "(string \<times> 'n) list \<Rightarrow> 'n extensionFields \<Rightarrow> 'n extensionFields" where
  "ext_loop [] ext = ext"
| "ext_loop ((key, v) # vs) ext =
    (if \<not> is_ext_key key then ext_loop vs ext
     else ext_loop vs (Some (mput key v (case ext of None \<Rightarrow> [] | Some m \<Rightarrow> m))))"

definition extensionFields_UnmarshalYAML :: "'n extensionFields \<Rightarrow> 'n docNode \<Rightarrow> goerr + 'n extensionFields" where
  "extensionFields_UnmarshalYAML f node =
    (case node of
       DocMapping vs \<Rightarrow> Inr (ext_loop vs f)
     | DocNull \<Rightarrow> Inr f
     | DocOther ty \<Rightarrow> Inl (Msg (''expected a mapping node, got '' @ ty)))"

definition spec_UnmarshalYAML :: "('s, 'n) yamlLib \<Rightarrow> 's \<Rightarrow> 'n docNode \<Rightarrow> goerr + 's \<times> 'n extensionFields" where
  "spec_UnmarshalYAML yl zero node =
    (if node = DocNull then Inr (zero, None)
     else
       (case yl_Decode yl node of
          Inl e \<Rightarrow> Inl (Wrap ''error unmarshalling to spec'' e)
        | Inr s2 \<Rightarrow>
            (case extensionFields_UnmarshalYAML None node of
               Inl e \<Rightarrow> Inl (Wrap ''error unmarshalling extension nodes'' e)
             | Inr ext \<Rightarrow> Inr (s2, ext))))"

definition spec_MarshalYAML :: "('s, 'n) yamlLib \<Rightarrow> 's \<times> 'n extensionFields \<Rightarrow> goerr + string" where
  "spec_MarshalYAML yl s =
    (case yl_EncodeExt yl (snd s) of
       Inl e \<Rightarrow> Inl (Wrap ''error marshaling extensions'' e)
     | Inr dtExt \<Rightarrow>
     (case yl_Parse yl dtExt of
       Inl e \<Rightarrow> Inl (Wrap (''error parsing yaml: '' @ nl @ dtExt) e)
     | Inr parsedExt \<Rightarrow>
     (case yl_EncodeSpec yl (fst s) of
       Inl e \<Rightarrow> Inl (Wrap ''error marshaling spec'' e)
     | Inr dt \<Rightarrow>
     (case yl_Parse yl dt of
       Inl e \<Rightarrow> Inl (Wrap ''error re-parsing spec yaml'' e)
     | Inr parsed \<Rightarrow>
     (case yl_Merge yl parsed parsedExt of
       Inl e \<Rightarrow> Inl (Wrap ''error merging extension nodes'' e)
     | Inr merged \<Rightarrow> Inr (yl_Print yl merged))))))"

section \<open>Reading and setting\<close>

datatype extErr = NodeNotFound string | InvalidExtKey string | ExtErr goerr

record extDecodeConfig =
  edc_AllowUnknownFields :: bool

text \<open>\<open>decode strict node\<close> is \<open>yaml.NodeToValue\<close> into the caller's target.\<close>

definition spec_Ext :: "'n extensionFields \<Rightarrow> string \<Rightarrow> (bool \<Rightarrow> 'n \<Rightarrow> goerr + 't) \<Rightarrow> (extDecodeConfig \<Rightarrow> extDecodeConfig) list \<Rightarrow> extErr + 't" where
  "spec_Ext ext key decode opts =
    (case (case ext of None \<Rightarrow> None | Some m \<Rightarrow> map_of m key) of
       None \<Rightarrow> Inl (NodeNotFound (''extension field not found '' @ Quote key))
     | Some v \<Rightarrow>
         (let strict = (0 < length opts \<and> \<not> edc_AllowUnknownFields (foldl (\<lambda>cfg opt. opt cfg) \<lparr>edc_AllowUnknownFields = False\<rparr> opts))
          in case decode strict v of Inl e \<Rightarrow> Inl (ExtErr e) | Inr t \<Rightarrow> Inr t))"

text \<open>
  The value is given as YAML text, parsed by \<open>parse\<close> into the bodies of its documents, or as a Go value,
  converted by \<open>toNode\<close>.  Text without a document panics: the outer \<^term>\<open>None\<close>.
\<close>

datatype 'g extValue = ExtBytes string | ExtGo 'g

definition WithExtension ::
  "(string \<Rightarrow> goerr + 'n list) \<Rightarrow> ('g \<Rightarrow> goerr + 'n) \<Rightarrow> 'n extensionFields \<Rightarrow> string \<Rightarrow> 'g extValue
    \<Rightarrow> (extErr + 'n extensionFields) option" where
  "WithExtension parse toNode ext key v =
    (if \<not> is_ext_key key then Some (Inl (InvalidExtKey key))
     else
       let m = (case ext of None \<Rightarrow> [] | Some m \<Rightarrow> m)
       in case v of
            ExtBytes dt \<Rightarrow>
              (case parse dt of
                 Inl e \<Rightarrow> Some (Inl (ExtErr (Wrap ''extension value provided is a []byte but is not valid YAML'' e)))
               | Inr [] \<Rightarrow> None
               | Inr (body # _) \<Rightarrow> Some (Inr (Some (mput key body m))))
          | ExtGo g \<Rightarrow>
              (case toNode g of
                 Inl e \<Rightarrow> Some (Inl (ExtErr (Wrap (''failed to convert extension field '' @ Quote key @ '' to AST node'') e)))
               | Inr n \<Rightarrow> Some (Inr (Some (mput key n m)))))"

section \<open>Lemmas\<close>

definition ext_ok :: "'n extensionFields \<Rightarrow> bool" where
  "ext_ok ext = (case ext of None \<Rightarrow> True | Some m \<Rightarrow> wf_map m \<and> list_all (\<lambda>p. is_ext_key (fst p)) m)"

lemma keys_put: "fst ` set (mput k v m) = insert k (fst ` set m)"
  by (simp add: dom_map_of_conv_image_fst [symmetric] update_conv')

lemma ext_put:
  assumes "ext_ok ext" and "is_ext_key key"
  shows "ext_ok (Some (mput key v (case ext of None \<Rightarrow> [] | Some m \<Rightarrow> m)))"
proof -
  let ?m = "case ext of None \<Rightarrow> [] | Some m \<Rightarrow> m"
  have "distinct (map fst ?m)" "\<forall>p \<in> set ?m. is_ext_key (fst p)"
    using assms(1) by (auto simp: ext_ok_def wf_map_def list_all_iff split: option.splits)
  moreover from this have "\<forall>k \<in> fst ` set (mput key v ?m). is_ext_key k"
    unfolding keys_put using assms(2) by auto
  ultimately show ?thesis by (auto simp: ext_ok_def wf_map_def list_all_iff distinct_update)
qed

lemma ext_loop_ok: "ext_ok ext \<Longrightarrow> ext_ok (ext_loop vs ext)"
  by (induction vs ext rule: ext_loop.induct) (auto intro: ext_put)

definition ext_lookup :: "'n extensionFields \<Rightarrow> string \<Rightarrow> 'n option" where
  "ext_lookup ext k = (case ext of None \<Rightarrow> None | Some m \<Rightarrow> map_of m k)"

lemma ext_lookup_put:
  "ext_lookup (Some (mput key v (case ext of None \<Rightarrow> [] | Some m \<Rightarrow> m))) k = (if k = key then Some v else ext_lookup ext k)"
  by (simp add: ext_lookup_def update_conv' split: option.split)

lemma ext_loop_lookup:
  "ext_lookup (ext_loop vs ext) k =
    (case (if is_ext_key k then map_of (rev vs) k else None) of Some v \<Rightarrow> Some v | None \<Rightarrow> ext_lookup ext k)"
  by (induction vs ext rule: ext_loop.induct) (auto simp: ext_lookup_put map_add_def split: option.splits)

lemma spec_Ext_lookup:
  "spec_Ext ext key decode [] =
    (case ext_lookup ext key of
       None \<Rightarrow> Inl (NodeNotFound (''extension field not found '' @ Quote key))
     | Some v \<Rightarrow> (case decode False v of Inl e \<Rightarrow> Inl (ExtErr e) | Inr t \<Rightarrow> Inr t))"
  by (simp add: spec_Ext_def ext_lookup_def split: option.split)

lemma extension_set:
  assumes "ext_ok ext" and "WithExtension parse toNode ext key (ExtGo g) = Some (Inr ext')"
  shows "is_ext_key key \<and> ext_ok ext' \<and> (\<exists>n. toNode g = Inr n \<and> (\<forall>k. ext_lookup ext' k = (if k = key then Some n else ext_lookup ext k)))"
proof -
  obtain n where "is_ext_key key" "toNode g = Inr n" "ext' = Some (mput key n (case ext of None \<Rightarrow> [] | Some m \<Rightarrow> m))"
    using assms(2) by (auto simp: WithExtension_def Let_def split: if_splits sum.splits)
  then show ?thesis using ext_put [OF assms(1)] by (auto simp: ext_lookup_put)
qed

section \<open>Properties\<close>

text \<open>
  C24 (load.go, Spec.UnmarshalYAML and extensionFields.UnmarshalYAML; spec.go, Ext and WithExtension): the
  extension fields of a document are kept and can be read and set.  When a document that is a mapping is decoded
  without error, reading a field whose name starts with \<open>x-\<close> or \<open>X-\<close> decodes the last value the document has for
  this name, and reading any other name, or one that the document does not have, reports that there is no such
  field; the spec itself is what the YAML library decodes.  Setting a field from a Go value, when it succeeds, is
  for such a name only; the field then reads as the node of this value, and every other name reads as before.
  Reading is without options, which decodes leniently.
\<close>

theorem extension_fields_kept:
  assumes "spec_UnmarshalYAML yl zero (DocMapping vs) = Inr (s, ext)"
  shows "yl_Decode yl (DocMapping vs) = Inr s
    \<and> (\<forall>k. spec_Ext ext k decode [] =
        (case (if is_ext_key k then map_of (rev vs) k else None) of
           None \<Rightarrow> Inl (NodeNotFound (''extension field not found '' @ Quote k))
         | Some v \<Rightarrow> (case decode False v of Inl e \<Rightarrow> Inl (ExtErr e) | Inr t \<Rightarrow> Inr t)))
    \<and> (\<forall>key g ext'. WithExtension parse toNode ext key (ExtGo g) = Some (Inr ext') \<longrightarrow>
        is_ext_key key
        \<and> spec_Ext ext' key decode [] = (case decode False (projr (toNode g)) of Inl e \<Rightarrow> Inl (ExtErr e) | Inr t \<Rightarrow> Inr t)
        \<and> (\<forall>k. k \<noteq> key \<longrightarrow> spec_Ext ext' k decode [] = spec_Ext ext k decode []))"
proof -
  have doc: "yl_Decode yl (DocMapping vs) = Inr s" "ext = ext_loop vs None"
    using assms by (auto simp: spec_UnmarshalYAML_def extensionFields_UnmarshalYAML_def split: sum.splits)
  have ok: "ext_ok ext" unfolding doc(2) by (rule ext_loop_ok) (simp add: ext_ok_def)
  have "ext_lookup ext k = (if is_ext_key k then map_of (rev vs) k else None)" for k
    unfolding doc(2) ext_loop_lookup by (simp add: ext_lookup_def split: option.split)
  with doc(1) extension_set [OF ok, of parse toNode] show ?thesis
    unfolding spec_Ext_lookup by fastforce
qed

theorem extension_fields_kept_witness:
  "spec_Ext (Some [(''x-a'', 1), (''x-b'', 7::nat)]) ''x-b'' (\<lambda>strict n. Inr (n, strict)) [] = Inr (7, False)
    \<and> spec_Ext (Some [(''x-a'', 1), (''x-b'', 7::nat)]) ''x-a'' (\<lambda>strict n. Inr (n, strict)) [] = Inr (1, False)"
proof -
  let ?yl = "\<lparr>yl_Decode = (\<lambda>d. Inr ''foo''), yl_EncodeSpec = Inr, yl_EncodeExt = (\<lambda>x. Inr []), yl_Parse = (\<lambda>t. Inr DocNull),
     yl_Merge = (\<lambda>a b. Inr a), yl_Print = (\<lambda>d. [])\<rparr> :: (string, nat) yamlLib"
  have "spec_UnmarshalYAML ?yl [] (DocMapping [(''name'', 0), (''x-a'', 1)]) = Inr (''foo'', Some [(''x-a'', 1)])"
    by (simp add: spec_UnmarshalYAML_def extensionFields_UnmarshalYAML_def is_ext_key_def HasPrefix_def)
  from extension_fields_kept [OF this, of "\<lambda>strict n. Inr (n, strict)" "\<lambda>t. Inr []" Inr]
  have "spec_Ext (Some [(''x-a'', 1)]) ''x-a'' (\<lambda>strict n. Inr (n, strict)) [] = Inr (1::nat, False)"
    "WithExtension (\<lambda>t. Inr []) Inr (Some [(''x-a'', 1)]) ''x-b'' (ExtGo 7) = Some (Inr ext') \<Longrightarrow>
      spec_Ext ext' ''x-b'' (\<lambda>strict n. Inr (n, strict)) [] = Inr (7::nat, False)
      \<and> spec_Ext ext' ''x-a'' (\<lambda>strict n. Inr (n, strict)) [] = spec_Ext (Some [(''x-a'', 1)]) ''x-a'' (\<lambda>strict n. Inr (n, strict)) []"
    for ext'
    by (simp_all add: is_ext_key_def HasPrefix_def)
  moreover have "WithExtension (\<lambda>t. Inr []) Inr (Some [(''x-a'', 1)]) ''x-b'' (ExtGo 7) = Some (Inr (Some [(''x-a'', 1), (''x-b'', 7::nat)]))"
    by (simp add: WithExtension_def is_ext_key_def HasPrefix_def)
  ultimately show ?thesis by simp
qed

end
