(* ===== verification/Mux_Answers.thy ===== *)
theory Mux_Answers
  imports Platform_Build
begin

text \<open>
  The requests that the router answers itself (frontend/mux.go): the list of supported subrequests, the
  resolved specs, the default platform, and the spec that the router loads to register its handlers.

  \<open>answerEnv\<close> holds the third-party functions: the dockerui client for the options of a request, the encoders
  and the printer of subrequests.  A panic is \<^term>\<open>None\<close>.
\<close>

record answerEnv =
  ae_NewClient :: "buildOpts \<Rightarrow> goerr + uiClient"
  ae_libs :: libs
  ae_JsonRequests :: "string list \<Rightarrow> goerr + string"
  ae_PrintDescribe :: "string \<Rightarrow> goerr + string"
  ae_DescribeVersion :: string
  ae_YamlSpecs :: "spec list \<Rightarrow> goerr + string"
  ae_JsonSpecs :: "spec list \<Rightarrow> goerr + string"
  ae_JsonPlatform :: "platform \<Rightarrow> goerr + string"

definition NewResult :: "'r \<Rightarrow> 'r result" where
  "NewResult ref = \<lparr>res_Metadata = [], res_Ref = ref\<rparr>"

definition describe :: "answerEnv \<Rightarrow> 'r \<Rightarrow> goerr + 'r result" where
  "describe env ref =
    (case wrap_inl ''error marshalling describe result to json''
        (ae_JsonRequests env [targetsRequest, ''frontend.subrequests.describe'']) of
       Inl e \<Rightarrow> Inl e
     | Inr dt \<Rightarrow>
         (case ae_PrintDescribe env dt of
            Inl e \<Rightarrow> Inl e
          | Inr txt \<Rightarrow>
              Inr ((NewResult ref)\<lparr>res_Metadata := [(''result.txt'', txt), (''version'', ae_DescribeVersion env)]\<rparr>)))"

fun resolve_loop :: "libs \<Rightarrow> uiClient \<Rightarrow> platform list \<Rightarrow> (goerr + spec list) option" where
  "resolve_loop lb dc [] = Some (Inr [])"
| "resolve_loop lb dc (p # ps) =
    (case LoadSpec lb dc (\<lambda>_. False) (Some p) of
       None \<Rightarrow> None
     | Some (Inl e) \<Rightarrow> Some (Inl e)
     | Some (Inr sp) \<Rightarrow> map_option (map_sum id (\<lambda>sps. sp # sps)) (resolve_loop lb dc ps))"

definition resolve_platforms :: "libs \<Rightarrow> uiClient \<Rightarrow> platform list" where
  "resolve_platforms lb dc =
    (if length (ui_TargetPlatforms dc) = 0 then ui_TargetPlatforms dc @ [lib_DefaultSpec lb] else ui_TargetPlatforms dc)"

definition handleResolveSpec :: "answerEnv \<Rightarrow> 'r \<Rightarrow> buildOpts \<Rightarrow> (goerr + 'r result) option" where
  "handleResolveSpec env ref opts =
    (case ae_NewClient env opts of
       Inl e \<Rightarrow> Some (Inl e)
     | Inr dc \<Rightarrow>
         (case resolve_loop (ae_libs env) dc (resolve_platforms (ae_libs env) dc) of
            None \<Rightarrow> None
          | Some (Inl e) \<Rightarrow> Some (Inl e)
          | Some (Inr out) \<Rightarrow>
              Some (case ae_YamlSpecs env out of
                      Inl e \<Rightarrow> Inl e
                    | Inr dtYaml \<Rightarrow>
                        (case ae_JsonSpecs env out of
                           Inl e \<Rightarrow> Inl e
                         | Inr dtJSON \<Rightarrow>
                             Inr (AddMeta ''result.txt'' dtYaml (AddMeta ''result.json'' dtJSON (NewResult ref)))))))"

definition handleDefaultPlatform :: "answerEnv \<Rightarrow> 'r \<Rightarrow> goerr + 'r result" where
  "handleDefaultPlatform env ref =
    (let p = lib_DefaultSpec (ae_libs env)
     in case ae_JsonPlatform env p of
          Inl e \<Rightarrow> Inl e
        | Inr dt \<Rightarrow>
            Inr (AddMeta ''result.txt'' (lib_Format (ae_libs env) p) (AddMeta ''result.json'' dt (NewResult ref))))"

text \<open>The load behind \<open>BuildMux.loadSpec\<close>: no platform, and every argument is allowed.\<close>

definition mux_client_spec :: "answerEnv \<Rightarrow> buildOpts \<Rightarrow> (goerr + spec) option" where
  "mux_client_spec env opts =
    (case ae_NewClient env opts of
       Inl e \<Rightarrow> Some (Inl e)
     | Inr dc \<Rightarrow> LoadSpec (ae_libs env) dc (\<lambda>_. True) None)"

text \<open>The services of a router are these functions, where they do not panic.\<close>

definition answers_with :: "answerEnv \<Rightarrow> 'r \<Rightarrow> 'r services \<Rightarrow> bool" where
  "answers_with env ref sv \<longleftrightarrow>
    sv_describe sv = describe env ref \<and> sv_defaultPlatform sv = handleDefaultPlatform env ref
    \<and> (\<forall>opts r. handleResolveSpec env ref opts = Some r \<longrightarrow> sv_resolveSpec sv opts = r)
    \<and> (\<forall>opts r. mux_client_spec env opts = Some r \<longrightarrow> sv_loadSpec sv opts = r)"

section \<open>Lemmas\<close>

lemma map_sum_id [simp]:
  "map_sum id f r = Inr y \<longleftrightarrow> (\<exists>z. r = Inr z \<and> y = f z)" "map_sum id f r = Inl e \<longleftrightarrow> r = Inl e"
  by (cases r; auto)+

lemma resolve_loop_loaded:
  "resolve_loop lb dc ps = Some (Inr sps) \<longleftrightarrow>
    list_all2 (\<lambda>p sp. LoadSpec lb dc (\<lambda>_. False) (Some p) = Some (Inr sp)) ps sps"
proof (induction ps arbitrary: sps)
  case (Cons p ps)
  show ?case
  proof (cases "LoadSpec lb dc (\<lambda>_. False) (Some p)")
    case (Some r)
    show ?thesis
    proof (cases r)
      case (Inr sp)
      have "resolve_loop lb dc (p # ps) = Some (Inr sps) \<longleftrightarrow> (\<exists>rest. resolve_loop lb dc ps = Some (Inr rest) \<and> sps = sp # rest)"
        using Some Inr by auto
      then show ?thesis using Cons.IH Some Inr by (cases sps) auto
    qed (use Some in \<open>auto simp: list_all2_Cons1\<close>)
  qed (auto simp: list_all2_Cons1)
qed auto

text \<open>The error of a resolve request is that of the first platform whose spec cannot be loaded.\<close>

lemma resolve_loop_error:
  "resolve_loop lb dc ps = Some (Inl e) \<Longrightarrow>
    \<exists>qs p rs. ps = qs @ p # rs \<and> LoadSpec lb dc (\<lambda>_. False) (Some p) = Some (Inl e)"
proof (induction ps)
  case (Cons p ps)
  show ?case
  proof (cases "LoadSpec lb dc (\<lambda>_. False) (Some p) = Some (Inl e)")
    case True
    then show ?thesis by (intro exI [of _ "[]"]) auto
  next
    case False
    then have "resolve_loop lb dc ps = Some (Inl e)"
      using Cons.prems by (auto split: option.splits sum.splits)
    from Cons.IH [OF this] obtain qs q rs where "ps = qs @ q # rs" "LoadSpec lb dc (\<lambda>_. False) (Some q) = Some (Inl e)" by blast
    then show ?thesis by (intro exI [of _ "p # qs"]) auto
  qed
qed simp

lemma resolve_request:
  assumes "opt_get opts requestIDKey = ''frontend.dalec.resolve''"
  shows "handleSubrequest sv m opts = (Some (lift_err (sv_resolveSpec sv opts)), opts)"
  using assms by (simp add: handleSubrequest_def Let_def targetsRequest_def keyTopLevelTarget_def)

end
