(* ===== verification/Answer_Claims.thy ===== *)
theory Answer_Claims
  imports Mux_Answers Distro_Claims
begin

text \<open>
  The properties of the requests that the router answers itself (frontend/mux.go), with witnesses on
  concrete data.
\<close>

text \<open>
  C23 (frontend/mux.go, Handle, handleSubrequest and handleResolveSpec): a request to resolve the spec is
  answered with the spec loaded once for every target platform of the request, in their order, or for the
  default platform when the request names none; it reaches no handler and leaves the router and the options
  as they are.
\<close>

theorem resolve_answered:
  assumes "answers_with env ref sv" and "opt_get opts requestIDKey = ''frontend.dalec.resolve''"
    and "ae_NewClient env opts = Inr dc"
    and "list_all2 (\<lambda>p sp. LoadSpec (ae_libs env) dc (\<lambda>_. False) (Some p) = Some (Inr sp))
           (if ui_TargetPlatforms dc = [] then [lib_DefaultSpec (ae_libs env)] else ui_TargetPlatforms dc) sps"
    and "ae_YamlSpecs env sps = Inr y" and "ae_JsonSpecs env sps = Inr j"
  shows "\<exists>res. Handle sv m opts = ((Inr res, opts), m)
    \<and> map_of (res_Metadata res) ''result.json'' = Some j \<and> map_of (res_Metadata res) ''result.txt'' = Some y"
proof -
  have "resolve_platforms (ae_libs env) dc =
      (if ui_TargetPlatforms dc = [] then [lib_DefaultSpec (ae_libs env)] else ui_TargetPlatforms dc)"
    by (simp add: resolve_platforms_def)
  with assms(4) have "resolve_loop (ae_libs env) dc (resolve_platforms (ae_libs env) dc) = Some (Inr sps)"
    by (simp add: resolve_loop_loaded)
  then have "handleResolveSpec env ref opts =
      Some (Inr (AddMeta ''result.txt'' y (AddMeta ''result.json'' j (NewResult ref))))"
    using assms(3,5,6) by (simp add: handleResolveSpec_def)
  with assms(1) have "sv_resolveSpec sv opts = Inr (AddMeta ''result.txt'' y (AddMeta ''result.json'' j (NewResult ref)))"
    by (simp add: answers_with_def)
  then have "Handle sv m opts = ((Inr (AddMeta ''result.txt'' y (AddMeta ''result.json'' j (NewResult ref))), opts), m)"
    using resolve_request [OF assms(2), of sv m] by (simp add: Handle_def handle_body_def lift_err_def)
  then show ?thesis by (simp add: AddMeta_def NewResult_def update_conv')
qed

definition demo_answers :: answerEnv where
  "demo_answers =
    \<lparr>ae_NewClient = (\<lambda>opts. Inr (demo_ui [])), ae_libs = demo_libs, ae_JsonRequests = (\<lambda>rs. Inr ''[]''), ae_PrintDescribe = Inr,
     ae_DescribeVersion = ''1.0.0'', ae_YamlSpecs = (\<lambda>sps. Inr ''- name: foo''), ae_JsonSpecs = (\<lambda>sps. Inr (replicate (length sps) CHR ''s'')),
     ae_JsonPlatform = (\<lambda>p. Inr ''{}'')\<rparr>"

definition demo_answering :: "string services" where
  "demo_answering =
    \<lparr>sv_loadSpec = (\<lambda>opts. case mux_client_spec demo_answers opts of None \<Rightarrow> Inl (Msg []) | Some r \<Rightarrow> r),
     sv_unmarshal = (\<lambda>s. Inr []), sv_marshal = (\<lambda>ts. Inr []), sv_ToResult = (\<lambda>ts. Inr (NewResult [])),
     sv_describe = describe demo_answers [],
     sv_resolveSpec = (\<lambda>opts. case handleResolveSpec demo_answers [] opts of None \<Rightarrow> Inl (Msg []) | Some r \<Rightarrow> r),
     sv_defaultPlatform = handleDefaultPlatform demo_answers []\<rparr>"

definition demo_resolved :: spec where
  "demo_resolved = projr (the (LoadSpec demo_libs (demo_ui []) (\<lambda>_. False) (Some (lib_DefaultSpec demo_libs))))"

definition is_loaded :: "(goerr + spec) option \<Rightarrow> bool" where
  "is_loaded r = (case r of Some (Inr sp) \<Rightarrow> True | _ \<Rightarrow> False)"

theorem resolve_answered_witness:
  "\<exists>res. Handle demo_answering \<lparr>m_handlers = [], m_defaultH = None, m_spec = None\<rparr> [(''requestid'', ''frontend.dalec.resolve'')] =
      ((Inr res, [(''requestid'', ''frontend.dalec.resolve'')]), \<lparr>m_handlers = [], m_defaultH = None, m_spec = None\<rparr>)
    \<and> map_of (res_Metadata res) ''result.json'' = Some ''s'' \<and> map_of (res_Metadata res) ''result.txt'' = Some ''- name: foo''"
proof (rule resolve_answered [where env = demo_answers and ref = "[]" and dc = "demo_ui []" and sps = "[demo_resolved]"])
  show "answers_with demo_answers [] demo_answering" by (simp add: answers_with_def demo_answering_def)
  show "opt_get [(''requestid'', ''frontend.dalec.resolve'')] requestIDKey = ''frontend.dalec.resolve''"
    by (simp add: opt_get_def requestIDKey_def)
  have "is_loaded (LoadSpec demo_libs (demo_ui []) (\<lambda>_. False) (Some (lib_DefaultSpec demo_libs)))" by code_simp
  then have "\<exists>sp. LoadSpec demo_libs (demo_ui []) (\<lambda>_. False) (Some (lib_DefaultSpec demo_libs)) = Some (Inr sp)"
    by (auto simp: is_loaded_def split: option.splits sum.splits)
  then show "list_all2 (\<lambda>p sp. LoadSpec (ae_libs demo_answers) (demo_ui []) (\<lambda>_. False) (Some p) = Some (Inr sp))
     (if ui_TargetPlatforms (demo_ui []) = [] then [lib_DefaultSpec (ae_libs demo_answers)] else ui_TargetPlatforms (demo_ui []))
     [demo_resolved]"
    by (auto simp: demo_answers_def demo_ui_def demo_resolved_def)
qed (simp_all add: demo_answers_def)

end
