(* ===== verification/Retagger.thy ===== *)
theory Retagger
  imports Request Go_Reader "HOL-Library.Multiset"
begin

text \<open>
  The tool that copies images between registries (cmd/retagger/main.go): the copy of one image as a sequence
  of registry calls, the collector of errors of the concurrent copies, and the reader that gives a fetched
  blob random access.

  Registries, references and the Docker configuration are third-party code and enter through the record
  \<open>registries\<close>; opening a destination is given the scheme that the flags ask for.
\<close>

section \<open>One image\<close>

record retagConfig =
  rt_Source :: string
  rt_Dest :: string

record runConfig =
  rc_RepoPrefix :: string
  rc_SchemeHTTP :: bool

text \<open>\<^term>\<open>None\<close> is the panic on a value that is no boolean.\<close>

definition boolFromEnv :: "string \<Rightarrow> bool option" where
  "boolFromEnv v = (if v = [] then Some False else ParseBool v)"

record ('reg, 'd, 'f, 'p) registries =
  rg_ParseAnyReference :: "string \<Rightarrow> goerr + string"
  rg_NewSource :: "string \<Rightarrow> goerr + 'reg"
  rg_NewDest :: "bool \<Rightarrow> string \<Rightarrow> goerr + 'reg"
  rg_Resolve :: "'reg \<Rightarrow> goerr + string \<times> 'd"
  rg_Fetcher :: "'reg \<Rightarrow> string \<Rightarrow> goerr + 'f"
  rg_Pusher :: "'reg \<Rightarrow> 'd \<Rightarrow> goerr + 'p"
  rg_PushContent :: "'p \<Rightarrow> 'd \<Rightarrow> 'f \<Rightarrow> gores"

definition retag :: "('reg, 'd, 'f, 'p) registries \<Rightarrow> runConfig \<Rightarrow> retagConfig \<Rightarrow> gores" where
  "retag rg rcfg cfg =
    (let dest = Join [rc_RepoPrefix rcfg, rt_Dest cfg];
         source = rt_Source cfg
     in case rg_ParseAnyReference rg source of
          Inl e \<Rightarrow> Some (Wrap (''error parsing source image '' @ source) e)
        | Inr ref \<Rightarrow>
        (case rg_NewSource rg ref of
          Inl e \<Rightarrow> Some (Wrap (''error creating source registry for '' @ source) e)
        | Inr src \<Rightarrow>
        (case rg_NewDest rg (rc_SchemeHTTP rcfg) dest of
          Inl e \<Rightarrow> Some (Wrap (''error creating destination registry for '' @ dest) e)
        | Inr dst \<Rightarrow>
        (case rg_Resolve rg src of
          Inl e \<Rightarrow> Some (Wrap (''error resolving source image '' @ source) e)
        | Inr (name, desc) \<Rightarrow>
        (case rg_Fetcher rg src name of
          Inl e \<Rightarrow> Some (Wrap (''error creating fetcher for destination '' @ dest) e)
        | Inr fetcher \<Rightarrow>
        (case rg_Pusher rg dst desc of
          Inl e \<Rightarrow> Some (Wrap (''error creating pusher for destination '' @ dest) e)
        | Inr pusher \<Rightarrow> rg_PushContent rg pusher desc fetcher))))))"

definition process_image :: "('reg, 'd, 'f, 'p) registries \<Rightarrow> runConfig \<Rightarrow> retagConfig \<Rightarrow> gores" where
  "process_image rg rcfg cfg = wrap (''error processing '' @ rt_Source cfg) (retag rg rcfg cfg)"

record credentials =
  cr_Host :: string
  cr_Username :: string
  cr_Secret :: string

definition GetCredentials :: "(string \<Rightarrow> string) \<Rightarrow> (string \<Rightarrow> goerr + string \<times> string) \<Rightarrow> string \<Rightarrow> goerr + credentials" where
  "GetCredentials resolveHost f host =
    (let h = resolveHost host
     in case f h of
          Inl e \<Rightarrow> Inl (Wrap (''error getting credentials for host '' @ h) e)
        | Inr (u, p) \<Rightarrow> Inr \<lparr>cr_Host = h, cr_Username = u, cr_Secret = p\<rparr>)"

section \<open>The collector of errors\<close>

text \<open>
  The copies that have been started and not finished, each with what it returns, and the collected errors.
  A copy appends its error under the mutex in one step.
\<close>

record collector =
  ec_running :: "gores list"
  ec_errs :: "goerr list"

inductive collector_step :: "collector \<Rightarrow> collector \<Rightarrow> bool" where
  Copy_finish: "ec_running ec = xs @ r # ys \<Longrightarrow>
    collector_step ec (ec\<lparr>ec_running := xs @ ys, ec_errs := ec_errs ec @ errs_of r\<rparr>)"

inductive collector_steps :: "collector \<Rightarrow> collector \<Rightarrow> bool" where
  Copies_done: "collector_steps ec ec"
| Copies_more: "collector_step ec ec' \<Longrightarrow> collector_steps ec' ec'' \<Longrightarrow> collector_steps ec ec''"

inductive_cases collector_stepE: "collector_step ec ec'"

definition Do_all :: "gores list \<Rightarrow> collector" where
  "Do_all fs = \<lparr>ec_running = fs, ec_errs = []\<rparr>"

text \<open>\<open>Wait\<close> returns once no copy is running.\<close>

definition collector_Wait :: "collector \<Rightarrow> gores option" where
  "collector_Wait ec =
    (if ec_running ec \<noteq> [] then None
     else Some (if length (ec_errs ec) = 0 then None
                else Some (Wrap (''encountered '' @ nat_str (length (ec_errs ec)) @ '' errors'') (Joined (ec_errs ec)))))"

text \<open>
  \<open>run\<close>: the configuration file, its decoding and the Docker configuration can fail before the copies are
  started; a missing Docker configuration is not an error.  The result is what is returned at once, or
  the started copies.
\<close>

datatype 'r startedCopies = Returned gores | Running 'r

definition run_retagger ::
  "(goerr + string) \<Rightarrow> (string \<Rightarrow> goerr + retagConfig list) \<Rightarrow> (bool \<times> goerr) option \<Rightarrow> (bool \<Rightarrow> ('reg, 'd, 'f, 'p) registries)
    \<Rightarrow> runConfig \<Rightarrow> collector startedCopies" where
  "run_retagger readFile unmarshal dockerErr rg rcfg =
    (case readFile of
       Inl e \<Rightarrow> Returned (Some (Wrap ''error reading config file'' e))
     | Inr dt \<Rightarrow>
     (case unmarshal dt of
       Inl e \<Rightarrow> Returned (Some (Wrap ''error unmarshalling config'' e))
     | Inr ls \<Rightarrow>
     (case dockerErr of
       Some (notExist, e) \<Rightarrow>
         if \<not> notExist then Returned (Some (Wrap ''error loading Docker config'' e))
         else Running (Do_all (map (process_image (rg False) rcfg) ls))
     | None \<Rightarrow> Running (Do_all (map (process_image (rg True) rcfg) ls)))))"

section \<open>Random access\<close>

text \<open>
  \<open>io.ReadAtLeast\<close> into a buffer of \<open>n\<close> bytes: it reads until there are \<open>least\<close> bytes or an error.  \<open>fuel\<close>
  bounds the number of reads; \<^term>\<open>None\<close> means that it was too small.
\<close>

definition unexpectedEOF :: ioErr where "unexpectedEOF = IOError (Msg ''unexpected EOF'')"

fun fill_loop ::
  "(nat \<Rightarrow> 's \<Rightarrow> ('b list \<times> ioErr option) \<times> 's) \<Rightarrow> nat \<Rightarrow> nat \<Rightarrow> int \<Rightarrow> 'b list \<Rightarrow> 's \<Rightarrow> (('b list \<times> ioErr option) \<times> 's) option" where
  "fill_loop rd fuel n least got s =
    (if least \<le> int (length got) then Some ((got, None), s)
     else (case fuel of
             0 \<Rightarrow> None
           | Suc f \<Rightarrow>
               (case rd (n - length got) s of
                  ((bs, None), s') \<Rightarrow> fill_loop rd f n least (got @ bs) s'
                | ((bs, Some e), s') \<Rightarrow> Some ((got @ bs, Some e), s'))))"

declare fill_loop.simps [simp del]

definition ReadAtLeast ::
  "(nat \<Rightarrow> 's \<Rightarrow> ('b list \<times> ioErr option) \<times> 's) \<Rightarrow> nat \<Rightarrow> nat \<Rightarrow> int \<Rightarrow> 's \<Rightarrow> (('b list \<times> ioErr option) \<times> 's) option" where
  "ReadAtLeast rd fuel n least s =
    (if int n < least then Some (([], Some (IOError (Msg ''short buffer''))), s)
     else
       map_option (\<lambda>((bs, e), s').
           ((bs, if least \<le> int (length bs) then None
                 else if 0 < length bs \<and> e = Some EOF then Some unexpectedEOF else e), s'))
         (fill_loop rd fuel n least [] s))"

record 's readerToReaderAt =
  ra_reader :: 's
  ra_ref :: string
  ra_pos :: int
  ra_size :: int

text \<open>What the wrapped reader also implements.\<close>

datatype ('b, 's) readerCaps =
    HasReaderAt "nat \<Rightarrow> int \<Rightarrow> 's \<Rightarrow> 'b list \<times> ioErr option"
  | HasSeek "int \<Rightarrow> 's \<Rightarrow> goerr + 's"
  | OnlyRead

definition at_offset :: "int \<Rightarrow> string \<Rightarrow> ioErr option \<Rightarrow> ioErr option" where
  "at_offset off ref err =
    (case err of
       Some (IOError e) \<Rightarrow> Some (IOError (Wrap (''error reading at offset '' @ Itoa off @ '' for '' @ ref) e))
     | other \<Rightarrow> other)"

definition readat_body ::
  "(nat \<Rightarrow> 's \<Rightarrow> ('b list \<times> ioErr option) \<times> 's) \<Rightarrow> nat \<Rightarrow> nat \<Rightarrow> 's readerToReaderAt
    \<Rightarrow> (('b list \<times> ioErr option) \<times> 's readerToReaderAt) option" where
  "readat_body rd fuel n r =
    (let minRead = min (ra_size r - ra_pos r) (int n)
     in map_option (\<lambda>((bs, e), s').
           ((bs, e), if 0 < length bs then r\<lparr>ra_reader := s', ra_pos := ra_pos r + int (length bs)\<rparr> else r\<lparr>ra_reader := s'\<rparr>))
          (ReadAtLeast rd fuel n minRead (ra_reader r)))"

definition readerToReaderAt_ReadAt ::
  "(nat \<Rightarrow> 's \<Rightarrow> ('b list \<times> ioErr option) \<times> 's) \<Rightarrow> ('b, 's) readerCaps \<Rightarrow> nat \<Rightarrow> nat \<Rightarrow> int \<Rightarrow> 's readerToReaderAt
    \<Rightarrow> (('b list \<times> ioErr option) \<times> 's readerToReaderAt) option" where
  "readerToReaderAt_ReadAt rd caps fuel n off r =
    map_option (\<lambda>((bs, e), r'). ((bs, at_offset off (ra_ref r) e), r'))
      (case caps of
         HasReaderAt ra \<Rightarrow>
           (case ra n off (ra_reader r) of
              (bs, Some (IOError e)) \<Rightarrow> Some ((bs, Some (IOError (Wrap ''readerAt'' e))), r)
            | (bs, e) \<Rightarrow> Some ((bs, e), r))
       | HasSeek seek \<Rightarrow>
           (if ra_pos r \<noteq> off then
              (case seek off (ra_reader r) of
                 Inl e \<Rightarrow> Some (([], Some (IOError (Wrap ''error seeking'' e))), r)
               | Inr s' \<Rightarrow> readat_body rd fuel n (r\<lparr>ra_reader := s', ra_pos := off\<rparr>))
            else readat_body rd fuel n r)
       | OnlyRead \<Rightarrow>
           (if ra_pos r \<noteq> off
            then Some (([], Some (IOError (Msg (''reader does not support seeking: '' @ ra_ref r)))), r)
            else readat_body rd fuel n r))"

section \<open>Lemmas on the collector\<close>

lemma collector_conserves:
  "collector_steps ec ec' \<Longrightarrow>
    mset (ec_errs ec') + mset (concat (map errs_of (ec_running ec'))) = mset (ec_errs ec) + mset (concat (map errs_of (ec_running ec)))"
proof (induction rule: collector_steps.induct)
  case (Copies_more ec ec' ec'')
  then show ?case by (auto elim!: collector_stepE simp: add_ac)
qed simp

lemma collector_finishes: "\<exists>ec'. collector_steps ec ec' \<and> ec_running ec' = []"
proof (induction "length (ec_running ec)" arbitrary: ec)
  case 0
  then show ?case using Copies_done by auto
next
  case (Suc k)
  then obtain r rs where r: "ec_running ec = [] @ r # rs" by (cases "ec_running ec") auto
  then have "collector_step ec (ec\<lparr>ec_running := [] @ rs, ec_errs := ec_errs ec @ errs_of r\<rparr>)" by (rule Copy_finish)
  moreover have "k = length (ec_running (ec\<lparr>ec_running := [] @ rs, ec_errs := ec_errs ec @ errs_of r\<rparr>))" using r Suc.hyps(2) by simp
  ultimately show ?case using Suc.hyps(1) Copies_more by blast
qed

section \<open>Lemmas on reading\<close>

text \<open>A reader that stands at its recorded position in the content.\<close>

definition positioned :: "('s \<Rightarrow> bool) \<Rightarrow> ('s \<Rightarrow> 'b list) \<Rightarrow> 'b list \<Rightarrow> 's readerToReaderAt \<Rightarrow> bool" where
  "positioned ok remaining content r \<longleftrightarrow>
    ok (ra_reader r) \<and> 0 \<le> ra_pos r \<and> ra_pos r \<le> ra_size r \<and> ra_size r = int (length content)
    \<and> remaining (ra_reader r) = drop (nat (ra_pos r)) content"

text \<open>Reading from a reader that keeps the contract of \<open>io.Reader\<close>.\<close>

context byte_reader
begin

lemma fill_loop_reads:
  assumes "inv s" and "work_left s < fuel" and "int (length got) \<le> int n" and "least \<le> int n"
    and "least \<le> int (length got) + int (length (remaining s))"
  shows "\<exists>bs e s'. fill_loop rd fuel n least got s = Some ((got @ bs, e), s') \<and> remaining s = bs @ remaining s' \<and> inv s'
    \<and> least \<le> int (length (got @ bs)) \<and> length (got @ bs) \<le> n"
  using assms
proof (induction fuel arbitrary: s got)
  case (Suc fuel)
  show ?case
  proof (cases "least \<le> int (length got)")
    case True
    then show ?thesis using Suc.prems by (simp add: fill_loop.simps)
  next
    case False
    obtain bs e s' where r: "rd (n - length got) s = ((bs, e), s')" by (metis surj_pair)
    note d = delivers [OF Suc.prems(1) r] keeps [OF Suc.prems(1) r] fits [OF Suc.prems(1) r]
    have pos: "0 < n - length got" using False Suc.prems(3,4) by linarith
    show ?thesis
    proof (cases e)
      case None
      with r progress [OF Suc.prems(1) _ pos] have w: "work_left s' < fuel" using Suc.prems(2) by fastforce
      have "\<exists>cs x s''. fill_loop rd fuel n least (got @ bs) s' = Some (((got @ bs) @ cs, x), s'') \<and> remaining s' = cs @ remaining s'' \<and> inv s''
        \<and> least \<le> int (length ((got @ bs) @ cs)) \<and> length ((got @ bs) @ cs) \<le> n"
        by (rule Suc.IH) (use d w Suc.prems pos in auto)
      then obtain cs x s'' where "fill_loop rd fuel n least (got @ bs) s' = Some (((got @ bs) @ cs, x), s'')"
        "remaining s' = cs @ remaining s''" "inv s''" "least \<le> int (length ((got @ bs) @ cs))" "length ((got @ bs) @ cs) \<le> n" by blast
      with False r None d(1) show ?thesis
        by (intro exI [of _ "bs @ cs"] exI [of _ x] exI [of _ s'']) (simp add: fill_loop.simps [of rd "Suc fuel"])
    next
      case (Some x)
      have "remaining s' = []" using ends [OF Suc.prems(1)] r Some by blast
      with d Suc.prems pos have "least \<le> int (length (got @ bs))" "length (got @ bs) \<le> n" by auto
      with False r Some d show ?thesis
        by (intro exI [of _ bs] exI [of _ e] exI [of _ s']) (simp add: fill_loop.simps [of rd "Suc fuel"])
    qed
  qed
qed simp

lemma ReadAtLeast_reads:
  assumes "inv s" and "work_left s < fuel" and "least \<le> int n" and "least \<le> int (length (remaining s))"
  shows "\<exists>bs s'. ReadAtLeast rd fuel n least s = Some ((bs, None), s') \<and> remaining s = bs @ remaining s' \<and> inv s'
    \<and> least \<le> int (length bs) \<and> length bs \<le> n"
proof -
  obtain bs e s' where r: "fill_loop rd fuel n least [] s = Some ((bs, e), s')" "remaining s = bs @ remaining s'" "inv s'"
    "least \<le> int (length bs)" "length bs \<le> n"
    using fill_loop_reads [of s fuel "[]" n least] assms by auto
  then have "ReadAtLeast rd fuel n least s = Some ((bs, None), s')" using assms(3) by (simp add: ReadAtLeast_def)
  with r show ?thesis by blast
qed

lemma readat_body_reads:
  assumes "positioned inv remaining content r" and "work_left (ra_reader r) < fuel"
  shows "\<exists>r'. readat_body rd fuel n r = Some ((take n (drop (nat (ra_pos r)) content), None), r') \<and> positioned inv remaining content r'
    \<and> ra_pos r' = ra_pos r + int (length (take n (drop (nat (ra_pos r)) content)))"
proof -
  let ?m = "min (ra_size r - ra_pos r) (int n)"
  have len: "int (length (remaining (ra_reader r))) = ra_size r - ra_pos r" using assms(1) by (auto simp: positioned_def)
  obtain bs s' where bs: "ReadAtLeast rd fuel n ?m (ra_reader r) = Some ((bs, None), s')"
    "remaining (ra_reader r) = bs @ remaining s'" "inv s'" "?m \<le> int (length bs)" "length bs \<le> n"
    using ReadAtLeast_reads [of "ra_reader r" fuel ?m n] assms len by (auto simp: positioned_def)
  have rem: "drop (nat (ra_pos r)) content = bs @ remaining s'" using assms(1) bs(2) by (simp add: positioned_def)
  have "length bs = n \<or> remaining s' = []"
    using bs(2,4,5) len by (cases "remaining s'") (auto simp: min_def split: if_splits)
  then have got: "take n (drop (nat (ra_pos r)) content) = bs" using rem bs(5) by auto
  let ?r = "if 0 < length bs then r\<lparr>ra_reader := s', ra_pos := ra_pos r + int (length bs)\<rparr> else r\<lparr>ra_reader := s'\<rparr>"
  have fields: "ra_reader ?r = s'" "ra_size ?r = ra_size r" "ra_pos ?r = ra_pos r + int (length bs)" by auto
  have pos: "ra_pos r + int (length bs) \<le> ra_size r" using len bs(2) by simp
  have "remaining s' = drop (length bs) (drop (nat (ra_pos r)) content)" using rem by simp
  also have "\<dots> = drop (nat (ra_pos r + int (length bs))) content"
    using assms(1) by (simp add: positioned_def nat_add_distrib add.commute)
  finally have "positioned inv remaining content ?r"
    unfolding positioned_def fields using assms(1) bs(3) pos by (simp add: positioned_def)
  moreover have "readat_body rd fuel n r = Some ((bs, None), ?r)"
    unfolding readat_body_def Let_def bs(1) by simp
  ultimately show ?thesis unfolding got using fields(3) by blast
qed

end

end
