(* ===== verification/Linters.thy ===== *)
theory Linters
  imports Go_Prelude
begin

text \<open>
  The linter that compares the names in struct tags (linters/yaml_json_tags.go).  A struct is the list of its
  fields, each with the literal of its tag if it has one; \<open>ast.Inspect\<close> is third-party code and gives the list
  of structs that are declared in a file.
\<close>

text \<open>\<open>strings.Trim\<close> for one character, and \<open>strings.Fields\<close> on ASCII text.\<close>

definition Trim_char :: "char \<Rightarrow> string \<Rightarrow> string" where
  "Trim_char c s = rev (dropWhile (\<lambda>x. x = c) (rev (dropWhile (\<lambda>x. x = c) s)))"

function Fields :: "string \<Rightarrow> string list" where
  "Fields s =
    (let t = dropWhile is_space s
     in if t = [] then [] else takeWhile (\<lambda>c. \<not> is_space c) t # Fields (dropWhile (\<lambda>c. \<not> is_space c) t))"
  by pat_completeness auto

termination
proof (relation "measure length")
  fix s :: string and t
  assume t: "t = dropWhile is_space s" "\<not> t = []"
  then have "\<not> is_space (hd t)" using hd_dropWhile by blast
  then have "length (dropWhile (\<lambda>c. \<not> is_space c) t) < length t"
    using t(2) by (cases t) (auto simp: less_Suc_eq_le length_dropWhile_le)
  moreover have "length t \<le> length s" using t(1) length_dropWhile_le by simp
  ultimately show "(dropWhile (\<lambda>c. \<not> is_space c) t, s) \<in> measure length" by simp
qed simp

declare Fields.simps [simp del]

definition backquote :: char where "backquote = CHR 0x60"
definition dquote :: char where "dquote = CHR 0x22"

text \<open>One tag of the list: its key and the name before the first comma of its value.\<close>

definition tag_name :: "string \<Rightarrow> string \<times> string" where
  "tag_name tag =
    (case Cut tag '':'' of (key, v, _) \<Rightarrow> (key, fst (Cut (Trim_char dquote v) '','')))"

fun names_loop :: "string list \<Rightarrow> string \<times> string \<Rightarrow> string \<times> string" where
  "names_loop [] out = out"
| "names_loop (tag # tags) out =
    (let (key, t) = tag_name tag;
         out' = (if key = ''json'' then (t, snd out) else if key = ''yaml'' then (fst out, t) else out)
     in if fst out' \<noteq> [] \<and> snd out' \<noteq> [] then out' else names_loop tags out')"

definition getYamlJSONNames :: "string \<Rightarrow> string \<times> string" where
  "getYamlJSONNames tag = names_loop (Fields (Trim_char backquote tag)) ([], [])"

definition check_field :: "string option \<Rightarrow> string list" where
  "check_field tag =
    (case tag of
       None \<Rightarrow> []
     | Some tg \<Rightarrow>
         (let v = getYamlJSONNames tg
          in if (fst v \<noteq> [] \<or> snd v \<noteq> []) \<and> fst v \<noteq> snd v
             then [''mismatch in struct tags: json='' @ fst v @ '', yaml='' @ snd v] else []))"

definition checkStructTags :: "string option list \<Rightarrow> string list" where
  "checkStructTags fields = concat (map check_field fields)"

text \<open>The reports for the structs of the files of a package.\<close>

definition linter_Run :: "string option list list list \<Rightarrow> string list" where
  "linter_Run files = concat (map (\<lambda>structs. concat (map checkStructTags structs)) files)"

section \<open>Lemmas\<close>

definition no_space :: "string \<Rightarrow> bool" where
  "no_space w = (w \<noteq> [] \<and> list_all (\<lambda>c. \<not> is_space c) w)"

lemma Fields_word:
  assumes "no_space w"
  shows "Fields w = [w]"
proof -
  have w: "dropWhile is_space w = w" "takeWhile (\<lambda>c. \<not> is_space c) w = w" "dropWhile (\<lambda>c. \<not> is_space c) w = []" "w \<noteq> []"
    using assms by (cases w; auto simp: no_space_def list_all_iff)+
  have "Fields [] = []" by (simp add: Fields.simps [of "[]"])
  then show ?thesis unfolding Fields.simps [of w] Let_def w by (simp add: w(4))
qed

lemma Fields_cons:
  assumes "no_space w"
  shows "Fields (w @ CHR '' '' # s) = w # Fields s"
proof -
  have sp: "is_space (CHR '' '')" by (simp add: is_space_def)
  have d: "dropWhile is_space (w @ CHR '' '' # s) = w @ CHR '' '' # s"
    using assms by (cases w) (auto simp: no_space_def)
  have t: "takeWhile (\<lambda>c. \<not> is_space c) (w @ CHR '' '' # s) = w" "dropWhile (\<lambda>c. \<not> is_space c) (w @ CHR '' '' # s) = CHR '' '' # s"
    using assms sp by (auto simp: no_space_def list_all_iff takeWhile_append dropWhile_append)
  have "Fields (CHR '' '' # s) = Fields s" using sp by (subst (1 2) Fields.simps) simp
  then show ?thesis unfolding Fields.simps [of "w @ CHR '' '' # s"] Let_def d t by simp
qed

text \<open>A tag as it is written in the sources: a key, a name and options after a comma.\<close>

definition tag_text :: "string \<Rightarrow> string \<Rightarrow> string \<Rightarrow> string" where
  "tag_text key name opts = key @ '':'' @ [dquote] @ name @ opts @ [dquote]"

definition plain_name :: "string \<Rightarrow> bool" where
  "plain_name s = list_all (\<lambda>c. \<not> is_space c \<and> c \<noteq> dquote \<and> c \<noteq> backquote \<and> c \<noteq> CHR '','') s"

definition plain_opts :: "string \<Rightarrow> bool" where
  "plain_opts s = (s = [] \<or> (hd s = CHR '','' \<and> list_all (\<lambda>c. \<not> is_space c \<and> c \<noteq> dquote \<and> c \<noteq> backquote) s))"

lemma Trim_char_between:
  "c \<notin> set s \<Longrightarrow> Trim_char c ([c] @ s @ [c]) = s"
proof -
  assume c: "c \<notin> set s"
  then have a: "dropWhile (\<lambda>x. x = c) (s @ [c]) = (if s = [] then [] else s @ [c])" by (cases s) auto
  from c have b: "dropWhile (\<lambda>x. x = c) (rev s) = rev s" by (cases "s = []") (auto simp: dropWhile_eq_self_iff hd_rev)
  show ?thesis by (simp add: Trim_char_def a b)
qed

lemma Cut_before: "c \<notin> set a \<Longrightarrow> Cut (a @ c # b) [c] = (a, b, True)"
  by (induction a) (auto simp: HasPrefix_def)

lemma Cut_none: "c \<notin> set a \<Longrightarrow> Cut a [c] = (a, [], False)"
  by (induction a) (auto simp: HasPrefix_def)

lemma name_before_comma:
  assumes "CHR '','' \<notin> set name" and "opts = [] \<or> hd opts = CHR '',''"
  shows "fst (Cut (name @ opts) '','') = name"
proof (cases opts)
  case Nil
  then show ?thesis using Cut_none [OF assms(1)] by simp
next
  case (Cons x xs)
  with assms(2) have "opts = CHR '','' # xs" by simp
  then show ?thesis using Cut_before [OF assms(1), of xs] by simp
qed

lemma plain_no_quote:
  assumes "plain_name name" and "plain_opts opts"
  shows "dquote \<notin> set (name @ opts)"
proof -
  have "dquote \<notin> set name" using assms(1) by (auto simp: plain_name_def list_all_iff)
  moreover have "dquote \<notin> set opts" using assms(2) by (auto simp: plain_opts_def list_all_iff)
  ultimately show ?thesis by simp
qed

lemma tag_name_text:
  assumes "CHR '':'' \<notin> set key" and "plain_name name" and "plain_opts opts"
  shows "tag_name (tag_text key name opts) = (key, name)"
proof -
  let ?v = "[dquote] @ (name @ opts) @ [dquote]"
  have trim: "Trim_char dquote ?v = name @ opts" by (rule Trim_char_between [OF plain_no_quote [OF assms(2,3)]])
  have comma: "CHR '','' \<notin> set name" using assms(2) by (auto simp: plain_name_def list_all_iff)
  have name: "fst (Cut (name @ opts) '','') = name"
    by (rule name_before_comma [OF comma]) (use assms(3) in \<open>auto simp: plain_opts_def\<close>)
  have shape: "tag_text key name opts = key @ CHR '':'' # ?v" by (simp add: tag_text_def)
  have cut: "Cut (tag_text key name opts) '':'' = (key, ?v, True)" unfolding shape by (rule Cut_before [OF assms(1)])
  show ?thesis unfolding tag_name_def cut prod.case trim name by (rule refl)
qed

text \<open>The characters of a written tag.\<close>

definition tag_char :: "char \<Rightarrow> bool" where
  "tag_char c = (\<not> is_space c \<and> c \<noteq> backquote)"

lemma tag_text_chars:
  assumes "list_all tag_char key" and "plain_name name" and "plain_opts opts"
  shows "list_all tag_char (tag_text key name opts)"
proof -
  have "list_all tag_char name" using assms(2) by (auto simp: plain_name_def tag_char_def list_all_iff)
  moreover have "list_all tag_char opts" using assms(3) by (auto simp: plain_opts_def tag_char_def list_all_iff)
  moreover have "list_all tag_char '':''" "list_all tag_char [dquote]" by (code_simp, code_simp)
  ultimately show ?thesis unfolding tag_text_def list_all_append using assms(1) by blast
qed

end
