(* ===== verification/Worker_Matrix.thy ===== *)
theory Worker_Matrix
  imports Frontend_Main
begin

text \<open>
  The tool that lists the worker images to build (cmd/worker-img-matrix/main.go): one entry per registered
  build target.  \<open>graph\<close> is the plugin registry, as for the frontend; the output file and JSON are left to the
  caller.
\<close>

record info =
  in_Target :: string

record matrix =
  mx_Include :: "info list"

definition worker_matrix :: "(('r registration \<Rightarrow> bool) \<Rightarrow> 'r registration list) \<Rightarrow> matrix" where
  "worker_matrix graph =
    (let filter_fn = (\<lambda>r. reg_Type r \<noteq> TypeBuildTarget)
     in \<lparr>mx_Include = map (\<lambda>r. \<lparr>in_Target = Join [reg_ID r, ''worker'']\<rparr>) (graph filter_fn)\<rparr>)"

text \<open>Every shipped target has a route for its worker image.\<close>

lemma rpm_worker_route: "\<exists>h. map_of (m_handlers (rpm_mux sv run cfg)) ''worker'' = Some h"
  by (simp add: rpm_mux_def route_def Let_def update_conv')

lemma deb_worker_route: "\<exists>h. map_of (m_handlers (deb_mux run cfg)) ''worker'' = Some h"
  by (simp add: deb_mux_def route_def Let_def update_conv')

lemma win_worker_route: "\<exists>h. map_of (m_handlers (win_mux run container lb)) ''worker'' = Some h"
  by (simp add: win_mux_def route_def Let_def update_conv')

lemma shipped_worker_routes:
  assumes "k \<in> fst ` set (builtin_targets sv run container lb)"
  shows "\<exists>m2 h. (k, mux_func sv m2) \<in> set (builtin_targets sv run container lb) \<and> map_of (m_handlers m2) ''worker'' = Some h"
proof -
  obtain bf where kb: "(k, bf) \<in> set (builtin_targets sv run container lb)" using assms by auto
  then consider cfg where "bf = mux_func sv (deb_mux run cfg)" | cfg where "bf = mux_func sv (rpm_mux sv run cfg)"
    | "bf = mux_func sv (win_mux run container lb)"
    unfolding builtin_targets_def deb_Handle_def rpm_Handle_def win_Handle_def
    by (simp only: list.set insert_iff empty_iff prod.inject) blast
  then show ?thesis
  proof cases
    case (1 cfg)
    then show ?thesis using kb deb_worker_route [of run cfg] by blast
  next
    case (2 cfg)
    then show ?thesis using kb rpm_worker_route [of sv run cfg] by blast
  next
    case 3
    then show ?thesis using kb win_worker_route [of run container lb] by blast
  qed
qed

end
