(* ===== verification/Gha_Logs.thy ===== *)
theory Gha_Logs
  imports Gha
begin

text \<open>
  The outputs of the test event converter beside the console (cmd/test2json2gha): the streamed output, the log
  files per test (event.go) and the summary in Markdown (summary.go, markdown.go).

  Elapsed times are floating-point numbers; the record \<open>floats\<close> holds what the code does with them, and \<open>hist\<close>
  is the histogram that the third-party package prints.
\<close>

section \<open>Streaming\<close>

text \<open>\<open>write\<close> is the error of writing to the console; the result lists what was written.\<close>

definition outputStreamer_HandleEvent :: "gores \<Rightarrow> testEvent \<Rightarrow> string \<Rightarrow> gores \<times> string" where
  "outputStreamer_HandleEvent write te out =
    (if te_Output te \<noteq> [] then (write, if write = None then out @ te_Output te else out) else (None, out))"

section \<open>Log files\<close>

text \<open>
  What the file system answers: opening a log for writing succeeds, fails because its directory is missing or
  fails otherwise; then the directory is made and the log opened again.  Opening and copying the collected
  output can fail as well; a failed copy leaves the opened log empty.
\<close>

datatype openResult = Opened | NoDirectory | OpenFailed

record logFs =
  lf_Open :: "string \<Rightarrow> openResult"
  lf_MkdirAll :: "string \<Rightarrow> gores"
  lf_Reopen :: "string \<Rightarrow> gores"
  lf_OpenOutput :: "testResult \<Rightarrow> gores"
  lf_Copy :: "testResult \<Rightarrow> gores"

definition log_opened :: "logFs \<Rightarrow> string \<Rightarrow> bool" where
  "log_opened fs p =
    (case lf_Open fs p of
       Opened \<Rightarrow> True
     | OpenFailed \<Rightarrow> False
     | NoDirectory \<Rightarrow> lf_MkdirAll fs (Dir p) = None \<and> lf_Reopen fs p = None)"

definition write_log :: "logFs \<Rightarrow> string \<Rightarrow> string gomap \<Rightarrow> testResult \<Rightarrow> string gomap" where
  "write_log fs dir logs r =
    (let p = log_name dir r
     in if \<not> log_opened fs p then logs
        else if lf_OpenOutput fs r \<noteq> None then mput p [] logs
        else if lf_Copy fs r \<noteq> None then mput p [] logs
        else mput p (tr_output r) logs)"

text \<open>The log files after the call; files that were there before are in \<open>logs\<close>.\<close>

definition WriteLogs :: "logFs \<Rightarrow> string \<Rightarrow> testResult gomap \<Rightarrow> string gomap \<Rightarrow> string gomap" where
  "WriteLogs fs dir rs logs = foldl (write_log fs dir) logs (Results rs)"

section \<open>Summary\<close>

record 'f floats =
  fl_zero :: 'f
  fl_add :: "'f \<Rightarrow> 'f \<Rightarrow> 'f"
  fl_less :: "'f \<Rightarrow> 'f \<Rightarrow> bool"
  fl_print :: "'f \<Rightarrow> string"

definition mdBold :: "string \<Rightarrow> string" where
  "mdBold v = ''**'' @ v @ ''**''"

definition fence :: string where "fence = replicate 3 (CHR 0x60)"

definition mdPreformat :: "string \<Rightarrow> string" where
  "mdPreformat s = nl @ fence @ nl @ s @ fence @ nl"

record 'f summary =
  su_totalTime :: 'f
  su_skipped :: nat
  su_failed :: nat
  su_totalResults :: nat
  su_slow :: string

definition summary_step :: "'f floats \<Rightarrow> 'f \<Rightarrow> 'f summary \<Rightarrow> testResult \<times> 'f \<Rightarrow> 'f summary" where
  "summary_step fl slow su p =
    (let (r, elapsed) = p
     in \<lparr>su_totalTime = fl_add fl (su_totalTime su) elapsed,
         su_skipped = (if tr_skipped r then su_skipped su + 1 else su_skipped su),
         su_failed = (if tr_failed r then su_failed su + 1 else su_failed su),
         su_totalResults = su_totalResults su + 1,
         su_slow = su_slow su @ (if fl_less fl slow elapsed
           then Join [tr_pkg r, tr_name r] @ '': '' @ fl_print fl elapsed @ ''s'' @ nl else [])\<rparr>)"

definition summary_of :: "'f floats \<Rightarrow> 'f \<Rightarrow> (testResult \<times> 'f) list \<Rightarrow> 'f summary" where
  "summary_of fl slow results =
    foldl (summary_step fl slow) \<lparr>su_totalTime = fl_zero fl, su_skipped = 0, su_failed = 0, su_totalResults = 0, su_slow = []\<rparr> results"

text \<open>The operands of \<open>fmt.Fprintln\<close> are separated by spaces.\<close>

definition summary_FormatResults :: "'f floats \<Rightarrow> ('f list \<Rightarrow> string) \<Rightarrow> 'f \<Rightarrow> (testResult \<times> 'f) list \<Rightarrow> string" where
  "summary_FormatResults fl hist slow results =
    (let su = summary_of fl slow results;
         separator = concat (replicate 4 ''&nbsp;'')
     in ''## Test metrics'' @ nl
        @ mdBold ''Skipped:'' @ '' '' @ nat_str (su_skipped su) @ '' '' @ separator @ '' ''
        @ mdBold ''Failed:'' @ '' '' @ nat_str (su_failed su) @ '' '' @ separator @ '' ''
        @ mdBold ''Total:'' @ '' '' @ nat_str (su_totalResults su) @ '' '' @ separator @ '' ''
        @ mdBold ''Elapsed:'' @ '' '' @ fl_print fl (su_totalTime su) @ ''s'' @ nl
        @ mdPreformat (hist (map snd results)) @ nl
        @ (if 0 < length (su_slow su) then ''## Slow tests'' @ nl @ mdPreformat (su_slow su) @ nl else []))"

section \<open>Lemmas\<close>

lemma summary_fold:
  "foldl (summary_step fl slow) su results =
    \<lparr>su_totalTime = foldl (fl_add fl) (su_totalTime su) (map snd results),
     su_skipped = su_skipped su + length (filter (\<lambda>p. tr_skipped (fst p)) results),
     su_failed = su_failed su + length (filter (\<lambda>p. tr_failed (fst p)) results),
     su_totalResults = su_totalResults su + length results,
     su_slow = su_slow su @ concat (map (\<lambda>p. Join [tr_pkg (fst p), tr_name (fst p)] @ '': '' @ fl_print fl (snd p) @ ''s'' @ nl)
       (filter (\<lambda>p. fl_less fl slow (snd p)) results))\<rparr>"
  by (induction results arbitrary: su) (auto simp: summary_step_def Let_def split: prod.splits)

lemma write_logs_other:
  "p \<notin> log_name dir ` set trs \<Longrightarrow> map_of (foldl (write_log fs dir) logs trs) p = map_of logs p"
proof (induction trs arbitrary: logs)
  case (Cons r trs)
  have "map_of (write_log fs dir logs r) p = map_of logs p"
    using Cons.prems by (simp add: write_log_def Let_def update_conv')
  with Cons show ?case by simp
qed simp

lemma write_logs_each:
  assumes "distinct (map (log_name dir) trs)" and "r \<in> set trs"
    and "log_opened fs (log_name dir r)" and "lf_OpenOutput fs r = None" and "lf_Copy fs r = None"
  shows "map_of (foldl (write_log fs dir) logs trs) (log_name dir r) = Some (tr_output r)"
  using assms(1,2)
proof (induction trs arbitrary: logs)
  case (Cons x trs)
  show ?case
  proof (cases "x = r")
    case True
    have "log_name dir r \<notin> log_name dir ` set trs" using Cons.prems(1) True by simp
    moreover have "write_log fs dir logs r = mput (log_name dir r) (tr_output r) logs"
      using assms(3-5) by (simp add: write_log_def Let_def)
    ultimately show ?thesis using True write_logs_other [of "log_name dir r" dir trs fs] by (simp add: update_conv')
  qed (use Cons in auto)
qed simp

end
