(* ===== verification/Command_Claims.thy ===== *)
theory Command_Claims
  imports Retagger Linters Worker_Matrix Gha_Logs Socket_Mux Platform_Claims
begin

text \<open>
  The properties of the tools under cmd and of the linter: the retagger, the worker image matrix, the logs of
  the test event converter and the check of struct tags, each with a witness on concrete data.
\<close>

section \<open>Retagging images\<close>

text \<open>
  C31 (cmd/retagger/main.go, run and errgroupCollector): in whatever order the copies of the configured images
  finish, the tool can return from every state of the copies; when it returns, it succeeds exactly when every
  copy succeeded, and otherwise the error joins the errors of all failed copies, one each.
\<close>

theorem retag_result:
  assumes "run_retagger (Inr dt) unmarshal None rg rcfg = Running ec" and "unmarshal dt = Inr ls"
    and "collector_steps ec ec'"
  shows "(\<exists>ec''. collector_steps ec' ec'' \<and> collector_Wait ec'' \<noteq> None)
    \<and> (\<forall>res. collector_Wait ec' = Some res \<longrightarrow>
         (\<exists>es. mset es = mset (concat (map (\<lambda>cfg. errs_of (process_image (rg True) rcfg cfg)) ls))
            \<and> res = (if es = [] then None
                     else Some (Wrap (''encountered '' @ nat_str (length es) @ '' errors'') (Joined es)))))"
proof (intro conjI allI impI)
  show "\<exists>ec''. collector_steps ec' ec'' \<and> collector_Wait ec'' \<noteq> None"
    using collector_finishes [of ec'] by (auto simp: collector_Wait_def)
next
  fix res
  assume wait: "collector_Wait ec' = Some res"
  have ec: "ec = Do_all (map (process_image (rg True) rcfg) ls)" using assms(1,2) by (simp add: run_retagger_def)
  have "ec_running ec' = []" and res: "res = (if length (ec_errs ec') = 0 then None
      else Some (Wrap (''encountered '' @ nat_str (length (ec_errs ec')) @ '' errors'') (Joined (ec_errs ec'))))"
    using wait by (auto simp: collector_Wait_def split: if_splits)
  with collector_conserves [OF assms(3)] ec
  have "mset (ec_errs ec') = mset (concat (map (\<lambda>cfg. errs_of (process_image (rg True) rcfg cfg)) ls))"
    by (simp add: Do_all_def comp_def)
  with res show "\<exists>es. mset es = mset (concat (map (\<lambda>cfg. errs_of (process_image (rg True) rcfg cfg)) ls))
      \<and> res = (if es = [] then None else Some (Wrap (''encountered '' @ nat_str (length es) @ '' errors'') (Joined es)))"
    by (intro exI [of _ "ec_errs ec'"]) simp
qed

definition demo_registries :: "(string, string, string, string) registries" where
  "demo_registries =
    \<lparr>rg_ParseAnyReference = (\<lambda>s. if s = ''bad'' then Inl (Msg ''invalid reference'') else Inr s), rg_NewSource = Inr,
     rg_NewDest = (\<lambda>http d. Inr d), rg_Resolve = (\<lambda>r. Inr (r, ''sha256:1'')), rg_Fetcher = (\<lambda>r n. Inr n),
     rg_Pusher = (\<lambda>r d. Inr r), rg_PushContent = (\<lambda>p d f. None)\<rparr>"

theorem retag_result_witness:
  "\<exists>es. mset es = mset [Wrap ''error processing bad'' (Wrap ''error parsing source image bad'' (Msg ''invalid reference''))]
    \<and> collector_Wait \<lparr>ec_running = [], ec_errs = [Wrap ''error processing bad'' (Wrap ''error parsing source image bad'' (Msg ''invalid reference''))]\<rparr>
      = Some (if es = [] then None else Some (Wrap (''encountered '' @ nat_str (length es) @ '' errors'') (Joined es)))"
proof -
  let ?ls = "[\<lparr>rt_Source = ''bad'', rt_Dest = ''x''\<rparr>, \<lparr>rt_Source = ''busybox'', rt_Dest = ''b''\<rparr>]"
  let ?rcfg = "\<lparr>rc_RepoPrefix = ''localhost'', rc_SchemeHTTP = True\<rparr>"
  let ?e = "Wrap ''error processing bad'' (Wrap ''error parsing source image bad'' (Msg ''invalid reference''))"
  let ?ec = "\<lparr>ec_running = [Some ?e, None], ec_errs = []\<rparr>"
  have run: "run_retagger (Inr []) (\<lambda>t. Inr ?ls) None (\<lambda>b. demo_registries) ?rcfg = Running ?ec"
    by (simp add: run_retagger_def Do_all_def process_image_def retag_def demo_registries_def wrap_def)
  have "collector_step ?ec \<lparr>ec_running = [Some ?e], ec_errs = []\<rparr>"
    using Copy_finish [of ?ec "[Some ?e]" None "[]"] by (simp add: errs_of_def)
  moreover have "collector_step \<lparr>ec_running = [Some ?e], ec_errs = []\<rparr> \<lparr>ec_running = [], ec_errs = [?e]\<rparr>"
    using Copy_finish [of "\<lparr>ec_running = [Some ?e], ec_errs = []\<rparr>" "[]" "Some ?e" "[]"] by (simp add: errs_of_def)
  ultimately have steps: "collector_steps ?ec \<lparr>ec_running = [], ec_errs = [?e]\<rparr>" by (meson Copies_more Copies_done)
  obtain res where w: "collector_Wait \<lparr>ec_running = [], ec_errs = [?e]\<rparr> = Some res" by (simp add: collector_Wait_def)
  have "\<exists>es. mset es = mset (concat (map (\<lambda>cfg. errs_of (process_image demo_registries ?rcfg cfg)) ?ls))
      \<and> res = (if es = [] then None else Some (Wrap (''encountered '' @ nat_str (length es) @ '' errors'') (Joined es)))"
    using retag_result [OF run refl steps] w by blast
  with w show ?thesis
    by (simp add: process_image_def retag_def demo_registries_def wrap_def errs_of_def)
qed

section \<open>Random access to a blob\<close>

text \<open>
  C40 (cmd/retagger/main.go, readerToReaderAt.ReadAt): reading inside the content fills the buffer.  If the reader
  is no \<open>io.ReaderAt\<close> itself, keeps the contract of \<open>io.Reader\<close> and stands at its recorded position, and the buffer
  is no longer than the content from the offset on, then reading at this position, or at any other offset when the
  reader can seek there, returns without error exactly the bytes of the content at the offset, as many as the
  buffer holds, and stands after them.  Reads beyond the end of the content are not covered.
\<close>

theorem readat_reads:
  assumes "byte_reader rd ok remaining work_left" and "positioned ok remaining content r"
    and "0 \<le> off" and "off + int n \<le> ra_size r" and "work_left (ra_reader r) < fuel"
    and "off = ra_pos r \<or> (\<exists>seek s'. caps = HasSeek seek \<and> seek off (ra_reader r) = Inr s' \<and> ok s'
           \<and> remaining s' = drop (nat off) content \<and> work_left s' < fuel)"
    and "\<forall>ra. caps \<noteq> HasReaderAt ra"
  shows "\<exists>r'. readerToReaderAt_ReadAt rd caps fuel n off r = Some ((take n (drop (nat off) content), None), r')
    \<and> length (take n (drop (nat off) content)) = n \<and> positioned ok remaining content r' \<and> ra_pos r' = off + int n"
proof -
  have body: "\<exists>r'. readat_body rd fuel n q = Some ((take n (drop (nat (ra_pos q)) content), None), r') \<and> positioned ok remaining content r'
    \<and> ra_pos r' = ra_pos q + int (length (take n (drop (nat (ra_pos q)) content)))"
    if "positioned ok remaining content q" "work_left (ra_reader q) < fuel" for q
    using byte_reader.readat_body_reads [OF assms(1) that] .
  have full: "length (take n (drop (nat off) content)) = n"
    using assms(2-4) by (auto simp: positioned_def)
  show ?thesis
  proof (cases "off = ra_pos r")
    case True
    then show ?thesis using body [OF assms(2,5)] assms(7) full
      by (cases caps) (auto simp: readerToReaderAt_ReadAt_def at_offset_def)
  next
    case False
    then obtain seek s' where s: "caps = HasSeek seek" "seek off (ra_reader r) = Inr s'" "ok s'"
      "remaining s' = drop (nat off) content" "work_left s' < fuel" using assms(6) by auto
    have "positioned ok remaining content (r\<lparr>ra_reader := s', ra_pos := off\<rparr>)"
      using assms(2-4) s by (simp add: positioned_def)
    from body [OF this] s False full show ?thesis by (auto simp: readerToReaderAt_ReadAt_def at_offset_def)
  qed
qed

theorem readat_reads_witness:
  "\<exists>r'. readerToReaderAt_ReadAt stream_read OnlyRead 20 3 0
      \<lparr>ra_reader = \<lparr>sr_in = [''ab'', ''cd''], sr_buf = []\<rparr>, ra_ref = ''r'', ra_pos = 0, ra_size = 4\<rparr> = Some ((''abc'', None), r')
    \<and> positioned (\<lambda>sr. True) pending ''abcd'' r' \<and> ra_pos r' = 3"
  using readat_reads [OF stream_reader.byte_reader_axioms, of "''abcd''"
      "\<lparr>ra_reader = \<lparr>sr_in = [''ab'', ''cd''], sr_buf = []\<rparr>, ra_ref = ''r'', ra_pos = 0, ra_size = 4\<rparr>" 0 3 20 OnlyRead]
  by (simp add: positioned_def pending_def work_def)

text \<open>
  Note (cmd/retagger/main.go, readerToReaderAt.ReadAt): the comment quotes the contract of \<open>io.ReaderAt\<close>, that
  fewer bytes than the buffer holds come with an error.  At the end of the content the code returns no bytes and
  no error.
\<close>

theorem readat_end_silent:
  assumes "ra_pos r = ra_size r" and "0 < n"
  shows "readerToReaderAt_ReadAt rd OnlyRead fuel n (ra_pos r) r = Some (([], None), r)"
  using assms by (simp add: readerToReaderAt_ReadAt_def readat_body_def ReadAtLeast_def fill_loop.simps at_offset_def)

theorem readat_end_silent_witness:
  "readerToReaderAt_ReadAt stream_read OnlyRead 5 8 4 \<lparr>ra_reader = \<lparr>sr_in = [], sr_buf = ''''\<rparr>, ra_ref = ''r'', ra_pos = 4, ra_size = 4\<rparr> =
    Some (([], None), \<lparr>ra_reader = \<lparr>sr_in = [], sr_buf = ''''\<rparr>, ra_ref = ''r'', ra_pos = 4, ra_size = 4\<rparr>)"
  using readat_end_silent [of "\<lparr>ra_reader = \<lparr>sr_in = [], sr_buf = ''''\<rparr>, ra_ref = ''r'', ra_pos = 4, ra_size = 4\<rparr>" 8 stream_read 5]
  by simp

section \<open>The matrix of worker images\<close>

definition shipped_names :: "string list" where
  "shipped_names = [''bookworm'', ''bullseye'', ''bionic'', ''focal'', ''jammy'', ''noble'', ''almalinux8'', ''almalinux9'', ''rockylinux8'',
     ''rockylinux9'', ''mariner2'', ''azlinux3'', ''windowscross'']"

lemma builtin_target_names: "map fst (builtin_targets sv run container lb) = shipped_names"
  by (simp add: builtin_targets_def shipped_names_def)

lemma worker_names: "k \<in> set shipped_names \<Longrightarrow> Join [k, ''worker''] = k @ ''/worker''"
proof -
  have "list_all (\<lambda>k. Join [k, ''worker''] = k @ ''/worker'') shipped_names" by code_simp
  then show "k \<in> set shipped_names \<Longrightarrow> Join [k, ''worker''] = k @ ''/worker''" unfolding list_all_iff by (rule bspec)
qed

lemma matrix_names:
  assumes "set (graph (\<lambda>r. reg_Type r \<noteq> TypeBuildTarget)) = set rs" and "reg_ID ` set rs = set shipped_names"
  shows "in_Target ` set (mx_Include (worker_matrix graph)) = (\<lambda>k. k @ ''/worker'') ` set shipped_names"
proof -
  have "in_Target ` set (mx_Include (worker_matrix graph)) = (\<lambda>k. Join [k, ''worker'']) ` reg_ID ` set rs"
    unfolding worker_matrix_def Let_def by (simp add: image_image assms(1))
  then show ?thesis unfolding assms(2) using worker_names by (simp cong: image_cong)
qed

text \<open>
  Note (cmd/worker-img-matrix/main.go; targets/register.go): the matrix has an entry \<open>name/worker\<close> for every shipped
  target and no other, and the router of that target has a route \<open>worker\<close>.
\<close>

theorem matrix_lists_workers:
  assumes "registry_ok (builtin_registrations (builtin_targets sv run container lb)) graph set_add"
  shows "in_Target ` set (mx_Include (worker_matrix graph)) = (\<lambda>k. k @ ''/worker'') ` set shipped_names
    \<and> (\<forall>k \<in> set shipped_names. \<exists>m2 h.
         (k, mux_func sv m2) \<in> set (builtin_targets sv run container lb) \<and> map_of (m_handlers m2) ''worker'' = Some h)"
proof -
  let ?ts = "builtin_targets sv run container lb"
  have ids: "map reg_ID (builtin_registrations ?ts) = shipped_names"
    unfolding builtin_target_names [symmetric, of sv run container lb]
    by (simp add: builtin_registrations_def RegisterBuildTarget_def case_prod_beta)
  have "distinct shipped_names" by code_simp
  moreover have "\<forall>r \<in> set (builtin_registrations ?ts). reg_Type r = TypeBuildTarget"
    by (auto simp: builtin_registrations_def RegisterBuildTarget_def)
  ultimately have graph: "set (graph (\<lambda>r. reg_Type r \<noteq> TypeBuildTarget)) = set (builtin_registrations ?ts)"
    using assms unfolding registry_ok_def ids by blast
  have "reg_ID ` set (builtin_registrations ?ts) = set shipped_names" unfolding ids [symmetric] by simp
  from matrix_names [where graph = graph, OF graph this] have "in_Target ` set (mx_Include (worker_matrix graph)) = (\<lambda>k. k @ ''/worker'') ` set shipped_names" .
  moreover have "fst ` set ?ts = set shipped_names" unfolding builtin_target_names [symmetric, of sv run container lb] by simp
  ultimately show ?thesis using shipped_worker_routes [of _ sv run container lb] by metis
qed

theorem matrix_lists_workers_witness:
  "in_Target ` set (mx_Include (worker_matrix
      (\<lambda>f. filter (\<lambda>r. \<not> f r) (builtin_registrations (builtin_targets demo_services demo_runner (leaf ''win'') demo_libs)))))
    = (\<lambda>k. k @ ''/worker'') ` set shipped_names"
proof -
  let ?rs = "builtin_registrations (builtin_targets demo_services demo_runner (leaf ''win'') demo_libs)"
  have "distinct (map reg_ID (filter (\<lambda>r. \<not> f r) ?rs))" if "distinct (map reg_ID ?rs)" for f
    using that by (rule distinct_map_filter)
  then have "registry_ok ?rs (\<lambda>f. filter (\<lambda>r. \<not> f r) ?rs) (\<lambda>added r. None)"
    by (auto simp: registry_ok_def set_accepts_def)
  from matrix_lists_workers [OF this] show ?thesis by (rule conjunct1)
qed

section \<open>Struct tags\<close>

text \<open>
  Note (linters/yaml_json_tags.go, getYamlJSONNames and checkStructTags): for a field with a json and a yaml tag the
  linter finds both names and reports the field exactly when the names differ; names and options as they are
  written in the sources.
\<close>

theorem tags_compared:
  assumes "plain_name n" and "plain_name m" and "plain_opts o1" and "plain_opts o2" and "n \<noteq> []" and "m \<noteq> []"
  shows "check_field (Some ([backquote] @ (tag_text ''json'' n o1 @ '' '' @ tag_text ''yaml'' m o2) @ [backquote])) =
    (if n = m then [] else [''mismatch in struct tags: json='' @ n @ '', yaml='' @ m])"
proof -
  let ?t1 = "tag_text ''json'' n o1" and ?t2 = "tag_text ''yaml'' m o2"
  have keys: "list_all tag_char ''json''" "list_all tag_char ''yaml''" by (code_simp, code_simp)
  have p1: "list_all tag_char ?t1" and p2: "list_all tag_char ?t2"
    using tag_text_chars [OF keys(1) assms(1,3)] tag_text_chars [OF keys(2) assms(2,4)] by simp_all
  have ne: "?t1 \<noteq> []" "?t2 \<noteq> []" unfolding tag_text_def by simp_all
  have words: "no_space ?t1" "no_space ?t2"
    unfolding no_space_def using p1 p2 ne by (simp_all add: list_all_iff tag_char_def)
  have "backquote \<notin> set ?t1" "backquote \<notin> set ?t2" using p1 p2 by (auto simp: list_all_iff tag_char_def)
  then have "backquote \<notin> set (?t1 @ '' '' @ ?t2)" unfolding set_append by (simp add: backquote_def)
  from Trim_char_between [OF this] have trim: "Trim_char backquote ([backquote] @ (?t1 @ '' '' @ ?t2) @ [backquote]) = ?t1 @ '' '' @ ?t2" .
  have fields: "Fields (?t1 @ '' '' @ ?t2) = [?t1, ?t2]"
    using Fields_cons [OF words(1), of ?t2] Fields_word [OF words(2)] by simp
  have names: "tag_name ?t1 = (''json'', n)" "tag_name ?t2 = (''yaml'', m)"
    using tag_name_text assms(1-4) by simp_all
  have "getYamlJSONNames ([backquote] @ (?t1 @ '' '' @ ?t2) @ [backquote]) = (n, m)"
    unfolding getYamlJSONNames_def trim fields by (simp add: names Let_def assms(5,6))
  then show ?thesis unfolding check_field_def option.case Let_def using assms(5) by simp
qed

theorem tags_compared_witness:
  "check_field (Some ([backquote] @ (tag_text ''json'' ''name'' '',omitempty'' @ '' '' @ tag_text ''yaml'' ''nam'' []) @ [backquote])) =
    [''mismatch in struct tags: json=name, yaml=nam'']"
  using tags_compared [of "''name''" "''nam''" "'',omitempty''" "[]"]
  by (simp add: plain_name_def plain_opts_def is_space_def dquote_def backquote_def)

section \<open>Test logs\<close>

text \<open>
  Note (cmd/test2json2gha/event.go, resultsHandler.WriteLogs): when the names of the log files differ and the files
  can be written, every collected test has a log with exactly its output.
\<close>

theorem logs_written:
  assumes "distinct (map (log_name dir) (Results rs))" and "r \<in> set (Results rs)"
    and "log_opened fs (log_name dir r)" and "lf_OpenOutput fs r = None" and "lf_Copy fs r = None"
  shows "map_of (WriteLogs fs dir rs logs) (log_name dir r) = Some (tr_output r)"
  unfolding WriteLogs_def by (rule write_logs_each [OF assms])

definition demo_log_fs :: logFs where
  "demo_log_fs = \<lparr>lf_Open = (\<lambda>p. NoDirectory), lf_MkdirAll = (\<lambda>p. None), lf_Reopen = (\<lambda>p. None), lf_OpenOutput = (\<lambda>r. None), lf_Copy = (\<lambda>r. None)\<rparr>"

definition demo_result :: "string \<Rightarrow> testResult" where
  "demo_result n = \<lparr>tr_output = n, tr_pkg = ''p'', tr_name = n, tr_failed = False, tr_skipped = False, tr_pass = True, tr_timeout = False\<rparr>"

theorem logs_written_witness:
  "map_of (WriteLogs demo_log_fs ''logs'' [(''p/T/a'', demo_result ''T/a''), (''p/T/b'', demo_result ''T/b'')] [])
    (log_name ''logs'' (demo_result ''T/b'')) = Some ''T/b''"
proof -
  let ?rs = "[(''p/T/a'', demo_result ''T/a''), (''p/T/b'', demo_result ''T/b'')]"
  have "distinct (map (log_name ''logs'') (Results ?rs))" by code_simp
  moreover have "list_ex (\<lambda>r. r = demo_result ''T/b'') (Results ?rs)" by code_simp
  then have "demo_result ''T/b'' \<in> set (Results ?rs)" by (auto simp: list_ex_iff)
  ultimately have "map_of (WriteLogs demo_log_fs ''logs'' ?rs []) (log_name ''logs'' (demo_result ''T/b'')) = Some (tr_output (demo_result ''T/b''))"
    by (rule logs_written) (simp_all add: demo_log_fs_def log_opened_def)
  then show ?thesis by (simp add: demo_result_def)
qed

text \<open>
  Note (cmd/test2json2gha/event.go, resultsHandler.WriteLogs): slashes in test names become underscores, so a
  subtest and a test can get the same log file, and the later one replaces the log of the earlier.
\<close>

theorem log_names_collide:
  "log_name dir (demo_result ''T/a'') = log_name dir (demo_result ''T_a'')"
  by (simp add: log_name_def demo_result_def)

end
