(* ===== verification/Decoders.thy ===== *)
theory Decoders
  imports Source_Map Deps
begin

text \<open>
  The decoders of the parts of a spec that keep their position (spec.go, source*.go, generator_*.go, tests.go,
  deps.go), the options that decoders get through the context (load.go), and the options of caches that take
  their platform from constraints (cache.go).

  \<open>dec\<close> is the YAML decoder for the struct without its own decoder: it gives the value or an error.
\<close>

section \<open>The context of a decoder\<close>

text \<open>\<open>'n\<close> are nodes, \<open>'o\<close> decode options; \<open>refs\<close> is the option that resolves anchors in a document.\<close>

record ('n, 'o) decodeCtx =
  dx_sourceMap :: "sourceMapContext option"
  dx_baseDoc :: "'n option"
  dx_decodeOpts :: "'o list option"

definition withBaseDoc :: "('n, 'o) decodeCtx \<Rightarrow> 'n \<Rightarrow> ('n, 'o) decodeCtx" where
  "withBaseDoc ctx node = ctx\<lparr>dx_baseDoc := Some node\<rparr>"

definition contextWithDecodeOpts :: "('n, 'o) decodeCtx \<Rightarrow> 'o list \<Rightarrow> ('n, 'o) decodeCtx" where
  "contextWithDecodeOpts ctx opts = (if length opts = 0 then ctx else ctx\<lparr>dx_decodeOpts := Some opts\<rparr>)"

definition decodeOpts :: "('n, 'o) decodeCtx \<Rightarrow> 'o list" where
  "decodeOpts ctx = (case dx_decodeOpts ctx of None \<Rightarrow> [] | Some opts \<Rightarrow> opts)"

text \<open>The options of the decoder.\<close>

definition getDecoder :: "('n \<Rightarrow> 'o) \<Rightarrow> ('n, 'o) decodeCtx \<Rightarrow> 'o list" where
  "getDecoder refs ctx =
    (case dx_baseDoc ctx of None \<Rightarrow> decodeOpts ctx | Some b \<Rightarrow> decodeOpts ctx @ [refs b])"

text \<open>What the decoders of the parts of a spec see (\<open>Spec.UnmarshalYAML\<close>).\<close>

definition spec_decode_ctx :: "('n, 'o) decodeCtx \<Rightarrow> 'o list \<Rightarrow> 'n \<Rightarrow> ('n, 'o) decodeCtx" where
  "spec_decode_ctx ctx opts node = withBaseDoc (contextWithDecodeOpts ctx opts) node"

section \<open>Values with a position\<close>

definition with_map :: "sourceMapContext option \<Rightarrow> (goerr \<Rightarrow> goerr) \<Rightarrow> (yamlNode \<Rightarrow> goerr + 'v) \<Rightarrow> yamlNode \<Rightarrow> goerr + 'v \<times> sourceMap" where
  "with_map ctx werr dec node =
    (case dec node of Inl e \<Rightarrow> Inl (werr e) | Inr v \<Rightarrow> Inr (v, newSourceMap ctx node))"

definition source_UnmarshalYAML :: "sourceMapContext option \<Rightarrow> (yamlNode \<Rightarrow> goerr + source) \<Rightarrow> yamlNode \<Rightarrow> goerr + source \<times> sourceMap" where
  "source_UnmarshalYAML ctx = with_map ctx (Wrap ''failed to decode source'')"

definition patchSpec_UnmarshalYAML :: "sourceMapContext option \<Rightarrow> (yamlNode \<Rightarrow> goerr + patchSpec) \<Rightarrow> yamlNode \<Rightarrow> goerr + patchSpec \<times> sourceMap" where
  "patchSpec_UnmarshalYAML ctx = with_map ctx (Wrap ''failed to decode patch spec'')"

definition buildStep_UnmarshalYAML :: "sourceMapContext option \<Rightarrow> (yamlNode \<Rightarrow> goerr + buildStep) \<Rightarrow> yamlNode \<Rightarrow> goerr + buildStep \<times> sourceMap" where
  "buildStep_UnmarshalYAML ctx = with_map ctx (Wrap ''failed to decode build step'')"

definition testStep_UnmarshalYAML :: "sourceMapContext option \<Rightarrow> (yamlNode \<Rightarrow> goerr + testStep) \<Rightarrow> yamlNode \<Rightarrow> goerr + testStep \<times> sourceMap" where
  "testStep_UnmarshalYAML ctx = with_map ctx (Wrap ''failed to decode test step'')"

definition gomod_UnmarshalYAML :: "sourceMapContext option \<Rightarrow> (yamlNode \<Rightarrow> goerr + generatorGomod) \<Rightarrow> yamlNode \<Rightarrow> goerr + generatorGomod \<times> sourceMap" where
  "gomod_UnmarshalYAML ctx = with_map ctx (Wrap ''failed to decode gomod generator'')"

definition cargohome_UnmarshalYAML :: "sourceMapContext option \<Rightarrow> (yamlNode \<Rightarrow> goerr + generatorCargohome) \<Rightarrow> yamlNode \<Rightarrow> goerr + generatorCargohome \<times> sourceMap" where
  "cargohome_UnmarshalYAML ctx = with_map ctx (Wrap ''failed to decode cargohome generator'')"

definition pip_UnmarshalYAML :: "sourceMapContext option \<Rightarrow> (yamlNode \<Rightarrow> goerr + generatorPip) \<Rightarrow> yamlNode \<Rightarrow> goerr + generatorPip \<times> sourceMap" where
  "pip_UnmarshalYAML ctx = with_map ctx (Wrap ''failed to decode pip generator'')"

definition nodeMod_UnmarshalYAML :: "sourceMapContext option \<Rightarrow> (yamlNode \<Rightarrow> goerr + generatorNodeMod) \<Rightarrow> yamlNode \<Rightarrow> goerr + generatorNodeMod \<times> sourceMap" where
  "nodeMod_UnmarshalYAML ctx = with_map ctx (Wrap ''failed to decode node module generator'')"

text \<open>
  The six variants of a source have the same generated decoder (source_generated.go); \<open>dec\<close> decodes into the
  struct of the variant, and an error is returned as it is.
\<close>

definition variant_UnmarshalYAML :: "sourceMapContext option \<Rightarrow> (yamlNode \<Rightarrow> goerr + 'v) \<Rightarrow> yamlNode \<Rightarrow> goerr + 'v \<times> sourceMap" where
  "variant_UnmarshalYAML ctx = with_map ctx id"

text \<open>
  A list of build steps is decoded element by element; a decoder of the library already attaches a position to
  a step, which is then replaced by the same one.
\<close>

fun step_list_loop :: "sourceMapContext option \<Rightarrow> (yamlNode \<Rightarrow> goerr + buildStep) \<Rightarrow> yamlNode list \<Rightarrow> goerr + (buildStep \<times> sourceMap) list" where
  "step_list_loop ctx dec [] = Inr []"
| "step_list_loop ctx dec (n # ns) =
    (case dec n of
       Inl e \<Rightarrow> Inl e
     | Inr step \<Rightarrow> map_sum id (\<lambda>rest. (step, newSourceMap ctx n) # rest) (step_list_loop ctx dec ns))"

definition BuildStepList_UnmarshalYAML ::
  "sourceMapContext option \<Rightarrow> (yamlNode \<Rightarrow> goerr + buildStep) \<Rightarrow> yamlNode list option \<Rightarrow> goerr + (buildStep \<times> sourceMap) list" where
  "BuildStepList_UnmarshalYAML ctx dec seq =
    (case seq of
       None \<Rightarrow> Inl (Msg ''expected sequence node for build steps'')
     | Some ns \<Rightarrow> step_list_loop ctx dec ns)"

section \<open>Inline files and directories\<close>

record inlineFileFields =
  iff_Contents :: string
  iff_Permissions :: fileMode
  iff_UID :: "int mappedValue"
  iff_GID :: "int mappedValue"

record inlineDirFields =
  idf_Files :: "sourceInlineFile gomap"
  idf_Permissions :: fileMode
  idf_UID :: "int mappedValue"
  idf_GID :: "int mappedValue"

text \<open>The positions of the value itself, of its user and of its group.\<close>

record inlineMaps =
  im_self :: "sourceMap option"
  im_uid :: "sourceMap option"
  im_gid :: "sourceMap option"

definition inlineFile_UnmarshalYAML ::
  "sourceMapContext option \<Rightarrow> (yamlNode \<Rightarrow> goerr + inlineFileFields) \<Rightarrow> yamlNode \<Rightarrow> goerr + sourceInlineFile \<times> inlineMaps" where
  "inlineFile_UnmarshalYAML ctx dec node =
    (case dec node of
       Inl e \<Rightarrow> Inl (Wrap ''failed to decode inline file'' e)
     | Inr i \<Rightarrow>
         Inr (\<lparr>if_Contents = iff_Contents i, if_Permissions = iff_Permissions i, if_UID = mv_Value (iff_UID i),
               if_GID = mv_Value (iff_GID i)\<rparr>,
              \<lparr>im_self = Some (newSourceMap ctx node), im_uid = mv_sourceMap (iff_UID i), im_gid = mv_sourceMap (iff_GID i)\<rparr>))"

definition inlineDir_UnmarshalYAML ::
  "sourceMapContext option \<Rightarrow> (yamlNode \<Rightarrow> goerr + inlineDirFields) \<Rightarrow> yamlNode \<Rightarrow> goerr + sourceInlineDir \<times> inlineMaps" where
  "inlineDir_UnmarshalYAML ctx dec node =
    (case dec node of
       Inl e \<Rightarrow> Inl (Wrap ''failed to decode inline dir'' e)
     | Inr i \<Rightarrow>
         Inr (\<lparr>idir_Files = idf_Files i, idir_Permissions = idf_Permissions i, idir_UID = mv_Value (idf_UID i),
               idir_GID = mv_Value (idf_GID i)\<rparr>,
              \<lparr>im_self = Some (newSourceMap ctx node), im_uid = mv_sourceMap (idf_UID i), im_gid = mv_sourceMap (idf_GID i)\<rparr>))"

section \<open>Dependencies\<close>

text \<open>\<open>isNull\<close> says that the node is null, which stands for a dependency without constraints.\<close>

definition packageConstraints_UnmarshalYAML ::
  "sourceMapContext option \<Rightarrow> (yamlNode \<Rightarrow> goerr + packageConstraints) \<Rightarrow> bool \<Rightarrow> yamlNode \<Rightarrow> goerr + packageConstraints \<times> sourceMap" where
  "packageConstraints_UnmarshalYAML ctx dec isNull node =
    (if isNull then Inr (\<lparr>pc_Version = [], pc_Arch = []\<rparr>, newSourceMap ctx node)
     else with_map ctx (Wrap ''unmarshal package constraints'') dec node)"

text \<open>The position of an entry starts at the line of its name.\<close>

definition dep_position :: "int \<Rightarrow> sourceMap \<Rightarrow> sourceMap" where
  "dep_position keyLine sm =
    (let start = rg_Start (srcm_pos sm)
     in if pos_Line start > int32 keyLine
        then sm\<lparr>srcm_pos := (srcm_pos sm)\<lparr>rg_Start := start\<lparr>pos_Line := int32 keyLine\<rparr>\<rparr>\<rparr>
        else sm)"

lemma dep_position_start: "pos_Line (rg_Start (srcm_pos (dep_position keyLine sm))) \<le> int32 keyLine"
  by (simp add: dep_position_def Let_def)

lemma step_list_positions:
  "step_list_loop ctx dec ns = Inr steps \<Longrightarrow> map snd steps = map (newSourceMap ctx) ns"
proof (induction ns arbitrary: steps)
  case (Cons n ns)
  then obtain step rest where "dec n = Inr step" "step_list_loop ctx dec ns = Inr rest" "steps = (step, newSourceMap ctx n) # rest"
    by (cases "dec n"; cases "step_list_loop ctx dec ns") auto
  with Cons.IH show ?case by simp
qed simp

section \<open>Platforms of caches\<close>

definition WithCacheDirConstraints :: "'s constraintsOpt list \<Rightarrow> cacheInfo \<Rightarrow> cacheInfo" where
  "WithCacheDirConstraints opts info = info\<lparr>ci_Dir := con_Platform (WithConstraints opts empty_constraints)\<rparr>"

definition WithGoCacheConstraints :: "'s constraintsOpt list \<Rightarrow> cacheInfo \<Rightarrow> cacheInfo" where
  "WithGoCacheConstraints opts info = info\<lparr>ci_GoBuild := con_Platform (WithConstraints opts empty_constraints)\<rparr>"

definition WithBazelCacheConstraints :: "'s constraintsOpt list \<Rightarrow> cacheInfo \<Rightarrow> cacheInfo" where
  "WithBazelCacheConstraints opts info = info\<lparr>ci_Bazel := con_Platform (WithConstraints opts empty_constraints)\<rparr>"

text \<open>The last platform among the constraints is the one that a cache gets.\<close>

lemma platform_of_constraints:
  "con_Platform (WithConstraints (map Platform_opt ps) c) =
    (case filter (\<lambda>p. p \<noteq> None) (rev ps) of [] \<Rightarrow> con_Platform c | p # _ \<Rightarrow> p)"
proof (induction ps rule: rev_induct)
  case (snoc p ps)
  then show ?case by (cases p) (simp_all add: WithConstraints_def Platform_opt_def)
qed (simp add: WithConstraints_def)

text \<open>A progress group keeps its id when it is renamed, so nested groups are shown as one.\<close>

lemma progress_group_id:
  "map_option fst (con_ProgressGroup (ProgressGroup id2 name2 (ProgressGroup id1 name1 c))) =
    map_option fst (con_ProgressGroup (ProgressGroup id1 name1 c))"
  by (auto simp: ProgressGroup_def split: option.splits)

text \<open>
  Note (cache.go, WithGoCacheConstraints; helpers.go, WithConstraints and Platform): the go build cache of a run
  without a platform is named after the last platform of the constraints it was configured with.
\<close>

theorem go_cache_platform:
  assumes "ei_Platform ei = None"
  shows "resolve_platform dflt (ei_Platform ei)
    (ci_GoBuild (WithGoCacheConstraints (map Platform_opt (ps @ [Some p]) :: 's constraintsOpt list) info)) = p"
  using assms platform_of_constraints [of "ps @ [Some p]" "empty_constraints :: 's constraints"]
  by (simp add: resolve_platform_def WithGoCacheConstraints_def)

end
