(* ===== verification/Gen_Variants.thy ===== *)
theory Gen_Variants
  imports Go_Prelude
begin

text \<open>
  The generator of the methods of source variants (cmd/gen-source-variants/main.go): it collects the pointer
  fields of the struct \<open>Source\<close> and writes their methods.  The parsed files are data, a list of the type
  declarations of each file; \<open>fmt\<close> is \<open>go/format.Source\<close>.  The last section compares the result with the
  file that is kept in the repository (source_generated.go).
\<close>

section \<open>Declarations\<close>

datatype goTypeExpr = StarExpr goTypeExpr | GoIdent string | OtherType

record goField =
  gf_Names :: "string list"
  gf_Type :: goTypeExpr

text \<open>The fields of a type declaration if it declares a struct.\<close>

record typeSpec =
  ts_Name :: string
  ts_Fields :: "goField list option"

record sourceField =
  sfd_Name :: string
  sfd_TypeName :: string

section \<open>Collecting the variants\<close>

definition sourceTypeRef :: string where "sourceTypeRef = ''Source''"

fun variant_fields :: "goField list \<Rightarrow> sourceField list" where
  "variant_fields [] = []"
| "variant_fields (f # fs) =
    (case gf_Names f of
       [] \<Rightarrow> variant_fields fs
     | fieldName # _ \<Rightarrow>
         (case gf_Type f of
            StarExpr (GoIdent typeName) \<Rightarrow>
              (if HasPrefix typeName sourceTypeRef
               then \<lparr>sfd_Name = fieldName, sfd_TypeName = typeName\<rparr> # variant_fields fs
               else variant_fields fs)
          | _ \<Rightarrow> variant_fields fs))"

text \<open>The visit of a declaration: whether the struct was found, and the fields so far.\<close>

definition inspect_spec :: "typeSpec \<Rightarrow> bool \<times> sourceField list \<Rightarrow> bool \<times> sourceField list" where
  "inspect_spec ts acc =
    (if ts_Name ts = sourceTypeRef
     then (True, snd acc @ (case ts_Fields ts of None \<Rightarrow> [] | Some fs \<Rightarrow> variant_fields fs))
     else acc)"

definition inspect_file :: "typeSpec list \<Rightarrow> bool \<times> sourceField list \<Rightarrow> bool \<times> sourceField list" where
  "inspect_file node acc = (if fst acc then acc else fold inspect_spec node acc)"

definition inspect_package :: "typeSpec list list \<Rightarrow> bool \<times> sourceField list \<Rightarrow> bool \<times> sourceField list" where
  "inspect_package files acc = (if fst acc then acc else fold inspect_file files acc)"

definition sort_fields :: "sourceField list \<Rightarrow> sourceField list" where
  "sort_fields fls = sort_key sfd_Name fls"

definition extractSourceFields :: "goerr + typeSpec list list list \<Rightarrow> goerr + sourceField list" where
  "extractSourceFields parsed =
    (case parsed of
       Inl e \<Rightarrow> Inl (Wrap ''failed to parse directory'' e)
     | Inr packages \<Rightarrow> Inr (sort_fields (snd (fold inspect_package packages (False, [])))))"

section \<open>The generated text\<close>

text \<open>A line of code: its leading tabs and the rest.\<close>

definition code_line :: "nat \<times> string \<Rightarrow> string" where
  "code_line l = (case l of (tabs, s) \<Rightarrow> concat (replicate tabs tab) @ s @ nl)"

definition code_lines :: "(nat \<times> string) list \<Rightarrow> string" where
  "code_lines ls = concat (map code_line ls)"

definition gen_header :: "(nat \<times> string) list" where
  \<open>gen_header =
    [(0, ''// Code generated by cmd/gen-source-variants. DO NOT EDIT.''), (0, []),
     (0, ''package dalec''), (0, []),
     (0, ''import (''),
     (0, ''    "context"''),
     (0, ''    "fmt"''), (0, []),
     (0, ''    "github.com/goccy/go-yaml/ast"''),
     (0, '')''), (0, [])]\<close>

definition gen_validate :: "sourceField list \<Rightarrow> (nat \<times> string) list" where
  \<open>gen_validate fls =
     [(0, ''// validateSourceVariants ensures exactly one source variant is set''),
      (0, ''func (s *Source) validateSourceVariants() error {''),
      (1, ''count := 0''), (0, [])] @
     concat (map (\<lambda>f. [(1, ''if s.'' @ sfd_Name f @ '' != nil {''), (2, ''count++''), (1, ''}'')]) fls) @
     [(0, []),
      (1, ''switch count {''),
      (1, ''case 0:''),
      (2, ''return fmt.Errorf("no non-nil source variant")''),
      (1, ''case 1:''),
      (2, ''return nil''),
      (1, ''default:''),
      (2, ''return fmt.Errorf("more than one source variant defined")''),
      (1, ''}''),
      (0, ''}''), (0, [])]\<close>

definition gen_toInterface :: "sourceField list \<Rightarrow> (nat \<times> string) list" where
  \<open>gen_toInterface fls =
     [(0, ''// toInterface returns the underlying source interface implementation''),
      (0, ''func (s *Source) toInterface() source {''),
      (1, ''switch {'')] @
     concat (map (\<lambda>f. [(1, ''case s.'' @ sfd_Name f @ '' != nil:''), (2, ''return s.'' @ sfd_Name f)]) fls) @
     [(1, ''default:''),
      (2, ''panic(errNoSourceVariant)''),
      (1, ''}''),
      (0, ''}'')]\<close>

definition gen_unmarshal :: "sourceField \<Rightarrow> (nat \<times> string) list" where
  \<open>gen_unmarshal f =
    (let t = sfd_TypeName f
     in [(0, []),
         (0, ''func(s *'' @ t @ '') sourceMap() *sourceMap {''),
         (1, ''return s._sourceMap''),
         (0, ''}''), (0, []),
         (0, ''func (s *'' @ t @ '') UnmarshalYAML(ctx context.Context, node ast.Node) error {''),
         (0, ''    type internal '' @ t),
         (0, ''    var i internal''), (0, []),
         (1, ''dec := getDecoder(ctx)''),
         (0, ''    if err := dec.DecodeFromNodeContext(ctx, node, &i); err != nil {''),
         (0, ''        return err''),
         (0, ''    }''), (0, []),
         (0, ''    *s = '' @ t @ ''(i)''),
         (0, ''    s._sourceMap = newSourceMap(ctx, node)''),
         (0, ''    return nil''),
         (0, ''}'')])\<close>

definition gen_text :: "sourceField list \<Rightarrow> string" where
  "gen_text fls =
    code_lines (gen_header @ gen_validate fls @ gen_toInterface fls @ concat (map gen_unmarshal fls))"

definition generateCode :: "(string \<Rightarrow> goerr + string) \<Rightarrow> sourceField list \<Rightarrow> goerr + string" where
  "generateCode fmt fls =
    (case fmt (gen_text (sort_fields fls)) of
       Inl e \<Rightarrow> Inl (Wrap ''failed to format generated code'' e)
     | Inr formatted \<Rightarrow> Inr formatted)"

text \<open>The exit code of the process, and what it wrote to which file; \<open>write\<close> is the error of writing it.\<close>

definition gen_main ::
  "(string \<Rightarrow> goerr + string) \<Rightarrow> (string \<Rightarrow> string \<Rightarrow> gores) \<Rightarrow> goerr + typeSpec list list list \<Rightarrow> string list \<Rightarrow>
    nat \<times> (string \<times> string) option" where
  "gen_main fmt write parsed osArgs =
    (case osArgs of
       [_, outputFile] \<Rightarrow>
         (case extractSourceFields parsed of
            Inl e \<Rightarrow> (1, None)
          | Inr sourceFields \<Rightarrow>
              (case generateCode fmt sourceFields of
                 Inl e \<Rightarrow> (1, None)
               | Inr code \<Rightarrow>
                   (case write outputFile code of Some e \<Rightarrow> (1, None) | None \<Rightarrow> (0, Some (outputFile, code)))))
     | _ \<Rightarrow> (1, None))"

section \<open>The struct and the generated file of the repository\<close>

definition pointer_field :: "string \<Rightarrow> string \<Rightarrow> goField" where
  "pointer_field n t = \<lparr>gf_Names = [n], gf_Type = StarExpr (GoIdent t)\<rparr>"

definition source_struct :: typeSpec where
  "source_struct = \<lparr>ts_Name = ''Source'', ts_Fields = Some
    [pointer_field ''DockerImage'' ''SourceDockerImage'', pointer_field ''Git'' ''SourceGit'',
     pointer_field ''HTTP'' ''SourceHTTP'', pointer_field ''Context'' ''SourceContext'',
     pointer_field ''Build'' ''SourceBuild'', pointer_field ''Inline'' ''SourceInline'',
     \<lparr>gf_Names = [''Path''], gf_Type = GoIdent ''string''\<rparr>,
     \<lparr>gf_Names = [''Includes''], gf_Type = OtherType\<rparr>,
     \<lparr>gf_Names = [''Excludes''], gf_Type = OtherType\<rparr>,
     \<lparr>gf_Names = [''Generate''], gf_Type = OtherType\<rparr>,
     pointer_field ''_sourceMap'' ''sourceMap'']\<rparr>"

definition source_variants :: "sourceField list" where
  "source_variants = map (\<lambda>(n, t). \<lparr>sfd_Name = n, sfd_TypeName = t\<rparr>)
    [(''Build'', ''SourceBuild''), (''Context'', ''SourceContext''), (''DockerImage'', ''SourceDockerImage''),
     (''Git'', ''SourceGit''), (''HTTP'', ''SourceHTTP''), (''Inline'', ''SourceInline'')]"

definition source_generated_go :: "(nat \<times> string) list" where
  \<open>source_generated_go = [
    (0, ''// Code generated by cmd/gen-source-variants. DO NOT EDIT.''), (0, []), (0, ''package dalec''), (0, []),
    (0, ''import (''), (1, ''"context"''), (1, ''"fmt"''), (0, []), (1, ''"github.com/goccy/go-yaml/ast"''),
    (0, '')''), (0, []), (0, ''// validateSourceVariants ensures exactly one source variant is set''),
    (0, ''func (s *Source) validateSourceVariants() error {''), (1, ''count := 0''), (0, []),
    (1, ''if s.Build != nil {''), (2, ''count++''), (1, ''}''), (1, ''if s.Context != nil {''), (2, ''count++''),
    (1, ''}''), (1, ''if s.DockerImage != nil {''), (2, ''count++''), (1, ''}''), (1, ''if s.Git != nil {''),
    (2, ''count++''), (1, ''}''), (1, ''if s.HTTP != nil {''), (2, ''count++''), (1, ''}''),
    (1, ''if s.Inline != nil {''), (2, ''count++''), (1, ''}''), (0, []), (1, ''switch count {''),
    (1, ''case 0:''), (2, ''return fmt.Errorf("no non-nil source variant")''), (1, ''case 1:''),
    (2, ''return nil''), (1, ''default:''), (2, ''return fmt.Errorf("more than one source variant defined")''),
    (1, ''}''), (0, ''}''), (0, []),
    (0, ''// toInterface returns the underlying source interface implementation''),
    (0, ''func (s *Source) toInterface() source {''), (1, ''switch {''), (1, ''case s.Build != nil:''),
    (2, ''return s.Build''), (1, ''case s.Context != nil:''), (2, ''return s.Context''),
    (1, ''case s.DockerImage != nil:''), (2, ''return s.DockerImage''), (1, ''case s.Git != nil:''),
    (2, ''return s.Git''), (1, ''case s.HTTP != nil:''), (2, ''return s.HTTP''), (1, ''case s.Inline != nil:''),
    (2, ''return s.Inline''), (1, ''default:''), (2, ''panic(errNoSourceVariant)''), (1, ''}''), (0, ''}''),
    (0, []), (0, ''func (s *SourceBuild) sourceMap() *sourceMap {''), (1, ''return s._sourceMap''), (0, ''}''),
    (0, []), (0, ''func (s *SourceBuild) UnmarshalYAML(ctx context.Context, node ast.Node) error {''),
    (1, ''type internal SourceBuild''), (1, ''var i internal''), (0, []), (1, ''dec := getDecoder(ctx)''),
    (1, ''if err := dec.DecodeFromNodeContext(ctx, node, &i); err != nil {''), (2, ''return err''), (1, ''}''),
    (0, []), (1, ''*s = SourceBuild(i)''), (1, ''s._sourceMap = newSourceMap(ctx, node)''), (1, ''return nil''),
    (0, ''}''), (0, []), (0, ''func (s *SourceContext) sourceMap() *sourceMap {''), (1, ''return s._sourceMap''),
    (0, ''}''), (0, []),
    (0, ''func (s *SourceContext) UnmarshalYAML(ctx context.Context, node ast.Node) error {''),
    (1, ''type internal SourceContext''), (1, ''var i internal''), (0, []), (1, ''dec := getDecoder(ctx)''),
    (1, ''if err := dec.DecodeFromNodeContext(ctx, node, &i); err != nil {''), (2, ''return err''), (1, ''}''),
    (0, []), (1, ''*s = SourceContext(i)''), (1, ''s._sourceMap = newSourceMap(ctx, node)''), (1, ''return nil''),
    (0, ''}''), (0, []), (0, ''func (s *SourceDockerImage) sourceMap() *sourceMap {''),
    (1, ''return s._sourceMap''), (0, ''}''), (0, []),
    (0, ''func (s *SourceDockerImage) UnmarshalYAML(ctx context.Context, node ast.Node) error {''),
    (1, ''type internal SourceDockerImage''), (1, ''var i internal''), (0, []), (1, ''dec := getDecoder(ctx)''),
    (1, ''if err := dec.DecodeFromNodeContext(ctx, node, &i); err != nil {''), (2, ''return err''), (1, ''}''),
    (0, []), (1, ''*s = SourceDockerImage(i)''), (1, ''s._sourceMap = newSourceMap(ctx, node)''),
    (1, ''return nil''), (0, ''}''), (0, []), (0, ''func (s *SourceGit) sourceMap() *sourceMap {''),
    (1, ''return s._sourceMap''), (0, ''}''), (0, []),
    (0, ''func (s *SourceGit) UnmarshalYAML(ctx context.Context, node ast.Node) error {''),
    (1, ''type internal SourceGit''), (1, ''var i internal''), (0, []), (1, ''dec := getDecoder(ctx)''),
    (1, ''if err := dec.DecodeFromNodeContext(ctx, node, &i); err != nil {''), (2, ''return err''), (1, ''}''),
    (0, []), (1, ''*s = SourceGit(i)''), (1, ''s._sourceMap = newSourceMap(ctx, node)''), (1, ''return nil''),
    (0, ''}''), (0, []), (0, ''func (s *SourceHTTP) sourceMap() *sourceMap {''), (1, ''return s._sourceMap''),
    (0, ''}''), (0, []), (0, ''func (s *SourceHTTP) UnmarshalYAML(ctx context.Context, node ast.Node) error {''),
    (1, ''type internal SourceHTTP''), (1, ''var i internal''), (0, []), (1, ''dec := getDecoder(ctx)''),
    (1, ''if err := dec.DecodeFromNodeContext(ctx, node, &i); err != nil {''), (2, ''return err''), (1, ''}''),
    (0, []), (1, ''*s = SourceHTTP(i)''), (1, ''s._sourceMap = newSourceMap(ctx, node)''), (1, ''return nil''),
    (0, ''}''), (0, []), (0, ''func (s *SourceInline) sourceMap() *sourceMap {''), (1, ''return s._sourceMap''),
    (0, ''}''), (0, []), (0, ''func (s *SourceInline) UnmarshalYAML(ctx context.Context, node ast.Node) error {''),
    (1, ''type internal SourceInline''), (1, ''var i internal''), (0, []), (1, ''dec := getDecoder(ctx)''),
    (1, ''if err := dec.DecodeFromNodeContext(ctx, node, &i); err != nil {''), (2, ''return err''), (1, ''}''),
    (0, []), (1, ''*s = SourceInline(i)''), (1, ''s._sourceMap = newSourceMap(ctx, node)''), (1, ''return nil''),
    (0, ''}'')]\<close>

text \<open>A text without its white space.\<close>

definition squash :: "string \<Rightarrow> string" where
  "squash s = filter (\<lambda>c. \<not> is_space c) s"

lemma squash_append [simp]: "squash (s @ t) = squash s @ squash t"
  by (simp add: squash_def)

lemma squash_code_line: "squash (code_line l) = squash (snd l)"
proof -
  have "squash (concat (replicate n tab)) = []" for n by (induction n) (simp_all add: squash_def is_space_def)
  then show ?thesis by (cases l) (simp add: code_line_def, simp add: squash_def is_space_def)
qed

lemma squash_lines: "squash (code_lines ls) = concat (map (squash \<circ> snd) ls)"
  by (induction ls) (simp_all add: code_lines_def squash_code_line, simp add: squash_def)

text \<open>Files without the struct do not change what is found.\<close>

abbreviation is_source :: "typeSpec \<Rightarrow> bool" where
  "is_source t \<equiv> ts_Name t = sourceTypeRef"

abbreviation spec_fields :: "typeSpec \<Rightarrow> sourceField list" where
  "spec_fields t \<equiv> (case ts_Fields t of None \<Rightarrow> [] | Some fs \<Rightarrow> variant_fields fs)"

lemma inspect_specs:
  "fold inspect_spec ts acc =
    (fst acc \<or> filter is_source ts \<noteq> [], snd acc @ concat (map spec_fields (filter is_source ts)))"
  by (induction ts arbitrary: acc) (simp_all add: inspect_spec_def)

lemma inspect_other_files:
  "filter is_source (concat files) = [] \<Longrightarrow> fold inspect_file files acc = acc"
  by (induction files arbitrary: acc) (auto simp: inspect_file_def inspect_specs)

lemma inspect_after: "fold inspect_file files (True, r) = (True, r)" "fold inspect_package pkgs (True, r) = (True, r)"
  by (induction files; simp add: inspect_file_def) (induction pkgs; simp add: inspect_package_def)

lemma inspect_files_once:
  "filter is_source (concat files) = [t] \<Longrightarrow> fold inspect_file files (False, []) = (True, spec_fields t)"
proof (induction files)
  case (Cons node files)
  show ?case
  proof (cases "filter is_source node = []")
    case True
    with Cons show ?thesis by (simp add: inspect_file_def inspect_specs)
  next
    case False
    with Cons.prems have "filter is_source node = [t]" by (cases "filter is_source node") auto
    then have "inspect_file node (False, []) = (True, spec_fields t)" by (simp add: inspect_file_def inspect_specs)
    then show ?thesis by (simp add: inspect_after)
  qed
qed simp

lemma inspect_packages_once:
  "filter is_source (concat (concat pkgs)) = [t] \<Longrightarrow> fold inspect_package pkgs (False, []) = (True, spec_fields t)"
proof (induction pkgs)
  case (Cons files pkgs)
  show ?case
  proof (cases "filter is_source (concat files) = []")
    case True
    with Cons show ?thesis by (simp add: inspect_package_def inspect_other_files)
  next
    case False
    with Cons.prems have "filter is_source (concat files) = [t]" by (cases "filter is_source (concat files)") auto
    then have "inspect_package files (False, []) = (True, spec_fields t)"
      by (simp add: inspect_package_def inspect_files_once)
    then show ?thesis by (simp add: inspect_after)
  qed
qed simp

lemma source_variants_sorted: "sort_fields (spec_fields source_struct) = source_variants"
  by code_simp

lemma sort_source_variants: "sort_fields source_variants = source_variants"
  by code_simp

lemma generated_same: "squash (gen_text source_variants) = squash (code_lines source_generated_go)"
  unfolding gen_text_def squash_lines by code_simp

text \<open>
  Note (cmd/gen-source-variants/main.go, extractSourceFields and generateCode; source_generated.go): whatever the order
  of packages and files in which the struct \<open>Source\<close> is found, the generator writes the methods that are kept in
  source_generated.go, up to white space, which formatting may change.
\<close>

theorem generated_up_to_date:
  assumes "\<And>s t. fmt s = Inr t \<Longrightarrow> squash t = squash s"
    and "filter (\<lambda>t. ts_Name t = ''Source'') (concat (concat pkgs)) = [source_struct]"
    and "gen_main fmt write (Inr pkgs) [cmd, out] = (0, Some (out, code))"
  shows "squash code = squash (code_lines source_generated_go)"
proof -
  have "filter is_source (concat (concat pkgs)) = [source_struct]" using assms(2) by (simp add: sourceTypeRef_def)
  then have "extractSourceFields (Inr pkgs) = Inr source_variants"
    by (simp add: extractSourceFields_def inspect_packages_once source_variants_sorted)
  with assms(3) have "generateCode fmt source_variants = Inr code"
    by (auto simp: gen_main_def split: sum.splits option.splits)
  then have "fmt (gen_text source_variants) = Inr code"
    by (simp add: generateCode_def sort_source_variants split: sum.splits)
  with assms(1) show ?thesis using generated_same by metis
qed

theorem generated_up_to_date_witness:
  "\<exists>code. gen_main Inr (\<lambda>_ _. None) (Inr [[[\<lparr>ts_Name = ''Spec'', ts_Fields = None\<rparr>], [source_struct]]])
     [''gen'', ''source_generated.go''] = (0, Some (''source_generated.go'', code)) \<and>
   squash code = squash (code_lines source_generated_go)"
proof -
  let ?pkgs = "[[[\<lparr>ts_Name = ''Spec'', ts_Fields = None\<rparr>], [source_struct]]]"
  have "\<exists>code. gen_main Inr (\<lambda>_ _. None) (Inr ?pkgs) [''gen'', ''source_generated.go''] =
      (0, Some (''source_generated.go'', code))"
    by (simp add: gen_main_def extractSourceFields_def generateCode_def)
  moreover have "filter (\<lambda>t. ts_Name t = ''Source'') (concat (concat ?pkgs)) = [source_struct]"
    by (simp add: source_struct_def)
  ultimately show ?thesis
    using generated_up_to_date [of Inr ?pkgs "\<lambda>_ _. None" "''gen''" "''source_generated.go''"] by auto
qed

end
