(* ===== verification/Json_Schema.thy ===== *)
theory Json_Schema
  imports Go_Prelude
begin

text \<open>
  The generator of the JSON schema of specs (cmd/gen-jsonschema/main.go), from the schema that the reflector
  derives from the Go types: arguments may be integers, and optional strings and objects may be null.  A nil
  pointer in a schema is \<^term>\<open>None\<close>, a panic an outer \<^term>\<open>None\<close>.
\<close>

section \<open>Types that admit null\<close>

datatype schemaType = SchemaType
  (st_Ref: string)
  (st_Type: "string list")
  (st_AdditionalProperties: "schemaType option")
  (st_Properties: "(string \<times> schemaType option) list")
  (st_Required: "string list")

definition nullable_type :: "string \<Rightarrow> bool" where
  "nullable_type v = (if v = ''null'' then False else v = ''object'' \<or> v = ''string'')"

definition allow_null :: "string list \<Rightarrow> string list" where
  "allow_null ty = (if list_ex nullable_type ty then ty @ [''null''] else ty)"

fun setObjectAllowNull :: "schemaType \<Rightarrow> schemaType option"
  and additional_allow_null :: "schemaType option \<Rightarrow> schemaType option option"
  and property_allow_null :: "schemaType option \<Rightarrow> schemaType option"
  and properties_allow_null :: "string list \<Rightarrow> (string \<times> schemaType option) list \<Rightarrow> (string \<times> schemaType option) list option"
where
  "setObjectAllowNull (SchemaType ref ty addl props req) =
    (case additional_allow_null addl of
       None \<Rightarrow> None
     | Some addl' \<Rightarrow>
         (case properties_allow_null req props of
            None \<Rightarrow> None
          | Some props' \<Rightarrow> Some (SchemaType ref (allow_null ty) addl' props' req)))"
| "additional_allow_null None = Some None"
| "additional_allow_null (Some t) = map_option Some (setObjectAllowNull t)"
| "property_allow_null None = None"
| "property_allow_null (Some t) = setObjectAllowNull t"
| "properties_allow_null req [] = Some []"
| "properties_allow_null req (kv # rest) =
    (if fst kv \<in> set req then map_option (\<lambda>r. kv # r) (properties_allow_null req rest)
     else case property_allow_null (snd kv) of
            None \<Rightarrow> None
          | Some t' \<Rightarrow> map_option (\<lambda>r. (fst kv, Some t') # r) (properties_allow_null req rest))"

section \<open>The schema of a spec\<close>

text \<open>The definitions of a schema by their names; \<open>at_type\<close> updates a type that has to exist.\<close>

definition at_type :: "(schemaType \<Rightarrow> schemaType option) \<Rightarrow> string \<Rightarrow> (string \<times> schemaType option) list \<Rightarrow>
    (string \<times> schemaType option) list option" where
  "at_type f k ts =
    (case map_of ts k of
       Some (Some t) \<Rightarrow> map_option (\<lambda>t'. AList.update k (Some t') ts) (f t)
     | _ \<Rightarrow> None)"

definition at_property :: "(schemaType \<Rightarrow> schemaType option) \<Rightarrow> string \<Rightarrow> schemaType \<Rightarrow> schemaType option" where
  "at_property f k t =
    map_option (\<lambda>ps. SchemaType (st_Ref t) (st_Type t) (st_AdditionalProperties t) ps (st_Required t))
      (at_type f k (st_Properties t))"

definition at_additional :: "(schemaType \<Rightarrow> schemaType option) \<Rightarrow> schemaType \<Rightarrow> schemaType option" where
  "at_additional f t =
    (case st_AdditionalProperties t of
       None \<Rightarrow> None
     | Some a \<Rightarrow>
         map_option (\<lambda>a'. SchemaType (st_Ref t) (st_Type t) (Some a') (st_Properties t) (st_Required t)) (f a))"

definition add_type :: "string \<Rightarrow> schemaType \<Rightarrow> schemaType option" where
  "add_type v t =
    Some (SchemaType (st_Ref t) (st_Type t @ [v]) (st_AdditionalProperties t) (st_Properties t) (st_Required t))"

definition allow_integers :: "(string \<times> schemaType option) list \<Rightarrow> (string \<times> schemaType option) list option" where
  "allow_integers defs =
    (case at_type (at_property (at_additional (add_type ''integer'')) ''args'') ''Spec'' defs of
       None \<Rightarrow> None
     | Some defs' \<Rightarrow>
         (case map_of defs' ''Spec'' of
            Some (Some spec) \<Rightarrow>
              (case map_of (st_Properties spec) ''build'' of
                 Some (Some build) \<Rightarrow>
                   (let buildType = TrimPrefix (st_Ref build) ''#/$defs/''
                    in at_type (at_property (add_type ''integer'') ''env'') buildType defs')
               | _ \<Rightarrow> None)
          | _ \<Rightarrow> None))"

definition fix_schema :: "(string \<times> schemaType option) list \<Rightarrow> (string \<times> schemaType option) list option" where
  "fix_schema defs =
    (case allow_integers defs of
       None \<Rightarrow> None
     | Some defs' \<Rightarrow> properties_allow_null [] defs')"

section \<open>What the pass does\<close>

text \<open>The types that the pass reaches: a type itself, its additional properties and its optional properties.\<close>

fun reached :: "schemaType \<Rightarrow> schemaType list"
  and reached_opt :: "schemaType option \<Rightarrow> schemaType list"
  and reached_props :: "string list \<Rightarrow> (string \<times> schemaType option) list \<Rightarrow> schemaType list"
where
  "reached (SchemaType ref ty addl props req) =
    SchemaType ref ty addl props req # reached_opt addl @ reached_props req props"
| "reached_opt None = []"
| "reached_opt (Some t) = reached t"
| "reached_props req [] = []"
| "reached_props req (kv # rest) =
    (if fst kv \<in> set req then [] else reached_opt (snd kv)) @ reached_props req rest"

definition admits_null :: "schemaType \<Rightarrow> bool" where
  "admits_null t \<longleftrightarrow> (list_ex nullable_type (st_Type t) \<longrightarrow> ''null'' \<in> set (st_Type t))"

lemma allow_null_admits: "list_ex nullable_type (allow_null ty) \<Longrightarrow> ''null'' \<in> set (allow_null ty)"
  by (auto simp: allow_null_def split: if_splits)

lemma reached_admit_null:
  "setObjectAllowNull t = Some t' \<Longrightarrow> list_all admits_null (reached t')"
  "additional_allow_null a = Some a' \<Longrightarrow> list_all admits_null (reached_opt a')"
  "property_allow_null a = Some t' \<Longrightarrow> list_all admits_null (reached t')"
  "properties_allow_null req ps = Some ps' \<Longrightarrow> list_all admits_null (reached_props req ps')"
proof (induction t and a and a and req ps arbitrary: t' and a' and t' and ps'
    rule: setObjectAllowNull_additional_allow_null_property_allow_null_properties_allow_null.induct)
  case (1 ref ty addl props req)
  then show ?case by (auto simp: admits_null_def allow_null_admits split: option.splits)
next
  case (7 req kv rest)
  then show ?case by (auto split: if_splits option.splits)
qed auto

lemma required_unchanged:
  "properties_allow_null req ps = Some ps' \<Longrightarrow> k \<in> set req \<Longrightarrow> map_of ps' k = map_of ps k"
proof (induction ps arbitrary: ps')
  case (Cons kv rest)
  then show ?case by (cases kv) (auto split: if_splits option.splits)
qed simp

text \<open>The types of all definitions admit null, and no type is nil.\<close>

lemma definitions_admit_null:
  "properties_allow_null [] defs = Some defs' \<Longrightarrow> (k, d) \<in> set defs' \<Longrightarrow> \<exists>t. d = Some t \<and> list_all admits_null (reached t)"
proof (induction defs arbitrary: defs')
  case (Cons kv rest)
  then obtain t' rest' where t': "property_allow_null (snd kv) = Some t'"
    and "properties_allow_null [] rest = Some rest'" "defs' = (fst kv, Some t') # rest'"
    by (auto split: option.splits)
  with Cons show ?case using reached_admit_null(3) [OF t'] by auto
qed simp

lemma nullable_types: "nullable_type ''string''" "nullable_type ''object''"
  by code_simp+

lemma reached_self: "t \<in> set (reached t)"
  by (cases t) simp

text \<open>
  Note (cmd/gen-jsonschema/main.go, setObjectAllowNull): in the generated schema every string or object that is not
  the type of a required property may be null.
\<close>

theorem schema_admits_null:
  assumes "fix_schema defs = Some defs'" and "(k, Some d) \<in> set defs'" and "t \<in> set (reached d)"
    and "''string'' \<in> set (st_Type t) \<or> ''object'' \<in> set (st_Type t)"
  shows "''null'' \<in> set (st_Type t)"
proof -
  have "list_all admits_null (reached d)"
    using definitions_admit_null assms(1,2) by (auto simp: fix_schema_def split: option.splits)
  then have "admits_null t" using assms(3) by (simp add: list_all_iff)
  moreover have "list_ex nullable_type (st_Type t)" using assms(4) nullable_types unfolding list_ex_iff by blast
  ultimately show ?thesis by (simp add: admits_null_def)
qed

definition plain_type :: "string \<Rightarrow> schemaType" where
  "plain_type v = SchemaType [] [v] None [] []"

definition demo_defs :: "(string \<times> schemaType option) list" where
  "demo_defs =
    [(''Spec'', Some (SchemaType [] [''object''] None
       [(''args'', Some (SchemaType [] [''object''] (Some (plain_type ''string'')) [] [])),
        (''name'', Some (plain_type ''string'')),
        (''build'', Some (SchemaType ''#/$defs/ArtifactBuild'' [] None [] []))] [''name''])),
     (''ArtifactBuild'', Some (SchemaType [] [''object''] None
       [(''env'', Some (SchemaType [] [''object''] (Some (plain_type ''string'')) [] []))] []))]"

definition demo_fixed :: "(string \<times> schemaType option) list" where
  "demo_fixed = the (fix_schema demo_defs)"

definition demo_schema :: schemaType where
  "demo_schema = snd (hd (map (\<lambda>(k, d). (k, the d)) demo_fixed))"

lemma demo_is_fixed: "fix_schema demo_defs = Some demo_fixed"
  by code_simp

theorem schema_admits_null_witness:
  "fix_schema demo_defs = Some demo_fixed \<and> (''Spec'', Some demo_schema) \<in> set demo_fixed \<and>
   ''null'' \<in> set (st_Type demo_schema)"
proof -
  have "(''Spec'', Some demo_schema) \<in> set demo_fixed" by code_simp
  moreover have "''string'' \<in> set (st_Type demo_schema) \<or> ''object'' \<in> set (st_Type demo_schema)" by code_simp
  ultimately show ?thesis using schema_admits_null [OF demo_is_fixed] reached_self demo_is_fixed by blast
qed

text \<open>
  Note (cmd/gen-jsonschema/main.go, main): the values of arguments may be integers, but for the variables of a build
  the type of the whole map is extended, so that an integer is accepted in place of the variables and none as
  the value of a variable.
\<close>

theorem env_integer_misplaced:
  "map_option (\<lambda>defs. map (map_option st_Type \<circ> the \<circ> map_of (st_Properties (the (the (map_of defs ''ArtifactBuild''))))) [''env''])
     (fix_schema demo_defs) = Some [Some [''object'', ''integer'', ''null'']] \<and>
   map_option (\<lambda>defs. map_option st_Type (st_AdditionalProperties (the (the (map_of
      (st_Properties (the (the (map_of defs ''ArtifactBuild'')))) ''env''))))) (fix_schema demo_defs) =
     Some (Some [''string'', ''null''])"
  by code_simp

text \<open>
  Note (cmd/gen-jsonschema/main.go, setObjectAllowNull): a type that admits null already gets it again, against the
  comment that there is nothing to do.
\<close>

theorem null_added_twice:
  "map_option st_Type (setObjectAllowNull (SchemaType [] [''null'', ''string''] None [] [])) =
    Some [''null'', ''string'', ''null'']"
  by code_simp

end
