(* ===== verification/Spec2Isabelle.thy ===== *)
theory Spec2Isabelle
  imports Spec_Claims Frontend_Claims Packaging_Claims Deb_Claims Runner_Claims Tools_Claims Build_Claims Distro_Claims
    Platform_Claims Socket_Claims Position_Claims Extensions Answer_Claims Command_Claims Decoders Gen_Variants Json_Schema
begin

text \<open>
  \<^bold>\<open>A verification library for the dalec package builder.\<close>

  Dalec reads one YAML description of a package (a \<^emph>\<open>spec\<close>) and builds rpm and deb packages, Windows
  binaries and container images from it as a buildkit frontend.  The frontend process (cmd/frontend)
  registers its targets as plugins and serves build requests through a router (frontend/mux.go).  The
  router of a target selects a handler (targets/linux, targets/windows, frontend/debug); the handler runs
  once per platform (frontend/build.go): it loads the spec (load.go), validates it, fills its defaults,
  substitutes the arguments of the request and the platform, and describes the build to buildkit as a
  graph: sources (source*.go) and generated dependencies (generator_*.go) go into a build root or source
  package (packaging/linux/rpm, packaging/linux/deb), which is built, optionally signed by another
  frontend (frontend/request.go), installed into a container and tested there (frontend/test_runner.go,
  internal/testrunner).

  \<^bold>\<open>How code is modelled.\<close>

  \<^item> A Go string is a \<^typ>\<open>string\<close>; a map is an association list with distinct keys whose order stands
    for the iteration order of one run; a nil pointer is \<^term>\<open>None\<close>; a struct is a record, and the six
    mutually recursive structs around \<open>Source\<close> are one datatype.
  \<^item> An error is a value of \<open>goerr\<close>, nil is \<^term>\<open>None\<close>; the errors that the code compares with
    \<open>errors.Is\<close> are the constructors of \<open>sentinel\<close>.  A panic is an outer \<^term>\<open>None\<close>.
  \<^item> A method with a pointer receiver returns the updated value.  Where two structs share a map or
    a slice and the code writes through one of them, the model says so: \<open>MergeSpecImage_spec\<close> is the
    spec after a merge, \<open>d_BuildPkg\<close> returns the spec as the call leaves it, and the options map of a build
    client is threaded through every handler.
  \<^item> A buildkit state is the term of the calls that construct it (\<open>llb\<close>); an error that a state carries is
    part of the term.  A handler is a computation \<open>'a act\<close>: the list of what it asked its client for, in
    order, and its result.
  \<^item> Third-party code is a parameter: the digest check \<open>dg\<close>, the host \<open>host\<close> and remote \<open>remote\<close> of a
    URL, the shell lexer in an \<open>argCtx\<close>, regular expressions \<open>rx\<close>, the YAML decoder \<open>decode\<close>, the
    services of a buildkit client in the records \<open>client\<close>, \<open>services\<close>, \<open>uiClient\<close>, \<open>sourceOpts\<close> and
    \<open>distroEnv\<close>, \<open>answerEnv\<close>, the image registries in \<open>registries\<close>, the file system and processes of a test
    container, the plugin registry.  A node of the YAML parser is data: its tree with positions and texts.
  \<^item> Goroutines are either sequential in effect and modelled by their result, or explicit: the tests of a
    run are a step relation over the error group, and their order of completion is a parameter; the copies of
    the retagger and the calls of the in-memory listener are step relations, with invariants by rule induction.
  \<^item> Every function is total, by structural recursion or with a termination proof whose measure is the
    unread input (the scan of \<open>IgnoreCache\<close>, \<open>unquote_body\<close>).  \<open>ReadAll\<close> takes the list of the caller's
    buffer lengths, and the theorems about readers say how many reads are enough.  Only the loop of
    \<open>io.ReadAtLeast\<close> (\<open>fill_loop\<close>) has fuel, because a reader may return nothing without an error; for a reader
    of the locale \<open>byte_reader\<close> more fuel than the work left is enough, and the theorem says so.

  \<^bold>\<open>Theories: the library.\<close>

  \<^descr>[\<open>Go_Prelude\<close>, \<open>Go_Path\<close>, \<open>Go_Reader\<close>] Go strings, maps, errors, lexical paths and readers, with the
    lemmas every component uses; \<open>Clean\<close> is shown idempotent and \<open>pathHasPrefix\<close> to decide containment of
    paths.  The locale \<open>byte_reader\<close> states what a reader promises and proves that reading it to the end
    delivers everything; it is interpreted on the message stream and on files of a build reference.
  \<^descr>[\<open>Writers\<close>, \<open>Prefix_Router\<close>] the parts of text that both package formats write, and the locale
    \<open>prefix_router\<close> (among the matching routes the longest is taken, whether found by sorting or by scanning),
    interpreted on both routers.  The locale \<open>sorted_writer\<close> of \<open>Artifacts\<close> (output is a function of the sorted
    entries, hence independent of map order) is interpreted on the writers of both package formats.

  \<^bold>\<open>Theories: specs.\<close>

  \<^descr>[\<open>Spec_Model\<close>] the structs of spec.go, source*.go, artifacts.go, deps.go, cache.go, image.go,
    tests.go, systemd.go and target.go.
  \<^descr>[\<open>Args\<close>] the expansion of build arguments (\<open>expandArgs\<close> of load.go) and the loops that update
    slices and maps with it.
  \<^descr>[\<open>Sources\<close>, \<open>Sources_Props\<close>] \<open>validate\<close>, \<open>fillDefaults\<close>, \<open>processBuildArgs\<close> of all source variants;
    \<open>source_ok\<close> is the independent description of a valid source.  The locale \<open>defaulter\<close> states the
    contract of filling defaults (returns, keeps validity, idempotent) with its lifting to lists and
    maps; it is interpreted on sources, mounts, repositories, dependencies, base images, image
    configurations, targets and the whole spec.
  \<^descr>[\<open>Image_Config\<close>, \<open>Deps\<close>, \<open>Cache\<close>, \<open>Tests\<close>] images and symlinks (image.go, imgconfig.go),
    dependencies, repositories and signers (deps.go, helpers.go), the run options of caches (cache.go) and
    the evaluation of checks (tests.go).
  \<^descr>[\<open>Load\<close>, \<open>Load_Props\<close>] \<open>Validate\<close>, \<open>FillDefaults\<close>, \<open>SubstituteArgs\<close> and \<open>loadSpec\<close> on the whole spec;
    \<open>spec_ok\<close> is the independent description of a valid spec.
  \<^descr>[\<open>Extensions\<close>, \<open>Source_Map\<close>, \<open>Decoders\<close>] the decoders and encoders of a spec with its extension fields
    (load.go, spec.go), the positions of nodes in the spec file and the constraints and errors that carry them
    (sourcemap.go, tests.go), and the decoders of the parts that keep their position.
  \<^descr>[\<open>Gen_Variants\<close>, \<open>Json_Schema\<close>] the generators of the methods of source variants and of the JSON schema
    (cmd/gen-source-variants, cmd/gen-jsonschema).

  \<^bold>\<open>Theories: packages.\<close>

  \<^descr>[\<open>Source_Doc\<close>, \<open>Artifacts\<close>] the description of sources in package files, and the artifact helpers.
  \<^descr>[\<open>Rpm\<close>, \<open>Rpm_Props\<close>] every section of the rpm spec file as text (packaging/linux/rpm/template.go).
  \<^descr>[\<open>Deb_Control\<close>, \<open>Deb_Rules\<close>, \<open>Deb_Root\<close>, \<open>Deb_Props\<close>] control file, changelog, rules, maintainer
    scripts and the debian directory as text (packaging/linux/deb).
  \<^descr>[\<open>Llb\<close>, \<open>Source_State\<close>, \<open>Source_State_Props\<close>, \<open>Generators\<close>] build graphs, sources as states and as
    mounts, patches, archives, repositories, and the dependencies of go, cargo, pip and node.  The locale
    \<open>graph_query\<close> lets one proof serve every set that is collected from a graph; it is interpreted on the
    errors and on the secrets of a graph.
  \<^descr>[\<open>Rpm_Build\<close>, \<open>Deb_Build\<close>, \<open>Build_Props\<close>, \<open>Package_Props\<close>, \<open>Build_Agreement\<close>] the build root and
    source package as graphs, that they are made for a loaded spec with usable names, which errors, secrets and ssh
    sockets they can hold, and that the files which the package text names are provided by the graph.

  \<^bold>\<open>Theories: builds.\<close>

  \<^descr>[\<open>Request\<close>, \<open>Build_Mux\<close>, \<open>Socket_Mux\<close>] requests to other frontends and signers, the router of build
    requests, the router of forwarded sockets and the byte streams over messages.
  \<^descr>[\<open>Mux_Answers\<close>] the requests that the router answers itself: description, resolved specs, default platform.
  \<^descr>[\<open>Pipe\<close>, \<open>Proxy\<close>] the in-memory listener and the proxy of forwarded sockets (sessionutil/socketprovider).
  \<^descr>[\<open>Platform_Build\<close>] builds per platform (frontend/build.go, frontend/gateway.go).
  \<^descr>[\<open>Distro\<close>, \<open>Rpm_Distro\<close>, \<open>Deb_Distro\<close>, \<open>Os_Release\<close>] the shared handlers of Linux distributions over
    the interface \<open>distroConfig\<close>, the rpm and Debian implementations of it, and the version of a worker image.
  \<^descr>[\<open>Windows\<close>, \<open>Targets\<close>, \<open>Debug_Handlers\<close>, \<open>Frontend_Main\<close>] the Windows target, the shipped
    distributions, the debug target, and the process with its plugins.
  \<^descr>[\<open>Distro_Props\<close>, \<open>Distro_Total\<close>] the locale \<open>distro_contract\<close> states what the handlers rely on (a
    container and an extracted tree are built from the package; after a test run without error the tests were
    skipped, or there are none, or each of them completed and reported no failed file check) and \<open>distro_total\<close>
    when they return; both are interpreted on the rpm and the Debian configurations.
  \<^descr>[\<open>Test_Runner\<close>, \<open>Bkfs\<close>, \<open>Git_Cred\<close>, \<open>Gha\<close>] the test runner with its check commands, the file system
    over a build reference, the git credential helper and the converter of go test events.
  \<^descr>[\<open>Retagger\<close>, \<open>Worker_Matrix\<close>, \<open>Gha_Logs\<close>, \<open>Linters\<close>] the tool that copies images between registries, the
    list of worker images, the summary and the log files of test events, and the linter of struct tags.
  \<^descr>[\<open>Examples\<close>] concrete specs and parameters for the witnesses.
  \<^descr>[\<open>Spec_Claims\<close>, \<open>Frontend_Claims\<close>, \<open>Packaging_Claims\<close>, \<open>Deb_Claims\<close>, \<open>Build_Claims\<close>, \<open>Runner_Claims\<close>,
    \<open>Tools_Claims\<close>, \<open>Distro_Claims\<close>, \<open>Platform_Claims\<close>, \<open>Socket_Claims\<close>, \<open>Position_Claims\<close>, \<open>Answer_Claims\<close>,
    \<open>Command_Claims\<close>] the properties with their witnesses.

  \<^bold>\<open>What is shown.\<close>  The text of each property states its conditions in full; in short:

  \<^item> Loading: a spec that passes validation, and whose base images carry valid commands, is loaded, stays valid, is
    a fixed point of the defaults and never makes substitution panic; validation accepts exactly the described
    specs; the argument map is the documented one, platform arguments follow the platform, and unknown arguments
    are refused.  Extension fields of a document are kept, read and set by name.
  \<^item> Sources, images, repositories, caches and checks: each validator is characterised and each later operation is
    total on what its validator accepts.
  \<^item> Packages: build root and source package are described for loaded specs whose names are single path elements;
    they ask only for the secrets that the spec declares and the socket of a bazel cache, apply every patch once
    where no patch file is patched itself, and provide the files that the package text names where file sources
    are plain; listed kinds of artifacts are installed where the files section lists them; systemd units are
    enabled as a specification on the set of units says.
  \<^item> Builds: a handler that succeeds returns a package, or a container built from it, whose tests were skipped, are
    absent, or completed without a failed file check (the runner drops failed checks on the output of a step); the
    handlers of all shipped distributions return for usable specs; the Debian build changes a spec by at most one
    added go build cache.
  \<^item> Routing: lookup finds the unique longest route, nested routers compose, registration gives custom frontends
    precedence over built-ins, and, without custom frontends, a request for a route of a shipped target is served by
    that target.
  \<^item> Tests: the verdict does not depend on the order in which tests finish.  Positions: a failed check is reported
    where the spec states it, and a run carries the ranges of all its steps.
  \<^item> Readers deliver everything, in order.  Sockets: in every interleaving an accepted connection belongs to exactly
    one dialer, and a stream reaches the dialer of its ID.
  \<^item> Tools: the retagger reports every failed copy whatever the order, a positioned read inside a content fills its
    buffer with the bytes at its offset, and the generated methods are those of the repository.

  Some theorems record behaviour that the code's own comments contradict; they are marked as such in their text.

  \<^bold>\<open>Assumptions that are not proved.\<close>  The options map of a client is the same map for every call of
  \<open>BuildOpts\<close> (this is so for every client the router makes).  Pointers inside slices and maps are
  non-nil; the embedded frontend of a signer may be nil, and reading it then panics.  Lines longer than the limit of the line scanner do not occur in source descriptions.  Base
  images carry valid commands where \<open>spec_settled\<close> is assumed: validation itself does not ensure it.
  Substitution keeps a spec usable where a handler is said to return: the hypothesis is about the spec
  that the handler is given.

  \<^bold>\<open>Not modelled.\<close>  What buildkit does with a graph; constraints other than the platform in the graphs of
  the build (\<open>Source_Map\<close> and \<open>Decoders\<close> model how constraints are made); YAML parsing and decoding into plain
  structs; the log and the stack trace of a recovered panic; the website (website/main.go), which runs a
  server in containers of a third-party engine; the support code of the integration tests under test, which
  drives docker, buildx and git servers.
\<close>

end
